(* ===== verification/Rust_Prelude.thy ===== *)
theory Rust_Prelude
  imports Main "HOL-Library.Word" "HOL-Library.Char_ord" "HOL-Library.List_Lexorder"
    "HOL-Library.Product_Lexorder"
begin

unbundle bit_operations_syntax

text \<open>
  The prelude of the development: the Rust types the crates use (machine integers, byte
  vectors, UTF-8 strings, \<open>Result\<close>), the functions of the Rust standard library on them that
  the code calls, the reading of the SQL fragments the server sends to its database, and the
  lemmas on bytes, strings and lists that the component theories share.

  A Rust \<open>String\<close> is its sequence of UTF-8 bytes, an Isabelle \<open>string\<close> (a list of 8-bit
  characters), so that \<open>length\<close> is Rust's \<open>len()\<close>. A \<open>Vec<u8>\<close> is a list of 8-bit words. An
  \<open>i64\<close> that the code only compares, adds to the clock or stores is an \<open>int\<close>; a \<open>u64\<close> is a
  64-bit word wherever the code casts it or its overflow behaviour matters.
\<close>

section \<open>Types\<close>

type_synonym u8 = "8 word"
type_synonym u16 = "16 word"
type_synonym u32 = "32 word"
type_synonym u64 = "64 word"
type_synonym i64 = int
type_synonym bytes = "u8 list"

text \<open>
  Errors. The server raises \<open>anyhow::Error\<close> values: a message built by \<open>bail!\<close>/\<open>anyhow!\<close>, the
  typed \<open>StorageRejection\<close> of \<open>db.rs\<close> (which \<open>public_error\<close> recovers by downcasting), or an
  error of the database driver (here: a violated constraint of the schema).
\<close>

datatype storage_rejection = AccountQuota | TotalQuota | DiskPressure

datatype failure =
    Msg string
  | Rejected storage_rejection
  | Constraint string

type_synonym 'a result = "failure + 'a"

abbreviation bail :: "string \<Rightarrow> 'a result" where
  "bail m \<equiv> Inl (Msg m)"

abbreviation ok :: "'a \<Rightarrow> 'a result" where
  "ok x \<equiv> Inr x"

text \<open>The collections of facts that the component proofs use.\<close>

named_theorems payload_simps \<open>unfolding of signed payloads\<close>
named_theorems db_defs \<open>definitions of the database statements\<close>
named_theorems ws_defs \<open>definitions of the connection handlers\<close>

section \<open>Strings\<close>

definition as_bytes :: "string \<Rightarrow> bytes" where
  "as_bytes s = map of_char s"

lemma length_as_bytes [simp]: "length (as_bytes s) = length s"
  by (simp add: as_bytes_def)

lemma of_char_u8_eq_iff: "(of_char c :: u8) = of_char d \<longleftrightarrow> c = d"
proof
  assume "(of_char c :: u8) = of_char d"
  then have "unat (of_char c :: u8) = unat (of_char d :: u8)" by simp
  moreover have "unat (of_char x :: u8) = of_char x" for x
  proof -
    have "(of_char x :: u8) = of_nat (of_char x)" by (rule of_nat_of_char [symmetric])
    moreover have "(of_char x :: nat) < 2 ^ LENGTH(8)" by simp
    ultimately show ?thesis by (simp add: unsigned_of_nat take_bit_nat_eq_self del: of_nat_of_char)
  qed
  ultimately show "c = d" by simp
qed simp

lemma as_bytes_eq_iff [simp]: "as_bytes s = as_bytes t \<longleftrightarrow> s = t"
proof -
  have "inj (of_char :: char \<Rightarrow> u8)" by (rule injI) (simp add: of_char_u8_eq_iff)
  then show ?thesis by (simp add: as_bytes_def inj_map_eq_map)
qed

lemma as_bytes_append [simp]: "as_bytes (s @ t) = as_bytes s @ as_bytes t"
  by (simp add: as_bytes_def)

lemma zero_in_as_bytes: "(0 :: u8) \<in> set (as_bytes s) \<longleftrightarrow> CHR 0x00 \<in> set s"
proof -
  have "(of_char (CHR 0x00) :: u8) = 0" by simp
  then have "(0 :: u8) = of_char c \<longleftrightarrow> c = CHR 0x00" for c
    by (metis of_char_u8_eq_iff)
  then show ?thesis by (simp add: as_bytes_def image_iff)
qed

text \<open>Bytes of the form 10xxxxxx continue a UTF-8 character; every other byte starts one.\<close>

definition utf8_cont :: "char \<Rightarrow> bool" where
  "utf8_cont c = ((of_char c :: nat) div 64 = 2)"

definition chars_count :: "string \<Rightarrow> nat" where
  "chars_count s = length (filter (\<lambda>c. \<not> utf8_cont c) s)"

lemma chars_count_le_length: "chars_count s \<le> length s"
  by (simp add: chars_count_def)

function utf8_chars :: "string \<Rightarrow> string list" where
  "utf8_chars [] = []"
| "utf8_chars (c # cs) = (c # takeWhile utf8_cont cs) # utf8_chars (dropWhile utf8_cont cs)"
  by pat_completeness auto
termination
  by (relation "measure length") (auto simp: length_dropWhile_le le_imp_less_Suc)

lemma concat_utf8_chars [simp]: "concat (utf8_chars s) = s"
  by (induction s rule: utf8_chars.induct) auto

text \<open>The characters of \<open>char::is_whitespace\<close> (Unicode White\_Space), as UTF-8 byte groups.\<close>

definition utf8_whitespace :: "string \<Rightarrow> bool" where
  "utf8_whitespace ch = (let bs = map of_char ch :: nat list in
     bs \<in> {[9], [10], [11], [12], [13], [32], [0xC2, 0x85], [0xC2, 0xA0], [0xE1, 0x9A, 0x80],
           [0xE2, 0x80, 0xA8], [0xE2, 0x80, 0xA9], [0xE2, 0x80, 0xAF], [0xE2, 0x81, 0x9F],
           [0xE3, 0x80, 0x80]}
     \<or> (length bs = 3 \<and> bs ! 0 = 0xE2 \<and> bs ! 1 = 0x80 \<and> 0x80 \<le> bs ! 2 \<and> bs ! 2 \<le> 0x8A))"

definition trim :: "string \<Rightarrow> string" where
  "trim s = concat (rev (dropWhile utf8_whitespace (rev (dropWhile utf8_whitespace (utf8_chars s)))))"

definition is_ascii_upper :: "char \<Rightarrow> bool" where
  "is_ascii_upper c = (65 \<le> (of_char c :: nat) \<and> (of_char c :: nat) \<le> 90)"

definition is_ascii_lowercase :: "char \<Rightarrow> bool" where
  "is_ascii_lowercase c = (97 \<le> (of_char c :: nat) \<and> (of_char c :: nat) \<le> 122)"

definition is_ascii_digit :: "char \<Rightarrow> bool" where
  "is_ascii_digit c = (48 \<le> (of_char c :: nat) \<and> (of_char c :: nat) \<le> 57)"

definition is_ascii_hexdigit :: "char \<Rightarrow> bool" where
  "is_ascii_hexdigit c = (is_ascii_digit c
     \<or> (65 \<le> (of_char c :: nat) \<and> (of_char c :: nat) \<le> 70)
     \<or> (97 \<le> (of_char c :: nat) \<and> (of_char c :: nat) \<le> 102))"

definition ascii_lower_char :: "char \<Rightarrow> char" where
  "ascii_lower_char c = (if is_ascii_upper c then char_of ((of_char c :: nat) + 32) else c)"

definition to_ascii_lowercase :: "string \<Rightarrow> string" where
  "to_ascii_lowercase s = map ascii_lower_char s"

lemma of_char_ascii_lower:
  "is_ascii_upper c \<Longrightarrow> (of_char (ascii_lower_char c) :: nat) = of_char c + 32"
  by (simp add: ascii_lower_char_def is_ascii_upper_def of_char_of)

lemma not_upper_ascii_lower [simp]: "\<not> is_ascii_upper (ascii_lower_char c)"
proof (cases "is_ascii_upper c")
  case True
  then show ?thesis
    using of_char_ascii_lower [OF True] by (simp add: is_ascii_upper_def)
next
  case False
  then show ?thesis by (simp add: ascii_lower_char_def)
qed

lemma ascii_lower_char_idem [simp]: "ascii_lower_char (ascii_lower_char c) = ascii_lower_char c"
  by (subst ascii_lower_char_def) simp

lemma to_ascii_lowercase_idem [simp]:
  "to_ascii_lowercase (to_ascii_lowercase s) = to_ascii_lowercase s"
  by (simp add: to_ascii_lowercase_def)

lemma length_to_ascii_lowercase [simp]: "length (to_ascii_lowercase s) = length s"
  by (simp add: to_ascii_lowercase_def)

text \<open>\<open>str::contains\<close>, \<open>str::split\<close> on one character.\<close>

definition starts_with :: "'a list \<Rightarrow> 'a list \<Rightarrow> bool" where
  "starts_with s p = (take (length p) s = p)"

fun str_contains :: "string \<Rightarrow> string \<Rightarrow> bool" where
  "str_contains [] p = (p = [])"
| "str_contains (c # cs) p = (starts_with (c # cs) p \<or> str_contains cs p)"

fun split_on :: "char \<Rightarrow> string \<Rightarrow> string list" where
  "split_on d [] = [[]]"
| "split_on d (c # cs) =
     (if c = d then [] # split_on d cs
      else (case split_on d cs of [] \<Rightarrow> [[c]] | p # ps \<Rightarrow> (c # p) # ps))"

lemma starts_with_append [simp]: "starts_with (p @ s) p"
  by (simp add: starts_with_def)

lemma starts_with_iff: "starts_with s p \<longleftrightarrow> (\<exists>r. s = p @ r)"
proof
  assume "starts_with s p"
  then have "s = p @ drop (length p) s"
    by (metis starts_with_def append_take_drop_id)
  then show "\<exists>r. s = p @ r" ..
qed auto

section \<open>Big-endian integers\<close>

definition be_bytes :: "nat \<Rightarrow> 'a::len word \<Rightarrow> bytes" where
  "be_bytes n w = map (\<lambda>k. ucast (drop_bit (8 * k) w)) (rev [0..<n])"

definition u32_to_be_bytes :: "u32 \<Rightarrow> bytes" where
  "u32_to_be_bytes = be_bytes 4"

definition u64_to_be_bytes :: "u64 \<Rightarrow> bytes" where
  "u64_to_be_bytes = be_bytes 8"

definition i64_to_be_bytes :: "i64 \<Rightarrow> bytes" where
  "i64_to_be_bytes x = be_bytes 8 (word_of_int x :: u64)"

lemma length_be_bytes [simp]: "length (be_bytes n w) = n"
  by (simp add: be_bytes_def)

lemma be_bytes_inject:
  fixes v w :: "'a::len word"
  assumes eq: "be_bytes n v = be_bytes n w" and len: "LENGTH('a) = 8 * n"
  shows "v = w"
proof (rule bit_word_eqI)
  fix i
  assume i: "i < LENGTH('a)"
  define k where "k = i div 8"
  have k: "k < n" using i len by (simp add: k_def less_mult_imp_div_less mult.commute)
  from eq k have "(ucast (drop_bit (8 * k) v) :: u8) = ucast (drop_bit (8 * k) w)"
    by (simp add: be_bytes_def)
  then have "bit (ucast (drop_bit (8 * k) v) :: u8) (i mod 8) =
             bit (ucast (drop_bit (8 * k) w) :: u8) (i mod 8)" by simp
  then have "bit v (8 * k + i mod 8) = bit w (8 * k + i mod 8)"
    by (simp add: bit_ucast_iff bit_drop_bit_eq)
  then show "bit v i = bit w i" by (simp add: k_def)
qed

lemma u32_to_be_bytes_inject [simp]: "u32_to_be_bytes v = u32_to_be_bytes w \<longleftrightarrow> v = w"
  by (auto simp: u32_to_be_bytes_def dest: be_bytes_inject)

lemma u64_to_be_bytes_inject [simp]: "u64_to_be_bytes v = u64_to_be_bytes w \<longleftrightarrow> v = w"
  by (auto simp: u64_to_be_bytes_def dest: be_bytes_inject)

lemma length_u32_to_be_bytes [simp]: "length (u32_to_be_bytes v) = 4"
  by (simp add: u32_to_be_bytes_def)

lemma length_u64_to_be_bytes [simp]: "length (u64_to_be_bytes v) = 8"
  by (simp add: u64_to_be_bytes_def)

lemma length_i64_to_be_bytes [simp]: "length (i64_to_be_bytes v) = 8"
  by (simp add: i64_to_be_bytes_def)

definition in_i64 :: "int \<Rightarrow> bool" where
  "in_i64 x \<longleftrightarrow> - (2 ^ 63) \<le> x \<and> x < 2 ^ 63"

lemma sint_word_of_int_i64: "in_i64 x \<Longrightarrow> sint (word_of_int x :: u64) = x"
  by (simp add: in_i64_def sint_sbintrunc' signed_take_bit_int_eq_self)

lemma i64_to_be_bytes_inject:
  assumes "in_i64 x" "in_i64 y" "i64_to_be_bytes x = i64_to_be_bytes y"
  shows "x = y"
proof -
  have "(word_of_int x :: u64) = word_of_int y"
    using assms(3) by (auto simp: i64_to_be_bytes_def dest: be_bytes_inject)
  then have "sint (word_of_int x :: u64) = sint (word_of_int y :: u64)" by simp
  with assms(1,2) show ?thesis by (simp add: sint_word_of_int_i64)
qed

section \<open>Checked and saturating arithmetic on u64\<close>

definition u64_saturating_add :: "u64 \<Rightarrow> u64 \<Rightarrow> u64" where
  "u64_saturating_add a b = (if unat a + unat b < 2 ^ 64 then a + b else -1)"

definition u64_checked_add :: "u64 \<Rightarrow> u64 \<Rightarrow> u64 option" where
  "u64_checked_add a b = (if unat a + unat b < 2 ^ 64 then Some (a + b) else None)"

lemma unat_u64_saturating_add:
  "unat (u64_saturating_add a b) = min (unat a + unat b) (2 ^ 64 - 1)"
proof -
  have "unat (-1 :: u64) = 2 ^ 64 - 1" by (simp add: unsigned_minus_1_eq_mask mask_eq_exp_minus_1)
  then show ?thesis
    by (auto simp: u64_saturating_add_def unat_word_ariths)
qed

lemma u64_checked_add_Some:
  "u64_checked_add a b = Some c \<Longrightarrow> unat c = unat a + unat b"
  by (auto simp: u64_checked_add_def unat_word_ariths split: if_splits)

section \<open>SQL on lists of rows\<close>

text \<open>
  A table is the list of its rows in insertion order. \<open>COLLATE NOCASE\<close> compares strings with
  the 26 ASCII letters folded; \<open>ORDER BY\<close> is a stable sort; \<open>LIMIT\<close> is \<open>take\<close>;
  \<open>rows_affected\<close> is the number of rows that an \<open>UPDATE\<close>/\<open>DELETE\<close> matched.
\<close>

definition nocase_eq :: "string \<Rightarrow> string \<Rightarrow> bool" where
  "nocase_eq a b = (to_ascii_lowercase a = to_ascii_lowercase b)"

definition update_where :: "('r \<Rightarrow> bool) \<Rightarrow> ('r \<Rightarrow> 'r) \<Rightarrow> 'r list \<Rightarrow> 'r list" where
  "update_where p f = map (\<lambda>r. if p r then f r else r)"

definition delete_where :: "('r \<Rightarrow> bool) \<Rightarrow> 'r list \<Rightarrow> 'r list" where
  "delete_where p = filter (\<lambda>r. \<not> p r)"

definition count_where :: "('r \<Rightarrow> bool) \<Rightarrow> 'r list \<Rightarrow> nat" where
  "count_where p rs = length (filter p rs)"

definition coalesce :: "'a option \<Rightarrow> 'a \<Rightarrow> 'a" where
  "coalesce x d = (case x of None \<Rightarrow> d | Some v \<Rightarrow> v)"

lemma update_where_Nil [simp]: "update_where p f [] = []"
  and update_where_Cons [simp]:
    "update_where p f (r # rs) = (if p r then f r else r) # update_where p f rs"
  and delete_where_Nil [simp]: "delete_where p [] = []"
  and delete_where_Cons [simp]:
    "delete_where p (r # rs) = (if p r then delete_where p rs else r # delete_where p rs)"
  by (simp_all add: update_where_def delete_where_def)

lemma length_update_where [simp]: "length (update_where p f rs) = length rs"
  by (simp add: update_where_def)

lemma in_delete_where [simp]: "r \<in> set (delete_where p rs) \<longleftrightarrow> r \<in> set rs \<and> \<not> p r"
  by (simp add: delete_where_def)

lemma in_update_where:
  "r \<in> set (update_where p f rs) \<longleftrightarrow> (\<exists>q \<in> set rs. r = (if p q then f q else q))"
  by (auto simp: update_where_def)

lemma map_update_where_same:
  "(\<And>r. p r \<Longrightarrow> k (f r) = k r) \<Longrightarrow> map k (update_where p f rs) = map k rs"
  by (induction rs) auto

lemma update_where_False: "(\<And>r. r \<in> set rs \<Longrightarrow> \<not> p r) \<Longrightarrow> update_where p f rs = rs"
  by (induction rs) auto

lemma distinct_map_delete_where: "distinct (map k rs) \<Longrightarrow> distinct (map k (delete_where p rs))"
  by (simp add: delete_where_def distinct_map_filter)

lemma find_append_None: "find p xs = None \<Longrightarrow> find p (xs @ ys) = find p ys"
  by (induction xs) (auto split: if_splits)

lemma find_append_Some: "find p xs = Some x \<Longrightarrow> find p (xs @ ys) = Some x"
  by (induction xs) (auto split: if_splits)

lemma find_SomeD: "find p xs = Some x \<Longrightarrow> x \<in> set xs \<and> p x"
  by (induction xs) (auto split: if_splits)

lemma find_distinct_key:
  assumes "distinct (map k rs)" "r \<in> set rs"
  shows "find (\<lambda>x. k x = k r) rs = Some r"
  using assms by (induction rs) (auto simp: rev_image_eqI)

lemma count_where_le_length: "count_where p rs \<le> length rs"
  by (simp add: count_where_def)

lemma count_where_append [simp]: "count_where p (xs @ ys) = count_where p xs + count_where p ys"
  by (simp add: count_where_def)

lemma count_where_key_le_1:
  "distinct (map k rs) \<Longrightarrow> count_where (\<lambda>r. k r = a \<and> p r) rs \<le> 1"
proof (induction rs)
  case (Cons r rs)
  have "k r = a \<Longrightarrow> filter (\<lambda>r. k r = a \<and> p r) rs = []"
    using Cons.prems by (auto simp: filter_empty_conv rev_image_eqI)
  then show ?case
    using Cons by (auto simp: count_where_def)
qed (simp add: count_where_def)

lemma count_where_pos_iff: "0 < count_where p rs \<longleftrightarrow> (\<exists>r \<in> set rs. p r)"
  by (auto simp: count_where_def filter_empty_conv)

section \<open>Text\<close>

text \<open>A text by its UTF-8 bytes.\<close>

definition utf8_text :: "nat list \<Rightarrow> string" where
  "utf8_text ns = map char_of ns"

section \<open>Numbers as text\<close>

fun show_nat :: "nat \<Rightarrow> string" where
  "show_nat n = (if n < 10 then [char_of (48 + n)] else show_nat (n div 10) @ [char_of (48 + n mod 10)])"

definition show_int :: "int \<Rightarrow> string" where
  "show_int i = (if i < 0 then ''-'' @ show_nat (nat (- i)) else show_nat (nat i))"

declare show_nat.simps [simp del]

end
