(* ===== verification/Protocol.thy ===== *)
theory Protocol
  imports Rust_Prelude
begin

text \<open>
  The wire protocol, \<open>crates/protocol\<close>: the messages of \<open>proto/chat.proto\<close> as records, the
  \<open>oneof body\<close> as a datatype with the generated constructors, and the functions of
  \<open>src/lib.rs\<close>: frame construction and the size-checked codec, the conversation identifier, and
  the byte strings that devices and accounts sign. The protobuf codec itself (\<open>prost\<close>) and SHA-256
  are not under \<open>src/\<close> and are arguments.

  The lemmas show that signed byte strings are unambiguous: a length-prefixed field and a
  NUL-terminated tag are both prefix codes, and everything that is signed is a concatenation of
  those with a fixed-width or final part.
\<close>

section \<open>Messages\<close>

record ClientHello_msg =
  hello_username :: string
  hello_device_id :: string
  hello_capabilities :: "string list"

record AuthChallenge_msg =
  chal_nonce :: bytes
  chal_expires_at_ms :: i64

record DeviceAuth_msg =
  dauth_username :: string
  dauth_device_id :: string
  dauth_signature :: bytes

record PasswordAuth_msg =
  pauth_username :: string
  pauth_password :: string
  pauth_device_id :: string

datatype BootstrapMode = BootstrapNone | FirstDevice | PendingDevice

record Authenticated_msg =
  authd_account_id :: string
  authd_username :: string
  authd_device_id :: string
  authd_password_change_required :: bool
  authd_pending_device :: bool
  authd_account_master_key :: bytes
  authd_roster_revision :: u64
  authd_bootstrap_mode :: BootstrapMode
  authd_capabilities :: "string list"

record OneTimeKey =
  otk_key_id :: string
  otk_curve25519_key :: bytes
  otk_signature :: bytes

record DeviceBundle =
  db_device_id :: string
  db_device_name :: string
  db_auth_signing_key :: bytes
  db_olm_ed25519_key :: bytes
  db_olm_curve25519_key :: bytes
  db_certificate_signature :: bytes
  db_revoked :: bool

record BootstrapDevice_msg =
  boot_device_id :: string
  boot_device_name :: string
  boot_account_master_key :: bytes
  boot_auth_signing_key :: bytes
  boot_olm_ed25519_key :: bytes
  boot_olm_curve25519_key :: bytes
  boot_certificate_signature :: bytes
  boot_one_time_keys :: "OneTimeKey list"
  boot_sas_public_key :: bytes

record ChangePassword_msg =
  chg_current_password :: string
  chg_new_password :: string

record UserBundle_msg =
  ub_account_id :: string
  ub_username :: string
  ub_account_master_key :: bytes
  ub_roster_revision :: u64
  ub_devices :: "DeviceBundle list"

record ClaimPreKey_msg =
  claim_account_id :: string
  claim_device_id :: string

record EncryptedEnvelope =
  env_envelope_id :: string
  env_logical_message_id :: string
  env_conversation_id :: string
  env_recipient_account_id :: string
  env_recipient_device_id :: string
  env_ciphertext :: bytes
  env_olm_message_type :: u32
  env_client_sent_at_ms :: i64

record SendAccepted_msg =
  acc_logical_message_id :: string
  acc_accepted_at_ms :: i64

record SyncRequest_msg =
  sync_after_cursor :: u64
  sync_limit :: u32
  sync_after_status_cursor :: u64

record StoredEnvelope =
  se_cursor :: u64
  se_sender_account_id :: string
  se_sender_device_id :: string
  se_envelope :: "EncryptedEnvelope option"
  se_accepted_at_ms :: i64
  se_sender_username :: string

record DeliveryUpdate =
  du_logical_message_id :: string
  du_delivered_at_ms :: i64

record StoredDeliveryUpdate =
  sdu_cursor :: u64
  sdu_update :: "DeliveryUpdate option"

record SyncBatch_msg =
  sb_envelopes :: "StoredEnvelope list"
  sb_next_cursor :: u64
  sb_has_more :: bool
  sb_delivery_updates :: "StoredDeliveryUpdate list"
  sb_next_status_cursor :: u64

record AckEnvelope_msg =
  ack_envelope_id :: string
  ack_cursor :: u64

record PairingRequest_msg =
  pr_pairing_id :: string
  pr_pending_device_id :: string
  pr_pending_device_name :: string
  pr_sas_public_key :: bytes
  pr_pending_device :: "DeviceBundle option"

record PairingEvent_msg =
  pe_pairing_id :: string
  pe_target_device_id :: string
  pe_event_type :: string
  pe_payload :: bytes
  pe_sender_device_id :: string
  pe_server_event_id :: u64
  pe_sender_device_name :: string

record ActivateDevice_msg =
  act_pairing_id :: string
  act_device :: "DeviceBundle option"
  act_roster_revision :: u64
  act_roster_signature :: bytes

record OwnDeviceInfo =
  od_device_id :: string
  od_device_name :: string
  od_pending :: bool
  od_revoked :: bool
  od_current :: bool
  od_online :: bool
  od_created_at_ms :: i64
  od_last_authenticated_at_ms :: i64

record Error_msg =
  err_code :: string
  err_message :: string
  err_retryable :: bool

datatype Body =
    ClientHello ClientHello_msg
  | AuthChallenge AuthChallenge_msg
  | DeviceAuth DeviceAuth_msg
  | PasswordAuth PasswordAuth_msg
  | Authenticated Authenticated_msg
  | BootstrapDevice BootstrapDevice_msg
  | ChangePassword ChangePassword_msg
  | LookupUser string
  | UserBundle UserBundle_msg
  | PublishPreKeys "OneTimeKey list"
  | ClaimPreKey ClaimPreKey_msg
  | PreKeyBundle "DeviceBundle option" "OneTimeKey option"
  | SendEnvelopes "EncryptedEnvelope list"
  | SendAccepted SendAccepted_msg
  | SyncRequest SyncRequest_msg
  | SyncBatch SyncBatch_msg
  | AckEnvelope AckEnvelope_msg
  | DeliveryUpdateFrame DeliveryUpdate
  | PairingRequest PairingRequest_msg
  | PairingEvent PairingEvent_msg
  | ActivateDevice ActivateDevice_msg
  | AckPairingEvent u64
  | ListOwnDevices
  | OwnDeviceList "OwnDeviceInfo list"
  | RevokeOwnDevice string
  | ErrorFrame Error_msg
  | Ping i64
  | Pong i64
  | OperationOk

record Frame =
  frame_protocol_version :: u32
  frame_id :: string
  frame_body :: "Body option"

section \<open>Constants and frames\<close>

definition PROTOCOL_VERSION :: u32 where
  "PROTOCOL_VERSION = 2"

definition MAX_FRAME_BYTES :: nat where
  "MAX_FRAME_BYTES = 256 * 1024"

definition MAX_TEXT_BYTES :: nat where
  "MAX_TEXT_BYTES = 16 * 1024"

definition CAPABILITY_OWN_DEVICES :: string where
  "CAPABILITY_OWN_DEVICES = ''own_devices_v1''"

definition CAPABILITY_STABLE_ERRORS :: string where
  "CAPABILITY_STABLE_ERRORS = ''stable_errors_v1''"

definition client_capabilities :: "string list" where
  "client_capabilities = [CAPABILITY_OWN_DEVICES, CAPABILITY_STABLE_ERRORS]"

definition mk_frame :: "string \<Rightarrow> Body \<Rightarrow> Frame" where
  "mk_frame i b = \<lparr>frame_protocol_version = PROTOCOL_VERSION, frame_id = i, frame_body = Some b\<rparr>"

text \<open>
  \<open>CodecError\<close>. A protobuf decoding error carries the text of \<open>prost::DecodeError\<close>, which the
  server sends back to the peer.
\<close>

datatype CodecError = TooLarge | Decode string

definition codec_error_text :: "CodecError \<Rightarrow> string" where
  "codec_error_text e = (case e of
       TooLarge \<Rightarrow> ''frame exceeds 262144 bytes''
     | Decode t \<Rightarrow> ''invalid protobuf frame: '' @ t)"

definition encode_frame :: "(Frame \<Rightarrow> bytes) \<Rightarrow> Frame \<Rightarrow> bytes" where
  "encode_frame encode_to_vec f = encode_to_vec f"

definition decode_frame :: "(bytes \<Rightarrow> string + Frame) \<Rightarrow> bytes \<Rightarrow> CodecError + Frame" where
  "decode_frame prost_decode dat =
     (if length dat > MAX_FRAME_BYTES then Inl TooLarge
      else (case prost_decode dat of Inl e \<Rightarrow> Inl (Decode e) | Inr f \<Rightarrow> Inr f))"

section \<open>Hexadecimal and conversation identifiers\<close>

definition HEX :: string where
  "HEX = ''0123456789abcdef''"

definition hex_byte :: "u8 \<Rightarrow> string" where
  "hex_byte b = [HEX ! unat (drop_bit 4 b), HEX ! unat (b AND 0x0f)]"

definition hex_string :: "bytes \<Rightarrow> string" where
  "hex_string bs = concat (map hex_byte bs)"

definition conversation_preimage :: "string \<Rightarrow> string \<Rightarrow> bytes" where
  "conversation_preimage account_a account_b =
     (let (first, second) = (if account_a \<le> account_b then (account_a, account_b)
                             else (account_b, account_a))
      in as_bytes ''tui-chat-conversation-v1'' @ [0] @ as_bytes first @ [0] @ as_bytes second)"

definition conversation_id :: "(bytes \<Rightarrow> bytes) \<Rightarrow> string \<Rightarrow> string \<Rightarrow> string" where
  "conversation_id sha256 account_a account_b =
     hex_string (sha256 (conversation_preimage account_a account_b))"

section \<open>Signed payloads\<close>

definition field_bytes :: "bytes \<Rightarrow> bytes" where
  "field_bytes f = u32_to_be_bytes (of_nat (length f)) @ f"

definition device_certificate_payload ::
  "string \<Rightarrow> string \<Rightarrow> bytes \<Rightarrow> bytes \<Rightarrow> bytes \<Rightarrow> bytes" where
  "device_certificate_payload account_id device_id auth_key olm_ed25519 olm_curve25519 =
     as_bytes ''tui-chat-device-certificate-v1'' @ [0]
     @ concat (map field_bytes
         [as_bytes account_id, as_bytes device_id, auth_key, olm_ed25519, olm_curve25519])"

definition auth_challenge_payload ::
  "string \<Rightarrow> string \<Rightarrow> string \<Rightarrow> bytes \<Rightarrow> i64 \<Rightarrow> bytes" where
  "auth_challenge_payload domain username device_id nonce expires_at_ms =
     as_bytes ''tui-chat-device-auth-v1'' @ [0]
     @ concat (map field_bytes [as_bytes domain, as_bytes username, as_bytes device_id, nonce])
     @ i64_to_be_bytes expires_at_ms"

section \<open>Prefix codes\<close>

text \<open>
  The contract that makes a concatenation of encoded parts readable from the left: equal
  concatenations start with the same part and have the same rest.
\<close>

locale prefix_code =
  fixes enc :: "'a \<Rightarrow> bytes" and fits :: "'a \<Rightarrow> bool"
  assumes enc_cancel: "fits x \<Longrightarrow> fits y \<Longrightarrow> enc x @ r = enc y @ s \<Longrightarrow> x = y \<and> r = s"
begin

lemma enc_append_iff: "fits x \<Longrightarrow> fits y \<Longrightarrow> enc x @ r = enc y @ s \<longleftrightarrow> x = y \<and> r = s"
  by (auto dest: enc_cancel)

lemma enc_list_append_iff:
  "length xs = length ys \<Longrightarrow> list_all fits xs \<Longrightarrow> list_all fits ys \<Longrightarrow>
    concat (map enc xs) @ r = concat (map enc ys) @ s \<longleftrightarrow> xs = ys \<and> r = s"
  by (induction xs ys rule: list_induct2) (auto simp: enc_append_iff)

lemma enc_list_iff:
  "length xs = length ys \<Longrightarrow> list_all fits xs \<Longrightarrow> list_all fits ys \<Longrightarrow>
    concat (map enc xs) = concat (map enc ys) \<longleftrightarrow> xs = ys"
  using enc_list_append_iff [of xs ys "[]" "[]"] by simp

end

definition field_fits :: "bytes \<Rightarrow> bool" where
  "field_fits f \<longleftrightarrow> length f < 2 ^ 32"

lemma of_nat_u32_inject:
  "m < 2 ^ 32 \<Longrightarrow> n < 2 ^ 32 \<Longrightarrow> (of_nat m :: u32) = of_nat n \<longleftrightarrow> m = n"
  by (simp add: word_of_nat_eq_iff take_bit_nat_eq_self)

interpretation field: prefix_code field_bytes field_fits
proof
  fix x y r s
  assume fits: "field_fits x" "field_fits y" and eq: "field_bytes x @ r = field_bytes y @ s"
  from eq have "u32_to_be_bytes (of_nat (length x)) = u32_to_be_bytes (of_nat (length y))"
    and rest: "x @ r = y @ s"
    by (auto simp: field_bytes_def append_eq_append_conv)
  with fits have "length x = length y"
    by (simp add: field_fits_def of_nat_u32_inject)
  with rest show "x = y \<and> r = s" by simp
qed

text \<open>A string without NUL, terminated by a NUL byte.\<close>

definition nul_terminated :: "string \<Rightarrow> bytes" where
  "nul_terminated s = as_bytes s @ [0]"

definition nul_free :: "string \<Rightarrow> bool" where
  "nul_free s \<longleftrightarrow> CHR 0x00 \<notin> set s"

lemma nul_split:
  "z \<notin> set xs \<Longrightarrow> z \<notin> set ys \<Longrightarrow> xs @ z # r = ys @ z # s \<longleftrightarrow> xs = ys \<and> r = s"
proof (induction xs arbitrary: ys)
  case Nil
  then show ?case by (cases ys) auto
next
  case (Cons x xs)
  then show ?case by (cases ys) auto
qed

interpretation nul: prefix_code nul_terminated nul_free
  by unfold_locales (simp add: nul_terminated_def nul_free_def nul_split zero_in_as_bytes)

section \<open>Hexadecimal digits\<close>

lemma nibble_lt: "unat (drop_bit 4 (b :: u8)) < 16" "unat (b AND 0x0f) < 16"
proof -
  have lt: "unat b < 2 ^ LENGTH(8)" by (rule unsigned_less)
  show "unat (drop_bit 4 b) < 16"
    using lt by (simp only: unat_drop_bit_eq) (simp add: drop_bit_eq_div less_mult_imp_div_less)
  have "b AND 0x0f = take_bit 4 b"
    by (simp add: take_bit_eq_mask mask_eq_exp_minus_1)
  then show "unat (b AND 0x0f) < 16"
    by (simp add: take_bit_eq_mod unat_mod)
qed

lemma HEX_hexdigit: "k < 16 \<Longrightarrow> is_ascii_hexdigit (HEX ! k)"
proof -
  have "list_all is_ascii_hexdigit HEX" by code_simp
  moreover assume "k < 16"
  moreover have "length HEX = 16" by (simp add: HEX_def)
  ultimately show ?thesis by (simp add: list_all_length)
qed

lemma length_hex_string [simp]: "length (hex_string bs) = 2 * length bs"
  by (induction bs) (simp_all add: hex_string_def hex_byte_def)

lemma hex_string_hexdigits: "list_all is_ascii_hexdigit (hex_string bs)"
  by (induction bs) (simp_all add: hex_string_def hex_byte_def HEX_hexdigit nibble_lt)

lemma HEX_inject: "i < 16 \<Longrightarrow> j < 16 \<Longrightarrow> HEX ! i = HEX ! j \<longleftrightarrow> i = j"
proof -
  have "distinct HEX" by code_simp
  moreover have "length HEX = 16" by (simp add: HEX_def)
  moreover assume "i < 16" "j < 16"
  ultimately show ?thesis by (simp add: nth_eq_iff_index_eq)
qed

lemma hex_byte_inject: "hex_byte a = hex_byte b \<longleftrightarrow> a = b"
proof
  assume "hex_byte a = hex_byte b"
  then have hi: "drop_bit 4 a = drop_bit 4 b" and lo: "a AND 0x0f = b AND 0x0f"
    by (simp_all add: hex_byte_def HEX_inject nibble_lt word_unat_eq_iff)
  from lo have "take_bit 4 a = take_bit 4 b"
    by (simp add: take_bit_eq_mask mask_eq_exp_minus_1)
  with hi show "a = b" by (metis bits_ident)
qed simp

lemma hex_string_inject: "hex_string as = hex_string bs \<longleftrightarrow> as = bs"
proof
  assume "hex_string as = hex_string bs"
  then show "as = bs"
  proof (induction as arbitrary: bs)
    case Nil
    then show ?case by (cases bs) (simp_all add: hex_string_def hex_byte_def)
  next
    case (Cons a as)
    then obtain b bs' where bs: "bs = b # bs'"
      by (cases bs) (simp_all add: hex_string_def hex_byte_def)
    from Cons.prems have "hex_byte a = hex_byte b" "hex_string as = hex_string bs'"
      by (simp_all add: bs hex_string_def) (simp_all add: hex_byte_def)
    with Cons.IH show ?case by (simp add: bs hex_byte_inject)
  qed
qed simp

section \<open>Conversation identifiers\<close>

lemma conversation_preimage_sym: "conversation_preimage a b = conversation_preimage b a"
  by (auto simp: conversation_preimage_def)

lemma conversation_preimage_inject:
  assumes "nul_free a" "nul_free b" "nul_free c" "nul_free d"
  shows "conversation_preimage a b = conversation_preimage c d \<longleftrightarrow>
    (a = c \<and> b = d) \<or> (a = d \<and> b = c)"
proof -
  have split: "as_bytes x @ (0 :: u8) # as_bytes y = as_bytes x' @ 0 # as_bytes y' \<longleftrightarrow>
      x = x' \<and> y = y'" if "nul_free x" "nul_free x'" for x y x' y'
    using nul.enc_append_iff [of x x' "as_bytes y" "as_bytes y'"] that
    by (simp add: nul_terminated_def)
  show ?thesis
    using assms by (auto simp: conversation_preimage_def split)
qed

text \<open>
  The identifier of a conversation does not depend on who computes it, and (with a hash
  without collisions on the two inputs, as SHA-256 is taken to be) two conversations have the same
  identifier only if they are between the same two accounts. Account ids hold no NUL.
\<close>

theorem conversation_id_identifies:
  assumes "nul_free a" "nul_free b" "nul_free c" "nul_free d"
    and "sha256 (conversation_preimage a b) = sha256 (conversation_preimage c d) \<Longrightarrow>
         conversation_preimage a b = conversation_preimage c d"
  shows "conversation_id sha256 a b = conversation_id sha256 c d \<longleftrightarrow> {a, b} = {c, d}"
proof -
  have "conversation_id sha256 a b = conversation_id sha256 c d \<longleftrightarrow>
      conversation_preimage a b = conversation_preimage c d"
    using assms(5) by (auto simp: conversation_id_def hex_string_inject)
  then show ?thesis
    using conversation_preimage_inject [OF assms(1-4)] by (auto simp: doubleton_eq_iff)
qed

theorem conversation_id_identifies_witness:
  "conversation_id id ''alice'' ''bob'' = conversation_id id ''bob'' ''alice'' \<and>
   conversation_id id ''alice'' ''bob'' \<noteq> conversation_id id ''alice'' ''carol''"
proof -
  have nf: "nul_free ''alice''" "nul_free ''bob''" "nul_free ''carol''"
    by (simp_all add: nul_free_def)
  show ?thesis
    using conversation_id_identifies [OF nf(1,2) nf(2,1), of id]
      conversation_id_identifies [OF nf(1,2) nf(1,3), of id]
    by (simp add: doubleton_eq_iff)
qed

end
