(* ===== verification/Crypto_Params.thy ===== *)
theory Crypto_Params
  imports Rust_Prelude
begin

text \<open>
  The cryptographic packages that the crates call and that are not under \<open>src/\<close>, as one record of
  functions which every definition that needs them takes as its argument: \<open>ed25519_dalek\<close>,
  \<open>x25519_dalek\<close>, \<open>sha2\<close>, \<open>hkdf\<close>, \<open>chacha20poly1305\<close>, \<open>argon2\<close> and \<open>uuid\<close>. Random bytes
  (\<open>OsRng\<close>) are arguments of the operation that draws them. Nothing is assumed about the fields
  here; a theorem that relies on documented behaviour names it as one of the predicates below.
\<close>

record crypto =
  sha256 :: "bytes \<Rightarrow> bytes"
  ed_public :: "bytes \<Rightarrow> bytes"             \<comment> \<open>\<open>SigningKey::verifying_key().to_bytes()\<close> of the secret\<close>
  ed_sign :: "bytes \<Rightarrow> bytes \<Rightarrow> bytes"      \<comment> \<open>\<open>SigningKey::sign(payload).to_bytes()\<close>\<close>
  ed_key_ok :: "bytes \<Rightarrow> bool"              \<comment> \<open>\<open>VerifyingKey::from_bytes\<close> succeeds\<close>
  ed_verify_strict :: "bytes \<Rightarrow> bytes \<Rightarrow> bytes \<Rightarrow> bool"
  x25519_public :: "bytes \<Rightarrow> bytes"
  x25519_shared :: "bytes \<Rightarrow> bytes \<Rightarrow> bytes"
  x25519_contributory :: "bytes \<Rightarrow> bool"
  hkdf_sha256 :: "bytes \<Rightarrow> bytes \<Rightarrow> nat \<Rightarrow> bytes option"
  aead_encrypt :: "bytes \<Rightarrow> bytes \<Rightarrow> bytes \<Rightarrow> bytes \<Rightarrow> bytes option"  \<comment> \<open>key, nonce, aad, plaintext\<close>
  aead_decrypt :: "bytes \<Rightarrow> bytes \<Rightarrow> bytes \<Rightarrow> bytes \<Rightarrow> bytes option"
  argon2id_key :: "string \<Rightarrow> bytes \<Rightarrow> bytes option"  \<comment> \<open>\<open>hash_password_into\<close>: passphrase, salt\<close>

text \<open>
  Ed25519: a verifying key has 32 bytes and parses, a signature has 64 bytes, and what a secret key
  signs verifies under its public key.
\<close>

definition ed25519_correct :: "crypto \<Rightarrow> bool" where
  "ed25519_correct C \<longleftrightarrow> (\<forall>sk m. length (ed_public C sk) = 32 \<and> ed_key_ok C (ed_public C sk)
     \<and> length (ed_sign C sk m) = 64 \<and> ed_verify_strict C (ed_public C sk) m (ed_sign C sk m))"

text \<open>X25519: both ends of an exchange compute the same shared secret.\<close>

definition x25519_commutes :: "crypto \<Rightarrow> bool" where
  "x25519_commutes C \<longleftrightarrow> (\<forall>a b. x25519_shared C a (x25519_public C b) = x25519_shared C b (x25519_public C a))"

text \<open>AEAD: decryption with the same key, nonce and associated data returns the plaintext.\<close>

definition aead_correct :: "crypto \<Rightarrow> bool" where
  "aead_correct C \<longleftrightarrow> (\<forall>k n a m c. aead_encrypt C k n a m = Some c \<longrightarrow> aead_decrypt C k n a c = Some m)"

text \<open>
  A concrete instance, used by the witnesses: signatures and ciphertexts that carry what they
  authenticate. It satisfies every predicate above.
\<close>

definition pad_to :: "nat \<Rightarrow> bytes \<Rightarrow> bytes" where
  "pad_to n b = take n (b @ replicate n 0)"

lemma length_pad_to [simp]: "length (pad_to n b) = n"
  by (simp add: pad_to_def)

definition model_sign :: "bytes \<Rightarrow> bytes \<Rightarrow> bytes" where
  "model_sign key m = pad_to 64 (pad_to 8 key @ [of_nat (length m)] @ rev m)"

definition model_crypto :: crypto where
  "model_crypto = \<lparr>
     sha256 = pad_to 32,
     ed_public = pad_to 32,
     ed_sign = (\<lambda>sk m. model_sign (pad_to 32 sk) m),
     ed_key_ok = (\<lambda>_. True),
     ed_verify_strict = (\<lambda>pk m s. s = model_sign pk m),
     x25519_public = (\<lambda>s. s),
     x25519_shared = (\<lambda>a b. map2 (+) (pad_to 32 a) (pad_to 32 b)),
     x25519_contributory = (\<lambda>s. \<exists>b \<in> set s. b \<noteq> 0),
     hkdf_sha256 = (\<lambda>ikm info n. Some (pad_to n (ikm @ info))),
     aead_encrypt = (\<lambda>k n a m. Some (of_nat (length a) # a @ m)),
     aead_decrypt = (\<lambda>k n a c. (case c of [] \<Rightarrow> None
        | l # r \<Rightarrow> if l = of_nat (length a) \<and> starts_with r a then Some (drop (length a) r) else None)),
     argon2id_key = (\<lambda>p s. Some (pad_to 32 (as_bytes p @ s)))\<rparr>"

lemma model_crypto_ed25519 [simp]: "ed25519_correct model_crypto"
  by (simp add: ed25519_correct_def model_crypto_def model_sign_def)

lemma model_crypto_x25519 [simp]: "x25519_commutes model_crypto"
  by (simp add: x25519_commutes_def model_crypto_def map2_map_map [symmetric]
      list_eq_iff_nth_eq add.commute)

lemma model_crypto_aead [simp]: "aead_correct model_crypto"
  by (auto simp: aead_correct_def model_crypto_def starts_with_def)

end
