(* ===== verification/Identity.thy ===== *)
theory Identity
  imports Protocol Crypto_Params
begin

text \<open>
  Device identities, \<open>crates/crypto/src/identity.rs\<close>: the keys a device holds, the certificates,
  roster statements, prekeys and login challenges it signs, the checks of what others signed, and
  the safety code that two users compare. A \<open>SigningKey\<close> is its 32 secret bytes. The lemmas show
  that every signed statement determines its content, and that what a device signs is what the
  checks accept.
\<close>

section \<open>State\<close>

record PublicDevice =
  pd_device_id :: string
  pd_device_name :: string
  pd_auth_signing_key :: bytes
  pd_olm_ed25519_key :: bytes
  pd_olm_curve25519_key :: bytes
  pd_certificate_signature :: bytes

record DeviceIdentity =
  id_account_id :: string
  id_device_id :: string
  id_device_name :: string
  id_master :: "bytes option"
  id_auth :: bytes

record IdentityPickle =
  ip_account_id :: string
  ip_device_id :: string
  ip_device_name :: string
  ip_master :: "bytes option"
  ip_auth :: bytes

section \<open>Construction and accessors\<close>

text \<open>The two arguments after \<open>first_device\<close> are the keys that \<open>OsRng\<close> generates.\<close>

definition identity_new ::
  "string \<Rightarrow> string \<Rightarrow> string \<Rightarrow> bool \<Rightarrow> bytes \<Rightarrow> bytes \<Rightarrow> DeviceIdentity" where
  "identity_new account_id device_id device_name first_device fresh_master fresh_auth =
     \<lparr>id_account_id = account_id, id_device_id = device_id, id_device_name = device_name,
      id_master = (if first_device then Some fresh_master else None), id_auth = fresh_auth\<rparr>"

definition has_master_secret :: "DeviceIdentity \<Rightarrow> bool" where
  "has_master_secret d = (id_master d \<noteq> None)"

definition master_public_key :: "crypto \<Rightarrow> DeviceIdentity \<Rightarrow> bytes option" where
  "master_public_key C d = map_option (ed_public C) (id_master d)"

definition install_master_secret :: "bytes \<Rightarrow> DeviceIdentity \<Rightarrow> DeviceIdentity" where
  "install_master_secret secret d = d\<lparr>id_master := Some secret\<rparr>"

definition sign_auth_challenge :: "crypto \<Rightarrow> DeviceIdentity \<Rightarrow> bytes \<Rightarrow> bytes" where
  "sign_auth_challenge C d payload = ed_sign C (id_auth d) payload"

section \<open>Certificates\<close>

text \<open>\<open>olm_ed\<close> and \<open>olm_curve\<close> are the identity keys of the Olm account.\<close>

definition public_device :: "crypto \<Rightarrow> DeviceIdentity \<Rightarrow> bytes \<Rightarrow> bytes \<Rightarrow> PublicDevice" where
  "public_device C d olm_ed olm_curve =
     (let auth = ed_public C (id_auth d);
          signature = (case id_master d of
              None \<Rightarrow> []
            | Some master \<Rightarrow> ed_sign C master
                (device_certificate_payload (id_account_id d) (id_device_id d) auth olm_ed olm_curve))
      in \<lparr>pd_device_id = id_device_id d, pd_device_name = id_device_name d,
          pd_auth_signing_key = auth, pd_olm_ed25519_key = olm_ed,
          pd_olm_curve25519_key = olm_curve, pd_certificate_signature = signature\<rparr>)"

definition certify_device :: "crypto \<Rightarrow> DeviceIdentity \<Rightarrow> PublicDevice \<Rightarrow> PublicDevice result" where
  "certify_device C d device = (case id_master d of
       None \<Rightarrow> bail ''account master secret is unavailable''
     | Some master \<Rightarrow> ok (device\<lparr>pd_certificate_signature := ed_sign C master
         (device_certificate_payload (id_account_id d) (pd_device_id device)
           (pd_auth_signing_key device) (pd_olm_ed25519_key device)
           (pd_olm_curve25519_key device))\<rparr>))"

definition certify_bundle :: "crypto \<Rightarrow> DeviceIdentity \<Rightarrow> DeviceBundle \<Rightarrow> DeviceBundle result" where
  "certify_bundle C d device = (case id_master d of
       None \<Rightarrow> bail ''account master secret is unavailable''
     | Some master \<Rightarrow> ok (device\<lparr>db_certificate_signature := ed_sign C master
         (device_certificate_payload (id_account_id d) (db_device_id device)
           (db_auth_signing_key device) (db_olm_ed25519_key device)
           (db_olm_curve25519_key device))\<rparr>))"

definition roster_payload :: "string \<Rightarrow> u64 \<Rightarrow> string \<Rightarrow> bytes" where
  "roster_payload account_id revision device_id =
     as_bytes ''tui-chat-roster-v1'' @ [0] @ as_bytes account_id @ [0]
     @ u64_to_be_bytes revision @ as_bytes device_id"

definition sign_roster :: "crypto \<Rightarrow> DeviceIdentity \<Rightarrow> u64 \<Rightarrow> string \<Rightarrow> bytes result" where
  "sign_roster C d revision device_id = (case id_master d of
       None \<Rightarrow> bail ''account master secret is unavailable''
     | Some master \<Rightarrow> ok (ed_sign C master (roster_payload (id_account_id d) revision device_id)))"

definition prekey_payload :: "string \<Rightarrow> bytes \<Rightarrow> bytes" where
  "prekey_payload key_id curve25519_key =
     as_bytes ''tui-chat-prekey-v1'' @ [0] @ as_bytes key_id @ [0] @ curve25519_key"

definition sign_prekey :: "crypto \<Rightarrow> DeviceIdentity \<Rightarrow> string \<Rightarrow> bytes \<Rightarrow> OneTimeKey" where
  "sign_prekey C d key_id curve25519_key =
     \<lparr>otk_key_id = key_id, otk_curve25519_key = curve25519_key,
      otk_signature = ed_sign C (id_auth d) (prekey_payload key_id curve25519_key)\<rparr>"

definition bundle_of_public :: "PublicDevice \<Rightarrow> DeviceBundle" where
  "bundle_of_public v = \<lparr>db_device_id = pd_device_id v, db_device_name = pd_device_name v,
     db_auth_signing_key = pd_auth_signing_key v, db_olm_ed25519_key = pd_olm_ed25519_key v,
     db_olm_curve25519_key = pd_olm_curve25519_key v,
     db_certificate_signature = pd_certificate_signature v, db_revoked = False\<rparr>"

section \<open>Serialisation\<close>

text \<open>\<open>postcard\<close> and \<open>serde_json\<close> are packages: their encoder and decoders are arguments.\<close>

definition identity_to_bytes :: "(IdentityPickle \<Rightarrow> bytes result) \<Rightarrow> DeviceIdentity \<Rightarrow> bytes result" where
  "identity_to_bytes postcard_encode d =
     (case postcard_encode \<lparr>ip_account_id = id_account_id d, ip_device_id = id_device_id d,
          ip_device_name = id_device_name d, ip_master = id_master d, ip_auth = id_auth d\<rparr> of
        Inl e \<Rightarrow> Inl e
      | Inr encoded \<Rightarrow> ok (as_bytes ''TCI3'' @ encoded))"

definition strip_prefix :: "bytes \<Rightarrow> bytes \<Rightarrow> bytes option" where
  "strip_prefix p s = (if starts_with s p then Some (drop (length p) s) else None)"

definition identity_from_bytes ::
  "(bytes \<Rightarrow> IdentityPickle result) \<Rightarrow> (bytes \<Rightarrow> IdentityPickle result) \<Rightarrow> bytes \<Rightarrow> DeviceIdentity result" where
  "identity_from_bytes postcard_decode json_decode bs =
     (case (case strip_prefix (as_bytes ''TCI3'') bs of
              Some encoded \<Rightarrow> postcard_decode encoded
            | None \<Rightarrow> json_decode bs) of
        Inl e \<Rightarrow> Inl e
      | Inr pickle \<Rightarrow> ok \<lparr>id_account_id = ip_account_id pickle, id_device_id = ip_device_id pickle,
          id_device_name = ip_device_name pickle, id_master = ip_master pickle,
          id_auth = ip_auth pickle\<rparr>)"

section \<open>Safety codes\<close>

definition safety_preimage :: "string \<Rightarrow> bytes \<Rightarrow> string \<Rightarrow> bytes \<Rightarrow> bytes" where
  "safety_preimage user_a master_a user_b master_b =
     (let (first_user, first_key, second_user, second_key) =
        (if user_a \<le> user_b then (user_a, master_a, user_b, master_b)
         else (user_b, master_b, user_a, master_a))
      in as_bytes ''tui-chat-safety-code-v1'' @ [0] @ as_bytes first_user @ [0] @ first_key
         @ as_bytes second_user @ [0] @ second_key)"

fun chunks_of :: "nat \<Rightarrow> 'a list \<Rightarrow> 'a list list" where
  "chunks_of n [] = []"
| "chunks_of n (x # xs) = (x # take (n - 1) xs) # chunks_of n (drop (n - 1) xs)"

definition chunk_value :: "bytes \<Rightarrow> u64" where
  "chunk_value chunk = foldl (\<lambda>value byte. push_bit 8 value OR ucast byte) 0 chunk"

definition digit_char :: "nat \<Rightarrow> char" where
  "digit_char d = char_of (48 + d)"

text \<open>\<open>format!("{:05}", n)\<close> for \<open>n < 100000\<close>.\<close>

definition five_digits :: "nat \<Rightarrow> string" where
  "five_digits n = map (\<lambda>k. digit_char (n div 10 ^ k mod 10)) [4, 3, 2, 1, 0]"

fun join_with :: "string \<Rightarrow> string list \<Rightarrow> string" where
  "join_with sep [] = []"
| "join_with sep [x] = x"
| "join_with sep (x # y # xs) = x @ sep @ join_with sep (y # xs)"

definition safety_code :: "crypto \<Rightarrow> string \<Rightarrow> bytes \<Rightarrow> string \<Rightarrow> bytes \<Rightarrow> string" where
  "safety_code C user_a master_a user_b master_b =
     join_with '' '' (map (\<lambda>chunk. five_digits (unat (chunk_value chunk) mod 100000))
       (take 6 (chunks_of 5 (sha256 C (safety_preimage user_a master_a user_b master_b)))))"

section \<open>Checks\<close>

definition verify_device_bundle :: "crypto \<Rightarrow> bytes \<Rightarrow> string \<Rightarrow> DeviceBundle \<Rightarrow> unit result" where
  "verify_device_bundle C master account_id device =
     (if length master \<noteq> 32 then bail ''invalid account master key''
      else if length (db_certificate_signature device) \<noteq> 64 then bail ''invalid device certificate''
      else if \<not> ed_key_ok C master then bail ''signature error''
      else if \<not> ed_verify_strict C master
          (device_certificate_payload account_id (db_device_id device) (db_auth_signing_key device)
             (db_olm_ed25519_key device) (db_olm_curve25519_key device))
          (db_certificate_signature device) then bail ''signature error''
      else ok ())"

definition identity_verify_prekey :: "crypto \<Rightarrow> DeviceBundle \<Rightarrow> OneTimeKey \<Rightarrow> unit result" where
  "identity_verify_prekey C device key =
     (if length (db_auth_signing_key device) \<noteq> 32 then bail ''invalid device signing key''
      else if length (otk_signature key) \<noteq> 64 then bail ''invalid prekey signature''
      else if \<not> ed_key_ok C (db_auth_signing_key device) then bail ''signature error''
      else if \<not> ed_verify_strict C (db_auth_signing_key device)
          (prekey_payload (otk_key_id key) (otk_curve25519_key key)) (otk_signature key)
        then bail ''signature error''
      else ok ())"

section \<open>Signed statements are unambiguous\<close>

text \<open>
  Everything that a key of an account signs, as one type: the master key signs certificates and
  roster entries, a device key signs login challenges and prekeys.
\<close>

datatype statement =
    Certificate string string bytes bytes bytes
  | LoginChallenge string string string bytes i64
  | RosterEntry string u64 string
  | Prekey string bytes

fun signed_bytes :: "statement \<Rightarrow> bytes" where
  "signed_bytes (Certificate a d k e c) = device_certificate_payload a d k e c"
| "signed_bytes (LoginChallenge h u d n t) = auth_challenge_payload h u d n t"
| "signed_bytes (RosterEntry a r d) = roster_payload a r d"
| "signed_bytes (Prekey k c) = prekey_payload k c"

fun statement_tag :: "statement \<Rightarrow> string" where
  "statement_tag (Certificate a d k e c) = ''tui-chat-device-certificate-v1''"
| "statement_tag (LoginChallenge h u d n t) = ''tui-chat-device-auth-v1''"
| "statement_tag (RosterEntry a r d) = ''tui-chat-roster-v1''"
| "statement_tag (Prekey k c) = ''tui-chat-prekey-v1''"

fun statement_body :: "statement \<Rightarrow> bytes" where
  "statement_body (Certificate a d k e c) =
     concat (map field_bytes [as_bytes a, as_bytes d, k, e, c])"
| "statement_body (LoginChallenge h u d n t) =
     concat (map field_bytes [as_bytes h, as_bytes u, as_bytes d, n]) @ i64_to_be_bytes t"
| "statement_body (RosterEntry a r d) = nul_terminated a @ u64_to_be_bytes r @ as_bytes d"
| "statement_body (Prekey k c) = nul_terminated k @ c"

text \<open>
  What the code guarantees of a statement: fields are shorter than 4 GiB, times are \<open>i64\<close>, account
  ids are UUIDs (so without NUL), and a prekey is the 32 bytes that the server demands.
\<close>

fun statement_ok :: "statement \<Rightarrow> bool" where
  "statement_ok (Certificate a d k e c) =
     list_all field_fits [as_bytes a, as_bytes d, k, e, c]"
| "statement_ok (LoginChallenge h u d n t) =
     (list_all field_fits [as_bytes h, as_bytes u, as_bytes d, n] \<and> in_i64 t)"
| "statement_ok (RosterEntry a r d) = nul_free a"
| "statement_ok (Prekey k c) = (length c = 32)"

lemma signed_bytes_split: "signed_bytes s = nul_terminated (statement_tag s) @ statement_body s"
  by (cases s) (simp_all add: device_certificate_payload_def auth_challenge_payload_def
      roster_payload_def prekey_payload_def nul_terminated_def)

lemma statement_tag_nul_free: "nul_free (statement_tag s)"
  by (cases s) (simp_all add: nul_free_def)

lemma certificate_body_inject:
  assumes "statement_ok (Certificate a d k e c)" "statement_ok (Certificate a' d' k' e' c')"
    and "statement_body (Certificate a d k e c) = statement_body (Certificate a' d' k' e' c')"
  shows "Certificate a d k e c = Certificate a' d' k' e' c'"
proof -
  have "[as_bytes a, as_bytes d, k, e, c] = [as_bytes a', as_bytes d', k', e', c']"
    by (rule field.enc_list_iff [THEN iffD1]) (use assms in simp_all)
  then show ?thesis by simp
qed

lemma login_body_inject:
  assumes "statement_ok (LoginChallenge a d k n t)" "statement_ok (LoginChallenge a' d' k' n' t')"
    and "statement_body (LoginChallenge a d k n t) = statement_body (LoginChallenge a' d' k' n' t')"
  shows "LoginChallenge a d k n t = LoginChallenge a' d' k' n' t'"
proof -
  have "[as_bytes a, as_bytes d, as_bytes k, n] = [as_bytes a', as_bytes d', as_bytes k', n'] \<and>
      i64_to_be_bytes t = i64_to_be_bytes t'"
    by (rule field.enc_list_append_iff [THEN iffD1]) (use assms in simp_all)
  with assms(1,2) show ?thesis by (auto dest: i64_to_be_bytes_inject)
qed

lemma roster_body_inject:
  assumes "statement_ok (RosterEntry a r d)" "statement_ok (RosterEntry a' r' d')"
    and "statement_body (RosterEntry a r d) = statement_body (RosterEntry a' r' d')"
  shows "RosterEntry a r d = RosterEntry a' r' d'"
  using assms by (simp add: nul.enc_append_iff)

lemma prekey_body_inject:
  assumes "statement_ok (Prekey k c)" "statement_ok (Prekey k' c')"
    and "statement_body (Prekey k c) = statement_body (Prekey k' c')"
  shows "Prekey k c = Prekey k' c'"
  using assms by (simp add: nul_terminated_def)

lemma statement_body_inject:
  assumes tag: "statement_tag s = statement_tag t" and body: "statement_body s = statement_body t"
    and "statement_ok s" "statement_ok t"
  shows "s = t"
proof (cases s)
  case (Certificate a d k e c)
  with tag obtain a' d' k' e' c' where "t = Certificate a' d' k' e' c'" by (cases t) auto
  with Certificate assms show ?thesis by (metis certificate_body_inject)
next
  case (LoginChallenge h u d n x)
  with tag obtain h' u' d' n' x' where "t = LoginChallenge h' u' d' n' x'" by (cases t) auto
  with LoginChallenge assms show ?thesis by (metis login_body_inject)
next
  case (RosterEntry a r d)
  with tag obtain a' r' d' where "t = RosterEntry a' r' d'" by (cases t) auto
  with RosterEntry assms show ?thesis by (metis roster_body_inject)
next
  case (Prekey k c)
  with tag obtain k' c' where "t = Prekey k' c'" by (cases t) auto
  with Prekey assms show ?thesis by (metis prekey_body_inject)
qed

text \<open>
  C5. A signature stands for one statement only: two well-formed statements with the same signed
  bytes are the same statement, of the same kind and with the same fields. A certificate can
  therefore not be replayed as a roster entry, nor a login signature as a prekey signature.
\<close>

theorem signed_statements_unambiguous:
  assumes "statement_ok s" "statement_ok t"
  shows "signed_bytes s = signed_bytes t \<longleftrightarrow> s = t"
proof
  assume "signed_bytes s = signed_bytes t"
  then have tag: "statement_tag s = statement_tag t" and body: "statement_body s = statement_body t"
    by (simp_all add: signed_bytes_split nul.enc_append_iff statement_tag_nul_free)
  show "s = t" by (rule statement_body_inject [OF tag body assms])
qed simp

theorem signed_statements_unambiguous_witness:
  "statement_ok (RosterEntry ''acc'' 2 ''dev'') \<and> statement_ok (Prekey ''acc'' (replicate 32 7)) \<and>
   signed_bytes (RosterEntry ''acc'' 2 ''dev'') \<noteq> signed_bytes (Prekey ''acc'' (replicate 32 7))"
proof -
  have r: "statement_ok (RosterEntry ''acc'' 2 ''dev'')" by (simp add: nul_free_def)
  have p: "statement_ok (Prekey ''acc'' (replicate 32 7))" by simp
  show ?thesis using signed_statements_unambiguous [OF r p] r p by simp
qed

section \<open>What a device signs is accepted\<close>

lemma bind_result_ok: "(case r of Inl e \<Rightarrow> Inl e | Inr x \<Rightarrow> Inr (f x)) = Inr y \<longleftrightarrow> (\<exists>x. r = Inr x \<and> y = f x)"
  by (cases r) auto

lemma verify_certified_bundle:
  assumes "ed25519_correct C" "id_master d = Some m" "certify_bundle C d b = ok b'"
  shows "verify_device_bundle C (ed_public C m) (id_account_id d) b' = ok ()"
  using assms by (auto simp: certify_bundle_def verify_device_bundle_def ed25519_correct_def)

lemma verify_own_public_device:
  assumes "ed25519_correct C" "id_master d = Some m"
  shows "verify_device_bundle C (ed_public C m) (id_account_id d)
           (bundle_of_public (public_device C d ed curve)) = ok ()"
  using assms
  by (auto simp: public_device_def bundle_of_public_def verify_device_bundle_def
      ed25519_correct_def Let_def)

lemma verify_own_prekey:
  assumes "ed25519_correct C"
  shows "identity_verify_prekey C (bundle_of_public (public_device C d ed curve)) (sign_prekey C d k c)
           = ok ()"
  using assms
  by (auto simp: public_device_def bundle_of_public_def identity_verify_prekey_def sign_prekey_def
      ed25519_correct_def Let_def)

text \<open>
  A device that holds the account master key certifies any bundle so that it verifies under that
  account and that key, its own published device and prekeys verify too, and the certificate is the
  only field of the bundle that certification changes; without the master key it refuses.
\<close>

theorem certification_round_trip:
  assumes "ed25519_correct C"
  shows "case id_master d of
      None \<Rightarrow> certify_bundle C d b = bail ''account master secret is unavailable''
    | Some m \<Rightarrow> (\<exists>sig. certify_bundle C d b = ok (b\<lparr>db_certificate_signature := sig\<rparr>) \<and>
        verify_device_bundle C (ed_public C m) (id_account_id d)
          (b\<lparr>db_certificate_signature := sig\<rparr>) = ok ()) \<and>
        verify_device_bundle C (ed_public C m) (id_account_id d)
          (bundle_of_public (public_device C d ed curve)) = ok () \<and>
        identity_verify_prekey C (bundle_of_public (public_device C d ed curve))
          (sign_prekey C d k c) = ok ()"
proof (cases "id_master d")
  case None
  then show ?thesis by (simp add: certify_bundle_def)
next
  case (Some m)
  then obtain b' where b': "certify_bundle C d b = ok b'" by (simp add: certify_bundle_def)
  then obtain sig where sig: "b' = b\<lparr>db_certificate_signature := sig\<rparr>"
    using Some by (auto simp: certify_bundle_def)
  show ?thesis
    using verify_certified_bundle [OF assms Some b'] verify_own_public_device [OF assms Some]
      verify_own_prekey [OF assms] b' sig Some by auto
qed

definition sample_identity :: DeviceIdentity where
  "sample_identity = \<lparr>id_account_id = ''acc'', id_device_id = ''dev'', id_device_name = ''laptop'',
     id_master = Some (replicate 32 1), id_auth = replicate 32 2\<rparr>"

theorem certification_round_trip_witness:
  "ed25519_correct model_crypto \<and> id_master sample_identity = Some (replicate 32 1) \<and>
   identity_verify_prekey model_crypto
     (bundle_of_public (public_device model_crypto sample_identity [3] [4]))
     (sign_prekey model_crypto sample_identity ''k'' [5]) = ok ()"
  using certification_round_trip [OF model_crypto_ed25519,
      where d = sample_identity and ed = "[3]" and curve = "[4]" and k = "''k''" and c = "[5]"]
  by (simp add: sample_identity_def)

section \<open>Identity files\<close>

lemma strip_prefix_append [simp]: "strip_prefix p (p @ s) = Some s"
  by (simp add: strip_prefix_def)

text \<open>
  A stored identity reads back as it was, whatever the packages encode, as long as \<open>postcard\<close>
  decodes what it encoded; files without the \<open>TCI3\<close> prefix still go to the JSON decoder.
\<close>

theorem identity_file_round_trip:
  assumes "\<And>p e. enc p = ok e \<Longrightarrow> dec e = ok p" "identity_to_bytes enc d = ok bs"
  shows "identity_from_bytes dec json bs = ok d"
proof -
  define p where "p = \<lparr>ip_account_id = id_account_id d, ip_device_id = id_device_id d,
    ip_device_name = id_device_name d, ip_master = id_master d, ip_auth = id_auth d\<rparr>"
  from assms(2) obtain e where e: "enc p = ok e" and bs: "bs = as_bytes ''TCI3'' @ e"
    by (auto simp: identity_to_bytes_def p_def split: sum.splits)
  from assms(1) [OF e] show ?thesis by (simp add: identity_from_bytes_def bs p_def)
qed

definition toy_postcard :: "IdentityPickle \<Rightarrow> bytes result" where
  "toy_postcard p = (if p = \<lparr>ip_account_id = ''acc'', ip_device_id = ''dev'', ip_device_name = ''laptop'',
     ip_master = Some (replicate 32 1), ip_auth = replicate 32 2\<rparr> then ok [9] else bail ''too large'')"

definition toy_unpostcard :: "bytes \<Rightarrow> IdentityPickle result" where
  "toy_unpostcard bs = (if bs = [9] then ok \<lparr>ip_account_id = ''acc'', ip_device_id = ''dev'',
     ip_device_name = ''laptop'', ip_master = Some (replicate 32 1), ip_auth = replicate 32 2\<rparr>
     else bail ''bad'')"

theorem identity_file_round_trip_witness:
  "identity_from_bytes toy_unpostcard (\<lambda>_. bail ''not json'') (as_bytes ''TCI3'' @ [9]) = ok sample_identity"
proof -
  have inv: "toy_postcard p = ok e \<Longrightarrow> toy_unpostcard e = ok p" for p e
    by (auto simp: toy_postcard_def toy_unpostcard_def split: if_splits)
  have bs: "identity_to_bytes toy_postcard sample_identity = ok (as_bytes ''TCI3'' @ [9])"
    by (simp add: identity_to_bytes_def toy_postcard_def sample_identity_def)
  show ?thesis by (rule identity_file_round_trip [OF inv bs])
qed

section \<open>Safety codes\<close>

lemma unat_push_or:
  fixes v :: u64 and b :: u8
  assumes "unat v < 2 ^ 56"
  shows "unat (push_bit 8 v OR ucast b) = unat v * 256 + unat b"
proof -
  have b: "unat b < 256"
    using unsigned_less [of b, where ?'a = nat] by simp
  have disj: "push_bit 8 v AND (ucast b :: u64) = 0"
    by (rule bit_word_eqI) (auto simp: bit_and_iff bit_push_bit_iff bit_ucast_iff dest: bit_imp_le_length)
  then have "push_bit 8 v OR (ucast b :: u64) = push_bit 8 v + ucast b"
    using word_plus_and_or [of "push_bit 8 v" "ucast b"] by simp
  also have "unat \<dots> = unat v * 256 + unat b"
    using assms b
    by (simp add: push_bit_eq_mult unat_word_ariths unsigned_ucast_eq take_bit_nat_eq_self)
  finally show ?thesis .
qed

fun be_value :: "bytes \<Rightarrow> nat" where
  "be_value [] = 0"
| "be_value (b # bs) = unat b * 256 ^ length bs + be_value bs"

lemma be_value_less: "be_value bs < 256 ^ length bs"
proof (induction bs)
  case (Cons b bs)
  have "unat b + 1 \<le> 256" using unsigned_less [of b, where ?'a = nat] by simp
  from mult_le_mono1 [OF this, of "256 ^ length bs"] Cons
  show ?case unfolding be_value.simps length_Cons power_Suc distrib_right by linarith
qed simp

lemma be_value_snoc: "be_value (bs @ [b]) = be_value bs * 256 + unat b"
  by (induction bs) (simp_all add: algebra_simps)

text \<open>The loop over a chunk computes its big-endian value; five bytes cannot overflow a \<open>u64\<close>.\<close>

lemma chunk_value_be: "length bs \<le> 8 \<Longrightarrow> unat (chunk_value bs) = be_value bs"
proof (induction bs rule: rev_induct)
  case Nil
  then show ?case by (simp add: chunk_value_def)
next
  case (snoc b bs)
  then have IH: "unat (chunk_value bs) = be_value bs" by simp
  have "be_value bs < 256 ^ length bs" by (rule be_value_less)
  also have "\<dots> \<le> 256 ^ 7" using snoc.prems by (intro power_increasing) simp_all
  finally have "unat (chunk_value bs) < 2 ^ 56" by (simp add: IH)
  then show ?case
    using unat_push_or [of "chunk_value bs" b] IH by (simp add: chunk_value_def be_value_snoc)
qed

lemma length_five_digits [simp]: "length (five_digits n) = 5"
  by (simp add: five_digits_def)

lemma safety_preimage_sym:
  "ua \<noteq> ub \<or> ka = kb \<Longrightarrow> safety_preimage ua ka ub kb = safety_preimage ub kb ua ka"
  by (auto simp: safety_preimage_def)

lemma chunks_of_5_32:
  "length (bs :: bytes) = 32 \<Longrightarrow> length (take 6 (chunks_of 5 bs)) = 6 \<and>
     list_all (\<lambda>c. length c = 5) (take 6 (chunks_of 5 bs)) \<and>
     concat (take 6 (chunks_of 5 bs)) = take 30 bs"
  by (simp add: eval_nat_numeral length_Suc_conv) auto

text \<open>
  Both users see the same safety code, whichever of them computes it: six groups of five decimal
  digits that read the first 30 bytes of the SHA-256 digest, five bytes each, as big-endian numbers
  modulo 100000.
\<close>

theorem safety_code_agreement:
  assumes "user_a \<noteq> user_b" "\<And>m. length (sha256 C m) = 32"
  shows "safety_code C user_a key_a user_b key_b = safety_code C user_b key_b user_a key_a \<and>
    (\<exists>cs. length cs = 6 \<and> list_all (\<lambda>c. length c = 5) cs \<and>
      concat cs = take 30 (sha256 C (safety_preimage user_a key_a user_b key_b)) \<and>
      safety_code C user_a key_a user_b key_b =
        join_with '' '' (map (\<lambda>c. five_digits (be_value c mod 100000)) cs))"
proof
  show "safety_code C user_a key_a user_b key_b = safety_code C user_b key_b user_a key_a"
    using safety_preimage_sym [of user_a user_b key_a key_b] assms(1) by (simp add: safety_code_def)
  define cs where "cs = take 6 (chunks_of 5 (sha256 C (safety_preimage user_a key_a user_b key_b)))"
  have cs: "length cs = 6 \<and> list_all (\<lambda>c. length c = 5) cs \<and>
      concat cs = take 30 (sha256 C (safety_preimage user_a key_a user_b key_b))"
    unfolding cs_def by (rule chunks_of_5_32) (rule assms(2))
  then have "map (\<lambda>c. five_digits (unat (chunk_value c) mod 100000)) cs =
      map (\<lambda>c. five_digits (be_value c mod 100000)) cs"
    by (auto simp: list_all_iff chunk_value_be)
  then have "safety_code C user_a key_a user_b key_b =
      join_with '' '' (map (\<lambda>c. five_digits (be_value c mod 100000)) cs)"
    by (simp only: safety_code_def cs_def)
  with cs show "\<exists>cs. length cs = 6 \<and> list_all (\<lambda>c. length c = 5) cs \<and>
      concat cs = take 30 (sha256 C (safety_preimage user_a key_a user_b key_b)) \<and>
      safety_code C user_a key_a user_b key_b =
        join_with '' '' (map (\<lambda>c. five_digits (be_value c mod 100000)) cs)" by blast
qed

theorem safety_code_agreement_witness:
  "safety_code model_crypto ''alice'' [1] ''bob'' [2] = safety_code model_crypto ''bob'' [2] ''alice'' [1]"
proof -
  have ne: "''alice'' \<noteq> ''bob''" by simp
  have len: "length (sha256 model_crypto m) = 32" for m by (simp add: model_crypto_def)
  show ?thesis using safety_code_agreement [OF ne len] by blast
qed

text \<open>
  The safety code commits to both users and both account keys: with NUL-free names and 32-byte
  keys the hashed bytes determine the two (name, key) pairs up to order.
\<close>

theorem safety_preimage_binds:
  assumes "nul_free ua" "nul_free ub" "nul_free va" "nul_free vb"
    and "length ka = 32" "length kb = 32" "length la = 32" "length lb = 32"
    and "safety_preimage ua ka ub kb = safety_preimage va la vb lb"
  shows "{(ua, ka), (ub, kb)} = {(va, la), (vb, lb)}"
proof -
  have split: "as_bytes a @ 0 # k @ as_bytes b @ 0 # l = as_bytes a' @ 0 # k' @ as_bytes b' @ 0 # l'
      \<longleftrightarrow> a = a' \<and> k = k' \<and> b = b' \<and> l = l'"
    if "nul_free a" "nul_free a'" "nul_free b" "nul_free b'" "length k = 32" "length k' = 32"
    for a a' b b' k k' and l l' :: bytes
  proof -
    have "as_bytes a @ 0 # k @ as_bytes b @ 0 # l = as_bytes a' @ 0 # k' @ as_bytes b' @ 0 # l'
      \<longleftrightarrow> a = a' \<and> k @ nul_terminated b @ l = k' @ nul_terminated b' @ l'"
      using nul.enc_append_iff [of a a' "k @ nul_terminated b @ l" "k' @ nul_terminated b' @ l'"] that
      by (simp add: nul_terminated_def)
    also have "\<dots> \<longleftrightarrow> a = a' \<and> k = k' \<and> b = b' \<and> l = l'"
      using that by (simp add: nul.enc_append_iff)
    finally show ?thesis .
  qed
  show ?thesis
    using assms
    by (cases "ua \<le> ub"; cases "va \<le> vb") (auto simp: safety_preimage_def split)
qed

theorem safety_preimage_binds_witness:
  "{(''alice'', replicate 32 (1 :: u8)), (''bob'', replicate 32 2)} =
   {(''bob'', replicate 32 2), (''alice'', replicate 32 1)}"
proof -
  have nf: "nul_free ''alice''" "nul_free ''bob''" by (simp_all add: nul_free_def)
  show ?thesis
    by (rule safety_preimage_binds [OF nf nf(2,1)])
      (simp_all add: safety_preimage_sym)
qed

end
