(* ===== verification/Pairing.thy ===== *)
theory Pairing
  imports Crypto_Params Identity
begin

text \<open>
  Device pairing, \<open>crates/crypto/src/pairing.rs\<close>: an X25519 exchange bound to the pairing id, the
  three decimals of the short authentication string, and the encrypted channel. The lemmas show
  that both ends derive the same channel, that the decimals are 13-bit values shifted by 1000 which
  together determine the 39 derived bits they stand for, and that a payload read with the same
  pairing id is the payload that was sent.
\<close>

record PairingState =
  ps_secret :: bytes
  ps_public :: bytes

record PairingChannel =
  ch_key :: bytes
  ch_sas :: "u16 \<times> u16 \<times> u16"

definition pairing_from_secret :: "crypto \<Rightarrow> bytes \<Rightarrow> PairingState" where
  "pairing_from_secret C secret = \<lparr>ps_secret = secret, ps_public = x25519_public C secret\<rparr>"

text \<open>\<open>PairingState::new\<close> draws the secret from \<open>OsRng\<close>.\<close>

definition pairing_new :: "crypto \<Rightarrow> bytes \<Rightarrow> PairingState" where
  "pairing_new C fresh_secret = pairing_from_secret C fresh_secret"

definition sas_of_output :: "bytes \<Rightarrow> u16 \<times> u16 \<times> u16" where
  "sas_of_output out =
     ((push_bit 5 (ucast (out ! 32)) OR ucast (drop_bit 3 (out ! 33))) + 1000,
      (push_bit 10 (ucast (out ! 33 AND 7)) OR push_bit 2 (ucast (out ! 34))
        OR ucast (drop_bit 6 (out ! 35))) + 1000,
      (push_bit 7 (ucast (out ! 35 AND 63)) OR ucast (drop_bit 1 (out ! 36))) + 1000)"

definition pairing_info :: "string \<Rightarrow> bytes \<Rightarrow> bytes \<Rightarrow> bytes" where
  "pairing_info pairing_id own peer =
     (let (first, second) = (if own \<le> peer then (own, peer) else (peer, own))
      in as_bytes ''tui-chat-pairing-v1'' @ [0] @ as_bytes pairing_id @ [0] @ first @ second)"

definition establish :: "crypto \<Rightarrow> PairingState \<Rightarrow> bytes \<Rightarrow> string \<Rightarrow> PairingChannel result" where
  "establish C st peer pairing_id =
     (let shared = x25519_shared C (ps_secret st) peer in
      if \<not> x25519_contributory C shared then bail ''invalid pairing public key''
      else (case hkdf_sha256 C shared (pairing_info pairing_id (ps_public st) peer) 38 of
          None \<Rightarrow> bail ''pairing key derivation failed''
        | Some out \<Rightarrow> ok \<lparr>ch_key = take 32 out, ch_sas = sas_of_output out\<rparr>))"

text \<open>The 24-byte nonce is drawn from \<open>OsRng\<close>.\<close>

definition channel_encrypt :: "crypto \<Rightarrow> PairingChannel \<Rightarrow> bytes \<Rightarrow> string \<Rightarrow> bytes \<Rightarrow> bytes result" where
  "channel_encrypt C ch nonce pairing_id plaintext =
     (if length (ch_key ch) \<noteq> 32 then bail ''invalid pairing key''
      else (case aead_encrypt C (ch_key ch) nonce (as_bytes pairing_id) plaintext of
          None \<Rightarrow> bail ''pairing encryption failed''
        | Some encrypted \<Rightarrow> ok (nonce @ encrypted)))"

definition channel_decrypt :: "crypto \<Rightarrow> PairingChannel \<Rightarrow> string \<Rightarrow> bytes \<Rightarrow> bytes result" where
  "channel_decrypt C ch pairing_id payload =
     (if length payload < 24 then bail ''truncated pairing payload''
      else if length (ch_key ch) \<noteq> 32 then bail ''invalid pairing key''
      else (case aead_decrypt C (ch_key ch) (take 24 payload) (as_bytes pairing_id) (drop 24 payload) of
          None \<Rightarrow> bail ''pairing payload authentication failed''
        | Some plaintext \<Rightarrow> ok plaintext))"

section \<open>Agreement\<close>

lemma pairing_info_sym: "pairing_info p a b = pairing_info p b a"
  by (auto simp: pairing_info_def)

lemma establish_agree:
  assumes "x25519_commutes C"
  shows "establish C (pairing_from_secret C a) (x25519_public C b) pid =
         establish C (pairing_from_secret C b) (x25519_public C a) pid"
proof -
  have "x25519_shared C a (x25519_public C b) = x25519_shared C b (x25519_public C a)"
    using assms by (simp add: x25519_commutes_def)
  then show ?thesis
    by (simp add: establish_def pairing_from_secret_def
        pairing_info_sym [of pid "x25519_public C a" "x25519_public C b"] cong: if_cong)
qed

lemma channel_round_trip:
  assumes "aead_correct C" "length nonce = 24" "channel_encrypt C ch nonce pid m = ok payload"
  shows "channel_decrypt C ch pid payload = ok m"
  using assms
  by (auto simp: channel_encrypt_def channel_decrypt_def aead_correct_def
      split: if_splits option.splits)

text \<open>
  C6. Two devices that exchange their public keys under the same pairing id compute the same
  channel key and the same three decimals, or fail alike, and what one end encrypts with a 24-byte
  nonce the other end decrypts.
\<close>

theorem pairing_agreement:
  assumes "x25519_commutes C" "aead_correct C"
    and "establish C (pairing_from_secret C a) (x25519_public C b) pid = ok ch"
    and "length nonce = 24" "channel_encrypt C ch nonce pid m = ok payload"
  shows "\<exists>ch'. establish C (pairing_from_secret C b) (x25519_public C a) pid = ok ch' \<and>
    ch_sas ch' = ch_sas ch \<and> channel_decrypt C ch' pid payload = ok m"
  using assms(3) establish_agree [OF assms(1)] channel_round_trip [OF assms(2,4,5)] by simp

theorem pairing_agreement_witness:
  "\<exists>ch'. establish model_crypto (pairing_from_secret model_crypto [2]) (x25519_public model_crypto [1]) ''p'' =
     ok ch' \<and> channel_decrypt model_crypto ch' ''p'' (replicate 24 9 @ [1, 112, 5]) = ok [5]"
proof -
  define out where "out = pad_to 38 (3 # replicate 31 0 @ pairing_info ''p'' [1] [2])"
  define ch where "ch = \<lparr>ch_key = take 32 out, ch_sas = sas_of_output out\<rparr>"
  have sh: "x25519_shared model_crypto [1] [2] = 3 # replicate 31 0"
    by (simp add: model_crypto_def pad_to_def numeral_eq_Suc)
  have est: "establish model_crypto (pairing_from_secret model_crypto [1])
      (x25519_public model_crypto [2]) ''p'' = ok ch"
    using sh by (simp add: establish_def pairing_from_secret_def ch_def out_def model_crypto_def)
  have enc: "channel_encrypt model_crypto ch (replicate 24 9) ''p'' [5] = ok (replicate 24 9 @ [1, 112, 5])"
    by (simp add: channel_encrypt_def ch_def out_def model_crypto_def as_bytes_def)
  show ?thesis
    using pairing_agreement [OF model_crypto_x25519 model_crypto_aead est _ enc] by auto
qed

section \<open>The short authentication string\<close>

definition sas_x :: "u8 \<Rightarrow> u8 \<Rightarrow> u16" where
  "sas_x b32 b33 = push_bit 5 (ucast b32) OR ucast (drop_bit 3 b33)"

definition sas_y :: "u8 \<Rightarrow> u8 \<Rightarrow> u8 \<Rightarrow> u16" where
  "sas_y b33 b34 b35 =
     push_bit 10 (ucast (b33 AND 7)) OR push_bit 2 (ucast b34) OR ucast (drop_bit 6 b35)"

definition sas_z :: "u8 \<Rightarrow> u8 \<Rightarrow> u16" where
  "sas_z b35 b36 = push_bit 7 (ucast (b35 AND 63)) OR ucast (drop_bit 1 b36)"

lemma bit_7: "bit (7 :: int) n \<longleftrightarrow> n < 3"
proof -
  have "(7 :: int) = mask 3" by (simp add: mask_eq_exp_minus_1)
  then show ?thesis by (simp only: bit_mask_iff) auto
qed

lemma bit_63: "bit (63 :: int) n \<longleftrightarrow> n < 6"
proof -
  have "(63 :: int) = mask 6" by (simp add: mask_eq_exp_minus_1)
  then show ?thesis by (simp only: bit_mask_iff) auto
qed

lemma bit_u8_less: "bit (b :: u8) n \<Longrightarrow> n < 8"
  using bit_imp_le_length [of b n] by simp

lemma bit_sas_x: "bit (sas_x b32 b33) n \<longleftrightarrow> (5 \<le> n \<and> bit b32 (n - 5)) \<or> bit b33 (n + 3)"
  by (auto simp: sas_x_def bit_or_iff bit_push_bit_iff bit_ucast_iff bit_drop_bit_eq add.commute
      dest: bit_u8_less)

lemma bit_sas_y: "bit (sas_y b33 b34 b35) n \<longleftrightarrow>
    (10 \<le> n \<and> n < 13 \<and> bit b33 (n - 10)) \<or> (2 \<le> n \<and> bit b34 (n - 2)) \<or> bit b35 (n + 6)"
  by (auto simp: sas_y_def bit_or_iff bit_and_iff bit_push_bit_iff bit_ucast_iff bit_drop_bit_eq bit_7
      add.commute dest: bit_u8_less)

lemma bit_sas_z: "bit (sas_z b35 b36) n \<longleftrightarrow> (7 \<le> n \<and> n < 13 \<and> bit b35 (n - 7)) \<or> bit b36 (n + 1)"
  by (auto simp: sas_z_def bit_or_iff bit_and_iff bit_push_bit_iff bit_ucast_iff bit_drop_bit_eq bit_63
      add.commute dest: bit_u8_less)

lemma u16_less_if_bits:
  assumes "\<And>n. bit (w :: u16) n \<Longrightarrow> n < 13"
  shows "unat w \<le> 8191"
proof -
  have "take_bit 13 w = w"
    by (rule bit_word_eqI) (auto simp: bit_take_bit_iff dest: assms)
  then have "unat w = take_bit 13 (unat w)" by (metis unsigned_take_bit_eq)
  also have "\<dots> < 2 ^ 13" by (rule take_bit_nat_less_exp)
  finally show ?thesis by simp
qed

lemma sas_bounds:
  "unat (sas_x a b) \<le> 8191" "unat (sas_y b c d) \<le> 8191" "unat (sas_z d e) \<le> 8191"
  by (rule u16_less_if_bits; auto simp: bit_sas_x bit_sas_y bit_sas_z dest: bit_u8_less)+

lemma unat_plus_1000: "unat (w :: u16) \<le> 8191 \<Longrightarrow> unat (w + 1000) = unat w + 1000"
  by (simp add: unat_word_ariths)

lemma sas_of_output_alt: "sas_of_output out =
    (sas_x (out ! 32) (out ! 33) + 1000, sas_y (out ! 33) (out ! 34) (out ! 35) + 1000,
     sas_z (out ! 35) (out ! 36) + 1000)"
  by (simp add: sas_of_output_def sas_x_def sas_y_def sas_z_def)

lemma sas_inject:
  assumes x: "sas_x a b = sas_x a' b'" and y: "sas_y b c d = sas_y b' c' d'"
    and z: "sas_z d e = sas_z d' e'"
  shows "a = a' \<and> b = b' \<and> c = c' \<and> d = d' \<and> drop_bit 1 e = drop_bit 1 e'"
proof (intro conjI bit_word_eqI)
  have xb: "bit (sas_x a b) n = bit (sas_x a' b') n" for n by (simp add: x)
  have yb: "bit (sas_y b c d) n = bit (sas_y b' c' d') n" for n by (simp add: y)
  have zb: "bit (sas_z d e) n = bit (sas_z d' e') n" for n by (simp add: z)
  fix k :: nat
  assume "k < LENGTH(8)"
  then have k: "k < 8" by simp
  show "bit a k = bit a' k"
    using xb [of "k + 5"] by (auto simp: bit_sas_x dest: bit_u8_less)
  show "bit b k = bit b' k"
  proof (cases "k < 3")
    case True
    then show ?thesis using yb [of "k + 10"] by (auto simp: bit_sas_y dest: bit_u8_less)
  next
    case False
    then show ?thesis using xb [of "k - 3"] k by (auto simp: bit_sas_x)
  qed
  show "bit c k = bit c' k"
    using yb [of "k + 2"] k by (auto simp: bit_sas_y dest: bit_u8_less)
  show "bit d k = bit d' k"
  proof (cases "k < 6")
    case True
    then show ?thesis using zb [of "k + 7"] by (auto simp: bit_sas_z dest: bit_u8_less)
  next
    case False
    then show ?thesis using yb [of "k - 6"] k by (auto simp: bit_sas_y)
  qed
  show "bit (drop_bit 1 e) k = bit (drop_bit 1 e') k"
    using zb [of k] k by (auto simp: bit_sas_z bit_drop_bit_eq add.commute dest: bit_u8_less)
qed

text \<open>
  Each decimal lies between 1000 and 9191 (the \<open>u16\<close> sums do not wrap), and two derivations
  show the same decimals only if they agree on the 39 bits that the decimals stand for: bytes 32 to
  35 of the output and the upper seven bits of byte 36.
\<close>

theorem sas_decimals_faithful:
  "case sas_of_output out of (x, y, z) \<Rightarrow>
     (1000 \<le> unat x \<and> unat x \<le> 9191) \<and> (1000 \<le> unat y \<and> unat y \<le> 9191) \<and>
     (1000 \<le> unat z \<and> unat z \<le> 9191) \<and>
     (sas_of_output out' = (x, y, z) \<longleftrightarrow>
       out ! 32 = out' ! 32 \<and> out ! 33 = out' ! 33 \<and> out ! 34 = out' ! 34 \<and> out ! 35 = out' ! 35 \<and>
       drop_bit 1 (out ! 36) = drop_bit 1 (out' ! 36))"
proof -
  have z: "sas_z d e = sas_z d e'" if "drop_bit (Suc 0) e' = drop_bit (Suc 0) e" for d e e'
    using that by (simp add: sas_z_def)
  show ?thesis
    using sas_inject [of "out' ! 32" "out' ! 33" "out ! 32" "out ! 33" "out' ! 34" "out' ! 35"
        "out ! 34" "out ! 35" "out' ! 36" "out ! 36"]
    by (auto simp: sas_of_output_alt unat_plus_1000 sas_bounds intro: z)
qed

end
