(* ===== verification/Vault.thy ===== *)
theory Vault
  imports Crypto_Params
begin

text \<open>
  Local storage encryption, \<open>crates/crypto/src/vault.rs\<close>: the binary format of encrypted blobs and
  of the wrapped vault key, the passphrase-wrapped random vault key (format version 2) and the older
  blobs encrypted under the passphrase itself (version 1). Random bytes from \<open>OsRng\<close> are
  arguments; a fixed-size array is a list, with its length stated where it matters. The JSON decoder
  that reads files without a binary prefix is an argument.
\<close>

record EncryptedBlob =
  blob_version :: u8
  blob_salt :: bytes
  blob_nonce :: bytes
  blob_ciphertext :: bytes

record WrappedVaultKey =
  wvk_version :: u8
  wvk_salt :: bytes
  wvk_nonce :: bytes
  wvk_ciphertext :: bytes

type_synonym VaultKey = bytes

section \<open>Binary formats\<close>

definition blob_to_bytes :: "EncryptedBlob \<Rightarrow> bytes" where
  "blob_to_bytes b = as_bytes ''TCB'' @ [blob_version b] @ blob_salt b @ blob_nonce b @ blob_ciphertext b"

definition slice :: "nat \<Rightarrow> nat \<Rightarrow> 'a list \<Rightarrow> 'a list" where
  "slice i j xs = take (j - i) (drop i xs)"

definition blob_from_bytes :: "(bytes \<Rightarrow> EncryptedBlob result) \<Rightarrow> bytes \<Rightarrow> EncryptedBlob result" where
  "blob_from_bytes json_decode encoded =
     (if \<not> starts_with encoded (as_bytes ''TCB'') then json_decode encoded
      else if length encoded < 44 then bail ''truncated encrypted blob''
      else ok \<lparr>blob_version = encoded ! 3, blob_salt = slice 4 20 encoded,
               blob_nonce = slice 20 44 encoded, blob_ciphertext = drop 44 encoded\<rparr>)"

definition wrapped_to_bytes :: "WrappedVaultKey \<Rightarrow> bytes" where
  "wrapped_to_bytes w = as_bytes ''TCW'' @ [wvk_version w] @ wvk_salt w @ wvk_nonce w @ wvk_ciphertext w"

definition wrapped_from_bytes :: "(bytes \<Rightarrow> WrappedVaultKey result) \<Rightarrow> bytes \<Rightarrow> WrappedVaultKey result" where
  "wrapped_from_bytes json_decode encoded =
     (if \<not> starts_with encoded (as_bytes ''TCW'') then json_decode encoded
      else if length encoded < 44 then bail ''truncated wrapped vault key''
      else ok \<lparr>wvk_version = encoded ! 3, wvk_salt = slice 4 20 encoded,
               wvk_nonce = slice 20 44 encoded, wvk_ciphertext = drop 44 encoded\<rparr>)"

section \<open>Keys\<close>

definition derive_key :: "crypto \<Rightarrow> string \<Rightarrow> bytes \<Rightarrow> bytes result" where
  "derive_key C passphrase salt = (case argon2id_key C passphrase salt of
       None \<Rightarrow> bail ''argon2 error''
     | Some key \<Rightarrow> ok key)"

definition VAULT_KEY_AAD :: bytes where
  "VAULT_KEY_AAD = as_bytes ''tui-chat-vault-key-v2''"

definition vault_create ::
  "crypto \<Rightarrow> bytes \<Rightarrow> bytes \<Rightarrow> bytes \<Rightarrow> string \<Rightarrow> (VaultKey \<times> WrappedVaultKey) result" where
  "vault_create C data_key salt nonce passphrase =
     (case derive_key C passphrase salt of
        Inl e \<Rightarrow> Inl e
      | Inr wrapping_key \<Rightarrow>
          if length wrapping_key \<noteq> 32 then bail ''invalid vault wrapping key''
          else (case aead_encrypt C wrapping_key nonce VAULT_KEY_AAD data_key of
              None \<Rightarrow> bail ''failed to wrap local vault key''
            | Some ciphertext \<Rightarrow> ok (data_key,
                \<lparr>wvk_version = 2, wvk_salt = salt, wvk_nonce = nonce, wvk_ciphertext = ciphertext\<rparr>)))"

definition vault_unlock :: "crypto \<Rightarrow> string \<Rightarrow> WrappedVaultKey \<Rightarrow> VaultKey result" where
  "vault_unlock C passphrase wrapped =
     (if wvk_version wrapped \<noteq> 2 then bail ''unsupported wrapped vault key version''
      else (case derive_key C passphrase (wvk_salt wrapped) of
          Inl e \<Rightarrow> Inl e
        | Inr wrapping_key \<Rightarrow>
            if length wrapping_key \<noteq> 32 then bail ''invalid vault wrapping key''
            else (case aead_decrypt C wrapping_key (wvk_nonce wrapped) VAULT_KEY_AAD
                         (wvk_ciphertext wrapped) of
                None \<Rightarrow> bail ''wrong local passphrase or corrupted vault key''
              | Some plaintext \<Rightarrow>
                  if length plaintext \<noteq> 32 then bail ''invalid local vault key length''
                  else ok plaintext)))"

definition vault_encrypt :: "crypto \<Rightarrow> VaultKey \<Rightarrow> bytes \<Rightarrow> bytes \<Rightarrow> bytes \<Rightarrow> EncryptedBlob result" where
  "vault_encrypt C key nonce aad plaintext =
     (if length key \<noteq> 32 then bail ''invalid local vault key''
      else (case aead_encrypt C key nonce aad plaintext of
          None \<Rightarrow> bail ''local encryption failed''
        | Some ciphertext \<Rightarrow> ok \<lparr>blob_version = 2, blob_salt = replicate 16 0, blob_nonce = nonce,
            blob_ciphertext = ciphertext\<rparr>))"

definition vault_decrypt :: "crypto \<Rightarrow> VaultKey \<Rightarrow> bytes \<Rightarrow> EncryptedBlob \<Rightarrow> bytes result" where
  "vault_decrypt C key aad blob =
     (if blob_version blob \<noteq> 2 then bail ''encrypted blob does not use the unlocked vault key''
      else if length key \<noteq> 32 then bail ''invalid local vault key''
      else (case aead_decrypt C key (blob_nonce blob) aad (blob_ciphertext blob) of
          None \<Rightarrow> bail ''wrong local vault key or corrupted data''
        | Some plaintext \<Rightarrow> ok plaintext))"

section \<open>Blobs under the passphrase (version 1)\<close>

definition encrypt_blob :: "crypto \<Rightarrow> bytes \<Rightarrow> bytes \<Rightarrow> string \<Rightarrow> bytes \<Rightarrow> bytes \<Rightarrow> EncryptedBlob result" where
  "encrypt_blob C salt nonce passphrase aad plaintext =
     (case derive_key C passphrase salt of
        Inl e \<Rightarrow> Inl e
      | Inr key \<Rightarrow>
          if length key \<noteq> 32 then bail ''invalid storage key''
          else (case aead_encrypt C key nonce aad plaintext of
              None \<Rightarrow> bail ''local encryption failed''
            | Some ciphertext \<Rightarrow> ok \<lparr>blob_version = 1, blob_salt = salt, blob_nonce = nonce,
                blob_ciphertext = ciphertext\<rparr>))"

definition decrypt_blob :: "crypto \<Rightarrow> string \<Rightarrow> bytes \<Rightarrow> EncryptedBlob \<Rightarrow> bytes result" where
  "decrypt_blob C passphrase aad blob =
     (if blob_version blob \<noteq> 1 then bail ''unsupported encrypted storage version''
      else (case derive_key C passphrase (blob_salt blob) of
          Inl e \<Rightarrow> Inl e
        | Inr key \<Rightarrow>
            if length key \<noteq> 32 then bail ''invalid storage key''
            else (case aead_decrypt C key (blob_nonce blob) aad (blob_ciphertext blob) of
                None \<Rightarrow> bail ''wrong local passphrase or corrupted data''
              | Some plaintext \<Rightarrow> ok plaintext)))"

section \<open>Round trips\<close>

text \<open>
  Both formats share the layout tag, version, salt, nonce, ciphertext; reading and writing are
  inverse on the byte strings that carry the tag.
\<close>

definition blob_wf :: "EncryptedBlob \<Rightarrow> bool" where
  "blob_wf b \<longleftrightarrow> length (blob_salt b) = 16 \<and> length (blob_nonce b) = 24"

definition wrapped_wf :: "WrappedVaultKey \<Rightarrow> bool" where
  "wrapped_wf w \<longleftrightarrow> length (wvk_salt w) = 16 \<and> length (wvk_nonce w) = 24"

lemma layout_parts:
  assumes "length t = 3" "length s = 16" "length n = (24 :: nat)"
  shows "(t @ [v] @ s @ n @ c) ! 3 = v" "slice 4 20 (t @ [v] @ s @ n @ c) = s"
    "slice 20 44 (t @ [v] @ s @ n @ c) = n" "drop 44 (t @ [v] @ s @ n @ c) = c"
    "44 \<le> length (t @ [v] @ s @ n @ c)"
  using assms by (simp_all add: slice_def nth_append)

lemma layout_rebuild:
  assumes "44 \<le> length e"
  shows "take 3 e @ [e ! 3] @ slice 4 20 e @ slice 20 44 e @ drop 44 e = e"
proof -
  have "take 3 e @ [e ! 3] = take 4 e"
    using assms take_Suc_conv_app_nth [of 3 e] by simp
  moreover have "take i e @ slice i j e = take j e" if "i \<le> j" for i j
    using that take_add [of i "j - i" e] by (simp add: slice_def)
  ultimately have "((take 3 e @ [e ! 3]) @ slice 4 20 e) @ slice 20 44 e = take 44 e"
    by simp
  then show ?thesis by (metis append.assoc append_take_drop_id)
qed

lemma tag_length: "length (as_bytes ''TCB'') = 3" "length (as_bytes ''TCW'') = 3"
  by simp_all

lemma blob_from_to_bytes: "blob_wf b \<Longrightarrow> blob_from_bytes json (blob_to_bytes b) = ok b"
  using layout_parts [OF tag_length(1), of "blob_salt b" "blob_nonce b" "blob_version b" "blob_ciphertext b"]
  by (simp add: blob_from_bytes_def blob_to_bytes_def blob_wf_def del: length_append)

text \<open>
  The blob format round-trips: every blob with a 16-byte salt and a 24-byte nonce reads back
  from its bytes, and every tagged byte string that is accepted is the encoding of the blob read
  from it; a tagged string shorter than 44 bytes is refused, an untagged one goes to the JSON
  decoder.
\<close>

theorem blob_format_round_trip:
  assumes "blob_wf b"
  shows "blob_from_bytes json (blob_to_bytes b) = ok b \<and>
    (\<forall>e. if \<not> starts_with e (as_bytes ''TCB'') then blob_from_bytes json e = json e
      else if length e < 44 then blob_from_bytes json e = bail ''truncated encrypted blob''
      else (\<exists>b'. blob_from_bytes json e = ok b' \<and> blob_wf b' \<and> blob_to_bytes b' = e))"
proof (intro conjI allI)
  show "blob_from_bytes json (blob_to_bytes b) = ok b" by (rule blob_from_to_bytes [OF assms])
  fix e
  show "if \<not> starts_with e (as_bytes ''TCB'') then blob_from_bytes json e = json e
      else if length e < 44 then blob_from_bytes json e = bail ''truncated encrypted blob''
      else (\<exists>b'. blob_from_bytes json e = ok b' \<and> blob_wf b' \<and> blob_to_bytes b' = e)"
    using layout_rebuild [of e]
    by (auto simp: blob_from_bytes_def blob_to_bytes_def blob_wf_def starts_with_def slice_def
        numeral_3_eq_3)
qed

theorem blob_format_round_trip_witness:
  "blob_from_bytes (\<lambda>_. bail ''not json'') (blob_to_bytes \<lparr>blob_version = 2, blob_salt = replicate 16 0,
     blob_nonce = replicate 24 7, blob_ciphertext = [1, 2]\<rparr>) =
   ok \<lparr>blob_version = 2, blob_salt = replicate 16 0, blob_nonce = replicate 24 7, blob_ciphertext = [1, 2]\<rparr>"
  by (rule blob_format_round_trip [THEN conjunct1]) (simp add: blob_wf_def)

lemma wrapped_from_to_bytes: "wrapped_wf w \<Longrightarrow> wrapped_from_bytes json (wrapped_to_bytes w) = ok w"
  using layout_parts [OF tag_length(2), of "wvk_salt w" "wvk_nonce w" "wvk_version w" "wvk_ciphertext w"]
  by (simp add: wrapped_from_bytes_def wrapped_to_bytes_def wrapped_wf_def del: length_append)

lemma unlock_created:
  assumes "aead_correct C" "length data_key = 32" "vault_create C data_key salt nonce p = ok (key, w)"
  shows "key = data_key \<and> wvk_salt w = salt \<and> wvk_nonce w = nonce \<and> vault_unlock C p w = ok key"
  using assms
  by (auto simp: vault_create_def vault_unlock_def aead_correct_def
      split: sum.splits if_splits option.splits)

lemma decrypt_encrypted:
  assumes "aead_correct C" "vault_encrypt C key nonce aad m = ok b"
  shows "vault_decrypt C key aad b = ok m"
  using assms
  by (auto simp: vault_encrypt_def vault_decrypt_def aead_correct_def split: if_splits option.splits)

text \<open>
  What was encrypted under a new vault key is readable after a restart: the wrapped key is
  written to bytes, read back and unlocked with the same passphrase, and then decrypts every blob
  written under it, also after the blob's own trip through its byte format.
\<close>

theorem vault_reopens:
  assumes "aead_correct C" "length data_key = 32" "length salt = 16" "length nonce = 24"
    and "vault_create C data_key salt nonce passphrase = ok (key, wrapped)"
    and "length blob_n = 24" "vault_encrypt C key blob_n aad m = ok blob"
  shows "\<exists>w key' b. wrapped_from_bytes json (wrapped_to_bytes wrapped) = ok w \<and>
    vault_unlock C passphrase w = ok key' \<and> blob_from_bytes json' (blob_to_bytes blob) = ok b \<and>
    vault_decrypt C key' aad b = ok m"
proof -
  have u: "wvk_salt wrapped = salt" "wvk_nonce wrapped = nonce"
      "vault_unlock C passphrase wrapped = ok key"
    using unlock_created [OF assms(1,2,5)] by simp_all
  have "wrapped_from_bytes json (wrapped_to_bytes wrapped) = ok wrapped"
    using u assms(3,4) by (intro wrapped_from_to_bytes) (simp add: wrapped_wf_def)
  moreover have "blob_wf blob"
    using assms(6,7) by (auto simp: vault_encrypt_def blob_wf_def split: if_splits option.splits)
  ultimately show ?thesis
    using u blob_from_to_bytes decrypt_encrypted [OF assms(1,7)] by blast
qed

theorem vault_reopens_witness:
  "\<exists>w key' b. wrapped_from_bytes (\<lambda>_. bail ''not json'') (wrapped_to_bytes \<lparr>wvk_version = 2, wvk_salt = replicate 16 3,
      wvk_nonce = replicate 24 4, wvk_ciphertext = 21 # VAULT_KEY_AAD @ replicate 32 5\<rparr>) = ok w \<and>
    vault_unlock model_crypto ''pass'' w = ok key' \<and>
    blob_from_bytes (\<lambda>_. bail ''not json'') (blob_to_bytes \<lparr>blob_version = 2, blob_salt = replicate 16 0,
      blob_nonce = replicate 24 6, blob_ciphertext = [1, 8, 9]\<rparr>) = ok b \<and>
    vault_decrypt model_crypto key' [8] b = ok [9]"
  by (rule vault_reopens [OF model_crypto_aead, where blob_n = "replicate 24 6" and
        data_key = "replicate 32 5" and key = "replicate 32 5" and salt = "replicate 16 3" and nonce = "replicate 24 4"])
    (simp_all add: vault_create_def vault_encrypt_def derive_key_def model_crypto_def VAULT_KEY_AAD_def)

end
