(* ===== verification/Olm_Machine.thy ===== *)
theory Olm_Machine
  imports Identity
begin

text \<open>
  The Olm session store, \<open>crates/crypto/src/machine.rs\<close>. The ratchet itself (\<open>vodozemac\<close>) is not
  under \<open>src/\<close>: accounts, sessions, messages and pickles are types of the model's own parameters and
  their operations are fields of a record. What the code adds is modelled: which session encrypts,
  the order in which sessions are tried on an incoming message, the creation of inbound sessions,
  the limit of five sessions per device, and the three pickle formats.
\<close>

record ('a, 's, 'pa, 'ps) olm =
  olm_session_encrypt :: "'s \<Rightarrow> bytes \<Rightarrow> ((nat \<times> bytes) \<times> 's) result"
  olm_message_ok :: "nat \<Rightarrow> bytes \<Rightarrow> bool"            \<comment> \<open>\<open>OlmMessage::from_parts\<close> succeeds\<close>
  olm_is_prekey :: "nat \<Rightarrow> bytes \<Rightarrow> bool"
  olm_session_decrypt :: "'s \<Rightarrow> nat \<times> bytes \<Rightarrow> bytes option \<times> 's"
  olm_session_id :: "'s \<Rightarrow> string"
  olm_create_outbound :: "'a \<Rightarrow> bytes \<Rightarrow> bytes \<Rightarrow> 's result"
  olm_create_inbound :: "'a \<Rightarrow> bytes \<Rightarrow> nat \<times> bytes \<Rightarrow> (('s \<times> bytes) result) \<times> 'a"
  olm_generate_otks :: "nat \<Rightarrow> 'a \<Rightarrow> 'a"
  olm_stored_otk_count :: "'a \<Rightarrow> nat"
  olm_one_time_keys :: "'a \<Rightarrow> (string \<times> bytes) list"
  olm_mark_published :: "'a \<Rightarrow> 'a"
  olm_account_pickle :: "'a \<Rightarrow> 'pa"
  olm_account_from_pickle :: "'pa \<Rightarrow> 'a"
  olm_session_pickle :: "'s \<Rightarrow> 'ps"
  olm_session_from_pickle :: "'ps \<Rightarrow> 's"

record PreKeyMaterial =
  pkm_device_id :: string
  pkm_identity_key :: bytes
  pkm_one_time_key :: bytes

record EncryptedOlm =
  eo_message_type :: u32
  eo_ciphertext :: bytes

record ('a, 's) OlmMachine =
  om_account :: 'a
  om_sessions :: "string \<Rightarrow> 's list option"

record ('pa, 'ps) MachinePickleV2 =
  mp2_account :: 'pa
  mp2_sessions :: "string \<Rightarrow> 'ps list option"

record ('pa, 'ps) MachinePickleV1 =
  mp1_account :: 'pa
  mp1_sessions :: "string \<Rightarrow> 'ps option"

definition machine_new :: "'a \<Rightarrow> ('a, 's) OlmMachine" where
  "machine_new fresh_account = \<lparr>om_account = fresh_account, om_sessions = Map.empty\<rparr>"

definition generate_prekeys ::
  "('a, 's, 'pa, 'ps) olm \<Rightarrow> nat \<Rightarrow> ('a, 's) OlmMachine \<Rightarrow> ('a, 's) OlmMachine" where
  "generate_prekeys L count m = m\<lparr>om_account := olm_generate_otks L count (om_account m)\<rparr>"

definition stored_prekey_count :: "('a, 's, 'pa, 'ps) olm \<Rightarrow> ('a, 's) OlmMachine \<Rightarrow> nat" where
  "stored_prekey_count L m = olm_stored_otk_count L (om_account m)"

definition unpublished_prekeys ::
  "('a, 's, 'pa, 'ps) olm \<Rightarrow> ('a, 's) OlmMachine \<Rightarrow> (string \<times> bytes) list" where
  "unpublished_prekeys L m = olm_one_time_keys L (om_account m)"

definition mark_prekeys_published ::
  "('a, 's, 'pa, 'ps) olm \<Rightarrow> ('a, 's) OlmMachine \<Rightarrow> ('a, 's) OlmMachine" where
  "mark_prekeys_published L m = m\<lparr>om_account := olm_mark_published L (om_account m)\<rparr>"

definition has_session :: "('a, 's) OlmMachine \<Rightarrow> string \<Rightarrow> bool" where
  "has_session m device_id = (case om_sessions m device_id of None \<Rightarrow> False | Some items \<Rightarrow> items \<noteq> [])"

text \<open>\<open>sessions.get_mut(device).and_then(last_mut)\<close>, with the error that its absence gives.\<close>

definition encrypt_last :: "('a, 's, 'pa, 'ps) olm \<Rightarrow> string \<Rightarrow> string \<Rightarrow> bytes \<Rightarrow>
    ('a, 's) OlmMachine \<Rightarrow> EncryptedOlm result \<times> ('a, 's) OlmMachine" where
  "encrypt_last L missing device_id plaintext m =
     (case om_sessions m device_id of
        None \<Rightarrow> (bail missing, m)
      | Some sessions \<Rightarrow>
          if sessions = [] then (bail missing, m)
          else (case olm_session_encrypt L (last sessions) plaintext of
              Inl e \<Rightarrow> (Inl e, m)
            | Inr ((message_type, ciphertext), session') \<Rightarrow>
                (ok \<lparr>eo_message_type = of_nat message_type, eo_ciphertext = ciphertext\<rparr>,
                 m\<lparr>om_sessions := (om_sessions m)(device_id \<mapsto> butlast sessions @ [session'])\<rparr>)))"

definition encrypt_existing :: "('a, 's, 'pa, 'ps) olm \<Rightarrow> string \<Rightarrow> bytes \<Rightarrow>
    ('a, 's) OlmMachine \<Rightarrow> EncryptedOlm result \<times> ('a, 's) OlmMachine" where
  "encrypt_existing L device_id plaintext m =
     encrypt_last L ''no Olm session for device'' device_id plaintext m"

definition machine_encrypt :: "('a, 's, 'pa, 'ps) olm \<Rightarrow> PreKeyMaterial \<Rightarrow> bytes \<Rightarrow>
    ('a, 's) OlmMachine \<Rightarrow> EncryptedOlm result \<times> ('a, 's) OlmMachine" where
  "machine_encrypt L recipient plaintext m =
     (let device = pkm_device_id recipient;
          prepared = (if has_session m device then ok m
            else (case olm_create_outbound L (om_account m) (pkm_identity_key recipient)
                         (pkm_one_time_key recipient) of
                Inl e \<Rightarrow> Inl e
              | Inr session \<Rightarrow> ok (m\<lparr>om_sessions := (om_sessions m)(device \<mapsto>
                  coalesce (om_sessions m device) [] @ [session])\<rparr>)))
      in (case prepared of
            Inl e \<Rightarrow> (Inl e, m)
          | Inr m' \<Rightarrow> encrypt_last L ''new Olm session disappeared'' device plaintext m'))"

text \<open>
  The loop \<open>for session in sessions.iter_mut().rev()\<close>: the newest session first; a session that
  was tried keeps whatever state its attempt left.
\<close>

fun try_sessions :: "('a, 's, 'pa, 'ps) olm \<Rightarrow> nat \<times> bytes \<Rightarrow> 's list \<Rightarrow> bytes option \<times> 's list" where
  "try_sessions L msg [] = (None, [])"
| "try_sessions L msg (s # rest) =
     (case olm_session_decrypt L s msg of
        (Some plaintext, s') \<Rightarrow> (Some plaintext, s' # rest)
      | (None, s') \<Rightarrow> (case try_sessions L msg rest of (r, rest') \<Rightarrow> (r, s' # rest')))"

definition MAX_SESSIONS :: nat where
  "MAX_SESSIONS = 5"

definition push_session :: "('a, 's, 'pa, 'ps) olm \<Rightarrow> 's \<Rightarrow> 's list \<Rightarrow> 's list" where
  "push_session L inbound sessions =
     (if \<exists>s \<in> set sessions. olm_session_id L s = olm_session_id L inbound then sessions
      else (let pushed = sessions @ [inbound]
            in if length pushed > MAX_SESSIONS then drop 1 pushed else pushed))"

definition machine_decrypt :: "('a, 's, 'pa, 'ps) olm \<Rightarrow> string \<Rightarrow> bytes \<Rightarrow> EncryptedOlm \<Rightarrow>
    ('a, 's) OlmMachine \<Rightarrow> bytes result \<times> ('a, 's) OlmMachine" where
  "machine_decrypt L sender_device sender_identity_key encrypted m =
     (let mt = unat (eo_message_type encrypted); msg = (mt, eo_ciphertext encrypted) in
      if \<not> olm_message_ok L mt (eo_ciphertext encrypted) then (bail ''invalid Olm message'', m)
      else
       (case (case om_sessions m sender_device of
                None \<Rightarrow> (None, m)
              | Some sessions \<Rightarrow>
                 (case try_sessions L msg (rev sessions) of (r, tried) \<Rightarrow>
                    (r, m\<lparr>om_sessions := (om_sessions m)(sender_device \<mapsto> rev tried)\<rparr>))) of
          (Some plaintext, m1) \<Rightarrow> (ok plaintext, m1)
        | (None, m1) \<Rightarrow>
            if \<not> olm_is_prekey L mt (eo_ciphertext encrypted) then (bail ''no matching Olm session'', m1)
            else
             (case olm_create_inbound L (om_account m1) sender_identity_key msg of
                (Inl e, a) \<Rightarrow> (Inl e, m1\<lparr>om_account := a\<rparr>)
              | (Inr (inbound, plaintext), a) \<Rightarrow>
                  (ok plaintext, m1\<lparr>om_account := a, om_sessions := (om_sessions m1)(sender_device \<mapsto>
                     push_session L inbound (coalesce (om_sessions m1 sender_device) []))\<rparr>))))"

section \<open>Pickles\<close>

definition machine_to_bytes :: "('a, 's, 'pa, 'ps) olm \<Rightarrow> (('pa, 'ps) MachinePickleV2 \<Rightarrow> bytes result) \<Rightarrow>
    ('a, 's) OlmMachine \<Rightarrow> bytes result" where
  "machine_to_bytes L json_encode m =
     (case json_encode \<lparr>mp2_account = olm_account_pickle L (om_account m),
          mp2_sessions = (\<lambda>d. map_option (map (olm_session_pickle L)) (om_sessions m d))\<rparr> of
        Inl e \<Rightarrow> Inl e
      | Inr encoded \<Rightarrow> ok (as_bytes ''TCM3'' @ encoded))"

definition from_pickle_v2 ::
  "('a, 's, 'pa, 'ps) olm \<Rightarrow> ('pa, 'ps) MachinePickleV2 \<Rightarrow> ('a, 's) OlmMachine" where
  "from_pickle_v2 L p = \<lparr>om_account = olm_account_from_pickle L (mp2_account p),
     om_sessions = (\<lambda>d. map_option (map (olm_session_from_pickle L)) (mp2_sessions p d))\<rparr>"

definition machine_from_bytes :: "('a, 's, 'pa, 'ps) olm \<Rightarrow> (bytes \<Rightarrow> ('pa, 'ps) MachinePickleV2 result) \<Rightarrow>
    (bytes \<Rightarrow> ('pa, 'ps) MachinePickleV1 result) \<Rightarrow> bytes \<Rightarrow> ('a, 's) OlmMachine result" where
  "machine_from_bytes L json_v2 json_v1 bs =
     (case strip_prefix (as_bytes ''TCM3'') bs of
        Some encoded \<Rightarrow> (case json_v2 encoded of Inl e \<Rightarrow> Inl e | Inr p \<Rightarrow> ok (from_pickle_v2 L p))
      | None \<Rightarrow>
         (case json_v2 bs of
            Inr p \<Rightarrow> ok (from_pickle_v2 L p)
          | Inl _ \<Rightarrow>
             (case json_v1 bs of
                Inl e \<Rightarrow> Inl e
              | Inr p \<Rightarrow> ok \<lparr>om_account = olm_account_from_pickle L (mp1_account p),
                  om_sessions = (\<lambda>d. map_option (\<lambda>s. [olm_session_from_pickle L s]) (mp1_sessions p d))\<rparr>)))"

section \<open>Sessions per device\<close>

definition sessions_bounded :: "('a, 's) OlmMachine \<Rightarrow> bool" where
  "sessions_bounded m \<longleftrightarrow> (\<forall>d l. om_sessions m d = Some l \<longrightarrow> length l \<le> MAX_SESSIONS)"

lemma length_try_sessions: "length (snd (try_sessions L msg ss)) = length ss"
  by (induction ss) (auto split: prod.splits option.splits)

lemma length_push_session:
  "length ss \<le> MAX_SESSIONS \<Longrightarrow> length (push_session L i ss) \<le> MAX_SESSIONS"
  by (auto simp: push_session_def Let_def)

lemma push_session_keeps_newest: "push_session L i ss = ss \<or> last (push_session L i ss) = i"
  by (cases ss) (auto simp: push_session_def Let_def MAX_SESSIONS_def)

lemma encrypt_last_bounded:
  "sessions_bounded m \<Longrightarrow> sessions_bounded (snd (encrypt_last L e d p m))"
  by (auto simp: encrypt_last_def sessions_bounded_def split: option.splits sum.splits)

lemma encrypt_last_frame:
  "d' \<noteq> d \<Longrightarrow> om_sessions (snd (encrypt_last L e d p m)) d' = om_sessions m d'"
  "om_account (snd (encrypt_last L e d p m)) = om_account m"
  by (auto simp: encrypt_last_def split: option.splits sum.splits)

lemma has_session_False: "\<not> has_session m d \<Longrightarrow> coalesce (om_sessions m d) [] = []"
  by (auto simp: has_session_def coalesce_def split: option.splits)

lemma machine_encrypt_bounded:
  assumes "sessions_bounded m"
  shows "sessions_bounded (snd (machine_encrypt L r p m))"
proof -
  have "sessions_bounded (m\<lparr>om_sessions := (om_sessions m)(d \<mapsto> coalesce (om_sessions m d) [] @ [s])\<rparr>)"
    if "\<not> has_session m d" for d s
    using assms by (auto simp: has_session_False [OF that] sessions_bounded_def MAX_SESSIONS_def)
  with assms show ?thesis
    by (auto simp: machine_encrypt_def Let_def encrypt_last_bounded split: sum.splits)
qed

lemma machine_decrypt_bounded:
  assumes "sessions_bounded m"
  shows "sessions_bounded (snd (machine_decrypt L d k e m))"
proof -
  define msg where "msg = (unat (eo_message_type e), eo_ciphertext e)"
  define m1 where "m1 ss = m\<lparr>om_sessions := (om_sessions m)(d \<mapsto> rev (snd (try_sessions L msg (rev ss))))\<rparr>" for ss
  have m1: "sessions_bounded (m1 ss)" if "om_sessions m d = Some ss" for ss
    using assms that by (auto simp: m1_def sessions_bounded_def length_try_sessions)
  have push: "sessions_bounded (x\<lparr>om_account := a, om_sessions := (om_sessions x)(d \<mapsto>
      push_session L i (coalesce (om_sessions x d) []))\<rparr>)" if "sessions_bounded x" for x a i
    using that
    by (auto simp: sessions_bounded_def coalesce_def intro!: length_push_session split: option.splits)
  have acc: "sessions_bounded (x\<lparr>om_account := a\<rparr>)" if "sessions_bounded x" for x a
    using that by (simp add: sessions_bounded_def)
  show ?thesis
  proof (cases "om_sessions m d")
    case None
    with assms push [OF assms] acc [OF assms] show ?thesis
      by (auto simp: machine_decrypt_def Let_def split: prod.splits sum.splits)
  next
    case (Some ss)
    with assms push [OF m1 [OF Some]] acc [OF m1 [OF Some]] m1 [OF Some] show ?thesis
      by (auto simp: machine_decrypt_def Let_def msg_def m1_def split: prod.splits sum.splits option.splits)
  qed
qed

text \<open>
  No device ever has more than five Olm sessions: encryption to it, to another device, and
  decryption keep the bound, whatever the ratchet returns.
\<close>

theorem olm_sessions_bounded:
  assumes "sessions_bounded m"
  shows "sessions_bounded (snd (machine_encrypt L r p m)) \<and>
    sessions_bounded (snd (encrypt_existing L d p m)) \<and>
    sessions_bounded (snd (machine_decrypt L d k e m))"
  unfolding encrypt_existing_def
  by (intro conjI machine_encrypt_bounded machine_decrypt_bounded encrypt_last_bounded assms)

text \<open>A ratchet for the witnesses: a session is its identifier and decrypts messages that name it.\<close>

definition toy_olm :: "(nat, nat, nat, nat) olm" where
  "toy_olm = \<lparr>olm_session_encrypt = (\<lambda>s p. ok ((1, of_nat s # p), s)),
     olm_message_ok = (\<lambda>t c. t < 2), olm_is_prekey = (\<lambda>t c. t = 0),
     olm_session_decrypt = (\<lambda>s (t, c). (if t = 1 \<and> c \<noteq> [] \<and> hd c = of_nat s then Some (tl c) else None, s)),
     olm_session_id = (\<lambda>s. replicate s CHR ''s''),
     olm_create_outbound = (\<lambda>a i k. ok a),
     olm_create_inbound = (\<lambda>a i (t, c). (ok (unat (hd c), tl c), a + 1)),
     olm_generate_otks = (\<lambda>n a. a + n), olm_stored_otk_count = (\<lambda>a. a), olm_one_time_keys = (\<lambda>a. []),
     olm_mark_published = (\<lambda>a. a), olm_account_pickle = (\<lambda>a. a), olm_account_from_pickle = (\<lambda>a. a),
     olm_session_pickle = (\<lambda>s. s), olm_session_from_pickle = (\<lambda>s. s)\<rparr>"

definition toy_machine :: "(nat, nat) OlmMachine" where
  "toy_machine = \<lparr>om_account = 0, om_sessions = [''bob'' \<mapsto> [1, 2, 3, 4, 5]]\<rparr>"

theorem olm_sessions_bounded_witness:
  "sessions_bounded toy_machine \<and>
   om_sessions (snd (machine_decrypt toy_olm ''bob'' []
     \<lparr>eo_message_type = 0, eo_ciphertext = [6, 42]\<rparr> toy_machine)) ''bob'' = Some [2, 3, 4, 5, 6] \<and>
   sessions_bounded (snd (machine_decrypt toy_olm ''bob'' []
     \<lparr>eo_message_type = 0, eo_ciphertext = [6, 42]\<rparr> toy_machine))"
proof -
  have b: "sessions_bounded toy_machine"
    by (simp add: sessions_bounded_def toy_machine_def MAX_SESSIONS_def)
  have "om_sessions (snd (machine_decrypt toy_olm ''bob'' []
      \<lparr>eo_message_type = 0, eo_ciphertext = [6, 42]\<rparr> toy_machine)) ''bob'' = Some [2, 3, 4, 5, 6]"
    by (simp add: machine_decrypt_def Let_def toy_machine_def toy_olm_def push_session_def
        MAX_SESSIONS_def coalesce_def)
  then show ?thesis
    using b olm_sessions_bounded [OF b, THEN conjunct2, THEN conjunct2] by blast
qed

section \<open>Choice of session\<close>

lemma try_sessions_Some:
  "fst (try_sessions L msg ss) = Some p \<Longrightarrow>
   \<exists>pre s post. ss = pre @ s # post \<and> fst (olm_session_decrypt L s msg) = Some p \<and>
     (\<forall>q \<in> set pre. fst (olm_session_decrypt L q msg) = None)"
proof (induction ss)
  case (Cons s ss)
  show ?case
  proof (cases "fst (olm_session_decrypt L s msg)")
    case None
    with Cons.prems have "fst (try_sessions L msg ss) = Some p"
      by (auto split: prod.splits option.splits)
    from Cons.IH [OF this] obtain pre q post where "ss = pre @ q # post"
      "fst (olm_session_decrypt L q msg) = Some p"
      "\<forall>q \<in> set pre. fst (olm_session_decrypt L q msg) = None" by blast
    with None have "s # ss = (s # pre) @ q # post \<and> fst (olm_session_decrypt L q msg) = Some p \<and>
      (\<forall>q \<in> set (s # pre). fst (olm_session_decrypt L q msg) = None)" by simp
    then show ?thesis by blast
  next
    case (Some p')
    with Cons.prems have "p' = p" by (auto split: prod.splits)
    with Some have "s # ss = [] @ s # ss \<and> fst (olm_session_decrypt L s msg) = Some p \<and>
      (\<forall>q \<in> set []. fst (olm_session_decrypt L q msg) = None)" by simp
    then show ?thesis by blast
  qed
qed simp

text \<open>
  A message that one of the sender's sessions can decrypt is decrypted by the newest such
  session, and neither the account nor any other device's sessions change: no session is created.
\<close>

theorem decrypt_prefers_existing_session:
  assumes "om_sessions m d = Some ss" "olm_message_ok L (unat (eo_message_type e)) (eo_ciphertext e)"
    and "fst (try_sessions L (unat (eo_message_type e), eo_ciphertext e) (rev ss)) = Some p"
  shows "fst (machine_decrypt L d k e m) = ok p \<and>
    om_account (snd (machine_decrypt L d k e m)) = om_account m \<and>
    (\<forall>d'. d' \<noteq> d \<longrightarrow> om_sessions (snd (machine_decrypt L d k e m)) d' = om_sessions m d') \<and>
    (\<exists>l. om_sessions (snd (machine_decrypt L d k e m)) d = Some l \<and> length l = length ss) \<and>
    (\<exists>older s newer. ss = older @ s # newer \<and>
       fst (olm_session_decrypt L s (unat (eo_message_type e), eo_ciphertext e)) = Some p \<and>
       (\<forall>q \<in> set newer. fst (olm_session_decrypt L q (unat (eo_message_type e), eo_ciphertext e)) = None))"
proof -
  obtain tried where t: "try_sessions L (unat (eo_message_type e), eo_ciphertext e) (rev ss) = (Some p, tried)"
    using assms(3) by (cases "try_sessions L (unat (eo_message_type e), eo_ciphertext e) (rev ss)") auto
  have len: "length tried = length ss"
    using length_try_sessions [of L "(unat (eo_message_type e), eo_ciphertext e)" "rev ss"] t by simp
  from try_sessions_Some [OF assms(3)] obtain pre s post where
    s: "rev ss = pre @ s # post" "fst (olm_session_decrypt L s (unat (eo_message_type e), eo_ciphertext e)) = Some p"
      "\<forall>q \<in> set pre. fst (olm_session_decrypt L q (unat (eo_message_type e), eo_ciphertext e)) = None"
    by blast
  from s(1) have "ss = rev post @ s # rev pre"
    by (metis append.assoc append_Cons append_Nil rev.simps(2) rev_append rev_rev_ident)
  with s have ex: "\<exists>older s newer. ss = older @ s # newer \<and>
       fst (olm_session_decrypt L s (unat (eo_message_type e), eo_ciphertext e)) = Some p \<and>
       (\<forall>q \<in> set newer. fst (olm_session_decrypt L q (unat (eo_message_type e), eo_ciphertext e)) = None)"
    by (metis set_rev)
  show ?thesis
    using assms(1,2) t len ex by (simp add: machine_decrypt_def Let_def)
qed

theorem decrypt_prefers_existing_session_witness:
  "fst (machine_decrypt toy_olm ''bob'' [] \<lparr>eo_message_type = 1, eo_ciphertext = [2, 9]\<rparr> toy_machine) = ok [9]"
  by (rule decrypt_prefers_existing_session [THEN conjunct1, of toy_machine "''bob''" "[1, 2, 3, 4, 5]"])
    (simp_all add: toy_machine_def toy_olm_def)

text \<open>
  The session store survives serialisation: reading back the bytes that were written gives the
  same account and the same sessions, given that JSON decodes what it encoded and that pickles
  restore what they were made from.
\<close>

theorem machine_file_round_trip:
  assumes "\<And>p e. json_encode p = ok e \<Longrightarrow> json_v2 e = ok p"
    and "\<And>a. olm_account_from_pickle L (olm_account_pickle L a) = a"
    and "\<And>s. olm_session_from_pickle L (olm_session_pickle L s) = s"
    and "machine_to_bytes L json_encode m = ok bs"
  shows "machine_from_bytes L json_v2 json_v1 bs = ok m"
proof -
  define p where "p = \<lparr>mp2_account = olm_account_pickle L (om_account m),
    mp2_sessions = (\<lambda>d. map_option (map (olm_session_pickle L)) (om_sessions m d))\<rparr>"
  from assms(4) obtain e where e: "json_encode p = ok e" and bs: "bs = as_bytes ''TCM3'' @ e"
    by (auto simp: machine_to_bytes_def p_def split: sum.splits)
  have "from_pickle_v2 L p = m"
    by (simp add: from_pickle_v2_def p_def assms(2) option.map_comp comp_def assms(3) option.map_ident)
  with assms(1) [OF e] show ?thesis by (simp add: machine_from_bytes_def bs)
qed

theorem machine_file_round_trip_witness:
  "machine_from_bytes toy_olm (\<lambda>_. ok \<lparr>mp2_account = 7, mp2_sessions = Map.empty\<rparr>) (\<lambda>_. bail ''not json'')
     (as_bytes ''TCM3'' @ [1]) = ok \<lparr>om_account = 7, om_sessions = Map.empty\<rparr>"
proof (rule machine_file_round_trip [where json_encode =
      "\<lambda>p. if p = \<lparr>mp2_account = 7, mp2_sessions = Map.empty\<rparr> then ok [1] else bail ''x''"])
  show "machine_to_bytes toy_olm (\<lambda>p. if p = \<lparr>mp2_account = 7, mp2_sessions = Map.empty\<rparr> then ok [1] else bail ''x'')
      \<lparr>om_account = 7, om_sessions = Map.empty\<rparr> = ok (as_bytes ''TCM3'' @ [1])"
    by (simp add: machine_to_bytes_def toy_olm_def)
qed (auto simp: toy_olm_def split: if_splits)

end
