(* ===== verification/Db_Tables.thy ===== *)
theory Db_Tables
  imports Protocol
begin

text \<open>
  The server database: one record per table of \<open>crates/server/migrations\<close>, the state of all tables
  as lists of rows, the Rust structs of \<open>crates/server/src/db.rs\<close> that rows are read into, and the
  schema's constraints. A table is the list of its rows in insertion order; the counters are the
  AUTOINCREMENT sequences. SQLite itself is not under \<open>src/\<close>: what is modelled is the SQL text of
  the repository, read as SQL defines it, with the \<open>UNIQUE\<close>, \<open>PRIMARY KEY\<close> and \<open>REFERENCES\<close>
  constraints of the schema as the only way a statement fails. \<open>updated_at_ms\<close> of
  \<open>account_storage_usage\<close> is never read by the code and is left out.

  The theory also holds two interfaces that the statements share: a table with \<open>INSERT OR IGNORE\<close>
  on a key, and the ledger of ciphertext bytes that triggers keep per account.
\<close>

section \<open>Rows\<close>

record account_row =
  ar_id :: string
  ar_username :: string
  ar_password_phc :: string
  ar_state :: string
  ar_require_password_change :: bool
  ar_master_public_key :: "bytes option"
  ar_identity_generation :: int
  ar_roster_revision :: int
  ar_created_at_ms :: i64

record device_row =
  dr_id :: string
  dr_account_id :: string
  dr_name :: string
  dr_auth_signing_key :: bytes
  dr_olm_ed25519_key :: bytes
  dr_olm_curve25519_key :: bytes
  dr_certificate_signature :: bytes
  dr_sas_public_key :: "bytes option"
  dr_pending :: bool
  dr_revoked :: bool
  dr_created_at_ms :: i64
  dr_last_authenticated_at_ms :: "i64 option"

record prekey_row =
  pk_device_id :: string
  pk_key_id :: string
  pk_curve25519_key :: bytes
  pk_signature :: bytes
  pk_created_at_ms :: i64

record logical_row =
  lm_id :: string
  lm_sender_account_id :: string
  lm_sender_device_id :: string
  lm_peer_account_id :: string
  lm_conversation_id :: string
  lm_client_sent_at_ms :: i64
  lm_accepted_at_ms :: i64
  lm_delivered_at_ms :: "i64 option"

record envelope_row =
  er_cursor :: int
  er_envelope_id :: string
  er_logical_message_id :: string
  er_sender_account_id :: string
  er_sender_device_id :: string
  er_recipient_account_id :: string
  er_recipient_device_id :: string
  er_conversation_id :: string
  er_ciphertext :: bytes
  er_olm_message_type :: int
  er_client_sent_at_ms :: i64
  er_accepted_at_ms :: i64
  er_delivered_at_ms :: "i64 option"

record delivery_row =
  dl_cursor :: int
  dl_account_id :: string
  dl_logical_message_id :: string
  dl_delivered_at_ms :: i64

record pairing_row =
  pv_id :: int
  pv_pairing_id :: string
  pv_sender_device_id :: string
  pv_target_device_id :: string
  pv_event_type :: string
  pv_payload :: bytes
  pv_created_at_ms :: i64
  pv_expires_at_ms :: i64
  pv_consumed_at_ms :: "i64 option"

record audit_row =
  au_id :: int
  au_occurred_at_ms :: i64
  au_category :: string
  au_actor :: string
  au_action :: string
  au_target :: string
  au_result :: string
  au_source_ip :: "string option"
  au_details :: string

record usage_row =
  us_account_id :: string
  us_ciphertext_bytes :: int

record database =
  accounts :: "account_row list"
  devices :: "device_row list"
  prekeys :: "prekey_row list"
  logical_messages :: "logical_row list"
  envelopes :: "envelope_row list"
  delivery_updates :: "delivery_row list"
  pairing_events :: "pairing_row list"
  audit_events :: "audit_row list"
  storage_usage :: "usage_row list"
  envelope_seq :: int
  delivery_seq :: int
  pairing_seq :: int
  audit_seq :: int

definition empty_database :: database where
  "empty_database = \<lparr>accounts = [], devices = [], prekeys = [], logical_messages = [], envelopes = [],
     delivery_updates = [], pairing_events = [], audit_events = [], storage_usage = [],
     envelope_seq = 0, delivery_seq = 0, pairing_seq = 0, audit_seq = 0\<rparr>"

section \<open>Structs of db.rs\<close>

record Account =
  acct_id :: string
  acct_username :: string
  acct_password_phc :: string
  acct_state :: string
  acct_require_password_change :: bool
  acct_master_public_key :: "bytes option"
  acct_roster_revision :: u64

record Device =
  dev_auth_signing_key :: bytes
  dev_pending :: bool
  dev_revoked :: bool

record StorageLimits =
  max_account_ciphertext_bytes :: u64
  max_total_ciphertext_bytes :: u64
  min_free_disk_bytes :: u64

record StorageStatus =
  ss_ciphertext_bytes :: u64
  ss_account_limit_bytes :: u64
  ss_total_limit_bytes :: u64
  ss_free_disk_bytes :: u64
  ss_minimum_free_disk_bytes :: u64

record CleanupStats =
  cs_envelopes :: nat
  cs_ciphertext_bytes :: nat
  cs_logical_messages :: nat
  cs_delivery_updates :: nat

record PendingPairingEvent =
  ppe_id :: u64
  ppe_pairing_id :: string
  ppe_sender_device_id :: string
  ppe_event_type :: string
  ppe_payload :: bytes

definition account_from_row :: "account_row \<Rightarrow> Account" where
  "account_from_row r = \<lparr>acct_id = ar_id r, acct_username = ar_username r,
     acct_password_phc = ar_password_phc r, acct_state = ar_state r,
     acct_require_password_change = ar_require_password_change r,
     acct_master_public_key = ar_master_public_key r,
     acct_roster_revision = word_of_int (ar_roster_revision r)\<rparr>"

definition device_bundle_from_row :: "device_row \<Rightarrow> DeviceBundle" where
  "device_bundle_from_row r = \<lparr>db_device_id = dr_id r, db_device_name = dr_name r,
     db_auth_signing_key = dr_auth_signing_key r, db_olm_ed25519_key = dr_olm_ed25519_key r,
     db_olm_curve25519_key = dr_olm_curve25519_key r,
     db_certificate_signature = dr_certificate_signature r, db_revoked = dr_revoked r\<rparr>"

definition stored_envelope_from_row :: "string \<Rightarrow> envelope_row \<Rightarrow> StoredEnvelope" where
  "stored_envelope_from_row sender_username r = \<lparr>se_cursor = word_of_int (er_cursor r),
     se_sender_account_id = er_sender_account_id r, se_sender_device_id = er_sender_device_id r,
     se_envelope = Some \<lparr>env_envelope_id = er_envelope_id r,
       env_logical_message_id = er_logical_message_id r,
       env_conversation_id = er_conversation_id r,
       env_recipient_account_id = er_recipient_account_id r,
       env_recipient_device_id = er_recipient_device_id r, env_ciphertext = er_ciphertext r,
       env_olm_message_type = word_of_int (er_olm_message_type r),
       env_client_sent_at_ms = er_client_sent_at_ms r\<rparr>,
     se_accepted_at_ms = er_accepted_at_ms r, se_sender_username = sender_username\<rparr>"

section \<open>INSERT OR IGNORE on a key\<close>

definition insert_or_ignore :: "('r \<Rightarrow> 'k) \<Rightarrow> 'r \<Rightarrow> 'r list \<Rightarrow> 'r list" where
  "insert_or_ignore key r rs = (if key r \<in> key ` set rs then rs else rs @ [r])"

text \<open>
  What a client of such a table relies on: a row with a known key changes nothing, a row with a new
  key is added after the others.
\<close>

locale keyed_table =
  fixes key :: "'r \<Rightarrow> 'k" and ins :: "'r \<Rightarrow> 'r list \<Rightarrow> 'r list"
  assumes ins_known: "key r \<in> key ` set rs \<Longrightarrow> ins r rs = rs"
    and ins_new: "key r \<notin> key ` set rs \<Longrightarrow> ins r rs = rs @ [r]"
begin

lemma ins_distinct: "distinct (map key rs) \<Longrightarrow> distinct (map key (ins r rs))"
  by (cases "key r \<in> key ` set rs") (simp_all add: ins_known ins_new)

lemma ins_keeps: "q \<in> set rs \<Longrightarrow> q \<in> set (ins r rs)"
  by (cases "key r \<in> key ` set rs") (simp_all add: ins_known ins_new)

lemma ins_has_key: "key r \<in> key ` set (ins r rs)"
  by (cases "key r \<in> key ` set rs") (simp_all add: ins_known ins_new)

lemma ins_idem: "ins r (ins r rs) = ins r rs"
  by (rule ins_known) (rule ins_has_key)

lemma in_insD: "q \<in> set (ins r rs) \<Longrightarrow> q \<in> set rs \<or> q = r \<and> key r \<notin> key ` set rs"
  by (cases "key r \<in> key ` set rs") (auto simp: ins_known ins_new)

lemma ins_appends: "\<exists>first. ins r rs = rs @ first \<and> (first = [] \<or> first = [r])"
  by (cases "key r \<in> key ` set rs") (simp_all add: ins_known ins_new)

lemma find_ins_other:
  "k \<noteq> key r \<Longrightarrow> find (\<lambda>q. key q = k) (ins r rs) = find (\<lambda>q. key q = k) rs"
proof (cases "key r \<in> key ` set rs")
  case False
  assume "k \<noteq> key r"
  then have "find (\<lambda>q. key q = k) (rs @ [r]) = find (\<lambda>q. key q = k) rs"
    by (induction rs) auto
  with False show ?thesis by (simp add: ins_new)
qed (simp add: ins_known)

lemma find_ins_same:
  "find (\<lambda>q. key q = key r) (ins r rs) =
     (case find (\<lambda>q. key q = key r) rs of None \<Rightarrow> Some r | Some q \<Rightarrow> Some q)"
proof (cases "find (\<lambda>q. key q = key r) rs")
  case None
  then have "key r \<notin> key ` set rs" by (auto simp: find_None_iff)
  with None show ?thesis by (simp add: ins_new find_append_None)
next
  case (Some q)
  then have "q \<in> set rs \<and> key q = key r" by (rule find_SomeD)
  then have "key r \<in> key ` set rs" by (metis imageI)
  with Some show ?thesis by (simp add: ins_known)
qed

end

definition prekey_key :: "prekey_row \<Rightarrow> string \<times> string" where
  "prekey_key r = (pk_device_id r, pk_key_id r)"

definition delivery_key :: "delivery_row \<Rightarrow> string \<times> string" where
  "delivery_key r = (dl_account_id r, dl_logical_message_id r)"

interpretation prekeys_tbl: keyed_table prekey_key "insert_or_ignore prekey_key"
  by unfold_locales (simp_all add: insert_or_ignore_def)

interpretation logical_tbl: keyed_table lm_id "insert_or_ignore lm_id"
  by unfold_locales (simp_all add: insert_or_ignore_def)

interpretation envelope_tbl: keyed_table er_envelope_id "insert_or_ignore er_envelope_id"
  by unfold_locales (simp_all add: insert_or_ignore_def)

interpretation delivery_tbl: keyed_table delivery_key "insert_or_ignore delivery_key"
  by unfold_locales (simp_all add: insert_or_ignore_def)

section \<open>The ciphertext ledger\<close>

definition usage_of :: "usage_row list \<Rightarrow> string \<Rightarrow> int" where
  "usage_of us a = (case find (\<lambda>r. us_account_id r = a) us of
     None \<Rightarrow> 0 | Some r \<Rightarrow> us_ciphertext_bytes r)"

definition usage_total :: "usage_row list \<Rightarrow> int" where
  "usage_total us = sum_list (map us_ciphertext_bytes us)"

text \<open>The triggers \<open>envelopes_storage_usage_insert\<close> and \<open>envelopes_storage_usage_delete\<close>.\<close>

definition usage_insert :: "string \<Rightarrow> int \<Rightarrow> usage_row list \<Rightarrow> usage_row list" where
  "usage_insert a n us =
     (if a \<in> us_account_id ` set us
      then update_where (\<lambda>r. us_account_id r = a)
             (\<lambda>r. r\<lparr>us_ciphertext_bytes := us_ciphertext_bytes r + n\<rparr>) us
      else us @ [\<lparr>us_account_id = a, us_ciphertext_bytes = n\<rparr>])"

definition usage_delete :: "string \<Rightarrow> int \<Rightarrow> usage_row list \<Rightarrow> usage_row list" where
  "usage_delete a n us = update_where (\<lambda>r. us_account_id r = a)
     (\<lambda>r. r\<lparr>us_ciphertext_bytes := max 0 (us_ciphertext_bytes r - n)\<rparr>) us"

text \<open>
  The ledger's contract, for a client that adds and removes items with an owner and a size: the
  balance of an owner moves by the size, and no other balance moves.
\<close>

locale ledger =
  fixes used :: "'l \<Rightarrow> string \<Rightarrow> int" and credit debit :: "string \<Rightarrow> int \<Rightarrow> 'l \<Rightarrow> 'l"
    and owner :: "'i \<Rightarrow> string" and size_of :: "'i \<Rightarrow> int"
  assumes used_credit: "used (credit a n l) b = used l b + (if b = a then n else 0)"
    and used_debit: "0 \<le> n \<Longrightarrow> n \<le> used l a \<Longrightarrow> used (debit a n l) b = used l b - (if b = a then n else 0)"
    and size_nonneg: "0 \<le> size_of i"
begin

definition owed :: "'i list \<Rightarrow> string \<Rightarrow> int" where
  "owed items a = sum_list (map (\<lambda>i. if owner i = a then size_of i else 0) items)"

definition balanced :: "'l \<Rightarrow> 'i list \<Rightarrow> bool" where
  "balanced l items \<longleftrightarrow> (\<forall>a. used l a = owed items a)"

lemma owed_nonneg: "0 \<le> owed items a"
  unfolding owed_def by (induction items) (auto simp: size_nonneg)

lemma owed_append: "owed (xs @ ys) a = owed xs a + owed ys a"
  by (simp add: owed_def)

lemma owed_partition: "owed (filter p xs) a + owed (filter (\<lambda>x. \<not> p x) xs) a = owed xs a"
  unfolding owed_def by (induction xs) auto

lemma balanced_credit:
  "balanced l items \<Longrightarrow> balanced (credit (owner i) (size_of i) l) (items @ [i])"
  by (simp add: balanced_def used_credit owed_append) (simp add: owed_def)

lemma used_debits:
  "(\<And>a. owed gone a \<le> used l a) \<Longrightarrow>
   used (fold (\<lambda>i. debit (owner i) (size_of i)) gone l) a = used l a - owed gone a"
proof (induction gone arbitrary: l)
  case Nil
  then show ?case by (simp add: owed_def)
next
  case (Cons i gone)
  have le: "size_of i \<le> used l (owner i)"
    using Cons.prems [of "owner i"] owed_nonneg [of gone "owner i"] by (simp add: owed_def)
  have "owed gone a \<le> used (debit (owner i) (size_of i) l) a" for a
    using Cons.prems [of a] by (simp add: used_debit [OF size_nonneg le] owed_def split: if_splits)
  from Cons.IH [OF this] show ?case
    by (simp add: used_debit [OF size_nonneg le] owed_def)
qed

lemma owed_cong:
  "map (\<lambda>i. (owner i, size_of i)) xs = map (\<lambda>i. (owner i, size_of i)) ys \<Longrightarrow> owed xs a = owed ys a"
proof -
  assume "map (\<lambda>i. (owner i, size_of i)) xs = map (\<lambda>i. (owner i, size_of i)) ys"
  from arg_cong [OF this, of "map (\<lambda>(b, n). if b = a then n else 0)"]
  show ?thesis by (simp add: owed_def comp_def)
qed

lemma owed_mem: "i \<in> set items \<Longrightarrow> size_of i \<le> owed items (owner i)"
proof (induction items)
  case (Cons j items)
  have "owed (j # items) (owner i) = (if owner j = owner i then size_of j else 0) + owed items (owner i)"
    by (simp add: owed_def)
  with Cons show ?case
    using owed_nonneg [of items "owner i"] size_nonneg [of j] by (auto split: if_splits)
qed simp

lemma sum_owed:
  assumes "finite A" "\<And>i. i \<in> set items \<Longrightarrow> owner i \<notin> A \<Longrightarrow> size_of i = 0"
  shows "(\<Sum>a \<in> A. owed items a) = sum_list (map size_of items)"
  using assms(2)
proof (induction items)
  case (Cons i items)
  have "(\<Sum>a \<in> A. owed (i # items) a) = (\<Sum>a \<in> A. if owner i = a then size_of i else 0) + (\<Sum>a \<in> A. owed items a)"
    by (simp add: owed_def sum.distrib)
  moreover have "(\<Sum>a \<in> A. if owner i = a then size_of i else 0) = size_of i"
    using Cons.prems assms(1) by (simp add: sum.delta)
  ultimately show ?case using Cons by simp
qed (simp add: owed_def)

lemma balanced_debits:
  assumes "balanced l items"
  shows "balanced (fold (\<lambda>i. debit (owner i) (size_of i)) (filter p items) l) (filter (\<lambda>i. \<not> p i) items)"
proof -
  have part: "used l a = owed (filter p items) a + owed (filter (\<lambda>i. \<not> p i) items) a" for a
    using assms by (simp add: balanced_def owed_partition)
  have "owed (filter p items) a \<le> used l a" for a
    using part [of a] owed_nonneg [of "filter (\<lambda>i. \<not> p i) items" a] by simp
  from used_debits [OF this] show ?thesis
    by (simp add: balanced_def part)
qed

end

lemma usage_of_update:
  "usage_of (update_where (\<lambda>r. us_account_id r = a) (\<lambda>r. r\<lparr>us_ciphertext_bytes := f (us_ciphertext_bytes r)\<rparr>) us) b =
     (if b = a \<and> a \<in> us_account_id ` set us then f (usage_of us a) else usage_of us b)"
  by (induction us) (auto simp: usage_of_def)

lemma usage_of_absent: "a \<notin> us_account_id ` set us \<Longrightarrow> usage_of us a = 0"
  by (induction us) (auto simp: usage_of_def)

lemma usage_of_append: "usage_of (us @ [r]) b =
    (if b \<in> us_account_id ` set us then usage_of us b
     else if us_account_id r = b then us_ciphertext_bytes r else 0)"
  by (induction us) (auto simp: usage_of_def)

lemma usage_of_insert: "usage_of (usage_insert a n us) b = usage_of us b + (if b = a then n else 0)"
proof (cases "a \<in> us_account_id ` set us")
  case True
  then show ?thesis
    unfolding usage_insert_def using usage_of_update [of a "\<lambda>x. x + n" us b] by simp
next
  case False
  then show ?thesis
    using usage_of_absent [of b us] by (simp add: usage_insert_def usage_of_append usage_of_absent)
qed

lemma usage_of_delete:
  assumes "0 \<le> n" "n \<le> usage_of us a"
  shows "usage_of (usage_delete a n us) b = usage_of us b - (if b = a then n else 0)"
  unfolding usage_delete_def
  using usage_of_update [of a "\<lambda>x. max 0 (x - n)" us b] assms usage_of_absent [of a us]
  by (auto split: if_splits)

lemma usage_total_alt:
  "distinct (map us_account_id us) \<Longrightarrow> usage_total us = (\<Sum>a \<in> us_account_id ` set us. usage_of us a)"
proof (induction us)
  case (Cons r us)
  have "(\<Sum>a \<in> us_account_id ` set us. usage_of (r # us) a) = (\<Sum>a \<in> us_account_id ` set us. usage_of us a)"
    using Cons.prems by (intro sum.cong) (auto simp: usage_of_def)
  with Cons show ?case by (simp add: usage_total_def) (simp add: usage_of_def)
qed (simp add: usage_total_def)

lemma usage_total_insert:
  "distinct (map us_account_id us) \<Longrightarrow> usage_total (usage_insert a n us) = usage_total us + n"
proof (cases "a \<in> us_account_id ` set us")
  case True
  assume "distinct (map us_account_id us)"
  with True have "usage_total (update_where (\<lambda>r. us_account_id r = a)
             (\<lambda>r. r\<lparr>us_ciphertext_bytes := us_ciphertext_bytes r + n\<rparr>) us) = usage_total us + n"
  proof (induction us)
    case (Cons r us)
    show ?case
    proof (cases "us_account_id r = a")
      case True
      with Cons.prems have "update_where (\<lambda>r. us_account_id r = a)
             (\<lambda>r. r\<lparr>us_ciphertext_bytes := us_ciphertext_bytes r + n\<rparr>) us = us"
        by (intro update_where_False) (auto simp: rev_image_eqI)
      with True show ?thesis by (simp add: usage_total_def)
    next
      case False
      with Cons show ?thesis by (simp add: usage_total_def)
    qed
  qed simp
  with True show ?thesis by (simp add: usage_insert_def)
qed (simp add: usage_insert_def usage_total_def)

lemma usage_ids_insert:
  "distinct (map us_account_id us) \<Longrightarrow> distinct (map us_account_id (usage_insert a n us))"
  "us_account_id ` set (usage_insert a n us) = insert a (us_account_id ` set us)"
proof -
  have same: "map us_account_id (update_where p (\<lambda>r. r\<lparr>us_ciphertext_bytes := f r\<rparr>) us) = map us_account_id us" for p f
    by (rule map_update_where_same) simp
  then show "distinct (map us_account_id us) \<Longrightarrow> distinct (map us_account_id (usage_insert a n us))"
    by (simp add: usage_insert_def)
  have "us_account_id ` set (update_where p (\<lambda>r. r\<lparr>us_ciphertext_bytes := f r\<rparr>) us) = us_account_id ` set us" for p f
    using same [of p f] by (metis list.set_map)
  then show "us_account_id ` set (usage_insert a n us) = insert a (us_account_id ` set us)"
    by (auto simp: usage_insert_def)
qed

lemma usage_ids_delete: "map us_account_id (usage_delete a n us) = map us_account_id us"
  unfolding usage_delete_def by (rule map_update_where_same) simp

lemma usage_ids_debits:
  "map us_account_id (fold (\<lambda>r. usage_delete (f r) (g r)) rs us) = map us_account_id us"
  by (induction rs arbitrary: us) (simp_all add: usage_ids_delete)

definition envelope_bytes :: "envelope_row \<Rightarrow> int" where
  "envelope_bytes r = int (length (er_ciphertext r))"

end
