(* ===== verification/Db_Accounts.thy ===== *)
theory Db_Accounts
  imports Db_Tables
begin

text \<open>
  \<open>crates/server/src/db.rs\<close>, part one: accounts, devices, prekeys, pairing events, the audit log and
  device activation. A statement returns the new database; a transaction that stops early returns
  the old one. \<open>revoke_own_device\<close> is with the mail statements, whose clean-up it calls.
\<close>

section \<open>Accounts and devices\<close>

definition account_by_username :: "string \<Rightarrow> database \<Rightarrow> Account option" where
  "account_by_username username d =
     map_option account_from_row (find (\<lambda>r. nocase_eq (ar_username r) username) (accounts d))"

definition device :: "string \<Rightarrow> string \<Rightarrow> database \<Rightarrow> Device option" where
  "device account_id device_id d =
     map_option (\<lambda>r. \<lparr>dev_auth_signing_key = dr_auth_signing_key r, dev_pending = dr_pending r,
                      dev_revoked = dr_revoked r\<rparr>)
       (find (\<lambda>r. dr_account_id r = account_id \<and> dr_id r = device_id) (devices d))"

definition has_active_devices :: "string \<Rightarrow> database \<Rightarrow> bool" where
  "has_active_devices account_id d =
     (0 < count_where (\<lambda>r. dr_account_id r = account_id \<and> \<not> dr_pending r \<and> \<not> dr_revoked r) (devices d))"

definition device_counts :: "string \<Rightarrow> database \<Rightarrow> nat \<times> nat" where
  "device_counts account_id d =
     (count_where (\<lambda>r. dr_account_id r = account_id \<and> \<not> dr_pending r \<and> \<not> dr_revoked r) (devices d),
      count_where (\<lambda>r. dr_account_id r = account_id \<and> dr_pending r \<and> \<not> dr_revoked r) (devices d))"

definition device_bundles :: "string \<Rightarrow> bool \<Rightarrow> database \<Rightarrow> DeviceBundle list" where
  "device_bundles account_id include_pending d =
     map device_bundle_from_row
       (filter (\<lambda>r. dr_account_id r = account_id \<and> (include_pending \<or> \<not> dr_pending r)) (devices d))"

definition own_devices :: "string \<Rightarrow> database \<Rightarrow> OwnDeviceInfo list" where
  "own_devices account_id d =
     map (\<lambda>r. \<lparr>od_device_id = dr_id r, od_device_name = dr_name r, od_pending = dr_pending r,
               od_revoked = dr_revoked r, od_current = False, od_online = False,
               od_created_at_ms = dr_created_at_ms r,
               od_last_authenticated_at_ms = coalesce (dr_last_authenticated_at_ms r) 0\<rparr>)
       (sort_key (\<lambda>r. (dr_revoked r, dr_pending r, dr_created_at_ms r))
         (filter (\<lambda>r. dr_account_id r = account_id) (devices d)))"

definition account_exists :: "string \<Rightarrow> database \<Rightarrow> bool" where
  "account_exists a d = (a \<in> ar_id ` set (accounts d))"

definition device_exists :: "string \<Rightarrow> database \<Rightarrow> bool" where
  "device_exists i d = (i \<in> dr_id ` set (devices d))"

definition insert_device ::
  "string \<Rightarrow> DeviceBundle \<Rightarrow> bytes \<Rightarrow> bool \<Rightarrow> i64 \<Rightarrow> database \<Rightarrow> database result" where
  "insert_device account_id bundle sas_public pending now d =
     (if device_exists (db_device_id bundle) d then Inl (Constraint ''UNIQUE constraint failed: devices.id'')
      else if \<not> account_exists account_id d then Inl (Constraint ''FOREIGN KEY constraint failed'')
      else ok (d\<lparr>devices := devices d @
        [\<lparr>dr_id = db_device_id bundle, dr_account_id = account_id, dr_name = db_device_name bundle,
          dr_auth_signing_key = db_auth_signing_key bundle,
          dr_olm_ed25519_key = db_olm_ed25519_key bundle,
          dr_olm_curve25519_key = db_olm_curve25519_key bundle,
          dr_certificate_signature = db_certificate_signature bundle,
          dr_sas_public_key = Some sas_public, dr_pending = pending, dr_revoked = False,
          dr_created_at_ms = now, dr_last_authenticated_at_ms = None\<rparr>]\<rparr>))"

definition bootstrap_master :: "string \<Rightarrow> bytes \<Rightarrow> database \<Rightarrow> database result" where
  "bootstrap_master account_id master d =
     (let matches = (\<lambda>r. ar_id r = account_id \<and> ar_master_public_key r = None) in
      if count_where matches (accounts d) \<noteq> 1 then bail ''account is already bootstrapped''
      else ok (d\<lparr>accounts := update_where matches
        (\<lambda>r. r\<lparr>ar_master_public_key := Some master, ar_roster_revision := 1\<rparr>) (accounts d)\<rparr>))"

definition set_password :: "string \<Rightarrow> string \<Rightarrow> bool \<Rightarrow> database \<Rightarrow> database" where
  "set_password account_id phc require_change d =
     d\<lparr>accounts := update_where (\<lambda>r. ar_id r = account_id)
        (\<lambda>r. r\<lparr>ar_password_phc := phc, ar_require_password_change := require_change\<rparr>) (accounts d)\<rparr>"

definition record_device_authentication :: "string \<Rightarrow> i64 \<Rightarrow> database \<Rightarrow> database" where
  "record_device_authentication device_id now d =
     d\<lparr>devices := update_where (\<lambda>r. dr_id r = device_id)
        (\<lambda>r. r\<lparr>dr_last_authenticated_at_ms := Some now\<rparr>) (devices d)\<rparr>"

section \<open>Prekeys\<close>

definition prekey_row_of :: "string \<Rightarrow> i64 \<Rightarrow> OneTimeKey \<Rightarrow> prekey_row" where
  "prekey_row_of device_id now key = \<lparr>pk_device_id = device_id, pk_key_id = otk_key_id key,
     pk_curve25519_key = otk_curve25519_key key, pk_signature = otk_signature key,
     pk_created_at_ms = now\<rparr>"

text \<open>One transaction; \<open>INSERT OR IGNORE\<close> does not ignore a missing device.\<close>

definition publish_prekeys :: "string \<Rightarrow> OneTimeKey list \<Rightarrow> i64 \<Rightarrow> database \<Rightarrow> database result" where
  "publish_prekeys device_id keys now d =
     (let rows = fold (\<lambda>key. insert_or_ignore prekey_key (prekey_row_of device_id now key)) keys (prekeys d)
      in if rows \<noteq> prekeys d \<and> \<not> device_exists device_id d
         then Inl (Constraint ''FOREIGN KEY constraint failed'')
         else ok (d\<lparr>prekeys := rows\<rparr>))"

text \<open>
  The key to hand out is the oldest of the device; among keys of the same millisecond the model
  takes the one published first, an order that SQL leaves open.
\<close>

definition oldest_prekey :: "string \<Rightarrow> database \<Rightarrow> prekey_row option" where
  "oldest_prekey device_id d =
     (case sort_key pk_created_at_ms (filter (\<lambda>r. pk_device_id r = device_id) (prekeys d)) of
        [] \<Rightarrow> None | r # _ \<Rightarrow> Some r)"

definition claim_prekey ::
  "string \<Rightarrow> string \<Rightarrow> database \<Rightarrow> (DeviceBundle \<times> OneTimeKey) option \<times> database" where
  "claim_prekey account_id device_id d =
     (case find (\<lambda>r. dr_account_id r = account_id \<and> dr_id r = device_id
              \<and> \<not> dr_pending r \<and> \<not> dr_revoked r) (devices d) of
        None \<Rightarrow> (None, d)
      | Some dev \<Rightarrow>
         (case oldest_prekey device_id d of
            None \<Rightarrow> (None, d)
          | Some key \<Rightarrow>
              (Some (device_bundle_from_row dev,
                 \<lparr>otk_key_id = pk_key_id key, otk_curve25519_key = pk_curve25519_key key,
                  otk_signature = pk_signature key\<rparr>),
               d\<lparr>prekeys := delete_where (\<lambda>r. prekey_key r = prekey_key key) (prekeys d)\<rparr>)))"

section \<open>Lookups\<close>

definition lookup_user_bundle :: "string \<Rightarrow> database \<Rightarrow> (Account \<times> DeviceBundle list) option" where
  "lookup_user_bundle username d =
     (case account_by_username username d of
        None \<Rightarrow> None
      | Some account \<Rightarrow>
          if acct_state account \<noteq> ''active'' \<or> acct_master_public_key account = None then None
          else Some (account, device_bundles (acct_id account) False d))"

definition device_account_any :: "string \<Rightarrow> database \<Rightarrow> string option" where
  "device_account_any device_id d =
     map_option dr_account_id (find (\<lambda>r. dr_id r = device_id \<and> \<not> dr_revoked r) (devices d))"

definition pending_devices :: "string \<Rightarrow> database \<Rightarrow> (DeviceBundle \<times> bytes) list" where
  "pending_devices account_id d =
     map (\<lambda>r. (device_bundle_from_row r, coalesce (dr_sas_public_key r) []))
       (filter (\<lambda>r. dr_account_id r = account_id \<and> dr_pending r \<and> \<not> dr_revoked r) (devices d))"

section \<open>Pairing events\<close>

definition insert_pairing_event ::
  "string \<Rightarrow> string \<Rightarrow> string \<Rightarrow> string \<Rightarrow> bytes \<Rightarrow> i64 \<times> i64 \<Rightarrow> database \<Rightarrow> (u64 \<times> database) result" where
  "insert_pairing_event pairing_id sender target event_type payload lifetime d =
     (let (now, expires_at_ms) = lifetime; i = pairing_seq d + 1 in
      if \<not> device_exists sender d \<or> \<not> device_exists target d
      then Inl (Constraint ''FOREIGN KEY constraint failed'')
      else ok (word_of_int i,
        d\<lparr>pairing_events := pairing_events d @
            [\<lparr>pv_id = i, pv_pairing_id = pairing_id, pv_sender_device_id = sender,
              pv_target_device_id = target, pv_event_type = event_type, pv_payload = payload,
              pv_created_at_ms = now, pv_expires_at_ms = expires_at_ms, pv_consumed_at_ms = None\<rparr>],
          pairing_seq := i\<rparr>))"

definition pending_pairing_events :: "string \<Rightarrow> i64 \<Rightarrow> database \<Rightarrow> PendingPairingEvent list" where
  "pending_pairing_events target now d =
     map (\<lambda>r. \<lparr>ppe_id = word_of_int (pv_id r), ppe_pairing_id = pv_pairing_id r,
               ppe_sender_device_id = pv_sender_device_id r, ppe_event_type = pv_event_type r,
               ppe_payload = pv_payload r\<rparr>)
       (take 200 (sort_key pv_id (filter (\<lambda>r. pv_target_device_id r = target
           \<and> pv_consumed_at_ms r = None \<and> pv_expires_at_ms r > now) (pairing_events d))))"

definition ack_pairing_event :: "string \<Rightarrow> u64 \<Rightarrow> database \<Rightarrow> bool \<times> database" where
  "ack_pairing_event target event_id d =
     (let matches = (\<lambda>r. pv_id r = sint event_id \<and> pv_target_device_id r = target)
      in (count_where matches (pairing_events d) = 1,
          d\<lparr>pairing_events := delete_where matches (pairing_events d)\<rparr>))"

definition cleanup_expired_pairing_events :: "i64 \<Rightarrow> database \<Rightarrow> nat \<times> database" where
  "cleanup_expired_pairing_events now d =
     (let matches = (\<lambda>r. pv_expires_at_ms r \<le> now)
      in (count_where matches (pairing_events d),
          d\<lparr>pairing_events := delete_where matches (pairing_events d)\<rparr>))"

section \<open>Audit log\<close>

definition audit ::
  "string \<Rightarrow> string \<Rightarrow> string \<Rightarrow> string \<Rightarrow> string \<Rightarrow> string option \<times> string \<Rightarrow> i64 \<Rightarrow> database \<Rightarrow> database" where
  "audit category actor action target res context now d =
     (let (source_ip, details) = context; i = audit_seq d + 1 in
      d\<lparr>audit_events := audit_events d @
          [\<lparr>au_id = i, au_occurred_at_ms = now, au_category = category, au_actor = actor,
            au_action = action, au_target = target, au_result = res, au_source_ip = source_ip,
            au_details = details\<rparr>],
        audit_seq := i\<rparr>)"

definition cleanup_audit :: "i64 \<Rightarrow> database \<Rightarrow> nat \<times> database" where
  "cleanup_audit before_ms d =
     (count_where (\<lambda>r. au_occurred_at_ms r < before_ms) (audit_events d),
      d\<lparr>audit_events := delete_where (\<lambda>r. au_occurred_at_ms r < before_ms) (audit_events d)\<rparr>)"

section \<open>Activation\<close>

text \<open>\<open>current as u64 + 1\<close> is written with the wrap-around of a release build.\<close>

definition activate_device :: "string \<Rightarrow> string \<Rightarrow> u64 \<Rightarrow> bytes \<Rightarrow> database \<Rightarrow> database result" where
  "activate_device account_id device_id revision certificate_signature d =
     (case find (\<lambda>r. ar_id r = account_id) (accounts d) of
        None \<Rightarrow> Inl (Constraint ''no rows returned by a query that expected to return at least one row'')
      | Some account \<Rightarrow>
          if revision \<noteq> word_of_int (ar_roster_revision account) + 1 then bail ''roster revision conflict''
          else
           (let matches = (\<lambda>r. dr_account_id r = account_id \<and> dr_id r = device_id \<and> dr_pending r) in
            if count_where matches (devices d) \<noteq> 1 then bail ''pending device not found''
            else ok (d\<lparr>devices := update_where matches
                         (\<lambda>r. r\<lparr>dr_pending := False, dr_certificate_signature := certificate_signature\<rparr>)
                         (devices d),
                       accounts := update_where (\<lambda>r. ar_id r = account_id)
                         (\<lambda>r. r\<lparr>ar_roster_revision := sint revision\<rparr>) (accounts d)\<rparr>)))"

lemmas [db_defs] = account_by_username_def device_def has_active_devices_def device_counts_def
  device_bundles_def own_devices_def insert_device_def bootstrap_master_def set_password_def
  record_device_authentication_def publish_prekeys_def claim_prekey_def lookup_user_bundle_def
  device_account_any_def pending_devices_def insert_pairing_event_def pending_pairing_events_def
  ack_pairing_event_def cleanup_expired_pairing_events_def audit_def cleanup_audit_def
  activate_device_def

end
