(* ===== verification/Db_Mail.thy ===== *)
theory Db_Mail
  imports Db_Accounts
begin

text \<open>
  \<open>crates/server/src/db.rs\<close>, part two: storing envelopes under the quotas, synchronisation by cursor,
  acknowledgement, and the clean-ups. \<open>store_envelopes\<close> is one transaction: every early return gives
  back an error and leaves the database as it was. The free disk space that \<open>fs4\<close> reports is an
  argument.
\<close>

section \<open>Storing\<close>

definition batch_peer :: "string \<Rightarrow> EncryptedEnvelope list \<Rightarrow> string result" where
  "batch_peer sender_account envs =
     (case sort (remdups (map env_recipient_account_id
             (filter (\<lambda>e. env_recipient_account_id e \<noteq> sender_account) envs))) of
        [] \<Rightarrow> ok sender_account
      | [p] \<Rightarrow> ok p
      | _ \<Rightarrow> bail ''v1 supports one peer per message'')"

definition recipient_active :: "database \<Rightarrow> EncryptedEnvelope \<Rightarrow> bool" where
  "recipient_active d e =
     (length [(). r \<leftarrow> devices d, a \<leftarrow> accounts d,
        ar_id a = dr_account_id r \<and> dr_account_id r = env_recipient_account_id e
        \<and> dr_id r = env_recipient_device_id e \<and> \<not> dr_pending r \<and> \<not> dr_revoked r
        \<and> ar_state a = ''active''] = 1)"

fun additional_bytes_from :: "envelope_row list \<Rightarrow> u64 \<Rightarrow> EncryptedEnvelope list \<Rightarrow> u64 result" where
  "additional_bytes_from rows acc [] = ok acc"
| "additional_bytes_from rows acc (e # es) =
     (case find (\<lambda>r. er_envelope_id r = env_envelope_id e) rows of
        Some r \<Rightarrow>
          if er_ciphertext r = env_ciphertext e then additional_bytes_from rows acc es
          else bail ''envelope id conflicts with immutable metadata''
      | None \<Rightarrow>
         (case u64_checked_add acc (of_nat (length (env_ciphertext e))) of
            None \<Rightarrow> bail ''ciphertext size overflow''
          | Some acc' \<Rightarrow> additional_bytes_from rows acc' es))"

definition envelope_row_of ::
  "int \<Rightarrow> string \<Rightarrow> string \<Rightarrow> i64 \<Rightarrow> EncryptedEnvelope \<Rightarrow> envelope_row" where
  "envelope_row_of cursor sender_account sender_device now e =
     \<lparr>er_cursor = cursor, er_envelope_id = env_envelope_id e,
      er_logical_message_id = env_logical_message_id e,
      er_sender_account_id = sender_account, er_sender_device_id = sender_device,
      er_recipient_account_id = env_recipient_account_id e,
      er_recipient_device_id = env_recipient_device_id e,
      er_conversation_id = env_conversation_id e, er_ciphertext = env_ciphertext e,
      er_olm_message_type = uint (env_olm_message_type e),
      er_client_sent_at_ms = env_client_sent_at_ms e, er_accepted_at_ms = now,
      er_delivered_at_ms = None\<rparr>"

text \<open>
  \<open>INSERT OR IGNORE INTO envelopes\<close> with its trigger: an envelope with a known id is ignored; a new
  one takes the next cursor and is charged to its sender; a missing parent row is an error.
\<close>

definition envelope_parents_exist :: "envelope_row \<Rightarrow> database \<Rightarrow> bool" where
  "envelope_parents_exist r d =
     (er_logical_message_id r \<in> lm_id ` set (logical_messages d)
      \<and> account_exists (er_sender_account_id r) d \<and> device_exists (er_sender_device_id r) d
      \<and> account_exists (er_recipient_account_id r) d \<and> device_exists (er_recipient_device_id r) d)"

definition insert_envelope :: "envelope_row \<Rightarrow> database \<Rightarrow> database result" where
  "insert_envelope r d =
     (if er_envelope_id r \<in> er_envelope_id ` set (envelopes d) then ok d
      else if \<not> envelope_parents_exist r d then Inl (Constraint ''FOREIGN KEY constraint failed'')
      else ok (d\<lparr>envelopes := envelopes d @ [r], envelope_seq := er_cursor r,
                 storage_usage := usage_insert (er_sender_account_id r) (envelope_bytes r)
                                    (storage_usage d)\<rparr>))"

definition envelope_matches :: "string \<Rightarrow> string \<Rightarrow> EncryptedEnvelope \<Rightarrow> envelope_row \<Rightarrow> bool" where
  "envelope_matches sender_account sender_device e r =
     (er_logical_message_id r = env_logical_message_id e
      \<and> er_sender_account_id r = sender_account \<and> er_sender_device_id r = sender_device
      \<and> er_recipient_account_id r = env_recipient_account_id e
      \<and> er_recipient_device_id r = env_recipient_device_id e
      \<and> er_conversation_id r = env_conversation_id e \<and> er_ciphertext r = env_ciphertext e
      \<and> er_olm_message_type r = uint (env_olm_message_type e)
      \<and> er_client_sent_at_ms r = env_client_sent_at_ms e)"

fun store_active :: "string \<Rightarrow> string \<Rightarrow> i64 \<Rightarrow> EncryptedEnvelope list \<Rightarrow> database \<Rightarrow>
    ((string \<times> u64) list \<times> database) result" where
  "store_active sender_account sender_device now [] d = ok ([], d)"
| "store_active sender_account sender_device now (e # es) d =
     (case insert_envelope (envelope_row_of (envelope_seq d + 1) sender_account sender_device now e) d of
        Inl x \<Rightarrow> Inl x
      | Inr d' \<Rightarrow>
         (case find (\<lambda>r. er_envelope_id r = env_envelope_id e) (envelopes d') of
            None \<Rightarrow> Inl (Constraint ''no rows returned by a query that expected to return at least one row'')
          | Some persisted \<Rightarrow>
             if \<not> envelope_matches sender_account sender_device e persisted
             then bail ''envelope id conflicts with immutable metadata''
             else (case store_active sender_account sender_device now es d' of
                Inl x \<Rightarrow> Inl x
              | Inr (stored, d'') \<Rightarrow>
                  ok ((env_recipient_device_id e, word_of_int (er_cursor persisted)) # stored, d''))))"

definition insert_logical :: "logical_row \<Rightarrow> database \<Rightarrow> database result" where
  "insert_logical r d =
     (if lm_id r \<in> lm_id ` set (logical_messages d) then ok d
      else if \<not> account_exists (lm_sender_account_id r) d \<or> \<not> device_exists (lm_sender_device_id r) d
              \<or> \<not> account_exists (lm_peer_account_id r) d
        then Inl (Constraint ''FOREIGN KEY constraint failed'')
      else ok (d\<lparr>logical_messages := insert_or_ignore lm_id r (logical_messages d)\<rparr>))"

definition account_bytes :: "string \<Rightarrow> database \<Rightarrow> int" where
  "account_bytes a d = usage_of (storage_usage d) a"

definition total_bytes :: "database \<Rightarrow> int" where
  "total_bytes d = usage_total (storage_usage d)"

definition quota_check :: "StorageLimits \<Rightarrow> string \<Rightarrow> u64 \<Rightarrow> database \<Rightarrow> unit result" where
  "quota_check limits sender_account additional d =
     (if max_account_ciphertext_bytes limits
           < u64_saturating_add (word_of_int (max 0 (account_bytes sender_account d))) additional
      then Inl (Rejected AccountQuota)
      else if max_total_ciphertext_bytes limits
           < u64_saturating_add (word_of_int (max 0 (total_bytes d))) additional
      then Inl (Rejected TotalQuota)
      else ok ())"

text \<open>The part of \<open>store_envelopes\<close> inside the transaction, after the batch was validated.\<close>

definition store_tx :: "string \<Rightarrow> string \<Rightarrow> string \<Rightarrow> string \<Rightarrow> EncryptedEnvelope list \<Rightarrow> i64 \<Rightarrow>
    StorageLimits \<Rightarrow> database \<Rightarrow> ((string \<times> u64) list \<times> database) result" where
  "store_tx sender_account sender_device peer expected_conversation envs now limits d =
     (let logical = env_logical_message_id (hd envs); sent = env_client_sent_at_ms (hd envs) in
      case insert_logical \<lparr>lm_id = logical, lm_sender_account_id = sender_account,
             lm_sender_device_id = sender_device, lm_peer_account_id = peer,
             lm_conversation_id = expected_conversation, lm_client_sent_at_ms = sent,
             lm_accepted_at_ms = now, lm_delivered_at_ms = None\<rparr> d of
        Inl x \<Rightarrow> Inl x
      | Inr d1 \<Rightarrow>
         (case find (\<lambda>r. lm_id r = logical) (logical_messages d1) of
            None \<Rightarrow> Inl (Constraint ''no rows returned by a query that expected to return at least one row'')
          | Some metadata \<Rightarrow>
             if lm_sender_account_id metadata \<noteq> sender_account
                \<or> lm_sender_device_id metadata \<noteq> sender_device
                \<or> lm_peer_account_id metadata \<noteq> peer
                \<or> lm_conversation_id metadata \<noteq> expected_conversation
                \<or> lm_client_sent_at_ms metadata \<noteq> sent
             then bail ''logical message id conflicts with immutable metadata''
             else
              (let active_envelopes = filter (recipient_active d1) envs in
               if active_envelopes = []
                  \<or> (peer \<noteq> sender_account
                     \<and> \<not> (\<exists>e \<in> set active_envelopes. env_recipient_account_id e = peer))
               then bail ''recipient device is unavailable''
               else (case additional_bytes_from (envelopes d1) 0 active_envelopes of
                  Inl x \<Rightarrow> Inl x
                | Inr additional \<Rightarrow>
                   (case quota_check limits sender_account additional d1 of
                      Inl x \<Rightarrow> Inl x
                    | Inr _ \<Rightarrow> store_active sender_account sender_device now active_envelopes d1)))))"

definition store_envelopes :: "(bytes \<Rightarrow> bytes) \<Rightarrow> u64 \<Rightarrow> string \<Rightarrow> string \<Rightarrow> EncryptedEnvelope list \<Rightarrow>
    i64 \<Rightarrow> StorageLimits \<Rightarrow> database \<Rightarrow> ((string \<times> u64) list \<times> database) result" where
  "store_envelopes sha free_disk sender_account sender_device envs now limits d =
     (if envs = [] \<or> length envs > 16 then bail ''envelope batch must contain 1..=16 entries''
      else
       (let logical = env_logical_message_id (hd envs) in
        if logical = [] \<or> (\<exists>e \<in> set envs. env_logical_message_id e \<noteq> logical)
        then bail ''batch mixes logical messages''
        else
         (case batch_peer sender_account envs of
            Inl x \<Rightarrow> Inl x
          | Inr peer \<Rightarrow>
             (let expected_conversation = conversation_id sha sender_account peer in
              if \<exists>e \<in> set envs. env_conversation_id e \<noteq> expected_conversation
                   \<or> env_ciphertext e = [] \<or> length (env_ciphertext e) > MAX_FRAME_BYTES
              then bail ''invalid conversation or ciphertext''
              else if free_disk < min_free_disk_bytes limits then Inl (Rejected DiskPressure)
              else store_tx sender_account sender_device peer expected_conversation envs now limits d))))"

definition storage_status :: "u64 \<Rightarrow> StorageLimits \<Rightarrow> database \<Rightarrow> StorageStatus" where
  "storage_status free_disk limits d =
     \<lparr>ss_ciphertext_bytes = word_of_int (max 0 (total_bytes d)),
      ss_account_limit_bytes = max_account_ciphertext_bytes limits,
      ss_total_limit_bytes = max_total_ciphertext_bytes limits,
      ss_free_disk_bytes = free_disk,
      ss_minimum_free_disk_bytes = min_free_disk_bytes limits\<rparr>"

section \<open>Cleaning up\<close>

text \<open>\<open>DELETE FROM envelopes\<close>: the removed rows are returned, the trigger debits their senders.\<close>

definition delete_envelopes :: "(envelope_row \<Rightarrow> bool) \<Rightarrow> database \<Rightarrow> envelope_row list \<times> database" where
  "delete_envelopes p d =
     (let removed = filter p (envelopes d) in
      (removed, d\<lparr>envelopes := delete_where p (envelopes d),
         storage_usage := fold (\<lambda>r. usage_delete (er_sender_account_id r) (envelope_bytes r))
                            removed (storage_usage d)\<rparr>))"

definition has_envelope :: "database \<Rightarrow> string \<Rightarrow> bool" where
  "has_envelope d logical = (\<exists>r \<in> set (envelopes d). er_logical_message_id r = logical)"

text \<open>The two statements that drop delivery updates and logical messages without envelopes.\<close>

definition drop_orphans :: "database \<Rightarrow> nat \<times> nat \<times> database" where
  "drop_orphans d =
     (let dead_updates = (\<lambda>r. \<not> has_envelope d (dl_logical_message_id r));
          dead_logical = (\<lambda>r. \<not> has_envelope d (lm_id r))
      in (count_where dead_updates (delivery_updates d), count_where dead_logical (logical_messages d),
          d\<lparr>delivery_updates := delete_where dead_updates (delivery_updates d),
            logical_messages := delete_where dead_logical (logical_messages d)\<rparr>))"

definition stats_of :: "envelope_row list \<Rightarrow> nat \<Rightarrow> nat \<Rightarrow> CleanupStats" where
  "stats_of removed updates logicals = \<lparr>cs_envelopes = length removed,
     cs_ciphertext_bytes = sum_list (map (\<lambda>r. length (er_ciphertext r)) removed),
     cs_logical_messages = logicals, cs_delivery_updates = updates\<rparr>"

definition u32_clamp :: "u32 \<Rightarrow> u32 \<Rightarrow> u32 \<Rightarrow> u32" where
  "u32_clamp x lo hi = (if x < lo then lo else if hi < x then hi else x)"

definition delivered_before :: "i64 \<Rightarrow> envelope_row \<Rightarrow> bool" where
  "delivered_before t r = (case er_delivered_at_ms r of None \<Rightarrow> False | Some x \<Rightarrow> x < t)"

definition cleanup_delivered_envelopes :: "i64 \<Rightarrow> u32 \<Rightarrow> database \<Rightarrow> CleanupStats \<times> database" where
  "cleanup_delivered_envelopes delivered_before_ms limit d =
     (let n = unat (u32_clamp limit 1 10000);
          victims = map er_cursor (take n (sort_key er_cursor
                      (filter (delivered_before delivered_before_ms) (envelopes d))));
          (removed, d1) = delete_envelopes (\<lambda>r. er_cursor r \<in> set victims) d;
          (updates, logicals, d2) = drop_orphans d1
      in (stats_of removed updates logicals, d2))"

definition cleanup_revoked_device :: "string \<Rightarrow> database \<Rightarrow> CleanupStats \<times> database" where
  "cleanup_revoked_device device_id d =
     (let d0 = d\<lparr>prekeys := delete_where (\<lambda>r. pk_device_id r = device_id) (prekeys d)\<rparr>;
          (removed, d1) = delete_envelopes (\<lambda>r. er_recipient_device_id r = device_id) d0;
          (updates, logicals, d2) = drop_orphans d1
      in (stats_of removed updates logicals, d2))"

definition revoke_own_device :: "string \<Rightarrow> string \<Rightarrow> database \<Rightarrow> bool \<times> database" where
  "revoke_own_device account_id device_id d =
     (let matches = (\<lambda>r. dr_account_id r = account_id \<and> dr_id r = device_id \<and> \<not> dr_revoked r);
          affected = count_where matches (devices d);
          d1 = d\<lparr>devices := update_where matches (\<lambda>r. r\<lparr>dr_revoked := True\<rparr>) (devices d)\<rparr>
      in (affected = 1, if affected = 1 then snd (cleanup_revoked_device device_id d1) else d1))"

section \<open>Reading and acknowledging\<close>

definition stored_envelope :: "string \<Rightarrow> database \<Rightarrow> StoredEnvelope option" where
  "stored_envelope envelope_id d =
     (case [stored_envelope_from_row (ar_username a) r. r \<leftarrow> envelopes d, a \<leftarrow> accounts d,
              ar_id a = er_sender_account_id r \<and> er_envelope_id r = envelope_id] of
        [] \<Rightarrow> None | x # _ \<Rightarrow> Some x)"

definition mailbox_rows :: "string \<Rightarrow> database \<Rightarrow> (int \<times> StoredEnvelope) list" where
  "mailbox_rows device_id d =
     sort_key fst [(er_cursor r, stored_envelope_from_row (ar_username a) r).
       r \<leftarrow> envelopes d, a \<leftarrow> accounts d,
       ar_id a = er_sender_account_id r \<and> er_recipient_device_id r = device_id]"

definition sync :: "string \<Rightarrow> string \<Rightarrow> u64 \<Rightarrow> u64 \<Rightarrow> u32 \<Rightarrow> database \<Rightarrow>
    StoredEnvelope list \<times> StoredDeliveryUpdate list \<times> bool" where
  "sync account_id device_id after status_after limit d =
     (let n = unat (u32_clamp limit 1 200);
          rows = take (n + 1) (filter (\<lambda>(c, _). c > sint after) (mailbox_rows device_id d));
          has_more = (length rows > n);
          statuses = map (\<lambda>r. \<lparr>sdu_cursor = word_of_int (dl_cursor r),
              sdu_update = Some \<lparr>du_logical_message_id = dl_logical_message_id r,
                                du_delivered_at_ms = dl_delivered_at_ms r\<rparr>\<rparr>)
            (take 200 (sort_key dl_cursor (filter (\<lambda>r. dl_account_id r = account_id
               \<and> dl_cursor r > sint status_after) (delivery_updates d))))
      in (map snd (take n rows), statuses, has_more))"

definition ack :: "string \<Rightarrow> string \<Rightarrow> i64 \<Rightarrow> database \<Rightarrow> (string \<times> string) option \<times> database" where
  "ack device_id envelope_id now d =
     (let matches = (\<lambda>r. er_envelope_id r = envelope_id \<and> er_recipient_device_id r = device_id) in
      case find matches (envelopes d) of
        None \<Rightarrow> (None, d)
      | Some row \<Rightarrow>
         (let logical = er_logical_message_id row; sender = er_sender_account_id row;
              update = \<lparr>dl_cursor = delivery_seq d + 1, dl_account_id = sender,
                        dl_logical_message_id = logical, dl_delivered_at_ms = now\<rparr>
          in (Some (sender, logical),
              d\<lparr>envelopes := update_where matches
                  (\<lambda>r. r\<lparr>er_delivered_at_ms := Some (coalesce (er_delivered_at_ms r) now)\<rparr>) (envelopes d),
                logical_messages := update_where (\<lambda>r. lm_id r = logical)
                  (\<lambda>r. r\<lparr>lm_delivered_at_ms := Some (coalesce (lm_delivered_at_ms r) now)\<rparr>)
                  (logical_messages d),
                delivery_updates := insert_or_ignore delivery_key update (delivery_updates d),
                delivery_seq := (if delivery_key update \<in> delivery_key ` set (delivery_updates d)
                                 then delivery_seq d else delivery_seq d + 1)\<rparr>)))"

interpretation mail_ledger: ledger usage_of usage_insert usage_delete er_sender_account_id envelope_bytes
  by unfold_locales (simp_all add: usage_of_insert usage_of_delete envelope_bytes_def)

end
