(* ===== verification/Db_Invariants.thy ===== *)
theory Db_Invariants
  imports Db_Mail
begin

text \<open>
  What the schema and the statements together keep true of the database: unique keys, increasing
  cursors, no dangling reference, devices that belong to the accounts that rows name beside them,
  and a ledger of ciphertext bytes that agrees with the stored envelopes. Every statement of
  \<open>db.rs\<close> preserves the invariant.
\<close>

section \<open>The invariant\<close>

definition keys_ok :: "database \<Rightarrow> bool" where
  "keys_ok d \<longleftrightarrow> distinct (map ar_id (accounts d))
     \<and> distinct (map (\<lambda>r. to_ascii_lowercase (ar_username r)) (accounts d))
     \<and> distinct (map dr_id (devices d)) \<and> distinct (map prekey_key (prekeys d))
     \<and> distinct (map lm_id (logical_messages d)) \<and> distinct (map er_envelope_id (envelopes d))
     \<and> distinct (map delivery_key (delivery_updates d))
     \<and> distinct (map us_account_id (storage_usage d))"

definition seq_ok :: "int list \<Rightarrow> int \<Rightarrow> bool" where
  "seq_ok cs n \<longleftrightarrow> sorted_wrt (<) cs \<and> (\<forall>c \<in> set cs. 0 < c \<and> c \<le> n) \<and> 0 \<le> n"

definition cursors_ok :: "database \<Rightarrow> bool" where
  "cursors_ok d \<longleftrightarrow> seq_ok (map er_cursor (envelopes d)) (envelope_seq d)
     \<and> seq_ok (map dl_cursor (delivery_updates d)) (delivery_seq d)
     \<and> seq_ok (map pv_id (pairing_events d)) (pairing_seq d)"

text \<open>\<open>device_of a i d\<close>: the device row \<open>i\<close> exists and belongs to account \<open>a\<close>.\<close>

definition device_of :: "string \<Rightarrow> string \<Rightarrow> database \<Rightarrow> bool" where
  "device_of a i d \<longleftrightarrow> (i, a) \<in> set (map (\<lambda>r. (dr_id r, dr_account_id r)) (devices d))"

definition refs_ok :: "database \<Rightarrow> bool" where
  "refs_ok d \<longleftrightarrow> (\<forall>r \<in> set (devices d). account_exists (dr_account_id r) d)
     \<and> (\<forall>r \<in> set (prekeys d). device_exists (pk_device_id r) d)
     \<and> (\<forall>r \<in> set (logical_messages d). device_of (lm_sender_account_id r) (lm_sender_device_id r) d
          \<and> account_exists (lm_peer_account_id r) d)
     \<and> (\<forall>r \<in> set (envelopes d). er_logical_message_id r \<in> lm_id ` set (logical_messages d)
          \<and> device_of (er_sender_account_id r) (er_sender_device_id r) d
          \<and> device_of (er_recipient_account_id r) (er_recipient_device_id r) d)
     \<and> (\<forall>r \<in> set (delivery_updates d). account_exists (dl_account_id r) d)
     \<and> (\<forall>r \<in> set (pairing_events d). device_exists (pv_sender_device_id r) d
          \<and> device_exists (pv_target_device_id r) d)
     \<and> (\<forall>r \<in> set (storage_usage d). account_exists (us_account_id r) d)"

definition ledger_ok :: "database \<Rightarrow> bool" where
  "ledger_ok d \<longleftrightarrow> mail_ledger.balanced (storage_usage d) (envelopes d)"

definition db_ok :: "database \<Rightarrow> bool" where
  "db_ok d \<longleftrightarrow> keys_ok d \<and> cursors_ok d \<and> refs_ok d \<and> ledger_ok d"

lemmas db_ok_defs = db_ok_def keys_ok_def cursors_ok_def refs_ok_def ledger_ok_def

lemma db_ok_empty: "db_ok empty_database"
  by (simp add: db_ok_defs empty_database_def seq_ok_def mail_ledger.balanced_def
      mail_ledger.owed_def usage_of_def)

section \<open>Lemmas on parts\<close>

lemma seq_ok_snoc: "seq_ok cs n \<Longrightarrow> seq_ok (cs @ [n + 1]) (n + 1)"
  by (force simp: seq_ok_def sorted_wrt_append)

lemma seq_ok_filter: "seq_ok (map f rs) n \<Longrightarrow> seq_ok (map f (filter p rs)) n"
  by (auto simp: seq_ok_def sorted_wrt_map sorted_wrt_filter)

lemma seq_ok_delete_where: "seq_ok (map f rs) n \<Longrightarrow> seq_ok (map f (delete_where p rs)) n"
  by (simp add: delete_where_def seq_ok_filter)

lemma seq_ok_distinct: "seq_ok cs n \<Longrightarrow> distinct cs"
  by (simp add: seq_ok_def strict_sorted_iff)

lemma seq_ok_sorted: "seq_ok cs n \<Longrightarrow> sorted cs"
  by (simp add: seq_ok_def strict_sorted_iff)

lemma account_exists_same:
  "map ar_id (accounts d') = map ar_id (accounts d) \<Longrightarrow> account_exists a d' = account_exists a d"
  by (metis account_exists_def list.set_map)

lemma device_exists_same:
  "map (\<lambda>r. (dr_id r, dr_account_id r)) (devices d') = map (\<lambda>r. (dr_id r, dr_account_id r)) (devices d) \<Longrightarrow>
   device_exists i d' = device_exists i d \<and> device_of a i d' = device_of a i d"
proof -
  assume eq: "map (\<lambda>r. (dr_id r, dr_account_id r)) (devices d') = map (\<lambda>r. (dr_id r, dr_account_id r)) (devices d)"
  then have "map fst (map (\<lambda>r. (dr_id r, dr_account_id r)) (devices d')) =
      map fst (map (\<lambda>r. (dr_id r, dr_account_id r)) (devices d))" by simp
  then have "map dr_id (devices d') = map dr_id (devices d)" by (simp add: comp_def)
  then have "dr_id ` set (devices d') = dr_id ` set (devices d)" by (metis list.set_map)
  then have "device_exists i d' = device_exists i d" by (simp only: device_exists_def)
  moreover from eq have "device_of a i d' = device_of a i d" by (simp only: device_of_def)
  ultimately show ?thesis ..
qed

lemma device_of_exists: "device_of a i d \<Longrightarrow> device_exists i d"
  by (force simp: device_of_def device_exists_def)

lemma device_of_account: "refs_ok d \<Longrightarrow> device_of a i d \<Longrightarrow> account_exists a d"
  by (force simp: device_of_def refs_ok_def)

lemma device_of_unique:
  "keys_ok d \<Longrightarrow> device_of a i d \<Longrightarrow> device_of b i d \<Longrightarrow> a = b"
  by (auto simp: keys_ok_def device_of_def distinct_map inj_on_def)

lemma usage_account:
  "db_ok d \<Longrightarrow> i \<in> us_account_id ` set (storage_usage d) \<Longrightarrow> account_exists i d"
  unfolding db_ok_def refs_ok_def by blast

lemma envelope_refs:
  "db_ok d \<Longrightarrow> r \<in> set (envelopes d) \<Longrightarrow> er_logical_message_id r \<in> lm_id ` set (logical_messages d)
     \<and> device_of (er_sender_account_id r) (er_sender_device_id r) d
     \<and> device_of (er_recipient_account_id r) (er_recipient_device_id r) d"
  unfolding db_ok_def refs_ok_def by blast

lemma device_account: "db_ok d \<Longrightarrow> device_of a i d \<Longrightarrow> account_exists a d"
  by (simp add: db_ok_def device_of_account)

lemma map_dr_id_update:
  "(\<And>r. dr_id (f r) = dr_id r \<and> dr_account_id (f r) = dr_account_id r) \<Longrightarrow>
   map (\<lambda>r. (dr_id r, dr_account_id r)) (update_where p f rs) = map (\<lambda>r. (dr_id r, dr_account_id r)) rs"
  by (rule map_update_where_same) simp

text \<open>
  A statement that changes only columns outside keys and references: the keys of accounts and
  devices stay, and all other tables stay.
\<close>

definition same_shape :: "database \<Rightarrow> database \<Rightarrow> bool" where
  "same_shape d d' \<longleftrightarrow> map (\<lambda>r. (ar_id r, ar_username r)) (accounts d') = map (\<lambda>r. (ar_id r, ar_username r)) (accounts d)
     \<and> map (\<lambda>r. (dr_id r, dr_account_id r)) (devices d') = map (\<lambda>r. (dr_id r, dr_account_id r)) (devices d)
     \<and> prekeys d' = prekeys d \<and> logical_messages d' = logical_messages d \<and> envelopes d' = envelopes d
     \<and> delivery_updates d' = delivery_updates d \<and> pairing_events d' = pairing_events d
     \<and> storage_usage d' = storage_usage d \<and> envelope_seq d' = envelope_seq d
     \<and> delivery_seq d' = delivery_seq d \<and> pairing_seq d' = pairing_seq d"

lemma map_pair_cong:
  "map (\<lambda>r. (f r, g r)) xs = map (\<lambda>r. (f r, g r)) ys \<Longrightarrow>
   map f xs = map f ys \<and> map (\<lambda>r. h (g r)) xs = map (\<lambda>r. h (g r)) ys"
proof -
  assume eq: "map (\<lambda>r. (f r, g r)) xs = map (\<lambda>r. (f r, g r)) ys"
  show ?thesis
    using arg_cong [OF eq, of "map fst"] arg_cong [OF eq, of "map (\<lambda>x. h (snd x))"]
    by (simp add: comp_def)
qed

lemma same_shape_db_ok: "same_shape d d' \<Longrightarrow> db_ok d \<Longrightarrow> db_ok d'"
proof -
  assume shape: "same_shape d d'" and ok: "db_ok d"
  from shape have acc: "map ar_id (accounts d') = map ar_id (accounts d)"
      "map (\<lambda>r. to_ascii_lowercase (ar_username r)) (accounts d') = map (\<lambda>r. to_ascii_lowercase (ar_username r)) (accounts d)"
    using map_pair_cong [of ar_id ar_username "accounts d'" "accounts d" to_ascii_lowercase]
    by (simp_all add: same_shape_def)
  from shape have dev: "map dr_id (devices d') = map dr_id (devices d)"
      "map dr_account_id (devices d') = map dr_account_id (devices d)"
    using map_pair_cong [of dr_id dr_account_id "devices d'" "devices d" id]
    by (simp_all add: same_shape_def)
  have ae: "account_exists a d' = account_exists a d" for a by (rule account_exists_same) (rule acc)
  have de: "device_exists i d' = device_exists i d" "device_of a i d' = device_of a i d" for a i
    using device_exists_same [of d' d] shape by (auto simp: same_shape_def)
  have devs: "(\<forall>r \<in> set (devices d'). account_exists (dr_account_id r) d) =
      (\<forall>r \<in> set (devices d). account_exists (dr_account_id r) d)"
    using arg_cong [OF dev(2), of "list_all (\<lambda>a. account_exists a d)"] by (simp add: list_all_iff)
  show ?thesis
    using ok shape by (simp add: db_ok_defs ae de devs acc dev same_shape_def)
qed

section \<open>Statements on accounts and devices\<close>

lemma bootstrap_master_shape: "bootstrap_master a m d = ok d' \<Longrightarrow> same_shape d d'"
  by (auto simp: bootstrap_master_def same_shape_def Let_def map_update_where_same split: if_splits)

lemma set_password_shape: "same_shape d (set_password a p c d)"
  by (simp add: set_password_def same_shape_def map_update_where_same)

lemma record_auth_shape: "same_shape d (record_device_authentication i now d)"
  by (simp add: record_device_authentication_def same_shape_def map_update_where_same)

lemma activate_device_shape: "activate_device a i r s d = ok d' \<Longrightarrow> same_shape d d'"
  by (auto simp: activate_device_def same_shape_def Let_def map_update_where_same
      split: if_splits option.splits)

lemma audit_shape: "same_shape d (audit c a x t r ctx now d)"
  by (simp add: audit_def same_shape_def Let_def split: prod.splits)

lemma cleanup_audit_shape: "same_shape d (snd (cleanup_audit b d))"
  by (simp add: cleanup_audit_def same_shape_def)

lemma insert_device_ok:
  assumes "insert_device a b s p now d = ok d'" "db_ok d"
  shows "db_ok d'"
proof -
  define row where "row = \<lparr>dr_id = db_device_id b, dr_account_id = a, dr_name = db_device_name b,
          dr_auth_signing_key = db_auth_signing_key b, dr_olm_ed25519_key = db_olm_ed25519_key b,
          dr_olm_curve25519_key = db_olm_curve25519_key b,
          dr_certificate_signature = db_certificate_signature b, dr_sas_public_key = Some s,
          dr_pending = p, dr_revoked = False, dr_created_at_ms = now, dr_last_authenticated_at_ms = None\<rparr>"
  from assms(1) have d': "d' = d\<lparr>devices := devices d @ [row]\<rparr>"
    and new: "dr_id row \<notin> dr_id ` set (devices d)" and acc: "account_exists a d"
    by (auto simp: insert_device_def row_def device_exists_def split: if_splits)
  have ae: "account_exists x d' = account_exists x d" for x by (simp add: d' account_exists_def)
  have de: "device_exists i d \<Longrightarrow> device_exists i d'" "device_of x i d \<Longrightarrow> device_of x i d'" for x i
    by (auto simp: d' device_exists_def device_of_def)
  from assms(2) new acc show ?thesis
    unfolding db_ok_def
  proof (intro conjI)
    assume ok: "keys_ok d \<and> cursors_ok d \<and> refs_ok d \<and> ledger_ok d"
    from ok new show "keys_ok d'" by (simp add: d' keys_ok_def)
    from ok show "cursors_ok d'" by (simp add: d' cursors_ok_def)
    have same: "prekeys d' = prekeys d" "logical_messages d' = logical_messages d"
      "envelopes d' = envelopes d" "delivery_updates d' = delivery_updates d"
      "pairing_events d' = pairing_events d" "storage_usage d' = storage_usage d"
      "devices d' = devices d @ [row]"
      by (simp_all add: d')
    from ok acc show "refs_ok d'"
      unfolding refs_ok_def ae same by (auto simp: row_def intro: de)
    from ok show "ledger_ok d'" by (simp add: d' ledger_ok_def)
  qed
qed

section \<open>Statements on single tables\<close>

lemma exists_update [simp]:
  "account_exists a (d\<lparr>prekeys := pk\<rparr>) = account_exists a d"
  "account_exists a (d\<lparr>pairing_events := pe\<rparr>) = account_exists a d"
  "account_exists a (d\<lparr>pairing_seq := n\<rparr>) = account_exists a d"
  "account_exists a (d\<lparr>logical_messages := lm\<rparr>) = account_exists a d"
  "account_exists a (d\<lparr>envelopes := ev\<rparr>) = account_exists a d"
  "account_exists a (d\<lparr>envelope_seq := n\<rparr>) = account_exists a d"
  "account_exists a (d\<lparr>delivery_updates := du\<rparr>) = account_exists a d"
  "account_exists a (d\<lparr>delivery_seq := n\<rparr>) = account_exists a d"
  "account_exists a (d\<lparr>storage_usage := su\<rparr>) = account_exists a d"
  "account_exists a (d\<lparr>devices := ds\<rparr>) = account_exists a d"
  by (simp_all add: account_exists_def)

lemma device_exists_update [simp]:
  "device_exists a (d\<lparr>prekeys := pk\<rparr>) = device_exists a d"
  "device_exists a (d\<lparr>pairing_events := pe\<rparr>) = device_exists a d"
  "device_exists a (d\<lparr>pairing_seq := n\<rparr>) = device_exists a d"
  "device_exists a (d\<lparr>logical_messages := lm\<rparr>) = device_exists a d"
  "device_exists a (d\<lparr>envelopes := ev\<rparr>) = device_exists a d"
  "device_exists a (d\<lparr>envelope_seq := n\<rparr>) = device_exists a d"
  "device_exists a (d\<lparr>delivery_updates := du\<rparr>) = device_exists a d"
  "device_exists a (d\<lparr>delivery_seq := n\<rparr>) = device_exists a d"
  "device_exists a (d\<lparr>storage_usage := su\<rparr>) = device_exists a d"
  "device_exists a (d\<lparr>accounts := as\<rparr>) = device_exists a d"
  by (simp_all add: device_exists_def)

lemma device_of_update [simp]:
  "device_of a i (d\<lparr>prekeys := pk\<rparr>) = device_of a i d"
  "device_of a i (d\<lparr>pairing_events := pe\<rparr>) = device_of a i d"
  "device_of a i (d\<lparr>pairing_seq := n\<rparr>) = device_of a i d"
  "device_of a i (d\<lparr>logical_messages := lm\<rparr>) = device_of a i d"
  "device_of a i (d\<lparr>envelopes := ev\<rparr>) = device_of a i d"
  "device_of a i (d\<lparr>envelope_seq := n\<rparr>) = device_of a i d"
  "device_of a i (d\<lparr>delivery_updates := du\<rparr>) = device_of a i d"
  "device_of a i (d\<lparr>delivery_seq := n\<rparr>) = device_of a i d"
  "device_of a i (d\<lparr>storage_usage := su\<rparr>) = device_of a i d"
  "device_of a i (d\<lparr>accounts := as\<rparr>) = device_of a i d"
  by (simp_all add: device_of_def)

lemma prekeys_update_ok:
  "db_ok d \<Longrightarrow> distinct (map prekey_key rows) \<Longrightarrow>
   (\<And>r. r \<in> set rows \<Longrightarrow> r \<in> set (prekeys d) \<or> device_exists (pk_device_id r) d) \<Longrightarrow>
   db_ok (d\<lparr>prekeys := rows\<rparr>)"
  by (auto simp: db_ok_defs)

lemma fold_insert_prekeys:
  "distinct (map prekey_key rows) \<Longrightarrow>
   distinct (map prekey_key (fold (\<lambda>key. insert_or_ignore prekey_key (prekey_row_of i now key)) keys rows))"
  by (induction keys arbitrary: rows) (simp_all add: prekeys_tbl.ins_distinct)

lemma in_fold_insert_prekeys:
  "r \<in> set (fold (\<lambda>key. insert_or_ignore prekey_key (prekey_row_of i now key)) keys rows) \<Longrightarrow>
   r \<in> set rows \<or> pk_device_id r = i"
proof (induction keys arbitrary: rows)
  case (Cons key keys)
  then show ?case
    using prekeys_tbl.in_insD [of r "prekey_row_of i now key" rows]
    by (fastforce simp: prekey_row_of_def)
qed simp

lemma publish_prekeys_ok:
  assumes "publish_prekeys i keys now d = ok d'" "db_ok d"
  shows "db_ok d'"
proof -
  let ?rows = "fold (\<lambda>key. insert_or_ignore prekey_key (prekey_row_of i now key)) keys (prekeys d)"
  from assms(1) have d': "d' = d\<lparr>prekeys := ?rows\<rparr>" and dev: "?rows = prekeys d \<or> device_exists i d"
    by (auto simp: publish_prekeys_def Let_def split: if_splits)
  show ?thesis
    unfolding d'
  proof (rule prekeys_update_ok [OF assms(2)])
    from assms(2) show "distinct (map prekey_key ?rows)"
      by (intro fold_insert_prekeys) (simp add: db_ok_defs)
    fix r
    assume "r \<in> set ?rows"
    with dev show "r \<in> set (prekeys d) \<or> device_exists (pk_device_id r) d"
      by (metis in_fold_insert_prekeys)
  qed
qed

lemma delete_prekeys_ok: "db_ok d \<Longrightarrow> db_ok (d\<lparr>prekeys := delete_where p (prekeys d)\<rparr>)"
  by (rule prekeys_update_ok) (auto simp: db_ok_defs intro: distinct_map_delete_where)

lemma claim_prekey_ok: "db_ok d \<Longrightarrow> db_ok (snd (claim_prekey a i d))"
  by (simp add: claim_prekey_def delete_prekeys_ok split: option.splits)

lemma insert_pairing_event_ok:
  "insert_pairing_event p s t e c life d = ok (i, d') \<Longrightarrow> db_ok d \<Longrightarrow> db_ok d'"
  by (auto simp: insert_pairing_event_def Let_def db_ok_defs intro: seq_ok_snoc
      split: prod.splits if_splits)

lemma delete_pairing_ok: "db_ok d \<Longrightarrow> db_ok (d\<lparr>pairing_events := delete_where p (pairing_events d)\<rparr>)"
  by (simp add: db_ok_defs seq_ok_delete_where)

lemma ack_pairing_event_ok: "db_ok d \<Longrightarrow> db_ok (snd (ack_pairing_event t e d))"
  by (simp add: ack_pairing_event_def Let_def delete_pairing_ok)

lemma cleanup_expired_ok: "db_ok d \<Longrightarrow> db_ok (snd (cleanup_expired_pairing_events now d))"
  by (simp add: cleanup_expired_pairing_events_def Let_def delete_pairing_ok)

end
