(* ===== verification/Db_Mail_Invariants.thy ===== *)
theory Db_Mail_Invariants
  imports Db_Invariants
begin

text \<open>
  The mail statements keep the database invariant, and what follows from it: the ledger is the sum
  of the stored ciphertexts, the quotas bound it, a batch that was stored can be sent again, and
  clean-ups drop only what they name.
\<close>

section \<open>The ledger and the envelopes\<close>

lemma ledger_account: "db_ok d \<Longrightarrow> account_bytes a d = mail_ledger.owed (envelopes d) a"
  by (simp add: db_ok_defs account_bytes_def mail_ledger.balanced_def)

lemma total_is_stored_bytes: "db_ok d \<Longrightarrow> total_bytes d = sum_list (map envelope_bytes (envelopes d))"
proof -
  assume ok: "db_ok d"
  let ?A = "us_account_id ` set (storage_usage d)"
  have dist: "distinct (map us_account_id (storage_usage d))" using ok by (simp add: db_ok_defs)
  have out: "envelope_bytes r = 0" if "r \<in> set (envelopes d)" "er_sender_account_id r \<notin> ?A" for r
  proof -
    have "mail_ledger.owed (envelopes d) (er_sender_account_id r) = usage_of (storage_usage d) (er_sender_account_id r)"
      using ok by (simp add: db_ok_defs mail_ledger.balanced_def)
    also have "\<dots> = 0" using that(2) by (rule usage_of_absent)
    finally show ?thesis
      using mail_ledger.owed_mem [OF that(1)] mail_ledger.size_nonneg [of r] by simp
  qed
  have "total_bytes d = (\<Sum>a \<in> ?A. usage_of (storage_usage d) a)"
    by (simp add: total_bytes_def usage_total_alt [OF dist])
  also have "\<dots> = (\<Sum>a \<in> ?A. mail_ledger.owed (envelopes d) a)"
    using ok by (simp add: db_ok_defs mail_ledger.balanced_def)
  also have "\<dots> = sum_list (map envelope_bytes (envelopes d))"
    by (rule mail_ledger.sum_owed) (use out in auto)
  finally show ?thesis .
qed

lemma account_le_total: "db_ok d \<Longrightarrow> 0 \<le> account_bytes a d \<and> account_bytes a d \<le> total_bytes d"
proof -
  assume ok: "db_ok d"
  have "mail_ledger.owed (envelopes d) a \<le> sum_list (map envelope_bytes (envelopes d))"
    unfolding mail_ledger.owed_def by (rule sum_list_mono) (simp add: mail_ledger.size_nonneg)
  then show ?thesis
    using mail_ledger.owed_nonneg by (simp add: ledger_account [OF ok] total_is_stored_bytes [OF ok])
qed

section \<open>Storing keeps the invariant\<close>

text \<open>Storing touches logical messages, envelopes and the ledger only.\<close>

definition mail_frame :: "database \<Rightarrow> database \<Rightarrow> bool" where
  "mail_frame d d' \<longleftrightarrow> accounts d' = accounts d \<and> devices d' = devices d \<and> prekeys d' = prekeys d
     \<and> delivery_updates d' = delivery_updates d \<and> pairing_events d' = pairing_events d
     \<and> audit_events d' = audit_events d \<and> delivery_seq d' = delivery_seq d
     \<and> pairing_seq d' = pairing_seq d \<and> audit_seq d' = audit_seq d"

lemma mail_frame_refl: "mail_frame d d"
  by (simp add: mail_frame_def)

lemma mail_frame_trans: "mail_frame d d1 \<Longrightarrow> mail_frame d1 d2 \<Longrightarrow> mail_frame d d2"
  by (simp add: mail_frame_def)

lemma mail_frame_exists:
  "mail_frame d d' \<Longrightarrow> account_exists a d' = account_exists a d \<and> device_of a i d' = device_of a i d
     \<and> device_exists i d' = device_exists i d \<and> recipient_active d' = recipient_active d"
  by (simp add: mail_frame_def account_exists_def device_of_def device_exists_def recipient_active_def
      fun_eq_iff)

lemma recipient_activeD:
  assumes "recipient_active d e"
  obtains r a where "r \<in> set (devices d)" "a \<in> set (accounts d)" "ar_id a = dr_account_id r"
    "dr_account_id r = env_recipient_account_id e" "dr_id r = env_recipient_device_id e"
    "\<not> dr_pending r" "\<not> dr_revoked r" "ar_state a = ''active''"
proof -
  have "set [(). r \<leftarrow> devices d, a \<leftarrow> accounts d,
        ar_id a = dr_account_id r \<and> dr_account_id r = env_recipient_account_id e
        \<and> dr_id r = env_recipient_device_id e \<and> \<not> dr_pending r \<and> \<not> dr_revoked r
        \<and> ar_state a = ''active''] \<noteq> {}"
    using assms by (fastforce simp only: recipient_active_def set_empty list.size)
  then show thesis
    by (auto split: if_splits intro: that)
qed

lemma recipient_active_device_of:
  "recipient_active d e \<Longrightarrow> device_of (env_recipient_account_id e) (env_recipient_device_id e) d"
  by (erule recipient_activeD) (force simp: device_of_def)

lemma insert_logical_ok:
  "insert_logical r d = ok d' \<Longrightarrow> db_ok d \<Longrightarrow> device_of (lm_sender_account_id r) (lm_sender_device_id r) d \<Longrightarrow> db_ok d'"
  by (auto simp: insert_logical_def db_ok_defs insert_or_ignore_def split: if_splits)

lemma insert_logical_frame:
  "insert_logical r d = ok d' \<Longrightarrow> mail_frame d d' \<and> envelopes d' = envelopes d
     \<and> storage_usage d' = storage_usage d \<and> envelope_seq d' = envelope_seq d"
  by (auto simp: insert_logical_def mail_frame_def split: if_splits)

lemma insert_envelope_frame:
  "insert_envelope r d = ok d' \<Longrightarrow> mail_frame d d' \<and> logical_messages d' = logical_messages d
     \<and> envelopes d' = insert_or_ignore er_envelope_id r (envelopes d)"
  by (auto simp: insert_envelope_def mail_frame_def insert_or_ignore_def split: if_splits)

lemma insert_envelope_ok:
  assumes ins: "insert_envelope r d = ok d'" and ok: "db_ok d" and cur: "er_cursor r = envelope_seq d + 1"
    and sender: "device_of (er_sender_account_id r) (er_sender_device_id r) d"
    and recipient: "device_of (er_recipient_account_id r) (er_recipient_device_id r) d"
  shows "db_ok d'"
proof (cases "er_envelope_id r \<in> er_envelope_id ` set (envelopes d)")
  case True
  with ins ok show ?thesis by (simp add: insert_envelope_def)
next
  case False
  let ?us = "usage_insert (er_sender_account_id r) (envelope_bytes r) (storage_usage d)"
  from False ins have d': "d' = d\<lparr>envelopes := envelopes d @ [r], envelope_seq := er_cursor r, storage_usage := ?us\<rparr>"
    and parents: "envelope_parents_exist r d"
    by (auto simp: insert_envelope_def split: if_splits)
  have bal: "mail_ledger.balanced ?us (envelopes d @ [r])"
    by (rule mail_ledger.balanced_credit) (use ok in \<open>simp add: db_ok_defs\<close>)
  have seq: "seq_ok (map er_cursor (envelopes d) @ [er_cursor r]) (er_cursor r)"
    unfolding cur by (rule seq_ok_snoc) (use ok in \<open>simp add: db_ok_defs\<close>)
  have ids: "us_account_id ` set ?us = insert (er_sender_account_id r) (us_account_id ` set (storage_usage d))"
    "distinct (map us_account_id ?us)"
    using ok by (simp_all add: usage_ids_insert db_ok_defs)
  have usage: "account_exists (us_account_id u) d" if "u \<in> set ?us" for u
  proof -
    from that ids have "us_account_id u \<in> insert (er_sender_account_id r) (us_account_id ` set (storage_usage d))"
      by (metis imageI)
    with parents show ?thesis by (auto simp: envelope_parents_exist_def intro: usage_account [OF ok])
  qed
  show ?thesis
    using ok False sender recipient parents bal seq ids(2) usage
    by (simp add: d' db_ok_defs envelope_parents_exist_def)
qed

lemma store_active_ok:
  "store_active sa sd now es d = ok (stored, d') \<Longrightarrow> db_ok d \<Longrightarrow> device_of sa sd d \<Longrightarrow>
   (\<And>e. e \<in> set es \<Longrightarrow> recipient_active d e) \<Longrightarrow> db_ok d' \<and> mail_frame d d'"
proof (induction es arbitrary: d stored)
  case Nil
  then show ?case by (simp add: mail_frame_refl)
next
  case (Cons e es)
  let ?r = "envelope_row_of (envelope_seq d + 1) sa sd now e"
  from Cons.prems(1) obtain d1 stored' where ins: "insert_envelope ?r d = ok d1"
    and rest: "store_active sa sd now es d1 = ok (stored', d')"
    by (auto split: sum.splits option.splits if_splits prod.splits)
  have frame: "mail_frame d d1" using insert_envelope_frame [OF ins] by simp
  have "db_ok d1"
    by (rule insert_envelope_ok [OF ins Cons.prems(2)])
      (use Cons.prems in \<open>simp_all add: envelope_row_of_def recipient_active_device_of\<close>)
  from Cons.IH [OF rest this] Cons.prems(3,4) frame show ?case
    by (auto simp: mail_frame_exists intro: mail_frame_trans)
qed

text \<open>What a successful transaction went through.\<close>

lemma store_txE:
  assumes "store_tx sa sd peer conv envs now limits d = ok (stored, d')"
  obtains d1 additional m where
    "insert_logical \<lparr>lm_id = env_logical_message_id (hd envs), lm_sender_account_id = sa,
       lm_sender_device_id = sd, lm_peer_account_id = peer, lm_conversation_id = conv,
       lm_client_sent_at_ms = env_client_sent_at_ms (hd envs), lm_accepted_at_ms = now,
       lm_delivered_at_ms = None\<rparr> d = ok d1"
    "find (\<lambda>r. lm_id r = env_logical_message_id (hd envs)) (logical_messages d1) = Some m"
    "lm_sender_account_id m = sa" "lm_sender_device_id m = sd" "lm_peer_account_id m = peer"
    "lm_conversation_id m = conv" "lm_client_sent_at_ms m = env_client_sent_at_ms (hd envs)"
    "filter (recipient_active d1) envs \<noteq> []"
    "peer = sa \<or> (\<exists>e \<in> set (filter (recipient_active d1) envs). env_recipient_account_id e = peer)"
    "additional_bytes_from (envelopes d1) 0 (filter (recipient_active d1) envs) = ok additional"
    "quota_check limits sa additional d1 = ok ()"
    "store_active sa sd now (filter (recipient_active d1) envs) d1 = ok (stored, d')"
proof -
  note tx = assms [unfolded store_tx_def Let_def]
  from tx obtain d1 where log: "insert_logical \<lparr>lm_id = env_logical_message_id (hd envs), lm_sender_account_id = sa,
       lm_sender_device_id = sd, lm_peer_account_id = peer, lm_conversation_id = conv,
       lm_client_sent_at_ms = env_client_sent_at_ms (hd envs), lm_accepted_at_ms = now,
       lm_delivered_at_ms = None\<rparr> d = ok d1"
    by (simp split: sum.splits)
  note tx = tx [unfolded log sum.case]
  from tx obtain m where m: "find (\<lambda>r. lm_id r = env_logical_message_id (hd envs)) (logical_messages d1) = Some m"
    by (simp split: option.splits)
  note tx = tx [unfolded m option.case]
  from tx have meta: "lm_sender_account_id m = sa" "lm_sender_device_id m = sd" "lm_peer_account_id m = peer"
    "lm_conversation_id m = conv" "lm_client_sent_at_ms m = env_client_sent_at_ms (hd envs)"
    by (simp_all split: if_splits)
  let ?act = "filter (recipient_active d1) envs"
  from tx meta have act: "\<not> (?act = [] \<or> (peer \<noteq> sa \<and> \<not> (\<exists>e \<in> set ?act. env_recipient_account_id e = peer)))"
    by (simp only: simp_thms if_False split: if_splits) simp
  with tx meta have rest: "(case additional_bytes_from (envelopes d1) 0 ?act of
                  Inl x \<Rightarrow> Inl x
                | Inr additional \<Rightarrow>
                   (case quota_check limits sa additional d1 of
                      Inl x \<Rightarrow> Inl x
                    | Inr _ \<Rightarrow> store_active sa sd now ?act d1)) = ok (stored, d')"
    by (simp only: simp_thms if_False)
  then obtain add where add: "additional_bytes_from (envelopes d1) 0 ?act = ok add"
    by (simp split: sum.splits)
  from rest add have "quota_check limits sa add d1 = ok () \<and> store_active sa sd now ?act d1 = ok (stored, d')"
    by (simp split: sum.splits)
  with log m meta act add show thesis by (intro that) auto
qed

lemma store_envelopesE:
  assumes "store_envelopes sha free sa sd envs now limits d = ok (stored, d')"
  obtains peer where "envs \<noteq> []" "length envs \<le> 16" "env_logical_message_id (hd envs) \<noteq> []"
    "\<And>e. e \<in> set envs \<Longrightarrow> env_logical_message_id e = env_logical_message_id (hd envs)"
    "batch_peer sa envs = ok peer"
    "\<And>e. e \<in> set envs \<Longrightarrow> env_conversation_id e = conversation_id sha sa peer
        \<and> env_ciphertext e \<noteq> [] \<and> length (env_ciphertext e) \<le> MAX_FRAME_BYTES"
    "min_free_disk_bytes limits \<le> free"
    "store_tx sa sd peer (conversation_id sha sa peer) envs now limits d = ok (stored, d')"
proof -
  note st = assms [unfolded store_envelopes_def Let_def]
  from st have size: "\<not> (envs = [] \<or> length envs > 16)" by (simp only: split: if_splits) simp_all
  with st have "\<not> (env_logical_message_id (hd envs) = []
      \<or> (\<exists>e \<in> set envs. env_logical_message_id e \<noteq> env_logical_message_id (hd envs)))"
    by (simp only: if_False split: if_splits) simp_all
  note known = size this
  from st known obtain peer where peer: "batch_peer sa envs = ok peer"
    by (simp only: if_False split: sum.splits) simp
  let ?conv = "conversation_id sha sa peer"
  let ?bad = "\<exists>e \<in> set envs. env_conversation_id e \<noteq> ?conv
                   \<or> env_ciphertext e = [] \<or> length (env_ciphertext e) > MAX_FRAME_BYTES"
  from st known peer have rest: "(if ?bad then bail ''invalid conversation or ciphertext''
              else if free < min_free_disk_bytes limits then Inl (Rejected DiskPressure)
              else store_tx sa sd peer ?conv envs now limits d) = ok (stored, d')"
    by (simp only: if_False sum.case)
  have good: "\<not> ?bad"
  proof
    assume ?bad
    with rest show False by (simp only: if_True) simp
  qed
  with rest have "\<not> free < min_free_disk_bytes limits"
    by (simp only: if_False split: if_splits) simp_all
  with rest good have "store_tx sa sd peer ?conv envs now limits d = ok (stored, d')"
    by (simp only: if_False)
  moreover have "envs \<noteq> []" "length envs \<le> 16" using known(1) by simp_all
  moreover have "env_logical_message_id (hd envs) \<noteq> []"
    "\<And>e. e \<in> set envs \<Longrightarrow> env_logical_message_id e = env_logical_message_id (hd envs)"
    using known(2) by blast+
  moreover have "\<And>e. e \<in> set envs \<Longrightarrow> env_conversation_id e = ?conv
        \<and> env_ciphertext e \<noteq> [] \<and> length (env_ciphertext e) \<le> MAX_FRAME_BYTES"
    using good by (meson not_less)
  moreover have "min_free_disk_bytes limits \<le> free"
    using \<open>\<not> free < min_free_disk_bytes limits\<close> by (simp only: not_less)
  ultimately show thesis using peer by (intro that [of peer])
qed

lemma store_tx_ok:
  assumes "store_tx sa sd peer conv envs now limits d = ok (stored, d')" "db_ok d" "device_of sa sd d"
  shows "db_ok d' \<and> mail_frame d d'"
  using assms(1)
proof (rule store_txE)
  fix d1 additional m
  assume log: "insert_logical \<lparr>lm_id = env_logical_message_id (hd envs), lm_sender_account_id = sa,
       lm_sender_device_id = sd, lm_peer_account_id = peer, lm_conversation_id = conv,
       lm_client_sent_at_ms = env_client_sent_at_ms (hd envs), lm_accepted_at_ms = now,
       lm_delivered_at_ms = None\<rparr> d = ok d1"
    and act: "store_active sa sd now (filter (recipient_active d1) envs) d1 = ok (stored, d')"
  have frame: "mail_frame d d1" using insert_logical_frame [OF log] by simp
  have "db_ok d1" by (rule insert_logical_ok [OF log assms(2)]) (simp add: assms(3))
  from store_active_ok [OF act this] frame assms(3) show ?thesis
    by (auto simp: mail_frame_exists intro: mail_frame_trans)
qed

lemma store_envelopes_ok:
  assumes "store_envelopes sha free sa sd envs now limits d = ok (stored, d')" "db_ok d" "device_of sa sd d"
  shows "db_ok d' \<and> mail_frame d d'"
  using assms(1) by (rule store_envelopesE) (rule store_tx_ok [OF _ assms(2,3)])

section \<open>Acknowledging and cleaning up keep the invariant\<close>

lemma ack_ok: "db_ok d \<Longrightarrow> db_ok (snd (ack i e now d))"
proof -
  assume ok: "db_ok d"
  let ?m = "\<lambda>r. er_envelope_id r = e \<and> er_recipient_device_id r = i"
  show ?thesis
  proof (cases "find ?m (envelopes d)")
    case None
    with ok show ?thesis by (simp add: ack_def)
  next
    case (Some row)
    define evs where "evs = update_where ?m
        (\<lambda>r. r\<lparr>er_delivered_at_ms := Some (coalesce (er_delivered_at_ms r) now)\<rparr>) (envelopes d)"
    define lms where "lms = update_where (\<lambda>r. lm_id r = er_logical_message_id row)
        (\<lambda>r. r\<lparr>lm_delivered_at_ms := Some (coalesce (lm_delivered_at_ms r) now)\<rparr>) (logical_messages d)"
    define u where "u = \<lparr>dl_cursor = delivery_seq d + 1, dl_account_id = er_sender_account_id row,
                        dl_logical_message_id = er_logical_message_id row, dl_delivered_at_ms = now\<rparr>"
    have snd_ack: "snd (ack i e now d) = d\<lparr>envelopes := evs, logical_messages := lms,
        delivery_updates := insert_or_ignore delivery_key u (delivery_updates d),
        delivery_seq := (if delivery_key u \<in> delivery_key ` set (delivery_updates d)
                         then delivery_seq d else delivery_seq d + 1)\<rparr>"
      by (simp add: ack_def Some Let_def evs_def lms_def u_def)
    have row: "row \<in> set (envelopes d)" using find_SomeD [OF Some] by simp
    have sender: "account_exists (er_sender_account_id row) d"
      using device_account [OF ok] envelope_refs [OF ok row] by blast
    have ev: "map k evs = map k (envelopes d)"
      if "\<And>r. k (r\<lparr>er_delivered_at_ms := Some (coalesce (er_delivered_at_ms r) now)\<rparr>) = k r" for k :: "envelope_row \<Rightarrow> 'z"
      unfolding evs_def by (rule map_update_where_same) (rule that)
    have lm: "map lm_id lms = map lm_id (logical_messages d)"
      unfolding lms_def by (rule map_update_where_same) simp
    have bal: "mail_ledger.balanced (storage_usage d) evs"
      unfolding mail_ledger.balanced_def
    proof
      fix a
      have "mail_ledger.owed evs a = mail_ledger.owed (envelopes d) a"
        by (rule mail_ledger.owed_cong) (rule ev, simp add: envelope_bytes_def)
      with ok show "usage_of (storage_usage d) a = mail_ledger.owed evs a"
        by (simp add: db_ok_defs mail_ledger.balanced_def)
    qed
    have du: "distinct (map delivery_key (insert_or_ignore delivery_key u (delivery_updates d)))"
      using ok by (intro delivery_tbl.ins_distinct) (simp add: db_ok_defs)
    have seq: "seq_ok (map dl_cursor (insert_or_ignore delivery_key u (delivery_updates d)))
       (if delivery_key u \<in> delivery_key ` set (delivery_updates d) then delivery_seq d else delivery_seq d + 1)"
      using ok by (auto simp: insert_or_ignore_def u_def db_ok_defs intro: seq_ok_snoc)
    have ref_ev: "r \<in> set evs \<Longrightarrow> er_logical_message_id r \<in> lm_id ` set lms
          \<and> device_of (er_sender_account_id r) (er_sender_device_id r) d
          \<and> device_of (er_recipient_account_id r) (er_recipient_device_id r) d" for r
      using ok lm unfolding evs_def by (force simp: in_update_where db_ok_defs dest!: arg_cong [of _ _ set])
    have ref_lm: "r \<in> set lms \<Longrightarrow> device_of (lm_sender_account_id r) (lm_sender_device_id r) d
          \<and> account_exists (lm_peer_account_id r) d" for r
      using ok unfolding lms_def by (auto simp: in_update_where db_ok_defs)
    have ref_du: "r \<in> set (insert_or_ignore delivery_key u (delivery_updates d)) \<Longrightarrow>
        account_exists (dl_account_id r) d" for r
      using ok sender delivery_tbl.in_insD [of r u "delivery_updates d"] by (auto simp: u_def db_ok_defs)
    have "keys_ok (snd (ack i e now d))"
      unfolding snd_ack using ok du lm ev [of er_envelope_id] by (simp add: db_ok_defs)
    moreover have "cursors_ok (snd (ack i e now d))"
      unfolding snd_ack using ok seq ev [of er_cursor] by (simp add: db_ok_defs)
    moreover have "refs_ok (snd (ack i e now d))"
      unfolding snd_ack using ok ref_ev ref_lm ref_du by (simp add: db_ok_defs)
    moreover have "ledger_ok (snd (ack i e now d))"
      unfolding snd_ack using bal by (simp add: db_ok_defs)
    ultimately show ?thesis by (simp add: db_ok_def)
  qed
qed

lemma delete_envelopes_ok: "db_ok d \<Longrightarrow> db_ok (snd (delete_envelopes p d))"
proof -
  assume ok: "db_ok d"
  let ?us = "fold (\<lambda>r. usage_delete (er_sender_account_id r) (envelope_bytes r)) (filter p (envelopes d)) (storage_usage d)"
  have bal: "mail_ledger.balanced ?us (filter (\<lambda>r. \<not> p r) (envelopes d))"
    by (rule mail_ledger.balanced_debits) (use ok in \<open>simp add: db_ok_defs\<close>)
  have ids: "map us_account_id ?us = map us_account_id (storage_usage d)" by (rule usage_ids_debits)
  have usage: "account_exists (us_account_id u) d" if "u \<in> set ?us" for u
  proof (rule usage_account [OF ok])
    have "us_account_id ` set ?us = us_account_id ` set (storage_usage d)"
      by (simp only: list.set_map [symmetric] ids)
    with that show "us_account_id u \<in> us_account_id ` set (storage_usage d)" by blast
  qed
  let ?d = "d\<lparr>envelopes := delete_where p (envelopes d), storage_usage := ?us\<rparr>"
  have d': "snd (delete_envelopes p d) = ?d" by (simp add: delete_envelopes_def Let_def)
  from ok have parts: "keys_ok d" "cursors_ok d" "refs_ok d" by (simp_all add: db_ok_def)
  have "keys_ok ?d"
    using parts(1) by (simp add: keys_ok_def ids distinct_map_delete_where)
  moreover have "cursors_ok ?d"
    using parts(2) by (simp add: cursors_ok_def seq_ok_delete_where)
  moreover have "refs_ok ?d"
    using parts(3) usage by (simp add: refs_ok_def)
  moreover have "ledger_ok ?d"
    using bal by (simp add: ledger_ok_def delete_where_def)
  ultimately show ?thesis by (simp add: d' db_ok_def)
qed

lemma drop_orphans_ok: "db_ok d \<Longrightarrow> db_ok (snd (snd (drop_orphans d)))"
proof -
  assume ok: "db_ok d"
  have "er_logical_message_id r \<in> lm_id ` set (delete_where (\<lambda>m. \<not> has_envelope d (lm_id m)) (logical_messages d))"
    if r: "r \<in> set (envelopes d)" for r
  proof -
    from ok r obtain m where "m \<in> set (logical_messages d)" "lm_id m = er_logical_message_id r"
      by (auto simp: db_ok_defs)
    with r show ?thesis by (force simp: has_envelope_def)
  qed
  with ok show ?thesis
    by (simp add: drop_orphans_def Let_def db_ok_defs seq_ok_delete_where distinct_map_delete_where)
qed

lemma cleanup_delivered_ok: "db_ok d \<Longrightarrow> db_ok (snd (cleanup_delivered_envelopes t n d))"
  by (simp add: cleanup_delivered_envelopes_def Let_def split: prod.splits)
    (metis delete_envelopes_ok drop_orphans_ok snd_conv)

lemma cleanup_revoked_ok: "db_ok d \<Longrightarrow> db_ok (snd (cleanup_revoked_device i d))"
  by (simp add: cleanup_revoked_device_def Let_def split: prod.splits)
    (metis delete_prekeys_ok delete_envelopes_ok drop_orphans_ok snd_conv)

lemma revoke_devices_ok:
  "db_ok d \<Longrightarrow> db_ok (d\<lparr>devices := update_where p (\<lambda>r. r\<lparr>dr_revoked := True\<rparr>) (devices d)\<rparr>)"
  by (rule same_shape_db_ok [of d]) (simp_all add: same_shape_def map_update_where_same)

lemma revoke_own_device_ok: "db_ok d \<Longrightarrow> db_ok (snd (revoke_own_device a i d))"
  by (simp add: revoke_own_device_def Let_def revoke_devices_ok cleanup_revoked_ok)

end
