(* ===== verification/Db_Storage.thy ===== *)
theory Db_Storage
  imports Db_Mail_Invariants
begin

text \<open>
  What \<open>store_envelopes\<close> promises its caller: the quotas bound what is stored, every active recipient
  gets its envelope under the returned cursor, what was stored stays, and a batch whose answer was
  lost can be sent again without effect.
\<close>

section \<open>Envelopes of a successful batch\<close>

definition stored_as :: "string \<Rightarrow> string \<Rightarrow> database \<Rightarrow> EncryptedEnvelope \<Rightarrow> envelope_row \<Rightarrow> bool" where
  "stored_as sa sd d e r \<longleftrightarrow>
     find (\<lambda>q. er_envelope_id q = env_envelope_id e) (envelopes d) = Some r \<and> envelope_matches sa sd e r"

definition cursor_in :: "database \<Rightarrow> EncryptedEnvelope \<Rightarrow> string \<times> u64" where
  "cursor_in d e = (env_recipient_device_id e,
     word_of_int (er_cursor (the (find (\<lambda>q. er_envelope_id q = env_envelope_id e) (envelopes d)))))"

lemma stored_as_cursor: "stored_as sa sd d e r \<Longrightarrow> cursor_in d e = (env_recipient_device_id e, word_of_int (er_cursor r))"
  by (simp add: stored_as_def cursor_in_def)

lemma stored_as_mono:
  "stored_as sa sd d e r \<Longrightarrow> envelopes d' = envelopes d @ new \<Longrightarrow> stored_as sa sd d' e r"
  by (simp add: stored_as_def find_append_Some)

lemma store_active_Cons:
  assumes "store_active sa sd now (e # es) d = ok (stored, d')"
  obtains d1 r rest where
    "insert_envelope (envelope_row_of (envelope_seq d + 1) sa sd now e) d = ok d1"
    "stored_as sa sd d1 e r" "store_active sa sd now es d1 = ok (rest, d')"
    "stored = (env_recipient_device_id e, word_of_int (er_cursor r)) # rest"
proof -
  note st = assms [unfolded store_active.simps]
  from st obtain d1 where ins: "insert_envelope (envelope_row_of (envelope_seq d + 1) sa sd now e) d = ok d1"
    by (simp split: sum.splits)
  from st ins obtain r where r: "find (\<lambda>q. er_envelope_id q = env_envelope_id e) (envelopes d1) = Some r"
    by (simp split: option.splits)
  from st ins r have m: "envelope_matches sa sd e r" by (simp split: if_splits)
  from st ins r m obtain rest where "store_active sa sd now es d1 = ok (rest, d')"
    "stored = (env_recipient_device_id e, word_of_int (er_cursor r)) # rest"
    by (auto split: sum.splits)
  with ins r m show thesis by (intro that) (auto simp: stored_as_def)
qed

lemma store_active_appends:
  "store_active sa sd now es d = ok (stored, d') \<Longrightarrow>
   \<exists>new. envelopes d' = envelopes d @ new
     \<and> (\<forall>r \<in> set new. \<exists>e \<in> set es. \<exists>c. r = envelope_row_of c sa sd now e)
     \<and> logical_messages d' = logical_messages d \<and> mail_frame d d'"
proof (induction es arbitrary: d stored)
  case (Cons e es)
  from Cons.prems obtain d1 r rest where ins: "insert_envelope (envelope_row_of (envelope_seq d + 1) sa sd now e) d = ok d1"
    and rest: "store_active sa sd now es d1 = ok (rest, d')"
    by (rule store_active_Cons)
  note frame = insert_envelope_frame [OF ins]
  from Cons.IH [OF rest] obtain new where new: "envelopes d' = envelopes d1 @ new"
      "\<forall>r \<in> set new. \<exists>e \<in> set es. \<exists>c. r = envelope_row_of c sa sd now e"
      "logical_messages d' = logical_messages d1" "mail_frame d1 d'"
    by blast
  obtain first where "envelopes d1 = envelopes d @ first"
      "first = [] \<or> first = [envelope_row_of (envelope_seq d + 1) sa sd now e]"
    using frame envelope_tbl.ins_appends by metis
  with new frame show ?case
    by (intro exI [of _ "first @ new"]) (auto intro: mail_frame_trans)
qed (simp add: mail_frame_refl)

lemma store_active_stored:
  "store_active sa sd now es d = ok (stored, d') \<Longrightarrow>
   stored = map (cursor_in d') es \<and> (\<forall>e \<in> set es. \<exists>r. stored_as sa sd d' e r)"
proof (induction es arbitrary: d stored)
  case (Cons e es)
  from Cons.prems obtain d1 r rest where
      r: "stored_as sa sd d1 e r" and rest: "store_active sa sd now es d1 = ok (rest, d')"
      and stored: "stored = (env_recipient_device_id e, word_of_int (er_cursor r)) # rest"
    by (rule store_active_Cons)
  from store_active_appends [OF rest] obtain new where "envelopes d' = envelopes d1 @ new" by blast
  with r have r': "stored_as sa sd d' e r" by (rule stored_as_mono)
  from Cons.IH [OF rest] stored stored_as_cursor [OF r'] r' show ?case by auto
qed simp

lemma store_active_again:
  "(\<And>e. e \<in> set es \<Longrightarrow> \<exists>r. stored_as sa sd d e r) \<Longrightarrow>
   store_active sa sd now es d = ok (map (cursor_in d) es, d)"
proof (induction es)
  case (Cons e es)
  from Cons.prems obtain r where r: "stored_as sa sd d e r" by fastforce
  then have known: "env_envelope_id e \<in> er_envelope_id ` set (envelopes d)"
    by (auto simp: stored_as_def rev_image_eqI dest!: find_SomeD)
  have "insert_envelope (envelope_row_of c sa sd now e) d = ok d" for c
    using known by (simp add: insert_envelope_def envelope_row_of_def)
  with r Cons show ?case by (simp add: stored_as_def cursor_in_def)
qed simp

section \<open>Byte counts\<close>

lemma unat_of_length: "length (b :: bytes) \<le> MAX_FRAME_BYTES \<Longrightarrow> unat (of_nat (length b) :: u64) = length b"
  by (simp add: unsigned_of_nat take_bit_nat_eq_self MAX_FRAME_BYTES_def)

lemma additional_bytes_bound:
  "additional_bytes_from rows acc es = ok n \<Longrightarrow> (\<And>e. e \<in> set es \<Longrightarrow> length (env_ciphertext e) \<le> MAX_FRAME_BYTES) \<Longrightarrow>
   unat acc \<le> unat n \<and> unat n \<le> unat acc + length es * MAX_FRAME_BYTES"
proof (induction rows acc es rule: additional_bytes_from.induct)
  case (2 rows acc e es)
  show ?case
  proof (cases "find (\<lambda>r. er_envelope_id r = env_envelope_id e) rows")
    case (Some r)
    with 2 show ?thesis by (fastforce split: if_splits)
  next
    case None
    with "2.prems"(1) obtain acc' where acc': "u64_checked_add acc (of_nat (length (env_ciphertext e))) = Some acc'"
      and rest: "additional_bytes_from rows acc' es = ok n" by (auto split: option.splits)
    have len: "length (env_ciphertext e) \<le> MAX_FRAME_BYTES" using "2.prems"(2) by simp
    have "unat acc' = unat acc + length (env_ciphertext e)"
      using u64_checked_add_Some [OF acc'] by (simp add: unat_of_length [OF len])
    moreover have "unat acc' \<le> unat n \<and> unat n \<le> unat acc' + length es * MAX_FRAME_BYTES"
      using "2.IH"(1) [OF None acc' rest] "2.prems"(2) by simp
    ultimately show ?thesis using len by simp
  qed
qed simp

lemma insert_envelope_bytes:
  assumes "insert_envelope r d = ok d1" "distinct (map us_account_id (storage_usage d))"
  shows "account_bytes a d1 \<le> account_bytes a d + (if er_envelope_id r \<in> er_envelope_id ` set (envelopes d) then 0 else envelope_bytes r)"
    and "total_bytes d1 = total_bytes d + (if er_envelope_id r \<in> er_envelope_id ` set (envelopes d) then 0 else envelope_bytes r)"
    and "distinct (map us_account_id (storage_usage d1))"
  using assms mail_ledger.size_nonneg [of r]
  by (auto simp: insert_envelope_def account_bytes_def total_bytes_def usage_of_insert
      usage_total_insert usage_ids_insert split: if_splits)

lemma store_active_bytes:
  assumes "additional_bytes_from rows acc es = ok n" "store_active sa sd now es d = ok (stored, d')"
    "er_envelope_id ` set rows \<subseteq> er_envelope_id ` set (envelopes d)"
    "distinct (map us_account_id (storage_usage d))"
    "\<And>e. e \<in> set es \<Longrightarrow> length (env_ciphertext e) \<le> MAX_FRAME_BYTES"
  shows "account_bytes a d' \<le> account_bytes a d + (int (unat n) - int (unat acc))
    \<and> total_bytes d' \<le> total_bytes d + (int (unat n) - int (unat acc))"
  using assms
proof (induction rows acc es arbitrary: d stored rule: additional_bytes_from.induct)
  case (2 rows acc e es)
  from "2.prems"(2) obtain d1 r rest where
      ins: "insert_envelope (envelope_row_of (envelope_seq d + 1) sa sd now e) d = ok d1"
      and rest: "store_active sa sd now es d1 = ok (rest, d')"
    by (rule store_active_Cons)
  note bytes = insert_envelope_bytes [OF ins "2.prems"(4)]
  obtain first where "envelopes d1 = envelopes d @ first"
    using insert_envelope_frame [OF ins] envelope_tbl.ins_appends by metis
  then have sub: "er_envelope_id ` set rows \<subseteq> er_envelope_id ` set (envelopes d1)"
    using "2.prems"(3) by auto
  have eid: "er_envelope_id (envelope_row_of c sa sd now e) = env_envelope_id e"
    and size: "envelope_bytes (envelope_row_of c sa sd now e) = int (length (env_ciphertext e))" for c
    by (simp_all add: envelope_row_of_def envelope_bytes_def)
  have len: "length (env_ciphertext x) \<le> MAX_FRAME_BYTES" if "x \<in> set es" for x
    using "2.prems"(5) that by simp
  show ?case
  proof (cases "find (\<lambda>r. er_envelope_id r = env_envelope_id e) rows")
    case (Some q)
    then have "env_envelope_id e \<in> er_envelope_id ` set (envelopes d)"
      using "2.prems"(3) find_SomeD [OF Some] by (metis image_eqI subsetD)
    moreover from Some "2.prems"(1) have ct: "er_ciphertext q = env_ciphertext e"
      and more: "additional_bytes_from rows acc es = ok n" by (auto split: if_splits)
    ultimately show ?thesis
      using "2.IH"(2) [OF Some ct more rest sub bytes(3) len] bytes(1) [of a] bytes(2) by (simp add: eid)
  next
    case None
    with "2.prems"(1) obtain acc' where acc': "u64_checked_add acc (of_nat (length (env_ciphertext e))) = Some acc'"
      and more: "additional_bytes_from rows acc' es = ok n" by (auto split: option.splits)
    have "unat acc' = unat acc + length (env_ciphertext e)"
      using u64_checked_add_Some [OF acc'] "2.prems"(5) by (simp add: unat_of_length)
    then show ?thesis
      using "2.IH"(1) [OF None acc' more rest sub bytes(3) len] bytes(1) [of a] bytes(2)
      by (simp add: eid size split: if_splits)
  qed
qed simp

text \<open>The quota of a transaction that succeeded, on the ledger before and after.\<close>

lemma unat_ledger: "0 \<le> b \<Longrightarrow> b < 2 ^ 64 \<Longrightarrow> int (unat (word_of_int (max 0 b) :: u64)) = b"
  by (simp add: unsigned_of_int take_bit_int_eq_self)

lemma quota_limit:
  assumes "\<not> limit < u64_saturating_add (word_of_int (max 0 b)) n" "0 \<le> b" "b < 2 ^ 63" "unat n < 2 ^ 63"
  shows "b + int (unat n) \<le> int (unat limit)"
proof -
  have "b < 2 ^ 64" using assms(3) by simp
  then have "unat (word_of_int (max 0 b) :: u64) = nat b"
    using unat_ledger [of b] assms(2) by (metis nat_int)
  then have "unat (u64_saturating_add (word_of_int (max 0 b)) n) = nat b + unat n"
    using assms(2-4) by (simp add: unat_u64_saturating_add)
  moreover have "unat (u64_saturating_add (word_of_int (max 0 b)) n) \<le> unat limit"
    using assms(1) by (simp add: not_less word_le_nat_alt)
  ultimately have "nat b + unat n \<le> unat limit" by (simp only:)
  then have "int (nat b) + int (unat n) \<le> int (unat limit)" by (simp only: of_nat_add [symmetric] of_nat_le_iff)
  then show ?thesis using assms(2) by (simp only: nat_0_le)
qed

lemma store_tx_quota:
  assumes st: "store_tx sa sd peer conv envs now limits d = ok (stored, d')" and ok: "db_ok d"
    and small: "total_bytes d < 2 ^ 63" and len: "length envs \<le> 16"
    and ct: "\<And>e. e \<in> set envs \<Longrightarrow> length (env_ciphertext e) \<le> MAX_FRAME_BYTES"
  shows "account_bytes sa d' \<le> int (unat (max_account_ciphertext_bytes limits))
    \<and> total_bytes d' \<le> int (unat (max_total_ciphertext_bytes limits))"
  using st
proof (rule store_txE)
  fix d1 n
  let ?es = "filter (recipient_active d1) envs"
  assume log: "insert_logical \<lparr>lm_id = env_logical_message_id (hd envs), lm_sender_account_id = sa,
       lm_sender_device_id = sd, lm_peer_account_id = peer, lm_conversation_id = conv,
       lm_client_sent_at_ms = env_client_sent_at_ms (hd envs), lm_accepted_at_ms = now,
       lm_delivered_at_ms = None\<rparr> d = ok d1"
    and add: "additional_bytes_from (envelopes d1) 0 ?es = ok n"
    and quota: "quota_check limits sa n d1 = ok ()"
    and act: "store_active sa sd now ?es d1 = ok (stored, d')"
  have same: "account_bytes a d1 = account_bytes a d" "total_bytes d1 = total_bytes d"
      "storage_usage d1 = storage_usage d" for a
    using insert_logical_frame [OF log] by (simp_all add: account_bytes_def total_bytes_def)
  have bounded: "length (env_ciphertext e) \<le> MAX_FRAME_BYTES" if "e \<in> set ?es" for e
    using ct that by simp
  have "length ?es \<le> 16" by (rule order_trans [OF length_filter_le len])
  then have "length ?es * MAX_FRAME_BYTES \<le> 16 * MAX_FRAME_BYTES" by (rule mult_le_mono1)
  then have n: "unat n < 2 ^ 63"
    using additional_bytes_bound [OF add bounded] by (simp add: MAX_FRAME_BYTES_def)
  have distinct: "distinct (map us_account_id (storage_usage d1))"
    using ok same by (simp add: db_ok_def keys_ok_def)
  have grow: "account_bytes sa d' \<le> account_bytes sa d1 + int (unat n)"
      "total_bytes d' \<le> total_bytes d1 + int (unat n)"
    using store_active_bytes [OF add act order_refl distinct bounded, of sa] by simp_all
  note nonneg = account_le_total [OF ok, of sa]
  have "account_bytes sa d + int (unat n) \<le> int (unat (max_account_ciphertext_bytes limits))"
    by (rule quota_limit) (use quota nonneg small n same in \<open>auto simp: quota_check_def split: if_splits\<close>)
  moreover have "total_bytes d + int (unat n) \<le> int (unat (max_total_ciphertext_bytes limits))"
    by (rule quota_limit) (use quota nonneg small n same in \<open>auto simp: quota_check_def split: if_splits\<close>)
  ultimately show ?thesis using grow same by simp
qed

lemma additional_again:
  "(\<And>e. e \<in> set es \<Longrightarrow> \<exists>r. stored_as sa sd d e r) \<Longrightarrow> additional_bytes_from (envelopes d) 0 es = ok 0"
proof (induction es)
  case (Cons e es)
  from Cons.prems obtain r where "stored_as sa sd d e r" by fastforce
  with Cons show ?case by (simp add: stored_as_def envelope_matches_def)
qed simp

lemma quota_again:
  assumes "0 \<le> b" "b \<le> int (unat limit)"
  shows "\<not> limit < u64_saturating_add (word_of_int (max 0 b)) (0 :: u64)"
proof -
  have "int (unat limit) < 2 ^ 64" using uint_bounded [of limit] by simp
  then have "b < 2 ^ 64" using assms(2) by linarith
  with assms have "int (unat (word_of_int (max 0 b) :: u64)) \<le> int (unat limit)"
    using unat_ledger [of b] by linarith
  then have "unat (word_of_int (max 0 b) :: u64) \<le> unat limit" by (simp only: of_nat_le_iff)
  moreover have "unat (u64_saturating_add x (0 :: u64)) = unat x" for x :: u64
  proof -
    have "unat x < 2 ^ LENGTH(64)" by (rule unsigned_less)
    then show ?thesis by (simp add: u64_saturating_add_def)
  qed
  ultimately show ?thesis by (simp only: not_less word_le_nat_alt)
qed

lemma store_tx_retry:
  assumes tx: "store_tx sa sd peer conv envs now limits d = ok (stored, d')" and ok: "db_ok d"
    and dev: "device_of sa sd d" and small: "total_bytes d < 2 ^ 63" and len: "length envs \<le> 16"
    and ct: "\<And>e. e \<in> set envs \<Longrightarrow> length (env_ciphertext e) \<le> MAX_FRAME_BYTES"
  shows "store_tx sa sd peer conv envs now' limits d' = ok (stored, d')"
  using tx
proof (rule store_txE)
  fix d1 m n
  let ?es = "filter (recipient_active d1) envs" and ?l = "env_logical_message_id (hd envs)"
  assume log: "insert_logical \<lparr>lm_id = ?l, lm_sender_account_id = sa,
       lm_sender_device_id = sd, lm_peer_account_id = peer, lm_conversation_id = conv,
       lm_client_sent_at_ms = env_client_sent_at_ms (hd envs), lm_accepted_at_ms = now,
       lm_delivered_at_ms = None\<rparr> d = ok d1"
    and m: "find (\<lambda>r. lm_id r = ?l) (logical_messages d1) = Some m"
    and meta: "lm_sender_account_id m = sa" "lm_sender_device_id m = sd" "lm_peer_account_id m = peer"
    "lm_conversation_id m = conv" "lm_client_sent_at_ms m = env_client_sent_at_ms (hd envs)"
    and some: "?es \<noteq> []" and peer: "peer = sa \<or> (\<exists>e \<in> set ?es. env_recipient_account_id e = peer)"
    and act: "store_active sa sd now ?es d1 = ok (stored, d')"
  from store_active_appends [OF act] have lm: "logical_messages d' = logical_messages d1"
    and frame: "mail_frame d1 d'" by auto
  from frame have active: "recipient_active d' = recipient_active d1" by (metis mail_frame_exists)
  from m have "?l \<in> lm_id ` set (logical_messages d')" by (auto simp: lm rev_image_eqI dest!: find_SomeD)
  then have log': "insert_logical \<lparr>lm_id = ?l, lm_sender_account_id = sa,
       lm_sender_device_id = sd, lm_peer_account_id = peer, lm_conversation_id = conv,
       lm_client_sent_at_ms = env_client_sent_at_ms (hd envs), lm_accepted_at_ms = now',
       lm_delivered_at_ms = None\<rparr> d' = ok d'"
    by (simp add: insert_logical_def)
  from store_active_stored [OF act] have stored: "stored = map (cursor_in d') ?es"
    and each: "\<And>e. e \<in> set ?es \<Longrightarrow> \<exists>r. stored_as sa sd d' e r" by auto
  have ok': "db_ok d'" using store_tx_ok [OF tx ok dev] by simp
  note bounds = store_tx_quota [OF tx ok small len ct] account_le_total [OF ok', of sa]
  have "\<not> max_account_ciphertext_bytes limits < u64_saturating_add (word_of_int (max 0 (account_bytes sa d'))) 0"
    by (rule quota_again) (use bounds in blast)+
  moreover have "\<not> max_total_ciphertext_bytes limits < u64_saturating_add (word_of_int (max 0 (total_bytes d'))) 0"
    by (rule quota_again) (use bounds in linarith)+
  ultimately have quota: "quota_check limits sa 0 d' = ok ()"
    by (simp only: quota_check_def if_False)
  have add: "additional_bytes_from (envelopes d') 0 ?es = ok 0" by (rule additional_again) (rule each)
  have again: "store_active sa sd now' ?es d' = ok (map (cursor_in d') ?es, d')"
    by (rule store_active_again) (rule each)
  have nonempty: "\<not> (?es = [] \<or> (peer \<noteq> sa \<and> \<not> (\<exists>e \<in> set ?es. env_recipient_account_id e = peer)))"
    using some peer by blast
  show ?thesis
    unfolding store_tx_def Let_def log' sum.case lm m option.case active
    using nonempty meta stored by (simp only: simp_thms if_False sum.case add quota again)
qed

lemma owed_filter: "mail_ledger.owed evs a = sum_list (map envelope_bytes (filter (\<lambda>r. er_sender_account_id r = a) evs))"
  unfolding mail_ledger.owed_def by (induction evs) auto

section \<open>Properties\<close>

text \<open>
  A small database for the witnesses: two active accounts with one active device each.
\<close>

definition sample_account :: "string \<Rightarrow> account_row" where
  "sample_account a = \<lparr>ar_id = a, ar_username = a, ar_password_phc = [], ar_state = ''active'',
     ar_require_password_change = False, ar_master_public_key = Some [1], ar_identity_generation = 1,
     ar_roster_revision = 1, ar_created_at_ms = 0\<rparr>"

definition sample_device :: "string \<Rightarrow> string \<Rightarrow> device_row" where
  "sample_device i a = \<lparr>dr_id = i, dr_account_id = a, dr_name = i, dr_auth_signing_key = [1],
     dr_olm_ed25519_key = [2], dr_olm_curve25519_key = [3], dr_certificate_signature = [4],
     dr_sas_public_key = Some [5], dr_pending = False, dr_revoked = False, dr_created_at_ms = 0,
     dr_last_authenticated_at_ms = None\<rparr>"

definition sample_db :: database where
  "sample_db = empty_database\<lparr>accounts := [sample_account ''a'', sample_account ''b''],
     devices := [sample_device ''d'' ''a'', sample_device ''e'' ''b'']\<rparr>"

definition sample_limits :: StorageLimits where
  "sample_limits = \<lparr>max_account_ciphertext_bytes = 10, max_total_ciphertext_bytes = 20, min_free_disk_bytes = 5\<rparr>"

definition sample_envelope :: EncryptedEnvelope where
  "sample_envelope = \<lparr>env_envelope_id = ''v'', env_logical_message_id = ''l'',
     env_conversation_id = conversation_id (\<lambda>_. [7]) ''a'' ''b'', env_recipient_account_id = ''b'',
     env_recipient_device_id = ''e'', env_ciphertext = [1, 2, 3], env_olm_message_type = 1,
     env_client_sent_at_ms = 4\<rparr>"

definition sample_db_sent :: database where
  "sample_db_sent = sample_db\<lparr>logical_messages := [\<lparr>lm_id = ''l'', lm_sender_account_id = ''a'',
       lm_sender_device_id = ''d'', lm_peer_account_id = ''b'',
       lm_conversation_id = conversation_id (\<lambda>_. [7]) ''a'' ''b'', lm_client_sent_at_ms = 4,
       lm_accepted_at_ms = 9, lm_delivered_at_ms = None\<rparr>],
     envelopes := [envelope_row_of 1 ''a'' ''d'' 9 sample_envelope], envelope_seq := 1,
     storage_usage := [\<lparr>us_account_id = ''a'', us_ciphertext_bytes = 3\<rparr>]\<rparr>"

lemma sample_db_ok: "db_ok sample_db" "device_of ''a'' ''d'' sample_db" "total_bytes sample_db = 0"
  by (simp_all add: sample_db_def sample_account_def sample_device_def db_ok_defs empty_database_def
      seq_ok_def account_exists_def device_of_def total_bytes_def usage_total_def usage_of_def
      mail_ledger.balanced_def mail_ledger.owed_def to_ascii_lowercase_def ascii_lower_char_def
      is_ascii_upper_def)

lemma recipient_active_sample: "recipient_active sample_db sample_envelope"
  by (simp add: recipient_active_def sample_db_def sample_account_def sample_device_def
      sample_envelope_def empty_database_def)

lemma sample_store:
  "store_envelopes (\<lambda>_. [7]) 6 ''a'' ''d'' [sample_envelope] 9 sample_limits sample_db = ok ([(''e'', 1)], sample_db_sent)"
proof -
  have [simp]: "recipient_active (sample_db\<lparr>logical_messages := l\<rparr>) sample_envelope" for l
    using recipient_active_sample by (simp add: recipient_active_def)
  have [simp]: "account_exists ''a'' sample_db" "account_exists ''b'' sample_db"
    "device_exists ''d'' sample_db" "device_exists ''e'' sample_db"
    by (simp_all add: account_exists_def device_exists_def sample_db_def sample_account_def sample_device_def)
  have [simp]: "logical_messages sample_db = []" "envelopes sample_db = []" "storage_usage sample_db = []"
     "envelope_seq sample_db = 0"
    by (simp_all add: sample_db_def empty_database_def)
  have [simp]: "batch_peer ''a'' [sample_envelope] = ok ''b''"
    by (simp add: batch_peer_def sample_envelope_def)
  show ?thesis
    by (simp add: store_envelopes_def store_tx_def Let_def insert_logical_def insert_or_ignore_def
        quota_check_def u64_checked_add_def u64_saturating_add_def account_bytes_def total_bytes_def
        usage_of_def usage_total_def usage_insert_def insert_envelope_def envelope_parents_exist_def
        envelope_row_of_def envelope_matches_def envelope_bytes_def sample_limits_def
        sample_db_sent_def MAX_FRAME_BYTES_def)
      (simp add: sample_envelope_def envelope_bytes_def u64_checked_add_def)
qed

text \<open>
  C1. Quotas. After a batch was stored, the ciphertext bytes of all stored envelopes of the sender
  are within the account limit, and those of all envelopes are within the total limit: the check
  made before the insertions, on the ledger that the triggers keep, is enough.
\<close>

theorem store_respects_quotas:
  assumes "store_envelopes sha free sa sd envs now limits d = ok (stored, d')"
    and "db_ok d" and "device_of sa sd d" and "total_bytes d < 2 ^ 63"
  shows "sum_list (map envelope_bytes (filter (\<lambda>r. er_sender_account_id r = sa) (envelopes d')))
           \<le> int (unat (max_account_ciphertext_bytes limits))
       \<and> sum_list (map envelope_bytes (envelopes d')) \<le> int (unat (max_total_ciphertext_bytes limits))"
  using assms(1)
proof (rule store_envelopesE)
  fix peer
  assume len: "length envs \<le> 16"
    and each: "\<And>e. e \<in> set envs \<Longrightarrow> env_conversation_id e = conversation_id sha sa peer
        \<and> env_ciphertext e \<noteq> [] \<and> length (env_ciphertext e) \<le> MAX_FRAME_BYTES"
    and tx: "store_tx sa sd peer (conversation_id sha sa peer) envs now limits d = ok (stored, d')"
  have ok': "db_ok d'" using store_envelopes_ok [OF assms(1-3)] by simp
  have "account_bytes sa d' \<le> int (unat (max_account_ciphertext_bytes limits))
      \<and> total_bytes d' \<le> int (unat (max_total_ciphertext_bytes limits))"
    by (rule store_tx_quota [OF tx assms(2,4) len]) (use each in blast)
  then show ?thesis
    by (simp add: ledger_account [OF ok'] total_is_stored_bytes [OF ok'] owed_filter)
qed

theorem store_respects_quotas_witness:
  "sum_list (map envelope_bytes (filter (\<lambda>r. er_sender_account_id r = ''a'') (envelopes sample_db_sent))) \<le> 10
   \<and> sum_list (map envelope_bytes (envelopes sample_db_sent)) \<le> 20"
  using store_respects_quotas [OF sample_store sample_db_ok(1,2)] sample_db_ok(3)
  by (simp add: sample_limits_def)

text \<open>
  C2. A stored batch reaches its recipients. The answer names exactly the active recipients of the
  batch with cursors; each has an envelope in the database with the metadata and the ciphertext of
  the batch under that cursor; and all envelopes stored before are still there, in front, followed
  by undelivered envelopes of the batch only.
\<close>

theorem store_delivers:
  assumes "store_envelopes sha free sa sd envs now limits d = ok (stored, d')"
  shows "stored = map (cursor_in d') (filter (recipient_active d) envs) \<and> stored \<noteq> []
    \<and> (\<forall>e \<in> set envs. recipient_active d e \<longrightarrow>
         (\<exists>r \<in> set (envelopes d'). er_envelope_id r = env_envelope_id e \<and> envelope_matches sa sd e r
            \<and> cursor_in d' e = (env_recipient_device_id e, word_of_int (er_cursor r))))
    \<and> (\<exists>new. envelopes d' = envelopes d @ new
         \<and> (\<forall>r \<in> set new. er_delivered_at_ms r = None \<and>
               (\<exists>e \<in> set envs. recipient_active d e \<and> envelope_matches sa sd e r)))"
  using assms
proof (rule store_envelopesE)
  fix peer
  assume "store_tx sa sd peer (conversation_id sha sa peer) envs now limits d = ok (stored, d')"
  then show ?thesis
  proof (rule store_txE)
    fix d1
    let ?es = "filter (recipient_active d1) envs"
    assume log: "insert_logical \<lparr>lm_id = env_logical_message_id (hd envs), lm_sender_account_id = sa,
       lm_sender_device_id = sd, lm_peer_account_id = peer, lm_conversation_id = conversation_id sha sa peer,
       lm_client_sent_at_ms = env_client_sent_at_ms (hd envs), lm_accepted_at_ms = now,
       lm_delivered_at_ms = None\<rparr> d = ok d1"
      and some: "?es \<noteq> []" and act: "store_active sa sd now ?es d1 = ok (stored, d')"
    note frame = insert_logical_frame [OF log]
    then have active: "recipient_active d1 = recipient_active d" by (metis mail_frame_exists)
    from store_active_stored [OF act] have stored: "stored = map (cursor_in d') ?es"
      and each: "\<forall>e \<in> set ?es. \<exists>r. stored_as sa sd d' e r" by auto
    have rows: "\<exists>r \<in> set (envelopes d'). er_envelope_id r = env_envelope_id e \<and> envelope_matches sa sd e r
            \<and> cursor_in d' e = (env_recipient_device_id e, word_of_int (er_cursor r))"
      if "e \<in> set envs" "recipient_active d e" for e
    proof -
      from each that active obtain r where r: "stored_as sa sd d' e r" by auto
      then have "r \<in> set (envelopes d') \<and> er_envelope_id r = env_envelope_id e"
        unfolding stored_as_def by (blast dest: find_SomeD)
      with r stored_as_cursor [OF r] show ?thesis by (auto simp: stored_as_def)
    qed
    from store_active_appends [OF act] obtain new where new: "envelopes d' = envelopes d @ new"
        and of: "\<forall>r \<in> set new. \<exists>e \<in> set ?es. \<exists>c. r = envelope_row_of c sa sd now e"
      using frame by auto
    have "er_delivered_at_ms r = None \<and> (\<exists>e \<in> set envs. recipient_active d e \<and> envelope_matches sa sd e r)"
      if "r \<in> set new" for r
      using of that active by (fastforce simp: envelope_row_of_def envelope_matches_def)
    then have "\<exists>new. envelopes d' = envelopes d @ new
         \<and> (\<forall>r \<in> set new. er_delivered_at_ms r = None \<and>
               (\<exists>e \<in> set envs. recipient_active d e \<and> envelope_matches sa sd e r))"
      using new by blast
    moreover from stored some active have "stored = map (cursor_in d') (filter (recipient_active d) envs) \<and> stored \<noteq> []"
      by simp
    ultimately show ?thesis using rows by blast
  qed
qed

theorem store_delivers_witness:
  "[(''e'', 1 :: u64)] = map (cursor_in sample_db_sent) (filter (recipient_active sample_db) [sample_envelope])"
  using store_delivers [OF sample_store] by blast

text \<open>
  Retries are harmless. A client that lost the answer sends the batch again, at any later time:
  it gets the same answer, and the database does not change (no second envelope, no second charge).
\<close>

theorem store_retry:
  assumes first: "store_envelopes sha free sa sd envs now limits d = ok (stored, d')"
    and "db_ok d" and "device_of sa sd d" and "total_bytes d < 2 ^ 63"
    and disk: "min_free_disk_bytes limits \<le> free'"
  shows "store_envelopes sha free' sa sd envs now' limits d' = ok (stored, d')"
  using first
proof (rule store_envelopesE)
  fix peer
  assume pre: "envs \<noteq> []" "length envs \<le> 16" "env_logical_message_id (hd envs) \<noteq> []"
      "\<And>e. e \<in> set envs \<Longrightarrow> env_logical_message_id e = env_logical_message_id (hd envs)"
      "batch_peer sa envs = ok peer"
    and each: "\<And>e. e \<in> set envs \<Longrightarrow> env_conversation_id e = conversation_id sha sa peer
        \<and> env_ciphertext e \<noteq> [] \<and> length (env_ciphertext e) \<le> MAX_FRAME_BYTES"
    and tx: "store_tx sa sd peer (conversation_id sha sa peer) envs now limits d = ok (stored, d')"
  have "store_tx sa sd peer (conversation_id sha sa peer) envs now' limits d' = ok (stored, d')"
    by (rule store_tx_retry [OF tx assms(2,3,4) pre(2)]) (use each in blast)
  moreover have "\<not> (envs = [] \<or> length envs > 16)" using pre(1,2) by simp
  moreover have "\<not> (env_logical_message_id (hd envs) = []
      \<or> (\<exists>e \<in> set envs. env_logical_message_id e \<noteq> env_logical_message_id (hd envs)))" using pre(3,4) by blast
  moreover have "\<not> (\<exists>e \<in> set envs. env_conversation_id e \<noteq> conversation_id sha sa peer
                   \<or> env_ciphertext e = [] \<or> length (env_ciphertext e) > MAX_FRAME_BYTES)"
    using each by (meson not_less)
  moreover have "\<not> free' < min_free_disk_bytes limits" using disk by (simp only: not_less)
  ultimately show ?thesis
    unfolding store_envelopes_def Let_def by (simp only: if_False pre(5) sum.case)
qed

theorem store_retry_witness:
  "store_envelopes (\<lambda>_. [7]) 5 ''a'' ''d'' [sample_envelope] 30 sample_limits sample_db_sent = ok ([(''e'', 1)], sample_db_sent)"
  by (rule store_retry [OF sample_store sample_db_ok(1,2)]) (simp_all add: sample_db_ok(3) sample_limits_def)

end
