(* ===== verification/Db_Delivery.thy ===== *)
theory Db_Delivery
  imports Db_Storage
begin

text \<open>
  Reading and cleaning up: paging through a mailbox by cursor, acknowledgements, the retention
  clean-up, revocation, prekeys and activation. Paging is an interface: a client that follows the
  cursors of the pages reads every row after its cursor, once, in order.
\<close>

section \<open>The mailbox of a device\<close>

definition username_of :: "string \<Rightarrow> database \<Rightarrow> string" where
  "username_of a d = (case find (\<lambda>r. ar_id r = a) (accounts d) of None \<Rightarrow> [] | Some r \<Rightarrow> ar_username r)"

definition mailbox :: "string \<Rightarrow> database \<Rightarrow> StoredEnvelope list" where
  "mailbox i d = map (\<lambda>r. stored_envelope_from_row (username_of (er_sender_account_id r) d) r)
     (filter (\<lambda>r. er_recipient_device_id r = i) (envelopes d))"

lemma join_on_key:
  "distinct (map k xs) \<Longrightarrow> x \<in> set xs \<Longrightarrow>
   concat (map (\<lambda>a. if k a = k x \<and> c then [f a] else []) xs) = (if c then [f x] else [])"
proof (induction xs)
  case (Cons y ys)
  have out: "concat (map (\<lambda>a. if k a = k x \<and> c then [f a] else []) ys) = []" if "k x \<notin> k ` set ys"
    using that by (force simp: image_iff)
  show ?case
  proof (cases "x = y")
    case True
    with Cons.prems out show ?thesis by simp
  next
    case False
    with Cons.prems have "x \<in> set ys" "k y \<noteq> k x" by (auto simp: rev_image_eqI)
    with Cons show ?thesis by simp
  qed
qed simp

lemma username_of_row: "distinct (map ar_id (accounts d)) \<Longrightarrow> a \<in> set (accounts d) \<Longrightarrow> username_of (ar_id a) d = ar_username a"
  by (simp add: username_of_def find_distinct_key)

lemma join_sender:
  assumes "db_ok d" "r \<in> set (envelopes d)"
  shows "concat (map (\<lambda>a. if ar_id a = er_sender_account_id r \<and> c then [f (ar_username a)] else []) (accounts d)) =
    (if c then [f (username_of (er_sender_account_id r) d)] else [])"
proof -
  from assms have "account_exists (er_sender_account_id r) d"
    using device_account envelope_refs by blast
  then obtain a where a: "a \<in> set (accounts d)" "er_sender_account_id r = ar_id a"
    by (auto simp: account_exists_def)
  from assms(1) have "distinct (map ar_id (accounts d))" by (simp add: db_ok_def keys_ok_def)
  with a join_on_key [of ar_id "accounts d" a c "\<lambda>a. f (ar_username a)"] show ?thesis
    by (simp add: username_of_row)
qed

lemma mailbox_rows_eq:
  assumes "db_ok d"
  shows "mailbox_rows i d = map (\<lambda>r. (er_cursor r, stored_envelope_from_row (username_of (er_sender_account_id r) d) r))
     (filter (\<lambda>r. er_recipient_device_id r = i) (envelopes d))" (is "_ = ?rows")
proof -
  have "concat (map (\<lambda>r. concat (map (\<lambda>a. if ar_id a = er_sender_account_id r \<and> er_recipient_device_id r = i
            then [(er_cursor r, stored_envelope_from_row (ar_username a) r)] else []) (accounts d))) evs) =
        map (\<lambda>r. (er_cursor r, stored_envelope_from_row (username_of (er_sender_account_id r) d) r))
            (filter (\<lambda>r. er_recipient_device_id r = i) evs)"
    if "set evs \<subseteq> set (envelopes d)" for evs
    using that
  proof (induction evs)
    case (Cons r evs)
    then show ?case
      using join_sender [OF assms, of r "er_recipient_device_id r = i" "\<lambda>u. (er_cursor r, stored_envelope_from_row u r)"]
      by simp
  qed simp
  moreover have "sorted (map fst ?rows)"
  proof -
    have "seq_ok (map er_cursor (envelopes d)) (envelope_seq d)"
      using assms by (simp add: db_ok_def cursors_ok_def)
    then have "sorted (map er_cursor (filter (\<lambda>r. er_recipient_device_id r = i) (envelopes d)))"
      by (intro seq_ok_sorted seq_ok_filter)
    then show ?thesis by (simp add: comp_def)
  qed
  ultimately show ?thesis
    unfolding mailbox_rows_def by (simp add: sort_key_id_if_sorted)
qed

lemma envelope_cursor_bounds:
  "db_ok d \<Longrightarrow> r \<in> set (envelopes d) \<Longrightarrow> 0 < er_cursor r \<and> er_cursor r \<le> envelope_seq d"
  by (simp add: db_ok_def cursors_ok_def seq_ok_def)

section \<open>Paging\<close>

text \<open>What \<open>sync\<close> answers about envelopes, and a client that follows the pages.\<close>

definition sync_page :: "string \<Rightarrow> string \<Rightarrow> u64 \<Rightarrow> u32 \<Rightarrow> database \<Rightarrow> u64 \<Rightarrow> StoredEnvelope list \<times> bool" where
  "sync_page a i status_after limit d after =
     (case sync a i after status_after limit d of (es, _, has_more) \<Rightarrow> (es, has_more))"

fun drain :: "nat \<Rightarrow> (u64 \<Rightarrow> StoredEnvelope list \<times> bool) \<Rightarrow> u64 \<Rightarrow> StoredEnvelope list" where
  "drain 0 page after = []"
| "drain (Suc k) page after =
     (case page after of (es, has_more) \<Rightarrow> es @ (if has_more then drain k page (se_cursor (last es)) else []))"

locale paged_log =
  fixes good :: "'s \<Rightarrow> bool" and log :: "'s \<Rightarrow> StoredEnvelope list"
    and page :: "'s \<Rightarrow> u64 \<Rightarrow> StoredEnvelope list \<times> bool" and n :: nat
  assumes log_sorted: "good s \<Longrightarrow> sorted_wrt (\<lambda>x y. se_cursor x < se_cursor y) (log s)"
    and log_bound: "good s \<Longrightarrow> e \<in> set (log s) \<Longrightarrow> se_cursor e < 2 ^ 63"
    and page_size: "0 < n"
    and page_eq: "good s \<Longrightarrow> after < 2 ^ 63 \<Longrightarrow>
      page s after = (take n (filter (\<lambda>e. after < se_cursor e) (log s)),
                      n < length (filter (\<lambda>e. after < se_cursor e) (log s)))"
begin

lemma rest_after_page:
  assumes "sorted_wrt (\<lambda>x y. se_cursor x < se_cursor y) xs" "n < length xs"
  shows "filter (\<lambda>e. se_cursor (last (take n xs)) < se_cursor e) xs = drop n xs"
proof -
  obtain m where n: "n = Suc m" using page_size by (cases n) auto
  have "last (take n xs) = xs ! m" and split: "xs = take m xs @ xs ! m # drop n xs"
    using assms(2) by (simp_all add: n take_Suc_conv_app_nth id_take_nth_drop [symmetric])
  moreover have "filter (\<lambda>e. se_cursor y < se_cursor e) (ys @ y # zs) = zs"
    if "sorted_wrt (\<lambda>x y. se_cursor x < se_cursor y) (ys @ y # zs)" for ys y zs
  proof -
    have "filter (\<lambda>e. se_cursor y < se_cursor e) ys = []"
      using that by (auto simp: sorted_wrt_append filter_empty_conv dest: less_asym)
    moreover have "filter (\<lambda>e. se_cursor y < se_cursor e) zs = zs"
      using that by (auto simp: sorted_wrt_append filter_id_conv)
    ultimately show ?thesis by simp
  qed
  ultimately show ?thesis using assms(1) by metis
qed

lemma drain_complete:
  "good s \<Longrightarrow> after < 2 ^ 63 \<Longrightarrow> length (filter (\<lambda>e. after < se_cursor e) (log s)) < k \<Longrightarrow>
   drain k (page s) after = filter (\<lambda>e. after < se_cursor e) (log s)"
proof (induction k arbitrary: after)
  case (Suc k)
  let ?xs = "filter (\<lambda>e. after < se_cursor e) (log s)" and ?c = "se_cursor (last (take n (filter (\<lambda>e. after < se_cursor e) (log s))))"
  show ?case
  proof (cases "n < length ?xs")
    case False
    with Suc.prems show ?thesis by (simp add: page_eq)
  next
    case True
    have sorted: "sorted_wrt (\<lambda>x y. se_cursor x < se_cursor y) ?xs"
      using log_sorted [OF Suc.prems(1)] by (rule sorted_wrt_filter)
    have "take n ?xs \<noteq> []" using True page_size by auto
    then have "last (take n ?xs) \<in> set ?xs" by (meson in_set_takeD last_in_set)
    then have mem: "last (take n ?xs) \<in> set (log s)" and gt: "after < ?c" by simp_all
    have "filter (\<lambda>e. ?c < se_cursor e) ?xs = filter (\<lambda>e. ?c < se_cursor e) (log s)"
      by (simp only: filter_filter) (rule filter_cong [OF refl], use gt less_trans in metis)
    then have rest: "filter (\<lambda>e. ?c < se_cursor e) (log s) = drop n ?xs"
      using rest_after_page [OF sorted True] by simp
    have "drain k (page s) ?c = drop n ?xs"
      using Suc.IH [OF Suc.prems(1), of ?c] log_bound [OF Suc.prems(1) mem] Suc.prems(3) page_size True
      by (simp add: rest)
    with Suc.prems True show ?thesis by (simp add: page_eq)
  qed
qed simp

end

definition syncable :: "database \<Rightarrow> bool" where
  "syncable d \<longleftrightarrow> db_ok d \<and> envelope_seq d < 2 ^ 63"

lemma cursor_word:
  assumes "syncable d" "r \<in> set (envelopes d)"
  shows "se_cursor (stored_envelope_from_row u r) = word_of_int (er_cursor r)"
    and "uint (word_of_int (er_cursor r) :: u64) = er_cursor r"
    and "er_cursor r < 2 ^ 63"
  using envelope_cursor_bounds [of d r] assms
  by (simp_all add: syncable_def stored_envelope_from_row_def take_bit_int_eq_self unsigned_of_int)

lemma sint_small: "(w :: u64) < 2 ^ 63 \<Longrightarrow> sint w = uint w"
proof -
  assume "w < 2 ^ 63"
  then have "uint w < 2 ^ 63" by (simp add: word_less_def)
  then have "signed_take_bit 63 (uint w) = uint w"
    by (intro signed_take_bit_int_eq_self) (simp_all add: order_trans [OF _ uint_nonnegative])
  then show ?thesis by (simp add: sint_uint)
qed

lemma mailbox_cursors:
  assumes "syncable d"
  shows "map uint (map se_cursor (mailbox i d)) = map er_cursor (filter (\<lambda>r. er_recipient_device_id r = i) (envelopes d))"
  using cursor_word [OF assms] by (simp add: mailbox_def)

lemma mailbox_sorted: "syncable d \<Longrightarrow> sorted_wrt (\<lambda>x y. se_cursor x < se_cursor y) (mailbox i d)"
proof -
  assume ok: "syncable d"
  then have "seq_ok (map er_cursor (envelopes d)) (envelope_seq d)"
    by (simp add: syncable_def db_ok_def cursors_ok_def)
  then have "sorted_wrt (<) (map uint (map se_cursor (mailbox i d)))"
    unfolding mailbox_cursors [OF ok] by (simp add: seq_ok_filter seq_ok_def sorted_wrt_map sorted_wrt_filter)
  then show ?thesis by (simp add: sorted_wrt_map word_less_def)
qed

lemma mailbox_bound: "syncable d \<Longrightarrow> e \<in> set (mailbox i d) \<Longrightarrow> se_cursor e < 2 ^ 63"
  using cursor_word by (fastforce simp: mailbox_def word_less_def)

lemma sync_page_eq:
  assumes ok: "syncable d" and small: "after < 2 ^ 63" and n_def: "n = unat (u32_clamp limit 1 200)"
  shows "sync_page a i st limit d after =
    (take n (filter (\<lambda>e. after < se_cursor e) (mailbox i d)), n < length (filter (\<lambda>e. after < se_cursor e) (mailbox i d)))"
proof -
  let ?rows = "filter (\<lambda>r. er_recipient_device_id r = i) (envelopes d)"
  let ?s = "\<lambda>r. stored_envelope_from_row (username_of (er_sender_account_id r) d) r"
  have cmp: "sint after < er_cursor r \<longleftrightarrow> after < se_cursor (?s r)" if "r \<in> set (envelopes d)" for r
    using cursor_word [OF ok that] sint_small [OF small] by (simp add: word_less_def)
  have "filter (\<lambda>(c, _). c > sint after) (mailbox_rows i d) =
      map (\<lambda>r. (er_cursor r, ?s r)) (filter (\<lambda>r. sint after < er_cursor r) ?rows)"
    using ok by (simp add: mailbox_rows_eq syncable_def filter_map comp_def)
  also have "filter (\<lambda>r. sint after < er_cursor r) ?rows = filter (\<lambda>r. after < se_cursor (?s r)) ?rows"
    by (rule filter_cong [OF refl]) (simp add: cmp)
  finally have rows: "filter (\<lambda>(c, _). c > sint after) (mailbox_rows i d) =
      map (\<lambda>r. (er_cursor r, ?s r)) (filter (\<lambda>r. after < se_cursor (?s r)) ?rows)" .
  have box: "filter (\<lambda>e. after < se_cursor e) (mailbox i d) = map ?s (filter (\<lambda>r. after < se_cursor (?s r)) ?rows)"
    by (simp add: mailbox_def filter_map comp_def)
  show ?thesis
    unfolding sync_page_def sync_def Let_def rows box n_def [symmetric]
    by (simp add: take_map min_def comp_def)
qed

lemma clamp_pos: "0 < unat (u32_clamp limit 1 200)"
  by (simp add: u32_clamp_def unat_gt_0 word_less_nat_alt)

interpretation mailbox_log: paged_log syncable "mailbox i" "sync_page a i st limit" "unat (u32_clamp limit 1 200)"
  for a i st limit
  by unfold_locales (blast intro: mailbox_sorted mailbox_bound sync_page_eq [OF _ _ refl] clamp_pos)+

section \<open>Synchronisation\<close>

text \<open>
  C3. Synchronisation is complete. A device that asks for pages from its cursor, each from the last
  cursor of the page before, until a page says that there is no more, has then received exactly the
  envelopes stored for it after its first cursor: all of them, each once, in the order of storage,
  whatever page size it asked for. One request per envelope and one more is always enough.
\<close>

theorem sync_complete:
  assumes "syncable d" and "after < 2 ^ 63" and "length (envelopes d) < k"
  shows "drain k (sync_page a i st limit d) after =
    map (\<lambda>r. stored_envelope_from_row (username_of (er_sender_account_id r) d) r)
      (filter (\<lambda>r. er_recipient_device_id r = i \<and> uint after < er_cursor r) (envelopes d))"
proof -
  let ?s = "\<lambda>r. stored_envelope_from_row (username_of (er_sender_account_id r) d) r"
  have "length (filter (\<lambda>e. after < se_cursor e) (mailbox i d)) \<le> length (envelopes d)"
    by (simp add: mailbox_def filter_map)
  then have "drain k (sync_page a i st limit d) after = filter (\<lambda>e. after < se_cursor e) (mailbox i d)"
    by (intro mailbox_log.drain_complete assms(1,2)) (use assms(3) in simp)
  also have "\<dots> = map ?s (filter (\<lambda>r. after < se_cursor (?s r)) (filter (\<lambda>r. er_recipient_device_id r = i) (envelopes d)))"
    by (simp add: mailbox_def filter_map comp_def)
  also have "filter (\<lambda>r. after < se_cursor (?s r)) (filter (\<lambda>r. er_recipient_device_id r = i) (envelopes d)) =
      filter (\<lambda>r. er_recipient_device_id r = i \<and> uint after < er_cursor r) (envelopes d)"
    by (simp only: filter_filter, rule filter_cong [OF refl])
      (use cursor_word [OF assms(1)] in \<open>auto simp: word_less_def\<close>)
  finally show ?thesis .
qed

lemma sample_sent_ok: "db_ok sample_db_sent"
  using store_envelopes_ok [OF sample_store sample_db_ok(1,2)] by simp

theorem sync_complete_witness:
  "drain 2 (sync_page ''b'' ''e'' 0 50 sample_db_sent) 0 =
     [stored_envelope_from_row ''a'' (envelope_row_of 1 ''a'' ''d'' 9 sample_envelope)]"
proof -
  have "syncable sample_db_sent"
    by (simp add: syncable_def sample_sent_ok) (simp add: sample_db_sent_def)
  from sync_complete [OF this, of 0 2 "''b''" "''e''" 0 50] show ?thesis
    by (simp add: sample_db_sent_def envelope_row_of_def sample_envelope_def username_of_def
        sample_db_def sample_account_def)
qed

section \<open>Acknowledgement\<close>

lemma update_where_idem:
  "(\<And>r. p r \<Longrightarrow> p (f r)) \<Longrightarrow> (\<And>r. p r \<Longrightarrow> g (f r) = f r) \<Longrightarrow> update_where p g (update_where p f rs) = update_where p f rs"
  by (induction rs) auto

lemma find_update_where:
  "(\<And>r. p (f r) = p r) \<Longrightarrow> find p (update_where p f rs) = map_option f (find p rs)"
  by (induction rs) auto

lemma insert_or_ignore_known: "key r \<in> key ` set rs \<Longrightarrow> insert_or_ignore key r rs = rs"
  by (simp add: insert_or_ignore_def)

text \<open>
  Acknowledging is idempotent. A device may acknowledge an envelope as often as it likes, at any
  later time: the answer stays the same, and neither the first delivery time nor anything else in
  the database changes again, so the sender sees one delivery update with one cursor.
\<close>

theorem ack_idempotent:
  "ack i e now' (snd (ack i e now d)) = (fst (ack i e now d), snd (ack i e now d))"
proof (cases "find (\<lambda>r. er_envelope_id r = e \<and> er_recipient_device_id r = i) (envelopes d)")
  case None
  then show ?thesis by (simp add: ack_def)
next
  case (Some row)
  let ?m = "\<lambda>r :: envelope_row. er_envelope_id r = e \<and> er_recipient_device_id r = i"
  let ?f = "\<lambda>now (r :: envelope_row). r\<lparr>er_delivered_at_ms := Some (coalesce (er_delivered_at_ms r) now)\<rparr>"
  let ?g = "\<lambda>now (r :: logical_row). r\<lparr>lm_delivered_at_ms := Some (coalesce (lm_delivered_at_ms r) now)\<rparr>"
  have "find ?m (update_where ?m (?f now) (envelopes d)) = Some (?f now row)"
    by (subst find_update_where) (simp_all add: Some)
  moreover have "update_where ?m (?f now') (update_where ?m (?f now) rs) = update_where ?m (?f now) rs" for rs
    by (rule update_where_idem) (simp_all add: coalesce_def)
  moreover have "update_where (\<lambda>r. lm_id r = l) (?g now') (update_where (\<lambda>r. lm_id r = l) (?g now) rs) =
      update_where (\<lambda>r. lm_id r = l) (?g now) rs" for rs l
    by (rule update_where_idem) (simp_all add: coalesce_def)
  ultimately show ?thesis
    using Some by (auto simp: ack_def Let_def insert_or_ignore_def delivery_key_def)
qed

definition delivered_first :: "i64 \<Rightarrow> i64 option \<Rightarrow> i64 option" where
  "delivered_first now x = Some (case x of None \<Rightarrow> now | Some t \<Rightarrow> t)"

text \<open>
  Only the recipient acknowledges, and the sender is told. An acknowledgement that succeeds names
  an envelope stored for that device; afterwards the envelope and its logical message carry a
  delivery time (the first one), and the sender's account has a delivery update for the message.
  For any other device the statement finds nothing and changes nothing.
\<close>

theorem ack_effect:
  "(case ack i e now d of
      (None, d') \<Rightarrow> d' = d \<and> (\<forall>r \<in> set (envelopes d). \<not> (er_envelope_id r = e \<and> er_recipient_device_id r = i))
    | (Some (sender, logical), d') \<Rightarrow>
        (\<exists>r \<in> set (envelopes d). er_envelope_id r = e \<and> er_recipient_device_id r = i
           \<and> er_sender_account_id r = sender \<and> er_logical_message_id r = logical
           \<and> r\<lparr>er_delivered_at_ms := delivered_first now (er_delivered_at_ms r)\<rparr> \<in> set (envelopes d'))
        \<and> (\<exists>u \<in> set (delivery_updates d'). dl_account_id u = sender \<and> dl_logical_message_id u = logical)
        \<and> map er_cursor (envelopes d') = map er_cursor (envelopes d)
        \<and> accounts d' = accounts d \<and> devices d' = devices d)"
proof (cases "find (\<lambda>r. er_envelope_id r = e \<and> er_recipient_device_id r = i) (envelopes d)")
  case None
  then have "ack i e now d = (None, d)" by (simp add: ack_def)
  with None show ?thesis by (auto simp: find_None_iff)
next
  case (Some row)
  let ?u = "\<lparr>dl_cursor = delivery_seq d + 1, dl_account_id = er_sender_account_id row,
     dl_logical_message_id = er_logical_message_id row, dl_delivered_at_ms = now\<rparr>"
  have "delivery_key ?u \<in> delivery_key ` set (insert_or_ignore delivery_key ?u (delivery_updates d))"
    by (rule delivery_tbl.ins_has_key)
  then have "\<exists>u \<in> set (insert_or_ignore delivery_key ?u (delivery_updates d)).
      dl_account_id u = er_sender_account_id row \<and> dl_logical_message_id u = er_logical_message_id row"
    by (auto simp: delivery_key_def)
  with Some find_SomeD [OF Some] show ?thesis
    by (auto simp: ack_def Let_def in_update_where map_update_where_same delivered_first_def coalesce_def
        intro!: bexI [of _ row])
qed

theorem ack_effect_witness:
  "\<exists>d'. ack ''e'' ''v'' 20 sample_db_sent = (Some (''a'', ''l''), d')
     \<and> (\<exists>u \<in> set (delivery_updates d'). dl_account_id u = ''a'' \<and> dl_logical_message_id u = ''l'')"
proof -
  have "fst (ack ''e'' ''v'' 20 sample_db_sent) = Some (''a'', ''l'')"
    by (simp add: ack_def Let_def sample_db_sent_def envelope_row_of_def sample_envelope_def)
  then obtain d' where d': "ack ''e'' ''v'' 20 sample_db_sent = (Some (''a'', ''l''), d')"
    by (metis prod.collapse)
  with ack_effect [where i = "''e''" and e = "''v''" and now = 20 and d = sample_db_sent] show ?thesis by auto
qed

section \<open>Retention\<close>

lemma delete_envelopes_simps:
  "envelopes (snd (delete_envelopes p d)) = filter (\<lambda>r. \<not> p r) (envelopes d)"
  "fst (delete_envelopes p d) = filter p (envelopes d)"
  "prekeys (snd (delete_envelopes p d)) = prekeys d"
  "devices (snd (delete_envelopes p d)) = devices d"
  "accounts (snd (delete_envelopes p d)) = accounts d"
  by (simp_all add: delete_envelopes_def Let_def delete_where_def)

lemma drop_orphans_simps:
  "envelopes (snd (snd (drop_orphans d))) = envelopes d"
  "prekeys (snd (snd (drop_orphans d))) = prekeys d"
  "devices (snd (snd (drop_orphans d))) = devices d"
  "accounts (snd (snd (drop_orphans d))) = accounts d"
  "l \<in> set (logical_messages (snd (snd (drop_orphans d)))) \<longleftrightarrow> l \<in> set (logical_messages d) \<and> has_envelope d (lm_id l)"
  by (simp_all add: drop_orphans_def Let_def)

lemma sum_partition:
  "sum_list (map f (filter p xs)) + sum_list (map f (filter (\<lambda>x. \<not> p x) xs)) = sum_list (map f xs)" for f :: "'a \<Rightarrow> int"
  by (induction xs) auto

lemma int_cs_bytes: "int (cs_ciphertext_bytes (stats_of rs u l)) = sum_list (map envelope_bytes rs)"
  unfolding stats_of_def envelope_bytes_def by (induction rs) simp_all

lemma cleanup_delivered_unfold:
  assumes "cleanup_delivered_envelopes t n d = (stats, d')"
  defines "victims \<equiv> map er_cursor (take (unat (u32_clamp n 1 10000)) (sort_key er_cursor (filter (delivered_before t) (envelopes d))))"
  shows "envelopes d' = filter (\<lambda>r. er_cursor r \<notin> set victims) (envelopes d)
    \<and> cs_envelopes stats = length (filter (\<lambda>r. er_cursor r \<in> set victims) (envelopes d))
    \<and> int (cs_ciphertext_bytes stats) = sum_list (map envelope_bytes (filter (\<lambda>r. er_cursor r \<in> set victims) (envelopes d)))
    \<and> (\<forall>l \<in> set (logical_messages d'). has_envelope d' (lm_id l))"
proof -
  let ?del = "delete_envelopes (\<lambda>r. er_cursor r \<in> set victims) d"
  have d': "d' = snd (snd (drop_orphans (snd ?del)))"
    and stats: "\<exists>u l. stats = stats_of (fst ?del) u l"
    using assms(1) unfolding cleanup_delivered_envelopes_def Let_def victims_def [symmetric]
    by (auto split: prod.splits)
  have "has_envelope d' = has_envelope (snd ?del)"
    unfolding d' has_envelope_def [abs_def] by (simp add: drop_orphans_simps)
  then have "\<forall>l \<in> set (logical_messages d'). has_envelope d' (lm_id l)"
    unfolding d' by (simp add: drop_orphans_simps)
  moreover have "envelopes d' = filter (\<lambda>r. er_cursor r \<notin> set victims) (envelopes d)"
    by (simp add: d' drop_orphans_simps delete_envelopes_simps)
  moreover from stats have "cs_envelopes stats = length (filter (\<lambda>r. er_cursor r \<in> set victims) (envelopes d))"
    by (auto simp: stats_of_def delete_envelopes_simps)
  moreover from stats have "int (cs_ciphertext_bytes stats) = sum_list (map envelope_bytes (filter (\<lambda>r. er_cursor r \<in> set victims) (envelopes d)))"
    by (auto simp: int_cs_bytes delete_envelopes_simps)
  ultimately show ?thesis by blast
qed

lemma length_filter_keys:
  assumes "distinct (map k xs)" "set vs \<subseteq> k ` set xs" "distinct vs"
  shows "length (filter (\<lambda>r. k r \<in> set vs) xs) = length vs"
proof -
  have inj: "inj_on k (set xs)" and dist: "distinct xs" using assms(1) by (simp_all add: distinct_map)
  have "length (filter (\<lambda>r. k r \<in> set vs) xs) = card {r \<in> set xs. k r \<in> set vs}"
    using dist by (simp add: distinct_length_filter Collect_conj_eq Int_commute)
  also have "\<dots> = card (k ` {r \<in> set xs. k r \<in> set vs})"
    by (rule card_image [symmetric]) (rule inj_on_subset [OF inj], auto)
  also have "k ` {r \<in> set xs. k r \<in> set vs} = set vs" using assms(2) by auto
  finally show ?thesis using assms(3) by (simp add: distinct_card)
qed

text \<open>
  The retention clean-up. It removes stored envelopes only if they were delivered before the
  given time, the oldest first, as many as there are up to its limit; undelivered envelopes are never
  touched. The statistics count what was removed, the ledger loses exactly these bytes, and no logical
  message stays without an envelope.
\<close>

theorem cleanup_delivered_effect:
  assumes "db_ok d" and "cleanup_delivered_envelopes t n d = (stats, d')"
  shows "cs_envelopes stats = min (unat (u32_clamp n 1 10000)) (length (filter (delivered_before t) (envelopes d)))
    \<and> length (envelopes d') + cs_envelopes stats = length (envelopes d)
    \<and> (\<forall>r \<in> set (envelopes d). \<not> delivered_before t r \<longrightarrow> r \<in> set (envelopes d'))
    \<and> (\<forall>r \<in> set (envelopes d) - set (envelopes d'). \<forall>q \<in> set (envelopes d').
          delivered_before t q \<longrightarrow> er_cursor r < er_cursor q)
    \<and> total_bytes d' = total_bytes d - int (cs_ciphertext_bytes stats)
    \<and> (\<forall>l \<in> set (logical_messages d'). has_envelope d' (lm_id l))"
proof -
  let ?n = "unat (u32_clamp n 1 10000)" and ?old = "filter (delivered_before t) (envelopes d)"
  let ?vs = "map er_cursor (take ?n ?old)"
  have seq: "seq_ok (map er_cursor (envelopes d)) (envelope_seq d)"
    using assms(1) by (simp add: db_ok_def cursors_ok_def)
  have old_seq: "sorted_wrt (<) (map er_cursor ?old)"
    using seq_ok_filter [OF seq, of "delivered_before t"] by (simp add: seq_ok_def)
  have "sorted (map er_cursor ?old)" by (rule seq_ok_sorted [OF seq_ok_filter [OF seq]])
  then have sorted: "sort_key er_cursor ?old = ?old" by (rule sort_key_id_if_sorted)
  note eff = cleanup_delivered_unfold [OF assms(2), unfolded sorted]
  have ok': "db_ok d'" using cleanup_delivered_ok [OF assms(1), of t n] assms(2) by simp
  have "distinct (map er_cursor ?old)" using seq_ok_distinct [OF seq_ok_filter [OF seq]] .
  then have "distinct ?vs" by (simp add: take_map [symmetric])
  moreover have "set ?vs \<subseteq> er_cursor ` set (envelopes d)" by (auto dest: in_set_takeD)
  ultimately have count: "length (filter (\<lambda>r. er_cursor r \<in> set ?vs) (envelopes d)) = length ?vs"
    using length_filter_keys seq_ok_distinct [OF seq] by blast
  have split: "cs_envelopes stats = min ?n (length ?old)" using eff count by (simp add: min.commute)
  have "length (envelopes d') + cs_envelopes stats = length (envelopes d)"
    using eff sum_length_filter_compl [of "\<lambda>r. er_cursor r \<in> set ?vs" "envelopes d"] by simp
  moreover have cursor_inj: "r = q" if "r \<in> set (envelopes d)" "q \<in> set (envelopes d)" "er_cursor r = er_cursor q" for r q
    using seq_ok_distinct [OF seq] that by (auto simp: distinct_map dest: inj_onD)
  have "r \<in> set (envelopes d')" if r: "r \<in> set (envelopes d)" "\<not> delivered_before t r" for r
  proof -
    have "er_cursor r \<notin> set ?vs"
    proof
      assume "er_cursor r \<in> set ?vs"
      then obtain q where "q \<in> set ?old" "er_cursor r = er_cursor q" by (auto dest: in_set_takeD)
      with r cursor_inj show False by auto
    qed
    with eff r show ?thesis by simp
  qed
  moreover have "er_cursor r < er_cursor q"
    if "r \<in> set (envelopes d) - set (envelopes d')" "q \<in> set (envelopes d')" "delivered_before t q" for r q
  proof -
    from that eff have q: "q \<in> set ?old" "er_cursor q \<notin> set ?vs" and r: "er_cursor r \<in> set ?vs" by auto
    have "set ?old = set (take ?n ?old) \<union> set (drop ?n ?old)" by (metis append_take_drop_id set_append)
    with q have "q \<in> set (drop ?n ?old)" by auto
    moreover from r obtain p where "p \<in> set (take ?n ?old)" "er_cursor p = er_cursor r" by auto
    moreover have "sorted_wrt (<) (map er_cursor (take ?n ?old @ drop ?n ?old))" using old_seq by simp
    then have "\<forall>x \<in> set (take ?n ?old). \<forall>y \<in> set (drop ?n ?old). er_cursor x < er_cursor y"
      by (simp only: map_append sorted_wrt_append set_map) blast
    ultimately show ?thesis by metis
  qed
  moreover have "total_bytes d' = total_bytes d - int (cs_ciphertext_bytes stats)"
    using eff sum_partition [of envelope_bytes "\<lambda>r. er_cursor r \<in> set ?vs" "envelopes d"]
    by (simp add: total_is_stored_bytes [OF assms(1)] total_is_stored_bytes [OF ok'])
  ultimately show ?thesis using eff split by blast
qed

theorem cleanup_delivered_effect_witness:
  "cs_envelopes (fst (cleanup_delivered_envelopes 100 0 (snd (ack ''e'' ''v'' 20 sample_db_sent)))) = 1
   \<and> total_bytes (snd (cleanup_delivered_envelopes 100 0 (snd (ack ''e'' ''v'' 20 sample_db_sent)))) = 0"
proof -
  let ?d = "snd (ack ''e'' ''v'' 20 sample_db_sent)"
  have ok: "db_ok ?d" by (rule ack_ok) (rule sample_sent_ok)
  have evs: "envelopes ?d = [(envelope_row_of 1 ''a'' ''d'' 9 sample_envelope)\<lparr>er_delivered_at_ms := Some 20\<rparr>]"
    by (simp add: ack_def Let_def sample_db_sent_def envelope_row_of_def sample_envelope_def coalesce_def)
  let ?c = "cleanup_delivered_envelopes 100 0 ?d"
  note eff = cleanup_delivered_effect [OF ok surjective_pairing [of ?c]]
  have "delivered_before 100 (r\<lparr>er_delivered_at_ms := Some 20\<rparr>)" for r :: envelope_row
    by (simp add: delivered_before_def)
  then have one: "cs_envelopes (fst ?c) = 1"
    using conjunct1 [OF eff] by (simp add: evs u32_clamp_def)
  have "length (envelopes (snd ?c)) + cs_envelopes (fst ?c) = length (envelopes ?d)"
    using conjunct1 [OF conjunct2 [OF eff]] .
  then have "envelopes (snd ?c) = []" by (simp add: one evs)
  with one show ?thesis
    using total_is_stored_bytes [OF cleanup_delivered_ok [OF ok, of 100 0]] by simp
qed

end
