(* ===== verification/Db_Devices.thy ===== *)
theory Db_Devices
  imports Db_Delivery
begin

text \<open>
  The life of a device in the database: bootstrap and activation, one-time keys, revocation.
\<close>

section \<open>One-time keys\<close>

lemma oldest_prekey_SomeD:
  assumes "oldest_prekey i d = Some r"
  shows "r \<in> set (prekeys d)" "pk_device_id r = i"
    "q \<in> set (prekeys d) \<Longrightarrow> pk_device_id q = i \<Longrightarrow> pk_created_at_ms r \<le> pk_created_at_ms q"
proof -
  let ?rs = "filter (\<lambda>r. pk_device_id r = i) (prekeys d)"
  obtain rest where sorted: "sort_key pk_created_at_ms ?rs = r # rest"
    using assms by (auto simp: oldest_prekey_def split: list.splits)
  have "set (r # rest) = set ?rs" using sorted by (metis set_sort)
  then show "r \<in> set (prekeys d)" "pk_device_id r = i" by auto
  have "sorted (map pk_created_at_ms (r # rest))" using sorted by (metis sorted_sort_key)
  then have le: "\<forall>q \<in> set (r # rest). pk_created_at_ms r \<le> pk_created_at_ms q" by auto
  assume "q \<in> set (prekeys d)" "pk_device_id q = i"
  then have "q \<in> set (r # rest)" using \<open>set (r # rest) = set ?rs\<close> by auto
  with le show "pk_created_at_ms r \<le> pk_created_at_ms q" by blast
qed

lemma claim_prekey_SomeE:
  assumes "claim_prekey a i d = (Some (b, k), d')"
  obtains dev key where "dev \<in> set (devices d)" "dr_account_id dev = a" "dr_id dev = i"
    "\<not> dr_pending dev" "\<not> dr_revoked dev" "b = device_bundle_from_row dev"
    "oldest_prekey i d = Some key"
    "k = \<lparr>otk_key_id = pk_key_id key, otk_curve25519_key = pk_curve25519_key key, otk_signature = pk_signature key\<rparr>"
    "d' = d\<lparr>prekeys := delete_where (\<lambda>r. prekey_key r = prekey_key key) (prekeys d)\<rparr>"
proof -
  from assms obtain dev where dev: "find (\<lambda>r. dr_account_id r = a \<and> dr_id r = i \<and> \<not> dr_pending r \<and> \<not> dr_revoked r) (devices d) = Some dev"
    by (auto simp: claim_prekey_def split: option.splits)
  from assms dev obtain key where "oldest_prekey i d = Some key"
    by (auto simp: claim_prekey_def split: option.splits)
  with assms dev find_SomeD [OF dev] show thesis
    by (intro that [of dev key]) (auto simp: claim_prekey_def)
qed

text \<open>
  A one-time key is handed out once. A claim that succeeds names an active device of the account
  and its oldest published key, and takes exactly this key out of the database, so that no later claim
  can return it.
\<close>

theorem prekey_claimed_once:
  assumes "db_ok d" and "claim_prekey a i d = (Some (b, k), d')"
  shows "\<exists>row \<in> set (prekeys d). pk_device_id row = i \<and> pk_key_id row = otk_key_id k
      \<and> pk_curve25519_key row = otk_curve25519_key k \<and> pk_signature row = otk_signature k
      \<and> (\<forall>q \<in> set (prekeys d). pk_device_id q = i \<longrightarrow> pk_created_at_ms row \<le> pk_created_at_ms q)
      \<and> set (prekeys d') = set (prekeys d) - {row}
      \<and> (i, otk_key_id k) \<notin> prekey_key ` set (prekeys d')
      \<and> device_of a i d \<and> db_device_id b = i"
  using assms(2)
proof (rule claim_prekey_SomeE)
  fix dev key
  assume dev: "dev \<in> set (devices d)" "dr_account_id dev = a" "dr_id dev = i" "b = device_bundle_from_row dev"
    and key: "oldest_prekey i d = Some key"
    and k: "k = \<lparr>otk_key_id = pk_key_id key, otk_curve25519_key = pk_curve25519_key key, otk_signature = pk_signature key\<rparr>"
    and d': "d' = d\<lparr>prekeys := delete_where (\<lambda>r. prekey_key r = prekey_key key) (prekeys d)\<rparr>"
  have "inj_on prekey_key (set (prekeys d))"
    using assms(1) by (simp add: db_ok_def keys_ok_def distinct_map)
  with oldest_prekey_SomeD(1) [OF key] have "set (prekeys d') = set (prekeys d) - {key}"
    by (auto simp: d' dest: inj_onD)
  moreover have "(i, otk_key_id k) \<notin> prekey_key ` set (prekeys d')"
    using oldest_prekey_SomeD(2) [OF key] by (auto simp: d' k prekey_key_def)
  moreover have "device_of a i d" using dev by (force simp: device_of_def)
  ultimately show ?thesis
    using oldest_prekey_SomeD [OF key] dev by (intro bexI [of _ key]) (auto simp: k device_bundle_from_row_def)
qed

definition sample_key :: OneTimeKey where
  "sample_key = \<lparr>otk_key_id = ''k'', otk_curve25519_key = [8], otk_signature = [9]\<rparr>"

theorem prekey_claimed_once_witness:
  "\<exists>d'. (''e'', ''k'') \<notin> prekey_key ` set (prekeys d')
     \<and> claim_prekey ''b'' ''e'' (sample_db\<lparr>prekeys := [prekey_row_of ''e'' 1 sample_key]\<rparr>)
         = (Some (device_bundle_from_row (sample_device ''e'' ''b''), sample_key), d')"
proof -
  let ?d = "sample_db\<lparr>prekeys := [prekey_row_of ''e'' 1 sample_key]\<rparr>"
  have ok: "db_ok ?d"
    using sample_db_ok(1) by (intro prekeys_update_ok)
      (auto simp: prekey_row_of_def device_exists_def sample_db_def sample_device_def)
  have claim: "claim_prekey ''b'' ''e'' ?d = (Some (device_bundle_from_row (sample_device ''e'' ''b''), sample_key), ?d\<lparr>prekeys := []\<rparr>)"
    by (simp add: claim_prekey_def oldest_prekey_def sample_db_def sample_device_def prekey_row_of_def sample_key_def)
  then show ?thesis using prekey_claimed_once [OF ok claim] by (auto simp: sample_key_def)
qed

section \<open>Revocation\<close>





section \<open>Bootstrap and activation\<close>

text \<open>
  Activation steps the roster. An activation that succeeds is for a pending device of the account,
  makes it active with the new certificate, and moves the account's roster revision from its value to
  the next one; the same signed request, or any other one for this revision, is refused from then on.
\<close>

theorem activation_steps_roster:
  assumes "activate_device a i revision s d = ok d'"
  shows "(\<exists>acc \<in> set (accounts d). ar_id acc = a \<and> revision = word_of_int (ar_roster_revision acc) + 1)
    \<and> (\<exists>r \<in> set (devices d). dr_account_id r = a \<and> dr_id r = i \<and> dr_pending r
         \<and> r\<lparr>dr_pending := False, dr_certificate_signature := s\<rparr> \<in> set (devices d'))
    \<and> delete_where (\<lambda>r. dr_id r = i) (devices d') = delete_where (\<lambda>r. dr_id r = i) (devices d)
    \<and> (\<forall>acc \<in> set (accounts d'). ar_id acc = a \<longrightarrow> word_of_int (ar_roster_revision acc) = revision)
    \<and> (\<forall>j s'. activate_device a j revision s' d' = bail ''roster revision conflict'')"
proof -
  let ?m = "\<lambda>r. dr_account_id r = a \<and> dr_id r = i \<and> dr_pending r"
  from assms obtain acc where acc: "find (\<lambda>r. ar_id r = a) (accounts d) = Some acc"
    by (auto simp: activate_device_def split: option.splits)
  from assms acc have rev: "revision = word_of_int (ar_roster_revision acc) + 1"
    by (auto simp: activate_device_def split: if_splits)
  from assms acc rev have count: "count_where ?m (devices d) = 1"
    by (auto simp: activate_device_def Let_def split: if_splits)
  from assms acc rev count have d': "d' = d\<lparr>devices := update_where ?m
         (\<lambda>r. r\<lparr>dr_pending := False, dr_certificate_signature := s\<rparr>) (devices d),
       accounts := update_where (\<lambda>r. ar_id r = a) (\<lambda>r. r\<lparr>ar_roster_revision := sint revision\<rparr>) (accounts d)\<rparr>"
    by (simp add: activate_device_def)
  from count have "0 < count_where ?m (devices d)" by simp
  then obtain row where row: "row \<in> set (devices d)" "?m row" by (auto simp: count_where_pos_iff)
  have others: "delete_where (\<lambda>r. dr_id r = i) (update_where ?m f rs) = delete_where (\<lambda>r. dr_id r = i) rs"
    if "\<And>r. dr_id (f r) = dr_id r" for f and rs :: "device_row list"
    using that by (induction rs) auto
  have all: "word_of_int (ar_roster_revision r) = revision" if "r \<in> set (accounts d')" "ar_id r = a" for r
  proof -
    from that(1) have "r \<in> set (update_where (\<lambda>r. ar_id r = a) (\<lambda>r. r\<lparr>ar_roster_revision := sint revision\<rparr>) (accounts d))"
      by (simp add: d')
    then obtain q where q: "r = (if ar_id q = a then q\<lparr>ar_roster_revision := sint revision\<rparr> else q)"
      unfolding in_update_where by blast
    with that(2) have "r = q\<lparr>ar_roster_revision := sint revision\<rparr>" by (simp split: if_splits)
    then show ?thesis by simp
  qed
  have replay: "activate_device a j revision s' d' = bail ''roster revision conflict''" for j s'
  proof -
    have "find (\<lambda>r. ar_id r = a) (accounts d') = Some (acc\<lparr>ar_roster_revision := sint revision\<rparr>)"
      by (simp add: d' find_update_where acc)
    then show ?thesis by (simp add: activate_device_def)
  qed
  have new: "row\<lparr>dr_pending := False, dr_certificate_signature := s\<rparr> \<in> set (devices d')"
    using row by (auto simp: d' in_update_where intro!: bexI [of _ row])
  show ?thesis
  proof (intro conjI)
    show "\<exists>acc \<in> set (accounts d). ar_id acc = a \<and> revision = word_of_int (ar_roster_revision acc) + 1"
      using find_SomeD [OF acc] rev by blast
    show "\<exists>r \<in> set (devices d). dr_account_id r = a \<and> dr_id r = i \<and> dr_pending r
         \<and> r\<lparr>dr_pending := False, dr_certificate_signature := s\<rparr> \<in> set (devices d')"
      using row new by blast
    show "delete_where (\<lambda>r. dr_id r = i) (devices d') = delete_where (\<lambda>r. dr_id r = i) (devices d)"
      by (simp add: d' others)
  qed (use all replay in blast)+
qed

theorem activation_steps_roster_witness:
  "let d = sample_db\<lparr>devices := [sample_device ''d'' ''a'', sample_device ''p'' ''a''\<lparr>dr_pending := True\<rparr>]\<rparr>
   in \<exists>d'. activate_device ''a'' ''p'' 2 [6] d = ok d'
     \<and> activate_device ''a'' ''p'' 2 [6] d' = bail ''roster revision conflict''"
proof -
  let ?d = "sample_db\<lparr>devices := [sample_device ''d'' ''a'', sample_device ''p'' ''a''\<lparr>dr_pending := True\<rparr>]\<rparr>"
  obtain d' where act: "activate_device ''a'' ''p'' 2 [6] ?d = ok d'"
    by (simp add: activate_device_def Let_def sample_db_def sample_account_def sample_device_def count_where_def)
  from activation_steps_roster [OF act] act show ?thesis by (auto simp: Let_def)
qed

text \<open>
  The account's identity is fixed once. A bootstrap that succeeds finds an account without
  master key and sets the key and the first revision; every later bootstrap of this account fails.
\<close>

theorem bootstrap_once:
  assumes "bootstrap_master a m d = ok d'"
  shows "(\<exists>acc \<in> set (accounts d). ar_id acc = a \<and> ar_master_public_key acc = None
        \<and> acc\<lparr>ar_master_public_key := Some m, ar_roster_revision := 1\<rparr> \<in> set (accounts d'))
    \<and> filter (\<lambda>r. ar_id r \<noteq> a) (accounts d') = filter (\<lambda>r. ar_id r \<noteq> a) (accounts d)
    \<and> (\<forall>m'. bootstrap_master a m' d' = bail ''account is already bootstrapped'')"
proof -
  let ?m = "\<lambda>r. ar_id r = a \<and> ar_master_public_key r = None"
  from assms have count: "count_where ?m (accounts d) = 1"
    and d': "d' = d\<lparr>accounts := update_where ?m (\<lambda>r. r\<lparr>ar_master_public_key := Some m, ar_roster_revision := 1\<rparr>) (accounts d)\<rparr>"
    by (auto simp: bootstrap_master_def Let_def split: if_splits)
  from count have "0 < count_where ?m (accounts d)" by simp
  then obtain acc where acc: "acc \<in> set (accounts d)" "?m acc" by (auto simp: count_where_pos_iff)
  have "filter ?m (update_where ?m (\<lambda>r. r\<lparr>ar_master_public_key := Some m, ar_roster_revision := 1\<rparr>) rs) = []" for rs :: "account_row list"
    by (induction rs) auto
  then have "bootstrap_master a m' d' = bail ''account is already bootstrapped''" for m'
    by (simp add: bootstrap_master_def Let_def d' count_where_def)
  moreover have "filter (\<lambda>r. ar_id r \<noteq> a) (update_where ?m (\<lambda>r. r\<lparr>ar_master_public_key := Some m, ar_roster_revision := 1\<rparr>) rs) = filter (\<lambda>r. ar_id r \<noteq> a) rs" for rs :: "account_row list"
    by (induction rs) auto
  moreover have "acc\<lparr>ar_master_public_key := Some m, ar_roster_revision := 1\<rparr> \<in> set (accounts d')"
    using acc by (auto simp: d' in_update_where intro!: bexI [of _ acc])
  ultimately show ?thesis using acc by (auto simp: d')
qed

theorem bootstrap_once_witness:
  "let d = sample_db\<lparr>accounts := [(sample_account ''a'')\<lparr>ar_master_public_key := None\<rparr>]\<rparr>
   in \<exists>d'. bootstrap_master ''a'' [1] d = ok d' \<and> bootstrap_master ''a'' [2] d' = bail ''account is already bootstrapped''"
proof -
  let ?d = "sample_db\<lparr>accounts := [(sample_account ''a'')\<lparr>ar_master_public_key := None\<rparr>]\<rparr>"
  obtain d' where boot: "bootstrap_master ''a'' [1] ?d = ok d'"
    by (simp add: bootstrap_master_def Let_def sample_account_def count_where_def)
  from bootstrap_once [OF boot] boot show ?thesis by (auto simp: Let_def)
qed

end
