(* ===== verification/Config.thy ===== *)
theory Config
  imports Db_Tables
begin

text \<open>
  \<open>crates/server/src/config.rs\<close>: the server configuration, its defaults, the environment overrides and
  the validation. The file system, \<open>toml\<close>, the \<open>ipnet\<close> crate and the parser of socket addresses are
  arguments (the record \<open>config_env\<close>); an \<open>IpNet\<close> is its CIDR text. Decimal parsing of \<open>u32\<close> and \<open>u64\<close>
  is written out.
\<close>

section \<open>Addresses\<close>

datatype IpAddr = V4 u32 | V6 "128 word"

record SocketAddr =
  sa_ip :: IpAddr
  sa_port :: u16

fun is_loopback :: "IpAddr \<Rightarrow> bool" where
  "is_loopback (V4 a) = (drop_bit 24 a = 127)"
| "is_loopback (V6 a) = (a = 1)"

type_synonym IpNet = string

section \<open>The configuration\<close>

record Config =
  cfg_bind :: SocketAddr
  cfg_database_path :: string
  cfg_admin_socket_path :: string
  cfg_public_domain :: string
  cfg_log_filter :: string
  cfg_trusted_proxy_tls :: bool
  cfg_trusted_proxy_cidrs :: "IpNet list"
  cfg_reject_websocket_origins :: bool
  cfg_max_connections :: nat
  cfg_max_connections_per_ip :: nat
  cfg_max_unauthenticated_per_ip :: nat
  cfg_auth_attempts_per_minute :: u32
  cfg_auth_attempt_burst :: u32
  cfg_auth_attempts_per_account_per_hour :: u32
  cfg_auth_hash_concurrency :: nat
  cfg_requests_per_minute :: u32
  cfg_request_burst :: u32
  cfg_audit_retention_days :: u32
  cfg_pairing_ttl_seconds :: u64
  cfg_delivered_retention_days :: u32
  cfg_max_account_ciphertext_bytes :: u64
  cfg_max_total_ciphertext_bytes :: u64
  cfg_min_free_disk_bytes :: u64

definition default_config :: Config where
  "default_config = \<lparr>cfg_bind = \<lparr>sa_ip = V4 0x7F000001, sa_port = 8080\<rparr>,
     cfg_database_path = ''data/server.db'', cfg_admin_socket_path = ''data/admin.sock'',
     cfg_public_domain = ''localhost'', cfg_log_filter = ''tui_chat_server=info'',
     cfg_trusted_proxy_tls = False, cfg_trusted_proxy_cidrs = [''127.0.0.1/32'', ''::1/128''],
     cfg_reject_websocket_origins = True, cfg_max_connections = 512, cfg_max_connections_per_ip = 32,
     cfg_max_unauthenticated_per_ip = 4, cfg_auth_attempts_per_minute = 10,
     cfg_auth_attempt_burst = 5, cfg_auth_attempts_per_account_per_hour = 30,
     cfg_auth_hash_concurrency = 4, cfg_requests_per_minute = 120, cfg_request_burst = 30,
     cfg_audit_retention_days = 90, cfg_pairing_ttl_seconds = 24 * 60 * 60,
     cfg_delivered_retention_days = 90, cfg_max_account_ciphertext_bytes = 512 * 1024 * 1024,
     cfg_max_total_ciphertext_bytes = 10 * 1024 * 1024 * 1024,
     cfg_min_free_disk_bytes = 1024 * 1024 * 1024\<rparr>"

text \<open>What \<open>load\<close> asks of its surroundings.\<close>

record config_env =
  path_exists :: "string \<Rightarrow> bool"
  read_to_string :: "string \<Rightarrow> string option"
  toml_from_str :: "string \<Rightarrow> Config option"
  env_var :: "string \<Rightarrow> string option"
  parse_socket_addr :: "string \<Rightarrow> SocketAddr option"
  parse_ipnet :: "string \<Rightarrow> IpNet option"
  ipnet_contains :: "IpNet \<Rightarrow> IpAddr \<Rightarrow> bool"

text \<open>\<open>str::parse\<close> for unsigned integers: an optional plus sign, decimal digits, no overflow.\<close>

definition parse_decimal :: "nat \<Rightarrow> string \<Rightarrow> nat option" where
  "parse_decimal bound s =
     (let digits = (case s of c # cs \<Rightarrow> if c = CHR ''+'' then cs else s | [] \<Rightarrow> []) in
      if digits = [] \<or> \<not> list_all is_ascii_digit digits then None
      else (let n = foldl (\<lambda>n c. 10 * n + (of_char c - 48)) 0 digits
            in if n < bound then Some n else None))"

definition parse_u32 :: "string \<Rightarrow> u32 option" where
  "parse_u32 s = map_option of_nat (parse_decimal (2 ^ 32) s)"

definition parse_u64 :: "string \<Rightarrow> u64 option" where
  "parse_u64 s = map_option of_nat (parse_decimal (2 ^ 64) s)"

definition parse_bool :: "string \<Rightarrow> string \<Rightarrow> bool result" where
  "parse_bool s name =
     (let v = to_ascii_lowercase (trim s) in
      if v = ''1'' \<or> v = ''true'' \<or> v = ''yes'' then ok True
      else if v = ''0'' \<or> v = ''false'' \<or> v = ''no'' then ok False
      else bail (''invalid '' @ name @ ''; expected true or false''))"

text \<open>One \<open>if let Ok(value) = std::env::var(name)\<close> of \<open>load\<close>.\<close>

definition override :: "config_env \<Rightarrow> string \<Rightarrow> (string \<Rightarrow> Config \<Rightarrow> Config result) \<Rightarrow> Config result \<Rightarrow> Config result" where
  "override env name set_field c =
     (case c of Inl x \<Rightarrow> Inl x
      | Inr cfg \<Rightarrow> (case env_var env name of None \<Rightarrow> ok cfg | Some s \<Rightarrow> set_field s cfg))"

definition parsed :: "string \<Rightarrow> ('v \<Rightarrow> Config) \<Rightarrow> 'v option \<Rightarrow> Config result" where
  "parsed name f v = (case v of None \<Rightarrow> bail (''invalid '' @ name) | Some x \<Rightarrow> ok (f x))"

fun parse_cidrs :: "config_env \<Rightarrow> string list \<Rightarrow> IpNet list option" where
  "parse_cidrs env [] = Some []"
| "parse_cidrs env (s # ss) =
     (case parse_ipnet env s of None \<Rightarrow> None
      | Some n \<Rightarrow> (case parse_cidrs env ss of None \<Rightarrow> None | Some ns \<Rightarrow> Some (n # ns)))"

definition load_overrides :: "config_env \<Rightarrow> Config \<Rightarrow> Config result" where
  "load_overrides env c0 =
     (let c1 = override env ''TUI_CHAT_BIND'' (\<lambda>s c. parsed ''TUI_CHAT_BIND'' (\<lambda>v. c\<lparr>cfg_bind := v\<rparr>) (parse_socket_addr env s)) (ok c0);
          c2 = override env ''TUI_CHAT_DATABASE_PATH'' (\<lambda>s c. ok (c\<lparr>cfg_database_path := s\<rparr>)) c1;
          c3 = override env ''TUI_CHAT_ADMIN_SOCKET_PATH'' (\<lambda>s c. ok (c\<lparr>cfg_admin_socket_path := s\<rparr>)) c2;
          c4 = override env ''TUI_CHAT_PUBLIC_DOMAIN'' (\<lambda>s c. ok (c\<lparr>cfg_public_domain := s\<rparr>)) c3;
          c5 = override env ''RUST_LOG'' (\<lambda>s c. ok (c\<lparr>cfg_log_filter := s\<rparr>)) c4;
          c6 = override env ''TUI_CHAT_TRUSTED_PROXY_TLS''
                 (\<lambda>s c. map_sum id (\<lambda>v. c\<lparr>cfg_trusted_proxy_tls := v\<rparr>) (parse_bool s ''TUI_CHAT_TRUSTED_PROXY_TLS'')) c5;
          c7 = override env ''TUI_CHAT_TRUSTED_PROXY_CIDRS''
                 (\<lambda>s c. parsed ''TUI_CHAT_TRUSTED_PROXY_CIDRS'' (\<lambda>v. c\<lparr>cfg_trusted_proxy_cidrs := v\<rparr>)
                    (parse_cidrs env (filter (\<lambda>p. p \<noteq> []) (map trim (split_on (CHR '','') s))))) c6;
          c8 = override env ''TUI_CHAT_REJECT_WEBSOCKET_ORIGINS''
                 (\<lambda>s c. map_sum id (\<lambda>v. c\<lparr>cfg_reject_websocket_origins := v\<rparr>) (parse_bool s ''TUI_CHAT_REJECT_WEBSOCKET_ORIGINS'')) c7;
          c9 = override env ''TUI_CHAT_AUTH_ATTEMPTS_PER_ACCOUNT_PER_HOUR''
                 (\<lambda>s c. parsed ''TUI_CHAT_AUTH_ATTEMPTS_PER_ACCOUNT_PER_HOUR''
                    (\<lambda>v. c\<lparr>cfg_auth_attempts_per_account_per_hour := v\<rparr>) (parse_u32 s)) c8;
          c10 = override env ''TUI_CHAT_DELIVERED_RETENTION_DAYS''
                 (\<lambda>s c. parsed ''TUI_CHAT_DELIVERED_RETENTION_DAYS'' (\<lambda>v. c\<lparr>cfg_delivered_retention_days := v\<rparr>) (parse_u32 s)) c9;
          c11 = override env ''TUI_CHAT_MAX_ACCOUNT_CIPHERTEXT_BYTES''
                 (\<lambda>s c. parsed ''TUI_CHAT_MAX_ACCOUNT_CIPHERTEXT_BYTES'' (\<lambda>v. c\<lparr>cfg_max_account_ciphertext_bytes := v\<rparr>) (parse_u64 s)) c10;
          c12 = override env ''TUI_CHAT_MAX_TOTAL_CIPHERTEXT_BYTES''
                 (\<lambda>s c. parsed ''TUI_CHAT_MAX_TOTAL_CIPHERTEXT_BYTES'' (\<lambda>v. c\<lparr>cfg_max_total_ciphertext_bytes := v\<rparr>) (parse_u64 s)) c11
      in override env ''TUI_CHAT_MIN_FREE_DISK_BYTES''
                 (\<lambda>s c. parsed ''TUI_CHAT_MIN_FREE_DISK_BYTES'' (\<lambda>v. c\<lparr>cfg_min_free_disk_bytes := v\<rparr>) (parse_u64 s)) c12)"

definition limits_positive :: "Config \<Rightarrow> bool" where
  "limits_positive c = (\<not> (cfg_max_connections c = 0 \<or> cfg_max_connections_per_ip c = 0
     \<or> cfg_max_unauthenticated_per_ip c = 0 \<or> cfg_auth_hash_concurrency c = 0
     \<or> cfg_auth_attempts_per_minute c = 0 \<or> cfg_auth_attempt_burst c = 0
     \<or> cfg_auth_attempts_per_account_per_hour c = 0 \<or> cfg_requests_per_minute c = 0
     \<or> cfg_request_burst c = 0 \<or> cfg_delivered_retention_days c = 0
     \<or> cfg_max_account_ciphertext_bytes c = 0 \<or> cfg_max_total_ciphertext_bytes c = 0))"

definition validate_config :: "Config \<Rightarrow> Config result" where
  "validate_config c0 =
     (let c = c0\<lparr>cfg_public_domain := to_ascii_lowercase (trim (cfg_public_domain c0))\<rparr>;
          domain = cfg_public_domain c
      in if domain = [] \<or> str_contains domain ''://'' \<or> CHR ''/'' \<in> set domain
            \<or> (\<exists>ch \<in> set (utf8_chars domain). utf8_whitespace ch)
         then bail ''public_domain must be a hostname or IP address without a scheme or path''
         else if \<not> is_loopback (sa_ip (cfg_bind c)) \<and> \<not> cfg_trusted_proxy_tls c
         then bail ''non-loopback bind requires trusted_proxy_tls=true and a private TLS reverse-proxy network''
         else if cfg_trusted_proxy_tls c \<and> cfg_trusted_proxy_cidrs c = []
         then bail ''trusted_proxy_tls=true requires at least one trusted_proxy_cidrs entry''
         else if \<not> limits_positive c
         then bail ''connection, rate, retention, and storage limits must be greater than zero''
         else if cfg_max_total_ciphertext_bytes c < cfg_max_account_ciphertext_bytes c
         then bail ''max_account_ciphertext_bytes cannot exceed max_total_ciphertext_bytes''
         else ok c)"

definition load :: "config_env \<Rightarrow> string \<Rightarrow> Config result" where
  "load env path =
     (let base = (if path_exists env path
         then (case read_to_string env path of
                 None \<Rightarrow> bail (''failed to read '' @ path)
               | Some txt \<Rightarrow> (case toml_from_str env txt of
                     None \<Rightarrow> bail (''failed to parse '' @ path) | Some c \<Rightarrow> ok c))
         else ok default_config)
      in case base of Inl x \<Rightarrow> Inl x
       | Inr c0 \<Rightarrow> (case load_overrides env c0 of Inl x \<Rightarrow> Inl x | Inr c1 \<Rightarrow> validate_config c1))"

definition is_trusted_proxy :: "config_env \<Rightarrow> Config \<Rightarrow> IpAddr \<Rightarrow> bool" where
  "is_trusted_proxy env c address =
     (cfg_trusted_proxy_tls c \<and> (\<exists>network \<in> set (cfg_trusted_proxy_cidrs c). ipnet_contains env network address))"

definition storage_limits :: "Config \<Rightarrow> StorageLimits" where
  "storage_limits c = \<lparr>max_account_ciphertext_bytes = cfg_max_account_ciphertext_bytes c,
     max_total_ciphertext_bytes = cfg_max_total_ciphertext_bytes c,
     min_free_disk_bytes = cfg_min_free_disk_bytes c\<rparr>"

section \<open>Properties\<close>

lemma override_unset: "env_var env name = None \<Longrightarrow> override env name f (ok c) = ok c"
  by (simp add: override_def)

text \<open>
  The value of one field: that of the file (or the default) when its variable is not set, otherwise what
  the variable says, which must parse.
\<close>

definition env_field :: "config_env \<Rightarrow> string \<Rightarrow> (string \<Rightarrow> 'v option) \<Rightarrow> 'v \<Rightarrow> 'v \<Rightarrow> bool" where
  "env_field env name p old v = (case env_var env name of None \<Rightarrow> v = old | Some s \<Rightarrow> p s = Some v)"

definition bool_of :: "string \<Rightarrow> bool option" where
  "bool_of s =
     (let v = to_ascii_lowercase (trim s) in
      if v \<in> {''1'', ''true'', ''yes''} then Some True
      else if v \<in> {''0'', ''false'', ''no''} then Some False else None)"

definition cidrs_of :: "config_env \<Rightarrow> string \<Rightarrow> IpNet list option" where
  "cidrs_of env s = parse_cidrs env (filter (\<lambda>p. p \<noteq> []) (map trim (split_on (CHR '','') s)))"

definition file_config :: "config_env \<Rightarrow> string \<Rightarrow> Config option" where
  "file_config env path =
     (if path_exists env path then Option.bind (read_to_string env path) (toml_from_str env) else Some default_config)"

lemma parse_bool_ok: "parse_bool s name = ok v \<longleftrightarrow> bool_of s = Some v"
  by (auto simp: parse_bool_def bool_of_def Let_def)

lemma override_parsed:
  assumes "\<And>x. upd (get x) x = x"
  shows "override env n (\<lambda>s x. parsed n (\<lambda>v. upd v x) (p s)) r = ok c
    \<longleftrightarrow> (\<exists>x v. r = ok x \<and> env_field env n p (get x) v \<and> c = upd v x)"
  using assms by (cases r) (auto simp: override_def parsed_def env_field_def split: option.splits)

lemma override_text:
  assumes "\<And>x. upd (get x) x = x"
  shows "override env n (\<lambda>s x. ok (upd s x)) r = ok c
    \<longleftrightarrow> (\<exists>x v. r = ok x \<and> env_field env n Some (get x) v \<and> c = upd v x)"
  using assms by (cases r) (auto simp: override_def env_field_def split: option.splits)

lemma override_bool:
  assumes "\<And>x. upd (get x) x = x"
  shows "override env n (\<lambda>s x. map_sum id (\<lambda>v. upd v x) (parse_bool s n)) r = ok c
    \<longleftrightarrow> (\<exists>x v. r = ok x \<and> env_field env n bool_of (get x) v \<and> c = upd v x)"
proof -
  have "map_sum id (\<lambda>v. upd v x) (parse_bool s n) = ok c \<longleftrightarrow> (\<exists>v. bool_of s = Some v \<and> c = upd v x)" for s x
    unfolding parse_bool_ok [of s n, symmetric] by (cases "parse_bool s n") auto
  with assms show ?thesis by (cases r) (auto simp: override_def env_field_def split: option.splits)
qed

lemma cfg_unchanged:
  "cfg_bind_update (\<lambda>_. cfg_bind x) x = x"
  "cfg_database_path_update (\<lambda>_. cfg_database_path x) x = x"
  "cfg_admin_socket_path_update (\<lambda>_. cfg_admin_socket_path x) x = x"
  "cfg_public_domain_update (\<lambda>_. cfg_public_domain x) x = x"
  "cfg_log_filter_update (\<lambda>_. cfg_log_filter x) x = x"
  "cfg_trusted_proxy_tls_update (\<lambda>_. cfg_trusted_proxy_tls x) x = x"
  "cfg_trusted_proxy_cidrs_update (\<lambda>_. cfg_trusted_proxy_cidrs x) x = x"
  "cfg_reject_websocket_origins_update (\<lambda>_. cfg_reject_websocket_origins x) x = x"
  "cfg_auth_attempts_per_account_per_hour_update (\<lambda>_. cfg_auth_attempts_per_account_per_hour x) x = x"
  "cfg_delivered_retention_days_update (\<lambda>_. cfg_delivered_retention_days x) x = x"
  "cfg_max_account_ciphertext_bytes_update (\<lambda>_. cfg_max_account_ciphertext_bytes x) x = x"
  "cfg_max_total_ciphertext_bytes_update (\<lambda>_. cfg_max_total_ciphertext_bytes x) x = x"
  "cfg_min_free_disk_bytes_update (\<lambda>_. cfg_min_free_disk_bytes x) x = x"
  by simp_all

lemmas override_fields =
  override_parsed [of "\<lambda>v. cfg_bind_update (\<lambda>_. v)" cfg_bind, OF cfg_unchanged(1)]
  override_text [of "\<lambda>v. cfg_database_path_update (\<lambda>_. v)" cfg_database_path, OF cfg_unchanged(2)]
  override_text [of "\<lambda>v. cfg_admin_socket_path_update (\<lambda>_. v)" cfg_admin_socket_path, OF cfg_unchanged(3)]
  override_text [of "\<lambda>v. cfg_public_domain_update (\<lambda>_. v)" cfg_public_domain, OF cfg_unchanged(4)]
  override_text [of "\<lambda>v. cfg_log_filter_update (\<lambda>_. v)" cfg_log_filter, OF cfg_unchanged(5)]
  override_bool [of "\<lambda>v. cfg_trusted_proxy_tls_update (\<lambda>_. v)" cfg_trusted_proxy_tls, OF cfg_unchanged(6)]
  override_parsed [of "\<lambda>v. cfg_trusted_proxy_cidrs_update (\<lambda>_. v)" cfg_trusted_proxy_cidrs, OF cfg_unchanged(7)]
  override_bool [of "\<lambda>v. cfg_reject_websocket_origins_update (\<lambda>_. v)" cfg_reject_websocket_origins, OF cfg_unchanged(8)]
  override_parsed [of "\<lambda>v. cfg_auth_attempts_per_account_per_hour_update (\<lambda>_. v)" cfg_auth_attempts_per_account_per_hour, OF cfg_unchanged(9)]
  override_parsed [of "\<lambda>v. cfg_delivered_retention_days_update (\<lambda>_. v)" cfg_delivered_retention_days, OF cfg_unchanged(10)]
  override_parsed [of "\<lambda>v. cfg_max_account_ciphertext_bytes_update (\<lambda>_. v)" cfg_max_account_ciphertext_bytes, OF cfg_unchanged(11)]
  override_parsed [of "\<lambda>v. cfg_max_total_ciphertext_bytes_update (\<lambda>_. v)" cfg_max_total_ciphertext_bytes, OF cfg_unchanged(12)]
  override_parsed [of "\<lambda>v. cfg_min_free_disk_bytes_update (\<lambda>_. v)" cfg_min_free_disk_bytes, OF cfg_unchanged(13)]

text \<open>The fields after the overrides: each variable sets the field of its name and no other.\<close>

definition overridden :: "config_env \<Rightarrow> Config \<Rightarrow> Config \<Rightarrow> bool" where
  "overridden env c0 c =
     (env_field env ''TUI_CHAT_BIND'' (parse_socket_addr env) (cfg_bind c0) (cfg_bind c)
    \<and> env_field env ''TUI_CHAT_DATABASE_PATH'' Some (cfg_database_path c0) (cfg_database_path c)
    \<and> env_field env ''TUI_CHAT_ADMIN_SOCKET_PATH'' Some (cfg_admin_socket_path c0) (cfg_admin_socket_path c)
    \<and> env_field env ''TUI_CHAT_PUBLIC_DOMAIN'' Some (cfg_public_domain c0) (cfg_public_domain c)
    \<and> env_field env ''RUST_LOG'' Some (cfg_log_filter c0) (cfg_log_filter c)
    \<and> env_field env ''TUI_CHAT_TRUSTED_PROXY_TLS'' bool_of (cfg_trusted_proxy_tls c0) (cfg_trusted_proxy_tls c)
    \<and> env_field env ''TUI_CHAT_TRUSTED_PROXY_CIDRS'' (cidrs_of env) (cfg_trusted_proxy_cidrs c0) (cfg_trusted_proxy_cidrs c)
    \<and> env_field env ''TUI_CHAT_REJECT_WEBSOCKET_ORIGINS'' bool_of (cfg_reject_websocket_origins c0) (cfg_reject_websocket_origins c)
    \<and> env_field env ''TUI_CHAT_AUTH_ATTEMPTS_PER_ACCOUNT_PER_HOUR'' parse_u32
        (cfg_auth_attempts_per_account_per_hour c0) (cfg_auth_attempts_per_account_per_hour c)
    \<and> env_field env ''TUI_CHAT_DELIVERED_RETENTION_DAYS'' parse_u32 (cfg_delivered_retention_days c0) (cfg_delivered_retention_days c)
    \<and> env_field env ''TUI_CHAT_MAX_ACCOUNT_CIPHERTEXT_BYTES'' parse_u64 (cfg_max_account_ciphertext_bytes c0) (cfg_max_account_ciphertext_bytes c)
    \<and> env_field env ''TUI_CHAT_MAX_TOTAL_CIPHERTEXT_BYTES'' parse_u64 (cfg_max_total_ciphertext_bytes c0) (cfg_max_total_ciphertext_bytes c)
    \<and> env_field env ''TUI_CHAT_MIN_FREE_DISK_BYTES'' parse_u64 (cfg_min_free_disk_bytes c0) (cfg_min_free_disk_bytes c)
    \<and> cfg_max_connections c = cfg_max_connections c0 \<and> cfg_max_connections_per_ip c = cfg_max_connections_per_ip c0
    \<and> cfg_max_unauthenticated_per_ip c = cfg_max_unauthenticated_per_ip c0
    \<and> cfg_auth_attempts_per_minute c = cfg_auth_attempts_per_minute c0
    \<and> cfg_auth_attempt_burst c = cfg_auth_attempt_burst c0 \<and> cfg_auth_hash_concurrency c = cfg_auth_hash_concurrency c0
    \<and> cfg_requests_per_minute c = cfg_requests_per_minute c0 \<and> cfg_request_burst c = cfg_request_burst c0
    \<and> cfg_audit_retention_days c = cfg_audit_retention_days c0 \<and> cfg_pairing_ttl_seconds c = cfg_pairing_ttl_seconds c0)"

lemma load_overrides_ok: "load_overrides env c0 = ok c \<longleftrightarrow> overridden env c0 c"
proof
  assume "load_overrides env c0 = ok c"
  then show "overridden env c0 c"
    unfolding load_overrides_def Let_def override_fields
    by (elim exE conjE) (simp add: overridden_def cidrs_of_def [abs_def])
next
  assume over: "overridden env c0 c"
  let ?c = "c0\<lparr>cfg_bind := cfg_bind c, cfg_database_path := cfg_database_path c,
     cfg_admin_socket_path := cfg_admin_socket_path c, cfg_public_domain := cfg_public_domain c,
     cfg_log_filter := cfg_log_filter c, cfg_trusted_proxy_tls := cfg_trusted_proxy_tls c,
     cfg_trusted_proxy_cidrs := cfg_trusted_proxy_cidrs c, cfg_reject_websocket_origins := cfg_reject_websocket_origins c,
     cfg_auth_attempts_per_account_per_hour := cfg_auth_attempts_per_account_per_hour c,
     cfg_delivered_retention_days := cfg_delivered_retention_days c,
     cfg_max_account_ciphertext_bytes := cfg_max_account_ciphertext_bytes c,
     cfg_max_total_ciphertext_bytes := cfg_max_total_ciphertext_bytes c,
     cfg_min_free_disk_bytes := cfg_min_free_disk_bytes c\<rparr>"
  have "load_overrides env c0 = ok ?c"
    unfolding load_overrides_def Let_def override_fields
    by (intro exI conjI, rule refl; (rule refl)?) (use over in \<open>simp_all add: overridden_def cidrs_of_def [abs_def]\<close>)
  moreover have "?c = c" using over by (simp add: overridden_def)
  ultimately show "load_overrides env c0 = ok c" by simp
qed

lemma file_config_load:
  "load env path = ok c \<longleftrightarrow>
    (\<exists>c0 c1. file_config env path = Some c0 \<and> load_overrides env c0 = ok c1 \<and> validate_config c1 = ok c)"
  by (auto simp: load_def file_config_def Let_def split: option.splits sum.splits)

lemma validate_config_ok:
  "validate_config c1 = ok c \<longleftrightarrow>
    c = c1\<lparr>cfg_public_domain := to_ascii_lowercase (trim (cfg_public_domain c1))\<rparr>
    \<and> cfg_public_domain c \<noteq> [] \<and> \<not> str_contains (cfg_public_domain c) ''://'' \<and> CHR ''/'' \<notin> set (cfg_public_domain c)
    \<and> (\<forall>ch \<in> set (utf8_chars (cfg_public_domain c)). \<not> utf8_whitespace ch)
    \<and> (is_loopback (sa_ip (cfg_bind c)) \<or> cfg_trusted_proxy_tls c)
    \<and> (cfg_trusted_proxy_tls c \<longrightarrow> cfg_trusted_proxy_cidrs c \<noteq> [])
    \<and> limits_positive c
    \<and> cfg_max_account_ciphertext_bytes c \<le> cfg_max_total_ciphertext_bytes c"
proof -
  define d where "d = c1\<lparr>cfg_public_domain := to_ascii_lowercase (trim (cfg_public_domain c1))\<rparr>"
  have "validate_config c1 = ok c \<longleftrightarrow> c = d
    \<and> \<not> (cfg_public_domain d = [] \<or> str_contains (cfg_public_domain d) ''://'' \<or> CHR ''/'' \<in> set (cfg_public_domain d)
        \<or> (\<exists>ch \<in> set (utf8_chars (cfg_public_domain d)). utf8_whitespace ch))
    \<and> \<not> (\<not> is_loopback (sa_ip (cfg_bind d)) \<and> \<not> cfg_trusted_proxy_tls d)
    \<and> \<not> (cfg_trusted_proxy_tls d \<and> cfg_trusted_proxy_cidrs d = []) \<and> limits_positive d
    \<and> \<not> cfg_max_total_ciphertext_bytes d < cfg_max_account_ciphertext_bytes d"
    unfolding validate_config_def Let_def d_def [symmetric] by (simp split: if_splits) blast
  then show ?thesis unfolding d_def [symmetric] by (simp only: not_less) blast
qed

text \<open>
  C7. A server starts with exactly the safe configuration that it was given. \<open>load\<close> accepts if and only
  if the file, when there is one, can be read and parsed and every environment variable that is set
  parses; the result is then the file's configuration (or the default one) in which each variable has set
  its own field and no other and the domain is trimmed and in lower case, and it satisfies every
  guard: the domain is not empty and has no scheme, path or white space; a bind address that is not loopback
  needs a trusted TLS proxy, and such a proxy a network; each of the twelve limits is positive; and the
  quota of an account is within the total. Everything else is refused.
\<close>

theorem load_is_safe:
  "load env path = ok c \<longleftrightarrow>
    (\<exists>c0 domain. file_config env path = Some c0 \<and> overridden env c0 (c\<lparr>cfg_public_domain := domain\<rparr>)
       \<and> cfg_public_domain c = to_ascii_lowercase (trim domain))
    \<and> cfg_public_domain c \<noteq> [] \<and> \<not> str_contains (cfg_public_domain c) ''://'' \<and> CHR ''/'' \<notin> set (cfg_public_domain c)
    \<and> (\<forall>ch \<in> set (utf8_chars (cfg_public_domain c)). \<not> utf8_whitespace ch)
    \<and> (is_loopback (sa_ip (cfg_bind c)) \<or> cfg_trusted_proxy_tls c)
    \<and> (cfg_trusted_proxy_tls c \<longrightarrow> cfg_trusted_proxy_cidrs c \<noteq> [])
    \<and> 0 < cfg_max_connections c \<and> 0 < cfg_max_connections_per_ip c \<and> 0 < cfg_max_unauthenticated_per_ip c
    \<and> 0 < cfg_auth_hash_concurrency c \<and> 0 < cfg_auth_attempts_per_minute c \<and> 0 < cfg_auth_attempt_burst c
    \<and> 0 < cfg_auth_attempts_per_account_per_hour c \<and> 0 < cfg_requests_per_minute c \<and> 0 < cfg_request_burst c
    \<and> 0 < cfg_delivered_retention_days c \<and> 0 < cfg_max_account_ciphertext_bytes c
    \<and> 0 < cfg_max_total_ciphertext_bytes c
    \<and> max_account_ciphertext_bytes (storage_limits c) \<le> max_total_ciphertext_bytes (storage_limits c)"
proof -
  have limits: "limits_positive c \<longleftrightarrow>
      0 < cfg_max_connections c \<and> 0 < cfg_max_connections_per_ip c \<and> 0 < cfg_max_unauthenticated_per_ip c
    \<and> 0 < cfg_auth_hash_concurrency c \<and> 0 < cfg_auth_attempts_per_minute c \<and> 0 < cfg_auth_attempt_burst c
    \<and> 0 < cfg_auth_attempts_per_account_per_hour c \<and> 0 < cfg_requests_per_minute c \<and> 0 < cfg_request_burst c
    \<and> 0 < cfg_delivered_retention_days c \<and> 0 < cfg_max_account_ciphertext_bytes c
    \<and> 0 < cfg_max_total_ciphertext_bytes c"
    by (simp add: limits_positive_def word_gt_0)
  have domain: "(\<exists>c1. overridden env c0 c1 \<and> c = c1\<lparr>cfg_public_domain := to_ascii_lowercase (trim (cfg_public_domain c1))\<rparr>)
    \<longleftrightarrow> (\<exists>domain. overridden env c0 (c\<lparr>cfg_public_domain := domain\<rparr>) \<and> cfg_public_domain c = to_ascii_lowercase (trim domain))" for c0
  proof
    assume "\<exists>c1. overridden env c0 c1 \<and> c = c1\<lparr>cfg_public_domain := to_ascii_lowercase (trim (cfg_public_domain c1))\<rparr>"
    then obtain c1 where "overridden env c0 c1"
      and c: "c = c1\<lparr>cfg_public_domain := to_ascii_lowercase (trim (cfg_public_domain c1))\<rparr>" by blast
    moreover have "c\<lparr>cfg_public_domain := cfg_public_domain c1\<rparr> = c1" by (simp add: c)
    ultimately show "\<exists>domain. overridden env c0 (c\<lparr>cfg_public_domain := domain\<rparr>) \<and> cfg_public_domain c = to_ascii_lowercase (trim domain)"
      by (intro exI [of _ "cfg_public_domain c1"]) simp
  next
    assume "\<exists>domain. overridden env c0 (c\<lparr>cfg_public_domain := domain\<rparr>) \<and> cfg_public_domain c = to_ascii_lowercase (trim domain)"
    then obtain domain where "overridden env c0 (c\<lparr>cfg_public_domain := domain\<rparr>)"
      and c: "cfg_public_domain c = to_ascii_lowercase (trim domain)" by blast
    moreover from c have "c = (c\<lparr>cfg_public_domain := domain\<rparr>)\<lparr>cfg_public_domain := to_ascii_lowercase (trim domain)\<rparr>"
      by (simp flip: c)
    ultimately show "\<exists>c1. overridden env c0 c1 \<and> c = c1\<lparr>cfg_public_domain := to_ascii_lowercase (trim (cfg_public_domain c1))\<rparr>"
      by (intro exI [of _ "c\<lparr>cfg_public_domain := domain\<rparr>"]) simp
  qed
  have regroup: "(\<exists>x y. A x \<and> B x y \<and> C y \<and> G) \<longleftrightarrow> (\<exists>x. A x \<and> (\<exists>y. B x y \<and> C y)) \<and> G"
    for A :: "Config \<Rightarrow> bool" and B and C :: "Config \<Rightarrow> bool" and G by blast
  show ?thesis
    unfolding file_config_load load_overrides_ok validate_config_ok regroup domain limits storage_limits_def
    by (simp only: ex_simps conj_assoc StorageLimits.select_convs)
qed

definition bare_env :: config_env where
  "bare_env = \<lparr>path_exists = (\<lambda>_. False), read_to_string = (\<lambda>_. None), toml_from_str = (\<lambda>_. None),
     env_var = (\<lambda>_. None), parse_socket_addr = (\<lambda>_. None), parse_ipnet = Some, ipnet_contains = (\<lambda>_ _. False)\<rparr>"

lemma utf8_chars_ascii: "\<forall>c \<in> set s. \<not> utf8_cont c \<Longrightarrow> utf8_chars s = map (\<lambda>c. [c]) s"
proof (induction s)
  case (Cons c s)
  then have "takeWhile utf8_cont s = [] \<and> dropWhile utf8_cont s = s" by (cases s) auto
  with Cons show ?case by simp
qed simp

lemma trim_localhost: "trim ''localhost'' = ''localhost'' \<and> utf8_chars ''localhost'' = map (\<lambda>c. [c]) ''localhost''"
  by (simp add: trim_def utf8_chars_ascii utf8_cont_def utf8_whitespace_def)

lemma load_default: "load bare_env ''server.toml'' = ok default_config"
proof -
  have "load_overrides bare_env default_config = ok default_config"
    by (simp add: load_overrides_def Let_def override_def bare_env_def)
  moreover have "validate_config default_config = ok default_config"
    by (simp add: validate_config_def Let_def default_config_def limits_positive_def trim_localhost
        utf8_whitespace_def to_ascii_lowercase_def ascii_lower_char_def is_ascii_upper_def
        starts_with_def)
  ultimately show ?thesis by (simp add: load_def Let_def) (simp add: bare_env_def)
qed

theorem load_is_safe_witness:
  "file_config bare_env ''server.toml'' = Some default_config
    \<and> \<not> is_loopback (sa_ip (cfg_bind (default_config\<lparr>cfg_bind := \<lparr>sa_ip = V4 0, sa_port = 0\<rparr>\<rparr>)))
    \<and> load bare_env ''server.toml'' = ok default_config
    \<and> load bare_env ''server.toml'' \<noteq> ok (default_config\<lparr>cfg_bind := \<lparr>sa_ip = V4 0, sa_port = 0\<rparr>\<rparr>)"
  using load_is_safe [of bare_env "''server.toml''" "default_config\<lparr>cfg_bind := \<lparr>sa_ip = V4 0, sa_port = 0\<rparr>\<rparr>"] load_default
  by (simp add: default_config_def file_config_def bare_env_def)

end
