(* ===== verification/Credentials.thy ===== *)
theory Credentials
  imports Rust_Prelude
begin

text \<open>
  The credential rules of \<open>crates/server/src/admin.rs\<close>: user names, password rules and the password
  hashes. Argon2id and the PHC string format come from a third-party crate and are arguments: the
  record \<open>phc_ops\<close> holds hashing with a salt, verification, and the parser of PHC strings.
\<close>

record phc =
  phc_algorithm :: string
  phc_version :: "nat option"
  phc_get_decimal :: "string \<Rightarrow> nat option"

record phc_ops =
  phc_hash :: "nat \<times> nat \<times> nat \<Rightarrow> bytes \<Rightarrow> bytes \<Rightarrow> string option"
  phc_verify :: "bytes \<Rightarrow> string \<Rightarrow> bool"
  phc_parse :: "string \<Rightarrow> phc option"

definition allowed_username_char :: "char \<Rightarrow> bool" where
  "allowed_username_char c = (is_ascii_lowercase c \<or> is_ascii_digit c \<or> c \<in> set ''_.-'')"

definition normalize_username :: "string \<Rightarrow> string result" where
  "normalize_username username0 =
     (let username = to_ascii_lowercase username0 in
      if \<not> (3 \<le> length username \<and> length username \<le> 32) \<or> \<not> list_all allowed_username_char username
      then bail ''username must be 3-32 ASCII characters: a-z, 0-9, _, ., -''
      else ok username)"

definition validate_password :: "string \<Rightarrow> unit result" where
  "validate_password password =
     (if chars_count password < 12 \<or> length password > 1024
      then bail ''password must contain 12-1024 characters'' else ok ())"

text \<open>\<open>password_hasher\<close>: memory in KiB, passes, lanes.\<close>

definition hash_params :: "nat \<times> nat \<times> nat" where
  "hash_params = (19 * 1024, 2, 1)"

definition hash_password :: "phc_ops \<Rightarrow> bytes \<Rightarrow> string \<Rightarrow> string result" where
  "hash_password ops salt password =
     (case validate_password password of Inl x \<Rightarrow> Inl x
      | Inr _ \<Rightarrow> (case phc_hash ops hash_params (as_bytes password) salt of
           None \<Rightarrow> bail ''password hashing failed'' | Some phc \<Rightarrow> ok phc))"

definition password_needs_rehash :: "phc_ops \<Rightarrow> string \<Rightarrow> bool" where
  "password_needs_rehash ops s =
     (case phc_parse ops s of None \<Rightarrow> True
      | Some hash \<Rightarrow> phc_algorithm hash \<noteq> ''argon2id'' \<or> phc_version hash \<noteq> Some 0x13
          \<or> phc_get_decimal hash ''m'' \<noteq> Some (19 * 1024) \<or> phc_get_decimal hash ''t'' \<noteq> Some 2
          \<or> phc_get_decimal hash ''p'' \<noteq> Some 1)"

text \<open>
  The documented behaviour of the hashing crate: a hash verifies its own password, and its PHC string
  is parsed back to the algorithm and parameters it was made with.
\<close>

definition phc_correct :: "phc_ops \<Rightarrow> bool" where
  "phc_correct ops \<longleftrightarrow> (\<forall>m t p pw salt s. phc_hash ops (m, t, p) pw salt = Some s \<longrightarrow>
     phc_verify ops pw s \<and> (\<exists>h. phc_parse ops s = Some h \<and> phc_algorithm h = ''argon2id''
       \<and> phc_version h = Some 0x13 \<and> phc_get_decimal h ''m'' = Some m
       \<and> phc_get_decimal h ''t'' = Some t \<and> phc_get_decimal h ''p'' = Some p))"

text \<open>
  A user name has one normal form. Normalising gives a name of 3 to 32 allowed characters that is
  its own normal form, and two names have the same normal form exactly if the database, which compares
  without case, takes them for the same name: no two accounts can differ in case only.
\<close>

theorem normalize_username_canonical:
  assumes "normalize_username u = ok v" and "normalize_username u' = ok v'"
  shows "normalize_username v = ok v \<and> 3 \<le> length v \<and> length v \<le> 32 \<and> list_all allowed_username_char v
    \<and> nocase_eq u v \<and> (v = v' \<longleftrightarrow> nocase_eq u u')"
  using assms by (auto simp: normalize_username_def Let_def nocase_eq_def split: if_splits)

theorem normalize_username_canonical_witness:
  "normalize_username ''alice'' = ok ''alice'' \<and> nocase_eq ''Alice'' ''alice''"
proof -
  have "normalize_username ''Alice'' = ok ''alice''"
    by (simp add: normalize_username_def Let_def to_ascii_lowercase_def ascii_lower_char_def
        is_ascii_upper_def allowed_username_char_def is_ascii_lowercase_def is_ascii_digit_def
        char_of_def bit_simps)
  from normalize_username_canonical [OF this this] show ?thesis by simp
qed

text \<open>
  A fresh password hash is current. A hash that \<open>hash_password\<close> makes verifies the password and
  is not due for rehashing, so a login right after it does not hash again; and only passwords within
  the length rules are ever hashed.
\<close>

theorem hash_password_current:
  assumes "phc_correct ops" and "hash_password ops salt pw = ok s"
  shows "phc_verify ops (as_bytes pw) s \<and> \<not> password_needs_rehash ops s
    \<and> 12 \<le> chars_count pw \<and> length pw \<le> 1024"
proof -
  from assms(2) have valid: "12 \<le> chars_count pw" "length pw \<le> 1024"
    by (auto simp: hash_password_def validate_password_def split: if_splits)
  with assms(2) have "phc_hash ops (19 * 1024, 2, 1) (as_bytes pw) salt = Some s"
    by (simp add: hash_password_def validate_password_def hash_params_def split: option.splits)
  with assms(1) valid show ?thesis
    by (fastforce simp: phc_correct_def password_needs_rehash_def)
qed

text \<open>A toy hasher that keeps the password: enough to apply the property.\<close>

definition toy_phc :: phc_ops where
  "toy_phc = \<lparr>phc_hash = (\<lambda>(m, t, p) pw salt. if (m, t, p) = hash_params then Some (map (\<lambda>b. char_of (unat b)) pw) else None),
     phc_verify = (\<lambda>pw s. s = map (\<lambda>b. char_of (unat b)) pw),
     phc_parse = (\<lambda>s. Some \<lparr>phc_algorithm = ''argon2id'', phc_version = Some 0x13,
        phc_get_decimal = (\<lambda>k. if k = ''m'' then Some (fst hash_params)
          else if k = ''t'' then Some (fst (snd hash_params)) else Some (snd (snd hash_params)))\<rparr>)\<rparr>"

lemma toy_phc_correct: "phc_correct toy_phc"
  by (auto simp: phc_correct_def toy_phc_def hash_params_def split: if_splits)

theorem hash_password_current_witness:
  "\<not> password_needs_rehash toy_phc (map (\<lambda>b. char_of (unat b)) (as_bytes ''correct horse''))"
proof -
  have "hash_password toy_phc [] ''correct horse'' = ok (map (\<lambda>b. char_of (unat b)) (as_bytes ''correct horse''))"
    by (simp add: hash_password_def validate_password_def toy_phc_def chars_count_def utf8_cont_def)
  from hash_password_current [OF toy_phc_correct this] show ?thesis by blast
qed

end
