(* ===== verification/Ws_State.thy ===== *)
theory Ws_State
  imports Complex_Main "HOL-Library.AList" Config Credentials Crypto_Params Db_Devices
begin

text \<open>
  The shared state of the WebSocket server, \<open>crates/server/src/ws.rs\<close>: token buckets, the admission
  counters, the registry of live connections and sessions, and the pushes to other connections.

  A \<open>HashMap\<close> that the code iterates over or whose size it reads is an association list with distinct
  keys, in some order; one that it only looks up is a partial function. A channel of a connection is
  named by the connection's token: \<open>st_sent\<close> logs the frames that the channels accepted, in order, and
  \<open>st_closed\<close> holds the tokens whose writer is gone, for which \<open>tx.send\<close> fails. \<open>st_receivers\<close> holds the
  tokens whose \<open>connection\<close> function still runs and listens for a disconnect; \<open>st_disconnects\<close> is the
  last reason sent to each. A handler runs as one atomic step at one moment: the clock does not move
  during it, and the semaphore \<open>auth_hash_gate\<close>, which only delays, is always free.
\<close>

section \<open>Token buckets\<close>

text \<open>
  \<open>tokens\<close> is an \<open>f64\<close>: every arithmetic operation is done on rationals and rounded by \<open>fl\<close>, which
  stands for the hardware's rounding to 53 bits. An \<open>Instant\<close> counts nanoseconds.
\<close>

record TokenBucket =
  tb_tokens :: rat
  tb_updated :: int

definition f64_rounding :: "(rat \<Rightarrow> rat) \<Rightarrow> bool" where
  "f64_rounding fl \<longleftrightarrow> mono fl \<and> (\<forall>n :: nat. n \<le> 2 ^ 53 \<longrightarrow> fl (of_nat n) = of_nat n)"

definition as_secs_f64 :: "(rat \<Rightarrow> rat) \<Rightarrow> int \<Rightarrow> rat" where
  "as_secs_f64 fl ns = fl (fl (of_int (ns div 10 ^ 9)) + fl (fl (of_int (ns mod 10 ^ 9)) / 10 ^ 9))"

definition bucket_new :: "int \<Rightarrow> u32 \<Rightarrow> TokenBucket" where
  "bucket_new now burst = \<lparr>tb_tokens = of_nat (unat burst), tb_updated = now\<rparr>"

definition take_rate :: "(rat \<Rightarrow> rat) \<Rightarrow> int \<Rightarrow> rat \<Rightarrow> u32 \<Rightarrow> TokenBucket \<Rightarrow> bool \<times> TokenBucket" where
  "take_rate fl now tokens_per_second burst b =
     (let elapsed = as_secs_f64 fl (max 0 (now - tb_updated b));
          filled = min (fl (tb_tokens b + fl (elapsed * tokens_per_second))) (of_nat (unat burst))
      in if filled < 1 then (False, \<lparr>tb_tokens = filled, tb_updated = now\<rparr>)
         else (True, \<lparr>tb_tokens = fl (filled - 1), tb_updated = now\<rparr>))"

definition bucket_take :: "(rat \<Rightarrow> rat) \<Rightarrow> int \<Rightarrow> u32 \<Rightarrow> u32 \<Rightarrow> TokenBucket \<Rightarrow> bool \<times> TokenBucket" where
  "bucket_take fl now per_minute burst = take_rate fl now (fl (of_nat (unat per_minute) / 60)) burst"

section \<open>Admission\<close>

type_synonym uuid = "128 word"

record Admission =
  adm_total :: nat
  adm_by_ip :: "IpAddr \<rightharpoonup> nat"
  adm_unauthenticated_by_ip :: "IpAddr \<rightharpoonup> nat"

definition get_count :: "(IpAddr \<rightharpoonup> nat) \<Rightarrow> IpAddr \<Rightarrow> nat" where
  "get_count counts ip = (case counts ip of None \<Rightarrow> 0 | Some n \<Rightarrow> n)"

definition bump_count :: "(IpAddr \<rightharpoonup> nat) \<Rightarrow> IpAddr \<Rightarrow> (IpAddr \<rightharpoonup> nat)" where
  "bump_count counts ip = counts(ip \<mapsto> get_count counts ip + 1)"

definition decrement_count :: "(IpAddr \<rightharpoonup> nat) \<Rightarrow> IpAddr \<Rightarrow> (IpAddr \<rightharpoonup> nat)" where
  "decrement_count counts ip =
     (case counts ip of None \<Rightarrow> counts
      | Some n \<Rightarrow> if n - 1 = 0 then counts(ip := None) else counts(ip \<mapsto> n - 1))"

text \<open>A counter keeps, per key, the number of its occurrences in a bag of live things.\<close>

locale counter =
  fixes get :: "'m \<Rightarrow> 'k \<Rightarrow> nat" and bump drop_one :: "'m \<Rightarrow> 'k \<Rightarrow> 'm"
  assumes get_bump: "get (bump m x) y = get m y + (if y = x then 1 else 0)"
    and get_drop: "get (drop_one m x) y = get m y - (if y = x then 1 else 0)"
begin

definition represents :: "'m \<Rightarrow> 'k list \<Rightarrow> bool" where
  "represents m xs \<longleftrightarrow> (\<forall>y. get m y = count_list xs y)"

lemma represents_bump: "represents m xs \<Longrightarrow> represents (bump m x) (x # xs)"
  by (simp add: represents_def get_bump)

lemma count_list_remove1: "count_list (remove1 x xs) y = count_list xs y - (if y = x \<and> x \<in> set xs then 1 else 0)"
proof (induction xs)
  case (Cons z xs)
  show ?case
  proof (cases "z = x")
    case False
    have "0 < count_list xs x" if "x \<in> set xs" using that by (induction xs) auto
    with Cons False show ?thesis by (auto simp: Suc_diff_le)
  qed simp
qed simp

lemma represents_drop: "represents m xs \<Longrightarrow> x \<in> set xs \<Longrightarrow> represents (drop_one m x) (remove1 x xs)"
  by (simp add: represents_def get_drop count_list_remove1)

end

interpretation ip_counter: counter get_count bump_count decrement_count
  by unfold_locales (auto simp: get_count_def bump_count_def decrement_count_def split: option.splits)

section \<open>The server state\<close>

record LiveConnection =
  live_token :: uuid
  live_account_id :: string

record LiveSession =
  ls_id :: uuid
  ls_account_id :: string
  ls_username :: string
  ls_device_id :: string
  ls_source_ip :: IpAddr
  ls_connected_at_ms :: i64
  ls_last_seen_at_ms :: i64
  ls_pending :: bool

record AppState =
  st_db :: database
  st_domain :: string
  st_connections :: "(string \<times> LiveConnection) list"
  st_sessions :: "(uuid \<times> LiveSession) list"
  st_admission :: Admission
  st_auth_buckets :: "(IpAddr \<times> TokenBucket) list"
  st_auth_account_buckets :: "(string \<times> TokenBucket) list"
  st_config :: Config
  st_dummy_password_phc :: string
  st_sent :: "(uuid \<times> Frame) list"
  st_closed :: "uuid list"
  st_receivers :: "uuid list"
  st_disconnects :: "(uuid \<times> string) list"

text \<open>Third-party code and the operating system, as the handlers see them.\<close>

record services =
  svc_crypto :: crypto
  svc_phc :: phc_ops
  svc_uuid_parse :: "string \<Rightarrow> bool"
  svc_prost_decode :: "bytes \<Rightarrow> string + Frame"
  svc_env :: config_env
  svc_parse_ip :: "string \<Rightarrow> IpAddr option"
  svc_show_ip :: "IpAddr \<Rightarrow> string"
  svc_fl :: "rat \<Rightarrow> rat"

text \<open>The moment at which a step runs: clocks, random bytes, and the free disk space.\<close>

record moment =
  mo_now_ms :: i64
  mo_instant :: int
  mo_random :: bytes
  mo_free_disk :: u64

definition app_state_new :: "services \<Rightarrow> bytes \<Rightarrow> database \<Rightarrow> Config \<Rightarrow> AppState result" where
  "app_state_new S salt d cfg =
     (case hash_password (svc_phc S) salt ''invalid-account-dummy-password'' of Inl x \<Rightarrow> Inl x
      | Inr dummy \<Rightarrow> ok \<lparr>st_db = d, st_domain = cfg_public_domain cfg, st_connections = [],
          st_sessions = [], st_admission = \<lparr>adm_total = 0, adm_by_ip = Map.empty, adm_unauthenticated_by_ip = Map.empty\<rparr>,
          st_auth_buckets = [], st_auth_account_buckets = [], st_config = cfg,
          st_dummy_password_phc = dummy, st_sent = [], st_closed = [], st_receivers = [], st_disconnects = []\<rparr>)"

definition admit :: "IpAddr \<Rightarrow> AppState \<Rightarrow> bool \<times> AppState" where
  "admit ip w =
     (let a = st_admission w; cfg = st_config w in
      if cfg_max_connections cfg \<le> adm_total a
         \<or> cfg_max_connections_per_ip cfg \<le> get_count (adm_by_ip a) ip
         \<or> cfg_max_unauthenticated_per_ip cfg \<le> get_count (adm_unauthenticated_by_ip a) ip
      then (False, w)
      else (True, w\<lparr>st_admission := \<lparr>adm_total = adm_total a + 1, adm_by_ip = bump_count (adm_by_ip a) ip,
              adm_unauthenticated_by_ip = bump_count (adm_unauthenticated_by_ip a) ip\<rparr>\<rparr>))"

definition mark_authenticated :: "IpAddr \<Rightarrow> AppState \<Rightarrow> AppState" where
  "mark_authenticated ip w =
     w\<lparr>st_admission := (st_admission w)\<lparr>adm_unauthenticated_by_ip :=
          decrement_count (adm_unauthenticated_by_ip (st_admission w)) ip\<rparr>\<rparr>"

definition release :: "IpAddr \<Rightarrow> bool \<Rightarrow> AppState \<Rightarrow> AppState" where
  "release ip still_unauthenticated w =
     (let a = st_admission w in
      w\<lparr>st_admission := \<lparr>adm_total = adm_total a - 1, adm_by_ip = decrement_count (adm_by_ip a) ip,
          adm_unauthenticated_by_ip =
            (if still_unauthenticated then decrement_count (adm_unauthenticated_by_ip a) ip
             else adm_unauthenticated_by_ip a)\<rparr>\<rparr>)"

section \<open>Channels\<close>

text \<open>\<open>tx.send(frame).await\<close>: fails exactly if the receiving half was dropped.\<close>

definition channel_send :: "uuid \<Rightarrow> Frame \<Rightarrow> AppState \<Rightarrow> bool \<times> AppState" where
  "channel_send t f w = (if t \<in> set (st_closed w) then (False, w) else (True, w\<lparr>st_sent := st_sent w @ [(t, f)]\<rparr>))"

definition disconnect_send :: "uuid \<Rightarrow> string \<Rightarrow> AppState \<Rightarrow> bool \<times> AppState" where
  "disconnect_send t reason w =
     (if t \<in> set (st_receivers w) then (True, w\<lparr>st_disconnects := AList.update t reason (st_disconnects w)\<rparr>)
      else (False, w))"

section \<open>The registry\<close>

record Session =
  ses_account :: Account
  ses_device_id :: string
  ses_pending :: bool
  ses_password_change_required :: bool
  ses_capabilities :: "string list"

definition register :: "Session \<Rightarrow> uuid \<Rightarrow> IpAddr \<Rightarrow> i64 \<Rightarrow> AppState \<Rightarrow> AppState" where
  "register s token source_ip now w =
     (let live = \<lparr>live_token = token, live_account_id = acct_id (ses_account s)\<rparr>;
          previous = map_of (st_connections w) (ses_device_id s);
          w1 = w\<lparr>st_connections := AList.update (ses_device_id s) live (st_connections w)\<rparr>;
          w2 = (case previous of None \<Rightarrow> w1
                | Some p \<Rightarrow> snd (disconnect_send (live_token p) ''session_replaced'' w1))
      in w2\<lparr>st_sessions := AList.update token
            \<lparr>ls_id = token, ls_account_id = acct_id (ses_account s), ls_username = acct_username (ses_account s),
             ls_device_id = ses_device_id s, ls_source_ip = source_ip, ls_connected_at_ms = now,
             ls_last_seen_at_ms = now, ls_pending = ses_pending s\<rparr> (st_sessions w2)\<rparr>)"

definition unregister :: "string \<Rightarrow> uuid \<Rightarrow> AppState \<Rightarrow> AppState" where
  "unregister dev token w =
     w\<lparr>st_connections := (case map_of (st_connections w) dev of None \<Rightarrow> st_connections w
          | Some c \<Rightarrow> if live_token c = token then AList.delete dev (st_connections w) else st_connections w),
       st_sessions := AList.delete token (st_sessions w)\<rparr>"

definition touch_session :: "uuid \<Rightarrow> i64 \<Rightarrow> AppState \<Rightarrow> AppState" where
  "touch_session token now w =
     (case map_of (st_sessions w) token of None \<Rightarrow> w
      | Some s \<Rightarrow> w\<lparr>st_sessions := AList.update token (s\<lparr>ls_last_seen_at_ms := now\<rparr>) (st_sessions w)\<rparr>)"

definition live_sessions :: "AppState \<Rightarrow> LiveSession list" where
  "live_sessions w = sort_key ls_connected_at_ms (map snd (st_sessions w))"

definition online_devices :: "string \<Rightarrow> AppState \<Rightarrow> string list" where
  "online_devices account_id w = map fst (filter (\<lambda>(_, c). live_account_id c = account_id) (st_connections w))"

definition kick_session :: "uuid \<Rightarrow> string \<Rightarrow> AppState \<Rightarrow> bool \<times> AppState" where
  "kick_session i reason w =
     (case map_of (st_sessions w) i of None \<Rightarrow> (False, w) | Some s \<Rightarrow> disconnect_send (ls_id s) reason w)"

fun kick_all :: "uuid list \<Rightarrow> string \<Rightarrow> AppState \<Rightarrow> nat \<times> AppState" where
  "kick_all [] reason w = (0, w)"
| "kick_all (i # is) reason w =
     (case kick_session i reason w of (kicked, w1) \<Rightarrow>
       (case kick_all is reason w1 of (n, w2) \<Rightarrow> ((if kicked then 1 else 0) + n, w2)))"

definition kick_account :: "string \<Rightarrow> string \<Rightarrow> AppState \<Rightarrow> nat \<times> AppState" where
  "kick_account account_id reason w =
     kick_all (map ls_id (filter (\<lambda>s. ls_account_id s = account_id) (map snd (st_sessions w)))) reason w"

definition kick_device :: "string \<Rightarrow> string \<Rightarrow> AppState \<Rightarrow> bool \<times> AppState" where
  "kick_device device_id reason w =
     (case map_of (st_connections w) device_id of None \<Rightarrow> (False, w)
      | Some c \<Rightarrow> disconnect_send (live_token c) reason w)"

definition push_device :: "string \<Rightarrow> Frame \<Rightarrow> AppState \<Rightarrow> AppState" where
  "push_device dev message w =
     (case map_of (st_connections w) dev of None \<Rightarrow> w
      | Some c \<Rightarrow> snd (channel_send (live_token c) message w))"

definition push_account :: "string \<Rightarrow> Frame \<Rightarrow> AppState \<Rightarrow> AppState" where
  "push_account account message w =
     fold (\<lambda>(_, c). \<lambda>w'. snd (channel_send (live_token c) message w'))
       (filter (\<lambda>(_, c). live_account_id c = account) (st_connections w)) w"

section \<open>Maintenance\<close>

definition day_ms :: int where
  "day_ms = 24 * 60 * 60 * 1000"

definition run_maintenance_once :: "i64 \<Rightarrow> AppState \<Rightarrow> AppState" where
  "run_maintenance_once now w =
     (let d1 = snd (cleanup_expired_pairing_events now (st_db w));
          d2 = snd (cleanup_audit (now - uint (cfg_audit_retention_days (st_config w)) * day_ms) d1);
          d3 = snd (cleanup_delivered_envelopes (now - uint (cfg_delivered_retention_days (st_config w)) * day_ms) 1000 d2)
      in w\<lparr>st_db := d3\<rparr>)"

section \<open>Password attempts\<close>

definition max_buckets :: nat where
  "max_buckets = 10000"

text \<open>
  One of the two bucket maps: a new key is admitted to a full map only after idle buckets were dropped.
\<close>

definition bucket_slot :: "int \<Rightarrow> int \<Rightarrow> 'k \<Rightarrow> TokenBucket \<Rightarrow> ('k \<times> TokenBucket) list \<Rightarrow>
    (TokenBucket \<times> ('k \<times> TokenBucket) list) option \<times> ('k \<times> TokenBucket) list" where
  "bucket_slot now idle_ns k fresh bs =
     (if max_buckets \<le> length bs \<and> map_of bs k = None
      then (let kept = filter (\<lambda>(_, b). max 0 (now - tb_updated b) < idle_ns) bs in
            if max_buckets \<le> length kept then (None, kept)
            else (Some (fresh, kept), kept))
      else (Some ((case map_of bs k of None \<Rightarrow> fresh | Some b \<Rightarrow> b), bs), bs))"

definition allow_password_attempt :: "services \<Rightarrow> moment \<Rightarrow> IpAddr \<Rightarrow> string \<Rightarrow> AppState \<Rightarrow> bool \<times> AppState" where
  "allow_password_attempt S mo source_ip username w =
     (let cfg = st_config w; now = mo_instant mo; burst = cfg_auth_attempt_burst cfg in
      case bucket_slot now (600 * 10 ^ 9) source_ip (bucket_new now burst) (st_auth_buckets w) of
        (None, kept) \<Rightarrow> (False, w\<lparr>st_auth_buckets := kept\<rparr>)
      | (Some (b, kept), _) \<Rightarrow>
         (case bucket_take (svc_fl S) now (cfg_auth_attempts_per_minute cfg) burst b of (taken, b') \<Rightarrow>
            let w1 = w\<lparr>st_auth_buckets := AList.update source_ip b' kept\<rparr> in
            if \<not> taken then (False, w1)
            else
             (case bucket_slot now (60 * 60 * 10 ^ 9) username (bucket_new now 10) (st_auth_account_buckets w1) of
                (None, kept') \<Rightarrow> (False, w1\<lparr>st_auth_account_buckets := kept'\<rparr>)
              | (Some (c, kept'), _) \<Rightarrow>
                 (case take_rate (svc_fl S) now
                     (svc_fl S (of_nat (unat (cfg_auth_attempts_per_account_per_hour cfg)) / 3600)) 10 c of
                    (taken', c') \<Rightarrow> (taken', w1\<lparr>st_auth_account_buckets := AList.update username c' kept'\<rparr>)))))"

end
