(* ===== verification/Ws_Support.thy ===== *)
theory Ws_Support
  imports Ws_State Identity
begin

text \<open>
  What the frame handlers of \<open>ws.rs\<close> are made of: handlers as functions on the shared state and the
  connection's own state that end with a value or an error (and keep the effects up to that point),
  the connection's challenge and session, the messages sent after authentication, password and
  signature checks, and the public form of errors.
\<close>

section \<open>Handlers\<close>

record Challenge =
  ch_username :: string
  ch_device_id :: string
  ch_nonce :: bytes
  ch_expires_at_ms :: i64
  ch_capabilities :: "string list"

record ConnectionContext =
  ctx_token :: uuid
  ctx_source_ip :: IpAddr

record conn =
  cn_challenge :: "Challenge option"
  cn_session :: "Session option"

type_synonym hstate = "AppState \<times> conn"
type_synonym 'a handler = "hstate \<Rightarrow> 'a result \<times> hstate"

definition ret :: "'a \<Rightarrow> 'a handler" where
  "ret x s = (ok x, s)"

definition fail :: "string \<Rightarrow> 'a handler" where
  "fail msg s = (bail msg, s)"

definition and_then :: "'a handler \<Rightarrow> ('a \<Rightarrow> 'b handler) \<Rightarrow> 'b handler" where
  "and_then m f s = (case m s of (Inl e, s') \<Rightarrow> (Inl e, s') | (Inr x, s') \<Rightarrow> f x s')"

definition require :: "bool \<Rightarrow> string \<Rightarrow> unit handler" where
  "require b msg = (if b then ret () else fail msg)"

definition some_or :: "string \<Rightarrow> 'a option \<Rightarrow> 'a handler" where
  "some_or msg x = (case x of None \<Rightarrow> fail msg | Some v \<Rightarrow> ret v)"

definition lift_result :: "'a result \<Rightarrow> 'a handler" where
  "lift_result r s = (r, s)"

text \<open>Reading the database, a statement without failure, and a statement that may fail.\<close>

definition ask_db :: "(database \<Rightarrow> 'a) \<Rightarrow> 'a handler" where
  "ask_db f s = (ok (f (st_db (fst s))), s)"

definition ask :: "(AppState \<Rightarrow> 'a) \<Rightarrow> 'a handler" where
  "ask f s = (ok (f (fst s)), s)"

definition run_db :: "(database \<Rightarrow> 'a \<times> database) \<Rightarrow> 'a handler" where
  "run_db f s = (case f (st_db (fst s)) of (x, d) \<Rightarrow> (ok x, ((fst s)\<lparr>st_db := d\<rparr>, snd s)))"

definition exec_db :: "(database \<Rightarrow> database result) \<Rightarrow> unit handler" where
  "exec_db f s = (case f (st_db (fst s)) of Inl e \<Rightarrow> (Inl e, s) | Inr d \<Rightarrow> (ok (), ((fst s)\<lparr>st_db := d\<rparr>, snd s)))"

definition query_db :: "(database \<Rightarrow> ('a \<times> database) result) \<Rightarrow> 'a handler" where
  "query_db f s = (case f (st_db (fst s)) of Inl e \<Rightarrow> (Inl e, s)
     | Inr (x, d) \<Rightarrow> (ok x, ((fst s)\<lparr>st_db := d\<rparr>, snd s)))"

definition change_state :: "(AppState \<Rightarrow> AppState) \<Rightarrow> unit handler" where
  "change_state f s = (ok (), (f (fst s), snd s))"

definition run_state :: "(AppState \<Rightarrow> 'a \<times> AppState) \<Rightarrow> 'a handler" where
  "run_state f s = (case f (fst s) of (x, w) \<Rightarrow> (ok x, (w, snd s)))"

definition get_session :: "Session option handler" where
  "get_session s = (ok (cn_session (snd s)), s)"

definition put_session :: "Session \<Rightarrow> unit handler" where
  "put_session ses s = (ok (), (fst s, (snd s)\<lparr>cn_session := Some ses\<rparr>))"

definition put_challenge :: "Challenge \<Rightarrow> unit handler" where
  "put_challenge ch s = (ok (), (fst s, (snd s)\<lparr>cn_challenge := Some ch\<rparr>))"

text \<open>\<open>tx.send(frame).await?\<close> on the connection's own channel.\<close>

definition tx_send :: "ConnectionContext \<Rightarrow> Frame \<Rightarrow> unit handler" where
  "tx_send ctx f s = (case channel_send (ctx_token ctx) f (fst s) of
     (sent, w) \<Rightarrow> (if sent then (ok (), (w, snd s)) else (bail ''channel closed'', (w, snd s))))"

fun tx_send_all :: "ConnectionContext \<Rightarrow> Frame list \<Rightarrow> unit handler" where
  "tx_send_all ctx [] = ret ()"
| "tx_send_all ctx (f # fs) = and_then (tx_send ctx f) (\<lambda>_. tx_send_all ctx fs)"

section \<open>Sessions and challenges\<close>

definition no_session :: "unit handler" where
  "no_session = and_then get_session
     (\<lambda>ses. require (ses = None) ''connection is already authenticated'')"

definition active_session :: "Session handler" where
  "active_session = and_then get_session (\<lambda>slot. and_then (some_or ''authentication required'' slot)
     (\<lambda>ses. and_then (require (\<not> ses_pending ses) ''device approval is pending'') (\<lambda>_. ret ses)))"

definition usable_session :: "Session handler" where
  "usable_session = active_session"

text \<open>\<open>slot.take()\<close>: the challenge is gone whatever the outcome.\<close>

definition take_challenge :: "Challenge option handler" where
  "take_challenge s = (ok (cn_challenge (snd s)), (fst s, (snd s)\<lparr>cn_challenge := None\<rparr>))"

definition take_valid_challenge :: "i64 \<Rightarrow> string \<Rightarrow> string \<Rightarrow> Challenge handler" where
  "take_valid_challenge now username device_id =
     and_then take_challenge (\<lambda>slot. and_then (some_or ''send ClientHello first'' slot) (\<lambda>ch.
     and_then (lift_result (normalize_username username)) (\<lambda>name.
     and_then (require (\<not> (ch_username ch \<noteq> name \<or> ch_device_id ch \<noteq> device_id \<or> ch_expires_at_ms ch < now))
        ''authentication challenge is invalid or expired'') (\<lambda>_. ret ch))))"

definition authenticated_frame :: "string \<Rightarrow> Session \<Rightarrow> Frame" where
  "authenticated_frame i ses = mk_frame i (Authenticated
     \<lparr>authd_account_id = acct_id (ses_account ses), authd_username = acct_username (ses_account ses),
      authd_device_id = ses_device_id ses,
      authd_password_change_required = ses_password_change_required ses,
      authd_pending_device = ses_pending ses,
      authd_account_master_key = coalesce (acct_master_public_key (ses_account ses)) [],
      authd_roster_revision = acct_roster_revision (ses_account ses),
      authd_bootstrap_mode = (if \<not> ses_pending ses then BootstrapNone
         else if acct_master_public_key (ses_account ses) = None then FirstDevice else PendingDevice),
      authd_capabilities = [CAPABILITY_OWN_DEVICES, CAPABILITY_STABLE_ERRORS]\<rparr>)"

definition send_authenticated :: "ConnectionContext \<Rightarrow> string \<Rightarrow> Session \<Rightarrow> unit handler" where
  "send_authenticated ctx i ses = tx_send ctx (authenticated_frame i ses)"

text \<open>The fallback name is the four characters U+672A U+77E5 U+8BBE U+5907.\<close>

definition unknown_device_name :: string where
  "unknown_device_name = map char_of ([0xE6, 0x9C, 0xAA, 0xE7, 0x9F, 0xA5, 0xE8, 0xAE, 0xBE, 0xE5, 0xA4, 0x87] :: nat list)"

definition pairing_request_of :: "DeviceBundle \<Rightarrow> bytes \<Rightarrow> Frame" where
  "pairing_request_of dev sas = mk_frame [] (PairingRequest
     \<lparr>pr_pairing_id = db_device_id dev, pr_pending_device_id = db_device_id dev,
      pr_pending_device_name = db_device_name dev, pr_sas_public_key = sas, pr_pending_device = Some dev\<rparr>)"

definition post_auth_frames :: "i64 \<Rightarrow> Session \<Rightarrow> database \<Rightarrow> Frame list" where
  "post_auth_frames now ses d =
     (let account = acct_id (ses_account ses);
          names = map_of (rev (map (\<lambda>b. (db_device_id b, db_device_name b)) (device_bundles account True d)))
      in map (\<lambda>e. mk_frame [] (PairingEvent
            \<lparr>pe_pairing_id = ppe_pairing_id e, pe_target_device_id = ses_device_id ses,
             pe_event_type = ppe_event_type e, pe_payload = ppe_payload e,
             pe_sender_device_id = ppe_sender_device_id e, pe_server_event_id = ppe_id e,
             pe_sender_device_name = coalesce (names (ppe_sender_device_id e)) unknown_device_name\<rparr>))
          (pending_pairing_events (ses_device_id ses) now d)
       @ map (\<lambda>(dev, sas). pairing_request_of dev sas)
          (filter (\<lambda>(dev, _). db_device_id dev \<noteq> ses_device_id ses) (pending_devices account d)))"

definition push_post_auth :: "ConnectionContext \<Rightarrow> i64 \<Rightarrow> Session \<Rightarrow> unit handler" where
  "push_post_auth ctx now ses =
     and_then (ask_db (post_auth_frames now ses)) (tx_send_all ctx)"

definition own_device_list :: "string \<Rightarrow> string \<Rightarrow> AppState \<Rightarrow> OwnDeviceInfo list" where
  "own_device_list account_id current_device_id w =
     (let online = online_devices account_id w;
          devices = map (\<lambda>dev. dev\<lparr>od_current := (od_device_id dev = current_device_id),
                                 od_online := (od_device_id dev \<in> set online)\<rparr>)
                      (own_devices account_id (st_db w))
      in sort_key (\<lambda>dev. (\<not> od_current dev, od_revoked dev, od_pending dev, od_created_at_ms dev)) devices)"

definition send_error :: "uuid \<Rightarrow> string \<Rightarrow> string \<Rightarrow> string \<Rightarrow> bool \<Rightarrow> AppState \<Rightarrow> AppState" where
  "send_error t i code message retryable w =
     snd (channel_send t (mk_frame i (ErrorFrame \<lparr>err_code = code,
        err_message = concat (take 240 (utf8_chars message)), err_retryable = retryable\<rparr>)) w)"

section \<open>Passwords and signatures\<close>

record PasswordVerification =
  pwv_valid :: bool
  pwv_replacement_phc :: "string option"

definition verify_password :: "phc_ops \<Rightarrow> bytes \<Rightarrow> string \<Rightarrow> string \<Rightarrow> PasswordVerification" where
  "verify_password ops salt phc password =
     (let verified = (phc_parse ops phc \<noteq> None \<and> phc_verify ops (as_bytes password) phc)
      in \<lparr>pwv_valid = verified,
          pwv_replacement_phc = (if verified \<and> password_needs_rehash ops phc
            then (case hash_password ops salt password of Inl _ \<Rightarrow> None | Inr p \<Rightarrow> Some p) else None)\<rparr>)"

definition valid_uuid :: "services \<Rightarrow> string \<Rightarrow> bool" where
  "valid_uuid S s = (length s = 36 \<and> svc_uuid_parse S s)"

definition verify_signature :: "crypto \<Rightarrow> bytes \<Rightarrow> bytes \<Rightarrow> bytes \<Rightarrow> unit result" where
  "verify_signature C public payload signature =
     (if length public \<noteq> 32 then bail ''invalid signing key''
      else if length signature \<noteq> 64 then bail ''invalid signature''
      else if \<not> ed_key_ok C public then bail ''invalid signing key''
      else if \<not> ed_verify_strict C public payload signature then bail ''signature verification failed''
      else ok ())"

definition verify_device_certificate :: "crypto \<Rightarrow> bytes \<Rightarrow> string \<Rightarrow> DeviceBundle \<Rightarrow> unit result" where
  "verify_device_certificate C master account_id b =
     verify_signature C master
       (device_certificate_payload account_id (db_device_id b) (db_auth_signing_key b)
          (db_olm_ed25519_key b) (db_olm_curve25519_key b))
       (db_certificate_signature b)"

definition verify_prekey :: "crypto \<Rightarrow> bytes \<Rightarrow> OneTimeKey \<Rightarrow> unit result" where
  "verify_prekey C auth_key key =
     verify_signature C auth_key
       (as_bytes ''tui-chat-prekey-v1'' @ [0] @ as_bytes (otk_key_id key) @ [0] @ otk_curve25519_key key)
       (otk_signature key)"

definition verify_roster_signature :: "crypto \<Rightarrow> bytes \<Rightarrow> string \<Rightarrow> u64 \<Rightarrow> string \<Rightarrow> bytes \<Rightarrow> unit result" where
  "verify_roster_signature C master account revision dev signature =
     verify_signature C master
       (as_bytes ''tui-chat-roster-v1'' @ [0] @ as_bytes account @ [0] @ u64_to_be_bytes revision @ as_bytes dev)
       signature"

section \<open>Public errors\<close>

record PublicError =
  pub_code :: string
  pub_message :: string
  pub_retryable :: bool

fun failure_text :: "failure \<Rightarrow> string" where
  "failure_text (Msg m) = m"
| "failure_text (Constraint m) = m"
| "failure_text (Rejected AccountQuota) = ''account ciphertext quota exceeded''"
| "failure_text (Rejected TotalQuota) = ''server ciphertext quota exceeded''"
| "failure_text (Rejected DiskPressure) = ''server disk free-space reserve reached''"

definition mk_public :: "string \<Rightarrow> string \<Rightarrow> bool \<Rightarrow> PublicError" where
  "mk_public code message retryable = \<lparr>pub_code = code, pub_message = message, pub_retryable = retryable\<rparr>"

definition public_error :: "failure \<Rightarrow> PublicError" where
  "public_error e =
     (case e of
        Rejected r \<Rightarrow>
          (case r of
             DiskPressure \<Rightarrow> mk_public ''storage_pressure'' ''server disk reserve reached; retry after storage cleanup'' True
           | _ \<Rightarrow> mk_public ''storage_quota_exceeded'' ''server ciphertext storage quota exceeded'' False)
      | _ \<Rightarrow>
         (let message = failure_text e in
          if str_contains message ''too many authentication attempts''
          then mk_public ''rate_limited'' ''too many authentication attempts; retry later'' True
          else if str_contains message ''password must contain''
          then mk_public ''password_policy'' ''password does not meet the server policy'' False
          else if str_contains message ''invalid credentials''
          then mk_public ''invalid_credentials'' ''invalid credentials'' False
          else if str_contains message ''password change is required''
          then mk_public ''password_change_required'' ''password change is required'' False
          else if str_contains message ''recipient device is unavailable''
          then mk_public ''recipient_roster_changed'' ''recipient device roster changed; refresh and retry'' True
          else if str_contains message ''cannot revoke the current device''
          then mk_public ''device_revoke_forbidden'' ''the current device cannot revoke itself'' False
          else if str_contains message ''user not found''
          then mk_public ''user_not_found'' ''user not found'' False
          else mk_public ''request_rejected'' ''request rejected'' False))"

end
