(* ===== verification/Ws_Handlers.thy ===== *)
theory Ws_Handlers
  imports Ws_Support
begin

text \<open>
  \<open>handle_frame\<close> of \<open>crates/server/src/ws.rs\<close>, one definition per kind of frame. Each reads like the
  code: the checks in their order, the statements and pushes, the answer on the connection's channel.
\<close>

section \<open>Authentication\<close>

definition handle_client_hello :: "services \<Rightarrow> moment \<Rightarrow> ConnectionContext \<Rightarrow> string \<Rightarrow> ClientHello_msg \<Rightarrow> unit handler" where
  "handle_client_hello S mo ctx request_id hello =
     and_then no_session (\<lambda>_.
     and_then (lift_result (normalize_username (hello_username hello))) (\<lambda>username.
     and_then (require (valid_uuid S (hello_device_id hello)) ''invalid device id'') (\<lambda>_.
     and_then (require (\<not> (length (hello_capabilities hello) > 32
         \<or> (\<exists>capability \<in> set (hello_capabilities hello). capability = [] \<or> length capability > 64)))
        ''invalid client capabilities'') (\<lambda>_.
     let nonce = take 32 (mo_random mo); expires = mo_now_ms mo + 30000 in
     and_then (put_challenge \<lparr>ch_username = username, ch_device_id = hello_device_id hello, ch_nonce = nonce,
        ch_expires_at_ms = expires, ch_capabilities = hello_capabilities hello\<rparr>) (\<lambda>_.
     tx_send ctx (mk_frame request_id (AuthChallenge \<lparr>chal_nonce = nonce, chal_expires_at_ms = expires\<rparr>)))))))"

definition audit_auth :: "services \<Rightarrow> moment \<Rightarrow> ConnectionContext \<Rightarrow> string \<Rightarrow> string \<Rightarrow> string \<Rightarrow> string \<Rightarrow> unit handler" where
  "audit_auth S mo ctx actor action target res =
     run_db (\<lambda>d. ((), audit ''auth'' actor action target res
        (Some (svc_show_ip S (ctx_source_ip ctx)), []) (mo_now_ms mo) d))"

definition handle_device_auth :: "services \<Rightarrow> moment \<Rightarrow> ConnectionContext \<Rightarrow> string \<Rightarrow> DeviceAuth_msg \<Rightarrow> unit handler" where
  "handle_device_auth S mo ctx request_id auth =
     and_then no_session (\<lambda>_.
     and_then (take_valid_challenge (mo_now_ms mo) (dauth_username auth) (dauth_device_id auth)) (\<lambda>ch.
     and_then (ask_db (account_by_username (ch_username ch))) (\<lambda>found.
     and_then (some_or ''invalid credentials'' found) (\<lambda>account.
     and_then (require (acct_state account = ''active'') ''invalid credentials'') (\<lambda>_.
     and_then (ask_db (device (acct_id account) (dauth_device_id auth))) (\<lambda>found_dev.
     and_then (some_or ''invalid credentials'' found_dev) (\<lambda>dev.
     and_then (require (\<not> (dev_pending dev \<or> dev_revoked dev)) ''device is not active'') (\<lambda>_.
     and_then (ask st_domain) (\<lambda>domain.
     and_then (lift_result (verify_signature (svc_crypto S) (dev_auth_signing_key dev)
        (auth_challenge_payload domain (acct_username account) (dauth_device_id auth) (ch_nonce ch) (ch_expires_at_ms ch))
        (dauth_signature auth))) (\<lambda>_.
     and_then (run_db (\<lambda>d. ((), record_device_authentication (dauth_device_id auth) (mo_now_ms mo) d))) (\<lambda>_.
     let ses = \<lparr>ses_account = account, ses_device_id = dauth_device_id auth, ses_pending = False,
                ses_password_change_required = acct_require_password_change account,
                ses_capabilities = ch_capabilities ch\<rparr> in
     and_then (change_state (register ses (ctx_token ctx) (ctx_source_ip ctx) (mo_now_ms mo))) (\<lambda>_.
     and_then (send_authenticated ctx request_id ses) (\<lambda>_.
     and_then (push_post_auth ctx (mo_now_ms mo) ses) (\<lambda>_.
     and_then (audit_auth S mo ctx (acct_username account) ''device_auth'' (ses_device_id ses) ''success'') (\<lambda>_.
     put_session ses)))))))))))))))"

definition valid_login :: "PasswordVerification \<Rightarrow> Account option \<Rightarrow> Account option" where
  "valid_login v account = (case account of None \<Rightarrow> None
     | Some a \<Rightarrow> if pwv_valid v \<and> acct_state a = ''active'' then Some a else None)"

definition rehash_password :: "PasswordVerification \<Rightarrow> Account \<Rightarrow> Account handler" where
  "rehash_password v account =
     (case pwv_replacement_phc v of None \<Rightarrow> ret account
      | Some replacement \<Rightarrow>
          and_then (run_db (\<lambda>d. ((), set_password (acct_id account) replacement (acct_require_password_change account) d)))
            (\<lambda>_. ret (account\<lparr>acct_password_phc := replacement\<rparr>)))"

definition handle_password_auth :: "services \<Rightarrow> moment \<Rightarrow> ConnectionContext \<Rightarrow> string \<Rightarrow> PasswordAuth_msg \<Rightarrow> unit handler" where
  "handle_password_auth S mo ctx request_id auth =
     and_then no_session (\<lambda>_.
     and_then (take_valid_challenge (mo_now_ms mo) (pauth_username auth) (pauth_device_id auth)) (\<lambda>ch.
     and_then (require (\<not> (pauth_password auth = [] \<or> length (pauth_password auth) > 1024)) ''invalid credentials'') (\<lambda>_.
     and_then (run_state (allow_password_attempt S mo (ctx_source_ip ctx) (ch_username ch))) (\<lambda>allowed.
     and_then (require allowed ''too many authentication attempts; retry later'') (\<lambda>_.
     and_then (ask_db (account_by_username (ch_username ch))) (\<lambda>found.
     and_then (ask st_dummy_password_phc) (\<lambda>dummy.
     let phc = (case found of None \<Rightarrow> dummy | Some a \<Rightarrow> acct_password_phc a);
         verification = verify_password (svc_phc S) (mo_random mo) phc (pauth_password auth) in
     case valid_login verification found of
       None \<Rightarrow> and_then (audit_auth S mo ctx (ch_username ch) ''password_auth'' (ch_device_id ch) ''failure'')
                 (\<lambda>_. fail ''invalid credentials'')
     | Some account0 \<Rightarrow>
        and_then (rehash_password verification account0) (\<lambda>account.
        and_then (ask_db (device (acct_id account) (ch_device_id ch))) (\<lambda>existing.
        and_then (require (case existing of None \<Rightarrow> True | Some dev \<Rightarrow> dev_pending dev)
           ''existing devices must use challenge signatures'') (\<lambda>_.
        let ses = \<lparr>ses_account = account, ses_device_id = ch_device_id ch, ses_pending = True,
                   ses_password_change_required = False, ses_capabilities = ch_capabilities ch\<rparr> in
        and_then (send_authenticated ctx request_id ses) (\<lambda>_.
        and_then (if existing \<noteq> None
                  then and_then (change_state (register ses (ctx_token ctx) (ctx_source_ip ctx) (mo_now_ms mo)))
                         (\<lambda>_. push_post_auth ctx (mo_now_ms mo) ses)
                  else ret ()) (\<lambda>_.
        and_then (audit_auth S mo ctx (acct_username account) ''password_auth'' (ses_device_id ses) ''success'') (\<lambda>_.
        put_session ses)))))))))))))"

section \<open>Bootstrap\<close>

definition bootstrap_fields_ok :: "services \<Rightarrow> BootstrapDevice_msg \<Rightarrow> bool" where
  "bootstrap_fields_ok S b = (\<not> (\<not> valid_uuid S (boot_device_id b) \<or> trim (boot_device_name b) = []
     \<or> chars_count (boot_device_name b) > 64 \<or> length (boot_auth_signing_key b) \<noteq> 32
     \<or> length (boot_olm_ed25519_key b) \<noteq> 32 \<or> length (boot_olm_curve25519_key b) \<noteq> 32
     \<or> length (boot_account_master_key b) \<noteq> 32 \<or> length (boot_sas_public_key b) \<noteq> 32
     \<or> length (boot_one_time_keys b) > 100))"

definition bootstrap_bundle :: "BootstrapDevice_msg \<Rightarrow> DeviceBundle" where
  "bootstrap_bundle b = \<lparr>db_device_id = boot_device_id b, db_device_name = boot_device_name b,
     db_auth_signing_key = boot_auth_signing_key b, db_olm_ed25519_key = boot_olm_ed25519_key b,
     db_olm_curve25519_key = boot_olm_curve25519_key b,
     db_certificate_signature = boot_certificate_signature b, db_revoked = False\<rparr>"

definition bootstrap_first :: "services \<Rightarrow> moment \<Rightarrow> ConnectionContext \<Rightarrow> string \<Rightarrow> BootstrapDevice_msg \<Rightarrow>
    nat \<times> nat \<Rightarrow> Session \<Rightarrow> unit handler" where
  "bootstrap_first S mo ctx request_id b counts ses =
     (let account = acct_id (ses_account ses); bundle = bootstrap_bundle b in
     and_then (require (\<not> (fst counts \<noteq> 0 \<or> snd counts \<noteq> 0)) ''account device state is inconsistent'') (\<lambda>_.
     and_then (lift_result (verify_device_certificate (svc_crypto S) (boot_account_master_key b) account bundle)) (\<lambda>_.
     and_then (exec_db (bootstrap_master account (boot_account_master_key b))) (\<lambda>_.
     and_then (exec_db (insert_device account bundle (boot_sas_public_key b) False (mo_now_ms mo))) (\<lambda>_.
     and_then (exec_db (publish_prekeys (ses_device_id ses) (boot_one_time_keys b) (mo_now_ms mo))) (\<lambda>_.
     let ses' = ses\<lparr>ses_account := (ses_account ses)\<lparr>acct_master_public_key := Some (boot_account_master_key b),
                                                   acct_roster_revision := 1\<rparr>,
                    ses_pending := False,
                    ses_password_change_required := acct_require_password_change (ses_account ses)\<rparr> in
     and_then (put_session ses') (\<lambda>_.
     and_then (change_state (register ses' (ctx_token ctx) (ctx_source_ip ctx) (mo_now_ms mo))) (\<lambda>_.
     send_authenticated ctx request_id ses'))))))))"

definition bootstrap_pending :: "services \<Rightarrow> moment \<Rightarrow> ConnectionContext \<Rightarrow> string \<Rightarrow> BootstrapDevice_msg \<Rightarrow>
    nat \<times> nat \<Rightarrow> Session \<Rightarrow> unit handler" where
  "bootstrap_pending S mo ctx request_id b counts ses =
     (let account = acct_id (ses_account ses); bundle = bootstrap_bundle b in
     and_then (require (\<not> (8 \<le> fst counts \<or> 2 \<le> snd counts)) ''account device limit reached'') (\<lambda>_.
     and_then (require (acct_master_public_key (ses_account ses) = Some (boot_account_master_key b))
        ''account identity mismatch'') (\<lambda>_.
     and_then (require (db_certificate_signature bundle = [])
        ''pending device certificate must be issued by an existing device'') (\<lambda>_.
     and_then (exec_db (insert_device account bundle (boot_sas_public_key b) True (mo_now_ms mo))) (\<lambda>_.
     and_then (exec_db (publish_prekeys (ses_device_id ses) (boot_one_time_keys b) (mo_now_ms mo))) (\<lambda>_.
     and_then (change_state (register ses (ctx_token ctx) (ctx_source_ip ctx) (mo_now_ms mo))) (\<lambda>_.
     and_then (change_state (push_account account (mk_frame [] (PairingRequest
        \<lparr>pr_pairing_id = ses_device_id ses, pr_pending_device_id = ses_device_id ses,
         pr_pending_device_name = db_device_name bundle, pr_sas_public_key = boot_sas_public_key b,
         pr_pending_device = Some bundle\<rparr>)))) (\<lambda>_.
     send_authenticated ctx request_id ses))))))))"

definition handle_bootstrap_device :: "services \<Rightarrow> moment \<Rightarrow> ConnectionContext \<Rightarrow> string \<Rightarrow> BootstrapDevice_msg \<Rightarrow> unit handler" where
  "handle_bootstrap_device S mo ctx request_id b =
     and_then get_session (\<lambda>slot.
     and_then (some_or ''password authentication required'' slot) (\<lambda>ses.
     and_then (require (\<not> (\<not> ses_pending ses \<or> boot_device_id b \<noteq> ses_device_id ses)) ''invalid bootstrap state'') (\<lambda>_.
     and_then (ask_db (device (acct_id (ses_account ses)) (ses_device_id ses))) (\<lambda>submitted.
     and_then (require (submitted = None) ''device was already submitted'') (\<lambda>_.
     and_then (require (bootstrap_fields_ok S b) ''invalid public key length'') (\<lambda>_.
     and_then (ask_db (has_active_devices (acct_id (ses_account ses)))) (\<lambda>has_devices.
     and_then (ask_db (device_counts (acct_id (ses_account ses)))) (\<lambda>counts.
     if \<not> has_devices \<and> acct_master_public_key (ses_account ses) = None
     then bootstrap_first S mo ctx request_id b counts ses
     else bootstrap_pending S mo ctx request_id b counts ses))))))))"

section \<open>Passwords\<close>

definition handle_change_password :: "services \<Rightarrow> moment \<Rightarrow> ConnectionContext \<Rightarrow> string \<Rightarrow> ChangePassword_msg \<Rightarrow> unit handler" where
  "handle_change_password S mo ctx request_id change =
     and_then active_session (\<lambda>ses.
     and_then (require (\<not> (chg_current_password change = [] \<or> length (chg_current_password change) > 1024))
        ''current password is incorrect'') (\<lambda>_.
     and_then (lift_result (validate_password (chg_new_password change))) (\<lambda>_.
     and_then (require (pwv_valid (verify_password (svc_phc S) (mo_random mo)
          (acct_password_phc (ses_account ses)) (chg_current_password change)))
        ''current password is incorrect'') (\<lambda>_.
     and_then (lift_result (hash_password (svc_phc S) (mo_random mo) (chg_new_password change))) (\<lambda>phc.
     and_then (run_db (\<lambda>d. ((), set_password (acct_id (ses_account ses)) phc False d))) (\<lambda>_.
     let ses' = ses\<lparr>ses_account := (ses_account ses)\<lparr>acct_password_phc := phc, acct_require_password_change := False\<rparr>,
                    ses_password_change_required := False\<rparr> in
     and_then (put_session ses') (\<lambda>_.
     and_then (audit_auth S mo ctx (acct_username (ses_account ses)) ''password_change'' (ses_device_id ses) ''success'') (\<lambda>_.
     send_authenticated ctx request_id ses'))))))))"

section \<open>Lookups and prekeys\<close>

definition handle_lookup_user :: "ConnectionContext \<Rightarrow> string \<Rightarrow> string \<Rightarrow> unit handler" where
  "handle_lookup_user ctx request_id exact_username =
     and_then usable_session (\<lambda>_.
     and_then (lift_result (normalize_username exact_username)) (\<lambda>username.
     and_then (ask_db (lookup_user_bundle username)) (\<lambda>found.
     and_then (some_or ''user not found'' found) (\<lambda>(account, devices).
     tx_send ctx (mk_frame request_id (UserBundle
       \<lparr>ub_account_id = acct_id account, ub_username = acct_username account,
        ub_account_master_key = coalesce (acct_master_public_key account) [],
        ub_roster_revision = acct_roster_revision account, ub_devices = devices\<rparr>))))))"

definition prekey_fields_ok :: "OneTimeKey \<Rightarrow> bool" where
  "prekey_fields_ok key = (\<not> (otk_key_id key = [] \<or> length (otk_key_id key) > 64
     \<or> length (otk_curve25519_key key) \<noteq> 32 \<or> length (otk_signature key) \<noteq> 64))"

fun check_prekeys :: "crypto \<Rightarrow> bytes \<Rightarrow> OneTimeKey list \<Rightarrow> unit result" where
  "check_prekeys C auth_key [] = ok ()"
| "check_prekeys C auth_key (key # keys) =
     (if \<not> prekey_fields_ok key then bail ''invalid prekey fields''
      else (case verify_prekey C auth_key key of Inl e \<Rightarrow> Inl e | Inr _ \<Rightarrow> check_prekeys C auth_key keys))"

definition operation_ok :: "ConnectionContext \<Rightarrow> string \<Rightarrow> unit handler" where
  "operation_ok ctx request_id = tx_send ctx (mk_frame request_id OperationOk)"

definition operation_ok_if_asked :: "ConnectionContext \<Rightarrow> string \<Rightarrow> unit handler" where
  "operation_ok_if_asked ctx request_id = (if request_id \<noteq> [] then operation_ok ctx request_id else ret ())"

definition handle_publish_prekeys :: "services \<Rightarrow> moment \<Rightarrow> ConnectionContext \<Rightarrow> string \<Rightarrow> OneTimeKey list \<Rightarrow> unit handler" where
  "handle_publish_prekeys S mo ctx request_id keys =
     and_then usable_session (\<lambda>ses.
     and_then (require (length keys \<le> 100) ''too many prekeys'') (\<lambda>_.
     and_then (ask_db (device (acct_id (ses_account ses)) (ses_device_id ses))) (\<lambda>found.
     and_then (some_or ''device missing'' found) (\<lambda>dev.
     and_then (lift_result (check_prekeys (svc_crypto S) (dev_auth_signing_key dev) keys)) (\<lambda>_.
     and_then (exec_db (publish_prekeys (ses_device_id ses) keys (mo_now_ms mo))) (\<lambda>_.
     operation_ok ctx request_id))))))"

definition handle_claim_prekey :: "services \<Rightarrow> ConnectionContext \<Rightarrow> string \<Rightarrow> ClaimPreKey_msg \<Rightarrow> unit handler" where
  "handle_claim_prekey S ctx request_id claim =
     and_then usable_session (\<lambda>_.
     and_then (require (\<not> (\<not> valid_uuid S (claim_account_id claim) \<or> \<not> valid_uuid S (claim_device_id claim)))
        ''invalid prekey target'') (\<lambda>_.
     and_then (run_db (claim_prekey (claim_account_id claim) (claim_device_id claim))) (\<lambda>bundle.
     and_then (some_or ''recipient has no available prekey'' bundle) (\<lambda>(dev, one_time_key).
     tx_send ctx (mk_frame request_id (PreKeyBundle (Some dev) (Some one_time_key)))))))"

section \<open>Mail\<close>

definition envelope_fields_ok :: "services \<Rightarrow> moment \<Rightarrow> EncryptedEnvelope \<Rightarrow> bool" where
  "envelope_fields_ok S mo e = (\<not> (\<not> valid_uuid S (env_envelope_id e) \<or> \<not> valid_uuid S (env_logical_message_id e)
     \<or> \<not> valid_uuid S (env_recipient_account_id e) \<or> \<not> valid_uuid S (env_recipient_device_id e)
     \<or> length (env_conversation_id e) \<noteq> 64 \<or> \<not> list_all is_ascii_hexdigit (env_conversation_id e)
     \<or> env_client_sent_at_ms e < 0 \<or> env_client_sent_at_ms e > mo_now_ms mo + 5 * 60 * 1000))"

definition push_stored :: "EncryptedEnvelope list \<Rightarrow> string \<times> u64 \<Rightarrow> AppState \<Rightarrow> AppState" where
  "push_stored envs dest w =
     (case find (\<lambda>e. env_recipient_device_id e = fst dest) envs of None \<Rightarrow> w
      | Some e \<Rightarrow>
         (case stored_envelope (env_envelope_id e) (st_db w) of None \<Rightarrow> w
          | Some stored \<Rightarrow> push_device (fst dest) (mk_frame [] (SyncBatch
              \<lparr>sb_envelopes = [stored], sb_next_cursor = se_cursor stored, sb_has_more = False,
               sb_delivery_updates = [], sb_next_status_cursor = 0\<rparr>)) w))"

definition handle_send_envelopes :: "services \<Rightarrow> moment \<Rightarrow> ConnectionContext \<Rightarrow> string \<Rightarrow> EncryptedEnvelope list \<Rightarrow> unit handler" where
  "handle_send_envelopes S mo ctx request_id envs =
     and_then usable_session (\<lambda>ses.
     and_then (require (\<not> ses_password_change_required ses) ''password change is required before sending'') (\<lambda>_.
     and_then (require (list_all (envelope_fields_ok S mo) envs) ''invalid encrypted envelope fields'') (\<lambda>_.
     and_then (ask (\<lambda>w. storage_limits (st_config w))) (\<lambda>limits.
     and_then (query_db (store_envelopes (sha256 (svc_crypto S)) (mo_free_disk mo) (acct_id (ses_account ses))
         (ses_device_id ses) envs (mo_now_ms mo) limits)) (\<lambda>destinations.
     and_then (change_state (fold (push_stored envs) destinations)) (\<lambda>_.
     tx_send ctx (mk_frame request_id (SendAccepted
       \<lparr>acc_logical_message_id = (case envs of [] \<Rightarrow> [] | e # _ \<Rightarrow> env_logical_message_id e),
        acc_accepted_at_ms = mo_now_ms mo\<rparr>))))))))"

definition handle_sync_request :: "ConnectionContext \<Rightarrow> string \<Rightarrow> SyncRequest_msg \<Rightarrow> unit handler" where
  "handle_sync_request ctx request_id req =
     and_then usable_session (\<lambda>ses.
     and_then (ask_db (sync (acct_id (ses_account ses)) (ses_device_id ses) (sync_after_cursor req)
        (sync_after_status_cursor req) (sync_limit req))) (\<lambda>(envs, statuses, has_more).
     tx_send ctx (mk_frame request_id (SyncBatch
       \<lparr>sb_envelopes = envs,
        sb_next_cursor = (if envs = [] then sync_after_cursor req else se_cursor (last envs)),
        sb_has_more = has_more, sb_delivery_updates = statuses,
        sb_next_status_cursor = (if statuses = [] then sync_after_status_cursor req else sdu_cursor (last statuses))\<rparr>))))"

definition handle_ack_envelope :: "services \<Rightarrow> moment \<Rightarrow> ConnectionContext \<Rightarrow> string \<Rightarrow> AckEnvelope_msg \<Rightarrow> unit handler" where
  "handle_ack_envelope S mo ctx request_id a =
     and_then usable_session (\<lambda>ses.
     and_then (require (valid_uuid S (ack_envelope_id a)) ''invalid envelope acknowledgement'') (\<lambda>_.
     and_then (run_db (ack (ses_device_id ses) (ack_envelope_id a) (mo_now_ms mo))) (\<lambda>res.
     and_then (case res of None \<Rightarrow> ret ()
        | Some (sender_account, logical) \<Rightarrow> change_state (push_account sender_account (mk_frame []
            (DeliveryUpdateFrame \<lparr>du_logical_message_id = logical, du_delivered_at_ms = mo_now_ms mo\<rparr>)))) (\<lambda>_.
     operation_ok_if_asked ctx request_id))))"

section \<open>Pairing and activation\<close>

definition pairing_event_ok :: "services \<Rightarrow> PairingEvent_msg \<Rightarrow> bool" where
  "pairing_event_ok S e = (\<not> (pe_server_event_id e \<noteq> 0 \<or> \<not> valid_uuid S (pe_pairing_id e)
     \<or> \<not> valid_uuid S (pe_target_device_id e) \<or> length (pe_payload e) > 192 * 1024
     \<or> pe_event_type e \<notin> {''sas_public'', ''sas_confirmed'', ''bootstrap'', ''history_chunk'', ''history_complete''}))"

text \<open>The time to live is computed in 64 bits, as a release build does: it wraps.\<close>

definition handle_pairing_event :: "services \<Rightarrow> moment \<Rightarrow> ConnectionContext \<Rightarrow> string \<Rightarrow> PairingEvent_msg \<Rightarrow> unit handler" where
  "handle_pairing_event S mo ctx request_id e =
     and_then get_session (\<lambda>slot.
     and_then (some_or ''authentication required'' slot) (\<lambda>ses.
     and_then (require (pairing_event_ok S e) ''invalid pairing event'') (\<lambda>_.
     and_then (ask_db (device_account_any (pe_target_device_id e))) (\<lambda>found.
     and_then (some_or ''target device not found'' found) (\<lambda>target_account.
     and_then (require (target_account = acct_id (ses_account ses)) ''pairing is restricted to the same account'') (\<lambda>_.
     and_then (ask_db (device (acct_id (ses_account ses)) (pe_pairing_id e))) (\<lambda>pairing.
     and_then (require (case pairing of None \<Rightarrow> False | Some dev \<Rightarrow> dev_pending dev \<and> \<not> dev_revoked dev)
        ''pairing request is not active'') (\<lambda>_.
     and_then (require (\<not> (ses_device_id ses \<noteq> pe_pairing_id e \<and> pe_target_device_id e \<noteq> pe_pairing_id e))
        ''pairing event is not bound to the pending device'') (\<lambda>_.
     and_then (ask (\<lambda>w. cfg_pairing_ttl_seconds (st_config w) * 1000)) (\<lambda>ttl_ms.
     and_then (query_db (insert_pairing_event (pe_pairing_id e) (ses_device_id ses) (pe_target_device_id e)
        (pe_event_type e) (pe_payload e) (mo_now_ms mo, sint (word_of_int (mo_now_ms mo) + ttl_ms)))) (\<lambda>event_id.
     and_then (ask_db (device_bundles (acct_id (ses_account ses)) True)) (\<lambda>bundles.
     and_then (some_or ''sender device not found'' (map_option db_device_name
        (find (\<lambda>b. db_device_id b = ses_device_id ses) bundles))) (\<lambda>sender_device_name.
     and_then (change_state (push_device (pe_target_device_id e) (mk_frame [] (PairingEvent
        (e\<lparr>pe_sender_device_id := ses_device_id ses, pe_sender_device_name := sender_device_name,
           pe_server_event_id := event_id\<rparr>))))) (\<lambda>_.
     operation_ok_if_asked ctx request_id))))))))))))))"

definition handle_ack_pairing_event :: "ConnectionContext \<Rightarrow> string \<Rightarrow> u64 \<Rightarrow> unit handler" where
  "handle_ack_pairing_event ctx request_id server_event_id =
     and_then get_session (\<lambda>slot.
     and_then (some_or ''authentication required'' slot) (\<lambda>ses.
     and_then (require (server_event_id \<noteq> 0) ''pairing event not found'') (\<lambda>_.
     and_then (run_db (ack_pairing_event (ses_device_id ses) server_event_id)) (\<lambda>found.
     and_then (require found ''pairing event not found'') (\<lambda>_.
     operation_ok_if_asked ctx request_id)))))"

definition activate_fields_ok :: "services \<Rightarrow> ActivateDevice_msg \<Rightarrow> DeviceBundle \<Rightarrow> bool" where
  "activate_fields_ok S a b = (\<not> (\<not> valid_uuid S (act_pairing_id a) \<or> \<not> valid_uuid S (db_device_id b)
     \<or> act_pairing_id a \<noteq> db_device_id b \<or> chars_count (db_device_name b) > 64
     \<or> length (db_auth_signing_key b) \<noteq> 32 \<or> length (db_olm_ed25519_key b) \<noteq> 32
     \<or> length (db_olm_curve25519_key b) \<noteq> 32 \<or> length (db_certificate_signature b) \<noteq> 64
     \<or> length (act_roster_signature a) \<noteq> 64))"

definition same_device_keys :: "DeviceBundle \<Rightarrow> DeviceBundle \<Rightarrow> bool" where
  "same_device_keys p b = (\<not> (db_auth_signing_key p \<noteq> db_auth_signing_key b
     \<or> db_olm_ed25519_key p \<noteq> db_olm_ed25519_key b \<or> db_olm_curve25519_key p \<noteq> db_olm_curve25519_key b))"

definition handle_activate_device :: "services \<Rightarrow> ConnectionContext \<Rightarrow> string \<Rightarrow> ActivateDevice_msg \<Rightarrow> unit handler" where
  "handle_activate_device S ctx request_id a =
     and_then usable_session (\<lambda>ses.
     and_then (some_or ''missing device bundle'' (act_device a)) (\<lambda>b.
     and_then (require (activate_fields_ok S a b) ''invalid device activation fields'') (\<lambda>_.
     and_then (ask_db (device_bundles (acct_id (ses_account ses)) True)) (\<lambda>bundles.
     and_then (some_or ''pending device not found'' (find (\<lambda>item. db_device_id item = db_device_id b) bundles)) (\<lambda>pending.
     and_then (require (same_device_keys pending b) ''pending device keys changed'') (\<lambda>_.
     and_then (some_or ''account is not bootstrapped'' (acct_master_public_key (ses_account ses))) (\<lambda>master.
     and_then (lift_result (verify_device_certificate (svc_crypto S) master (acct_id (ses_account ses)) b)) (\<lambda>_.
     and_then (lift_result (verify_roster_signature (svc_crypto S) master (acct_id (ses_account ses))
        (act_roster_revision a) (db_device_id b) (act_roster_signature a))) (\<lambda>_.
     and_then (exec_db (activate_device (acct_id (ses_account ses)) (db_device_id b) (act_roster_revision a)
        (db_certificate_signature b))) (\<lambda>_.
     and_then (change_state (push_device (db_device_id b) (mk_frame [] (PairingEvent
        \<lparr>pe_pairing_id = act_pairing_id a, pe_target_device_id = db_device_id b,
         pe_event_type = ''device_activated'', pe_payload = [], pe_sender_device_id = ses_device_id ses,
         pe_server_event_id = 0, pe_sender_device_name = []\<rparr>)))) (\<lambda>_.
     operation_ok ctx request_id)))))))))))"

section \<open>Own devices\<close>

definition negotiated_own_devices :: "Session \<Rightarrow> unit handler" where
  "negotiated_own_devices ses =
     require (CAPABILITY_OWN_DEVICES \<in> set (ses_capabilities ses)) ''client did not negotiate own device management''"

definition handle_list_own_devices :: "ConnectionContext \<Rightarrow> string \<Rightarrow> unit handler" where
  "handle_list_own_devices ctx request_id =
     and_then usable_session (\<lambda>ses.
     and_then (negotiated_own_devices ses) (\<lambda>_.
     and_then (ask (own_device_list (acct_id (ses_account ses)) (ses_device_id ses))) (\<lambda>devices.
     tx_send ctx (mk_frame request_id (OwnDeviceList devices)))))"

definition handle_revoke_own_device :: "services \<Rightarrow> moment \<Rightarrow> ConnectionContext \<Rightarrow> string \<Rightarrow> string \<Rightarrow> unit handler" where
  "handle_revoke_own_device S mo ctx request_id target =
     and_then usable_session (\<lambda>ses.
     and_then (negotiated_own_devices ses) (\<lambda>_.
     and_then (require (valid_uuid S target) ''invalid device id'') (\<lambda>_.
     and_then (require (target \<noteq> ses_device_id ses) ''cannot revoke the current device'') (\<lambda>_.
     and_then (run_db (revoke_own_device (acct_id (ses_account ses)) target)) (\<lambda>revoked.
     and_then (require revoked ''device is not active or does not belong to this account'') (\<lambda>_.
     and_then (change_state (\<lambda>w. snd (kick_device target ''access_revoked'' w))) (\<lambda>_.
     and_then (run_db (\<lambda>d. ((), audit ''device'' (acct_username (ses_account ses)) ''self_service_revoke'' target
        ''success'' (Some (svc_show_ip S (ctx_source_ip ctx)), ses_device_id ses) (mo_now_ms mo) d))) (\<lambda>_.
     and_then (ask (own_device_list (acct_id (ses_account ses)) (ses_device_id ses))) (\<lambda>devices.
     tx_send ctx (mk_frame request_id (OwnDeviceList devices)))))))))))"

section \<open>Dispatch\<close>

definition handle_body :: "services \<Rightarrow> moment \<Rightarrow> ConnectionContext \<Rightarrow> string \<Rightarrow> Body \<Rightarrow> unit handler" where
  "handle_body S mo ctx i body =
     (case body of
        ClientHello m \<Rightarrow> handle_client_hello S mo ctx i m
      | DeviceAuth m \<Rightarrow> handle_device_auth S mo ctx i m
      | PasswordAuth m \<Rightarrow> handle_password_auth S mo ctx i m
      | BootstrapDevice m \<Rightarrow> handle_bootstrap_device S mo ctx i m
      | ChangePassword m \<Rightarrow> handle_change_password S mo ctx i m
      | LookupUser u \<Rightarrow> handle_lookup_user ctx i u
      | PublishPreKeys keys \<Rightarrow> handle_publish_prekeys S mo ctx i keys
      | ClaimPreKey m \<Rightarrow> handle_claim_prekey S ctx i m
      | SendEnvelopes envs \<Rightarrow> handle_send_envelopes S mo ctx i envs
      | SyncRequest m \<Rightarrow> handle_sync_request ctx i m
      | AckEnvelope m \<Rightarrow> handle_ack_envelope S mo ctx i m
      | PairingEvent m \<Rightarrow> handle_pairing_event S mo ctx i m
      | AckPairingEvent n \<Rightarrow> handle_ack_pairing_event ctx i n
      | ActivateDevice m \<Rightarrow> handle_activate_device S ctx i m
      | ListOwnDevices \<Rightarrow> handle_list_own_devices ctx i
      | RevokeOwnDevice dev \<Rightarrow> handle_revoke_own_device S mo ctx i dev
      | Ping t \<Rightarrow> tx_send ctx (mk_frame i (Pong t))
      | Pong _ \<Rightarrow> ret ()
      | _ \<Rightarrow> fail ''frame type is not valid in this direction'')"

definition handle_frame :: "services \<Rightarrow> moment \<Rightarrow> ConnectionContext \<Rightarrow> Frame \<Rightarrow> unit handler" where
  "handle_frame S mo ctx incoming =
     and_then (some_or ''empty frame'' (frame_body incoming)) (handle_body S mo ctx (frame_id incoming))"

end
