(* ===== verification/Ws_Connection.thy ===== *)
theory Ws_Connection
  imports Ws_Handlers
begin

text \<open>
  The upgrade of a request to a connection, and the loop of a connection (\<open>upgrade\<close>, \<open>connection\<close> of
  \<open>ws.rs\<close>): one step per iteration of the loop, and the clean-up after it. An iteration starts with an
  event: a message, the end or an error of the stream, the 60 second timeout, or a disconnect order.
\<close>

section \<open>Upgrade\<close>

text \<open>The parts of the request that \<open>upgrade\<close> reads; a header value that is not text counts as absent.\<close>

record upgrade_request =
  up_peer :: IpAddr
  up_has_origin :: bool
  up_forwarded_proto :: "string option"
  up_forwarded_for :: "string option"

datatype upgrade_response = Forbidden string | UpgradeRequired string | TooManyRequests string | Upgraded IpAddr

definition forwarded_ip :: "services \<Rightarrow> upgrade_request \<Rightarrow> IpAddr option" where
  "forwarded_ip S r = (case up_forwarded_for r of None \<Rightarrow> None
     | Some v \<Rightarrow> (case split_on (CHR '','') v of [] \<Rightarrow> None | p # _ \<Rightarrow> svc_parse_ip S (trim p)))"

definition source_ip_of :: "services \<Rightarrow> AppState \<Rightarrow> upgrade_request \<Rightarrow> IpAddr" where
  "source_ip_of S w r =
     (if is_trusted_proxy (svc_env S) (st_config w) (up_peer r)
      then coalesce (forwarded_ip S r) (up_peer r) else up_peer r)"

definition upgrade :: "services \<Rightarrow> upgrade_request \<Rightarrow> AppState \<Rightarrow> upgrade_response \<times> AppState" where
  "upgrade S r w =
     (let cfg = st_config w; trusted_proxy = is_trusted_proxy (svc_env S) cfg (up_peer r) in
      if cfg_reject_websocket_origins cfg \<and> up_has_origin r
      then (Forbidden ''browser WebSocket origins are not accepted'', w)
      else if cfg_trusted_proxy_tls cfg \<and> \<not> trusted_proxy
      then (Forbidden ''connection did not come from a trusted proxy'', w)
      else if trusted_proxy \<and> up_forwarded_proto r \<noteq> Some ''https''
      then (UpgradeRequired ''secure reverse proxy connection required'', w)
      else (case admit (source_ip_of S w r) w of
          (False, w') \<Rightarrow> (TooManyRequests ''connection limit exceeded'', w')
        | (True, w') \<Rightarrow> (Upgraded (source_ip_of S w r), w')))"

section \<open>The connection loop\<close>

datatype ws_event =
    Disconnected
  | Binary bytes
  | WsPing bytes
  | WsClose
  | WsError
  | WsOther
  | StreamEnd
  | TimedOut

record Loop =
  lp_ctx :: ConnectionContext
  lp_conn :: conn
  lp_unauthenticated :: bool
  lp_bucket :: TokenBucket

definition connection_start :: "moment \<Rightarrow> uuid \<Rightarrow> IpAddr \<Rightarrow> AppState \<Rightarrow> Loop \<times> AppState" where
  "connection_start mo token source_ip w =
     (\<lparr>lp_ctx = \<lparr>ctx_token = token, ctx_source_ip = source_ip\<rparr>,
       lp_conn = \<lparr>cn_challenge = None, cn_session = None\<rparr>, lp_unauthenticated = True,
       lp_bucket = bucket_new (mo_instant mo) (cfg_request_burst (st_config w))\<rparr>,
      w\<lparr>st_receivers := token # st_receivers w\<rparr>)"

definition access_ok :: "database \<Rightarrow> Session \<Rightarrow> bool" where
  "access_ok d ses =
     ((case account_by_username (acct_username (ses_account ses)) d of None \<Rightarrow> False
       | Some account \<Rightarrow> acct_state account = ''active'')
      \<and> (case device (acct_id (ses_account ses)) (ses_device_id ses) d of None \<Rightarrow> False
         | Some dev \<Rightarrow> \<not> dev_pending dev \<and> \<not> dev_revoked dev))"

definition access_revoked :: "database \<Rightarrow> conn \<Rightarrow> bool" where
  "access_revoked d c = (case cn_session c of None \<Rightarrow> False
     | Some ses \<Rightarrow> \<not> ses_pending ses \<and> \<not> access_ok d ses)"

text \<open>The body of the loop for a decoded frame: whether the loop goes on, and the new states.\<close>

definition serve_frame :: "services \<Rightarrow> moment \<Rightarrow> Frame \<Rightarrow> Loop \<times> AppState \<Rightarrow> bool \<times> Loop \<times> AppState" where
  "serve_frame S mo incoming s =
     (let (lp, w) = s; t = ctx_token (lp_ctx lp); request_id = frame_id incoming; cfg = st_config w in
      if length request_id > 64
      then (False, lp, send_error t [] ''invalid_frame'' ''request id is too long'' False w)
      else
       (let (taken, bucket) = bucket_take (svc_fl S) (mo_instant mo) (cfg_requests_per_minute cfg)
                                (cfg_request_burst cfg) (lp_bucket lp);
            lp1 = lp\<lparr>lp_bucket := bucket\<rparr>
        in if \<not> taken
           then (False, lp1, send_error t request_id ''rate_limited'' ''request rate limit exceeded'' True w)
           else if access_revoked (st_db w) (lp_conn lp)
           then (False, lp1, send_error t request_id ''access_revoked'' ''account or device access was revoked'' False w)
           else
            (let (res, (w1, c1)) = handle_frame S mo (lp_ctx lp) incoming (w, lp_conn lp);
                 w2 = (case res of Inr _ \<Rightarrow> w1
                       | Inl e \<Rightarrow> (let p = public_error e in
                           send_error t request_id (pub_code p) (pub_message p) (pub_retryable p) w1));
                 (w3, unauth) = (if lp_unauthenticated lp \<and> cn_session c1 \<noteq> None
                       then (mark_authenticated (ctx_source_ip (lp_ctx lp)) w2, False)
                       else (w2, lp_unauthenticated lp))
             in (True, lp1\<lparr>lp_conn := c1, lp_unauthenticated := unauth\<rparr>, touch_session t (mo_now_ms mo) w3))))"

definition connection_step :: "services \<Rightarrow> moment \<Rightarrow> ws_event \<Rightarrow> Loop \<times> AppState \<Rightarrow> bool \<times> Loop \<times> AppState" where
  "connection_step S mo ev s =
     (let (lp, w) = s; t = ctx_token (lp_ctx lp) in
      case ev of
        Disconnected \<Rightarrow> (False, lp, send_error t [] (coalesce (map_of (st_disconnects w) t) ''session_closed'')
                          ''session closed by server'' True w)
      | StreamEnd \<Rightarrow> (False, lp, w)
      | TimedOut \<Rightarrow> (False, lp, w)
      | WsClose \<Rightarrow> (False, lp, w)
      | WsError \<Rightarrow> (False, lp, w)
      | WsOther \<Rightarrow> (True, lp, w)
      | WsPing payload \<Rightarrow> (True, lp, snd (channel_send t (mk_frame [] (Pong (case payload of [] \<Rightarrow> 0 | b # _ \<Rightarrow> uint b))) w))
      | Binary payload \<Rightarrow>
         (case decode_frame (svc_prost_decode S) payload of
            Inl e \<Rightarrow> (True, lp, send_error t [] ''invalid_frame'' (codec_error_text e) False w)
          | Inr incoming \<Rightarrow>
              if frame_protocol_version incoming \<noteq> PROTOCOL_VERSION
              then (True, lp, send_error t [] ''unsupported_version'' ''client and server protocol versions differ'' False w)
              else serve_frame S mo incoming (lp, w)))"

text \<open>
  After the loop. When the function returns, its disconnect receiver is gone and the writer has no
  sender left (a registered sender is removed just before).
\<close>

definition connection_end :: "Loop \<Rightarrow> AppState \<Rightarrow> AppState" where
  "connection_end lp w =
     (let t = ctx_token (lp_ctx lp);
          w1 = (case cn_session (lp_conn lp) of None \<Rightarrow> w | Some ses \<Rightarrow> unregister (ses_device_id ses) t w);
          w2 = release (ctx_source_ip (lp_ctx lp)) (lp_unauthenticated lp) w1
      in w2\<lparr>st_closed := t # st_closed w2, st_receivers := removeAll t (st_receivers w2)\<rparr>)"

section \<open>The server as a transition system\<close>

text \<open>
  \<open>sys_lost\<close> holds the source addresses of requests that were admitted but whose upgrade failed
  afterwards: \<open>on_upgrade\<close> then never runs \<open>connection\<close>, and nothing gives their places back.
\<close>

record Sys =
  sys_state :: AppState
  sys_loops :: "Loop list"
  sys_lost :: "IpAddr list"

inductive sys_step :: "services \<Rightarrow> Sys \<Rightarrow> Sys \<Rightarrow> bool" for S where
  refuse: "upgrade S r (sys_state s) = (resp, w) \<Longrightarrow> (\<And>ip. resp \<noteq> Upgraded ip) \<Longrightarrow>
     sys_step S s (s\<lparr>sys_state := w\<rparr>)"
| accept: "upgrade S r (sys_state s) = (Upgraded ip, w) \<Longrightarrow>
     t \<notin> (\<lambda>lp. ctx_token (lp_ctx lp)) ` set (sys_loops s) \<Longrightarrow> t \<notin> set (st_closed w) \<Longrightarrow>
     connection_start mo t ip w = (lp, w') \<Longrightarrow>
     sys_step S s (s\<lparr>sys_state := w', sys_loops := lp # sys_loops s\<rparr>)"
| lose: "upgrade S r (sys_state s) = (Upgraded ip, w) \<Longrightarrow>
     sys_step S s (s\<lparr>sys_state := w, sys_lost := ip # sys_lost s\<rparr>)"
| continue: "sys_loops s = xs @ lp # ys \<Longrightarrow> connection_step S mo ev (lp, sys_state s) = (True, lp', w) \<Longrightarrow>
     sys_step S s (s\<lparr>sys_state := w, sys_loops := xs @ lp' # ys\<rparr>)"
| finish: "sys_loops s = xs @ lp # ys \<Longrightarrow> connection_step S mo ev (lp, sys_state s) = (False, lp', w) \<Longrightarrow>
     sys_step S s (s\<lparr>sys_state := connection_end lp' w, sys_loops := xs @ ys\<rparr>)"
| writer_dies: "sys_step S s (s\<lparr>sys_state := (sys_state s)\<lparr>st_closed := t # st_closed (sys_state s)\<rparr>\<rparr>)"
| maintain: "sys_step S s (s\<lparr>sys_state := run_maintenance_once now (sys_state s)\<rparr>)"
| kick: "kick_session i reason (sys_state s) = (b, w) \<Longrightarrow> sys_step S s (s\<lparr>sys_state := w\<rparr>)"

definition sys_init :: "AppState \<Rightarrow> Sys" where
  "sys_init w = \<lparr>sys_state = w, sys_loops = [], sys_lost = []\<rparr>"

inductive reachable :: "services \<Rightarrow> AppState \<Rightarrow> Sys \<Rightarrow> bool" for S w where
  start: "reachable S w (sys_init w)"
| step: "reachable S w s \<Longrightarrow> sys_step S s s' \<Longrightarrow> reachable S w s'"

inductive_cases sys_stepE: "sys_step S s s'"

end
