(* ===== verification/Ws_Logic.thy ===== *)
theory Ws_Logic
  imports Ws_Connection
begin

text \<open>
  A small weakest-precondition calculus for the handlers of \<open>ws.rs\<close>: \<open>wp m Q E s\<close> says that the handler
  \<open>m\<close>, run from \<open>s\<close>, ends in a state that satisfies \<open>Q\<close> with its value, or \<open>E\<close> with its error. The
  rules, one per primitive of \<open>Ws_Support\<close>, are collected in \<open>wp_rules\<close>. The second half says which
  parts of the shared state the registry operations and pushes leave alone.
\<close>

section \<open>Weakest preconditions\<close>

definition wp :: "'a handler \<Rightarrow> ('a \<Rightarrow> hstate \<Rightarrow> bool) \<Rightarrow> (failure \<Rightarrow> hstate \<Rightarrow> bool) \<Rightarrow> hstate \<Rightarrow> bool" where
  "wp m Q E s = (case m s of (Inl e, s') \<Rightarrow> E e s' | (Inr x, s') \<Rightarrow> Q x s')"

named_theorems wp_rules

lemma wpD: "wp m Q E s \<Longrightarrow> m s = (r, s') \<Longrightarrow> (case r of Inl e \<Rightarrow> E e s' | Inr x \<Rightarrow> Q x s')"
  by (simp add: wp_def split: sum.splits)

lemma wp_okD: "wp m Q E s \<Longrightarrow> m s = (Inr x, s') \<Longrightarrow> Q x s'"
  by (simp add: wp_def)

lemma wp_errD: "wp m Q E s \<Longrightarrow> m s = (Inl e, s') \<Longrightarrow> E e s'"
  by (simp add: wp_def)

text \<open>An assertion on the final state only, whatever the outcome.\<close>

lemma wp_finalD: "wp m (\<lambda>_. I) (\<lambda>_. I) s \<Longrightarrow> I (snd (m s))"
  by (cases "m s") (auto simp: wp_def split: sum.splits)

lemma wp_mono:
  "wp m Q E s \<Longrightarrow> (\<And>x s'. Q x s' \<Longrightarrow> Q' x s') \<Longrightarrow> (\<And>e s'. E e s' \<Longrightarrow> E' e s') \<Longrightarrow> wp m Q' E' s"
  by (auto simp: wp_def split: prod.splits sum.splits)

lemma wp_and_then [wp_rules]: "wp (and_then m f) Q E s = wp m (\<lambda>x. wp (f x) Q E) E s"
  by (auto simp: wp_def and_then_def split: prod.splits sum.splits)

lemma wp_ret [wp_rules]: "wp (ret x) Q E s = Q x s"
  by (simp add: wp_def ret_def)

lemma wp_fail [wp_rules]: "wp (fail msg) Q E s = E (Msg msg) s"
  by (simp add: wp_def fail_def)

lemma wp_require [wp_rules]: "wp (require b msg) Q E s = (if b then Q () s else E (Msg msg) s)"
  by (simp add: require_def wp_ret wp_fail)

lemma wp_some_or [wp_rules]:
  "wp (some_or msg x) Q E s = ((x = None \<longrightarrow> E (Msg msg) s) \<and> (\<forall>v. x = Some v \<longrightarrow> Q v s))"
  by (simp add: some_or_def wp_ret wp_fail split: option.splits)

lemma wp_lift_result [wp_rules]:
  "wp (lift_result r) Q E s = ((\<forall>e. r = Inl e \<longrightarrow> E e s) \<and> (\<forall>v. r = Inr v \<longrightarrow> Q v s))"
  by (simp add: wp_def lift_result_def split: sum.splits)

lemma wp_ask_db [wp_rules]: "wp (ask_db f) Q E s = Q (f (st_db (fst s))) s"
  by (simp add: wp_def ask_db_def)

lemma wp_ask [wp_rules]: "wp (ask f) Q E s = Q (f (fst s)) s"
  by (simp add: wp_def ask_def)

lemma wp_run_db [wp_rules]:
  "wp (run_db f) Q E s = Q (fst (f (st_db (fst s)))) ((fst s)\<lparr>st_db := snd (f (st_db (fst s)))\<rparr>, snd s)"
  by (simp add: wp_def run_db_def split: prod.splits)

lemma wp_exec_db [wp_rules]:
  "wp (exec_db f) Q E s = ((\<forall>e. f (st_db (fst s)) = Inl e \<longrightarrow> E e s)
     \<and> (\<forall>d. f (st_db (fst s)) = Inr d \<longrightarrow> Q () ((fst s)\<lparr>st_db := d\<rparr>, snd s)))"
  by (simp add: wp_def exec_db_def split: sum.splits)

lemma wp_query_db [wp_rules]:
  "wp (query_db f) Q E s = ((\<forall>e. f (st_db (fst s)) = Inl e \<longrightarrow> E e s)
     \<and> (\<forall>x d. f (st_db (fst s)) = Inr (x, d) \<longrightarrow> Q x ((fst s)\<lparr>st_db := d\<rparr>, snd s)))"
  by (auto simp: wp_def query_db_def split: sum.splits)

lemma wp_change_state [wp_rules]: "wp (change_state f) Q E s = Q () (f (fst s), snd s)"
  by (simp add: wp_def change_state_def)

lemma wp_run_state [wp_rules]: "wp (run_state f) Q E s = Q (fst (f (fst s))) (snd (f (fst s)), snd s)"
  by (simp add: wp_def run_state_def split: prod.splits)

lemma wp_get_session [wp_rules]: "wp get_session Q E s = Q (cn_session (snd s)) s"
  by (simp add: wp_def get_session_def)

lemma wp_put_session [wp_rules]:
  "wp (put_session ses) Q E s = Q () (fst s, (snd s)\<lparr>cn_session := Some ses\<rparr>)"
  by (simp add: wp_def put_session_def)

lemma wp_put_challenge [wp_rules]:
  "wp (put_challenge ch) Q E s = Q () (fst s, (snd s)\<lparr>cn_challenge := Some ch\<rparr>)"
  by (simp add: wp_def put_challenge_def)

lemma wp_take_challenge [wp_rules]:
  "wp take_challenge Q E s = Q (cn_challenge (snd s)) (fst s, (snd s)\<lparr>cn_challenge := None\<rparr>)"
  by (simp add: wp_def take_challenge_def)

lemma wp_tx_send [wp_rules]:
  "wp (tx_send ctx f) Q E s =
     (if ctx_token ctx \<in> set (st_closed (fst s)) then E (Msg ''channel closed'') s
      else Q () ((fst s)\<lparr>st_sent := st_sent (fst s) @ [(ctx_token ctx, f)]\<rparr>, snd s))"
  by (simp add: wp_def tx_send_def channel_send_def)

lemma wp_if [wp_rules]: "wp (if b then m else n) Q E s = (if b then wp m Q E s else wp n Q E s)"
  by simp

lemma wp_case_option [wp_rules]:
  "wp (case x of None \<Rightarrow> m | Some v \<Rightarrow> f v) Q E s =
     ((x = None \<longrightarrow> wp m Q E s) \<and> (\<forall>v. x = Some v \<longrightarrow> wp (f v) Q E s))"
  by (simp split: option.splits)

lemma wp_case_prod [wp_rules]: "wp (case p of (x, y) \<Rightarrow> f x y) Q E s = wp (f (fst p) (snd p)) Q E s"
  by (simp split: prod.splits)

lemma wp_Let [wp_rules]: "wp (let x = a in f x) Q E s = wp (f a) Q E s"
  by (simp add: Let_def)

lemma wp_no_session [wp_rules]:
  "wp no_session Q E s = (if cn_session (snd s) = None then Q () s
     else E (Msg ''connection is already authenticated'') s)"
  by (simp add: no_session_def wp_rules)

lemma wp_active_session [wp_rules]:
  "wp active_session Q E s =
     ((cn_session (snd s) = None \<longrightarrow> E (Msg ''authentication required'') s)
      \<and> (\<forall>ses. cn_session (snd s) = Some ses \<longrightarrow>
           (if ses_pending ses then E (Msg ''device approval is pending'') s else Q ses s)))"
  by (auto simp: active_session_def wp_rules)

lemmas [wp_rules] = usable_session_def

text \<open>The writer of the own channel does not change while a handler runs: all messages go out, or none.\<close>

lemma wp_tx_send_all [wp_rules]:
  "wp (tx_send_all ctx fs) Q E s =
     (if fs \<noteq> [] \<and> ctx_token ctx \<in> set (st_closed (fst s)) then E (Msg ''channel closed'') s
      else Q () ((fst s)\<lparr>st_sent := st_sent (fst s) @ map (Pair (ctx_token ctx)) fs\<rparr>, snd s))"
  by (induction fs arbitrary: s) (auto simp: wp_rules)

lemmas [wp_rules] = send_authenticated_def push_post_auth_def audit_auth_def operation_ok_def
  operation_ok_if_asked_def negotiated_own_devices_def

lemma wp_take_valid_challenge [wp_rules]:
  "wp (take_valid_challenge now u i) Q E s =
     (let s' = (fst s, (snd s)\<lparr>cn_challenge := None\<rparr>) in
      (cn_challenge (snd s) = None \<longrightarrow> E (Msg ''send ClientHello first'') s')
      \<and> (\<forall>ch. cn_challenge (snd s) = Some ch \<longrightarrow>
           (\<forall>e. normalize_username u = Inl e \<longrightarrow> E e s')
           \<and> (\<forall>name. normalize_username u = Inr name \<longrightarrow>
               (if \<not> (ch_username ch \<noteq> name \<or> ch_device_id ch \<noteq> i \<or> ch_expires_at_ms ch < now) then Q ch s'
                else E (Msg ''authentication challenge is invalid or expired'') s'))))"
  by (simp add: take_valid_challenge_def wp_rules Let_def)

lemma wp_rehash_password [wp_rules]:
  "wp (rehash_password v a) Q E s =
     ((pwv_replacement_phc v = None \<longrightarrow> Q a s)
      \<and> (\<forall>phc. pwv_replacement_phc v = Some phc \<longrightarrow>
          Q (a\<lparr>acct_password_phc := phc\<rparr>) ((fst s)\<lparr>st_db := set_password (acct_id a) phc
             (acct_require_password_change a) (st_db (fst s))\<rparr>, snd s)))"
  by (simp add: rehash_password_def wp_rules)

section \<open>Frames of the shared operations\<close>

lemma channel_send_keeps [simp]:
  "st_db (snd (channel_send t f w)) = st_db w" "st_config (snd (channel_send t f w)) = st_config w"
  "st_admission (snd (channel_send t f w)) = st_admission w"
  "st_connections (snd (channel_send t f w)) = st_connections w"
  "st_sessions (snd (channel_send t f w)) = st_sessions w"
  "st_closed (snd (channel_send t f w)) = st_closed w"
  "st_domain (snd (channel_send t f w)) = st_domain w"
  "st_receivers (snd (channel_send t f w)) = st_receivers w"
  "st_disconnects (snd (channel_send t f w)) = st_disconnects w"
  by (simp_all add: channel_send_def)

lemma push_device_keeps [simp]:
  "st_db (push_device i f w) = st_db w" "st_config (push_device i f w) = st_config w"
  "st_admission (push_device i f w) = st_admission w"
  "st_connections (push_device i f w) = st_connections w" "st_sessions (push_device i f w) = st_sessions w"
  "st_domain (push_device i f w) = st_domain w"
  by (simp_all add: push_device_def split: option.splits)

lemma fold_channel_send_keeps:
  "st_db (fold (\<lambda>(_, c). \<lambda>w. snd (channel_send (live_token c) f w)) cs w) = st_db w
   \<and> st_config (fold (\<lambda>(_, c). \<lambda>w. snd (channel_send (live_token c) f w)) cs w) = st_config w
   \<and> st_admission (fold (\<lambda>(_, c). \<lambda>w. snd (channel_send (live_token c) f w)) cs w) = st_admission w
   \<and> st_connections (fold (\<lambda>(_, c). \<lambda>w. snd (channel_send (live_token c) f w)) cs w) = st_connections w
   \<and> st_sessions (fold (\<lambda>(_, c). \<lambda>w. snd (channel_send (live_token c) f w)) cs w) = st_sessions w
   \<and> st_domain (fold (\<lambda>(_, c). \<lambda>w. snd (channel_send (live_token c) f w)) cs w) = st_domain w"
  by (induction cs arbitrary: w) (simp_all add: case_prod_beta)

lemma push_account_keeps [simp]:
  "st_db (push_account a f w) = st_db w" "st_config (push_account a f w) = st_config w"
  "st_admission (push_account a f w) = st_admission w"
  "st_connections (push_account a f w) = st_connections w" "st_sessions (push_account a f w) = st_sessions w"
  "st_domain (push_account a f w) = st_domain w"
  using fold_channel_send_keeps [of f "filter (\<lambda>(_, c). live_account_id c = a) (st_connections w)" w]
  by (simp_all add: push_account_def)

lemma push_stored_keeps [simp]:
  "st_db (push_stored es dest w) = st_db w" "st_config (push_stored es dest w) = st_config w"
  "st_admission (push_stored es dest w) = st_admission w"
  by (simp_all add: push_stored_def split: option.splits)

lemma fold_push_stored_keeps [simp]:
  "st_db (fold (push_stored es) dests w) = st_db w" "st_config (fold (push_stored es) dests w) = st_config w"
  "st_admission (fold (push_stored es) dests w) = st_admission w"
  by (induction dests arbitrary: w) simp_all

lemma disconnect_send_keeps [simp]:
  "st_db (snd (disconnect_send t r w)) = st_db w" "st_config (snd (disconnect_send t r w)) = st_config w"
  "st_admission (snd (disconnect_send t r w)) = st_admission w"
  "st_connections (snd (disconnect_send t r w)) = st_connections w"
  "st_sessions (snd (disconnect_send t r w)) = st_sessions w"
  "st_sent (snd (disconnect_send t r w)) = st_sent w"
  by (simp_all add: disconnect_send_def)

lemma register_keeps [simp]:
  "st_db (register ses t ip now w) = st_db w" "st_config (register ses t ip now w) = st_config w"
  "st_admission (register ses t ip now w) = st_admission w"
  "st_sent (register ses t ip now w) = st_sent w"
  by (simp_all add: register_def Let_def split: option.splits)

lemma unregister_keeps [simp]:
  "st_db (unregister i t w) = st_db w" "st_config (unregister i t w) = st_config w"
  "st_admission (unregister i t w) = st_admission w"
  by (simp_all add: unregister_def)

lemma touch_session_keeps [simp]:
  "st_db (touch_session t now w) = st_db w" "st_config (touch_session t now w) = st_config w"
  "st_admission (touch_session t now w) = st_admission w"
  by (simp_all add: touch_session_def split: option.splits)

lemma kick_keeps [simp]:
  "st_db (snd (kick_device i r w)) = st_db w" "st_config (snd (kick_device i r w)) = st_config w"
  "st_admission (snd (kick_device i r w)) = st_admission w"
  "st_db (snd (kick_session t r w)) = st_db w" "st_config (snd (kick_session t r w)) = st_config w"
  "st_admission (snd (kick_session t r w)) = st_admission w"
  by (simp_all add: kick_device_def kick_session_def split: option.splits)

lemma send_error_keeps [simp]:
  "st_db (send_error t i c m b w) = st_db w" "st_config (send_error t i c m b w) = st_config w"
  "st_admission (send_error t i c m b w) = st_admission w"
  "st_connections (send_error t i c m b w) = st_connections w"
  "st_sessions (send_error t i c m b w) = st_sessions w"
  by (simp_all add: send_error_def)

lemma mark_authenticated_keeps [simp]:
  "st_db (mark_authenticated ip w) = st_db w" "st_config (mark_authenticated ip w) = st_config w"
  by (simp_all add: mark_authenticated_def)

lemma release_keeps [simp]:
  "st_db (release ip u w) = st_db w" "st_config (release ip u w) = st_config w"
  by (simp_all add: release_def Let_def)

lemma admit_keeps [simp]: "st_db (snd (admit ip w)) = st_db w" "st_config (snd (admit ip w)) = st_config w"
  by (simp_all add: admit_def Let_def)

lemma allow_password_attempt_keeps [simp]:
  "st_db (snd (allow_password_attempt S mo ip u w)) = st_db w"
  "st_config (snd (allow_password_attempt S mo ip u w)) = st_config w"
  "st_admission (snd (allow_password_attempt S mo ip u w)) = st_admission w"
  "st_sessions (snd (allow_password_attempt S mo ip u w)) = st_sessions w"
  "st_connections (snd (allow_password_attempt S mo ip u w)) = st_connections w"
  by (simp_all add: allow_password_attempt_def Let_def split: prod.splits option.splits)

end
