(* ===== verification/Ws_Invariants.thy ===== *)
theory Ws_Invariants
  imports Ws_Logic
begin

text \<open>
  What every frame handler keeps: the admission counters and the configuration, the identity of the
  session of a connection, and the invariant of the database.
\<close>

section \<open>Sessions keep their identity\<close>

definition same_session :: "Session \<Rightarrow> Session \<Rightarrow> bool" where
  "same_session ses ses' \<longleftrightarrow> acct_id (ses_account ses') = acct_id (ses_account ses)
     \<and> acct_username (ses_account ses') = acct_username (ses_account ses)
     \<and> ses_device_id ses' = ses_device_id ses \<and> ses_capabilities ses' = ses_capabilities ses
     \<and> (ses_pending ses' \<longrightarrow> ses_pending ses)"

definition session_kept :: "conn \<Rightarrow> conn \<Rightarrow> bool" where
  "session_kept c c' \<longleftrightarrow>
     (\<forall>ses. cn_session c = Some ses \<longrightarrow> (\<exists>ses'. cn_session c' = Some ses' \<and> same_session ses ses'))"

lemma same_session_refl [simp]: "same_session ses ses"
  by (simp add: same_session_def)

lemma session_kept_same [simp]: "cn_session c' = cn_session c \<Longrightarrow> session_kept c c'"
  by (simp add: session_kept_def)

lemma session_kept_fresh [simp]: "cn_session c = None \<Longrightarrow> session_kept c c'"
  by (simp add: session_kept_def)

lemma session_kept_put [simp]:
  "cn_session c = Some ses \<Longrightarrow> same_session ses ses' \<Longrightarrow> session_kept c (c'\<lparr>cn_session := Some ses'\<rparr>)"
  by (simp add: session_kept_def)

definition frame_kept :: "hstate \<Rightarrow> hstate \<Rightarrow> bool" where
  "frame_kept s s' \<longleftrightarrow> st_admission (fst s') = st_admission (fst s) \<and> st_config (fst s') = st_config (fst s)
     \<and> session_kept (snd s) (snd s')"

abbreviation keeps_frame :: "unit handler \<Rightarrow> bool" where
  "keeps_frame m \<equiv> (\<forall>s. wp m (\<lambda>_. frame_kept s) (\<lambda>_. frame_kept s) s)"

lemma handlers_keep_frame:
  "keeps_frame (handle_client_hello S mo ctx i hello)"
  "keeps_frame (handle_device_auth S mo ctx i dauth)"
  "keeps_frame (handle_password_auth S mo ctx i pauth)"
  "keeps_frame (handle_lookup_user ctx i u)"
  "keeps_frame (handle_publish_prekeys S mo ctx i keys)"
  "keeps_frame (handle_claim_prekey S ctx i cl)"
  "keeps_frame (handle_send_envelopes S mo ctx i envs)"
  "keeps_frame (handle_sync_request ctx i req)"
  "keeps_frame (handle_ack_envelope S mo ctx i ae)"
  "keeps_frame (handle_pairing_event S mo ctx i pe)"
  "keeps_frame (handle_ack_pairing_event ctx i n)"
  "keeps_frame (handle_activate_device S ctx i act)"
  "keeps_frame (handle_list_own_devices ctx i)"
  "keeps_frame (handle_revoke_own_device S mo ctx i target)"
  by (simp_all add: handle_client_hello_def handle_device_auth_def handle_password_auth_def
      handle_lookup_user_def handle_publish_prekeys_def handle_claim_prekey_def
      handle_send_envelopes_def handle_sync_request_def handle_ack_envelope_def
      handle_pairing_event_def handle_ack_pairing_event_def handle_activate_device_def
      handle_list_own_devices_def handle_revoke_own_device_def wp_rules frame_kept_def Let_def)

text \<open>Three handlers replace the session; the replacement is for the same account and device.\<close>

lemma change_password_keeps_frame: "keeps_frame (handle_change_password S mo ctx i cp)"
  by (simp add: handle_change_password_def wp_rules frame_kept_def session_kept_def same_session_def Let_def)

lemma bootstrap_keeps_frame: "keeps_frame (handle_bootstrap_device S mo ctx i b)"
  by (simp add: handle_bootstrap_device_def bootstrap_first_def bootstrap_pending_def wp_rules
      frame_kept_def session_kept_def same_session_def Let_def)

lemma frame_kept_refl [simp]: "frame_kept s s"
  by (simp add: frame_kept_def)

lemma handle_body_keeps_frame: "keeps_frame (handle_body S mo ctx i body)"
  by (cases body)
    (simp_all add: handle_body_def handlers_keep_frame change_password_keeps_frame bootstrap_keeps_frame
      wp_rules frame_kept_def)

lemma handle_frame_keeps_frame: "keeps_frame (handle_frame S mo ctx f)"
  by (simp add: handle_frame_def wp_rules handle_body_keeps_frame)

lemma handle_frame_frame: "handle_frame S mo ctx f s = (r, s') \<Longrightarrow> frame_kept s s'"
  using handle_frame_keeps_frame [of S mo ctx f] by (metis snd_conv wp_finalD)

section \<open>The invariant of the database\<close>

definition sender_known :: "conn \<Rightarrow> database \<Rightarrow> bool" where
  "sender_known c d \<longleftrightarrow> (\<forall>ses. cn_session c = Some ses \<longrightarrow> \<not> ses_pending ses \<longrightarrow>
     device_of (acct_id (ses_account ses)) (ses_device_id ses) d)"

abbreviation keeps_db_ok :: "unit handler \<Rightarrow> bool" where
  "keeps_db_ok m \<equiv> (\<forall>s. db_ok (st_db (fst s)) \<longrightarrow> sender_known (snd s) (st_db (fst s)) \<longrightarrow>
     wp m (\<lambda>_ s'. db_ok (st_db (fst s'))) (\<lambda>_ s'. db_ok (st_db (fst s'))) s)"

lemmas shape_ok = same_shape_db_ok [OF set_password_shape] same_shape_db_ok [OF record_auth_shape]
  same_shape_db_ok [OF audit_shape] same_shape_db_ok [OF bootstrap_master_shape]
  same_shape_db_ok [OF activate_device_shape]

lemmas statement_ok_rules = shape_ok insert_device_ok publish_prekeys_ok claim_prekey_ok
  insert_pairing_event_ok ack_pairing_event_ok ack_ok revoke_own_device_ok

lemma handlers_keep_db_ok:
  "keeps_db_ok (handle_client_hello S mo ctx i hello)"
  "keeps_db_ok (handle_device_auth S mo ctx i dauth)"
  "keeps_db_ok (handle_password_auth S mo ctx i pauth)"
  "keeps_db_ok (handle_change_password S mo ctx i cp)"
  "keeps_db_ok (handle_lookup_user ctx i u)"
  "keeps_db_ok (handle_publish_prekeys S mo ctx i keys)"
  "keeps_db_ok (handle_claim_prekey S ctx i cl)"
  "keeps_db_ok (handle_sync_request ctx i req)"
  "keeps_db_ok (handle_ack_envelope S mo ctx i ae)"
  "keeps_db_ok (handle_pairing_event S mo ctx i pe)"
  "keeps_db_ok (handle_ack_pairing_event ctx i n)"
  "keeps_db_ok (handle_activate_device S ctx i act)"
  "keeps_db_ok (handle_list_own_devices ctx i)"
  "keeps_db_ok (handle_revoke_own_device S mo ctx i target)"
  by (auto simp: handle_client_hello_def handle_device_auth_def handle_password_auth_def handle_change_password_def
      handle_lookup_user_def handle_publish_prekeys_def handle_claim_prekey_def
      handle_sync_request_def handle_ack_envelope_def
      handle_pairing_event_def handle_ack_pairing_event_def handle_activate_device_def
      handle_list_own_devices_def handle_revoke_own_device_def wp_rules Let_def
      intro: statement_ok_rules)

lemma bootstrap_first_keeps_db_ok:
  "db_ok (st_db (fst s)) \<Longrightarrow>
   wp (bootstrap_first S mo ctx i b n ses) (\<lambda>_ s'. db_ok (st_db (fst s'))) (\<lambda>_ s'. db_ok (st_db (fst s'))) s"
  by (simp add: bootstrap_first_def wp_rules Let_def) (blast intro: statement_ok_rules)

lemma bootstrap_pending_keeps_db_ok:
  "db_ok (st_db (fst s)) \<Longrightarrow>
   wp (bootstrap_pending S mo ctx i b n ses) (\<lambda>_ s'. db_ok (st_db (fst s'))) (\<lambda>_ s'. db_ok (st_db (fst s'))) s"
  by (simp add: bootstrap_pending_def wp_rules Let_def) (blast intro: statement_ok_rules)

lemma bootstrap_keeps_db_ok: "keeps_db_ok (handle_bootstrap_device S mo ctx i b)"
  by (simp add: handle_bootstrap_device_def wp_rules bootstrap_first_keeps_db_ok bootstrap_pending_keeps_db_ok)

lemma send_envelopes_keeps_db_ok: "keeps_db_ok (handle_send_envelopes S mo ctx i envs)"
  by (auto simp: handle_send_envelopes_def wp_rules sender_known_def Let_def
      intro: store_envelopes_ok [THEN conjunct1])

lemma handle_body_keeps_db_ok: "keeps_db_ok (handle_body S mo ctx i body)"
  by (cases body) (simp_all add: handle_body_def handlers_keep_db_ok bootstrap_keeps_db_ok send_envelopes_keeps_db_ok wp_rules)

lemma handle_frame_db_ok:
  "handle_frame S mo ctx f s = (r, s') \<Longrightarrow> db_ok (st_db (fst s)) \<Longrightarrow> sender_known (snd s) (st_db (fst s)) \<Longrightarrow>
   db_ok (st_db (fst s'))"
proof -
  assume run: "handle_frame S mo ctx f s = (r, s')" and ok: "db_ok (st_db (fst s))" "sender_known (snd s) (st_db (fst s))"
  then have "wp (handle_frame S mo ctx f) (\<lambda>_ s'. db_ok (st_db (fst s'))) (\<lambda>_ s'. db_ok (st_db (fst s'))) s"
    by (simp add: handle_frame_def wp_rules handle_body_keeps_db_ok)
  with run show ?thesis by (metis snd_conv wp_finalD)
qed

end
