(* ===== verification/Ws_Sample.thy ===== *)
theory Ws_Sample
  imports Ws_Connection
begin

text \<open>A small concrete server, on which the properties of the WebSocket server are applied.\<close>

definition sample_uuid :: "char \<Rightarrow> string" where
  "sample_uuid c = replicate 36 c"

definition sample_config_env :: config_env where
  "sample_config_env = \<lparr>path_exists = (\<lambda>_. False), read_to_string = (\<lambda>_. None), toml_from_str = (\<lambda>_. None),
     env_var = (\<lambda>_. None), parse_socket_addr = (\<lambda>_. None), parse_ipnet = Some, ipnet_contains = (\<lambda>_ _. False)\<rparr>"

definition sample_services :: services where
  "sample_services = \<lparr>svc_crypto = model_crypto, svc_phc = toy_phc, svc_uuid_parse = (\<lambda>_. True),
     svc_prost_decode = (\<lambda>_. Inl ''bad''), svc_env = sample_config_env, svc_parse_ip = (\<lambda>_. None),
     svc_show_ip = (\<lambda>_. ''ip''), svc_fl = id\<rparr>"

definition sample_moment :: moment where
  "sample_moment = \<lparr>mo_now_ms = 50, mo_instant = 0, mo_random = replicate 32 9, mo_free_disk = 100\<rparr>"

definition sample_world :: AppState where
  "sample_world = \<lparr>st_db = sample_db, st_domain = ''localhost'', st_connections = [], st_sessions = [],
     st_admission = \<lparr>adm_total = 0, adm_by_ip = Map.empty, adm_unauthenticated_by_ip = Map.empty\<rparr>,
     st_auth_buckets = [], st_auth_account_buckets = [], st_config = default_config,
     st_dummy_password_phc = [], st_sent = [], st_closed = [], st_receivers = [], st_disconnects = []\<rparr>"

definition sample_ctx :: ConnectionContext where
  "sample_ctx = \<lparr>ctx_token = 1, ctx_source_ip = V4 7\<rparr>"

definition fresh_conn :: conn where
  "fresh_conn = \<lparr>cn_challenge = None, cn_session = None\<rparr>"

definition sample_session :: "bool \<Rightarrow> Session" where
  "sample_session pending = \<lparr>ses_account = account_from_row (sample_account ''a''), ses_device_id = ''d'',
     ses_pending = pending, ses_password_change_required = False, ses_capabilities = [CAPABILITY_OWN_DEVICES]\<rparr>"

text \<open>The state right after start-up, and a request without an \<open>Origin\<close> header.\<close>

definition started_world :: AppState where
  "started_world = sample_world\<lparr>st_dummy_password_phc :=
     map (\<lambda>b. char_of (unat b)) (as_bytes ''invalid-account-dummy-password'')\<rparr>"

lemma started_world_new: "app_state_new sample_services [] sample_db default_config = ok started_world"
  by (simp add: app_state_new_def started_world_def sample_world_def sample_services_def hash_password_def
      validate_password_def toy_phc_def chars_count_def utf8_cont_def default_config_def)

definition sample_request :: upgrade_request where
  "sample_request = \<lparr>up_peer = V4 7, up_has_origin = False, up_forwarded_proto = None, up_forwarded_for = None\<rparr>"

lemma sample_upgrade: "fst (upgrade sample_services sample_request started_world) = Upgraded (V4 7)"
  by (simp add: upgrade_def Let_def sample_request_def sample_services_def sample_config_env_def started_world_def
      sample_world_def default_config_def is_trusted_proxy_def admit_def get_count_def source_ip_of_def)

end
