(* ===== verification/Ws_System.thy ===== *)
theory Ws_System
  imports Ws_Invariants Ws_Sample
begin

text \<open>
  The server as a whole: what holds in every reachable state of \<open>sys_step\<close>, for any number of
  connections, any messages in any order, failing upgrades, dying writers, maintenance and kicks.
\<close>

section \<open>One iteration of a connection\<close>

definition loop_effect :: "Loop \<Rightarrow> AppState \<Rightarrow> Loop \<Rightarrow> AppState \<Rightarrow> bool" where
  "loop_effect lp w lp' w' \<longleftrightarrow> lp_ctx lp' = lp_ctx lp \<and> st_config w' = st_config w
     \<and> session_kept (lp_conn lp) (lp_conn lp')
     \<and> (if lp_unauthenticated lp \<and> cn_session (lp_conn lp') \<noteq> None \<and> cn_session (lp_conn lp) = None
        then \<not> lp_unauthenticated lp' \<and> st_admission w' = st_admission (mark_authenticated (ctx_source_ip (lp_ctx lp)) w)
        else lp_unauthenticated lp' = lp_unauthenticated lp \<and> st_admission w' = st_admission w)"

lemma mark_authenticated_cong:
  "st_admission w = st_admission w' \<Longrightarrow>
   st_admission (mark_authenticated ip w) = st_admission (mark_authenticated ip w')"
  by (simp add: mark_authenticated_def)

lemma loop_effect_quiet:
  "st_config w' = st_config w \<Longrightarrow> st_admission w' = st_admission w \<Longrightarrow> lp_ctx lp' = lp_ctx lp \<Longrightarrow>
   lp_conn lp' = lp_conn lp \<Longrightarrow> lp_unauthenticated lp' = lp_unauthenticated lp \<Longrightarrow> loop_effect lp w lp' w'"
  by (auto simp: loop_effect_def)

lemma serve_frame_effect:
  assumes "serve_frame S mo f (lp, w) = (b, lp', w')"
    and "lp_unauthenticated lp = (cn_session (lp_conn lp) = None)"
  shows "loop_effect lp w lp' w'"
proof -
  obtain res w1 c1 where run: "handle_frame S mo (lp_ctx lp) f (w, lp_conn lp) = (res, w1, c1)"
    by (metis prod.exhaust)
  from handle_frame_frame [OF run]
  have fr: "st_admission w1 = st_admission w" "st_config w1 = st_config w" "session_kept (lp_conn lp) c1"
    by (simp_all add: frame_kept_def)
  have none: "cn_session c1 = None \<Longrightarrow> cn_session (lp_conn lp) = None"
    using fr(3) by (cases "cn_session (lp_conn lp)") (auto simp: session_kept_def)
  from assms(1) fr none assms(2) show ?thesis
    by (auto simp: serve_frame_def run Let_def loop_effect_def mark_authenticated_def
        split: prod.splits sum.splits if_splits)
qed

lemma connection_step_effect:
  assumes "connection_step S mo ev (lp, w) = (b, lp', w')"
    and "lp_unauthenticated lp = (cn_session (lp_conn lp) = None)"
  shows "loop_effect lp w lp' w'"
  using assms
  by (auto simp: connection_step_def Let_def intro: loop_effect_quiet serve_frame_effect
      split: ws_event.splits sum.splits if_splits)

section \<open>Admission\<close>

abbreviation loop_ip :: "Loop \<Rightarrow> IpAddr" where
  "loop_ip lp \<equiv> ctx_source_ip (lp_ctx lp)"

text \<open>The counters count the connections, and the places that failed upgrades took.\<close>

definition counted :: "Admission \<Rightarrow> Loop list \<Rightarrow> IpAddr list \<Rightarrow> bool" where
  "counted a lps lost \<longleftrightarrow> adm_total a = length lps + length lost
     \<and> ip_counter.represents (adm_by_ip a) (map loop_ip lps @ lost)
     \<and> ip_counter.represents (adm_unauthenticated_by_ip a) (map loop_ip (filter lp_unauthenticated lps) @ lost)"

definition within_limits :: "Config \<Rightarrow> Admission \<Rightarrow> bool" where
  "within_limits cfg a \<longleftrightarrow> adm_total a \<le> cfg_max_connections cfg
     \<and> (\<forall>ip. get_count (adm_by_ip a) ip \<le> cfg_max_connections_per_ip cfg)
     \<and> (\<forall>ip. get_count (adm_unauthenticated_by_ip a) ip \<le> cfg_max_unauthenticated_per_ip cfg)"

definition flags_ok :: "Loop \<Rightarrow> bool" where
  "flags_ok lp \<longleftrightarrow> lp_unauthenticated lp = (cn_session (lp_conn lp) = None)"

definition admission_ok :: "Config \<Rightarrow> Sys \<Rightarrow> bool" where
  "admission_ok cfg s \<longleftrightarrow> st_config (sys_state s) = cfg \<and> within_limits cfg (st_admission (sys_state s))
     \<and> counted (st_admission (sys_state s)) (sys_loops s) (sys_lost s) \<and> list_all flags_ok (sys_loops s)"

lemma within_admit:
  "within_limits (st_config w) (st_admission w) \<Longrightarrow> admit ip w = (True, w') \<Longrightarrow>
   within_limits (st_config w) (st_admission w')"
  by (auto simp: within_limits_def admit_def Let_def ip_counter.get_bump split: if_splits)

lemma within_drop:
  "within_limits cfg a \<Longrightarrow> adm_total a' \<le> adm_total a \<Longrightarrow>
   (\<And>ip. get_count (adm_by_ip a') ip \<le> get_count (adm_by_ip a) ip) \<Longrightarrow>
   (\<And>ip. get_count (adm_unauthenticated_by_ip a') ip \<le> get_count (adm_unauthenticated_by_ip a) ip) \<Longrightarrow>
   within_limits cfg a'"
  by (meson le_trans within_limits_def)

lemma within_mark:
  "within_limits cfg (st_admission w) \<Longrightarrow> within_limits cfg (st_admission (mark_authenticated ip w))"
  by (erule within_drop) (simp_all add: mark_authenticated_def ip_counter.get_drop)

lemma within_release:
  "within_limits cfg (st_admission w) \<Longrightarrow> within_limits cfg (st_admission (release ip u w))"
  by (erule within_drop) (simp_all add: release_def Let_def ip_counter.get_drop)

lemma counted_admit:
  "counted (st_admission w) lps lost \<Longrightarrow> admit ip w = (True, w') \<Longrightarrow> counted (st_admission w') lps (ip # lost)"
  by (auto simp: counted_def admit_def Let_def ip_counter.represents_def ip_counter.get_bump
      count_list_append split: if_splits)

lemma counted_start:
  "counted a lps (ip # lost) \<Longrightarrow> loop_ip lp = ip \<Longrightarrow> lp_unauthenticated lp \<Longrightarrow> counted a (lp # lps) lost"
  by (simp add: counted_def ip_counter.represents_def count_list_append)

lemma counted_mark:
  "counted (st_admission w) (xs @ lp # ys) lost \<Longrightarrow> lp_unauthenticated lp \<Longrightarrow> \<not> lp_unauthenticated lp' \<Longrightarrow>
   loop_ip lp' = loop_ip lp \<Longrightarrow>
   counted (st_admission (mark_authenticated (loop_ip lp) w)) (xs @ lp' # ys) lost"
  by (simp add: counted_def mark_authenticated_def ip_counter.represents_def ip_counter.get_drop count_list_append)

lemma counted_replace:
  "counted a (xs @ lp # ys) lost \<Longrightarrow> lp_unauthenticated lp' = lp_unauthenticated lp \<Longrightarrow>
   loop_ip lp' = loop_ip lp \<Longrightarrow> counted a (xs @ lp' # ys) lost"
  by (cases "lp_unauthenticated lp") (simp_all add: counted_def)

lemma counted_release:
  "counted (st_admission w) (xs @ lp # ys) lost \<Longrightarrow>
   counted (st_admission (release (loop_ip lp) (lp_unauthenticated lp) w)) (xs @ ys) lost"
  by (simp add: counted_def release_def Let_def ip_counter.represents_def ip_counter.get_drop count_list_append)

lemma upgrade_admission:
  "upgrade S r w = (resp, w') \<Longrightarrow>
   (case resp of Upgraded ip \<Rightarrow> admit ip w = (True, w') | _ \<Rightarrow> w' = w)"
  by (auto simp: upgrade_def Let_def admit_def split: if_splits prod.splits)

lemma admission_replace:
  assumes ok: "admission_ok cfg s" and lps: "sys_loops s = xs @ lp # ys"
    and eff: "loop_effect lp (sys_state s) lp' w"
  shows "admission_ok cfg (s\<lparr>sys_state := w, sys_loops := xs @ lp' # ys\<rparr>)"
proof -
  have flag: "lp_unauthenticated lp = (cn_session (lp_conn lp) = None)" and rest: "list_all flags_ok (xs @ ys)"
    using ok lps by (simp_all add: admission_ok_def flags_ok_def)
  have kept: "cn_session (lp_conn lp) \<noteq> None \<Longrightarrow> cn_session (lp_conn lp') \<noteq> None"
    using eff by (auto simp: loop_effect_def session_kept_def)
  from eff have ctx: "lp_ctx lp' = lp_ctx lp" and cfg: "st_config w = cfg"
    using ok by (simp_all add: loop_effect_def admission_ok_def)
  show ?thesis
  proof (cases "lp_unauthenticated lp \<and> cn_session (lp_conn lp') \<noteq> None")
    case True
    with eff flag have "\<not> lp_unauthenticated lp'"
      and adm: "st_admission w = st_admission (mark_authenticated (loop_ip lp) (sys_state s))"
      by (simp_all add: loop_effect_def)
    with True ok lps rest show ?thesis
      by (simp add: admission_ok_def cfg adm within_mark counted_mark ctx flags_ok_def)
  next
    case False
    with eff flag kept have f: "lp_unauthenticated lp' = lp_unauthenticated lp" and adm: "st_admission w = st_admission (sys_state s)"
      and "flags_ok lp'"
      by (auto simp: loop_effect_def flags_ok_def split: if_splits)
    with ok lps rest show ?thesis
      using counted_replace [of "st_admission (sys_state s)" xs lp ys "sys_lost s" lp']
      by (simp add: admission_ok_def cfg adm ctx)
  qed
qed

lemma admission_end:
  assumes "admission_ok cfg (s\<lparr>sys_state := w, sys_loops := xs @ lp # ys\<rparr>)"
  shows "admission_ok cfg (s\<lparr>sys_state := connection_end lp w, sys_loops := xs @ ys\<rparr>)"
proof -
  define w1 where "w1 = (case cn_session (lp_conn lp) of None \<Rightarrow> w
    | Some ses \<Rightarrow> unregister (ses_device_id ses) (ctx_token (lp_ctx lp)) w)"
  have w1: "st_admission w1 = st_admission w" "st_config w1 = st_config w"
    by (simp_all add: w1_def split: option.splits)
  have "st_admission (connection_end lp w) = st_admission (release (loop_ip lp) (lp_unauthenticated lp) w1)"
      "st_config (connection_end lp w) = st_config w"
    by (simp_all add: connection_end_def Let_def w1_def [symmetric] w1)
  with assms show ?thesis
    using within_release [of cfg w1] counted_release [of w1 xs lp ys "sys_lost s"]
    by (simp add: admission_ok_def w1)
qed

lemma maintenance_keeps [simp]:
  "st_admission (run_maintenance_once now w) = st_admission w" "st_config (run_maintenance_once now w) = st_config w"
  by (simp_all add: run_maintenance_once_def Let_def)

lemma admission_step: "sys_step S s s' \<Longrightarrow> admission_ok cfg s \<Longrightarrow> admission_ok cfg s'"
proof (erule sys_stepE)
  fix r resp w
  assume "upgrade S r (sys_state s) = (resp, w)" "\<And>ip. resp \<noteq> Upgraded ip"
  then have "w = sys_state s" using upgrade_admission [of S r "sys_state s" resp w] by (cases resp) auto
  moreover assume "s' = s\<lparr>sys_state := w\<rparr>" "admission_ok cfg s"
  ultimately show "admission_ok cfg s'" by simp
next
  fix r ip w t mo lp w'
  assume "upgrade S r (sys_state s) = (Upgraded ip, w)" and start: "connection_start mo t ip w = (lp, w')"
    and s': "s' = s\<lparr>sys_state := w', sys_loops := lp # sys_loops s\<rparr>" and ok: "admission_ok cfg s"
  then have a: "admit ip (sys_state s) = (True, w)" using upgrade_admission [of S r "sys_state s"] by fastforce
  then have "st_config w = st_config (sys_state s)" by (metis admit_keeps(2) snd_conv)
  moreover from start have "st_admission w' = st_admission w" "st_config w' = st_config w"
      "loop_ip lp = ip" "lp_unauthenticated lp" "flags_ok lp"
    by (auto simp: connection_start_def flags_ok_def)
  ultimately show "admission_ok cfg s'"
    using ok within_admit [OF _ a] counted_admit [OF _ a] counted_start [of "st_admission w" "sys_loops s" ip "sys_lost s" lp]
    by (simp add: s' admission_ok_def)
next
  fix r ip w
  assume "upgrade S r (sys_state s) = (Upgraded ip, w)" and s': "s' = s\<lparr>sys_state := w, sys_lost := ip # sys_lost s\<rparr>"
    and ok: "admission_ok cfg s"
  then have a: "admit ip (sys_state s) = (True, w)" using upgrade_admission [of S r "sys_state s"] by fastforce
  then have "st_config w = st_config (sys_state s)" by (metis admit_keeps(2) snd_conv)
  with ok within_admit [OF _ a] counted_admit [OF _ a] show "admission_ok cfg s'"
    by (simp add: s' admission_ok_def)
next
  fix xs lp ys mo ev lp' w
  assume lps: "sys_loops s = xs @ lp # ys" and run: "connection_step S mo ev (lp, sys_state s) = (True, lp', w)"
    and s': "s' = s\<lparr>sys_state := w, sys_loops := xs @ lp' # ys\<rparr>" and ok: "admission_ok cfg s"
  then have "flags_ok lp" by (simp add: admission_ok_def)
  with admission_replace [OF ok lps connection_step_effect [OF run]] show "admission_ok cfg s'"
    by (simp add: s' flags_ok_def)
next
  fix xs lp ys mo ev lp' w
  assume lps: "sys_loops s = xs @ lp # ys" and run: "connection_step S mo ev (lp, sys_state s) = (False, lp', w)"
    and s': "s' = s\<lparr>sys_state := connection_end lp' w, sys_loops := xs @ ys\<rparr>" and ok: "admission_ok cfg s"
  then have "flags_ok lp" by (simp add: admission_ok_def)
  with admission_replace [OF ok lps connection_step_effect [OF run]] show "admission_ok cfg s'"
    by (simp add: s' admission_end flags_ok_def)
qed (auto simp: admission_ok_def kick_session_def disconnect_send_def split: option.splits if_splits)

lemma reachable_admission_ok:
  "reachable S w s \<Longrightarrow> admission_ok cfg (sys_init w) \<Longrightarrow> admission_ok cfg s"
  by (induction rule: reachable.induct) (auto intro: admission_step)

lemma admission_ok_new: "app_state_new S salt d cfg = ok w \<Longrightarrow> admission_ok cfg (sys_init w)"
  by (auto simp: app_state_new_def admission_ok_def sys_init_def within_limits_def counted_def
      ip_counter.represents_def get_count_def split: sum.splits)

text \<open>
  C8. In every reachable state of a server each of the three admission counters is exact, and its limit
  holds: the total counts the live connections, the counter of an address those from it, and the counter
  of unauthenticated connections those from it without a session, each together with the requests that
  were admitted but whose upgrade failed. So no counter is decremented twice or left out, a log-in gives
  its place back at once, but failed upgrades are never given back.
\<close>

theorem admission_exact:
  assumes "app_state_new S salt d cfg = ok w" "reachable S w s"
  shows "adm_total (st_admission (sys_state s)) = length (sys_loops s) + length (sys_lost s)
    \<and> length (sys_loops s) + length (sys_lost s) \<le> cfg_max_connections cfg
    \<and> get_count (adm_by_ip (st_admission (sys_state s))) ip = count_list (map loop_ip (sys_loops s) @ sys_lost s) ip
    \<and> count_list (map loop_ip (sys_loops s) @ sys_lost s) ip \<le> cfg_max_connections_per_ip cfg
    \<and> get_count (adm_unauthenticated_by_ip (st_admission (sys_state s))) ip
        = count_list (map loop_ip (filter (\<lambda>lp. cn_session (lp_conn lp) = None) (sys_loops s)) @ sys_lost s) ip
    \<and> count_list (map loop_ip (filter (\<lambda>lp. cn_session (lp_conn lp) = None) (sys_loops s)) @ sys_lost s) ip
        \<le> cfg_max_unauthenticated_per_ip cfg"
proof -
  from assms have ok: "admission_ok cfg s" by (blast intro: reachable_admission_ok admission_ok_new)
  then have "filter (\<lambda>lp. cn_session (lp_conn lp) = None) (sys_loops s) = filter lp_unauthenticated (sys_loops s)"
    by (auto simp: admission_ok_def list_all_iff flags_ok_def intro: filter_cong)
  moreover from ok have "get_count (adm_by_ip (st_admission (sys_state s))) ip \<le> cfg_max_connections_per_ip cfg"
      "get_count (adm_unauthenticated_by_ip (st_admission (sys_state s))) ip \<le> cfg_max_unauthenticated_per_ip cfg"
    by (simp_all only: admission_ok_def within_limits_def)
  ultimately show ?thesis
    using ok by (simp add: admission_ok_def counted_def within_limits_def ip_counter.represents_def)
qed

lemma sample_accept:
  "\<exists>s. reachable sample_services started_world s \<and> sys_loops s \<noteq> []"
proof -
  define w where "w = snd (upgrade sample_services sample_request started_world)"
  have up: "upgrade sample_services sample_request (sys_state (sys_init started_world)) = (Upgraded (V4 7), w)"
    by (simp add: w_def sample_upgrade prod_eq_iff sys_init_def)
  have closed: "(1 :: uuid) \<notin> (\<lambda>lp. ctx_token (lp_ctx lp)) ` set (sys_loops (sys_init started_world))"
      "1 \<notin> set (st_closed w)"
    by (simp_all add: sys_init_def w_def upgrade_def Let_def admit_def started_world_def sample_world_def)
  from reachable.step [OF reachable.start sys_step.accept [OF up closed surjective_pairing]]
  show ?thesis by (intro exI conjI) (assumption, simp add: connection_start_def)
qed

theorem admission_exact_witness:
  "\<exists>s. reachable sample_services started_world s \<and> sys_loops s \<noteq> []
     \<and> get_count (adm_by_ip (st_admission (sys_state s))) (V4 7) = count_list (map loop_ip (sys_loops s) @ sys_lost s) (V4 7)"
  using sample_accept admission_exact [OF started_world_new] by blast

section \<open>The database\<close>

lemma access_ok_device: "access_ok d ses \<Longrightarrow> device_of (acct_id (ses_account ses)) (ses_device_id ses) d"
  by (auto simp: access_ok_def device_def device_of_def split: option.splits dest!: find_SomeD intro: rev_image_eqI)

lemma sender_known_access: "\<not> access_revoked d c \<Longrightarrow> sender_known c d"
  by (auto simp: access_revoked_def sender_known_def access_ok_device)

lemma serve_frame_db_ok:
  assumes "serve_frame S mo f (lp, w) = (b, lp', w')" "db_ok (st_db w)"
  shows "db_ok (st_db w')"
proof -
  obtain res w1 c1 where run: "handle_frame S mo (lp_ctx lp) f (w, lp_conn lp) = (res, w1, c1)"
    by (metis prod.exhaust)
  have "db_ok (st_db w1)" if "\<not> access_revoked (st_db w) (lp_conn lp)"
    using handle_frame_db_ok [OF run] sender_known_access [OF that] assms(2) by simp
  with assms show ?thesis
    by (auto simp: serve_frame_def run Let_def split: prod.splits sum.splits if_splits)
qed

lemma connection_step_db_ok:
  "connection_step S mo ev (lp, w) = (b, lp', w') \<Longrightarrow> db_ok (st_db w) \<Longrightarrow> db_ok (st_db w')"
  by (auto simp: connection_step_def Let_def intro: serve_frame_db_ok split: ws_event.splits sum.splits if_splits)

lemma connection_end_db [simp]: "st_db (connection_end lp w) = st_db w"
  by (simp add: connection_end_def Let_def split: option.splits)

lemma maintenance_db_ok: "db_ok (st_db w) \<Longrightarrow> db_ok (st_db (run_maintenance_once now w))"
  by (simp add: run_maintenance_once_def Let_def cleanup_delivered_ok cleanup_expired_ok
      same_shape_db_ok [OF cleanup_audit_shape])

text \<open>
  C9. The database is sound in every reachable state: unique keys, no dangling reference, cursors
  that only grow, and a ledger of ciphertext bytes that agrees with the stored envelopes, whatever the
  clients send and in whatever order.
\<close>

theorem database_stays_sound:
  assumes "db_ok (st_db w)" "reachable S w s"
  shows "db_ok (st_db (sys_state s))"
  using assms(2)
proof induction
  case start
  from assms(1) show ?case by (simp add: sys_init_def)
next
  case (step s s')
  from step.hyps(2) step.IH show ?case
  proof cases
    case (refuse r resp w)
    with step.IH show ?thesis using upgrade_admission [of S r "sys_state s" resp w] by (cases resp) auto
  next
    case (accept r ip w t mo lp w')
    then have "st_db w' = st_db w" by (auto simp: connection_start_def)
    with accept step.IH show ?thesis
      using upgrade_admission [of S r "sys_state s" "Upgraded ip" w] admit_keeps(1) [of ip "sys_state s"] by simp
  next
    case (lose r ip w)
    with step.IH show ?thesis
      using upgrade_admission [of S r "sys_state s" "Upgraded ip" w] admit_keeps(1) [of ip "sys_state s"] by simp
  next
    case (kick i reason b w)
    with step.IH show ?thesis using kick_keeps(4) [of i reason "sys_state s"] by simp
  qed (auto intro: connection_step_db_ok maintenance_db_ok)
qed

theorem database_stays_sound_witness:
  "\<exists>s. reachable sample_services started_world s \<and> sys_loops s \<noteq> [] \<and> db_ok (st_db (sys_state s))"
proof -
  have "db_ok (st_db started_world)" by (simp add: started_world_def sample_world_def sample_db_ok(1))
  from database_stays_sound [OF this] sample_accept show ?thesis by blast
qed

end
