(* ===== verification/Ws_Auth.thy ===== *)
theory Ws_Auth
  imports Ws_Invariants Ws_Sample
begin

text \<open>
  Who may do what over a connection: authentication, the frames open to connections without a
  session or with a pending one, device activation and self-service revocation. The statements are
  about single frames, from any state of the server and of the connection.
\<close>

section \<open>Device authentication\<close>

lemma verify_signature_okD:
  "verify_signature C public payload sig = ok () \<Longrightarrow>
   length public = 32 \<and> length sig = 64 \<and> ed_verify_strict C public payload sig"
  by (auto simp: verify_signature_def split: if_splits)

text \<open>Statements that touch no key or reference.\<close>

definition shape_kept :: "hstate \<Rightarrow> hstate \<Rightarrow> bool" where
  "shape_kept s s' \<longleftrightarrow> same_shape (st_db (fst s)) (st_db (fst s'))"

lemma same_shape_refl: "same_shape d d"
  by (simp add: same_shape_def)

lemma same_shape_trans: "same_shape d d1 \<Longrightarrow> same_shape d1 d2 \<Longrightarrow> same_shape d d2"
  by (simp add: same_shape_def)

lemmas shape_rules = same_shape_refl record_auth_shape audit_shape set_password_shape
  same_shape_trans [OF record_auth_shape audit_shape]
  same_shape_trans [OF set_password_shape audit_shape]

definition proved_device :: "services \<Rightarrow> moment \<Rightarrow> DeviceAuth_msg \<Rightarrow> hstate \<Rightarrow> Account \<Rightarrow> bool" where
  "proved_device S mo m s account \<longleftrightarrow>
     (\<exists>ch dev. cn_challenge (snd s) = Some ch \<and> \<not> ch_expires_at_ms ch < mo_now_ms mo
        \<and> ch_device_id ch = dauth_device_id m
        \<and> account_by_username (ch_username ch) (st_db (fst s)) = Some account \<and> acct_state account = ''active''
        \<and> device (acct_id account) (dauth_device_id m) (st_db (fst s)) = Some dev
        \<and> \<not> dev_pending dev \<and> \<not> dev_revoked dev
        \<and> ed_verify_strict (svc_crypto S) (dev_auth_signing_key dev)
            (auth_challenge_payload (st_domain (fst s)) (acct_username account) (dauth_device_id m)
               (ch_nonce ch) (ch_expires_at_ms ch)) (dauth_signature m))"

text \<open>
  C14. A device gets a session only by proof of its key. When \<open>DeviceAuth\<close> is accepted, the
  connection had no session, the challenge it had been sent has not expired and is for this device,
  the account and the device are active, and the signature is valid under the stored key of that
  device for this server, user, device and nonce; the session is for that account and device. When it
  is refused there is no session. In both cases no row but the audit log and the time of the last
  login changes.
\<close>

theorem device_auth_sound:
  "wp (handle_device_auth S mo ctx i m)
     (\<lambda>_ s'. cn_session (snd s) = None \<and> shape_kept s s' \<and>
        (\<exists>account ses. proved_device S mo m s account \<and> cn_session (snd s') = Some ses \<and> ses_account ses = account
           \<and> ses_device_id ses = dauth_device_id m \<and> \<not> ses_pending ses))
     (\<lambda>_ s'. cn_session (snd s') = cn_session (snd s) \<and> shape_kept s s') s"
  unfolding handle_device_auth_def
  by (simp add: wp_rules Let_def shape_kept_def shape_rules proved_device_def)
    (blast dest: verify_signature_okD)

section \<open>Challenges\<close>

fun is_auth :: "Body \<Rightarrow> bool" where
  "is_auth (DeviceAuth m) = True"
| "is_auth (PasswordAuth m) = True"
| "is_auth _ = False"

lemma clear_challenge_same [simp]: "cn_challenge c = None \<Longrightarrow> c\<lparr>cn_challenge := None\<rparr> = c"
  by (cases c) simp

lemma auth_spends_challenge:
  "is_auth b \<Longrightarrow> wp (handle_body S mo ctx i b) (\<lambda>_ s'. cn_session (snd s') \<noteq> None)
     (\<lambda>_ s'. cn_session (snd s') \<noteq> None \<or> cn_challenge (snd s') = None) s"
  by (cases b) (simp_all add: handle_body_def handle_device_auth_def handle_password_auth_def wp_rules Let_def)

lemma auth_without_challenge:
  "is_auth b \<Longrightarrow> cn_session (snd s) \<noteq> None \<or> cn_challenge (snd s) = None \<Longrightarrow>
   wp (handle_body S mo ctx i b) (\<lambda>_ _. False) (\<lambda>_ s'. s' = s) s"
  by (cases b; cases "cn_session (snd s)")
    (simp_all add: handle_body_def handle_device_auth_def handle_password_auth_def wp_rules Let_def)

text \<open>
  A challenge is used at most once. After a frame that tries to authenticate, whatever its
  outcome, a second such frame fails and changes nothing, until the client asks for a new challenge.
\<close>

theorem challenge_used_once:
  assumes "is_auth b" "is_auth b'"
  shows "\<exists>e. handle_body S mo' ctx i' b' (snd (handle_body S mo ctx i b s)) =
     (Inl e, snd (handle_body S mo ctx i b s))"
proof -
  let ?s = "snd (handle_body S mo ctx i b s)"
  have "cn_session (snd ?s) \<noteq> None \<or> cn_challenge (snd ?s) = None"
    by (rule wp_finalD) (rule wp_mono [OF auth_spends_challenge [OF assms(1)]], auto)
  from auth_without_challenge [OF assms(2) this, of S mo' ctx i']
  show ?thesis by (auto simp: wp_def split: prod.splits sum.splits)
qed

theorem challenge_used_once_witness:
  "\<exists>e. handle_body sample_services sample_moment sample_ctx ''2''
       (PasswordAuth \<lparr>pauth_username = ''alice'', pauth_password = ''pw'', pauth_device_id = ''d''\<rparr>)
       (snd (handle_body sample_services sample_moment sample_ctx ''1''
          (DeviceAuth \<lparr>dauth_username = ''alice'', dauth_device_id = ''d'', dauth_signature = [1]\<rparr>)
          (sample_world, fresh_conn)))
     = (Inl e, snd (handle_body sample_services sample_moment sample_ctx ''1''
          (DeviceAuth \<lparr>dauth_username = ''alice'', dauth_device_id = ''d'', dauth_signature = [1]\<rparr>)
          (sample_world, fresh_conn)))"
  by (rule challenge_used_once) simp_all

section \<open>What a connection may ask for\<close>

text \<open>Frames that need no session; frames that a pending device may send as well.\<close>

fun open_to_all :: "Body \<Rightarrow> bool" where
  "open_to_all (ClientHello m) = True"
| "open_to_all (DeviceAuth m) = True"
| "open_to_all (PasswordAuth m) = True"
| "open_to_all (Ping t) = True"
| "open_to_all (Pong t) = True"
| "open_to_all _ = False"

fun open_to_pending :: "Body \<Rightarrow> bool" where
  "open_to_pending (BootstrapDevice m) = True"
| "open_to_pending (PairingEvent m) = True"
| "open_to_pending (AckPairingEvent n) = True"
| "open_to_pending b = open_to_all b"

text \<open>
  C15. Without a session only the frames of the login and pings have any effect, and a pending device
  may besides submit itself and exchange pairing messages: every other frame is refused and
  leaves the server and the connection exactly as they were.
\<close>

theorem frames_need_authority:
  assumes "cn_session (snd s) = None \<and> \<not> open_to_all b
      \<or> (\<exists>ses. cn_session (snd s) = Some ses \<and> ses_pending ses) \<and> \<not> open_to_pending b"
  shows "\<exists>e. handle_body S mo ctx i b s = (Inl e, s)"
proof -
  have "wp (handle_body S mo ctx i b) (\<lambda>_ _. False) (\<lambda>_ s'. s' = s) s"
    using assms
    by (cases b) (auto simp: handle_body_def handle_bootstrap_device_def handle_change_password_def
        handle_lookup_user_def handle_publish_prekeys_def handle_claim_prekey_def handle_send_envelopes_def
        handle_sync_request_def handle_ack_envelope_def handle_pairing_event_def
        handle_ack_pairing_event_def handle_activate_device_def handle_list_own_devices_def
        handle_revoke_own_device_def wp_rules)
  then show ?thesis by (auto simp: wp_def split: prod.splits sum.splits)
qed

theorem frames_need_authority_witness:
  "\<exists>e. handle_body sample_services sample_moment sample_ctx ''1'' ListOwnDevices
       (sample_world, fresh_conn\<lparr>cn_session := Some (sample_session True)\<rparr>) =
     (Inl e, (sample_world, fresh_conn\<lparr>cn_session := Some (sample_session True)\<rparr>))"
  by (rule frames_need_authority) (simp add: sample_session_def)

section \<open>Activation, revocation, sending\<close>

definition activation_signed :: "services \<Rightarrow> ActivateDevice_msg \<Rightarrow> hstate \<Rightarrow> database \<Rightarrow> bool" where
  "activation_signed S a s d \<longleftrightarrow>
     (\<exists>ses b master. cn_session (snd s) = Some ses \<and> \<not> ses_pending ses \<and> act_device a = Some b
        \<and> acct_master_public_key (ses_account ses) = Some master
        \<and> ed_verify_strict (svc_crypto S) master
            (device_certificate_payload (acct_id (ses_account ses)) (db_device_id b) (db_auth_signing_key b)
               (db_olm_ed25519_key b) (db_olm_curve25519_key b)) (db_certificate_signature b)
        \<and> ed_verify_strict (svc_crypto S) master
            (as_bytes ''tui-chat-roster-v1'' @ [0] @ as_bytes (acct_id (ses_account ses)) @ [0]
               @ u64_to_be_bytes (act_roster_revision a) @ as_bytes (db_device_id b)) (act_roster_signature a)
        \<and> (\<exists>p \<in> set (device_bundles (acct_id (ses_account ses)) True (st_db (fst s))).
              db_device_id p = db_device_id b \<and> same_device_keys p b)
        \<and> activate_device (acct_id (ses_account ses)) (db_device_id b) (act_roster_revision a)
            (db_certificate_signature b) (st_db (fst s)) = ok d)"

lemma certificate_okD:
  "verify_device_certificate C master account b = ok () \<Longrightarrow>
   ed_verify_strict C master (device_certificate_payload account (db_device_id b) (db_auth_signing_key b)
     (db_olm_ed25519_key b) (db_olm_curve25519_key b)) (db_certificate_signature b)"
  by (simp add: verify_device_certificate_def verify_signature_okD)

lemma roster_okD:
  "verify_roster_signature C master account n dev sig = ok () \<Longrightarrow>
   ed_verify_strict C master (as_bytes ''tui-chat-roster-v1'' @ [0] @ as_bytes account @ [0]
     @ u64_to_be_bytes n @ as_bytes dev) sig"
  unfolding verify_roster_signature_def by (drule verify_signature_okD) blast

text \<open>
  C16. Only the holder of the account's master key activates a device. An \<open>ActivateDevice\<close> frame
  changes the database, also when its answer cannot be sent, only if an approved session of the
  account sent it, with a device certificate and a roster entry that both verify under the account's
  master key, for a submitted device with exactly these keys; and the change is that of
  \<open>activate_device\<close>.
\<close>

theorem activation_needs_master_key:
  "wp (handle_activate_device S ctx i a)
     (\<lambda>_ s'. activation_signed S a s (st_db (fst s')))
     (\<lambda>_ s'. st_db (fst s') = st_db (fst s) \<or> activation_signed S a s (st_db (fst s'))) s"
proof -
  have "activation_signed S a s d"
    if "cn_session (snd s) = Some ses" "\<not> ses_pending ses" "act_device a = Some b"
      "acct_master_public_key (ses_account ses) = Some master"
      "verify_device_certificate (svc_crypto S) master (acct_id (ses_account ses)) b = ok ()"
      "verify_roster_signature (svc_crypto S) master (acct_id (ses_account ses)) (act_roster_revision a)
         (db_device_id b) (act_roster_signature a) = ok ()"
      "find (\<lambda>item. db_device_id item = db_device_id b)
         (device_bundles (acct_id (ses_account ses)) True (st_db (fst s))) = Some p" "same_device_keys p b"
      "activate_device (acct_id (ses_account ses)) (db_device_id b) (act_roster_revision a)
         (db_certificate_signature b) (st_db (fst s)) = ok d" for ses b master p d
    using that find_SomeD [OF that(7)] certificate_okD [OF that(5)] roster_okD [OF that(6)]
    unfolding activation_signed_def by blast
  then show ?thesis
    unfolding handle_activate_device_def by (simp add: wp_rules)
qed

definition revoked_by_owner :: "string \<Rightarrow> hstate \<Rightarrow> database \<Rightarrow> bool" where
  "revoked_by_owner target s d \<longleftrightarrow>
     (\<exists>ses. cn_session (snd s) = Some ses \<and> \<not> ses_pending ses \<and> target \<noteq> ses_device_id ses
        \<and> (\<exists>d1. revoke_own_device (acct_id (ses_account ses)) target (st_db (fst s)) = (True, d1)
             \<and> (\<exists>as n. d = d1\<lparr>audit_events := as, audit_seq := n\<rparr>)))"

lemma audit_only: "\<exists>as n. audit c a x t r ctx now d = d\<lparr>audit_events := as, audit_seq := n\<rparr>"
  by (cases ctx) (auto simp: audit_def Let_def)

lemma update_where_unmatched: "count_where p rs = 0 \<Longrightarrow> update_where p f rs = rs"
  by (rule update_where_False) (auto simp: count_where_def filter_empty_conv)

lemma revoke_refused: "keys_ok d \<Longrightarrow> revoke_own_device a i d = (False, d') \<Longrightarrow> d' = d"
proof -
  assume keys: "keys_ok d" and run: "revoke_own_device a i d = (False, d')"
  let ?p = "\<lambda>r. dr_account_id r = a \<and> dr_id r = i \<and> \<not> dr_revoked r"
  have "count_where ?p (devices d) \<le> 1"
  proof -
    have "distinct (map dr_id (filter ?p (devices d)))"
      using keys by (simp add: keys_ok_def distinct_map_filter)
    moreover have "set (map dr_id (filter ?p (devices d))) \<subseteq> {i}" by auto
    ultimately show ?thesis
      using card_mono [of "{i}" "set (map dr_id (filter ?p (devices d)))"] distinct_card [of "map dr_id (filter ?p (devices d))"]
      by (simp add: count_where_def)
  qed
  with run have "count_where ?p (devices d) = 0" "d' = d\<lparr>devices := update_where ?p (\<lambda>r. r\<lparr>dr_revoked := True\<rparr>) (devices d)\<rparr>"
    by (auto simp: revoke_own_device_def Let_def split: if_splits)
  then show "d' = d" by (simp add: update_where_unmatched)
qed

text \<open>
  Self-service revocation reaches only other devices of the same account. \<open>RevokeOwnDevice\<close>
  changes the database only if an approved session asked for a device other than its own, and the
  change is that of \<open>revoke_own_device\<close> on the session's account, besides the audit log; a refused
  request leaves the database as it was.
\<close>

theorem self_revocation_confined:
  assumes "keys_ok (st_db (fst s))"
  shows "wp (handle_revoke_own_device S mo ctx i target)
     (\<lambda>_ s'. revoked_by_owner target s (st_db (fst s')))
     (\<lambda>_ s'. st_db (fst s') = st_db (fst s) \<or> revoked_by_owner target s (st_db (fst s'))) s"
proof -
  have refused: "snd (revoke_own_device a target (st_db (fst s))) = st_db (fst s)"
    if "\<not> fst (revoke_own_device a target (st_db (fst s)))" for a
    using revoke_refused [OF assms, of a target] that by (cases "revoke_own_device a target (st_db (fst s))") auto
  have done_: "revoked_by_owner target s (audit c u x t r ctx' now (snd (revoke_own_device (acct_id (ses_account ses)) target (st_db (fst s)))))"
    if "cn_session (snd s) = Some ses" "\<not> ses_pending ses" "target \<noteq> ses_device_id ses"
      "fst (revoke_own_device (acct_id (ses_account ses)) target (st_db (fst s)))" for ses c u x t r ctx' now
    using that audit_only [of c u x t r ctx' now] unfolding revoked_by_owner_def by (metis prod.collapse)
  show ?thesis
    unfolding handle_revoke_own_device_def by (simp add: wp_rules refused done_)
qed

theorem self_revocation_confined_witness:
  "wp (handle_revoke_own_device sample_services sample_moment sample_ctx ''1'' (sample_uuid (CHR ''7'')))
     (\<lambda>_ s'. revoked_by_owner (sample_uuid (CHR ''7'')) (sample_world, fresh_conn) (st_db (fst s')))
     (\<lambda>_ s'. st_db (fst s') = sample_db \<or> revoked_by_owner (sample_uuid (CHR ''7'')) (sample_world, fresh_conn) (st_db (fst s')))
     (sample_world, fresh_conn)"
  using self_revocation_confined [of "(sample_world, fresh_conn)"] sample_db_ok(1)
  by (simp add: sample_world_def db_ok_def)

definition sent_as_session :: "services \<Rightarrow> moment \<Rightarrow> EncryptedEnvelope list \<Rightarrow> hstate \<Rightarrow> database \<Rightarrow> bool" where
  "sent_as_session S mo envs s d \<longleftrightarrow>
     (\<exists>ses stored. cn_session (snd s) = Some ses \<and> \<not> ses_pending ses \<and> \<not> ses_password_change_required ses
        \<and> store_envelopes (sha256 (svc_crypto S)) (mo_free_disk mo) (acct_id (ses_account ses)) (ses_device_id ses)
            envs (mo_now_ms mo) (storage_limits (st_config (fst s))) (st_db (fst s)) = ok (stored, d))"

text \<open>
  Mail is stored under the identity of the session. \<open>SendEnvelopes\<close> changes the database only
  as \<open>store_envelopes\<close> does for the account and device of an approved session that owes no password
  change; a refused batch leaves the database as it was.
\<close>

theorem mail_sent_as_session:
  "wp (handle_send_envelopes S mo ctx i envs)
     (\<lambda>_ s'. sent_as_session S mo envs s (st_db (fst s')))
     (\<lambda>_ s'. st_db (fst s') = st_db (fst s) \<or> sent_as_session S mo envs s (st_db (fst s'))) s"
  unfolding handle_send_envelopes_def sent_as_session_def by (simp add: wp_rules)







end
