(* ===== verification/Ws_Limits.thy ===== *)
theory Ws_Limits
  imports Ws_State
begin

text \<open>
  What the token buckets of \<open>ws.rs\<close> guarantee: how many requests pass a bucket in a stretch of time,
  and how many at one instant under any rounding of the floating-point operations. The tables of
  buckets for password attempts stay bounded.
\<close>

section \<open>A run of requests\<close>

fun accepted :: "(rat \<Rightarrow> rat) \<Rightarrow> rat \<Rightarrow> u32 \<Rightarrow> int list \<Rightarrow> TokenBucket \<Rightarrow> nat" where
  "accepted fl rate burst [] b = 0"
| "accepted fl rate burst (t # ts) b =
     (case take_rate fl t rate burst b of (taken, b') \<Rightarrow> (if taken then 1 else 0) + accepted fl rate burst ts b')"

lemma unsigned_rat_nonneg [simp]: "0 \<le> (unsigned (w :: u32) :: rat)"
proof -
  have "of_nat (unat w) = (unsigned w :: rat)" by simp
  then show ?thesis by (metis of_nat_0_le_iff)
qed

subsection \<open>Exact arithmetic\<close>

lemma as_secs_exact: "as_secs_f64 (\<lambda>x. x) ns = of_int ns / 10 ^ 9"
proof -
  have "ns = 10 ^ 9 * (ns div 10 ^ 9) + ns mod 10 ^ 9" by simp
  then have "of_int ns = (10 ^ 9 * of_int (ns div 10 ^ 9) + of_int (ns mod 10 ^ 9) :: rat)"
    by (metis of_int_add of_int_mult of_int_numeral of_int_power)
  then show ?thesis by (simp add: as_secs_f64_def field_simps)
qed

lemma accepted_exact:
  assumes "0 \<le> rate" "sorted (tb_updated b # ts)" "\<And>t. t \<in> set ts \<Longrightarrow> t \<le> e" "tb_updated b \<le> e" "0 \<le> tb_tokens b"
  shows "of_nat (accepted (\<lambda>x. x) rate burst ts b) \<le> tb_tokens b + rate * (of_int (e - tb_updated b) / 10 ^ 9)"
  using assms(2-5)
proof (induction ts arbitrary: b)
  case Nil
  then show ?case using assms(1) by simp
next
  case (Cons t ts)
  define el where "el = (of_int (t - tb_updated b) / 10 ^ 9 :: rat)"
  define filled where "filled = min (tb_tokens b + el * rate) (of_nat (unat burst))"
  have t: "tb_updated b \<le> t" "t \<le> e" using Cons.prems by simp_all
  then have "0 \<le> el" by (simp add: el_def)
  then have filled: "0 \<le> filled" "filled \<le> tb_tokens b + el * rate"
    using Cons.prems(4) assms(1) by (simp_all add: filled_def)
  have take: "take_rate (\<lambda>x. x) t rate burst b =
      (if filled < 1 then (False, \<lparr>tb_tokens = filled, tb_updated = t\<rparr>)
       else (True, \<lparr>tb_tokens = filled - 1, tb_updated = t\<rparr>))"
    using t(1) by (simp add: take_rate_def Let_def as_secs_exact filled_def el_def)
  have split: "rate * (of_int (e - tb_updated b) / 10 ^ 9) = el * rate + rate * (of_int (e - t) / 10 ^ 9)"
    by (simp add: el_def field_simps)
  have IH: "of_nat (accepted (\<lambda>x. x) rate burst ts \<lparr>tb_tokens = x, tb_updated = t\<rparr>) \<le> x + rate * (of_int (e - t) / 10 ^ 9)"
    if "0 \<le> x" for x
    using Cons.IH [of "\<lparr>tb_tokens = x, tb_updated = t\<rparr>"] Cons.prems that by simp
  show ?case
  proof (cases "filled < 1")
    case True
    with IH [OF filled(1)] filled(2) show ?thesis unfolding accepted.simps take split by simp
  next
    case False
    with IH [of "filled - 1"] filled(2) show ?thesis unfolding accepted.simps take split by simp
  qed
qed

subsection \<open>Any rounding, one instant\<close>

lemma rounding_le: "f64_rounding fl \<Longrightarrow> n \<le> 2 ^ 53 \<Longrightarrow> x \<le> of_nat n \<Longrightarrow> fl x \<le> of_nat n"
  unfolding f64_rounding_def by (metis monoD)

lemma rounding_zero: "f64_rounding fl \<Longrightarrow> fl 0 = 0"
proof -
  assume "f64_rounding fl"
  then have "fl (of_nat 0) = of_nat 0" unfolding f64_rounding_def by blast
  then show ?thesis by simp
qed

lemma accepted_instant:
  assumes fl: "f64_rounding fl"
  shows "tb_updated b = now \<Longrightarrow> tb_tokens b \<le> of_nat m \<Longrightarrow> m \<le> 2 ^ 53 \<Longrightarrow>
    accepted fl rate burst (replicate n now) b \<le> m"
proof (induction n arbitrary: b m)
  case (Suc n)
  define filled where "filled = min (fl (tb_tokens b)) (of_nat (unat burst))"
  have f: "filled \<le> of_nat m"
    using rounding_le [OF fl Suc.prems(3,2)] by (auto simp: filled_def)
  have take: "take_rate fl now rate burst b =
      (if filled < 1 then (False, \<lparr>tb_tokens = filled, tb_updated = now\<rparr>)
       else (True, \<lparr>tb_tokens = fl (filled - 1), tb_updated = now\<rparr>))"
    using Suc.prems(1) by (simp add: take_rate_def Let_def as_secs_f64_def rounding_zero [OF fl] filled_def)
  show ?case
  proof (cases "filled < 1")
    case True
    with Suc.IH [of "\<lparr>tb_tokens = filled, tb_updated = now\<rparr>" m] f Suc.prems(3) show ?thesis by (simp add: take)
  next
    case False
    with f have m: "1 \<le> m" by (cases m) auto
    have "filled - 1 \<le> of_nat (m - 1)" using f m by (simp add: of_nat_diff)
    then have "fl (filled - 1) \<le> of_nat (m - 1)" using rounding_le [OF fl] Suc.prems(3) by simp
    then have "accepted fl rate burst (replicate n now) \<lparr>tb_tokens = fl (filled - 1), tb_updated = now\<rparr> \<le> m - 1"
      using Suc.prems(3) by (intro Suc.IH) simp_all
    with False m show ?thesis by (simp add: take)
  qed
qed simp

text \<open>The first request at an instant sees a bucket filled to the burst at most, however long it was idle.\<close>

lemma accepted_any_bucket:
  assumes fl: "f64_rounding fl"
  shows "accepted fl rate burst (replicate n now) b \<le> unat burst"
proof (cases n)
  case (Suc k)
  define filled where "filled = min (fl (tb_tokens b + fl (as_secs_f64 fl (max 0 (now - tb_updated b)) * rate))) (of_nat (unat burst))"
  have f: "filled \<le> of_nat (unat burst)" by (simp add: filled_def)
  have burst: "unat burst \<le> 2 ^ 53" using unsigned_less [of burst, where ?'a = nat] by simp
  have take: "take_rate fl now rate burst b =
      (if filled < 1 then (False, \<lparr>tb_tokens = filled, tb_updated = now\<rparr>)
       else (True, \<lparr>tb_tokens = fl (filled - 1), tb_updated = now\<rparr>))"
    by (simp only: take_rate_def Let_def filled_def)
  show ?thesis
  proof (cases "filled < 1")
    case True
    with accepted_instant [OF fl, of "\<lparr>tb_tokens = filled, tb_updated = now\<rparr>" now "unat burst"] f burst Suc
    show ?thesis by (simp add: take)
  next
    case False
    with f have m: "1 \<le> unat burst" by (cases "unat burst") auto
    then have "filled - 1 \<le> of_nat (unat burst - 1)" using f by (simp add: of_nat_diff)
    then have "fl (filled - 1) \<le> of_nat (unat burst - 1)" using rounding_le [OF fl] burst by simp
    then have "accepted fl rate burst (replicate k now) \<lparr>tb_tokens = fl (filled - 1), tb_updated = now\<rparr> \<le> unat burst - 1"
      using burst by (intro accepted_instant [OF fl]) simp_all
    with False m Suc show ?thesis by (simp add: take)
  qed
qed simp

lemma accepted_window:
  assumes "0 \<le> rate" "0 \<le> tb_tokens b" "sorted (t0 # ts)" "\<And>t. t \<in> set ts \<Longrightarrow> t \<le> e" "t0 \<le> e"
  shows "of_nat (accepted (\<lambda>x. x) rate burst (t0 # ts) b) \<le> of_nat (unat burst) + rate * (of_int (e - t0) / 10 ^ 9)"
proof -
  define filled where "filled = min (tb_tokens b + of_int (max 0 (t0 - tb_updated b)) / 10 ^ 9 * rate) (of_nat (unat burst))"
  have f: "0 \<le> filled" "filled \<le> of_nat (unat burst)" using assms(1,2) by (simp_all add: filled_def)
  have take: "take_rate (\<lambda>x. x) t0 rate burst b =
      (if filled < 1 then (False, \<lparr>tb_tokens = filled, tb_updated = t0\<rparr>)
       else (True, \<lparr>tb_tokens = filled - 1, tb_updated = t0\<rparr>))"
    by (simp only: take_rate_def Let_def as_secs_exact filled_def)
  have "of_nat (accepted (\<lambda>x. x) rate burst ts \<lparr>tb_tokens = x, tb_updated = t0\<rparr>) \<le> x + rate * (of_int (e - t0) / 10 ^ 9)"
    if "0 \<le> x" for x
    using accepted_exact [OF assms(1), of "\<lparr>tb_tokens = x, tb_updated = t0\<rparr>" ts e burst] assms(3-5) that by simp
  from this [of filled] this [of "filled - 1"] f show ?thesis by (cases "filled < 1") (auto simp: take)
qed

text \<open>
  C18. A token bucket keeps its promise, whatever was done to it before. From any bucket, however long it was
  idle and whatever it holds, at most \<open>burst\<close> requests pass at one instant, however the hardware rounds; and in
  exact arithmetic, from any bucket without a debt, the requests that pass in a stretch of time from \<open>t0\<close>,
  its first request, to \<open>e\<close> are at most the burst plus the rate times the length of the stretch. So a client
  cannot save up more than the burst.
\<close>

theorem bucket_limits_rate:
  assumes "f64_rounding fl" "0 \<le> rate" "0 \<le> tb_tokens b" "sorted (t0 # ts)" "\<And>t. t \<in> set ts \<Longrightarrow> t \<le> e" "t0 \<le> e"
  shows "accepted fl rate' burst (replicate n now) b' \<le> unat burst
    \<and> of_nat (accepted (\<lambda>x. x) rate burst (t0 # ts) b) \<le> of_nat (unat burst) + rate * (of_int (e - t0) / 10 ^ 9)"
  using accepted_any_bucket [OF assms(1)] accepted_window [OF assms(2-6)] by blast

theorem bucket_limits_rate_witness:
  "accepted (\<lambda>x. x) 2 (3 :: u32) [10 ^ 12, 10 ^ 12, 10 ^ 12, 10 ^ 12, 10 ^ 12 + 10 ^ 9] (bucket_new 0 3) \<le> 5"
proof -
  have "f64_rounding (\<lambda>x. x)" by (simp add: f64_rounding_def mono_def)
  then have "of_nat (accepted (\<lambda>x. x) 2 (3 :: u32) (10 ^ 12 # [10 ^ 12, 10 ^ 12, 10 ^ 12, 10 ^ 12 + 10 ^ 9]) (bucket_new 0 3)) \<le>
      (of_nat (unat (3 :: u32)) + 2 * (of_int (10 ^ 12 + 10 ^ 9 - 10 ^ 12) / 10 ^ 9) :: rat)"
    using bucket_limits_rate [of "\<lambda>x. x" 2 "bucket_new 0 3" "10 ^ 12" "[10 ^ 12, 10 ^ 12, 10 ^ 12, 10 ^ 12 + 10 ^ 9]" "10 ^ 12 + 10 ^ 9"]
    by (fastforce simp: bucket_new_def)
  also have "\<dots> = of_nat 5" by simp
  finally show ?thesis by (simp only: of_nat_le_iff)
qed

section \<open>The tables of buckets\<close>

lemma bucket_slot_bounded:
  assumes "bucket_slot now idle k fresh bs = (Some (b, kept), x)" "length bs \<le> max_buckets"
  shows "length (AList.update k b' kept) \<le> max_buckets"
proof -
  have len: "length (AList.update k v al) = (if k \<in> fst ` set al then length al else length al + 1)" for v :: TokenBucket and al
    by (induction al) auto
  from assms show ?thesis
    by (auto simp: bucket_slot_def Let_def len map_of_eq_None_iff not_le split: if_splits)
qed

lemma bucket_slot_kept:
  "bucket_slot now idle k fresh bs = (None, kept) \<Longrightarrow> length kept \<le> length bs"
  by (auto simp: bucket_slot_def Let_def split: if_splits)

lemma auth_tables_bounded:
  assumes "length (st_auth_buckets w) \<le> max_buckets" "length (st_auth_account_buckets w) \<le> max_buckets"
    and "allow_password_attempt S mo ip u w = (allowed, w')"
  shows "length (st_auth_buckets w') \<le> max_buckets \<and> length (st_auth_account_buckets w') \<le> max_buckets"
  using assms
  by (auto simp: allow_password_attempt_def Let_def bucket_slot_bounded dest: bucket_slot_kept
      split: prod.splits option.splits if_splits)

end
