(* ===== verification/Control.thy ===== *)
theory Control
  imports Ws_State
begin

text \<open>
  The administration socket, \<open>crates/server/src/control.rs\<close>: requests, the snapshot of the server and
  its database, and the dispatch of a request on the shared state. JSON, the text form of a UUID and
  the Unix socket are not under \<open>src/\<close>: the first two are arguments, of the socket only the bytes that
  the reader sees are modelled.
\<close>

section \<open>Messages\<close>

definition MAX_ADMIN_FRAME_BYTES :: nat where
  "MAX_ADMIN_FRAME_BYTES = 64 * 1024"

datatype AdminRequest =
    Snapshot
  | KickSession uuid
  | KickAccount string string
  | KickDevice string string

record AdminUser =
  adu_account_id :: string
  adu_username :: string
  adu_state :: string
  adu_password_change_required :: bool
  adu_active_devices :: nat
  adu_pending_devices :: nat

record AdminSession =
  ads_session_id :: uuid
  ads_account_id :: string
  ads_username :: string
  ads_device_id :: string
  ads_source_ip :: string
  ads_connected_at_ms :: i64
  ads_last_seen_at_ms :: i64
  ads_pending :: bool

record AdminConversation =
  adc_conversation_id :: string
  adc_first_username :: string
  adc_second_username :: string
  adc_logical_messages :: nat
  adc_envelopes :: nat
  adc_ciphertext_bytes :: nat
  adc_undelivered_envelopes :: nat
  adc_oldest_at_ms :: i64
  adc_newest_at_ms :: i64

record AdminAuditEvent =
  ada_id :: u64
  ada_occurred_at_ms :: i64
  ada_category :: string
  ada_actor :: string
  ada_action :: string
  ada_target :: string
  ada_result :: string
  ada_source_ip :: "string option"
  ada_details :: string

record AdminSnapshot =
  snap_users :: "AdminUser list"
  snap_sessions :: "AdminSession list"
  snap_conversations :: "AdminConversation list"
  snap_audit :: "AdminAuditEvent list"

record AdminResponse =
  resp_ok :: bool
  resp_message :: string
  resp_snapshot :: "AdminSnapshot option"

definition response_success :: "string \<Rightarrow> AdminResponse" where
  "response_success message = \<lparr>resp_ok = True, resp_message = message, resp_snapshot = None\<rparr>"

definition response_error :: "string \<Rightarrow> AdminResponse" where
  "response_error message = \<lparr>resp_ok = False, resp_message = message, resp_snapshot = None\<rparr>"

section \<open>The snapshot\<close>

text \<open>\<open>ORDER BY username\<close> uses the collation of the column, which ignores case.\<close>

definition snapshot_users :: "database \<Rightarrow> AdminUser list" where
  "snapshot_users d = map (\<lambda>a. \<lparr>adu_account_id = ar_id a, adu_username = ar_username a, adu_state = ar_state a,
       adu_password_change_required = ar_require_password_change a,
       adu_active_devices = count_where (\<lambda>r. dr_account_id r = ar_id a \<and> \<not> dr_pending r \<and> \<not> dr_revoked r) (devices d),
       adu_pending_devices = count_where (\<lambda>r. dr_account_id r = ar_id a \<and> dr_pending r \<and> \<not> dr_revoked r) (devices d)\<rparr>)
     (sort_key (\<lambda>a. to_ascii_lowercase (ar_username a)) (accounts d))"

definition snapshot_sessions :: "services \<Rightarrow> AppState \<Rightarrow> AdminSession list" where
  "snapshot_sessions S w = map (\<lambda>s. \<lparr>ads_session_id = ls_id s, ads_account_id = ls_account_id s,
       ads_username = ls_username s, ads_device_id = ls_device_id s, ads_source_ip = svc_show_ip S (ls_source_ip s),
       ads_connected_at_ms = ls_connected_at_ms s, ads_last_seen_at_ms = ls_last_seen_at_ms s,
       ads_pending = ls_pending s\<rparr>) (live_sessions w)"

text \<open>
  The rows of the join: a logical message with its two accounts, and either each of its envelopes or,
  when it has none, one row without envelope.
\<close>

definition conversation_rows :: "database \<Rightarrow> (logical_row \<times> account_row \<times> account_row \<times> envelope_row option) list" where
  "conversation_rows d = [(m, sa, pa, e). m \<leftarrow> logical_messages d,
     sa \<leftarrow> filter (\<lambda>a. ar_id a = lm_sender_account_id m) (accounts d),
     pa \<leftarrow> filter (\<lambda>a. ar_id a = lm_peer_account_id m) (accounts d),
     e \<leftarrow> (case filter (\<lambda>e. er_logical_message_id e = lm_id m) (envelopes d) of [] \<Rightarrow> [None] | es \<Rightarrow> map Some es)]"

text \<open>
  One group. The two user names are the same in all rows of a conversation; the model takes those of
  the first row. \<open>MIN\<close> and \<open>MAX\<close> of two values compare with the collation of the first one.
\<close>

definition conversation_group ::
  "string \<Rightarrow> (logical_row \<times> account_row \<times> account_row \<times> envelope_row option) list \<Rightarrow> AdminConversation" where
  "conversation_group conv rows =
     (let (m, sa, pa, e) = hd rows; es = List.map_filter (\<lambda>(m, sa, pa, e). e) rows;
          le = to_ascii_lowercase (ar_username sa) \<le> to_ascii_lowercase (ar_username pa)
      in \<lparr>adc_conversation_id = conv,
          adc_first_username = (if le then ar_username sa else ar_username pa),
          adc_second_username = (if le then ar_username pa else ar_username sa),
          adc_logical_messages = length (remdups (map (\<lambda>(m, _). lm_id m) rows)),
          adc_envelopes = length es,
          adc_ciphertext_bytes = sum_list (map (\<lambda>r. length (er_ciphertext r)) es),
          adc_undelivered_envelopes = count_where (\<lambda>(m, sa, pa, e).
             (case e of None \<Rightarrow> True | Some r \<Rightarrow> er_delivered_at_ms r = None)) rows,
          adc_oldest_at_ms = Min (set (map (\<lambda>(m, _). lm_accepted_at_ms m) rows)),
          adc_newest_at_ms = Max (set (map (\<lambda>(m, _). lm_accepted_at_ms m) rows))\<rparr>)"

definition snapshot_conversations :: "database \<Rightarrow> AdminConversation list" where
  "snapshot_conversations d =
     (let rows = conversation_rows d; convs = remdups (map (\<lambda>(m, _). lm_conversation_id m) rows) in
      sort_key (\<lambda>c. - adc_newest_at_ms c)
        (map (\<lambda>conv. conversation_group conv (filter (\<lambda>(m, _). lm_conversation_id m = conv) rows)) convs))"

definition audit_event_of :: "audit_row \<Rightarrow> AdminAuditEvent" where
  "audit_event_of r = \<lparr>ada_id = word_of_int (au_id r), ada_occurred_at_ms = au_occurred_at_ms r,
     ada_category = au_category r, ada_actor = au_actor r, ada_action = au_action r, ada_target = au_target r,
     ada_result = au_result r, ada_source_ip = au_source_ip r, ada_details = au_details r\<rparr>"

definition snapshot_audit :: "database \<Rightarrow> AdminAuditEvent list" where
  "snapshot_audit d = map audit_event_of (take 100 (sort_key (\<lambda>r. - au_id r) (audit_events d)))"

definition snapshot :: "services \<Rightarrow> AppState \<Rightarrow> AdminSnapshot" where
  "snapshot S w = \<lparr>snap_users = snapshot_users (st_db w), snap_sessions = snapshot_sessions S w,
     snap_conversations = snapshot_conversations (st_db w), snap_audit = snapshot_audit (st_db w)\<rparr>"

section \<open>Dispatch\<close>

definition dispatch :: "services \<Rightarrow> (uuid \<Rightarrow> string) \<Rightarrow> i64 \<Rightarrow> AdminRequest \<Rightarrow> AppState \<Rightarrow> AdminResponse result \<times> AppState" where
  "dispatch S show_uuid now request w =
     (case request of
        Snapshot \<Rightarrow> (ok \<lparr>resp_ok = True, resp_message = ''snapshot'', resp_snapshot = Some (snapshot S w)\<rparr>, w)
      | KickSession session_id \<Rightarrow>
         (case kick_session session_id ''admin_kick'' w of
            (False, w') \<Rightarrow> (bail ''session not found'', w')
          | (True, w') \<Rightarrow> (ok (response_success ''session kicked''),
              w'\<lparr>st_db := audit ''admin'' ''local-admin'' ''kick_session'' (show_uuid session_id) ''success''
                    (None, []) now (st_db w')\<rparr>))
      | KickAccount account_id reason \<Rightarrow>
         (case kick_account account_id reason w of
            (count, w') \<Rightarrow> (ok (response_success (''kicked '' @ show_nat count @ '' sessions'')), w'))
      | KickDevice device_id reason \<Rightarrow>
         (case kick_device device_id reason w of
            (kicked, w') \<Rightarrow> (ok (response_success (if kicked then ''device session kicked'' else ''device was not online'')), w')))"

text \<open>\<open>read_until\<close> a newline on a reader that gives at most one byte more than the limit.\<close>

definition read_frame :: "bytes \<Rightarrow> bytes" where
  "read_frame input = (let b = take (MAX_ADMIN_FRAME_BYTES + 1) input; line = takeWhile (\<lambda>x. x \<noteq> 10) b in
     if length line < length b then line @ [10] else line)"

definition handle_stream :: "services \<Rightarrow> (uuid \<Rightarrow> string) \<Rightarrow> (bytes \<Rightarrow> AdminRequest result) \<Rightarrow>
    (AdminResponse \<Rightarrow> bytes result) \<Rightarrow> i64 \<Rightarrow> bytes \<Rightarrow> AppState \<Rightarrow> bytes result \<times> AppState" where
  "handle_stream S show_uuid parse render now input w =
     (let encoded = read_frame input in
      if MAX_ADMIN_FRAME_BYTES < length encoded then (bail ''admin request is too large'', w)
      else (case parse encoded of Inl x \<Rightarrow> (Inl x, w)
        | Inr request \<Rightarrow>
           (case dispatch S show_uuid now request w of
              (res, w') \<Rightarrow>
                 (let response = (case res of Inr r \<Rightarrow> r | Inl _ \<Rightarrow> response_error ''admin action failed'')
                  in (case render response of Inl x \<Rightarrow> Inl x | Inr b \<Rightarrow> ok (b @ [10]), w')))))"

text \<open>The client side: what is sent, and what is made of the bytes that come back.\<close>

definition request_bytes :: "(AdminRequest \<Rightarrow> bytes result) \<Rightarrow> AdminRequest \<Rightarrow> bytes result" where
  "request_bytes render request = (case render request of Inl x \<Rightarrow> Inl x | Inr b \<Rightarrow> ok (b @ [10]))"

definition request_answer :: "(bytes \<Rightarrow> AdminResponse result) \<Rightarrow> bytes \<Rightarrow> AdminResponse result" where
  "request_answer parse input =
     (let response = read_frame input in
      if MAX_ADMIN_FRAME_BYTES < length response then bail ''admin response is too large'' else parse response)"

section \<open>The effect of a request\<close>

lemma disconnect_send_same:
  "st_sessions (snd (disconnect_send t r w)) = st_sessions w"
  "st_receivers (snd (disconnect_send t r w)) = st_receivers w"
  "map_of (st_disconnects (snd (disconnect_send t r w))) =
     (if t \<in> set (st_receivers w) then (map_of (st_disconnects w))(t \<mapsto> r) else map_of (st_disconnects w))"
  by (simp_all add: disconnect_send_def update_conv')

lemma kick_all_effect:
  assumes "\<And>i s. map_of (st_sessions w) i = Some s \<Longrightarrow> ls_id s = i"
  shows "kick_all is r w = (n, w') \<Longrightarrow>
    n = length (filter (\<lambda>i. map_of (st_sessions w) i \<noteq> None \<and> i \<in> set (st_receivers w)) is)
    \<and> (\<forall>t. map_of (st_disconnects w') t =
         (if t \<in> set is \<and> map_of (st_sessions w) t \<noteq> None \<and> t \<in> set (st_receivers w) then Some r
          else map_of (st_disconnects w) t))"
  using assms
proof (induction "is" arbitrary: w n)
  case (Cons i "is")
  obtain b w1 where kick: "kick_session i r w = (b, w1)" by (metis prod.exhaust)
  obtain m where rest: "kick_all is r w1 = (m, w')"
    using Cons.prems(1) kick by (auto split: prod.splits)
  have w1: "st_sessions w1 = st_sessions w" "st_receivers w1 = st_receivers w"
    and b: "b = (map_of (st_sessions w) i \<noteq> None \<and> i \<in> set (st_receivers w))"
    and d: "map_of (st_disconnects w1) = (if b then (map_of (st_disconnects w))(i \<mapsto> r) else map_of (st_disconnects w))"
    using kick Cons.prems(2) [of i] disconnect_send_same [of i r w]
    by (auto simp: kick_session_def disconnect_send_def update_conv' split: option.splits if_splits)
  have IH: "m = length (filter (\<lambda>i. map_of (st_sessions w) i \<noteq> None \<and> i \<in> set (st_receivers w)) is)
    \<and> (\<forall>t. map_of (st_disconnects w') t =
         (if t \<in> set is \<and> map_of (st_sessions w) t \<noteq> None \<and> t \<in> set (st_receivers w) then Some r
          else map_of (st_disconnects w1) t))"
    using Cons.IH [OF rest] Cons.prems(2) by (simp add: w1)
  have "n = (if b then 1 else 0) + m" using Cons.prems(1) kick rest by simp
  with IH show ?case by (auto simp: b d)
qed simp

text \<open>A session that was kicked once stays told to end, for the same reason.\<close>

lemma kick_session_tells:
  "map_of (st_sessions (snd (kick_session i r w))) = map_of (st_sessions w)"
  "st_receivers (snd (kick_session i r w)) = st_receivers w"
  "map_of (st_disconnects w) t = Some r \<Longrightarrow> map_of (st_disconnects (snd (kick_session i r w))) t = Some r"
  by (auto simp: kick_session_def disconnect_send_def update_conv' split: option.splits)

lemma kick_all_kept:
  "map_of (st_disconnects w) t = Some r \<Longrightarrow> map_of (st_disconnects (snd (kick_all is r w))) t = Some r"
proof (induction "is" arbitrary: w)
  case (Cons i "is")
  from Cons.IH [OF kick_session_tells(3) [OF Cons.prems]] show ?case by (simp add: split_beta)
qed simp

lemma kick_all_tells:
  "t \<in> set is \<Longrightarrow> map_of (st_sessions w) t = Some s \<Longrightarrow> ls_id s = t \<Longrightarrow> t \<in> set (st_receivers w) \<Longrightarrow>
   map_of (st_disconnects (snd (kick_all is r w))) t = Some r"
proof (induction "is" arbitrary: w)
  case (Cons i "is")
  show ?case
  proof (cases "i = t")
    case True
    then have "map_of (st_disconnects (snd (kick_session i r w))) t = Some r"
      using Cons.prems by (simp add: kick_session_def disconnect_send_def update_conv')
    from kick_all_kept [OF this] show ?thesis by (simp add: split_beta)
  next
    case False
    with Cons.prems Cons.IH [of "snd (kick_session i r w)"] show ?thesis by (simp add: split_beta kick_session_tells)
  qed
qed simp

text \<open>A live connection has its session under its token, and the registry of devices points to it.\<close>

definition registered_as :: "uuid \<Rightarrow> Session \<Rightarrow> AppState \<Rightarrow> bool" where
  "registered_as t ses w \<longleftrightarrow>
     (\<exists>s. map_of (st_sessions w) t = Some s \<and> ls_id s = t \<and> ls_account_id s = acct_id (ses_account ses))
     \<and> (\<exists>c. map_of (st_connections w) (ses_device_id ses) = Some c \<and> live_token c = t)
     \<and> t \<in> set (st_receivers w)"

lemma register_registered: "t \<in> set (st_receivers w) \<Longrightarrow> registered_as t ses (register ses t ip now w)"
  by (auto simp: registered_as_def register_def Let_def disconnect_send_def update_conv' split: option.split)

lemma kick_account_tells:
  assumes "registered_as t ses w"
  shows "map_of (st_disconnects (snd (kick_account (acct_id (ses_account ses)) r w))) t = Some r"
proof -
  obtain s where s: "map_of (st_sessions w) t = Some s" "ls_id s = t" "ls_account_id s = acct_id (ses_account ses)"
    using assms by (auto simp: registered_as_def)
  then have "t \<in> set (map ls_id (filter (\<lambda>s. ls_account_id s = acct_id (ses_account ses)) (map snd (st_sessions w))))"
    by (force dest: map_of_SomeD)
  with s assms show ?thesis unfolding kick_account_def by (intro kick_all_tells) (auto simp: registered_as_def)
qed

lemma kick_device_tells:
  assumes "registered_as t ses w"
  shows "map_of (st_disconnects (snd (kick_device (ses_device_id ses) r w))) t = Some r"
proof -
  obtain c where "map_of (st_connections w) (ses_device_id ses) = Some c" "live_token c = t" "t \<in> set (st_receivers w)"
    using assms unfolding registered_as_def by blast
  then show ?thesis by (simp add: kick_device_def disconnect_send_def update_conv')
qed

lemma dispatch_tells:
  assumes "registered_as t ses w"
  shows "map_of (st_disconnects (snd (dispatch S show now (KickAccount (acct_id (ses_account ses)) r) w))) t = Some r"
    "map_of (st_disconnects (snd (dispatch S show now (KickDevice (ses_device_id ses) r) w))) t = Some r"
  using kick_account_tells [OF assms] kick_device_tells [OF assms] by (simp_all add: dispatch_def split_beta)

end
