(* ===== verification/Admin.thy ===== *)
theory Admin
  imports Control Credentials Db_Devices
begin

text \<open>
  The commands of the administration tool, \<open>crates/server/src/admin.rs\<close>, on the database. A command
  gives the lines it prints, or an error, and the new database; what a command did before an error
  stays, unless a transaction was open. Prompts, the random password and identifiers, the clock, the
  password hasher and JSON are arguments. \<open>checkpoint\<close> only runs SQLite's own statement and is not
  modelled; \<open>backup\<close> gives the copy that \<open>VACUUM INTO\<close> writes, and what \<open>PRAGMA quick_check\<close> answers is an
  argument of \<open>check_database\<close>.
\<close>

type_synonym printed = "string list"
type_synonym admin_command = "database \<Rightarrow> printed result \<times> database"

definition admin_audit :: "string \<Rightarrow> string \<Rightarrow> string \<Rightarrow> i64 \<Rightarrow> database \<Rightarrow> database" where
  "admin_audit action target details now d =
     audit ''admin'' ''local-admin'' action target ''success'' (None, details) now d"

section \<open>Users\<close>

text \<open>A generated password, or the two answers to the prompts.\<close>

datatype password_source = Generated string | Prompted string string

definition choose_password :: "password_source \<Rightarrow> string result" where
  "choose_password src = (case src of Generated p \<Rightarrow> ok p
     | Prompted first second \<Rightarrow> if first \<noteq> second then bail ''passwords do not match'' else ok first)"

definition generated_line :: "password_source \<Rightarrow> printed" where
  "generated_line src = (case src of Generated p \<Rightarrow> [''one-time password: '' @ p] | Prompted _ _ \<Rightarrow> [])"

definition insert_account :: "account_row \<Rightarrow> database \<Rightarrow> database result" where
  "insert_account r d =
     (if ar_id r \<in> ar_id ` set (accounts d) \<or> (\<exists>q \<in> set (accounts d). nocase_eq (ar_username q) (ar_username r))
      then Inl (Constraint ''failed to create account'')
      else ok (d\<lparr>accounts := accounts d @ [r]\<rparr>))"

definition add_user :: "phc_ops \<Rightarrow> bytes \<Rightarrow> string \<Rightarrow> i64 \<Rightarrow> string \<Rightarrow> password_source \<Rightarrow> admin_command" where
  "add_user ops salt new_id now username0 src d =
     (case normalize_username username0 of Inl x \<Rightarrow> (Inl x, d)
      | Inr username \<Rightarrow>
     (case choose_password src of Inl x \<Rightarrow> (Inl x, d)
      | Inr password \<Rightarrow>
     (case hash_password ops salt password of Inl x \<Rightarrow> (Inl x, d)
      | Inr phc \<Rightarrow>
     (case insert_account \<lparr>ar_id = new_id, ar_username = username, ar_password_phc = phc, ar_state = ''active'',
           ar_require_password_change = True, ar_master_public_key = None, ar_identity_generation = 1,
           ar_roster_revision = 0, ar_created_at_ms = now\<rparr> d of Inl x \<Rightarrow> (Inl x, d)
      | Inr d' \<Rightarrow> (ok ((''created account '' @ username) # generated_line src),
           admin_audit ''user_add'' username [] now d')))))"

datatype OutputFormat = Table | Json

text \<open>JSON values, as the listings build them; how one is printed is an argument.\<close>

datatype json = JStr string | JBool bool | JInt int | JNull | JObj "(string \<times> json) list" | JArr "json list"

definition tab :: string where
  "tab = [CHR 0x09]"

definition show_bool :: "bool \<Rightarrow> string" where
  "show_bool b = (if b then ''true'' else ''false'')"

definition list_users :: "(json \<Rightarrow> string) \<Rightarrow> OutputFormat \<Rightarrow> database \<Rightarrow> printed" where
  "list_users pretty fmt d =
     (let rows = sort_key (\<lambda>a. to_ascii_lowercase (ar_username a)) (accounts d) in
      case fmt of
        Json \<Rightarrow> [pretty (JArr (map (\<lambda>a. JObj [(''username'', JStr (ar_username a)), (''state'', JStr (ar_state a)),
            (''password_change_required'', JBool (ar_require_password_change a)),
            (''identity_generation'', JInt (ar_identity_generation a)),
            (''roster_revision'', JInt (ar_roster_revision a))]) rows))]
      | Table \<Rightarrow> map (\<lambda>a. ar_username a @ tab @ ar_state a @ tab @ ''password_change=''
            @ show_bool (ar_require_password_change a) @ tab @ ''identity='' @ show_int (ar_identity_generation a)
            @ tab @ ''roster='' @ show_int (ar_roster_revision a)) rows)"

definition named :: "string \<Rightarrow> account_row \<Rightarrow> bool" where
  "named username r = nocase_eq (ar_username r) username"

text \<open>The \<open>CHECK\<close> on \<open>state\<close> fails the statement; the callers pass \<open>active\<close> or \<open>disabled\<close>.\<close>

definition set_user_state :: "i64 \<Rightarrow> string \<Rightarrow> string \<Rightarrow> admin_command" where
  "set_user_state now username0 state d =
     (case normalize_username username0 of Inl x \<Rightarrow> (Inl x, d)
      | Inr username \<Rightarrow>
         (let affected = count_where (named username) (accounts d);
              d' = d\<lparr>accounts := update_where (named username) (\<lambda>r. r\<lparr>ar_state := state\<rparr>) (accounts d)\<rparr>
          in if affected \<noteq> 0 \<and> state \<notin> {''active'', ''disabled''}
             then (Inl (Constraint ''CHECK constraint failed: accounts''), d)
             else if affected \<noteq> 1 then (bail ''account not found'', d')
             else (ok [username @ '': '' @ state], admin_audit ''user_state'' username state now d')))"

definition reset_password :: "phc_ops \<Rightarrow> bytes \<Rightarrow> i64 \<Rightarrow> string \<Rightarrow> password_source \<Rightarrow> admin_command" where
  "reset_password ops salt now username0 src d =
     (case normalize_username username0 of Inl x \<Rightarrow> (Inl x, d)
      | Inr username \<Rightarrow>
     (case choose_password src of Inl x \<Rightarrow> (Inl x, d)
      | Inr password \<Rightarrow>
     (case hash_password ops salt password of Inl x \<Rightarrow> (Inl x, d)
      | Inr phc \<Rightarrow>
         (let affected = count_where (named username) (accounts d);
              d' = d\<lparr>accounts := update_where (named username)
                      (\<lambda>r. r\<lparr>ar_password_phc := phc, ar_require_password_change := True\<rparr>) (accounts d)\<rparr>
          in if affected \<noteq> 1 then (bail ''account not found'', d')
             else (ok ((''reset password for '' @ username @ ''; encrypted history and device keys were not changed'')
                       # generated_line src),
                   admin_audit ''password_reset'' username [] now d')))))"

section \<open>Devices\<close>

definition find_account :: "string \<Rightarrow> database \<Rightarrow> string option" where
  "find_account username d = map_option ar_id (find (named username) (accounts d))"

definition devices_of :: "string \<Rightarrow> database \<Rightarrow> string list" where
  "devices_of account_id d = map dr_id (filter (\<lambda>r. dr_account_id r = account_id) (devices d))"

text \<open>The transaction of \<open>reset_devices\<close>, and the clean-up of each device that was not yet revoked.\<close>

definition reset_identity :: "string \<Rightarrow> database \<Rightarrow> database" where
  "reset_identity account_id d =
     (let d1 = d\<lparr>devices := update_where (\<lambda>r. dr_account_id r = account_id) (\<lambda>r. r\<lparr>dr_revoked := True\<rparr>) (devices d)\<rparr>;
          d2 = d1\<lparr>prekeys := delete_where (\<lambda>r. pk_device_id r \<in> set (devices_of account_id d1)) (prekeys d1)\<rparr>
      in d2\<lparr>accounts := update_where (\<lambda>r. ar_id r = account_id)
              (\<lambda>r. r\<lparr>ar_master_public_key := None, ar_identity_generation := ar_identity_generation r + 1,
                     ar_roster_revision := 0\<rparr>) (accounts d2)\<rparr>)"

definition reset_devices :: "i64 \<Rightarrow> string \<Rightarrow> admin_command" where
  "reset_devices now username0 d =
     (case normalize_username username0 of Inl x \<Rightarrow> (Inl x, d)
      | Inr username \<Rightarrow>
     (case find_account username d of None \<Rightarrow> (bail ''account not found'', d)
      | Some account_id \<Rightarrow>
         (let device_ids = map dr_id (filter (\<lambda>r. dr_account_id r = account_id \<and> \<not> dr_revoked r) (devices d));
              d' = fold (\<lambda>i d. snd (cleanup_revoked_device i d)) device_ids (reset_identity account_id d)
          in (ok [''reset encrypted identity for '' @ username @ ''; old history is intentionally unrecoverable''],
              admin_audit ''device_generation_reset'' username [] now d'))))"

definition list_devices :: "(json \<Rightarrow> string) \<Rightarrow> string \<Rightarrow> OutputFormat \<Rightarrow> database \<Rightarrow> printed result" where
  "list_devices pretty username fmt d =
     (case account_by_username username d of None \<Rightarrow> bail ''account not found''
      | Some account \<Rightarrow>
         (let rows = sort_key dr_created_at_ms (filter (\<lambda>r. dr_account_id r = acct_id account) (devices d)) in
          ok (case fmt of
            Json \<Rightarrow> [pretty (JArr (map (\<lambda>r. JObj [(''device_id'', JStr (dr_id r)), (''name'', JStr (dr_name r)),
                (''pending'', JBool (dr_pending r)), (''revoked'', JBool (dr_revoked r)),
                (''created_at_ms'', JInt (dr_created_at_ms r))]) rows))]
          | Table \<Rightarrow> map (\<lambda>r. dr_id r @ tab @ dr_name r @ tab @ ''pending='' @ show_bool (dr_pending r) @ tab
                @ ''revoked='' @ show_bool (dr_revoked r) @ tab @ ''created='' @ show_int (dr_created_at_ms r)) rows)))"

definition revoke_device :: "i64 \<Rightarrow> string \<Rightarrow> string \<Rightarrow> admin_command" where
  "revoke_device now username device_id d =
     (case account_by_username username d of None \<Rightarrow> (bail ''account not found'', d)
      | Some account \<Rightarrow>
         (let matches = (\<lambda>r. dr_account_id r = acct_id account \<and> dr_id r = device_id);
              affected = count_where matches (devices d);
              d1 = d\<lparr>devices := update_where matches (\<lambda>r. r\<lparr>dr_revoked := True\<rparr>) (devices d)\<rparr>
          in if affected \<noteq> 1 then (bail ''device not found'', d1)
             else (case cleanup_revoked_device device_id d1 of
               (cleanup, d2) \<Rightarrow>
                 (ok [''revoked '' @ device_id @ ''; clients will reject it on their next roster refresh''],
                  admin_audit ''device_revoke'' device_id
                    (''account='' @ acct_username account @ '',removed_envelopes='' @ show_nat (cs_envelopes cleanup)
                     @ '',removed_bytes='' @ show_nat (cs_ciphertext_bytes cleanup)) now d2))))"

section \<open>Backups and checks\<close>

definition backup :: "bool \<Rightarrow> string \<Rightarrow> i64 \<Rightarrow> database \<Rightarrow> (printed result \<times> database option) \<times> database" where
  "backup target_exists path now d =
     (if target_exists then ((bail (''backup target already exists: '' @ path), None), d)
      else ((ok [''wrote consistent SQLite backup to '' @ path], Some d),
            admin_audit ''database_backup'' path [] now d))"

definition check_database :: "string \<Rightarrow> printed result" where
  "check_database quick_check =
     (if quick_check \<noteq> ''ok'' then bail (''database check failed: '' @ quick_check) else ok [''database check: ok''])"

section \<open>Storage\<close>

definition print_storage_status :: "(StorageStatus \<Rightarrow> string) \<Rightarrow> OutputFormat \<Rightarrow> StorageStatus \<Rightarrow> printed" where
  "print_storage_status pretty fmt status =
     (case fmt of Json \<Rightarrow> [pretty status]
      | Table \<Rightarrow> [''ciphertext_bytes'' @ tab @ show_nat (unat (ss_ciphertext_bytes status)),
          ''account_limit_bytes'' @ tab @ show_nat (unat (ss_account_limit_bytes status)),
          ''total_limit_bytes'' @ tab @ show_nat (unat (ss_total_limit_bytes status)),
          ''free_disk_bytes'' @ tab @ show_nat (unat (ss_free_disk_bytes status)),
          ''minimum_free_disk_bytes'' @ tab @ show_nat (unat (ss_minimum_free_disk_bytes status))])"

definition add_stats :: "CleanupStats \<Rightarrow> CleanupStats \<Rightarrow> CleanupStats" where
  "add_stats t b = \<lparr>cs_envelopes = cs_envelopes t + cs_envelopes b,
     cs_ciphertext_bytes = cs_ciphertext_bytes t + cs_ciphertext_bytes b,
     cs_logical_messages = cs_logical_messages t + cs_logical_messages b,
     cs_delivery_updates = cs_delivery_updates t + cs_delivery_updates b\<rparr>"

lemma cleanup_batch:
  "cs_envelopes (fst (cleanup_delivered_envelopes t n d)) + length (envelopes (snd (cleanup_delivered_envelopes t n d)))
     = length (envelopes d)"
  by (simp add: cleanup_delivered_envelopes_def Let_def delete_envelopes_def drop_orphans_def stats_of_def
      delete_where_def sum_length_filter_compl)

text \<open>The loop of \<open>cleanup_storage\<close>: batches of 1000 until one is not full.\<close>

function cleanup_loop :: "i64 \<Rightarrow> CleanupStats \<Rightarrow> database \<Rightarrow> CleanupStats \<times> database" where
  "cleanup_loop cutoff acc d =
     (let batch = fst (cleanup_delivered_envelopes cutoff 1000 d);
          d' = snd (cleanup_delivered_envelopes cutoff 1000 d);
          acc' = add_stats acc batch
      in if cs_envelopes batch < 1000 then (acc', d') else cleanup_loop cutoff acc' d')"
  by pat_completeness auto
termination
proof (relation "measure (\<lambda>(_, _, d). length (envelopes d))", goal_cases)
  case (2 cutoff acc d batch d' acc')
  with cleanup_batch [of cutoff 1000 d] show ?case by simp
qed simp

declare cleanup_loop.simps [simp del]

definition no_stats :: CleanupStats where
  "no_stats = \<lparr>cs_envelopes = 0, cs_ciphertext_bytes = 0, cs_logical_messages = 0, cs_delivery_updates = 0\<rparr>"

definition dry_run_line :: string where
  "dry_run_line = ''dry-run only; repeat with --yes to delete these records''"

definition cleanup_storage :: "(json \<Rightarrow> string) \<Rightarrow> (CleanupStats \<Rightarrow> string) \<Rightarrow> (CleanupStats \<Rightarrow> string) \<Rightarrow>
    i64 \<Rightarrow> u32 \<Rightarrow> bool \<Rightarrow> admin_command" where
  "cleanup_storage pretty show_stats pretty_stats now retention_days yes d =
     (let cutoff = now - uint retention_days * 24 * 60 * 60 * 1000;
          old = filter (delivered_before cutoff) (envelopes d);
          preview = pretty (JObj [(''delivered_before_ms'', JInt cutoff), (''envelopes'', JInt (int (length old))),
             (''ciphertext_bytes'', JInt (sum_list (map envelope_bytes old)))])
      in if \<not> yes then (ok [preview, dry_run_line], d)
         else (case cleanup_loop cutoff no_stats d of
           (acc, d') \<Rightarrow> (ok [preview, pretty_stats acc],
              admin_audit ''storage_cleanup'' ''delivered_envelopes'' (show_stats acc) now d')))"

end
