(* ===== verification/Admin_Records.thy ===== *)
theory Admin_Records
  imports Admin
begin

text \<open>
  The commands of \<open>admin.rs\<close> that delete conversations and accounts, that read the audit log, and that
  talk to the running server over its socket. The deletion of an account is one transaction whose
  statements are checked against the foreign keys of the schema, as SQLite does after each statement.
\<close>

section \<open>Requests to the server\<close>

text \<open>
  \<open>control_request\<close> is an argument: what the server answers to a request, or an error. A command that
  only notifies the server is the list of its requests.
\<close>

definition fetch_snapshot :: "(AdminRequest \<Rightarrow> AdminResponse result) \<Rightarrow> AdminSnapshot result" where
  "fetch_snapshot send =
     (case send Snapshot of Inl x \<Rightarrow> Inl x
      | Inr response \<Rightarrow>
          if \<not> resp_ok response then bail (resp_message response)
          else (case resp_snapshot response of None \<Rightarrow> bail ''admin server returned no snapshot'' | Some s \<Rightarrow> ok s))"

definition list_sessions :: "(uuid \<Rightarrow> string) \<Rightarrow> (AdminSession list \<Rightarrow> string) \<Rightarrow> (AdminRequest \<Rightarrow> AdminResponse result) \<Rightarrow>
    OutputFormat \<Rightarrow> printed result" where
  "list_sessions show_uuid pretty send fmt =
     (case fetch_snapshot send of Inl x \<Rightarrow> Inl x
      | Inr s \<Rightarrow> ok (case fmt of Json \<Rightarrow> [pretty (snap_sessions s)]
          | Table \<Rightarrow> map (\<lambda>r. show_uuid (ads_session_id r) @ tab @ ads_username r @ tab @ ads_device_id r @ tab
              @ ads_source_ip r @ tab @ ''pending='' @ show_bool (ads_pending r) @ tab
              @ ''connected='' @ show_int (ads_connected_at_ms r) @ tab
              @ ''last_seen='' @ show_int (ads_last_seen_at_ms r)) (snap_sessions s)))"

definition list_conversations :: "(AdminConversation list \<Rightarrow> string) \<Rightarrow> (AdminRequest \<Rightarrow> AdminResponse result) \<Rightarrow>
    OutputFormat \<Rightarrow> printed result" where
  "list_conversations pretty send fmt =
     (case fetch_snapshot send of Inl x \<Rightarrow> Inl x
      | Inr s \<Rightarrow> ok (case fmt of Json \<Rightarrow> [pretty (snap_conversations s)]
          | Table \<Rightarrow> map (\<lambda>r. adc_conversation_id r @ tab @ adc_first_username r @ '' <-> '' @ adc_second_username r
              @ tab @ ''messages='' @ show_nat (adc_logical_messages r) @ tab @ ''envelopes='' @ show_nat (adc_envelopes r)
              @ tab @ ''bytes='' @ show_nat (adc_ciphertext_bytes r) @ tab
              @ ''undelivered='' @ show_nat (adc_undelivered_envelopes r)) (snap_conversations s)))"

definition admin_kick_session :: "(AdminRequest \<Rightarrow> AdminResponse result) \<Rightarrow> uuid \<Rightarrow> printed result" where
  "admin_kick_session send session_id =
     (case send (KickSession session_id) of Inl x \<Rightarrow> Inl x
      | Inr response \<Rightarrow> if \<not> resp_ok response then bail (resp_message response) else ok [resp_message response])"

definition disconnect_user_if_online :: "bool \<Rightarrow> string \<Rightarrow> string \<Rightarrow> database \<Rightarrow> AdminRequest list" where
  "disconnect_user_if_online socket_exists username reason d =
     (case account_by_username username d of None \<Rightarrow> []
      | Some account \<Rightarrow> if socket_exists then [KickAccount (acct_id account) reason] else [])"

definition disconnect_device_if_online :: "bool \<Rightarrow> string \<Rightarrow> AdminRequest list" where
  "disconnect_device_if_online socket_exists device_id =
     (if socket_exists then [KickDevice device_id ''access_revoked''] else [])"

section \<open>Pruning a conversation\<close>

record PrunePreview =
  pp_logical_messages :: nat
  pp_envelopes :: nat
  pp_ciphertext_bytes :: nat

definition pending_envelope :: "database \<Rightarrow> logical_row \<Rightarrow> bool" where
  "pending_envelope d m =
     (\<exists>e \<in> set (envelopes d). er_logical_message_id e = lm_id m \<and> er_delivered_at_ms e = None)"

text \<open>The condition that the preview and the first two deletions share.\<close>

definition prunable :: "string \<Rightarrow> int \<Rightarrow> bool \<Rightarrow> database \<Rightarrow> logical_row \<Rightarrow> bool" where
  "prunable conv cutoff delivered_only d m =
     (lm_conversation_id m = conv \<and> lm_accepted_at_ms m < cutoff \<and> (\<not> delivered_only \<or> \<not> pending_envelope d m))"

definition prunable_ids :: "string \<Rightarrow> int \<Rightarrow> bool \<Rightarrow> database \<Rightarrow> string list" where
  "prunable_ids conv cutoff delivered_only d =
     map lm_id (filter (prunable conv cutoff delivered_only d) (logical_messages d))"

definition prune_preview :: "string \<Rightarrow> int \<Rightarrow> bool \<Rightarrow> database \<Rightarrow> PrunePreview" where
  "prune_preview conv cutoff delivered_only d =
     (let ids = prunable_ids conv cutoff delivered_only d;
          joined = [e. i \<leftarrow> ids, e \<leftarrow> filter (\<lambda>e. er_logical_message_id e = i) (envelopes d)]
      in \<lparr>pp_logical_messages = length (remdups ids), pp_envelopes = length joined,
          pp_ciphertext_bytes = sum_list (map (\<lambda>e. length (er_ciphertext e)) joined)\<rparr>)"

text \<open>The second statement reads the envelopes that are about to go, the third one those that are left.\<close>

definition prune_tx :: "string \<Rightarrow> int \<Rightarrow> bool \<Rightarrow> database \<Rightarrow> database" where
  "prune_tx conv cutoff delivered_only d =
     (let d1 = d\<lparr>delivery_updates := delete_where
                  (\<lambda>u. dl_logical_message_id u \<in> set (prunable_ids conv cutoff delivered_only d)) (delivery_updates d)\<rparr>;
          d2 = snd (delete_envelopes (\<lambda>e. er_logical_message_id e \<in> set (prunable_ids conv cutoff delivered_only d1)) d1)
      in d2\<lparr>logical_messages := delete_where
              (\<lambda>m. lm_conversation_id m = conv \<and> lm_accepted_at_ms m < cutoff \<and> \<not> has_envelope d2 (lm_id m))
              (logical_messages d2)\<rparr>)"

definition i64_max :: int where
  "i64_max = 2 ^ 63 - 1"

definition prune_conversation :: "(PrunePreview \<Rightarrow> string) \<Rightarrow> (PrunePreview \<Rightarrow> string) \<Rightarrow> i64 \<Rightarrow> string \<Rightarrow> i64 option \<Rightarrow>
    bool \<Rightarrow> bool \<Rightarrow> admin_command" where
  "prune_conversation show_preview pretty now conv before_ms delivered_only yes d =
     (if length conv \<noteq> 64 \<or> \<not> list_all is_ascii_hexdigit conv
      then (bail ''conversation id must contain 64 hexadecimal characters'', d)
      else
       (let cutoff = coalesce before_ms i64_max; preview = prune_preview conv cutoff delivered_only d in
        if \<not> yes then (ok [pretty preview, dry_run_line], d)
        else (ok [pretty preview, ''conversation ciphertext pruned''],
              admin_audit ''prune_conversation'' conv (show_preview preview) now (prune_tx conv cutoff delivered_only d))))"

section \<open>The audit log\<close>

definition list_audit :: "(AdminAuditEvent list \<Rightarrow> string) \<Rightarrow> (AdminAuditEvent \<Rightarrow> string) \<Rightarrow> u32 \<Rightarrow> OutputFormat \<Rightarrow>
    database \<Rightarrow> printed" where
  "list_audit pretty show_one limit fmt d =
     (let rows = map audit_event_of (take (unat (u32_clamp limit 1 1000)) (sort_key (\<lambda>r. - au_id r) (audit_events d)))
      in (case fmt of Json \<Rightarrow> [pretty rows] | Table \<Rightarrow> map show_one rows))"

section \<open>Deleting an account\<close>

text \<open>The foreign keys of the schema.\<close>

definition fks_ok :: "database \<Rightarrow> bool" where
  "fks_ok d = (list_all (\<lambda>r. account_exists (dr_account_id r) d) (devices d)
     \<and> list_all (\<lambda>r. device_exists (pk_device_id r) d) (prekeys d)
     \<and> list_all (\<lambda>r. account_exists (lm_sender_account_id r) d \<and> device_exists (lm_sender_device_id r) d
          \<and> account_exists (lm_peer_account_id r) d) (logical_messages d)
     \<and> list_all (\<lambda>r. er_logical_message_id r \<in> lm_id ` set (logical_messages d)
          \<and> account_exists (er_sender_account_id r) d \<and> device_exists (er_sender_device_id r) d
          \<and> account_exists (er_recipient_account_id r) d \<and> device_exists (er_recipient_device_id r) d) (envelopes d)
     \<and> list_all (\<lambda>r. account_exists (dl_account_id r) d) (delivery_updates d)
     \<and> list_all (\<lambda>r. device_exists (pv_sender_device_id r) d \<and> device_exists (pv_target_device_id r) d) (pairing_events d)
     \<and> list_all (\<lambda>r. account_exists (us_account_id r) d) (storage_usage d))"

definition checked :: "(database \<Rightarrow> database) \<Rightarrow> database result \<Rightarrow> database result" where
  "checked stmt r = (case r of Inl x \<Rightarrow> Inl x
     | Inr d \<Rightarrow> if fks_ok (stmt d) then ok (stmt d) else Inl (Constraint ''FOREIGN KEY constraint failed''))"

definition messages_of :: "string \<Rightarrow> database \<Rightarrow> string list" where
  "messages_of a d = map lm_id (filter (\<lambda>m. lm_sender_account_id m = a \<or> lm_peer_account_id m = a) (logical_messages d))"

definition delete_pairing_of :: "string \<Rightarrow> database \<Rightarrow> database" where
  "delete_pairing_of a d = d\<lparr>pairing_events := delete_where
     (\<lambda>e. pv_sender_device_id e \<in> set (devices_of a d) \<or> pv_target_device_id e \<in> set (devices_of a d)) (pairing_events d)\<rparr>"

definition delete_updates_of :: "string \<Rightarrow> database \<Rightarrow> database" where
  "delete_updates_of a d = d\<lparr>delivery_updates := delete_where
     (\<lambda>u. dl_account_id u = a \<or> dl_logical_message_id u \<in> set (messages_of a d)) (delivery_updates d)\<rparr>"

definition delete_envelopes_of :: "string \<Rightarrow> database \<Rightarrow> database" where
  "delete_envelopes_of a d = snd (delete_envelopes (\<lambda>e. er_sender_account_id e = a \<or> er_recipient_account_id e = a
     \<or> er_logical_message_id e \<in> set (messages_of a d)) d)"

definition delete_messages_of :: "string \<Rightarrow> database \<Rightarrow> database" where
  "delete_messages_of a d = d\<lparr>logical_messages := delete_where
     (\<lambda>m. lm_sender_account_id m = a \<or> lm_peer_account_id m = a) (logical_messages d)\<rparr>"

definition delete_prekeys_of :: "string \<Rightarrow> database \<Rightarrow> database" where
  "delete_prekeys_of a d = d\<lparr>prekeys := delete_where (\<lambda>k. pk_device_id k \<in> set (devices_of a d)) (prekeys d)\<rparr>"

text \<open>The prekeys of a device and the usage row of an account go with it, \<open>ON DELETE CASCADE\<close>.\<close>

definition delete_devices_of :: "string \<Rightarrow> database \<Rightarrow> database" where
  "delete_devices_of a d = d\<lparr>prekeys := delete_where (\<lambda>k. pk_device_id k \<in> set (devices_of a d)) (prekeys d),
     devices := delete_where (\<lambda>r. dr_account_id r = a) (devices d)\<rparr>"

definition delete_account_row :: "string \<Rightarrow> database \<Rightarrow> database" where
  "delete_account_row a d = d\<lparr>storage_usage := delete_where (\<lambda>u. us_account_id u = a) (storage_usage d),
     accounts := delete_where (\<lambda>r. ar_id r = a) (accounts d)\<rparr>"

definition delete_user_records :: "string \<Rightarrow> database \<Rightarrow> database result" where
  "delete_user_records a d =
     checked (delete_account_row a) (checked (delete_devices_of a) (checked (delete_prekeys_of a)
       (checked (delete_messages_of a) (checked (delete_envelopes_of a) (checked (delete_updates_of a)
         (checked (delete_pairing_of a) (ok d)))))))"

definition delete_user :: "bool \<Rightarrow> bool \<Rightarrow> string \<Rightarrow> i64 \<Rightarrow> string \<Rightarrow> bool \<Rightarrow> database \<Rightarrow>
    (printed result \<times> AdminRequest list) \<times> database" where
  "delete_user backup_exists socket_exists typed now username0 yes d =
     (case normalize_username username0 of Inl x \<Rightarrow> ((Inl x, []), d)
      | Inr username \<Rightarrow>
        if \<not> backup_exists then ((bail ''an existing database backup file is required before deletion'', []), d)
        else
       (case find_account username d of None \<Rightarrow> ((bail ''account not found'', []), d)
        | Some a \<Rightarrow>
         (let device_count = show_nat (length (devices_of a d)); message_count = show_nat (length (messages_of a d));
              preview = ''delete preview: user='' @ username @ '' devices='' @ device_count
                @ '' logical_messages='' @ message_count
          in if \<not> yes
             then ((ok [preview, ''dry-run only; repeat with --yes and type the username to confirm''], []), d)
             else if trim typed \<noteq> username then ((bail ''delete confirmation did not match'', []), d)
             else
              (let kicks = disconnect_user_if_online socket_exists username ''account_deleted'' d in
               case delete_user_records a d of Inl x \<Rightarrow> ((Inl x, kicks), d)
               | Inr d' \<Rightarrow>
                   ((ok [preview, ''deleted account '' @ username], kicks),
                    admin_audit ''user_delete'' username
                      (''devices='' @ device_count @ '',logical_messages='' @ message_count) now d')))))"

end
