(* ===== verification/Admin_Properties.thy ===== *)
theory Admin_Properties
  imports Admin_Records
begin

text \<open>
  The administration commands keep the invariant of the database; the deletion of an account never
  fails on a foreign key and leaves nothing of the account but the audit log; the storage clean-up ends and
  removes exactly what was delivered before its cutoff; pruning a conversation removes exactly what its preview counts.
\<close>

section \<open>Deleting rows\<close>

lemma delete_updates_ok: "db_ok d \<Longrightarrow> db_ok (d\<lparr>delivery_updates := delete_where p (delivery_updates d)\<rparr>)"
  by (simp add: db_ok_defs seq_ok_delete_where distinct_map_delete_where)

lemma delete_messages_ok:
  assumes "db_ok d" "\<And>e. e \<in> set (envelopes d) \<Longrightarrow> er_logical_message_id e \<notin> lm_id ` {m \<in> set (logical_messages d). p m}"
  shows "db_ok (d\<lparr>logical_messages := delete_where p (logical_messages d)\<rparr>)"
proof -
  have "er_logical_message_id e \<in> lm_id ` set (delete_where p (logical_messages d))" if e: "e \<in> set (envelopes d)" for e
  proof -
    from envelope_refs [OF assms(1) e] obtain m where "m \<in> set (logical_messages d)" "er_logical_message_id e = lm_id m"
      by blast
    moreover from this assms(2) [OF e] have "\<not> p m" by blast
    ultimately show ?thesis by (metis in_delete_where imageI)
  qed
  with assms(1) show ?thesis by (simp add: db_ok_defs distinct_map_delete_where)
qed

text \<open>A device that no row refers to can go, and so can an account without devices and messages.\<close>

lemma delete_devices_ok:
  assumes ok: "db_ok d"
    and "\<And>m. m \<in> set (logical_messages d) \<Longrightarrow> lm_sender_account_id m \<noteq> a"
    and "\<And>e. e \<in> set (envelopes d) \<Longrightarrow> er_sender_account_id e \<noteq> a \<and> er_recipient_account_id e \<noteq> a"
    and "\<And>v. v \<in> set (pairing_events d) \<Longrightarrow> pv_sender_device_id v \<notin> set (devices_of a d) \<and> pv_target_device_id v \<notin> set (devices_of a d)"
  shows "db_ok (delete_devices_of a d)"
proof -
  let ?d = "delete_devices_of a d"
  have same [simp]: "accounts ?d = accounts d" "logical_messages ?d = logical_messages d" "envelopes ?d = envelopes d"
    "delivery_updates ?d = delivery_updates d" "pairing_events ?d = pairing_events d" "storage_usage ?d = storage_usage d"
    "devices ?d = delete_where (\<lambda>r. dr_account_id r = a) (devices d)"
    "prekeys ?d = delete_where (\<lambda>k. pk_device_id k \<in> set (devices_of a d)) (prekeys d)"
    "envelope_seq ?d = envelope_seq d" "delivery_seq ?d = delivery_seq d" "pairing_seq ?d = pairing_seq d"
    by (simp_all add: delete_devices_of_def)
  have ex: "device_exists i ?d" if "device_exists i d" "i \<notin> set (devices_of a d)" for i
  proof -
    from that(1) obtain r where r: "r \<in> set (devices d)" "dr_id r = i" by (auto simp: device_exists_def)
    with that(2) have "dr_account_id r \<noteq> a" by (auto simp: devices_of_def)
    with r(1) have "r \<in> set (devices ?d)" by simp
    with r(2) show ?thesis unfolding device_exists_def by blast
  qed
  have ofd: "device_of b i ?d" if "device_of b i d" "b \<noteq> a" for b i
    using that by (auto simp: device_of_def)
  have acc: "account_exists b ?d = account_exists b d" for b by (simp add: account_exists_def)
  have "keys_ok ?d" using ok by (simp add: db_ok_defs distinct_map_delete_where)
  moreover have "cursors_ok ?d" using ok by (simp add: db_ok_defs)
  moreover have "refs_ok ?d"
    using ok unfolding refs_ok_def db_ok_def acc same
    by (auto dest: assms(2-4) intro!: ex ofd)
  moreover have "ledger_ok ?d" using ok by (simp add: db_ok_defs)
  ultimately show ?thesis by (simp add: db_ok_def)
qed

lemma delete_account_ok:
  assumes ok: "db_ok d"
    and none: "\<And>r. r \<in> set (devices d) \<Longrightarrow> dr_account_id r \<noteq> a"
    and peer: "\<And>m. m \<in> set (logical_messages d) \<Longrightarrow> lm_peer_account_id m \<noteq> a"
    and updates: "\<And>u. u \<in> set (delivery_updates d) \<Longrightarrow> dl_account_id u \<noteq> a"
    and mail: "\<And>e. e \<in> set (envelopes d) \<Longrightarrow> er_sender_account_id e \<noteq> a"
  shows "db_ok (delete_account_row a d)"
proof -
  let ?d = "delete_account_row a d"
  have same [simp]: "devices ?d = devices d" "prekeys ?d = prekeys d" "logical_messages ?d = logical_messages d"
    "envelopes ?d = envelopes d" "delivery_updates ?d = delivery_updates d" "pairing_events ?d = pairing_events d"
    "accounts ?d = delete_where (\<lambda>r. ar_id r = a) (accounts d)"
    "storage_usage ?d = delete_where (\<lambda>u. us_account_id u = a) (storage_usage d)"
    "envelope_seq ?d = envelope_seq d" "delivery_seq ?d = delivery_seq d" "pairing_seq ?d = pairing_seq d"
    by (simp_all add: delete_account_row_def)
  have acc: "account_exists b ?d" if "account_exists b d" "b \<noteq> a" for b
    using that by (auto simp: account_exists_def)
  have ofd: "device_of b i ?d = device_of b i d" "device_exists i ?d = device_exists i d" for b i
    by (simp_all add: device_of_def device_exists_def)
  have usage: "usage_of (delete_where (\<lambda>u. us_account_id u = a) us) b = (if b = a then 0 else usage_of us b)" for us b
    by (induction us) (auto simp: usage_of_def)
  have "mail_ledger.owed es a = 0" if "\<forall>e \<in> set es. er_sender_account_id e \<noteq> a" for es
    using that by (induction es) (auto simp: mail_ledger.owed_def)
  then have "mail_ledger.owed (envelopes d) a = 0" using mail by blast
  moreover have "mail_ledger.balanced (storage_usage d) (envelopes d)" using ok by (simp add: db_ok_defs)
  ultimately have "ledger_ok ?d" by (simp add: ledger_ok_def mail_ledger.balanced_def usage)
  moreover have "keys_ok ?d" using ok by (simp add: db_ok_defs distinct_map_delete_where)
  moreover have "cursors_ok ?d" using ok by (simp add: db_ok_defs)
  moreover have "refs_ok ?d"
    using ok unfolding refs_ok_def db_ok_def ofd same
    by (auto dest: none peer updates intro!: acc)
  ultimately show ?thesis by (simp add: db_ok_def)
qed

lemma db_ok_fks: "db_ok d \<Longrightarrow> fks_ok d"
  unfolding fks_ok_def list_all_iff
  by (auto simp: db_ok_def refs_ok_def dest: device_of_exists intro: device_of_account)

lemma checked_ok: "db_ok (stmt d) \<Longrightarrow> checked stmt (ok d) = ok (stmt d)"
  by (simp add: checked_def db_ok_fks)

section \<open>Deleting an account\<close>

definition others_mail :: "string \<Rightarrow> database \<Rightarrow> envelope_row list" where
  "others_mail a d = filter (\<lambda>e. er_sender_account_id e \<noteq> a \<and> er_recipient_account_id e \<noteq> a
     \<and> er_logical_message_id e \<notin> set (messages_of a d)) (envelopes d)"

text \<open>
  C21. Deleting an account is complete and never blocked. On a sound database the transaction of
  \<open>delete_user_records\<close> violates no foreign key at any of its statements and keeps the database sound. Of the
  accounts, devices, prekeys, pairing events, messages, envelopes and delivery updates it removes exactly
  the rows of the account, of its devices and of the messages that it sent or received, and the account has no
  usage row left; every other row of these tables stays. The audit log is not touched: what it recorded
  of the account stays there.
\<close>

theorem account_deletion_complete:
  assumes ok: "db_ok d"
  shows "\<exists>d'. delete_user_records a d = ok d' \<and> db_ok d' \<and> \<not> account_exists a d'
    \<and> (\<forall>i. \<not> device_of a i d')
    \<and> accounts d' = delete_where (\<lambda>r. ar_id r = a) (accounts d)
    \<and> devices d' = delete_where (\<lambda>r. dr_account_id r = a) (devices d)
    \<and> prekeys d' = delete_where (\<lambda>k. device_of a (pk_device_id k) d) (prekeys d)
    \<and> pairing_events d' = delete_where (\<lambda>v. device_of a (pv_sender_device_id v) d \<or> device_of a (pv_target_device_id v) d)
        (pairing_events d)
    \<and> logical_messages d' = delete_where (\<lambda>m. lm_sender_account_id m = a \<or> lm_peer_account_id m = a) (logical_messages d)
    \<and> envelopes d' = others_mail a d
    \<and> delivery_updates d' = delete_where (\<lambda>u. dl_account_id u = a \<or> dl_logical_message_id u \<in> set (messages_of a d))
        (delivery_updates d)
    \<and> a \<notin> us_account_id ` set (storage_usage d') \<and> audit_events d' = audit_events d"
proof -
  define d1 where "d1 = delete_pairing_of a d"
  define d2 where "d2 = delete_updates_of a d1"
  define d3 where "d3 = delete_envelopes_of a d2"
  define d4 where "d4 = delete_messages_of a d3"
  define d5 where "d5 = delete_prekeys_of a d4"
  define d6 where "d6 = delete_devices_of a d5"
  define d7 where "d7 = delete_account_row a d6"
  have mem: "set (devices_of a d) = {i. device_of a i d}"
    by (auto simp: devices_of_def device_of_def)
  have t1: "devices d1 = devices d" "accounts d1 = accounts d" "logical_messages d1 = logical_messages d"
    "envelopes d1 = envelopes d" "delivery_updates d1 = delivery_updates d" "prekeys d1 = prekeys d"
    by (simp_all add: d1_def delete_pairing_of_def)
  have t2: "devices d2 = devices d" "accounts d2 = accounts d" "logical_messages d2 = logical_messages d"
    "envelopes d2 = envelopes d" "prekeys d2 = prekeys d" "pairing_events d2 = pairing_events d1"
    by (simp_all add: d2_def delete_updates_of_def t1)
  have ids: "messages_of a d2 = messages_of a d" "messages_of a d1 = messages_of a d"
    by (simp_all add: messages_of_def t1 t2)
  have t3: "devices d3 = devices d" "accounts d3 = accounts d" "logical_messages d3 = logical_messages d"
    "envelopes d3 = others_mail a d" "prekeys d3 = prekeys d" "pairing_events d3 = pairing_events d1"
    "delivery_updates d3 = delivery_updates d2"
    by (simp_all add: d3_def delete_envelopes_of_def delete_envelopes_def Let_def t2 ids delete_where_def others_mail_def
        conj_ac)
  have t4: "devices d4 = devices d" "accounts d4 = accounts d" "envelopes d4 = others_mail a d" "prekeys d4 = prekeys d"
    "pairing_events d4 = pairing_events d1" "delivery_updates d4 = delivery_updates d2"
    "logical_messages d4 = delete_where (\<lambda>m. lm_sender_account_id m = a \<or> lm_peer_account_id m = a) (logical_messages d)"
    by (simp_all add: d4_def delete_messages_of_def t3)
  have t5: "devices d5 = devices d" "accounts d5 = accounts d" "envelopes d5 = others_mail a d"
    "pairing_events d5 = pairing_events d1" "delivery_updates d5 = delivery_updates d2" "logical_messages d5 = logical_messages d4"
    by (simp_all add: d5_def delete_prekeys_of_def t4)
  have t6: "devices d6 = delete_where (\<lambda>r. dr_account_id r = a) (devices d)" "accounts d6 = accounts d"
    "envelopes d6 = others_mail a d" "pairing_events d6 = pairing_events d1" "delivery_updates d6 = delivery_updates d2"
    "logical_messages d6 = logical_messages d4" "prekeys d6 = delete_where (\<lambda>k. pk_device_id k \<in> set (devices_of a d)) (prekeys d5)"
    by (simp_all add: d6_def delete_devices_of_def t5 devices_of_def)
  have o1: "db_ok d1" unfolding d1_def delete_pairing_of_def by (rule delete_pairing_ok [OF ok])
  have o2: "db_ok d2" unfolding d2_def delete_updates_of_def by (rule delete_updates_ok [OF o1])
  have o3: "db_ok d3" unfolding d3_def delete_envelopes_of_def by (rule delete_envelopes_ok [OF o2])
  have o4: "db_ok d4"
    unfolding d4_def delete_messages_of_def
    by (rule delete_messages_ok [OF o3]) (auto simp: t3 others_mail_def messages_of_def)
  have o5: "db_ok d5" unfolding d5_def delete_prekeys_of_def by (rule delete_prekeys_ok [OF o4])
  have o6: "db_ok d6"
    unfolding d6_def
    by (rule delete_devices_ok [OF o5]) (auto simp: t5 t4 others_mail_def devices_of_def d1_def delete_pairing_of_def)
  have o7: "db_ok d7"
    unfolding d7_def
    by (rule delete_account_ok [OF o6]) (auto simp: t6 t4 others_mail_def d2_def delete_updates_of_def)
  have "delete_user_records a d = ok d7"
    using o1 o2 o3 o4 o5 o6 o7
    unfolding delete_user_records_def d7_def d6_def d5_def d4_def d3_def d2_def d1_def
    by (simp add: checked_ok)
  moreover have "\<not> account_exists a d7" "accounts d7 = delete_where (\<lambda>r. ar_id r = a) (accounts d)"
    "devices d7 = delete_where (\<lambda>r. dr_account_id r = a) (devices d)" "envelopes d7 = others_mail a d"
    by (auto simp: d7_def delete_account_row_def account_exists_def t6)
  moreover have "\<not> device_of a i d7" for i by (auto simp: device_of_def d7_def delete_account_row_def t6)
  moreover have "prekeys d7 = delete_where (\<lambda>k. device_of a (pk_device_id k) d) (prekeys d)"
  proof -
    have "devices_of a d4 = devices_of a d" by (simp add: devices_of_def t4)
    then have "prekeys d7 = delete_where (\<lambda>k. pk_device_id k \<in> set (devices_of a d))
        (delete_where (\<lambda>k. pk_device_id k \<in> set (devices_of a d)) (prekeys d))"
      by (simp add: d7_def delete_account_row_def t6) (simp add: d5_def delete_prekeys_of_def t4)
    then show ?thesis by (simp add: delete_where_def mem)
  qed
  moreover have "pairing_events d7 = delete_where (\<lambda>v. device_of a (pv_sender_device_id v) d \<or> device_of a (pv_target_device_id v) d)
      (pairing_events d)"
    by (simp add: d7_def delete_account_row_def t6) (simp add: d1_def delete_pairing_of_def mem)
  moreover have "logical_messages d7 = delete_where (\<lambda>m. lm_sender_account_id m = a \<or> lm_peer_account_id m = a) (logical_messages d)"
    by (simp add: d7_def delete_account_row_def t6 t4)
  moreover have "delivery_updates d7 = delete_where (\<lambda>u. dl_account_id u = a \<or> dl_logical_message_id u \<in> set (messages_of a d))
      (delivery_updates d)"
    by (simp add: d7_def delete_account_row_def t6) (simp add: d2_def delete_updates_of_def t1 ids)
  moreover have "a \<notin> us_account_id ` set (storage_usage d7)" by (auto simp: d7_def delete_account_row_def)
  moreover have "audit_events d7 = audit_events d"
    by (simp add: d7_def delete_account_row_def d6_def delete_devices_of_def d5_def delete_prekeys_of_def d4_def
        delete_messages_of_def d3_def delete_envelopes_of_def delete_envelopes_def Let_def d2_def delete_updates_of_def
        d1_def delete_pairing_of_def)
  ultimately show ?thesis using o7 by blast
qed

theorem account_deletion_complete_witness:
  "\<exists>d'. delete_user_records ''a'' sample_db_sent = ok d' \<and> db_ok d' \<and> envelopes d' = []
     \<and> devices d' = [sample_device ''e'' ''b'']"
proof -
  have "others_mail ''a'' sample_db_sent = []"
    by (simp add: others_mail_def sample_db_sent_def envelope_row_of_def)
  moreover have "delete_where (\<lambda>r. dr_account_id r = ''a'') (devices sample_db_sent) = [sample_device ''e'' ''b'']"
    by (simp add: sample_db_sent_def sample_db_def sample_device_def)
  ultimately show ?thesis using account_deletion_complete [OF sample_sent_ok, of "''a''"] by metis
qed

section \<open>The storage clean-up\<close>

lemma cleanup_batch_effect:
  assumes "db_ok d" "cleanup_delivered_envelopes t n d = (stats, d')"
  defines "m \<equiv> unat (u32_clamp n 1 10000)"
  shows "filter (\<lambda>r. \<not> delivered_before t r) (envelopes d') = filter (\<lambda>r. \<not> delivered_before t r) (envelopes d)"
    and "cs_envelopes stats < m \<Longrightarrow> filter (delivered_before t) (envelopes d') = []"
    and "cs_envelopes stats + length (filter (delivered_before t) (envelopes d')) = length (filter (delivered_before t) (envelopes d))"
    and "int (cs_ciphertext_bytes stats) + sum_list (map envelope_bytes (envelopes d')) = sum_list (map envelope_bytes (envelopes d))"
proof -
  define vs where "vs = map er_cursor (take m (sort_key er_cursor (filter (delivered_before t) (envelopes d))))"
  note eff = cleanup_delivered_unfold [OF assms(2), folded m_def, folded vs_def]
  have dist: "distinct (map er_cursor (envelopes d))"
    by (rule seq_ok_distinct [of _ "envelope_seq d"]) (use assms(1) in \<open>simp add: db_ok_def cursors_ok_def\<close>)
  have dv: "distinct vs"
    unfolding vs_def take_map [symmetric]
    by (intro distinct_take) (use dist in \<open>auto simp: distinct_map intro: inj_on_subset\<close>)
  have sub: "set vs \<subseteq> er_cursor ` set (filter (delivered_before t) (envelopes d))"
    by (auto simp: vs_def dest: in_set_takeD)
  have old: "delivered_before t r" if "r \<in> set (envelopes d)" "er_cursor r \<in> set vs" for r
  proof -
    from sub that(2) obtain q where "q \<in> set (envelopes d)" "delivered_before t q" "er_cursor q = er_cursor r" by auto
    with dist that(1) show ?thesis by (auto simp: distinct_map dest: inj_onD)
  qed
  have "filter (\<lambda>r. \<not> delivered_before t r) (envelopes d') = filter (\<lambda>r. er_cursor r \<notin> set vs \<and> \<not> delivered_before t r) (envelopes d)"
    using eff by (simp add: conj_commute)
  also have "\<dots> = filter (\<lambda>r. \<not> delivered_before t r) (envelopes d)"
    by (rule filter_cong) (use old in auto)
  finally show "filter (\<lambda>r. \<not> delivered_before t r) (envelopes d') = filter (\<lambda>r. \<not> delivered_before t r) (envelopes d)" .
  have count: "cs_envelopes stats = length vs"
    using eff length_filter_keys [OF dist _ dv] sub by auto
  show part: "cs_envelopes stats + length (filter (delivered_before t) (envelopes d')) = length (filter (delivered_before t) (envelopes d))"
  proof -
    have "filter (\<lambda>r. er_cursor r \<in> set vs) (envelopes d) = filter (\<lambda>r. er_cursor r \<in> set vs) (filter (delivered_before t) (envelopes d))"
      by (simp, rule filter_cong) (use old in auto)
    moreover have "filter (delivered_before t) (envelopes d') = filter (\<lambda>r. er_cursor r \<notin> set vs) (filter (delivered_before t) (envelopes d))"
      using eff by (simp add: conj_commute)
    ultimately show ?thesis
      using eff sum_length_filter_compl [of "\<lambda>r. er_cursor r \<in> set vs" "filter (delivered_before t) (envelopes d)"] by simp
  qed
  show "filter (delivered_before t) (envelopes d') = []" if "cs_envelopes stats < m"
    using part count that by (simp add: vs_def)
  show "int (cs_ciphertext_bytes stats) + sum_list (map envelope_bytes (envelopes d')) = sum_list (map envelope_bytes (envelopes d))"
    using eff sum_partition [of envelope_bytes "\<lambda>r. er_cursor r \<in> set vs" "envelopes d"] by simp
qed

lemma batch_limit: "unat (u32_clamp 1000 1 10000) = 1000"
  by (simp add: u32_clamp_def)

lemma cleanup_batch_tables:
  assumes "cleanup_delivered_envelopes t n d = (stats, d')"
  shows "d' = d\<lparr>envelopes := envelopes d', storage_usage := storage_usage d',
      delivery_updates := filter (\<lambda>u. has_envelope d' (dl_logical_message_id u)) (delivery_updates d),
      logical_messages := filter (\<lambda>l. has_envelope d' (lm_id l)) (logical_messages d)\<rparr>"
    and "cs_delivery_updates stats + length (delivery_updates d') = length (delivery_updates d)"
    and "cs_logical_messages stats + length (logical_messages d') = length (logical_messages d)"
proof -
  obtain vs where run: "(stats, d') = (case delete_envelopes (\<lambda>r. er_cursor r \<in> set vs) d of (removed, d1) \<Rightarrow>
      case drop_orphans d1 of (updates, logicals, d2) \<Rightarrow> (stats_of removed updates logicals, d2))"
    using assms unfolding cleanup_delivered_envelopes_def Let_def by metis
  define x where "x = delete_envelopes (\<lambda>r. er_cursor r \<in> set vs) d"
  have x: "delivery_updates (snd x) = delivery_updates d" "logical_messages (snd x) = logical_messages d"
    "snd x = d\<lparr>envelopes := envelopes (snd x), storage_usage := storage_usage (snd x)\<rparr>"
    by (simp_all add: x_def delete_envelopes_def Let_def)
  have stats: "stats = stats_of (fst x) (fst (drop_orphans (snd x))) (fst (snd (drop_orphans (snd x))))"
    and d': "d' = snd (snd (drop_orphans (snd x)))"
    using run by (simp_all add: x_def split: prod.splits)
  have has: "has_envelope d' = has_envelope (snd x)"
    by (simp add: d' has_envelope_def [abs_def] drop_orphans_simps)
  show "d' = d\<lparr>envelopes := envelopes d', storage_usage := storage_usage d',
      delivery_updates := filter (\<lambda>u. has_envelope d' (dl_logical_message_id u)) (delivery_updates d),
      logical_messages := filter (\<lambda>l. has_envelope d' (lm_id l)) (logical_messages d)\<rparr>"
    unfolding has unfolding d' drop_orphans_def Let_def snd_conv delete_where_def x(1,2) by (subst x(3)) simp
  show "cs_delivery_updates stats + length (delivery_updates d') = length (delivery_updates d)"
    "cs_logical_messages stats + length (logical_messages d') = length (logical_messages d)"
    unfolding stats d' stats_of_def drop_orphans_def Let_def
    using sum_length_filter_compl [of "\<lambda>r. has_envelope (snd x) (dl_logical_message_id r)" "delivery_updates d"]
      sum_length_filter_compl [of "\<lambda>r. has_envelope (snd x) (lm_id r)" "logical_messages d"]
    by (simp_all add: x(1,2) delete_where_def count_where_def)
qed

text \<open>What the loop leaves of a database, and what it adds to its totals.\<close>

definition cleaned :: "i64 \<Rightarrow> CleanupStats \<Rightarrow> database \<Rightarrow> CleanupStats \<Rightarrow> database \<Rightarrow> bool" where
  "cleaned cutoff t d t' d' \<longleftrightarrow>
     d' = d\<lparr>envelopes := filter (\<lambda>r. \<not> delivered_before cutoff r) (envelopes d), storage_usage := storage_usage d',
       delivery_updates := filter (\<lambda>u. has_envelope d' (dl_logical_message_id u)) (delivery_updates d),
       logical_messages := filter (\<lambda>l. has_envelope d' (lm_id l)) (logical_messages d)\<rparr>
     \<and> cs_envelopes t' = cs_envelopes t + length (filter (delivered_before cutoff) (envelopes d))
     \<and> int (cs_ciphertext_bytes t') + sum_list (map envelope_bytes (envelopes d'))
        = int (cs_ciphertext_bytes t) + sum_list (map envelope_bytes (envelopes d))
     \<and> cs_delivery_updates t' + length (delivery_updates d') = cs_delivery_updates t + length (delivery_updates d)
     \<and> cs_logical_messages t' + length (logical_messages d') = cs_logical_messages t + length (logical_messages d)"

lemma has_envelope_sub: "set (envelopes d') \<subseteq> set (envelopes d) \<Longrightarrow> has_envelope d' x \<Longrightarrow> has_envelope d x"
  by (auto simp: has_envelope_def)

lemma cleaned_step:
  assumes "d1 = d\<lparr>envelopes := envelopes d1, storage_usage := storage_usage d1,
      delivery_updates := filter (\<lambda>u. has_envelope d1 (dl_logical_message_id u)) (delivery_updates d),
      logical_messages := filter (\<lambda>l. has_envelope d1 (lm_id l)) (logical_messages d)\<rparr>"
    and "filter (\<lambda>r. \<not> delivered_before c r) (envelopes d1) = filter (\<lambda>r. \<not> delivered_before c r) (envelopes d)"
    and "d' = d1\<lparr>envelopes := filter (\<lambda>r. \<not> delivered_before c r) (envelopes d1), storage_usage := storage_usage d',
      delivery_updates := filter (\<lambda>u. has_envelope d' (dl_logical_message_id u)) (delivery_updates d1),
      logical_messages := filter (\<lambda>l. has_envelope d' (lm_id l)) (logical_messages d1)\<rparr>"
  shows "d' = d\<lparr>envelopes := filter (\<lambda>r. \<not> delivered_before c r) (envelopes d), storage_usage := storage_usage d',
      delivery_updates := filter (\<lambda>u. has_envelope d' (dl_logical_message_id u)) (delivery_updates d),
      logical_messages := filter (\<lambda>l. has_envelope d' (lm_id l)) (logical_messages d)\<rparr>"
proof -
  have envs: "envelopes d' = filter (\<lambda>r. \<not> delivered_before c r) (envelopes d1)"
    using arg_cong [OF assms(3), of envelopes] by simp
  have sub: "has_envelope d1 x \<and> has_envelope d' x \<longleftrightarrow> has_envelope d' x" for x
    using has_envelope_sub [of d' d1 x] by (auto simp: envs)
  have "delivery_updates d1 = filter (\<lambda>u. has_envelope d1 (dl_logical_message_id u)) (delivery_updates d)"
    "logical_messages d1 = filter (\<lambda>l. has_envelope d1 (lm_id l)) (logical_messages d)"
    using arg_cong [OF assms(1), of delivery_updates] arg_cong [OF assms(1), of logical_messages] by simp_all
  with assms(3) sub have "d' = d1\<lparr>envelopes := filter (\<lambda>r. \<not> delivered_before c r) (envelopes d), storage_usage := storage_usage d',
      delivery_updates := filter (\<lambda>u. has_envelope d' (dl_logical_message_id u)) (delivery_updates d),
      logical_messages := filter (\<lambda>l. has_envelope d' (lm_id l)) (logical_messages d)\<rparr>"
    by (simp add: assms(2))
  then show ?thesis by (subst (asm) assms(1)) simp
qed

lemma cleanup_loop_exact:
  assumes "db_ok d" "cleanup_loop cutoff t d = (t', d')"
  shows "db_ok d' \<and> cleaned cutoff t d t' d'"
  using assms
proof (induction cutoff t d rule: cleanup_loop.induct)
  case (1 cutoff t d)
  obtain b d1 where run: "cleanup_delivered_envelopes cutoff 1000 d = (b, d1)" by (metis prod.exhaust)
  note eff = cleanup_batch_effect [OF "1.prems"(1) run, unfolded batch_limit]
  note tables = cleanup_batch_tables [OF run]
  have ok1: "db_ok d1" using cleanup_delivered_ok [OF "1.prems"(1), of cutoff 1000] run by simp
  show ?case
  proof (cases "cs_envelopes b < 1000")
    case True
    with "1.prems"(2) have res: "t' = add_stats t b" "d' = d1"
      by (subst (asm) cleanup_loop.simps, simp add: run)+
    from eff(2) [OF True] have "filter (\<lambda>r. \<not> delivered_before cutoff r) (envelopes d1) = envelopes d1"
      by (simp add: filter_empty_conv filter_id_conv)
    with eff(1) have "envelopes d1 = filter (\<lambda>r. \<not> delivered_before cutoff r) (envelopes d)" by simp
    with eff(3,4) eff(2) [OF True] tables ok1 show ?thesis
      by (simp add: res cleaned_def add_stats_def)
  next
    case False
    with "1.prems"(2) have "cleanup_loop cutoff (add_stats t b) d1 = (t', d')"
      by (subst (asm) cleanup_loop.simps, simp add: run)
    from "1.IH" [OF refl refl refl, unfolded run fst_conv snd_conv, OF False ok1 this]
    have ih: "db_ok d'" "cleaned cutoff (add_stats t b) d1 t' d'" by simp_all
    from cleaned_step [OF tables(1) eff(1)] ih(2) eff(3,4) tables(2,3) ih(1) show ?thesis
      by (simp add: cleaned_def add_stats_def)
  qed
qed

text \<open>
  C23. The storage clean-up finishes and is exact. Without \<open>--yes\<close> the command changes nothing. With it, on a
  sound database, it ends, however many batches it takes, and removes exactly the envelopes that were
  delivered before the retention time, and the logical messages and delivery updates that are left without
  an envelope; every other table stays as it was, the audit log apart, and the database, with its ledger of
  bytes, stays sound. The totals it prints and records are the numbers of rows and bytes that are gone.
\<close>

theorem cleanup_storage_exact:
  assumes "db_ok d"
  shows "snd (cleanup_storage pretty show_stats pretty_stats now days False d) = d
    \<and> (\<exists>preview t d'. cleanup_storage pretty show_stats pretty_stats now days True d
          = (ok [preview, pretty_stats t],
             admin_audit ''storage_cleanup'' ''delivered_envelopes'' (show_stats t) now d')
        \<and> db_ok d' \<and> cleaned (now - uint days * 24 * 60 * 60 * 1000) no_stats d t d')"
proof -
  obtain t d' where run: "cleanup_loop (now - uint days * 24 * 60 * 60 * 1000) no_stats d = (t, d')" by (metis prod.exhaust)
  have "cleanup_storage pretty show_stats pretty_stats now days False d = (ok [p, dry_run_line], d)
      \<and> cleanup_storage pretty show_stats pretty_stats now days True d = (ok [p, pretty_stats t],
          admin_audit ''storage_cleanup'' ''delivered_envelopes'' (show_stats t) now d')" if "p = pretty (JObj
        [(''delivered_before_ms'', JInt (now - uint days * 24 * 60 * 60 * 1000)),
         (''envelopes'', JInt (int (length (filter (delivered_before (now - uint days * 24 * 60 * 60 * 1000)) (envelopes d))))),
         (''ciphertext_bytes'', JInt (sum_list (map envelope_bytes
            (filter (delivered_before (now - uint days * 24 * 60 * 60 * 1000)) (envelopes d)))))])" for p
    unfolding cleanup_storage_def Let_def run that by simp
  with cleanup_loop_exact [OF assms run] show ?thesis by (metis snd_conv)
qed

theorem cleanup_storage_exact_witness:
  "\<exists>(t :: CleanupStats) d'. cleanup_storage (\<lambda>_. []) (\<lambda>_. []) (\<lambda>_. []) (86400000 + 100) 1 True (snd (ack ''e'' ''v'' 20 sample_db_sent))
       = (ok [[], []], admin_audit ''storage_cleanup'' ''delivered_envelopes'' [] (86400000 + 100) d')
     \<and> envelopes d' = [] \<and> logical_messages d' = [] \<and> cs_envelopes t = 1 \<and> db_ok d'"
proof -
  let ?d = "snd (ack ''e'' ''v'' 20 sample_db_sent)"
  have evs: "envelopes ?d = [(envelope_row_of 1 ''a'' ''d'' 9 sample_envelope)\<lparr>er_delivered_at_ms := Some 20\<rparr>]"
    by (simp add: ack_def Let_def sample_db_sent_def envelope_row_of_def sample_envelope_def coalesce_def)
  obtain preview t d' where run: "cleanup_storage (\<lambda>_. []) (\<lambda>_. []) (\<lambda>_. []) (86400000 + 100) 1 True ?d
       = (ok [preview, []], admin_audit ''storage_cleanup'' ''delivered_envelopes'' [] (86400000 + 100) d')"
    and ok': "db_ok d'" and c: "cleaned (86400000 + 100 - uint (1 :: u32) * 24 * 60 * 60 * 1000) no_stats ?d t d'"
    using conjunct2 [OF cleanup_storage_exact [OF ack_ok [OF sample_sent_ok], of "\<lambda>_. []" "\<lambda>_. []" "\<lambda>_. []" "86400000 + 100" 1]]
    by blast
  have "preview = []" using run by (simp add: cleanup_storage_def Let_def split: prod.splits)
  have c: "cleaned 100 no_stats ?d t d'" using c by simp
  have old: "delivered_before 100 (r\<lparr>er_delivered_at_ms := Some 20\<rparr>)" for r :: envelope_row
    by (simp add: delivered_before_def)
  have gone: "envelopes d' = []"
    using arg_cong [OF conjunct1 [OF c [unfolded cleaned_def]], of envelopes] by (simp add: evs old)
  have "logical_messages d' = []"
    using arg_cong [OF conjunct1 [OF c [unfolded cleaned_def]], of logical_messages] by (simp add: has_envelope_def gone)
  moreover have "cs_envelopes t = 1" using c by (simp add: cleaned_def evs old no_stats_def)
  ultimately have "envelopes d' = [] \<and> logical_messages d' = [] \<and> cs_envelopes t = 1 \<and> db_ok d'"
    using gone ok' by simp
  with run [unfolded \<open>preview = []\<close>] show ?thesis
    by blast
qed

section \<open>Pruning a conversation\<close>

lemma prune_second_read:
  "prunable_ids conv cutoff del (d\<lparr>delivery_updates := us\<rparr>) = prunable_ids conv cutoff del d"
  by (simp add: prunable_ids_def prunable_def [abs_def] pending_envelope_def)

lemma prune_unfold:
  fixes conv cutoff del
  assumes "db_ok d"
  defines "ids \<equiv> set (prunable_ids conv cutoff del d)"
  shows "envelopes (prune_tx conv cutoff del d) = filter (\<lambda>e. er_logical_message_id e \<notin> ids) (envelopes d)
    \<and> delivery_updates (prune_tx conv cutoff del d) = delete_where (\<lambda>u. dl_logical_message_id u \<in> ids) (delivery_updates d)
    \<and> db_ok (prune_tx conv cutoff del d)"
proof -
  define d1 where "d1 = d\<lparr>delivery_updates := delete_where (\<lambda>u. dl_logical_message_id u \<in> ids) (delivery_updates d)\<rparr>"
  define d2 where "d2 = snd (delete_envelopes (\<lambda>e. er_logical_message_id e \<in> ids) d1)"
  have tx: "prune_tx conv cutoff del d = d2\<lparr>logical_messages := delete_where
      (\<lambda>m. lm_conversation_id m = conv \<and> lm_accepted_at_ms m < cutoff \<and> \<not> has_envelope d2 (lm_id m)) (logical_messages d2)\<rparr>"
    unfolding prune_tx_def Let_def d2_def d1_def ids_def prune_second_read ..
  have "db_ok d2" unfolding d2_def d1_def by (intro delete_envelopes_ok delete_updates_ok assms(1))
  then have "db_ok (prune_tx conv cutoff del d)"
    unfolding tx by (rule delete_messages_ok) (auto simp: has_envelope_def)
  moreover have "envelopes d2 = filter (\<lambda>e. er_logical_message_id e \<notin> ids) (envelopes d)"
      "delivery_updates d2 = delete_where (\<lambda>u. dl_logical_message_id u \<in> ids) (delivery_updates d)"
    by (simp_all add: d2_def d1_def delete_envelopes_def Let_def delete_where_def)
  ultimately show ?thesis by (simp add: tx)
qed

lemma prune_messages:
  assumes "db_ok d"
  shows "logical_messages (prune_tx conv cutoff del d) =
    delete_where (\<lambda>m. prunable conv cutoff del d m
        \<or> lm_conversation_id m = conv \<and> lm_accepted_at_ms m < cutoff \<and> \<not> has_envelope d (lm_id m)) (logical_messages d)"
proof -
  let ?ids = "set (prunable_ids conv cutoff del d)"
  define d2 where "d2 = snd (delete_envelopes (\<lambda>e. er_logical_message_id e \<in> ?ids)
      (d\<lparr>delivery_updates := delete_where (\<lambda>u. dl_logical_message_id u \<in> ?ids) (delivery_updates d)\<rparr>))"
  have env: "envelopes d2 = filter (\<lambda>e. er_logical_message_id e \<notin> ?ids) (envelopes d)"
    and msg: "logical_messages d2 = logical_messages d"
    by (simp_all add: d2_def delete_envelopes_def Let_def delete_where_def)
  have "has_envelope d2 i = (has_envelope d i \<and> i \<notin> ?ids)" for i
    by (auto simp: has_envelope_def env)
  moreover have "lm_id m \<in> ?ids \<longleftrightarrow> prunable conv cutoff del d m" if "m \<in> set (logical_messages d)" for m
    using assms that by (auto simp: prunable_ids_def db_ok_def keys_ok_def distinct_map dest: inj_onD)
  ultimately show ?thesis
    unfolding prune_tx_def Let_def prune_second_read d2_def [symmetric]
    by (auto simp: delete_where_def msg prunable_def intro!: filter_cong)
qed

lemma sum_concat_filter:
  "distinct ids \<Longrightarrow> sum_list (map g [e. i \<leftarrow> ids, e \<leftarrow> filter (\<lambda>e. f e = i) es]) =
     (sum_list (map g (filter (\<lambda>e. f e \<in> set ids) es)) :: nat)"
proof (induction ids)
  case (Cons i ids)
  have "sum_list (map g (filter (\<lambda>e. f e = i \<or> f e \<in> set ids) es)) =
      sum_list (map g (filter (\<lambda>e. f e = i) es)) + sum_list (map g (filter (\<lambda>e. f e \<in> set ids) es))"
    using Cons.prems by (induction es) auto
  with Cons show ?case by simp
qed simp

lemma length_concat_filter:
  "distinct ids \<Longrightarrow> length [e. i \<leftarrow> ids, e \<leftarrow> filter (\<lambda>e. f e = i) es] = length (filter (\<lambda>e. f e \<in> set ids) es)"
  using sum_concat_filter [of ids "\<lambda>_. 1" f es] by (simp add: sum_list_triv)

lemma prunable_without_envelope:
  "lm_conversation_id m = conv \<Longrightarrow> lm_accepted_at_ms m < cutoff \<Longrightarrow> \<not> has_envelope d (lm_id m) \<Longrightarrow> prunable conv cutoff del d m"
  by (auto simp: prunable_def pending_envelope_def has_envelope_def)

lemma prune_messages_exact:
  "db_ok d \<Longrightarrow> logical_messages (prune_tx conv cutoff del d) = delete_where (prunable conv cutoff del d) (logical_messages d)"
  unfolding prune_messages delete_where_def using prunable_without_envelope by (intro filter_cong) blast+

lemma prune_other_tables:
  "prune_tx conv cutoff del d = d\<lparr>logical_messages := logical_messages (prune_tx conv cutoff del d),
     envelopes := envelopes (prune_tx conv cutoff del d), delivery_updates := delivery_updates (prune_tx conv cutoff del d),
     storage_usage := storage_usage (prune_tx conv cutoff del d)\<rparr>"
  by (simp add: prune_tx_def Let_def delete_envelopes_def)

text \<open>
  C22. Pruning removes exactly what its preview counts. On a sound database the transaction of
  \<open>prune_conversation\<close> keeps the database sound. Let the counted messages be those of the conversation that
  were accepted before the cutoff and, with \<open>delivered_only\<close>, wait for no delivery. The messages, envelopes and
  delivery updates that stay are exactly those that are not, or not of, a counted message, in their order;
  so nothing of another conversation or after the cutoff goes, and with \<open>delivered_only\<close> no undelivered
  envelope. The preview's numbers of messages, envelopes and bytes are those of what was removed, and no other
  table but the ledger of the stored bytes changes.
\<close>

theorem prune_matches_preview:
  fixes conv cutoff delivered_only
  assumes ok: "db_ok d"
  defines "p \<equiv> prune_preview conv cutoff delivered_only d" and "d' \<equiv> prune_tx conv cutoff delivered_only d"
  defines "counted \<equiv> lm_id ` {m \<in> set (logical_messages d). lm_conversation_id m = conv \<and> lm_accepted_at_ms m < cutoff
      \<and> (\<not> delivered_only \<or> \<not> pending_envelope d m)}"
  shows "db_ok d'
    \<and> logical_messages d' = filter (\<lambda>m. lm_id m \<notin> counted) (logical_messages d)
    \<and> envelopes d' = filter (\<lambda>e. er_logical_message_id e \<notin> counted) (envelopes d)
    \<and> delivery_updates d' = filter (\<lambda>u. dl_logical_message_id u \<notin> counted) (delivery_updates d)
    \<and> d' = d\<lparr>logical_messages := logical_messages d', envelopes := envelopes d', delivery_updates := delivery_updates d',
         storage_usage := storage_usage d'\<rparr>
    \<and> pp_logical_messages p + length (logical_messages d') = length (logical_messages d)
    \<and> pp_envelopes p + length (envelopes d') = length (envelopes d)
    \<and> pp_ciphertext_bytes p + sum_list (map (\<lambda>e. length (er_ciphertext e)) (envelopes d'))
        = sum_list (map (\<lambda>e. length (er_ciphertext e)) (envelopes d))
    \<and> (delivered_only \<longrightarrow> (\<forall>e \<in> set (envelopes d) - set (envelopes d'). er_delivered_at_ms e \<noteq> None))"
proof -
  let ?ids = "prunable_ids conv cutoff delivered_only d" and ?len = "\<lambda>e. length (er_ciphertext e)"
  let ?counted = "\<lambda>e. er_logical_message_id e \<in> counted"
  have ids: "set ?ids = counted" by (auto simp: prunable_ids_def prunable_def counted_def)
  have keys: "distinct (map lm_id (logical_messages d))" using ok by (simp add: db_ok_def keys_ok_def)
  have dist: "distinct ?ids" unfolding prunable_ids_def by (rule distinct_map_filter [OF keys])
  have inj: "inj_on lm_id (set (logical_messages d))" using keys by (simp add: distinct_map)
  note eff = prune_unfold [OF ok, of conv cutoff delivered_only, folded d'_def, unfolded ids]
  have member: "lm_id m \<in> counted \<longleftrightarrow> prunable conv cutoff delivered_only d m" if "m \<in> set (logical_messages d)" for m
    using inj that by (auto simp: ids [symmetric] prunable_ids_def dest: inj_onD)
  have msgs: "logical_messages d' = filter (\<lambda>m. lm_id m \<notin> counted) (logical_messages d)"
    unfolding d'_def prune_messages_exact [OF ok] delete_where_def by (rule filter_cong) (simp_all add: member)
  have len: "sum_list (map ?len (filter q es)) + sum_list (map ?len (filter (\<lambda>e. \<not> q e) es)) = sum_list (map ?len es)"
    for q es by (induction es) auto
  have "pp_envelopes p = length (filter ?counted (envelopes d))"
      "pp_ciphertext_bytes p = sum_list (map ?len (filter ?counted (envelopes d)))"
      "pp_logical_messages p = length ?ids"
    using length_concat_filter [OF dist] sum_concat_filter [OF dist] dist
    by (simp_all add: p_def prune_preview_def Let_def distinct_remdups_id ids)
  moreover have "length ?ids = length (filter (\<lambda>m. lm_id m \<in> counted) (logical_messages d))"
    unfolding prunable_ids_def length_map by (rule arg_cong [where f = length], rule filter_cong) (simp_all add: member)
  moreover have "\<forall>e \<in> set (envelopes d) - set (envelopes d'). er_delivered_at_ms e \<noteq> None" if "delivered_only"
    using that eff by (fastforce simp: counted_def pending_envelope_def)
  moreover have "d' = d\<lparr>logical_messages := logical_messages d', envelopes := envelopes d', delivery_updates := delivery_updates d',
         storage_usage := storage_usage d'\<rparr>"
    unfolding d'_def by (rule prune_other_tables)
  ultimately show ?thesis
    using eff msgs len [of ?counted "envelopes d"] sum_length_filter_compl [of ?counted "envelopes d"]
      sum_length_filter_compl [of "\<lambda>m. lm_id m \<in> counted" "logical_messages d"]
    by (simp add: delete_where_def)
qed

theorem prune_matches_preview_witness:
  "envelopes (prune_tx (conversation_id (\<lambda>_. [7]) ''a'' ''b'') 100 False sample_db_sent) = []
   \<and> envelopes (prune_tx ''c'' 100 False sample_db_sent) = envelopes sample_db_sent
   \<and> pp_envelopes (prune_preview ''c'' 100 False sample_db_sent) = 0"
proof -
  have "length (conversation_id (\<lambda>_. [7]) ''a'' ''b'') \<noteq> length ''c''" by (simp add: conversation_id_def)
  then have other: "conversation_id (\<lambda>_. [7]) ''a'' ''b'' \<noteq> ''c''" by auto
  obtain m :: logical_row where m: "logical_messages sample_db_sent = [m]" "lm_id m = ''l''" "lm_accepted_at_ms m = 9"
      "lm_conversation_id m = conversation_id (\<lambda>_. [7]) ''a'' ''b''"
    by (simp add: sample_db_sent_def)
  have counted: "lm_id ` {m \<in> set (logical_messages sample_db_sent). lm_conversation_id m = conv \<and> lm_accepted_at_ms m < 100
      \<and> (\<not> False \<or> \<not> pending_envelope sample_db_sent m)}
      = (if conversation_id (\<lambda>_. [7]) ''a'' ''b'' = conv then {''l''} else {})" for conv
    using m(2,3,4) by (simp add: m(1) Collect_conv_if conj_commute)
  have mail: "map er_logical_message_id (envelopes sample_db_sent) = [''l'']"
    by (simp add: sample_db_sent_def envelope_row_of_def sample_envelope_def)
  note eff = prune_matches_preview [OF sample_sent_ok, of _ 100 False, unfolded counted]
  have "envelopes (prune_tx (conversation_id (\<lambda>_. [7]) ''a'' ''b'') 100 False sample_db_sent) = []"
    using conjunct1 [OF conjunct2 [OF conjunct2 [OF eff]], of "conversation_id (\<lambda>_. [7]) ''a'' ''b''"] mail
    by (auto simp: map_eq_Cons_conv)
  moreover have stays: "envelopes (prune_tx ''c'' 100 False sample_db_sent) = envelopes sample_db_sent"
    using conjunct1 [OF conjunct2 [OF conjunct2 [OF eff]], of "''c''"] other by simp
  moreover have "pp_envelopes (prune_preview ''c'' 100 False sample_db_sent) = 0"
    using eff [of "''c''"] stays by simp
  ultimately show ?thesis by blast
qed

end
