(* ===== verification/Admin_Ui.thy ===== *)
theory Admin_Ui
  imports Admin_Records Ws_Sample
begin

text \<open>
  The administration terminal, \<open>crates/server/src/admin_ui.rs\<close>: what a key does to its state and which
  requests it sends. The socket is an argument: a service that answers a request and may change the
  server. Drawing is left out but for the rows that it lists, which bound the selection.
\<close>

section \<open>State\<close>

text \<open>The local variables of \<open>run\<close>.\<close>

record ui =
  ui_snapshot :: AdminSnapshot
  ui_tab :: nat
  ui_selected :: nat
  ui_status :: string
  ui_confirm_kick :: "uuid option"

type_synonym 'w service = "AdminRequest \<Rightarrow> 'w \<Rightarrow> AdminResponse result \<times> 'w"

datatype UiCode =
    UiChar string | UiF nat
  | UiEnter | UiEsc | UiTab | UiBackTab | UiUp | UiDown | UiDelete
  | UiOther

text \<open>A step ends with a state, or ends the loop, regularly or with an error.\<close>

datatype ui_step = Drawn ui | Left | Broken failure

section \<open>Texts\<close>

text \<open>The texts of the status line in UTF-8.\<close>

definition zh_welcome :: string where
  "zh_welcome = utf8_text [0x54, 0x61, 0x62, 0x20, 0xE5, 0x88, 0x87, 0xE6, 0x8D, 0xA2, 0xE9, 0xA1, 0xB5, 0xE9, 0x9D, 0xA2,
     0x20, 0xC2, 0xB7, 0x20, 0x46, 0x35, 0x20, 0xE5, 0x88, 0xB7, 0xE6, 0x96, 0xB0, 0x20, 0xC2, 0xB7, 0x20, 0x44, 0x65, 0x6C,
     0x65, 0x74, 0x65, 0x20, 0xE7, 0xAE, 0xA1, 0xE7, 0x90, 0x86, 0xE5, 0x9C, 0xA8, 0xE7, 0xBA, 0xBF, 0xE4, 0xBC, 0x9A, 0xE8,
     0xAF, 0x9D, 0x20, 0xC2, 0xB7, 0x20, 0x43, 0x74, 0x72, 0x6C, 0x2D, 0x43, 0x20, 0xE9, 0x80, 0x80, 0xE5, 0x87, 0xBA]"

definition zh_cancelled :: string where
  "zh_cancelled = utf8_text [0xE5, 0xB7, 0xB2, 0xE5, 0x8F, 0x96, 0xE6, 0xB6, 0x88]"

definition zh_refreshed :: string where
  "zh_refreshed = utf8_text [0xE5, 0xB7, 0xB2, 0xE5, 0x88, 0xB7, 0xE6, 0x96, 0xB0]"

definition kick_prompt :: "AdminSession \<Rightarrow> string" where
  "kick_prompt session = utf8_text [0xE6, 0x8C, 0x89, 0x20, 0x45, 0x6E, 0x74, 0x65, 0x72, 0x20, 0xE8, 0xB8, 0xA2, 0xE4, 0xB8, 0x8B,
     0xE7, 0xBA, 0xBF, 0x20] @ ads_username session @ '' / '' @ ads_device_id session
     @ utf8_text [0xEF, 0xBC, 0x8C, 0x45, 0x73, 0x63, 0x20, 0xE5, 0x8F, 0x96, 0xE6, 0xB6, 0x88]"

section \<open>Rows\<close>

definition dashboard_rows :: "AdminSnapshot \<Rightarrow> string list" where
  "dashboard_rows s = [
     utf8_text [0xE7, 0x94, 0xA8, 0xE6, 0x88, 0xB7, 0xEF, 0xBC, 0x9A] @ show_nat (length (snap_users s)),
     utf8_text [0xE5, 0x9C, 0xA8, 0xE7, 0xBA, 0xBF, 0xE4, 0xBC, 0x9A, 0xE8, 0xAF, 0x9D, 0xEF, 0xBC, 0x9A]
       @ show_nat (length (snap_sessions s)),
     utf8_text [0xE8, 0x81, 0x8A, 0xE5, 0xA4, 0xA9, 0xE4, 0xBC, 0x9A, 0xE8, 0xAF, 0x9D, 0xEF, 0xBC, 0x9A]
       @ show_nat (length (snap_conversations s)),
     utf8_text [0xE6, 0x9C, 0x80, 0xE8, 0xBF, 0x91, 0xE5, 0xAE, 0xA1, 0xE8, 0xAE, 0xA1, 0xE4, 0xBA, 0x8B, 0xE4, 0xBB, 0xB6,
       0xEF, 0xBC, 0x9A] @ show_nat (length (snap_audit s))]"

definition user_row :: "AdminUser \<Rightarrow> string" where
  "user_row u = adu_username u @ ''  '' @ adu_state u @ ''  active='' @ show_nat (adu_active_devices u) @ '' pending=''
     @ show_nat (adu_pending_devices u) @ '' password_change='' @ show_bool (adu_password_change_required u)"

definition session_row :: "(uuid \<Rightarrow> string) \<Rightarrow> AdminSession \<Rightarrow> string" where
  "session_row show_uuid s = show_uuid (ads_session_id s) @ ''  '' @ ads_username s @ ''  '' @ ads_device_id s @ ''  ''
     @ ads_source_ip s @ ''  pending='' @ show_bool (ads_pending s)"

definition conversation_row :: "AdminConversation \<Rightarrow> string" where
  "conversation_row c = adc_first_username c @ utf8_text [0x20, 0xE2, 0x86, 0x94, 0x20] @ adc_second_username c
     @ ''  messages='' @ show_nat (adc_logical_messages c) @ '' envelopes='' @ show_nat (adc_envelopes c) @ '' bytes=''
     @ show_nat (adc_ciphertext_bytes c) @ '' undelivered='' @ show_nat (adc_undelivered_envelopes c)"

definition audit_row_text :: "AdminAuditEvent \<Rightarrow> string" where
  "audit_row_text e = show_int (ada_occurred_at_ms e) @ ''  '' @ ada_category e @ ''  '' @ ada_actor e @ ''  ''
     @ ada_action e @ ''  '' @ ada_result e"

definition rows_for :: "(uuid \<Rightarrow> string) \<Rightarrow> AdminSnapshot \<Rightarrow> nat \<Rightarrow> string list" where
  "rows_for show_uuid s t =
     (if t = 0 then dashboard_rows s
      else if t = 1 then map user_row (snap_users s)
      else if t = 2 then map (session_row show_uuid) (snap_sessions s)
      else if t = 3 then map conversation_row (snap_conversations s)
      else map audit_row_text (snap_audit s))"

section \<open>Requests\<close>

definition load_snapshot :: "'w service \<Rightarrow> 'w \<Rightarrow> AdminSnapshot result \<times> 'w" where
  "load_snapshot send w = (case send Snapshot w of
       (Inl x, w') \<Rightarrow> (Inl x, w')
     | (Inr response, w') \<Rightarrow>
         (if \<not> resp_ok response then bail (resp_message response)
          else (case resp_snapshot response of None \<Rightarrow> bail ''admin server returned no snapshot'' | Some s \<Rightarrow> ok s), w'))"

definition ui_start :: "AdminSnapshot \<Rightarrow> ui" where
  "ui_start s = \<lparr>ui_snapshot = s, ui_tab = 0, ui_selected = 0, ui_status = zh_welcome, ui_confirm_kick = None\<rparr>"

section \<open>Keys\<close>

definition confirm_key :: "'w service \<Rightarrow> uuid \<Rightarrow> UiCode \<Rightarrow> ui \<Rightarrow> 'w \<Rightarrow> ui_step \<times> 'w" where
  "confirm_key send session_id code u w = (case code of
       UiEnter \<Rightarrow> (case send (KickSession session_id) w of
           (Inl x, w1) \<Rightarrow> (Broken x, w1)
         | (Inr response, w1) \<Rightarrow> (case load_snapshot send w1 of
             (Inl x, w2) \<Rightarrow> (Broken x, w2)
           | (Inr s, w2) \<Rightarrow> (Drawn (u\<lparr>ui_snapshot := s,
               ui_selected := min (ui_selected u) (length (snap_sessions s) - 1),
               ui_status := resp_message response, ui_confirm_kick := None\<rparr>), w2)))
     | UiEsc \<Rightarrow> (Drawn (u\<lparr>ui_status := zh_cancelled, ui_confirm_kick := None\<rparr>), w)
     | _ \<Rightarrow> (Drawn u, w))"

definition browse_key :: "'w service \<Rightarrow> (uuid \<Rightarrow> string) \<Rightarrow> UiCode \<Rightarrow> ui \<Rightarrow> 'w \<Rightarrow> ui_step \<times> 'w" where
  "browse_key send show_uuid code u w = (case code of
       UiTab \<Rightarrow> (Drawn (u\<lparr>ui_tab := (ui_tab u + 1) mod 5, ui_selected := 0\<rparr>), w)
     | UiBackTab \<Rightarrow> (Drawn (u\<lparr>ui_tab := (ui_tab u + 5 - 1) mod 5, ui_selected := 0\<rparr>), w)
     | UiUp \<Rightarrow> (Drawn (u\<lparr>ui_selected := ui_selected u - 1\<rparr>), w)
     | UiDown \<Rightarrow> (Drawn (u\<lparr>ui_selected :=
         min (ui_selected u + 1) (length (rows_for show_uuid (ui_snapshot u) (ui_tab u)) - 1)\<rparr>), w)
     | UiF n \<Rightarrow> (if n \<noteq> 5 then (Drawn u, w)
         else (case load_snapshot send w of
             (Inl x, w') \<Rightarrow> (Broken x, w')
           | (Inr s, w') \<Rightarrow> (Drawn (u\<lparr>ui_snapshot := s, ui_status := zh_refreshed\<rparr>), w')))
     | UiDelete \<Rightarrow>
         (if ui_tab u = 2 \<and> ui_selected u < length (snap_sessions (ui_snapshot u))
          then let session = snap_sessions (ui_snapshot u) ! ui_selected u in
            (Drawn (u\<lparr>ui_status := kick_prompt session, ui_confirm_kick := Some (ads_session_id session)\<rparr>), w)
          else (Drawn u, w))
     | UiEsc \<Rightarrow> (Left, w)
     | _ \<Rightarrow> (Drawn u, w))"

definition ui_key :: "'w service \<Rightarrow> (uuid \<Rightarrow> string) \<Rightarrow> bool \<Rightarrow> UiCode \<Rightarrow> ui \<Rightarrow> 'w \<Rightarrow> ui_step \<times> 'w" where
  "ui_key send show_uuid ctrl code u w =
     (if ctrl \<and> code \<in> {UiChar ''c'', UiChar ''q''} then (Left, w)
      else case ui_confirm_kick u of
        Some session_id \<Rightarrow> confirm_key send session_id code u w
      | None \<Rightarrow> browse_key send show_uuid code u w)"

section \<open>A session at the terminal\<close>

text \<open>
  A service on the server: it may answer anything, and lose an answer, but changes the server only as
  \<open>dispatch\<close> does. Between two keys anything may happen on the server.
\<close>

definition serves :: "services \<Rightarrow> (uuid \<Rightarrow> string) \<Rightarrow> AppState service \<Rightarrow> bool" where
  "serves S show_uuid send \<longleftrightarrow> (\<forall>r w. snd (send r w) = w \<or> (\<exists>now. snd (send r w) = snd (dispatch S show_uuid now r w)))"

inductive ui_session :: "services \<Rightarrow> (uuid \<Rightarrow> string) \<Rightarrow> ui \<Rightarrow> AppState \<Rightarrow> bool" for S show_uuid where
  opened: "serves S show_uuid send \<Longrightarrow> load_snapshot send w = (ok s, w') \<Longrightarrow> ui_session S show_uuid (ui_start s) w'"
| pressed: "ui_session S show_uuid u w \<Longrightarrow> serves S show_uuid send \<Longrightarrow>
    ui_key send show_uuid ctrl code u w = (Drawn u', w') \<Longrightarrow> ui_session S show_uuid u' w'"
| elsewhere: "ui_session S show_uuid u w \<Longrightarrow> ui_session S show_uuid u w'"

text \<open>What the terminal asks for is on its status line.\<close>

definition asks_for :: "ui \<Rightarrow> AdminSession \<Rightarrow> bool" where
  "asks_for u session \<longleftrightarrow> ui_tab u = 2 \<and> ui_selected u < length (snap_sessions (ui_snapshot u))
     \<and> session = snap_sessions (ui_snapshot u) ! ui_selected u \<and> ui_status u = kick_prompt session"

definition ui_ok :: "ui \<Rightarrow> bool" where
  "ui_ok u \<longleftrightarrow> ui_tab u < 5 \<and> (\<forall>i. ui_confirm_kick u = Some i \<longrightarrow> (\<exists>session. asks_for u session \<and> ads_session_id session = i))"

lemma confirm_key_ok: "confirm_key send i code u w = (Drawn u', w') \<Longrightarrow> ui_ok u \<Longrightarrow> ui_ok u'"
  by (auto simp: confirm_key_def ui_ok_def split: UiCode.splits sum.splits prod.splits)

lemma browse_key_ok: "browse_key send sh code u w = (Drawn u', w') \<Longrightarrow> ui_confirm_kick u = None \<Longrightarrow> ui_ok u \<Longrightarrow> ui_ok u'"
  by (auto simp: browse_key_def ui_ok_def asks_for_def Let_def split: UiCode.splits sum.splits prod.splits if_splits)

lemma ui_session_ok: "ui_session S sh u w \<Longrightarrow> ui_ok u"
proof (induction rule: ui_session.induct)
  case (opened send w s w')
  show ?case by (simp add: ui_ok_def ui_start_def)
next
  case (pressed u w send ctrl code u' w')
  then show ?case
    by (auto simp: ui_key_def split: if_splits option.splits dest: confirm_key_ok browse_key_ok)
qed

lemma snapshot_request_same: "serves S sh send \<Longrightarrow> snd (load_snapshot send w) = w"
proof -
  assume "serves S sh send"
  then have "snd (send Snapshot w) = w \<or> (\<exists>now. snd (send Snapshot w) = snd (dispatch S sh now Snapshot w))"
    unfolding serves_def by blast
  then have "snd (send Snapshot w) = w" by (simp add: dispatch_def)
  then show ?thesis by (auto simp: load_snapshot_def split: prod.split sum.split)
qed

definition kicked :: "uuid \<Rightarrow> AppState \<Rightarrow> AppState \<Rightarrow> bool" where
  "kicked i w w' \<longleftrightarrow> w' = w \<or> (\<exists>d. w' = (snd (kick_session i ''admin_kick'' w))\<lparr>st_db := d\<rparr>)"

lemma kick_request: "serves S sh send \<Longrightarrow> kicked i w (snd (send (KickSession i) w))"
proof -
  assume "serves S sh send"
  moreover have "kicked i w (snd (dispatch S sh now (KickSession i) w))" for now
  proof (cases "kick_session i ''admin_kick'' w")
    case (Pair b w1)
    have "\<exists>d. w1 = w1\<lparr>st_db := d\<rparr>" by (rule exI [of _ "st_db w1"]) simp
    with Pair show ?thesis by (cases b) (auto simp: kicked_def dispatch_def)
  qed
  ultimately show ?thesis unfolding serves_def by (metis kicked_def)
qed

text \<open>
  C20. Only a confirmed request kicks a session. Whatever happens at the server between two keys, a key changes
  the server only if it is Enter while the terminal asks for a confirmation. The session that is then
  kicked is the selected one on the page of the sessions, which the status line names with its user and
  device, and nothing of the server changes but its disconnection and the database. The page is always one of the five.
\<close>

theorem admin_kick_confirmed:
  assumes "ui_session S sh u w" and "serves S sh send" and "ui_key send sh ctrl code u w = (r, w')"
  shows "ui_tab u < 5 \<and> (w' = w \<or> code = UiEnter
    \<and> (\<exists>session. asks_for u session \<and> ui_confirm_kick u = Some (ads_session_id session) \<and> kicked (ads_session_id session) w w'))"
proof -
  have ok: "ui_ok u" by (rule ui_session_ok [OF assms(1)])
  have s: "snd (load_snapshot send x) = x" for x by (rule snapshot_request_same [OF assms(2)])
  have same: "load_snapshot send x = (y, z) \<Longrightarrow> z = x" for x y z using s [of x] by simp
  have "w' = w \<or> code = UiEnter \<and> (\<exists>i. ui_confirm_kick u = Some i \<and> kicked i w w')"
  proof (cases "ui_confirm_kick u")
    case None
    with assms(3) show ?thesis
      by (auto simp: ui_key_def browse_key_def Let_def split: UiCode.splits sum.splits prod.splits if_splits dest: same)
  next
    case (Some i)
    with assms(3) kick_request [OF assms(2), of i w] show ?thesis
      by (auto simp: ui_key_def confirm_key_def split: UiCode.splits sum.splits prod.splits if_splits dest!: same)
  qed
  with ok show ?thesis by (auto simp: ui_ok_def)
qed

text \<open>A server with one session, and a terminal that asks for its end.\<close>

definition one_session :: AppState where
  "one_session = sample_world\<lparr>st_sessions := [(7, \<lparr>ls_id = 7, ls_account_id = ''a'', ls_username = ''ann'',
     ls_device_id = ''d'', ls_source_ip = V4 7, ls_connected_at_ms = 1, ls_last_seen_at_ms = 1, ls_pending = False\<rparr>)],
     st_receivers := [7]\<rparr>"

definition one_service :: "AppState service" where
  "one_service = dispatch sample_services (\<lambda>_. ''u'') 9"

definition asking :: ui where
  "asking = \<lparr>ui_snapshot = snapshot sample_services one_session, ui_tab = 2, ui_selected = 0,
     ui_status = kick_prompt (snap_sessions (snapshot sample_services one_session) ! 0), ui_confirm_kick = Some 7\<rparr>"

lemma one_session_listed: "snap_sessions (snapshot sample_services one_session) = [\<lparr>ads_session_id = 7, ads_account_id = ''a'',
     ads_username = ''ann'', ads_device_id = ''d'', ads_source_ip = ''ip'', ads_connected_at_ms = 1, ads_last_seen_at_ms = 1,
     ads_pending = False\<rparr>]"
  by (simp add: snapshot_def snapshot_sessions_def live_sessions_def one_session_def sample_services_def)

lemma one_service_serves: "serves sample_services (\<lambda>_. ''u'') one_service"
  by (auto simp: serves_def one_service_def)

lemma asking_session: "ui_session sample_services (\<lambda>_. ''u'') asking one_session"
proof -
  let ?s = "snapshot sample_services one_session"
  have l: "load_snapshot one_service one_session = (ok ?s, one_session)"
    by (simp add: load_snapshot_def one_service_def dispatch_def)
  note press = ui_session.pressed [OF _ one_service_serves, where ctrl = False]
  have "ui_session sample_services (\<lambda>_. ''u'') (ui_start ?s) one_session"
    by (rule ui_session.opened [OF one_service_serves l])
  then have "ui_session sample_services (\<lambda>_. ''u'') ((ui_start ?s)\<lparr>ui_tab := 1\<rparr>) one_session"
    by (rule press [where code = UiTab]) (simp add: ui_key_def browse_key_def ui_start_def)
  then have "ui_session sample_services (\<lambda>_. ''u'') ((ui_start ?s)\<lparr>ui_tab := 2\<rparr>) one_session"
    by (rule press [where code = UiTab]) (simp add: ui_key_def browse_key_def ui_start_def)
  then show ?thesis
    by (rule press [where code = UiDelete])
      (simp add: ui_key_def browse_key_def ui_start_def asking_def one_session_listed Let_def)
qed

theorem admin_kick_confirmed_witness:
  "map_of (st_disconnects (snd (ui_key one_service (\<lambda>_. ''u'') False UiEnter asking one_session))) 7 = Some ''admin_kick''
   \<and> (\<exists>session. asks_for asking session \<and> ads_session_id session = 7 \<and> ads_username session = ''ann''
     \<and> kicked 7 one_session (snd (ui_key one_service (\<lambda>_. ''u'') False UiEnter asking one_session)))"
proof -
  let ?w = "snd (ui_key one_service (\<lambda>_. ''u'') False UiEnter asking one_session)"
  have d: "map_of (st_disconnects ?w) 7 = Some ''admin_kick''"
    by (simp add: ui_key_def asking_def confirm_key_def one_service_def dispatch_def kick_session_def one_session_def
        disconnect_send_def response_success_def load_snapshot_def sample_world_def)
  then have "?w \<noteq> one_session" by (auto simp: one_session_def sample_world_def)
  with d admin_kick_confirmed [OF asking_session one_service_serves surjective_pairing, of False UiEnter]
  show ?thesis by (auto simp: asks_for_def asking_def one_session_listed)
qed

end
