(* ===== verification/Server_Main.thy ===== *)
theory Server_Main
  imports Admin_Records Ws_Sample
begin

text \<open>
  The command line of the server, \<open>crates/server/src/main.rs\<close>: which operation of the administration a command
  runs, with which parts of the configuration, and which requests to the running server follow it. What the
  tool reads from outside is the record \<open>cli\<close>. Serving (\<open>serve\<close>) is sockets and tasks around
  \<open>app_state_new\<close>, \<open>upgrade\<close>, the socket of \<open>Control\<close> and \<open>run_maintenance_once\<close>; it is an argument here, as the
  administration terminal is.
\<close>

section \<open>Commands\<close>

datatype UserCommand =
    UserAdd string bool
  | UserList
  | UserDisable string
  | UserEnable string
  | UserResetPassword string bool
  | UserResetDevices string
  | UserDelete string string bool
  | UserPurge string string bool

datatype DeviceCommand = DeviceList string | DeviceRevoke string string

datatype DbCommand = DbBackup string | DbCheck | DbCheckpoint

datatype SessionCommand = SessionList | SessionKick uuid

datatype ConversationCommand = ConversationList | ConversationPrune string "i64 option" bool bool

datatype StorageCommand = StorageUsage | StorageCleanup bool

datatype Command =
    Serve
  | Healthcheck
  | UserCmd UserCommand
  | DeviceCmd DeviceCommand
  | DbCmd DbCommand
  | SessionCmd SessionCommand
  | ConversationCmd ConversationCommand
  | AuditList u32
  | StorageCmd StorageCommand
  | AdminTerminal

section \<open>What a command reads from outside\<close>

record cli =
  cl_now :: i64
  cl_phc :: phc_ops
  cl_salt :: bytes
  cl_new_id :: string
  cl_random_password :: string
  cl_prompts :: "string \<times> string"
  cl_typed :: string
  cl_path_exists :: "string \<Rightarrow> bool"
  cl_send :: "AdminRequest \<Rightarrow> AdminResponse result"
  cl_free_disk :: u64
  cl_quick_check :: string
  cl_checkpoint :: "printed result"
  cl_health :: "bytes result"
  cl_serve :: "database \<Rightarrow> printed result \<times> database"
  cl_terminal :: "database \<Rightarrow> printed result \<times> database"
  cl_show_uuid :: "uuid \<Rightarrow> string"
  cl_json :: "json \<Rightarrow> string"
  cl_json_sessions :: "AdminSession list \<Rightarrow> string"
  cl_json_conversations :: "AdminConversation list \<Rightarrow> string"
  cl_json_audit :: "AdminAuditEvent list \<Rightarrow> string"
  cl_json_storage :: "StorageStatus \<Rightarrow> string"
  cl_json_preview :: "PrunePreview \<Rightarrow> string"
  cl_json_stats :: "CleanupStats \<Rightarrow> string"
  cl_audit_line :: "AdminAuditEvent \<Rightarrow> string"
  cl_preview_details :: "PrunePreview \<Rightarrow> string"
  cl_stats_details :: "CleanupStats \<Rightarrow> string"

text \<open>What is printed, the requests to the running server whose answers are not used, and the copy of a backup.\<close>

record outcome =
  oc_printed :: "printed result"
  oc_requests :: "AdminRequest list"
  oc_backup :: "database option"

definition only_prints :: "printed result \<Rightarrow> outcome" where
  "only_prints r = \<lparr>oc_printed = r, oc_requests = [], oc_backup = None\<rparr>"

definition password_source :: "cli \<Rightarrow> bool \<Rightarrow> password_source" where
  "password_source L generate_password = (if generate_password then Generated (cl_random_password L)
     else Prompted (fst (cl_prompts L)) (snd (cl_prompts L)))"

text \<open>\<open>first?; then\<close>: the requests are only sent after the command has succeeded, for the database it left.\<close>

definition and_notify :: "printed result \<times> database \<Rightarrow> (database \<Rightarrow> AdminRequest list) \<Rightarrow> outcome \<times> database" where
  "and_notify r requests = (case r of
       (Inl x, d) \<Rightarrow> (only_prints (Inl x), d)
     | (Inr p, d) \<Rightarrow> (\<lparr>oc_printed = ok p, oc_requests = requests d, oc_backup = None\<rparr>, d))"

abbreviation quietly :: "printed result \<times> database \<Rightarrow> outcome \<times> database" where
  "quietly r \<equiv> (only_prints (fst r), snd r)"

section \<open>Dispatch\<close>

definition run_user :: "cli \<Rightarrow> Config \<Rightarrow> OutputFormat \<Rightarrow> UserCommand \<Rightarrow> database \<Rightarrow> outcome \<times> database" where
  "run_user L cfg out c d =
     (let online = cl_path_exists L (cfg_admin_socket_path cfg);
          disconnect = (\<lambda>username. disconnect_user_if_online online username ''access_revoked'');
          delete = (\<lambda>username backup_path yes.
            (case delete_user (cl_path_exists L backup_path) online (cl_typed L) (cl_now L) username yes d of
              ((r, requests), d') \<Rightarrow> (\<lparr>oc_printed = r, oc_requests = requests, oc_backup = None\<rparr>, d'))) in
      case c of
        UserAdd username g \<Rightarrow>
          quietly (add_user (cl_phc L) (cl_salt L) (cl_new_id L) (cl_now L) username (password_source L g) d)
      | UserList \<Rightarrow> (only_prints (ok (list_users (cl_json L) out d)), d)
      | UserDisable username \<Rightarrow> and_notify (set_user_state (cl_now L) username ''disabled'' d) (disconnect username)
      | UserEnable username \<Rightarrow> quietly (set_user_state (cl_now L) username ''active'' d)
      | UserResetPassword username g \<Rightarrow>
          quietly (reset_password (cl_phc L) (cl_salt L) (cl_now L) username (password_source L g) d)
      | UserResetDevices username \<Rightarrow> and_notify (reset_devices (cl_now L) username d) (disconnect username)
      | UserDelete username backup_path yes \<Rightarrow> delete username backup_path yes
      | UserPurge username backup_path yes \<Rightarrow> delete username backup_path yes)"

definition run_device :: "cli \<Rightarrow> Config \<Rightarrow> OutputFormat \<Rightarrow> DeviceCommand \<Rightarrow> database \<Rightarrow> outcome \<times> database" where
  "run_device L cfg out c d = (case c of
        DeviceList username \<Rightarrow> (only_prints (list_devices (cl_json L) username out d), d)
      | DeviceRevoke username device_id \<Rightarrow> and_notify (revoke_device (cl_now L) username device_id d)
          (\<lambda>_. disconnect_device_if_online (cl_path_exists L (cfg_admin_socket_path cfg)) device_id))"

definition run_db_command :: "cli \<Rightarrow> DbCommand \<Rightarrow> database \<Rightarrow> outcome \<times> database" where
  "run_db_command L c d = (case c of
        DbBackup path \<Rightarrow> (case backup (cl_path_exists L path) path (cl_now L) d of
            ((r, copy), d') \<Rightarrow> (\<lparr>oc_printed = r, oc_requests = [], oc_backup = copy\<rparr>, d'))
      | DbCheck \<Rightarrow> (only_prints (check_database (cl_quick_check L)), d)
      | DbCheckpoint \<Rightarrow> (only_prints (cl_checkpoint L), d))"

definition run_session :: "cli \<Rightarrow> OutputFormat \<Rightarrow> SessionCommand \<Rightarrow> outcome" where
  "run_session L out c = only_prints (case c of
        SessionList \<Rightarrow> list_sessions (cl_show_uuid L) (cl_json_sessions L) (cl_send L) out
      | SessionKick session_id \<Rightarrow> admin_kick_session (cl_send L) session_id)"

definition run_conversation :: "cli \<Rightarrow> OutputFormat \<Rightarrow> ConversationCommand \<Rightarrow> database \<Rightarrow> outcome \<times> database" where
  "run_conversation L out c d = (case c of
        ConversationList \<Rightarrow> (only_prints (list_conversations (cl_json_conversations L) (cl_send L) out), d)
      | ConversationPrune conversation before_ms delivered_only yes \<Rightarrow>
          quietly (prune_conversation (cl_preview_details L) (cl_json_preview L) (cl_now L) conversation before_ms
            delivered_only yes d))"

definition run_storage :: "cli \<Rightarrow> Config \<Rightarrow> OutputFormat \<Rightarrow> StorageCommand \<Rightarrow> database \<Rightarrow> outcome \<times> database" where
  "run_storage L cfg out c d = (case c of
        StorageUsage \<Rightarrow> (only_prints (ok (print_storage_status (cl_json_storage L) out
            (storage_status (cl_free_disk L) (storage_limits cfg) d))), d)
      | StorageCleanup yes \<Rightarrow> quietly (cleanup_storage (cl_json L) (cl_stats_details L) (cl_json_stats L) (cl_now L)
            (cfg_delivered_retention_days cfg) yes d))"

text \<open>The first bytes of the answer to \<open>GET /readyz\<close>.\<close>

definition healthcheck :: "bytes result \<Rightarrow> printed result" where
  "healthcheck response = (case response of Inl x \<Rightarrow> Inl x
     | Inr r \<Rightarrow> if starts_with r (as_bytes ''HTTP/1.1 200'') then ok []
         else bail ''readiness endpoint did not return HTTP 200'')"

definition main_command :: "cli \<Rightarrow> Config \<Rightarrow> OutputFormat \<Rightarrow> Command \<Rightarrow> database \<Rightarrow> outcome \<times> database" where
  "main_command L cfg out c d = (case c of
        Serve \<Rightarrow> quietly (cl_serve L d)
      | Healthcheck \<Rightarrow> (only_prints (healthcheck (cl_health L)), d)
      | UserCmd u \<Rightarrow> run_user L cfg out u d
      | DeviceCmd v \<Rightarrow> run_device L cfg out v d
      | DbCmd b \<Rightarrow> run_db_command L b d
      | SessionCmd s \<Rightarrow> (run_session L out s, d)
      | ConversationCmd v \<Rightarrow> run_conversation L out v d
      | AuditList limit \<Rightarrow> (only_prints (ok (list_audit (cl_json_audit L) (cl_audit_line L) limit out d)), d)
      | StorageCmd s \<Rightarrow> run_storage L cfg out s d
      | AdminTerminal \<Rightarrow> quietly (cl_terminal L d))"

definition readiness :: "bool \<Rightarrow> nat" where
  "readiness ready = (if ready then 200 else 503)"

section \<open>Commands that take access away\<close>

text \<open>
  The sessions that a command is to end: those of the user, or of the device. A session keeps the account as it
  was when it began; of that only the id and the name, which never change, are compared.
\<close>

fun to_be_cut :: "Command \<Rightarrow> database \<Rightarrow> Session \<Rightarrow> bool" where
  "to_be_cut (UserCmd (UserDisable n)) d ses =
     (\<exists>a. account_by_username n d = Some a \<and> acct_id (ses_account ses) = acct_id a
        \<and> acct_username (ses_account ses) = acct_username a)"
| "to_be_cut (UserCmd (UserResetDevices n)) d ses =
     (\<exists>a. account_by_username n d = Some a \<and> acct_id (ses_account ses) = acct_id a)"
| "to_be_cut (DeviceCmd (DeviceRevoke n i)) d ses =
     (\<exists>a. account_by_username n d = Some a \<and> acct_id (ses_account ses) = acct_id a \<and> ses_device_id ses = i)"
| "to_be_cut c d ses = False"

text \<open>The request that ends them in the running server.\<close>

fun cutting_request :: "Command \<Rightarrow> Session \<Rightarrow> AdminRequest" where
  "cutting_request (DeviceCmd c) ses = KickDevice (ses_device_id ses) ''access_revoked''"
| "cutting_request c ses = KickAccount (acct_id (ses_account ses)) ''access_revoked''"

lemma update_where_member: "q \<in> set (update_where p f xs) \<Longrightarrow> \<exists>x. q = (if p x then f x else x)"
  by (auto simp: update_where_def)

lemma find_in_updated:
  assumes "\<And>x. P (f x) = P x"
  shows "find P (update_where Q f xs) = map_option (\<lambda>x. if Q x then f x else x) (find P xs)"
  using assms by (induction xs) (auto simp: update_where_def)

text \<open>The account that a name finds, by its row.\<close>

lemma account_row_found:
  "account_by_username n d = Some a \<Longrightarrow>
   \<exists>r. find (\<lambda>r. nocase_eq (ar_username r) n) (accounts d) = Some r \<and> a = account_from_row r \<and> nocase_eq (ar_username r) n"
  by (auto simp: account_by_username_def find_Some_iff)

lemma account_updated:
  assumes "account_by_username n d = Some a" "accounts d' = update_where Q f (accounts d)"
    and f: "\<And>r. ar_username (f r) = ar_username r" "\<And>r. ar_id (f r) = ar_id r"
  shows "\<exists>a'. account_by_username n d' = Some a' \<and> acct_id a' = acct_id a"
proof -
  obtain z where z: "find (\<lambda>r. nocase_eq (ar_username r) n) (accounts d) = Some z" "a = account_from_row z"
    using account_row_found [OF assms(1)] by blast
  have "account_by_username n d' = Some (account_from_row (if Q z then f z else z))"
    using find_in_updated [of "\<lambda>r. nocase_eq (ar_username r) n" f Q "accounts d"] z(1)
    by (simp add: account_by_username_def assms(2) f)
  moreover have "acct_id (account_from_row (if Q z then f z else z)) = acct_id a"
    by (simp add: z(2) account_from_row_def f)
  ultimately show ?thesis by blast
qed

lemma nocase_normalized: "normalize_username u = ok v \<Longrightarrow> nocase_eq x v = nocase_eq x u"
  by (auto simp: normalize_username_def Let_def nocase_eq_def split: if_splits)

lemma cleanup_revoked_devices: "devices (snd (cleanup_revoked_device i d)) = devices d"
  "accounts (snd (cleanup_revoked_device i d)) = accounts d"
  by (simp_all add: cleanup_revoked_device_def Let_def delete_envelopes_def drop_orphans_def split: prod.splits)

lemma revoked_devices: "cleanup_revoked_device i d = (c, d') \<Longrightarrow> devices d' = devices d"
  using cleanup_revoked_devices(1) [of i d] by simp

lemma cleanup_all_devices: "devices (fold (\<lambda>i d. snd (cleanup_revoked_device i d)) is d) = devices d"
  "accounts (fold (\<lambda>i d. snd (cleanup_revoked_device i d)) is d) = accounts d"
  by (induction "is" arbitrary: d) (simp_all add: cleanup_revoked_devices)

lemma admin_audit_tables [simp]: "accounts (admin_audit a t x now d) = accounts d" "devices (admin_audit a t x now d) = devices d"
  by (simp_all add: admin_audit_def audit_def Let_def)

lemma disabled_no_access:
  assumes "set_user_state now n ''disabled'' d = (ok p, d')" and "account_by_username n d = Some acc"
    and "acct_username (ses_account ses) = acct_username acc"
  shows "\<not> access_ok d' ses"
proof -
  obtain v where v: "normalize_username n = ok v"
    and d': "accounts d' = update_where (named v) (\<lambda>r. r\<lparr>ar_state := ''disabled''\<rparr>) (accounts d)"
    using assms(1) by (auto simp: set_user_state_def Let_def split: sum.splits if_splits)
  obtain r where "acc = account_from_row r" "nocase_eq (ar_username r) n"
    using account_row_found [OF assms(2)] by blast
  then have r: "acct_username (ses_account ses) = ar_username r" "nocase_eq (ar_username r) n"
    by (simp_all add: assms(3) account_from_row_def)
  let ?m = "\<lambda>q. nocase_eq (ar_username q) (ar_username r)"
  have same: "?m q = named v q" for q
    using r(2) nocase_normalized [OF v, of "ar_username q"] by (simp add: named_def nocase_eq_def)
  have "acct_state a \<noteq> ''active''" if "account_by_username (acct_username (ses_account ses)) d' = Some a" for a
  proof -
    note found = account_row_found [OF that]
    obtain q where "find ?m (accounts d') = Some q" "a = account_from_row q"
      using found r(1) by auto
    moreover from this(1) have "q \<in> set (accounts d')" "named v q" by (auto simp: same find_Some_iff)
    then have "ar_state q = ''disabled''" by (auto simp: d' update_where_def split: if_splits)
    ultimately show ?thesis by (simp add: account_from_row_def)
  qed
  then show ?thesis by (auto simp: access_ok_def split: option.splits)
qed

lemma revoked_no_access:
  assumes "\<And>q. q \<in> set (devices d') \<Longrightarrow> dr_account_id q = acct_id (ses_account ses) \<Longrightarrow> dr_id q = ses_device_id ses \<Longrightarrow> dr_revoked q"
  shows "\<not> access_ok d' ses"
proof -
  have "dev_revoked dev" if "device (acct_id (ses_account ses)) (ses_device_id ses) d' = Some dev" for dev
    using that assms by (auto simp: device_def find_Some_iff)
  then show ?thesis by (auto simp: access_ok_def split: option.splits)
qed

lemma reset_no_access:
  assumes "reset_devices now n d = (ok p, d')" and "account_by_username n d = Some a" and "acct_id (ses_account ses) = acct_id a"
  shows "\<not> access_ok d' ses"
proof (rule revoked_no_access)
  fix q
  assume q: "q \<in> set (devices d')" "dr_account_id q = acct_id (ses_account ses)"
  obtain v i where v: "normalize_username n = ok v" "find_account v d = Some i"
    and d': "devices d' = update_where (\<lambda>r. dr_account_id r = i) (\<lambda>r. r\<lparr>dr_revoked := True\<rparr>) (devices d)"
    using assms(1)
    by (auto simp: reset_devices_def Let_def cleanup_all_devices reset_identity_def split: sum.splits option.splits)
  have "i = acct_id a"
    using v(2) assms(2) by (auto simp: find_account_def named_def [abs_def] nocase_normalized [OF v(1)]
        account_by_username_def account_from_row_def)
  with q d' assms(3) show "dr_revoked q" by (auto simp: update_where_def)
qed

lemma revoke_no_access:
  assumes "revoke_device now n i d = (ok p, d')" and "account_by_username n d = Some a" and "acct_id (ses_account ses) = acct_id a"
    and "ses_device_id ses = i"
  shows "\<not> access_ok d' ses"
proof (rule revoked_no_access)
  fix q
  assume q: "q \<in> set (devices d')" "dr_account_id q = acct_id (ses_account ses)" "dr_id q = ses_device_id ses"
  let ?m = "\<lambda>r. dr_account_id r = acct_id a \<and> dr_id r = i"
  let ?d = "d\<lparr>devices := update_where ?m (\<lambda>r. r\<lparr>dr_revoked := True\<rparr>) (devices d)\<rparr>"
  have "devices d' = devices (snd (cleanup_revoked_device i ?d))"
  proof (cases "cleanup_revoked_device i ?d")
    case (Pair c d2)
    have "d' = admin_audit ''device_revoke'' i
        (''account='' @ acct_username a @ '',removed_envelopes='' @ show_nat (cs_envelopes c)
          @ '',removed_bytes='' @ show_nat (cs_ciphertext_bytes c)) now d2"
      using assms(1) Pair by (simp add: revoke_device_def assms(2) Let_def split: if_splits)
    with Pair show ?thesis by simp
  qed
  then have "devices d' = update_where ?m (\<lambda>r. r\<lparr>dr_revoked := True\<rparr>) (devices d)"
    by (simp add: cleanup_revoked_devices)
  with q(1) have "q \<in> set (update_where ?m (\<lambda>r. r\<lparr>dr_revoked := True\<rparr>) (devices d))" by (simp only:)
  from update_where_member [OF this] obtain x where x: "q = (if ?m x then x\<lparr>dr_revoked := True\<rparr> else x)" by blast
  show "dr_revoked q"
  proof (cases "?m x")
    case False
    with x q(2,3) assms(3,4) show ?thesis by simp
  qed (simp add: x)
qed

lemma and_notify_ok: "and_notify r f = (oc, d) \<Longrightarrow> oc_printed oc = ok p \<Longrightarrow> r = (ok p, d) \<and> oc_requests oc = f d"
  by (auto simp: and_notify_def only_prints_def split: prod.splits sum.splits)

lemma and_notify_failed: "and_notify r f = (oc, d) \<Longrightarrow> oc_printed oc = Inl e \<Longrightarrow> oc_requests oc = []"
  by (auto simp: and_notify_def only_prints_def split: prod.splits sum.splits)

lemma disabled_account:
  assumes "set_user_state now n st d = (ok p, d')" "account_by_username n d = Some a"
  shows "\<exists>a'. account_by_username n d' = Some a' \<and> acct_id a' = acct_id a"
proof -
  obtain v where "accounts d' = update_where (named v) (\<lambda>r. r\<lparr>ar_state := st\<rparr>) (accounts d)"
    using assms(1) by (auto simp: set_user_state_def Let_def split: sum.splits if_splits)
  from account_updated [OF assms(2) this] show ?thesis by simp
qed

lemma reset_account:
  assumes "reset_devices now n d = (ok p, d')" "account_by_username n d = Some a"
  shows "\<exists>a'. account_by_username n d' = Some a' \<and> acct_id a' = acct_id a"
proof -
  obtain i where "accounts d' = update_where (\<lambda>r. ar_id r = i) (\<lambda>r. r\<lparr>ar_master_public_key := None,
      ar_identity_generation := ar_identity_generation r + 1, ar_roster_revision := 0\<rparr>) (accounts d)"
    using assms(1)
    by (auto simp: reset_devices_def Let_def cleanup_all_devices reset_identity_def split: sum.splits option.splits)
  from account_updated [OF assms(2) this] show ?thesis by simp
qed

text \<open>
  C19. A command that takes access away cuts off at once. When the disabling of a user, the reset of his devices or
  the revocation of a device succeeds, no session that it concerns has access to the database that it leaves, also
  when what the session remembers of the account is older than the database: so the next frame of an approved
  session ends it. If the socket of the server exists, the running server is asked to disconnect the account
  or the device, and the handling of that request tells the connection of every registered session
  concerned, approved or pending, to end. When the command fails, the server is told nothing.
\<close>

theorem revoking_command_cuts_off:
  assumes "to_be_cut c d ses" and "main_command L cfg out c d = (oc, d')" and "registered_as t ses w"
  shows "(case oc_printed oc of Inl e \<Rightarrow> oc_requests oc = []
    | Inr p \<Rightarrow> \<not> access_ok d' ses
      \<and> oc_requests oc = (if cl_path_exists L (cfg_admin_socket_path cfg) then [cutting_request c ses] else [])
      \<and> map_of (st_disconnects (snd (dispatch S show_uuid now (cutting_request c ses) w))) t = Some ''access_revoked'')"
proof -
  note failed = and_notify_failed [of _ _ oc d'] and succeeded = and_notify_ok [of _ _ oc d']
  from assms show ?thesis
  proof (cases rule: to_be_cut.cases [of "(c, d, ses)"])
    case (1 n d1 ses1)
    let ?r = "set_user_state (cl_now L) n ''disabled'' d"
    obtain acc where a: "account_by_username n d = Some acc" "acct_id (ses_account ses) = acct_id acc"
        "acct_username (ses_account ses) = acct_username acc"
      and m: "and_notify ?r (disconnect_user_if_online (cl_path_exists L (cfg_admin_socket_path cfg)) n ''access_revoked'') = (oc, d')"
      using 1 assms by (auto simp: main_command_def run_user_def)
    show ?thesis
    proof (cases "oc_printed oc")
      case (Inr p)
      note ok = succeeded [OF m Inr]
      from disabled_account [OF conjunct1 [OF ok] a(1)] obtain a' where "account_by_username n d' = Some a'"
        "acct_id a' = acct_id acc" by blast
      with ok disabled_no_access [OF conjunct1 [OF ok] a(1,3)] 1(1) Inr a(2) dispatch_tells(1) [OF assms(3)] show ?thesis
        by (simp add: disconnect_user_if_online_def)
    qed (simp add: failed [OF m])
  next
    case (2 n d1 ses1)
    let ?r = "reset_devices (cl_now L) n d"
    obtain a where a: "account_by_username n d = Some a" "acct_id (ses_account ses) = acct_id a"
      and m: "and_notify ?r (disconnect_user_if_online (cl_path_exists L (cfg_admin_socket_path cfg)) n ''access_revoked'') = (oc, d')"
      using 2 assms by (auto simp: main_command_def run_user_def)
    show ?thesis
    proof (cases "oc_printed oc")
      case (Inr p)
      note ok = succeeded [OF m Inr]
      from reset_account [OF conjunct1 [OF ok] a(1)] obtain a' where "account_by_username n d' = Some a'"
        "acct_id a' = acct_id a" by blast
      with ok reset_no_access [OF conjunct1 [OF ok] a] 2(1) Inr a(2) dispatch_tells(1) [OF assms(3)] show ?thesis
        by (simp add: disconnect_user_if_online_def)
    qed (simp add: failed [OF m])
  next
    case (3 n i d1 ses1)
    let ?r = "revoke_device (cl_now L) n i d"
    obtain a where a: "account_by_username n d = Some a" "acct_id (ses_account ses) = acct_id a" "ses_device_id ses = i"
      and m: "and_notify ?r (\<lambda>_. disconnect_device_if_online (cl_path_exists L (cfg_admin_socket_path cfg)) i) = (oc, d')"
      using 3 assms by (auto simp: main_command_def run_device_def)
    show ?thesis
    proof (cases "oc_printed oc")
      case (Inr p)
      note ok = succeeded [OF m Inr]
      from ok revoke_no_access [OF conjunct1 [OF ok] a] 3(1) Inr a(3) dispatch_tells(2) [OF assms(3)] show ?thesis
        by (simp add: disconnect_device_if_online_def)
    qed (simp add: failed [OF m])
  qed simp_all
qed

definition sample_cli :: cli where
  "sample_cli = \<lparr>cl_now = 9, cl_phc = toy_phc, cl_salt = [], cl_new_id = ''i'', cl_random_password = ''p'',
     cl_prompts = ([], []), cl_typed = [], cl_path_exists = (\<lambda>_. True), cl_send = (\<lambda>_. bail ''x''), cl_free_disk = 9,
     cl_quick_check = ''ok'', cl_checkpoint = ok [], cl_health = ok [], cl_serve = (\<lambda>d. (ok [], d)),
     cl_terminal = (\<lambda>d. (ok [], d)), cl_show_uuid = (\<lambda>_. ''u''), cl_json = (\<lambda>_. []), cl_json_sessions = (\<lambda>_. []),
     cl_json_conversations = (\<lambda>_. []), cl_json_audit = (\<lambda>_. []), cl_json_storage = (\<lambda>_. []), cl_json_preview = (\<lambda>_. []),
     cl_json_stats = (\<lambda>_. []), cl_audit_line = (\<lambda>_. []), cl_preview_details = (\<lambda>_. []), cl_stats_details = (\<lambda>_. [])\<rparr>"

definition cli_db :: database where
  "cli_db = sample_db\<lparr>accounts := [(sample_account ''a'')\<lparr>ar_username := ''bob''\<rparr>]\<rparr>"

definition cli_session :: Session where
  "cli_session = (sample_session False)\<lparr>ses_account := account_from_row ((sample_account ''a'')\<lparr>ar_username := ''bob''\<rparr>)\<rparr>"

theorem revoking_command_cuts_off_witness:
  "\<exists>oc d'. main_command sample_cli default_config Table (UserCmd (UserDisable ''bob'')) cli_db = (oc, d')
     \<and> access_ok cli_db cli_session \<and> \<not> access_ok d' cli_session \<and> oc_requests oc = [KickAccount ''a'' ''access_revoked'']
     \<and> map_of (st_disconnects (snd (dispatch sample_services (\<lambda>_. []) 0 (KickAccount ''a'' ''access_revoked'')
         (register cli_session 5 (V4 7) 0 (sample_world\<lparr>st_receivers := [5]\<rparr>))))) 5 = Some ''access_revoked''"
proof -
  obtain oc d' where m: "main_command sample_cli default_config Table (UserCmd (UserDisable ''bob'')) cli_db = (oc, d')"
    by (cases "main_command sample_cli default_config Table (UserCmd (UserDisable ''bob'')) cli_db")
  have n: "normalize_username ''bob'' = ok ''bob''"
    by (simp add: normalize_username_def Let_def to_ascii_lowercase_def ascii_lower_char_def
      is_ascii_upper_def allowed_username_char_def is_ascii_lowercase_def is_ascii_digit_def char_of_def bit_simps)
  have "set_user_state 9 ''bob'' ''disabled'' cli_db \<noteq> (Inl e, x)" for e x
    by (simp add: set_user_state_def n Let_def cli_db_def sample_account_def named_def nocase_eq_def count_where_def)
  then obtain p where p: "oc_printed oc = ok p"
    using m by (auto simp: main_command_def run_user_def and_notify_def sample_cli_def Let_def split: sum.splits prod.splits)
  have c: "to_be_cut (UserCmd (UserDisable ''bob'')) cli_db cli_session"
    by (simp add: account_by_username_def cli_db_def cli_session_def nocase_eq_def sample_account_def)
  have "access_ok cli_db cli_session"
    by (simp add: access_ok_def account_by_username_def cli_db_def cli_session_def nocase_eq_def sample_account_def
        sample_session_def account_from_row_def device_def sample_db_def sample_device_def empty_database_def)
  moreover have "cl_path_exists sample_cli x" "acct_id (ses_account cli_session) = ''a''" for x
    by (simp_all add: sample_cli_def cli_session_def account_from_row_def sample_account_def)
  ultimately show ?thesis
    using revoking_command_cuts_off [OF c m register_registered [of 5 "sample_world\<lparr>st_receivers := [5]\<rparr>"]] p m by simp
qed

end
