(* ===== verification/Utf8.thy ===== *)
theory Utf8
  imports Rust_Prelude
begin

text \<open>
  UTF-8: the validation of \<open>String::from_utf8\<close>, and where a valid string may be cut. A Rust \<open>String\<close> is
  always valid UTF-8 (\<open>string_ok\<close>); \<open>&s[a..b]\<close>, \<open>insert_str\<close> and \<open>replace_range\<close> panic when an offset is
  not on a character boundary, and return \<open>None\<close> here.
\<close>

section \<open>Validation\<close>

text \<open>
  \<open>String::from_utf8\<close> accepts the well-formed sequences of RFC 3629: \<open>utf8_tail\<close> gives, for a first
  byte, the range of the second byte and the number of bytes that follow.
\<close>

definition utf8_tail :: "u8 \<Rightarrow> (u8 \<times> u8 \<times> nat) option" where
  "utf8_tail a =
     (if a < 0x80 then Some (0, 0xFF, 0)
      else if a < 0xC2 then None
      else if a < 0xE0 then Some (0x80, 0xBF, 1)
      else if a = 0xE0 then Some (0xA0, 0xBF, 2)
      else if a = 0xED then Some (0x80, 0x9F, 2)
      else if a < 0xF0 then Some (0x80, 0xBF, 2)
      else if a = 0xF0 then Some (0x90, 0xBF, 3)
      else if a < 0xF4 then Some (0x80, 0xBF, 3)
      else if a = 0xF4 then Some (0x80, 0x8F, 3)
      else None)"

definition tail_ok :: "u8 \<times> u8 \<times> nat \<Rightarrow> bytes \<Rightarrow> bool" where
  "tail_ok t bs = (case t of (lo, hi, n) \<Rightarrow> n \<le> length bs \<and>
     (n = 0 \<or> lo \<le> bs ! 0 \<and> bs ! 0 \<le> hi) \<and> (\<forall>b \<in> set (take n bs). 0x80 \<le> b \<and> b \<le> 0xBF))"

function valid_utf8 :: "bytes \<Rightarrow> bool" where
  "valid_utf8 [] = True"
| "valid_utf8 (a # bs) = (case utf8_tail a of None \<Rightarrow> False
     | Some t \<Rightarrow> tail_ok t bs \<and> valid_utf8 (drop (snd (snd t)) bs))"
  by pat_completeness auto
termination by (relation "measure length") auto

definition string_of_bytes :: "bytes \<Rightarrow> string" where
  "string_of_bytes bs = map (\<lambda>b. char_of (unat b)) bs"

definition from_utf8 :: "bytes \<Rightarrow> string result" where
  "from_utf8 bs = (if valid_utf8 bs then ok (string_of_bytes bs) else bail ''invalid utf-8 sequence'')"

definition string_ok :: "string \<Rightarrow> bool" where
  "string_ok s = valid_utf8 (as_bytes s)"

lemma unat_of_char_u8: "unat (of_char c :: u8) = of_char c"
proof -
  have "(of_char c :: u8) = of_nat (of_char c)" by (rule of_nat_of_char [symmetric])
  moreover have "(of_char c :: nat) < 2 ^ LENGTH(8)" by simp
  ultimately show ?thesis by (simp add: unsigned_of_nat take_bit_nat_eq_self del: of_nat_of_char)
qed

lemma string_of_as_bytes [simp]: "string_of_bytes (as_bytes s) = s"
  by (simp add: string_of_bytes_def as_bytes_def comp_def unat_of_char_u8 map_idI)

lemma from_utf8_as_bytes [simp]: "string_ok s \<Longrightarrow> from_utf8 (as_bytes s) = ok s"
  by (simp add: from_utf8_def string_ok_def)

section \<open>Character boundaries\<close>

definition starts_char :: "string \<Rightarrow> bool" where
  "starts_char s = (case s of [] \<Rightarrow> True | c # _ \<Rightarrow> \<not> utf8_cont c)"

definition is_char_boundary :: "string \<Rightarrow> nat \<Rightarrow> bool" where
  "is_char_boundary s i = (i = 0 \<or> i = length s \<or> (i < length s \<and> \<not> utf8_cont (s ! i)))"

definition slice_to :: "string \<Rightarrow> nat \<Rightarrow> string option" where
  "slice_to s i = (if is_char_boundary s i then Some (take i s) else None)"

definition slice_from :: "string \<Rightarrow> nat \<Rightarrow> string option" where
  "slice_from s i = (if is_char_boundary s i then Some (drop i s) else None)"

definition slice :: "string \<Rightarrow> nat \<Rightarrow> nat \<Rightarrow> string option" where
  "slice s i j = (if i \<le> j \<and> is_char_boundary s i \<and> is_char_boundary s j
     then Some (drop i (take j s)) else None)"

definition insert_str :: "string \<Rightarrow> nat \<Rightarrow> string \<Rightarrow> string option" where
  "insert_str s i v = (if is_char_boundary s i then Some (take i s @ v @ drop i s) else None)"

definition replace_range :: "string \<Rightarrow> nat \<Rightarrow> nat \<Rightarrow> string \<Rightarrow> string option" where
  "replace_range s i j v = (if i \<le> j \<and> is_char_boundary s i \<and> is_char_boundary s j
     then Some (take i s @ v @ drop j s) else None)"

lemma starts_char_Nil [simp]: "starts_char []"
  and starts_char_Cons [simp]: "starts_char (c # cs) \<longleftrightarrow> \<not> utf8_cont c"
  by (simp_all add: starts_char_def)

lemma starts_char_dropWhile [simp]: "starts_char (dropWhile utf8_cont cs)"
  by (induction cs) auto

lemma utf8_cont_byte: "utf8_cont c \<longleftrightarrow> (0x80 :: u8) \<le> of_char c \<and> of_char c \<le> (0xBF :: u8)"
proof -
  have "(of_char c :: nat) < 256" by simp
  then show ?thesis
    unfolding utf8_cont_def word_le_nat_alt unat_of_char_u8 by (simp add: unat_of_char_u8) arith
qed

lemma utf8_tail_first: "utf8_tail a = Some t \<Longrightarrow> \<not> (0x80 \<le> a \<and> a \<le> 0xBF)"
  by (auto simp: utf8_tail_def word_le_nat_alt word_less_nat_alt split: if_splits)

lemma string_ok_Nil [simp]: "string_ok []"
  by (simp add: string_ok_def as_bytes_def)

lemma string_ok_starts: "string_ok s \<Longrightarrow> starts_char s"
  by (cases s) (auto simp: string_ok_def as_bytes_def utf8_cont_byte split: option.splits dest: utf8_tail_first)

lemma string_ok_ascii: "(of_char c :: nat) < 128 \<Longrightarrow> string_ok (c # s) \<longleftrightarrow> string_ok s"
  by (simp add: string_ok_def as_bytes_def utf8_tail_def tail_ok_def word_less_nat_alt unat_of_char_u8)

lemma tail_ok_append: "tail_ok t xs \<Longrightarrow> tail_ok t (xs @ ys)"
  by (cases t) (auto simp: tail_ok_def nth_append)

lemma valid_utf8_append: "valid_utf8 xs \<Longrightarrow> valid_utf8 (xs @ ys) = valid_utf8 ys"
proof (induction xs rule: valid_utf8.induct)
  case (2 a bs)
  then obtain t where t: "utf8_tail a = Some t" "tail_ok t bs" "valid_utf8 (drop (snd (snd t)) bs)"
    by (auto split: option.splits)
  then have "snd (snd t) \<le> length bs" by (cases t) (simp add: tail_ok_def)
  with 2(1) [OF t(1,3)] t show ?case by (simp add: tail_ok_append)
qed simp

lemma string_ok_append: "string_ok a \<Longrightarrow> string_ok (a @ b) = string_ok b"
  by (simp add: string_ok_def valid_utf8_append)

lemma string_ok_concat: "(\<And>g. g \<in> set gs \<Longrightarrow> string_ok g) \<Longrightarrow> string_ok (concat gs)"
  by (induction gs) (simp_all add: string_ok_append)

lemma valid_utf8_prefix:
  assumes "valid_utf8 (xs @ as_bytes b)" "starts_char b"
  shows "valid_utf8 xs"
  using assms(1)
proof (induction xs rule: valid_utf8.induct)
  case (2 a bs)
  then obtain lo hi n where t: "utf8_tail a = Some (lo, hi, n)" "tail_ok (lo, hi, n) (bs @ as_bytes b)"
      "valid_utf8 (drop n (bs @ as_bytes b))"
    by (auto split: option.splits)
  have n: "n \<le> length bs"
  proof (rule ccontr)
    assume less: "\<not> n \<le> length bs"
    with t(2) obtain c cs where b: "b = c # cs" by (cases b) (auto simp: tail_ok_def as_bytes_def)
    have "of_char c \<in> set (take n (bs @ as_bytes b))"
      using less b by (cases "n - length bs") (auto simp: as_bytes_def)
    with t(2) have "(0x80 :: u8) \<le> of_char c \<and> of_char c \<le> (0xBF :: u8)" by (simp add: tail_ok_def)
    with assms(2) b show False by (simp add: utf8_cont_byte)
  qed
  then have "valid_utf8 (drop n bs @ as_bytes b)" using t(3) by simp
  with 2(1) [OF t(1)] have "valid_utf8 (drop n bs)" by simp
  moreover have "tail_ok (lo, hi, n) bs"
    using t(2) n by (cases "bs = []") (simp_all add: tail_ok_def nth_append)
  ultimately show ?case using t(1) by simp
qed simp

lemma string_ok_split:
  assumes "string_ok (a @ b)" "starts_char b"
  shows "string_ok a" "string_ok b"
proof -
  show "string_ok a" using valid_utf8_prefix [of "as_bytes a" b] assms by (simp add: string_ok_def)
  with assms(1) show "string_ok b" by (simp add: string_ok_append)
qed

lemma boundary_append: "string_ok (a @ b) \<Longrightarrow> is_char_boundary (a @ b) (length a) \<longleftrightarrow> string_ok b"
proof -
  assume ok: "string_ok (a @ b)"
  have "is_char_boundary (a @ b) (length a) \<longleftrightarrow> a = [] \<or> starts_char b"
    by (cases b) (auto simp: is_char_boundary_def)
  with ok show ?thesis by (auto dest: string_ok_split string_ok_starts)
qed

lemma boundary_0 [simp]: "is_char_boundary s 0"
  and boundary_length [simp]: "is_char_boundary s (length s)"
  by (simp_all add: is_char_boundary_def)

lemma boundary_le: "is_char_boundary s i \<Longrightarrow> i \<le> length s"
  by (auto simp: is_char_boundary_def)

lemma boundary_cases:
  assumes "string_ok s" "is_char_boundary s i"
  obtains b a where "s = b @ a" "i = length b" "string_ok b" "string_ok a"
proof
  show s: "s = take i s @ drop i s" by simp
  show i: "i = length (take i s)" using boundary_le [OF assms(2)] by simp
  show a: "string_ok (drop i s)"
    using boundary_append [of "take i s" "drop i s"] assms i by simp
  show "string_ok (take i s)"
    using string_ok_split(1) [of "take i s" "drop i s"] assms(1) string_ok_starts [OF a] by simp
qed

text \<open>Cutting valid strings between valid parts.\<close>

lemma slice_to_append [simp]: "string_ok b \<Longrightarrow> string_ok a \<Longrightarrow> slice_to (b @ a) (length b) = Some b"
  by (simp add: slice_to_def boundary_append string_ok_append)

lemma slice_from_append [simp]: "string_ok b \<Longrightarrow> string_ok a \<Longrightarrow> slice_from (b @ a) (length b) = Some a"
  by (simp add: slice_from_def boundary_append string_ok_append)

lemma insert_str_append [simp]:
  "string_ok b \<Longrightarrow> string_ok a \<Longrightarrow> insert_str (b @ a) (length b) v = Some (b @ v @ a)"
  by (simp add: insert_str_def boundary_append string_ok_append)

lemma boundaries_append:
  assumes "string_ok x" "string_ok y" "string_ok z"
  shows "is_char_boundary (x @ y @ z) (length x)" "is_char_boundary (x @ y @ z) (length x + length y)"
  using boundary_append [of x "y @ z"] boundary_append [of "x @ y" z] assms
  by (simp_all add: string_ok_append)

lemma slice_append:
  "string_ok x \<Longrightarrow> string_ok y \<Longrightarrow> string_ok z \<Longrightarrow>
   slice (x @ y @ z) (length x) (length x + length y) = Some y"
  by (simp add: slice_def boundaries_append)

lemma replace_range_append:
  "string_ok x \<Longrightarrow> string_ok y \<Longrightarrow> string_ok z \<Longrightarrow>
   replace_range (x @ y @ z) (length x) (length x + length y) v = Some (x @ v @ z)"
  by (simp add: replace_range_def boundaries_append)

section \<open>Characters\<close>

lemma utf8_chars_nonempty: "[] \<notin> set (utf8_chars s)"
  by (induction s rule: utf8_chars.induct) auto

lemma utf8_chars_ok: "string_ok s \<Longrightarrow> ch \<in> set (utf8_chars s) \<Longrightarrow> string_ok ch"
proof (induction s rule: utf8_chars.induct)
  case (2 c cs)
  have "string_ok (c # takeWhile utf8_cont cs)" "string_ok (dropWhile utf8_cont cs)"
    using 2(2) string_ok_split [of "c # takeWhile utf8_cont cs" "dropWhile utf8_cont cs"] by simp_all
  with 2 show ?case by auto
qed simp

lemma utf8_chars_append: "starts_char b \<Longrightarrow> utf8_chars (a @ b) = utf8_chars a @ utf8_chars b"
proof (induction a rule: utf8_chars.induct)
  case (2 c cs)
  have "takeWhile utf8_cont (cs @ b) = takeWhile utf8_cont cs \<and>
        dropWhile utf8_cont (cs @ b) = dropWhile utf8_cont cs @ b"
    using \<open>starts_char b\<close> by (induction cs) (auto simp: starts_char_def split: list.splits)
  with 2 show ?case by simp
qed simp

text \<open>Induction on a valid string: an ASCII byte, or a character of bytes that are not ASCII, and the rest.\<close>

lemma string_ok_first_char:
  assumes "string_ok (c # cs)"
  obtains (ascii) "(of_char c :: nat) < 128" "string_ok cs"
    | (multi) ch s where "c # cs = ch @ s" "ch \<noteq> []" "\<forall>x \<in> set ch. 128 \<le> (of_char x :: nat)"
        "string_ok ch" "string_ok s"
proof (cases "(of_char c :: nat) < 128")
  case True
  with assms ascii show thesis by (simp add: string_ok_ascii)
next
  case False
  let ?ch = "c # takeWhile utf8_cont cs" and ?s = "dropWhile utf8_cont cs"
  have "string_ok ?ch" "string_ok ?s" using assms string_ok_split [of ?ch ?s] by simp_all
  moreover have "128 \<le> (of_char x :: nat)" if "x \<in> set ?ch" for x
    using that False by (auto simp: utf8_cont_def dest!: set_takeWhileD)
  ultimately show thesis using multi [of ?ch ?s] by simp
qed

lemma string_ok_induct [consumes 1, case_names Nil ascii multi]:
  assumes "string_ok s" "P []"
    and "\<And>c s. (of_char c :: nat) < 128 \<Longrightarrow> string_ok s \<Longrightarrow> P s \<Longrightarrow> P (c # s)"
    and "\<And>ch s. \<forall>x \<in> set ch. 128 \<le> (of_char x :: nat) \<Longrightarrow> ch \<noteq> [] \<Longrightarrow> string_ok ch \<Longrightarrow> string_ok s \<Longrightarrow>
      P s \<Longrightarrow> P (ch @ s)"
  shows "P s"
  using assms(1)
proof (induction s rule: length_induct)
  case (1 s)
  show ?case
  proof (cases s)
    case (Cons c cs)
    with 1 have "string_ok (c # cs)" by simp
    then show ?thesis
    proof (cases rule: string_ok_first_char)
      case ascii
      with 1 Cons assms(3) show ?thesis by simp
    next
      case (multi ch t)
      then have "length t < length s" using Cons by (metis length_append length_greater_0_conv less_add_same_cancel2)
      with 1 multi Cons assms(4) show ?thesis by metis
    qed
  qed (use assms(2) in simp)
qed

end
