(* ===== verification/Local_Tables.thy ===== *)
theory Local_Tables
  imports Protocol Utf8
begin

text \<open>
  The client's local database: the enumerations and structs of \<open>crates/client/src/local.rs\<close>, one record
  per table of \<open>crates/client/migrations\<close>, and the SQL statements that several operations of
  \<open>LocalStore\<close> share, among them the two triggers that keep \<open>conversation_summaries\<close>. A table is the list
  of its rows in insertion order, \<open>ORDER BY\<close> is a stable sort, and a violated \<open>UNIQUE\<close> constraint is the
  only way a statement fails. Columns that hold only 0 and 1 are booleans; the single row of a table with
  \<open>CHECK(singleton = 1)\<close> is an option, that of \<open>sync_state\<close> two fields.
\<close>

section \<open>Results\<close>

text \<open>The operator \<open>?\<close> of Rust, and a loop whose body may fail.\<close>

definition attempt :: "'a result \<Rightarrow> ('a \<Rightarrow> 'b result) \<Rightarrow> 'b result" where
  "attempt r f = (case r of Inl e \<Rightarrow> Inl e | Inr x \<Rightarrow> f x)"

lemma attempt_simps [simp]: "attempt (Inl e) f = Inl e" "attempt (Inr x) f = f x"
  by (simp_all add: attempt_def)

lemma attempt_ok_iff: "attempt r f = ok y \<longleftrightarrow> (\<exists>x. r = ok x \<and> f x = ok y)"
  by (cases r) simp_all

fun fold_result :: "('a \<Rightarrow> 's \<Rightarrow> 's result) \<Rightarrow> 'a list \<Rightarrow> 's \<Rightarrow> 's result" where
  "fold_result f [] s = ok s"
| "fold_result f (x # xs) s = attempt (f x s) (fold_result f xs)"

fun collect_results :: "'a result list \<Rightarrow> 'a list result" where
  "collect_results [] = ok []"
| "collect_results (r # rs) = attempt r (\<lambda>x. attempt (collect_results rs) (\<lambda>xs. ok (x # xs)))"

lemma collect_results_ok: "collect_results (map (\<lambda>x. ok (f x)) xs) = ok (map f xs)"
  by (induction xs) simp_all

section \<open>Enumerations\<close>

text \<open>The Chinese names under which earlier versions stored the statuses, as UTF-8 bytes.\<close>

definition zh_sending :: string where
  "zh_sending = utf8_text [0xE5, 0x8F, 0x91, 0xE9, 0x80, 0x81, 0xE4, 0xB8, 0xAD]"

definition zh_sent :: string where
  "zh_sent = utf8_text [0xE5, 0xB7, 0xB2, 0xE5, 0x8F, 0x91, 0xE9, 0x80, 0x81]"

definition zh_delivered :: string where
  "zh_delivered = utf8_text [0xE5, 0xB7, 0xB2, 0xE9, 0x80, 0x81, 0xE8, 0xBE, 0xBE]"

definition zh_read :: string where
  "zh_read = utf8_text [0xE5, 0xB7, 0xB2, 0xE8, 0xAF, 0xBB]"

datatype MessageStatus = Sending | Sent | Delivered | Read

fun status_str :: "MessageStatus \<Rightarrow> string" where
  "status_str Sending = ''sending''"
| "status_str Sent = ''sent''"
| "status_str Delivered = ''delivered''"
| "status_str Read = ''read''"

fun status_label :: "MessageStatus \<Rightarrow> string" where
  "status_label Sending = zh_sending"
| "status_label Sent = zh_sent"
| "status_label Delivered = zh_delivered"
| "status_label Read = zh_read"

fun status_rank :: "MessageStatus \<Rightarrow> u8" where
  "status_rank Sending = 0"
| "status_rank Sent = 1"
| "status_rank Delivered = 2"
| "status_rank Read = 3"

definition status_try_from :: "string \<Rightarrow> MessageStatus result" where
  "status_try_from v =
     (if v = ''sending'' \<or> v = zh_sending then ok Sending
      else if v = ''sent'' \<or> v = zh_sent then ok Sent
      else if v = ''delivered'' \<or> v = zh_delivered then ok Delivered
      else if v = ''read'' \<or> v = zh_read then ok Read
      else bail ''unknown message status'')"

datatype NotificationKind = KindPairing | KindChatRequest | KindChatResponse

fun kind_str :: "NotificationKind \<Rightarrow> string" where
  "kind_str KindPairing = ''pairing''"
| "kind_str KindChatRequest = ''chat_request''"
| "kind_str KindChatResponse = ''chat_response''"

definition kind_try_from :: "string \<Rightarrow> NotificationKind result" where
  "kind_try_from v =
     (if v = ''pairing'' then ok KindPairing
      else if v = ''chat_request'' then ok KindChatRequest
      else if v = ''chat_response'' then ok KindChatResponse
      else bail ''unknown notification kind'')"

datatype NotificationState = StatePending | InProgress | Accepted | StateRejected | Completed | Failed

fun state_str :: "NotificationState \<Rightarrow> string" where
  "state_str StatePending = ''pending''"
| "state_str InProgress = ''in_progress''"
| "state_str Accepted = ''accepted''"
| "state_str StateRejected = ''rejected''"
| "state_str Completed = ''completed''"
| "state_str Failed = ''failed''"

definition state_try_from :: "string \<Rightarrow> NotificationState result" where
  "state_try_from v =
     (if v = ''pending'' then ok StatePending
      else if v = ''in_progress'' then ok InProgress
      else if v = ''accepted'' then ok Accepted
      else if v = ''rejected'' then ok StateRejected
      else if v = ''completed'' then ok Completed
      else if v = ''failed'' then ok Failed
      else bail ''unknown notification state'')"

lemma status_try_from_str [simp]: "status_try_from (status_str s) = ok s"
  by (cases s) (simp_all add: status_try_from_def zh_sending_def zh_sent_def zh_delivered_def utf8_text_def)

lemma status_try_from_label [simp]: "status_try_from (status_label s) = ok s"
  by (cases s) (simp_all add: status_try_from_def zh_sending_def zh_sent_def zh_delivered_def zh_read_def
      utf8_text_def)

lemma kind_try_from_str [simp]: "kind_try_from (kind_str k) = ok k"
  by (cases k) (simp_all add: kind_try_from_def)

lemma state_try_from_str [simp]: "state_try_from (state_str s) = ok s"
  by (cases s) (simp_all add: state_try_from_def)

section \<open>Structs\<close>

record Contact =
  ct_bundle :: UserBundle_msg
  ct_verified :: bool
  ct_identity_changed :: bool
  ct_unread_count :: u64
  ct_last_activity_ms :: i64

record ConversationTombstone =
  cb_peer_account_id :: string
  cb_peer_username :: string
  cb_conversation_id :: string
  cb_sync_event_id :: string
  cb_deleted_at_ms :: i64

record ChatMessage =
  cm_id :: string
  cm_conversation_id :: string
  cm_peer_account_id :: string
  cm_sender_account_id :: string
  cm_body :: string
  cm_sent_at_ms :: i64
  cm_status :: MessageStatus
  cm_inbound :: bool

record TransferContact =
  tc_bundle :: bytes
  tc_verified :: bool

record PairingData =
  pd_pending_side :: bool
  pd_pairing_id :: string
  pd_pending_device_id :: string
  pd_pending_device_name :: string
  pd_sas_public_key :: bytes
  pd_pending_device :: bytes

record ChatRequestData =
  rd_outgoing :: bool
  rd_request_id :: string
  rd_sender_account_id :: string
  rd_sender_username :: string
  rd_sender_device_id :: string
  rd_sender_bundle :: bytes

datatype NotificationData =
    PairingNotice PairingData
  | ChatRequestNotice ChatRequestData
  | ChatResponseNotice string bool

record Notification =
  nt_id :: string
  nt_kind :: NotificationKind
  nt_request_id :: string
  nt_actor_account_id :: string
  nt_actor_username :: string
  nt_actor_device_id :: string
  nt_state :: NotificationState
  nt_read :: bool
  nt_created_at_ms :: i64
  nt_updated_at_ms :: i64
  nt_data :: NotificationData

section \<open>Rows and tables\<close>

record profile_row =
  pf_encrypted_blob :: bytes
  pf_updated_at_ms :: i64
  pf_encryption_version :: int

record vault_row =
  vr_wrapped_key :: bytes
  vr_created_at_ms :: i64

record contact_row =
  cr_account_id :: string
  cr_username :: string
  cr_bundle :: bytes
  cr_verified :: bool
  cr_identity_changed :: bool
  cr_updated_at_ms :: i64

record message_row =
  mr_id :: string
  mr_conversation_id :: string
  mr_peer_account_id :: string
  mr_sender_account_id :: string
  mr_encrypted_body :: bytes
  mr_sent_at_ms :: i64
  mr_status :: string
  mr_inbound :: bool
  mr_encryption_version :: int

record outbox_row =
  ob_id :: string
  ob_encoded_frame :: bytes
  ob_created_at_ms :: i64

record draft_row =
  df_conversation_id :: string
  df_encrypted_body :: bytes
  df_updated_at_ms :: i64

record summary_row =
  su_conversation_id :: string
  su_peer_account_id :: string
  su_last_activity_ms :: i64
  su_unread_count :: int

record notification_row =
  nr_id :: string
  nr_kind :: string
  nr_request_id :: string
  nr_actor_account_id :: string
  nr_actor_username :: string
  nr_actor_device_id :: string
  nr_encrypted_payload :: bytes
  nr_state :: string
  nr_is_read :: bool
  nr_created_at_ms :: i64
  nr_updated_at_ms :: i64

record tombstone_row =
  ts_peer_account_id :: string
  ts_peer_username :: string
  ts_conversation_id :: string
  ts_sync_event_id :: string
  ts_deleted_at_ms :: i64
  ts_pending_sync :: bool

record preference_row =
  pr_key :: string
  pr_value :: string
  pr_updated_at_ms :: i64

record processed_row =
  pp_server_event_id :: int
  pp_processed_at_ms :: i64

record local_db =
  lo_profile :: "profile_row option"
  lo_vault :: "vault_row option"
  lo_contacts :: "contact_row list"
  lo_messages :: "message_row list"
  lo_outbox :: "outbox_row list"
  lo_envelope_cursor :: int
  lo_status_cursor :: int
  lo_drafts :: "draft_row list"
  lo_summaries :: "summary_row list"
  lo_notifications :: "notification_row list"
  lo_tombstones :: "tombstone_row list"
  lo_preferences :: "preference_row list"
  lo_processed :: "processed_row list"

definition empty_store :: local_db where
  "empty_store = \<lparr>lo_profile = None, lo_vault = None, lo_contacts = [], lo_messages = [], lo_outbox = [],
     lo_envelope_cursor = 0, lo_status_cursor = 0, lo_drafts = [], lo_summaries = [],
     lo_notifications = [], lo_tombstones = [], lo_preferences = [], lo_processed = []\<rparr>"

end
