(* ===== verification/Local_Codec.thy ===== *)
theory Local_Codec
  imports Local_Tables Identity Vault Olm_Machine
begin

text \<open>
  How \<open>crates/client/src/local.rs\<close> encrypts and encodes what it stores: the unlocked vault session with
  its fallback to the passphrase for blobs of version 1, the account profile in the layouts \<open>TCP4\<close>,
  \<open>TCP3\<close> and JSON, message bodies, drafts and notification payloads. \<open>postcard\<close>, \<open>serde_json\<close>,
  \<open>prost\<close> and \<open>vodozemac\<close> are the fields of one record of functions; nonces drawn from \<open>OsRng\<close> are
  arguments.
\<close>

section \<open>Vault session\<close>

record VaultSession =
  vs_key :: VaultKey
  vs_legacy_passphrase :: "string option"

definition session_encrypt :: "crypto \<Rightarrow> VaultSession \<Rightarrow> bytes \<Rightarrow> bytes \<Rightarrow> bytes \<Rightarrow> EncryptedBlob result" where
  "session_encrypt C v nonce aad plaintext = vault_encrypt C (vs_key v) nonce aad plaintext"

definition session_decrypt :: "crypto \<Rightarrow> VaultSession \<Rightarrow> bytes \<Rightarrow> EncryptedBlob \<Rightarrow> bytes result" where
  "session_decrypt C v aad blob =
     (if blob_version blob = 2 then vault_decrypt C (vs_key v) aad blob
      else if blob_version blob = 1 then
        (case vs_legacy_passphrase v of
           None \<Rightarrow> bail ''legacy local data requires migration''
         | Some passphrase \<Rightarrow> decrypt_blob C passphrase aad blob)
      else bail (''unsupported local encryption version '' @ show_nat (unat (blob_version blob))))"

section \<open>Profiles\<close>

record ('a, 's) RuntimeProfile =
  rp_username :: string
  rp_account_id :: string
  rp_server_url :: string
  rp_identity :: DeviceIdentity
  rp_machine :: "('a, 's) OlmMachine"
  rp_pending :: bool
  rp_pairing_secret :: "bytes option"
  rp_account_master_public :: bytes
  rp_spki_pin :: "string option"
  rp_server_capabilities :: "string list"

record LegacyStoredProfileV3 =
  sp_username :: string
  sp_account_id :: string
  sp_server_url :: string
  sp_identity :: bytes
  sp_machine :: bytes
  sp_pending :: bool
  sp_pairing_secret :: "bytes option"
  sp_account_master_public :: bytes
  sp_spki_pin :: "string option"

record StoredProfile = LegacyStoredProfileV3 +
  sp_server_capabilities :: "string list"

definition profile_from_v3 :: "LegacyStoredProfileV3 \<Rightarrow> StoredProfile" where
  "profile_from_v3 p = LegacyStoredProfileV3.extend p \<lparr>sp_server_capabilities = []\<rparr>"

text \<open>An error of \<open>postcard\<close>: the end of the input, or another one, with its text.\<close>

datatype postcard_error = DeserializeUnexpectedEnd string | OtherPostcard string

fun postcard_text :: "postcard_error \<Rightarrow> string" where
  "postcard_text (DeserializeUnexpectedEnd t) = t"
| "postcard_text (OtherPostcard t) = t"

record ('a, 's, 'pa, 'ps) local_packages =
  lp_crypto :: crypto
  lp_olm :: "('a, 's, 'pa, 'ps) olm"
  profile_postcard :: "StoredProfile \<Rightarrow> bytes result"
  profile_unpostcard :: "bytes \<Rightarrow> postcard_error + StoredProfile"
  profile_v3_unpostcard :: "bytes \<Rightarrow> postcard_error + LegacyStoredProfileV3"
  profile_unjson :: "bytes \<Rightarrow> StoredProfile result"
  identity_postcard :: "IdentityPickle \<Rightarrow> bytes result"
  identity_unpostcard :: "bytes \<Rightarrow> IdentityPickle result"
  identity_unjson :: "bytes \<Rightarrow> IdentityPickle result"
  machine_json :: "('pa, 'ps) MachinePickleV2 \<Rightarrow> bytes result"
  machine_unjson :: "bytes \<Rightarrow> ('pa, 'ps) MachinePickleV2 result"
  machine_v1_unjson :: "bytes \<Rightarrow> ('pa, 'ps) MachinePickleV1 result"
  blob_unjson :: "bytes \<Rightarrow> EncryptedBlob result"
  wrapped_unjson :: "bytes \<Rightarrow> WrappedVaultKey result"
  bytes_unjson :: "bytes \<Rightarrow> bytes result"
  notice_json :: "NotificationData \<Rightarrow> bytes result"
  notice_unjson :: "bytes \<Rightarrow> NotificationData result"
  bundle_encode :: "UserBundle_msg \<Rightarrow> bytes"
  bundle_decode :: "bytes \<Rightarrow> UserBundle_msg result"

definition decode_encrypted_blob :: "('a, 's, 'pa, 'ps) local_packages \<Rightarrow> bytes \<Rightarrow> EncryptedBlob result" where
  "decode_encrypted_blob P encoded =
     (case blob_from_bytes (blob_unjson P) encoded of
        Inr blob \<Rightarrow> ok blob
      | Inl _ \<Rightarrow> attempt (bytes_unjson P encoded) (blob_from_bytes (blob_unjson P)))"

definition encode_profile :: "('a, 's, 'pa, 'ps) local_packages \<Rightarrow> bytes \<Rightarrow> VaultSession \<Rightarrow>
    ('a, 's) RuntimeProfile \<Rightarrow> bytes result" where
  "encode_profile P nonce v p =
     attempt (identity_to_bytes (identity_postcard P) (rp_identity p)) (\<lambda>identity.
     attempt (machine_to_bytes (lp_olm P) (machine_json P) (rp_machine p)) (\<lambda>machine.
     attempt (profile_postcard P \<lparr>sp_username = rp_username p, sp_account_id = rp_account_id p,
         sp_server_url = rp_server_url p, sp_identity = identity, sp_machine = machine,
         sp_pending = rp_pending p, sp_pairing_secret = rp_pairing_secret p,
         sp_account_master_public = rp_account_master_public p, sp_spki_pin = rp_spki_pin p,
         sp_server_capabilities = rp_server_capabilities p\<rparr>) (\<lambda>plain.
     attempt (session_encrypt (lp_crypto P) v nonce (as_bytes ''profile/v1'') (as_bytes ''TCP4'' @ plain)) (\<lambda>blob.
     ok (blob_to_bytes blob)))))"

definition decode_stored_profile :: "('a, 's, 'pa, 'ps) local_packages \<Rightarrow> bytes \<Rightarrow> StoredProfile result" where
  "decode_stored_profile P decrypted =
     (case strip_prefix (as_bytes ''TCP4'') decrypted of
        Some encoded \<Rightarrow> (case profile_unpostcard P encoded of
            Inl e \<Rightarrow> bail (postcard_text e)
          | Inr plain \<Rightarrow> ok plain)
      | None \<Rightarrow>
         (case strip_prefix (as_bytes ''TCP3'') decrypted of
            Some encoded \<Rightarrow> (case profile_unpostcard P encoded of
                Inr plain \<Rightarrow> ok plain
              | Inl (DeserializeUnexpectedEnd _) \<Rightarrow> (case profile_v3_unpostcard P encoded of
                    Inl e \<Rightarrow> bail (postcard_text e)
                  | Inr plain \<Rightarrow> ok (profile_from_v3 plain))
              | Inl e \<Rightarrow> bail (postcard_text e))
          | None \<Rightarrow> profile_unjson P decrypted))"

definition runtime_profile :: "('a, 's, 'pa, 'ps) local_packages \<Rightarrow> StoredProfile \<Rightarrow>
    ('a, 's) RuntimeProfile result" where
  "runtime_profile P plain =
     attempt (identity_from_bytes (identity_unpostcard P) (identity_unjson P) (sp_identity plain)) (\<lambda>identity.
     attempt (machine_from_bytes (lp_olm P) (machine_unjson P) (machine_v1_unjson P) (sp_machine plain)) (\<lambda>machine.
     ok \<lparr>rp_username = sp_username plain, rp_account_id = sp_account_id plain,
         rp_server_url = sp_server_url plain, rp_identity = identity, rp_machine = machine,
         rp_pending = sp_pending plain, rp_pairing_secret = sp_pairing_secret plain,
         rp_account_master_public = sp_account_master_public plain, rp_spki_pin = sp_spki_pin plain,
         rp_server_capabilities = sp_server_capabilities plain\<rparr>))"

definition decode_profile :: "('a, 's, 'pa, 'ps) local_packages \<Rightarrow> VaultSession \<Rightarrow> bytes \<Rightarrow>
    ('a, 's) RuntimeProfile result" where
  "decode_profile P v encoded =
     attempt (decode_encrypted_blob P encoded) (\<lambda>blob.
     attempt (session_decrypt (lp_crypto P) v (as_bytes ''profile/v1'') blob) (\<lambda>decrypted.
     attempt (decode_stored_profile P decrypted) (runtime_profile P)))"

section \<open>Texts under the vault key\<close>

definition message_aad :: "string \<Rightarrow> bytes" where
  "message_aad ident = as_bytes (''message/v1/'' @ ident)"

definition draft_aad :: "string \<Rightarrow> bytes" where
  "draft_aad conversation = as_bytes (''draft/v2/'' @ conversation)"

definition notification_aad :: "string \<Rightarrow> bytes" where
  "notification_aad ident = as_bytes (''notification/v1/'' @ ident)"

definition encode_message :: "('a, 's, 'pa, 'ps) local_packages \<Rightarrow> bytes \<Rightarrow> VaultSession \<Rightarrow> ChatMessage \<Rightarrow>
    bytes result" where
  "encode_message P nonce v m =
     attempt (session_encrypt (lp_crypto P) v nonce (message_aad (cm_id m)) (as_bytes (cm_body m))) (\<lambda>blob.
     ok (blob_to_bytes blob))"

definition decode_body :: "('a, 's, 'pa, 'ps) local_packages \<Rightarrow> VaultSession \<Rightarrow> bytes \<Rightarrow> bytes \<Rightarrow> string result" where
  "decode_body P v aad encoded =
     attempt (decode_encrypted_blob P encoded) (\<lambda>blob.
     attempt (session_decrypt (lp_crypto P) v aad blob) from_utf8)"

definition message_from_row :: "('a, 's, 'pa, 'ps) local_packages \<Rightarrow> VaultSession \<Rightarrow> message_row \<Rightarrow>
    ChatMessage result" where
  "message_from_row P v r =
     attempt (decode_body P v (message_aad (mr_id r)) (mr_encrypted_body r)) (\<lambda>body.
     attempt (status_try_from (mr_status r)) (\<lambda>status.
     ok \<lparr>cm_id = mr_id r, cm_conversation_id = mr_conversation_id r,
         cm_peer_account_id = mr_peer_account_id r, cm_sender_account_id = mr_sender_account_id r,
         cm_body = body, cm_sent_at_ms = mr_sent_at_ms r, cm_status = status,
         cm_inbound = mr_inbound r\<rparr>))"

definition encode_notification :: "('a, 's, 'pa, 'ps) local_packages \<Rightarrow> bytes \<Rightarrow> VaultSession \<Rightarrow> Notification \<Rightarrow>
    bytes result" where
  "encode_notification P nonce v n =
     attempt (notice_json P (nt_data n)) (\<lambda>payload.
     attempt (session_encrypt (lp_crypto P) v nonce (notification_aad (nt_id n)) payload) (\<lambda>blob.
     ok (blob_to_bytes blob)))"

definition decode_notification :: "('a, 's, 'pa, 'ps) local_packages \<Rightarrow> VaultSession \<Rightarrow> notification_row \<Rightarrow>
    Notification result" where
  "decode_notification P v r =
     attempt (decode_encrypted_blob P (nr_encrypted_payload r)) (\<lambda>blob.
     attempt (session_decrypt (lp_crypto P) v (notification_aad (nr_id r)) blob) (\<lambda>plain.
     attempt (notice_unjson P plain) (\<lambda>data.
     attempt (kind_try_from (nr_kind r)) (\<lambda>kind.
     attempt (state_try_from (nr_state r)) (\<lambda>state.
     ok \<lparr>nt_id = nr_id r, nt_kind = kind, nt_request_id = nr_request_id r,
         nt_actor_account_id = nr_actor_account_id r, nt_actor_username = nr_actor_username r,
         nt_actor_device_id = nr_actor_device_id r, nt_state = state, nt_read = nr_is_read r,
         nt_created_at_ms = nr_created_at_ms r, nt_updated_at_ms = nr_updated_at_ms r,
         nt_data = data\<rparr>)))))"

section \<open>What is written under a vault session reads back\<close>

definition packages_ok :: "('a, 's, 'pa, 'ps) local_packages \<Rightarrow> bool" where
  "packages_ok P \<longleftrightarrow> aead_correct (lp_crypto P) \<and>
     (\<forall>p e. profile_postcard P p = ok e \<longrightarrow> profile_unpostcard P e = Inr p) \<and>
     (\<forall>p e. identity_postcard P p = ok e \<longrightarrow> identity_unpostcard P e = ok p) \<and>
     (\<forall>p e. machine_json P p = ok e \<longrightarrow> machine_unjson P e = ok p) \<and>
     (\<forall>a. olm_account_from_pickle (lp_olm P) (olm_account_pickle (lp_olm P) a) = a) \<and>
     (\<forall>s. olm_session_from_pickle (lp_olm P) (olm_session_pickle (lp_olm P) s) = s) \<and>
     (\<forall>n e. notice_json P n = ok e \<longrightarrow> notice_unjson P e = ok n)"

lemma session_blob_wf:
  "session_encrypt C v nonce aad m = ok b \<Longrightarrow> length nonce = 24 \<Longrightarrow> blob_wf b"
  by (auto simp: session_encrypt_def vault_encrypt_def blob_wf_def split: if_splits option.splits)

lemma session_decrypt_encrypted:
  "session_encrypt C v nonce aad m = ok b \<Longrightarrow> aead_correct C \<Longrightarrow> vs_key v' = vs_key v \<Longrightarrow>
   session_decrypt C v' aad b = ok m"
  using decrypt_encrypted [of C "vs_key v" nonce aad m b]
  by (auto simp: session_encrypt_def session_decrypt_def vault_encrypt_def split: if_splits option.splits)

lemma stored_blob_reads_back:
  assumes "session_encrypt (lp_crypto P) v nonce aad m = ok b" "length nonce = 24"
    and "aead_correct (lp_crypto P)" "vs_key v' = vs_key v"
  shows "attempt (decode_encrypted_blob P (blob_to_bytes b)) (session_decrypt (lp_crypto P) v' aad) = ok m"
  using session_decrypt_encrypted [OF assms(1,3,4)] blob_from_to_bytes [OF session_blob_wf [OF assms(1,2)]]
  by (simp add: decode_encrypted_blob_def)

lemma decode_body_encoded:
  assumes "encode_message P nonce v m = ok e" "length nonce = 24" "aead_correct (lp_crypto P)"
    and "vs_key v' = vs_key v" "string_ok (cm_body m)"
  shows "decode_body P v' (message_aad (cm_id m)) e = ok (cm_body m)"
proof -
  obtain b where b: "session_encrypt (lp_crypto P) v nonce (message_aad (cm_id m)) (as_bytes (cm_body m)) = ok b"
      "e = blob_to_bytes b"
    using assms(1) by (auto simp: encode_message_def attempt_ok_iff)
  with stored_blob_reads_back [OF b(1) assms(2,3,4)] show ?thesis
    using assms(5) by (auto simp: decode_body_def attempt_ok_iff)
qed

lemma decode_encoded_profile:
  assumes ok: "packages_ok P" and enc: "encode_profile P nonce v p = ok e" and n: "length nonce = 24"
    and key: "vs_key v' = vs_key v"
  shows "decode_profile P v' e = ok p"
proof -
  obtain i m plain b where parts: "identity_to_bytes (identity_postcard P) (rp_identity p) = ok i"
      "machine_to_bytes (lp_olm P) (machine_json P) (rp_machine p) = ok m"
      "profile_postcard P \<lparr>sp_username = rp_username p, sp_account_id = rp_account_id p,
         sp_server_url = rp_server_url p, sp_identity = i, sp_machine = m,
         sp_pending = rp_pending p, sp_pairing_secret = rp_pairing_secret p,
         sp_account_master_public = rp_account_master_public p, sp_spki_pin = rp_spki_pin p,
         sp_server_capabilities = rp_server_capabilities p\<rparr> = ok plain"
      "session_encrypt (lp_crypto P) v nonce (as_bytes ''profile/v1'') (as_bytes ''TCP4'' @ plain) = ok b"
      "e = blob_to_bytes b"
    using enc by (auto simp: encode_profile_def attempt_ok_iff)
  have i: "identity_from_bytes (identity_unpostcard P) (identity_unjson P) i = ok (rp_identity p)"
    by (rule identity_file_round_trip [OF _ parts(1)]) (use ok in \<open>simp add: packages_ok_def\<close>)
  have m: "machine_from_bytes (lp_olm P) (machine_unjson P) (machine_v1_unjson P) m = ok (rp_machine p)"
    by (rule machine_file_round_trip [OF _ _ _ parts(2)]) (use ok in \<open>simp_all add: packages_ok_def\<close>)
  have "aead_correct (lp_crypto P)" using ok by (simp add: packages_ok_def)
  from stored_blob_reads_back [OF parts(4) n this key]
  have "attempt (decode_encrypted_blob P e) (session_decrypt (lp_crypto P) v' (as_bytes ''profile/v1''))
      = ok (as_bytes ''TCP4'' @ plain)" by (simp add: parts(5))
  moreover have "decode_stored_profile P (as_bytes ''TCP4'' @ plain) = ok \<lparr>sp_username = rp_username p,
      sp_account_id = rp_account_id p, sp_server_url = rp_server_url p, sp_identity = i, sp_machine = m,
      sp_pending = rp_pending p, sp_pairing_secret = rp_pairing_secret p,
      sp_account_master_public = rp_account_master_public p, sp_spki_pin = rp_spki_pin p,
      sp_server_capabilities = rp_server_capabilities p\<rparr>"
    using ok parts(3) by (simp add: decode_stored_profile_def packages_ok_def)
  ultimately show ?thesis
    by (auto simp: decode_profile_def attempt_ok_iff runtime_profile_def i m)
qed

lemma decode_encoded_notification:
  assumes "packages_ok P" "encode_notification P nonce v n = ok e" "length nonce = 24" "vs_key v' = vs_key v"
    and "nr_id r = nt_id n" "nr_encrypted_payload r = e" "nr_kind r = kind_str (nt_kind n)"
    and "nr_state r = state_str (nt_state n)"
  shows "decode_notification P v' r = ok \<lparr>nt_id = nt_id n, nt_kind = nt_kind n,
    nt_request_id = nr_request_id r, nt_actor_account_id = nr_actor_account_id r,
    nt_actor_username = nr_actor_username r, nt_actor_device_id = nr_actor_device_id r,
    nt_state = nt_state n, nt_read = nr_is_read r, nt_created_at_ms = nr_created_at_ms r,
    nt_updated_at_ms = nr_updated_at_ms r, nt_data = nt_data n\<rparr>"
proof -
  obtain payload b where parts: "notice_json P (nt_data n) = ok payload"
      "session_encrypt (lp_crypto P) v nonce (notification_aad (nt_id n)) payload = ok b" "e = blob_to_bytes b"
    using assms(2) by (auto simp: encode_notification_def attempt_ok_iff)
  have "aead_correct (lp_crypto P)" "notice_unjson P payload = ok (nt_data n)"
    using assms(1) parts(1) by (simp_all add: packages_ok_def)
  with stored_blob_reads_back [OF parts(2) assms(3) _ assms(4)] show ?thesis
    using assms(5-8) parts(3) by (auto simp: decode_notification_def attempt_ok_iff)
qed

end
