(* ===== verification/Local_Store.thy ===== *)
theory Local_Store
  imports Local_Codec
begin

text \<open>
  The operations of \<open>LocalStore\<close> in \<open>crates/client/src/local.rs\<close> on the tables of \<open>Local_Tables\<close>. An
  operation that runs in a transaction, or in a single statement, either fails and changes nothing
  (\<open>Inl\<close>) or returns the new tables (\<open>Inr\<close>); \<open>migrate_legacy_messages\<close>, which writes row by row, returns
  the tables also when it fails. The clock value of \<open>now_ms()\<close> is the argument \<open>now\<close>, read once per
  operation.
\<close>

type_synonym store_update = "local_db \<Rightarrow> local_db result"

section \<open>Statements shared by the operations\<close>

definition upsert_profile :: "bytes \<Rightarrow> i64 \<Rightarrow> local_db \<Rightarrow> local_db" where
  "upsert_profile blob now s = s\<lparr>lo_profile := Some \<lparr>pf_encrypted_blob = blob, pf_updated_at_ms = now,
     pf_encryption_version = 2\<rparr>\<rparr>"

text \<open>
  The trigger \<open>messages_summary_insert\<close> in its last version (migration 0004). It runs under the conflict
  policy of \<open>INSERT OR IGNORE INTO messages\<close>: a known conversation is updated, and that update fails when
  it would give two conversations the same peer; a new conversation of a peer that already has one is
  ignored.
\<close>

definition unread_row :: "message_row \<Rightarrow> bool" where
  "unread_row m \<longleftrightarrow> mr_inbound m \<and> mr_status m \<noteq> ''read''"

definition summary_insert :: "message_row \<Rightarrow> summary_row list \<Rightarrow> summary_row list result" where
  "summary_insert m ss =
     (let unread = (if unread_row m then 1 else 0) in
      if \<exists>r \<in> set ss. su_conversation_id r = mr_conversation_id m then
        (if \<exists>r \<in> set ss. su_conversation_id r \<noteq> mr_conversation_id m
              \<and> su_peer_account_id r = mr_peer_account_id m
         then Inl (Constraint ''conversation_summaries.peer_account_id'')
         else ok (update_where (\<lambda>r. su_conversation_id r = mr_conversation_id m)
           (\<lambda>r. r\<lparr>su_peer_account_id := mr_peer_account_id m,
                  su_last_activity_ms := max (su_last_activity_ms r) (mr_sent_at_ms m),
                  su_unread_count := su_unread_count r + unread\<rparr>) ss))
      else if \<exists>r \<in> set ss. su_peer_account_id r = mr_peer_account_id m then ok ss
      else ok (ss @ [\<lparr>su_conversation_id = mr_conversation_id m, su_peer_account_id = mr_peer_account_id m,
                      su_last_activity_ms = mr_sent_at_ms m, su_unread_count = unread\<rparr>]))"

text \<open>\<open>INSERT OR IGNORE INTO messages\<close> with the encrypted body and \<open>encryption_version = 2\<close>.\<close>

definition row_of_message :: "bytes \<Rightarrow> ChatMessage \<Rightarrow> message_row" where
  "row_of_message body m = \<lparr>mr_id = cm_id m, mr_conversation_id = cm_conversation_id m,
     mr_peer_account_id = cm_peer_account_id m, mr_sender_account_id = cm_sender_account_id m,
     mr_encrypted_body = body, mr_sent_at_ms = cm_sent_at_ms m, mr_status = status_str (cm_status m),
     mr_inbound = cm_inbound m, mr_encryption_version = 2\<rparr>"

definition insert_message :: "message_row \<Rightarrow> store_update" where
  "insert_message m s =
     (if \<exists>r \<in> set (lo_messages s). mr_id r = mr_id m then ok s
      else attempt (summary_insert m (lo_summaries s)) (\<lambda>ss.
        ok (s\<lparr>lo_messages := lo_messages s @ [m], lo_summaries := ss\<rparr>)))"

text \<open>The trigger \<open>messages_summary_read\<close>, per updated row.\<close>

definition summary_read :: "string \<Rightarrow> message_row \<Rightarrow> summary_row list \<Rightarrow> summary_row list" where
  "summary_read new old ss =
     (if mr_inbound old \<and> mr_status old \<noteq> ''read'' \<and> new = ''read''
      then update_where (\<lambda>r. su_conversation_id r = mr_conversation_id old)
        (\<lambda>r. r\<lparr>su_unread_count := max 0 (su_unread_count r - 1)\<rparr>) ss
      else ss)"

definition set_status_where :: "(message_row \<Rightarrow> bool) \<Rightarrow> string \<Rightarrow> local_db \<Rightarrow> local_db" where
  "set_status_where p new s = s\<lparr>
     lo_messages := update_where p (\<lambda>r. r\<lparr>mr_status := new\<rparr>) (lo_messages s),
     lo_summaries := fold (summary_read new) (filter p (lo_messages s)) (lo_summaries s)\<rparr>"

definition put_outbox :: "string \<Rightarrow> bytes \<Rightarrow> i64 \<Rightarrow> local_db \<Rightarrow> local_db" where
  "put_outbox ident frame now s = s\<lparr>lo_outbox := delete_where (\<lambda>r. ob_id r = ident) (lo_outbox s)
     @ [\<lparr>ob_id = ident, ob_encoded_frame = frame, ob_created_at_ms = now\<rparr>]\<rparr>"

definition set_envelope_cursor :: "u64 \<Rightarrow> local_db \<Rightarrow> local_db" where
  "set_envelope_cursor cursor s = s\<lparr>lo_envelope_cursor := sint cursor\<rparr>"

text \<open>
  \<open>INSERT INTO notifications ... ON CONFLICT(request_id) DO UPDATE\<close>: \<open>keep_created\<close> is true where the
  update leaves \<open>created_at_ms\<close> as it was. The primary key \<open>id\<close> may still collide with another row.
\<close>

definition upsert_notification :: "bool \<Rightarrow> notification_row \<Rightarrow> store_update" where
  "upsert_notification keep_created n s =
     (if \<exists>r \<in> set (lo_notifications s). nr_id r = nr_id n \<and> nr_request_id r \<noteq> nr_request_id n
      then Inl (Constraint ''notifications.id'')
      else if \<exists>r \<in> set (lo_notifications s). nr_request_id r = nr_request_id n
      then ok (s\<lparr>lo_notifications := update_where (\<lambda>r. nr_request_id r = nr_request_id n)
        (\<lambda>r. n\<lparr>nr_created_at_ms := (if keep_created then nr_created_at_ms r else nr_created_at_ms n)\<rparr>)
        (lo_notifications s)\<rparr>)
      else ok (s\<lparr>lo_notifications := lo_notifications s @ [n]\<rparr>))"

definition row_of_notification :: "bytes \<Rightarrow> Notification \<Rightarrow> notification_row" where
  "row_of_notification payload n = \<lparr>nr_id = nt_id n, nr_kind = kind_str (nt_kind n),
     nr_request_id = nt_request_id n, nr_actor_account_id = nt_actor_account_id n,
     nr_actor_username = nt_actor_username n, nr_actor_device_id = nt_actor_device_id n,
     nr_encrypted_payload = payload, nr_state = state_str (nt_state n), nr_is_read = nt_read n,
     nr_created_at_ms = nt_created_at_ms n, nr_updated_at_ms = nt_updated_at_ms n\<rparr>"

section \<open>Vault and profile\<close>

text \<open>
  \<open>unlock\<close>: \<open>fresh\<close> are the data key, salt and nonces that \<open>OsRng\<close> draws, \<open>backup\<close> the outcome of writing
  the backup file.
\<close>

definition legacy_messages :: "local_db \<Rightarrow> message_row list" where
  "legacy_messages s = filter (\<lambda>m. mr_encryption_version m = 1) (lo_messages s)"

definition legacy_count :: "local_db \<Rightarrow> nat" where
  "legacy_count s = (case lo_profile s of None \<Rightarrow> 0 | Some p \<Rightarrow> if pf_encryption_version p = 1 then 1 else 0)
     + length (legacy_messages s)"

definition unlock :: "('a, 's, 'pa, 'ps) local_packages \<Rightarrow> i64 \<Rightarrow> bytes \<times> bytes \<times> bytes \<times> bytes \<Rightarrow>
    unit result \<Rightarrow> string \<Rightarrow> local_db \<Rightarrow> (VaultSession \<times> local_db) result" where
  "unlock P now fresh backup passphrase s =
     (case lo_vault s of
        Some row \<Rightarrow>
          attempt (wrapped_from_bytes (wrapped_unjson P) (vr_wrapped_key row)) (\<lambda>wrapped.
          attempt (vault_unlock (lp_crypto P) passphrase wrapped) (\<lambda>key.
          ok (\<lparr>vs_key = key, vs_legacy_passphrase = (if 0 < legacy_count s then Some passphrase else None)\<rparr>, s)))
      | None \<Rightarrow>
          (case fresh of (data_key, salt, wrap_nonce, profile_nonce) \<Rightarrow>
          attempt (case lo_profile s of
              None \<Rightarrow> ok None
            | Some p \<Rightarrow> attempt (decode_encrypted_blob P (pf_encrypted_blob p)) (\<lambda>blob.
                attempt (decrypt_blob (lp_crypto P) passphrase (as_bytes ''profile/v1'') blob) (\<lambda>plain.
                ok (Some (p, plain))))) (\<lambda>profile_plain.
          attempt (if lo_profile s \<noteq> None then backup else ok ()) (\<lambda>_.
          attempt (vault_create (lp_crypto P) data_key salt wrap_nonce passphrase) (\<lambda>(key, wrapped).
          attempt (case profile_plain of
              None \<Rightarrow> ok (lo_profile s)
            | Some (p, plain) \<Rightarrow>
                attempt (vault_encrypt (lp_crypto P) key profile_nonce (as_bytes ''profile/v1'') plain) (\<lambda>blob.
                ok (Some (p\<lparr>pf_encrypted_blob := blob_to_bytes blob, pf_encryption_version := 2,
                            pf_updated_at_ms := now\<rparr>)))) (\<lambda>profile.
          ok (\<lparr>vs_key = key, vs_legacy_passphrase =
                 (if 0 < length (legacy_messages s) then Some passphrase else None)\<rparr>,
              s\<lparr>lo_vault := Some \<lparr>vr_wrapped_key = wrapped_to_bytes wrapped, vr_created_at_ms = now\<rparr>,
                lo_profile := profile\<rparr>)))))))"

text \<open>
  \<open>migrate_legacy_messages\<close> re-encrypts the rows of version 1 one after the other, each in a statement of
  its own; the nonces are drawn from \<open>nonces\<close> in order. It returns the number of migrated rows, or the
  error of the row at which it stopped, and in both cases the tables as they are then.
\<close>

definition migrate_row :: "('a, 's, 'pa, 'ps) local_packages \<Rightarrow> bytes \<Rightarrow> VaultSession \<Rightarrow> message_row \<Rightarrow>
    bytes result" where
  "migrate_row P nonce v r =
     attempt (decode_encrypted_blob P (mr_encrypted_body r)) (\<lambda>blob.
     attempt (session_decrypt (lp_crypto P) v (message_aad (mr_id r)) blob) (\<lambda>plaintext.
     attempt (session_encrypt (lp_crypto P) v nonce (message_aad (mr_id r)) plaintext) (\<lambda>b.
     ok (blob_to_bytes b))))"

fun migrate_rows :: "('a, 's, 'pa, 'ps) local_packages \<Rightarrow> (nat \<Rightarrow> bytes) \<Rightarrow> VaultSession \<Rightarrow> message_row list \<Rightarrow>
    nat \<Rightarrow> local_db \<Rightarrow> nat result \<times> local_db" where
  "migrate_rows P nonces v [] migrated s = (ok migrated, s)"
| "migrate_rows P nonces v (r # rs) migrated s =
     (case migrate_row P (nonces migrated) v r of
        Inl e \<Rightarrow> (Inl e, s)
      | Inr encoded \<Rightarrow> migrate_rows P nonces v rs (migrated + 1)
          (s\<lparr>lo_messages := update_where (\<lambda>m. mr_id m = mr_id r \<and> mr_encryption_version m = 1)
             (\<lambda>m. m\<lparr>mr_encrypted_body := encoded, mr_encryption_version := 2\<rparr>) (lo_messages s)\<rparr>))"

definition migrate_legacy_messages :: "('a, 's, 'pa, 'ps) local_packages \<Rightarrow> (nat \<Rightarrow> bytes) \<Rightarrow> VaultSession \<Rightarrow>
    local_db \<Rightarrow> nat result \<times> local_db" where
  "migrate_legacy_messages P nonces v s =
     migrate_rows P nonces v (sort_key mr_sent_at_ms (legacy_messages s)) 0 s"

definition has_profile :: "local_db \<Rightarrow> bool" where
  "has_profile s \<longleftrightarrow> lo_profile s \<noteq> None"

definition has_vault :: "local_db \<Rightarrow> bool" where
  "has_vault s \<longleftrightarrow> lo_vault s \<noteq> None"

definition load_profile :: "('a, 's, 'pa, 'ps) local_packages \<Rightarrow> VaultSession \<Rightarrow> local_db \<Rightarrow>
    ('a, 's) RuntimeProfile option result" where
  "load_profile P v s =
     (case lo_profile s of
        None \<Rightarrow> ok None
      | Some row \<Rightarrow> attempt (decode_profile P v (pf_encrypted_blob row)) (\<lambda>p. ok (Some p)))"

definition save_profile :: "('a, 's, 'pa, 'ps) local_packages \<Rightarrow> i64 \<Rightarrow> bytes \<Rightarrow> VaultSession \<Rightarrow>
    ('a, 's) RuntimeProfile \<Rightarrow> store_update" where
  "save_profile P now nonce v p s =
     attempt (encode_profile P nonce v p) (\<lambda>blob. ok (upsert_profile blob now s))"

section \<open>Preferences\<close>

definition ui_preference :: "string \<Rightarrow> local_db \<Rightarrow> string option" where
  "ui_preference key s = map_option pr_value (find (\<lambda>r. pr_key r = key) (lo_preferences s))"

definition save_ui_preference :: "i64 \<Rightarrow> string \<Rightarrow> string \<Rightarrow> local_db \<Rightarrow> local_db" where
  "save_ui_preference now key v s = s\<lparr>lo_preferences :=
     (if \<exists>r \<in> set (lo_preferences s). pr_key r = key
      then update_where (\<lambda>r. pr_key r = key) (\<lambda>r. r\<lparr>pr_value := v, pr_updated_at_ms := now\<rparr>) (lo_preferences s)
      else lo_preferences s @ [\<lparr>pr_key = key, pr_value = v, pr_updated_at_ms = now\<rparr>])\<rparr>"

section \<open>Commits\<close>

definition commit_outgoing :: "('a, 's, 'pa, 'ps) local_packages \<Rightarrow> i64 \<Rightarrow> bytes \<times> bytes \<Rightarrow> VaultSession \<Rightarrow>
    ('a, 's) RuntimeProfile \<Rightarrow> ChatMessage \<Rightarrow> bytes \<Rightarrow> store_update" where
  "commit_outgoing P now nonces v p m encoded_frame s =
     attempt (encode_profile P (fst nonces) v p) (\<lambda>profile_blob.
     attempt (encode_message P (snd nonces) v m) (\<lambda>body.
     attempt (insert_message (row_of_message body m) (upsert_profile profile_blob now s)) (\<lambda>s.
     ok (put_outbox (cm_id m) encoded_frame now s))))"

definition commit_control_outgoing :: "('a, 's, 'pa, 'ps) local_packages \<Rightarrow> i64 \<Rightarrow> bytes \<Rightarrow> VaultSession \<Rightarrow>
    ('a, 's) RuntimeProfile \<Rightarrow> string \<Rightarrow> bytes \<Rightarrow> store_update" where
  "commit_control_outgoing P now nonce v p ident encoded_frame s =
     attempt (encode_profile P nonce v p) (\<lambda>profile_blob.
     ok (put_outbox ident encoded_frame now (upsert_profile profile_blob now s)))"

definition commit_inbound :: "('a, 's, 'pa, 'ps) local_packages \<Rightarrow> i64 \<Rightarrow> bytes \<times> bytes \<Rightarrow> VaultSession \<Rightarrow>
    ('a, 's) RuntimeProfile \<Rightarrow> ChatMessage \<Rightarrow> u64 \<Rightarrow> store_update" where
  "commit_inbound P now nonces v p m cursor s =
     attempt (encode_profile P (fst nonces) v p) (\<lambda>profile_blob.
     attempt (encode_message P (snd nonces) v m) (\<lambda>body.
     attempt (insert_message (row_of_message body m) (upsert_profile profile_blob now s)) (\<lambda>s.
     ok (set_envelope_cursor cursor s))))"

definition commit_unverified_inbound :: "('a, 's, 'pa, 'ps) local_packages \<Rightarrow> i64 \<Rightarrow>
    bytes \<times> bytes \<times> bytes \<Rightarrow> VaultSession \<Rightarrow> ('a, 's) RuntimeProfile \<Rightarrow> ChatMessage \<Rightarrow> Notification \<Rightarrow> u64 \<Rightarrow>
    store_update" where
  "commit_unverified_inbound P now nonces v p m n cursor s =
     attempt (encode_profile P (fst nonces) v p) (\<lambda>profile_blob.
     attempt (encode_message P (fst (snd nonces)) v m) (\<lambda>body.
     attempt (encode_notification P (snd (snd nonces)) v n) (\<lambda>payload.
     attempt (insert_message (row_of_message body m) (upsert_profile profile_blob now s)) (\<lambda>s.
     attempt (upsert_notification False (row_of_notification payload n) s) (\<lambda>s.
     ok (set_envelope_cursor cursor s))))))"

definition commit_control :: "('a, 's, 'pa, 'ps) local_packages \<Rightarrow> i64 \<Rightarrow> bytes \<Rightarrow> VaultSession \<Rightarrow>
    ('a, 's) RuntimeProfile \<Rightarrow> u64 \<Rightarrow> store_update" where
  "commit_control P now nonce v p cursor s =
     attempt (encode_profile P nonce v p) (\<lambda>profile_blob.
     ok (set_envelope_cursor cursor (upsert_profile profile_blob now s)))"

section \<open>Contacts\<close>

definition summary_of :: "string \<Rightarrow> local_db \<Rightarrow> summary_row option" where
  "summary_of account s = find (\<lambda>r. su_peer_account_id r = account) (lo_summaries s)"

definition last_activity :: "local_db \<Rightarrow> contact_row \<Rightarrow> i64" where
  "last_activity s c = (case summary_of (cr_account_id c) s of None \<Rightarrow> 0 | Some r \<Rightarrow> su_last_activity_ms r)"

definition unread_count :: "local_db \<Rightarrow> contact_row \<Rightarrow> int" where
  "unread_count s c = (case summary_of (cr_account_id c) s of None \<Rightarrow> 0 | Some r \<Rightarrow> su_unread_count r)"

definition contact_from_row :: "('a, 's, 'pa, 'ps) local_packages \<Rightarrow> local_db \<Rightarrow> contact_row \<Rightarrow> Contact result" where
  "contact_from_row P s c =
     attempt (bundle_decode P (cr_bundle c)) (\<lambda>bundle.
     ok \<lparr>ct_bundle = bundle, ct_verified = cr_verified c, ct_identity_changed = cr_identity_changed c,
         ct_unread_count = word_of_int (unread_count s c), ct_last_activity_ms = last_activity s c\<rparr>)"

definition contact_by_username :: "('a, 's, 'pa, 'ps) local_packages \<Rightarrow> string \<Rightarrow> local_db \<Rightarrow>
    Contact option result" where
  "contact_by_username P username s =
     (case find (\<lambda>c. nocase_eq (cr_username c) username) (lo_contacts s) of
        None \<Rightarrow> ok None
      | Some c \<Rightarrow> attempt (contact_from_row P s c) (\<lambda>contact. ok (Some contact)))"

definition contacts :: "('a, 's, 'pa, 'ps) local_packages \<Rightarrow> local_db \<Rightarrow> Contact list result" where
  "contacts P s = collect_results (map (contact_from_row P s)
     (sort_key (\<lambda>c. (- last_activity s c, to_ascii_lowercase (cr_username c))) (lo_contacts s)))"

text \<open>\<open>INSERT INTO contacts ... ON CONFLICT(account_id) DO UPDATE\<close>; \<open>username\<close> is \<open>UNIQUE COLLATE NOCASE\<close>.\<close>

definition put_contact :: "contact_row \<Rightarrow> store_update" where
  "put_contact c s =
     (if \<exists>r \<in> set (lo_contacts s). cr_account_id r \<noteq> cr_account_id c
           \<and> nocase_eq (cr_username r) (cr_username c)
      then Inl (Constraint ''contacts.username'')
      else if \<exists>r \<in> set (lo_contacts s). cr_account_id r = cr_account_id c
      then ok (s\<lparr>lo_contacts := update_where (\<lambda>r. cr_account_id r = cr_account_id c) (\<lambda>_. c) (lo_contacts s)\<rparr>)
      else ok (s\<lparr>lo_contacts := lo_contacts s @ [c]\<rparr>))"

definition upsert_contact :: "('a, 's, 'pa, 'ps) local_packages \<Rightarrow> i64 \<Rightarrow> UserBundle_msg \<Rightarrow> local_db \<Rightarrow>
    (Contact \<times> local_db) result" where
  "upsert_contact P now bundle s =
     attempt (contact_by_username P (ub_username bundle) s) (\<lambda>old.
     let identity_changed = (case old of None \<Rightarrow> False
           | Some c \<Rightarrow> ub_account_master_key (ct_bundle c) \<noteq> ub_account_master_key bundle);
         verified = (case old of None \<Rightarrow> False | Some c \<Rightarrow> ct_verified c) \<and> \<not> identity_changed
     in attempt (put_contact \<lparr>cr_account_id = ub_account_id bundle, cr_username = ub_username bundle,
           cr_bundle = bundle_encode P bundle, cr_verified = verified,
           cr_identity_changed = identity_changed, cr_updated_at_ms = now\<rparr> s) (\<lambda>s'.
        attempt (contact_by_username P (ub_username bundle) s') (\<lambda>found.
        case found of None \<Rightarrow> bail ''contact disappeared after upsert'' | Some c \<Rightarrow> ok (c, s'))))"

definition export_contacts :: "local_db \<Rightarrow> TransferContact list" where
  "export_contacts s = map (\<lambda>c. \<lparr>tc_bundle = cr_bundle c, tc_verified = cr_verified c\<rparr>)
     (sort_key (\<lambda>c. to_ascii_lowercase (cr_username c)) (lo_contacts s))"

definition import_contact :: "('a, 's, 'pa, 'ps) local_packages \<Rightarrow> i64 \<Rightarrow> TransferContact \<Rightarrow> store_update" where
  "import_contact P now contact s =
     attempt (bundle_decode P (tc_bundle contact)) (\<lambda>bundle.
     put_contact \<lparr>cr_account_id = ub_account_id bundle, cr_username = ub_username bundle,
       cr_bundle = tc_bundle contact, cr_verified = tc_verified contact, cr_identity_changed = False,
       cr_updated_at_ms = now\<rparr> s)"

definition import_contacts :: "('a, 's, 'pa, 'ps) local_packages \<Rightarrow> i64 \<Rightarrow> TransferContact list \<Rightarrow> store_update" where
  "import_contacts P now cs = fold_result (import_contact P now) cs"

definition verify_contact :: "string \<Rightarrow> local_db \<Rightarrow> local_db" where
  "verify_contact account_id s = s\<lparr>
     lo_contacts := update_where (\<lambda>c. cr_account_id c = account_id)
       (\<lambda>c. c\<lparr>cr_verified := True, cr_identity_changed := False\<rparr>) (lo_contacts s),
     lo_outbox := delete_where (\<lambda>o'. \<exists>t \<in> set (lo_tombstones s).
       ts_peer_account_id t = account_id \<and> ts_sync_event_id t = ob_id o') (lo_outbox s),
     lo_tombstones := delete_where (\<lambda>t. ts_peer_account_id t = account_id) (lo_tombstones s)\<rparr>"

section \<open>Deleting conversations\<close>

definition delete_conversation_state :: "string \<Rightarrow> string \<Rightarrow> local_db \<Rightarrow> local_db" where
  "delete_conversation_state peer conversation s = s\<lparr>
     lo_outbox := delete_where (\<lambda>o'. \<exists>m \<in> set (lo_messages s).
       mr_conversation_id m = conversation \<and> mr_id m = ob_id o') (lo_outbox s),
     lo_messages := delete_where (\<lambda>m. mr_conversation_id m = conversation) (lo_messages s),
     lo_drafts := delete_where (\<lambda>d. df_conversation_id d = conversation) (lo_drafts s),
     lo_summaries := delete_where (\<lambda>r. su_conversation_id r = conversation) (lo_summaries s),
     lo_notifications := delete_where (\<lambda>n. nr_actor_account_id n = peer
       \<and> nr_kind n \<in> {''chat_request'', ''chat_response''}) (lo_notifications s),
     lo_contacts := delete_where (\<lambda>c. cr_account_id c = peer) (lo_contacts s)\<rparr>"

text \<open>The \<open>CASE\<close> expressions of \<open>upsert_conversation_tombstone\<close>, of the stored row and the new one.\<close>

definition merge_tombstone :: "tombstone_row \<Rightarrow> tombstone_row \<Rightarrow> tombstone_row" where
  "merge_tombstone new old = \<lparr>
     ts_peer_account_id = ts_peer_account_id old,
     ts_peer_username = (if ts_deleted_at_ms old \<le> ts_deleted_at_ms new
       then ts_peer_username new else ts_peer_username old),
     ts_conversation_id = (if ts_deleted_at_ms old \<le> ts_deleted_at_ms new
       then ts_conversation_id new else ts_conversation_id old),
     ts_sync_event_id = (if ts_pending_sync old then ts_sync_event_id old
       else if ts_pending_sync new then ts_sync_event_id new
       else if ts_deleted_at_ms old \<le> ts_deleted_at_ms new
       then ts_sync_event_id new else ts_sync_event_id old),
     ts_deleted_at_ms = max (ts_deleted_at_ms new) (ts_deleted_at_ms old),
     ts_pending_sync = (ts_pending_sync new \<or> ts_pending_sync old)\<rparr>"

definition upsert_tombstone :: "tombstone_row \<Rightarrow> store_update" where
  "upsert_tombstone t s =
     (case find (\<lambda>r. ts_peer_account_id r = ts_peer_account_id t) (lo_tombstones s) of
        None \<Rightarrow>
          if \<exists>r \<in> set (lo_tombstones s). ts_sync_event_id r = ts_sync_event_id t
          then Inl (Constraint ''conversation_tombstones.sync_event_id'')
          else ok (s\<lparr>lo_tombstones := lo_tombstones s @ [t]\<rparr>)
      | Some old \<Rightarrow>
          if \<exists>r \<in> set (lo_tombstones s). ts_peer_account_id r \<noteq> ts_peer_account_id t
               \<and> ts_sync_event_id r = ts_sync_event_id (merge_tombstone t old)
          then Inl (Constraint ''conversation_tombstones.sync_event_id'')
          else ok (s\<lparr>lo_tombstones := update_where (\<lambda>r. ts_peer_account_id r = ts_peer_account_id t)
                 (merge_tombstone t) (lo_tombstones s)\<rparr>))"

definition tombstone_row_of :: "ConversationTombstone \<Rightarrow> bool \<Rightarrow> tombstone_row" where
  "tombstone_row_of t pending = \<lparr>ts_peer_account_id = cb_peer_account_id t,
     ts_peer_username = cb_peer_username t, ts_conversation_id = cb_conversation_id t,
     ts_sync_event_id = cb_sync_event_id t, ts_deleted_at_ms = cb_deleted_at_ms t,
     ts_pending_sync = pending\<rparr>"

definition delete_conversation_everywhere :: "string \<Rightarrow> string \<Rightarrow> string \<Rightarrow> string \<Rightarrow> i64 \<Rightarrow> store_update" where
  "delete_conversation_everywhere peer username conversation sync_event_id deleted_at_ms s =
     upsert_tombstone \<lparr>ts_peer_account_id = peer, ts_peer_username = username,
       ts_conversation_id = conversation, ts_sync_event_id = sync_event_id,
       ts_deleted_at_ms = deleted_at_ms, ts_pending_sync = True\<rparr> (delete_conversation_state peer conversation s)"

definition commit_conversation_deletion :: "('a, 's, 'pa, 'ps) local_packages \<Rightarrow> i64 \<Rightarrow> bytes \<Rightarrow> VaultSession \<Rightarrow>
    ('a, 's) RuntimeProfile \<Rightarrow> ConversationTombstone \<Rightarrow> u64 \<Rightarrow> store_update" where
  "commit_conversation_deletion P now nonce v p t cursor s =
     attempt (encode_profile P nonce v p) (\<lambda>profile_blob.
     attempt (upsert_tombstone (tombstone_row_of t False)
         (delete_conversation_state (cb_peer_account_id t) (cb_conversation_id t) s)) (\<lambda>s.
     ok (set_envelope_cursor cursor (upsert_profile profile_blob now s))))"

definition pending_conversation_deletions :: "local_db \<Rightarrow> ConversationTombstone list" where
  "pending_conversation_deletions s =
     map (\<lambda>t. \<lparr>cb_peer_account_id = ts_peer_account_id t, cb_peer_username = ts_peer_username t,
       cb_conversation_id = ts_conversation_id t, cb_sync_event_id = ts_sync_event_id t,
       cb_deleted_at_ms = ts_deleted_at_ms t\<rparr>)
     (sort_key ts_deleted_at_ms (filter ts_pending_sync (lo_tombstones s)))"

definition conversation_tombstoned :: "string \<Rightarrow> local_db \<Rightarrow> bool" where
  "conversation_tombstoned peer s \<longleftrightarrow> 0 < count_where (\<lambda>t. ts_peer_account_id t = peer) (lo_tombstones s)"

definition mark_conversation_deletion_synced :: "string \<Rightarrow> local_db \<Rightarrow> local_db" where
  "mark_conversation_deletion_synced sync_event_id s = s\<lparr>lo_tombstones :=
     update_where (\<lambda>t. ts_sync_event_id t = sync_event_id) (\<lambda>t. t\<lparr>ts_pending_sync := False\<rparr>) (lo_tombstones s)\<rparr>"

section \<open>Messages\<close>

definition MESSAGE_PAGE_SIZE :: nat where
  "MESSAGE_PAGE_SIZE = 100"

definition save_message :: "('a, 's, 'pa, 'ps) local_packages \<Rightarrow> bytes \<Rightarrow> VaultSession \<Rightarrow> ChatMessage \<Rightarrow>
    store_update" where
  "save_message P nonce v m s =
     attempt (encode_message P nonce v m) (\<lambda>body. insert_message (row_of_message body m) s)"

definition export_messages :: "('a, 's, 'pa, 'ps) local_packages \<Rightarrow> VaultSession \<Rightarrow> local_db \<Rightarrow>
    ChatMessage list result" where
  "export_messages P v s = collect_results (map (message_from_row P v) (sort_key mr_sent_at_ms (lo_messages s)))"

text \<open>\<open>import_messages\<close> saves one message after the other and stops at the first error.\<close>

fun import_messages :: "('a, 's, 'pa, 'ps) local_packages \<Rightarrow> (nat \<Rightarrow> bytes) \<Rightarrow> VaultSession \<Rightarrow>
    ChatMessage list \<Rightarrow> local_db \<Rightarrow> unit result \<times> local_db" where
  "import_messages P nonces v [] s = (ok (), s)"
| "import_messages P nonces v (m # ms) s =
     (case save_message P (nonces (length ms)) v m s of
        Inl e \<Rightarrow> (Inl e, s)
      | Inr s' \<Rightarrow> import_messages P nonces v ms s')"

definition message_key :: "message_row \<Rightarrow> i64 \<times> string" where
  "message_key r = (mr_sent_at_ms r, mr_id r)"

definition newest_rows :: "message_row list \<Rightarrow> message_row list" where
  "newest_rows rows = sort_key message_key (take MESSAGE_PAGE_SIZE (rev (sort_key message_key rows)))"

definition messages :: "('a, 's, 'pa, 'ps) local_packages \<Rightarrow> VaultSession \<Rightarrow> string \<Rightarrow> local_db \<Rightarrow>
    ChatMessage list result" where
  "messages P v conversation s = collect_results (map (message_from_row P v)
     (newest_rows (filter (\<lambda>r. mr_conversation_id r = conversation) (lo_messages s))))"

definition messages_before :: "('a, 's, 'pa, 'ps) local_packages \<Rightarrow> VaultSession \<Rightarrow> string \<Rightarrow> i64 \<Rightarrow> string \<Rightarrow>
    local_db \<Rightarrow> ChatMessage list result" where
  "messages_before P v conversation sent_at_ms ident s = collect_results (map (message_from_row P v)
     (newest_rows (filter (\<lambda>r. mr_conversation_id r = conversation
        \<and> (mr_sent_at_ms r < sent_at_ms \<or> mr_sent_at_ms r = sent_at_ms \<and> mr_id r < ident)) (lo_messages s))))"

section \<open>Drafts\<close>

definition save_draft :: "('a, 's, 'pa, 'ps) local_packages \<Rightarrow> i64 \<Rightarrow> bytes \<Rightarrow> VaultSession \<Rightarrow> string \<Rightarrow> string \<Rightarrow>
    store_update" where
  "save_draft P now nonce v conversation txt s =
     (if txt = [] then ok (s\<lparr>lo_drafts := delete_where (\<lambda>d. df_conversation_id d = conversation) (lo_drafts s)\<rparr>)
      else attempt (session_encrypt (lp_crypto P) v nonce (draft_aad conversation) (as_bytes txt)) (\<lambda>blob.
        ok (s\<lparr>lo_drafts :=
          (if \<exists>d \<in> set (lo_drafts s). df_conversation_id d = conversation
           then update_where (\<lambda>d. df_conversation_id d = conversation)
             (\<lambda>d. d\<lparr>df_encrypted_body := blob_to_bytes blob, df_updated_at_ms := now\<rparr>) (lo_drafts s)
           else lo_drafts s @ [\<lparr>df_conversation_id = conversation, df_encrypted_body = blob_to_bytes blob,
             df_updated_at_ms = now\<rparr>])\<rparr>)))"

definition load_draft :: "('a, 's, 'pa, 'ps) local_packages \<Rightarrow> VaultSession \<Rightarrow> string \<Rightarrow> local_db \<Rightarrow>
    string result" where
  "load_draft P v conversation s =
     (case find (\<lambda>d. df_conversation_id d = conversation) (lo_drafts s) of
        None \<Rightarrow> ok []
      | Some d \<Rightarrow> decode_body P v (draft_aad conversation) (df_encrypted_body d))"

section \<open>Statuses\<close>

definition status_case :: "string \<Rightarrow> nat" where
  "status_case v = (if v = ''sending'' then 0 else if v = ''sent'' then 1
     else if v = ''delivered'' then 2 else if v = ''read'' then 3 else 0)"

definition update_status :: "string \<Rightarrow> MessageStatus \<Rightarrow> local_db \<Rightarrow> local_db" where
  "update_status ident status = set_status_where
     (\<lambda>r. mr_id r = ident \<and> status_case (mr_status r) < status_case (status_str status)) (status_str status)"

definition update_outbound_status_for_peer :: "string \<Rightarrow> string \<Rightarrow> MessageStatus \<Rightarrow> local_db \<Rightarrow> local_db" where
  "update_outbound_status_for_peer ident peer status = set_status_where
     (\<lambda>r. mr_id r = ident \<and> mr_peer_account_id r = peer \<and> \<not> mr_inbound r
        \<and> status_case (mr_status r) < status_case (status_str status)) (status_str status)"

section \<open>Outbox and cursors\<close>

definition outbox :: "local_db \<Rightarrow> (string \<times> bytes) list" where
  "outbox s = map (\<lambda>r. (ob_id r, ob_encoded_frame r)) (sort_key ob_created_at_ms (lo_outbox s))"

definition outbox_contains :: "string \<Rightarrow> local_db \<Rightarrow> bool" where
  "outbox_contains ident s \<longleftrightarrow> 0 < count_where (\<lambda>r. ob_id r = ident) (lo_outbox s)"

definition remove_outbox :: "string \<Rightarrow> local_db \<Rightarrow> local_db" where
  "remove_outbox ident s = s\<lparr>lo_outbox := delete_where (\<lambda>r. ob_id r = ident) (lo_outbox s)\<rparr>"

definition cursors :: "local_db \<Rightarrow> u64 \<times> u64" where
  "cursors s = (word_of_int (lo_envelope_cursor s), word_of_int (lo_status_cursor s))"

definition set_cursors :: "u64 \<Rightarrow> u64 \<Rightarrow> local_db \<Rightarrow> local_db" where
  "set_cursors envelope status s = s\<lparr>lo_envelope_cursor := sint envelope, lo_status_cursor := sint status\<rparr>"

section \<open>Notifications and processed events\<close>

definition notifications :: "('a, 's, 'pa, 'ps) local_packages \<Rightarrow> VaultSession \<Rightarrow> local_db \<Rightarrow>
    Notification list result" where
  "notifications P v s = collect_results (map (decode_notification P v)
     (take 200 (rev (sort_key (\<lambda>n. (nr_created_at_ms n, nr_id n)) (lo_notifications s)))))"

definition notification_by_request_id :: "('a, 's, 'pa, 'ps) local_packages \<Rightarrow> VaultSession \<Rightarrow> string \<Rightarrow> local_db \<Rightarrow>
    Notification option result" where
  "notification_by_request_id P v request_id s =
     (case find (\<lambda>n. nr_request_id n = request_id) (lo_notifications s) of
        None \<Rightarrow> ok None
      | Some n \<Rightarrow> attempt (decode_notification P v n) (\<lambda>x. ok (Some x)))"

definition save_notification :: "('a, 's, 'pa, 'ps) local_packages \<Rightarrow> bytes \<Rightarrow> VaultSession \<Rightarrow> Notification \<Rightarrow>
    store_update" where
  "save_notification P nonce v n s =
     attempt (encode_notification P nonce v n) (\<lambda>payload.
     upsert_notification True (row_of_notification payload n) s)"

definition update_notification_state :: "i64 \<Rightarrow> string \<Rightarrow> NotificationState \<Rightarrow> bool \<Rightarrow> local_db \<Rightarrow> local_db" where
  "update_notification_state now ident state read s = s\<lparr>lo_notifications :=
     update_where (\<lambda>n. nr_id n = ident)
       (\<lambda>n. n\<lparr>nr_state := state_str state, nr_is_read := read, nr_updated_at_ms := now\<rparr>) (lo_notifications s)\<rparr>"

definition mark_notification_read :: "i64 \<Rightarrow> string \<Rightarrow> local_db \<Rightarrow> local_db" where
  "mark_notification_read now ident s = s\<lparr>lo_notifications :=
     update_where (\<lambda>n. nr_id n = ident) (\<lambda>n. n\<lparr>nr_is_read := True, nr_updated_at_ms := now\<rparr>) (lo_notifications s)\<rparr>"

definition delete_notification :: "string \<Rightarrow> local_db \<Rightarrow> local_db" where
  "delete_notification ident s = s\<lparr>lo_notifications := delete_where (\<lambda>n. nr_id n = ident) (lo_notifications s)\<rparr>"

definition pairing_event_processed :: "u64 \<Rightarrow> local_db \<Rightarrow> bool" where
  "pairing_event_processed event s \<longleftrightarrow> 0 < count_where (\<lambda>r. pp_server_event_id r = sint event) (lo_processed s)"

definition mark_pairing_event_processed :: "i64 \<Rightarrow> u64 \<Rightarrow> local_db \<Rightarrow> local_db" where
  "mark_pairing_event_processed now event s = s\<lparr>lo_processed :=
     (if \<exists>r \<in> set (lo_processed s). pp_server_event_id r = sint event then lo_processed s
      else lo_processed s @ [\<lparr>pp_server_event_id = sint event, pp_processed_at_ms = now\<rparr>])\<rparr>"

end
