(* ===== verification/Local_Invariants.thy ===== *)
theory Local_Invariants
  imports Local_Store
begin

text \<open>
  The invariant of the client's tables and its preservation by every operation that writes them: keys are
  unique, every stored message belongs to a summary of its conversation, and each summary counts the
  unread inbound messages and knows the time of the newest one. The conversation of a peer is a function
  \<open>conv\<close> of the peer, as in the client, where it is the digest of both account names.
\<close>

section \<open>Messages and their summaries\<close>

definition summary_exact :: "message_row list \<Rightarrow> summary_row \<Rightarrow> bool" where
  "summary_exact ms r \<longleftrightarrow>
     su_unread_count r = int (count_where (\<lambda>m. mr_conversation_id m = su_conversation_id r \<and> unread_row m) ms) \<and>
     (\<forall>m \<in> set ms. mr_conversation_id m = su_conversation_id r \<longrightarrow> mr_sent_at_ms m \<le> su_last_activity_ms r) \<and>
     (\<exists>m \<in> set ms. mr_conversation_id m = su_conversation_id r \<and> mr_sent_at_ms m = su_last_activity_ms r)"

definition message_ok :: "(string \<Rightarrow> string) \<Rightarrow> message_row \<Rightarrow> bool" where
  "message_ok conv m \<longleftrightarrow> mr_conversation_id m = conv (mr_peer_account_id m) \<and> mr_status m \<in> range status_str"

definition mail_ok :: "(string \<Rightarrow> string) \<Rightarrow> message_row list \<Rightarrow> summary_row list \<Rightarrow> bool" where
  "mail_ok conv ms ss \<longleftrightarrow> distinct (map mr_id ms) \<and> distinct (map su_conversation_id ss) \<and>
     (\<forall>m \<in> set ms. message_ok conv m \<and> mr_conversation_id m \<in> su_conversation_id ` set ss) \<and>
     (\<forall>r \<in> set ss. su_conversation_id r = conv (su_peer_account_id r) \<and> summary_exact ms r)"

lemma mail_ok_Nil [simp]: "mail_ok conv [] []"
  by (simp add: mail_ok_def)

lemma mail_okI:
  assumes "distinct (map mr_id ms)" "distinct (map su_conversation_id ss)"
    and "\<And>m. m \<in> set ms \<Longrightarrow> message_ok conv m"
    and "\<And>m. m \<in> set ms \<Longrightarrow> mr_conversation_id m \<in> su_conversation_id ` set ss"
    and "\<And>r. r \<in> set ss \<Longrightarrow> su_conversation_id r = conv (su_peer_account_id r) \<and> summary_exact ms r"
  shows "mail_ok conv ms ss"
  using assms unfolding mail_ok_def by blast

lemma mail_okD:
  assumes "mail_ok conv ms ss"
  shows "distinct (map mr_id ms)" "distinct (map su_conversation_id ss)"
    "m \<in> set ms \<Longrightarrow> message_ok conv m" "m \<in> set ms \<Longrightarrow> mr_conversation_id m \<in> su_conversation_id ` set ss"
    "r \<in> set ss \<Longrightarrow> su_conversation_id r = conv (su_peer_account_id r)"
    "r \<in> set ss \<Longrightarrow> summary_exact ms r"
  using assms by (blast intro: mail_ok_def [THEN iffD1, THEN conjunct1] | simp add: mail_ok_def)+

lemma summary_exact_other:
  assumes "mr_conversation_id m \<noteq> su_conversation_id r"
  shows "summary_exact (ms @ [m]) r \<longleftrightarrow> summary_exact ms r"
  using assms by (auto simp: summary_exact_def count_where_def)

lemma summary_exact_insert:
  assumes "mr_conversation_id m = su_conversation_id r" "summary_exact ms r"
  shows "summary_exact (ms @ [m]) (r\<lparr>su_peer_account_id := p,
    su_last_activity_ms := max (su_last_activity_ms r) (mr_sent_at_ms m),
    su_unread_count := su_unread_count r + (if unread_row m then 1 else 0)\<rparr>)"
  using assms by (auto simp: summary_exact_def count_where_def max_def)

lemma summary_exact_first:
  assumes "\<forall>m' \<in> set ms. mr_conversation_id m' \<noteq> mr_conversation_id m"
  shows "summary_exact (ms @ [m]) \<lparr>su_conversation_id = mr_conversation_id m, su_peer_account_id = p,
    su_last_activity_ms = mr_sent_at_ms m, su_unread_count = (if unread_row m then 1 else 0)\<rparr>"
  using assms by (auto simp: summary_exact_def count_where_def filter_empty_conv)

lemma mail_ok_insert_known:
  assumes ok: "mail_ok conv ms ss" and m: "message_ok conv m" "mr_id m \<notin> mr_id ` set ms"
    and known: "\<exists>r \<in> set ss. su_conversation_id r = mr_conversation_id m"
  shows "\<exists>ss'. summary_insert m ss = ok ss' \<and> mail_ok conv (ms @ [m]) ss'"
proof -
  let ?ss = "update_where (\<lambda>r. su_conversation_id r = mr_conversation_id m)
    (\<lambda>r. r\<lparr>su_peer_account_id := mr_peer_account_id m,
        su_last_activity_ms := max (su_last_activity_ms r) (mr_sent_at_ms m),
        su_unread_count := su_unread_count r + (if unread_row m then 1 else 0)\<rparr>) ss"
  have "\<not> (\<exists>r \<in> set ss. su_conversation_id r \<noteq> mr_conversation_id m \<and> su_peer_account_id r = mr_peer_account_id m)"
    using ok m by (auto simp: mail_ok_def message_ok_def)
  then have ins: "summary_insert m ss = ok ?ss" using known by (simp add: summary_insert_def Let_def)
  have keys: "map su_conversation_id ?ss = map su_conversation_id ss"
    by (rule map_update_where_same) simp
  then have key_set: "su_conversation_id ` set ?ss = su_conversation_id ` set ss"
    by (metis list.set_map)
  have m_key: "mr_conversation_id m \<in> su_conversation_id ` set ss"
    using known by (metis imageI)
  have exact: "su_conversation_id r = conv (su_peer_account_id r) \<and> summary_exact (ms @ [m]) r"
    if "r \<in> set ?ss" for r
  proof -
    obtain q where q: "q \<in> set ss" "r = (if su_conversation_id q = mr_conversation_id m
        then q\<lparr>su_peer_account_id := mr_peer_account_id m,
          su_last_activity_ms := max (su_last_activity_ms q) (mr_sent_at_ms m),
          su_unread_count := su_unread_count q + (if unread_row m then 1 else 0)\<rparr> else q)"
      using \<open>r \<in> set ?ss\<close> unfolding in_update_where by blast
    note mail_okD(5,6) [OF ok q(1)]
    with q(2) m(1) show ?thesis
      by (cases "su_conversation_id q = mr_conversation_id m")
        (simp_all add: summary_exact_insert summary_exact_other message_ok_def)
  qed
  have "mail_ok conv (ms @ [m]) ?ss"
  proof (rule mail_okI)
    show "mr_conversation_id x \<in> su_conversation_id ` set ?ss" if "x \<in> set (ms @ [m])" for x
      using that mail_okD(4) [OF ok] m_key by (auto simp only: key_set set_append list.set)
    show "distinct (map su_conversation_id ?ss)"
      using mail_okD(2) [OF ok] by (simp only: keys)
    show "message_ok conv x" if "x \<in> set (ms @ [m])" for x
      using that mail_okD(3) [OF ok] m(1) by auto
    show "distinct (map mr_id (ms @ [m]))"
      using mail_okD(1) [OF ok] m(2) by simp
  qed (fact exact)
  with ins show ?thesis by blast
qed

lemma mail_ok_insert_new:
  assumes ok: "mail_ok conv ms ss" and m: "message_ok conv m" "mr_id m \<notin> mr_id ` set ms"
    and fresh: "\<not> (\<exists>r \<in> set ss. su_conversation_id r = mr_conversation_id m)"
  shows "\<exists>ss'. summary_insert m ss = ok ss' \<and> mail_ok conv (ms @ [m]) ss'"
proof -
  have peer: "\<not> (\<exists>r \<in> set ss. su_peer_account_id r = mr_peer_account_id m)"
    using fresh ok m by (fastforce simp: mail_ok_def message_ok_def)
  have "\<forall>m' \<in> set ms. mr_conversation_id m' \<noteq> mr_conversation_id m"
    using ok fresh by (fastforce simp: mail_ok_def)
  note first = summary_exact_first [OF this, of "mr_peer_account_id m"]
  have "summary_exact (ms @ [m]) r" if "r \<in> set ss" for r
    using that ok fresh summary_exact_other [of m r ms] by (auto simp: mail_ok_def)
  moreover have "summary_insert m ss = ok (ss @ [\<lparr>su_conversation_id = mr_conversation_id m,
      su_peer_account_id = mr_peer_account_id m, su_last_activity_ms = mr_sent_at_ms m,
      su_unread_count = (if unread_row m then 1 else 0)\<rparr>])" (is "_ = ok (ss @ [?r])")
    using fresh peer by (simp add: summary_insert_def)
  moreover have "mail_ok conv (ms @ [m]) (ss @ [?r])"
  proof (rule mail_okI)
    show "distinct (map mr_id (ms @ [m]))"
      using mail_okD(1) [OF ok] m(2) by simp
    show "distinct (map su_conversation_id (ss @ [?r]))"
      using mail_okD(2) [OF ok] fresh by auto
    show "message_ok conv x" if "x \<in> set (ms @ [m])" for x
      using that mail_okD(3) [OF ok] m(1) by auto
    show "mr_conversation_id x \<in> su_conversation_id ` set (ss @ [?r])" if "x \<in> set (ms @ [m])" for x
      using that mail_okD(4) [OF ok, of x] by (cases "x = m") simp_all
    show "su_conversation_id x = conv (su_peer_account_id x) \<and> summary_exact (ms @ [m]) x"
      if "x \<in> set (ss @ [?r])" for x
    proof (cases "x = ?r")
      case True
      with first m(1) show ?thesis by (simp add: message_ok_def)
    next
      case other: False
      with that have "x \<in> set ss" by simp
      with \<open>\<And>r. r \<in> set ss \<Longrightarrow> summary_exact (ms @ [m]) r\<close> mail_okD(5) [OF ok] show ?thesis by blast
    qed
  qed
  ultimately show ?thesis by blast
qed

lemma mail_ok_insert:
  assumes "mail_ok conv ms ss" "message_ok conv m" "mr_id m \<notin> mr_id ` set ms"
  shows "\<exists>ss'. summary_insert m ss = ok ss' \<and> mail_ok conv (ms @ [m]) ss'"
  using mail_ok_insert_known [OF assms] mail_ok_insert_new [OF assms] by blast

lemma mail_ok_delete:
  assumes ok: "mail_ok conv ms ss"
  shows "mail_ok conv (delete_where (\<lambda>m. mr_conversation_id m = c) ms)
    (delete_where (\<lambda>r. su_conversation_id r = c) ss)"
proof (rule mail_okI)
  show "mr_conversation_id m \<in> su_conversation_id ` set (delete_where (\<lambda>r. su_conversation_id r = c) ss)"
    if "m \<in> set (delete_where (\<lambda>m. mr_conversation_id m = c) ms)" for m
    using that mail_okD(4) [OF ok, of m] by auto
  fix r
  assume r: "r \<in> set (delete_where (\<lambda>r. su_conversation_id r = c) ss)"
  then have "filter (\<lambda>m. mr_conversation_id m = su_conversation_id r \<and> unread_row m)
      (delete_where (\<lambda>m. mr_conversation_id m = c) ms) =
    filter (\<lambda>m. mr_conversation_id m = su_conversation_id r \<and> unread_row m) ms"
    by (auto simp: delete_where_def intro: filter_cong)
  with r show "su_conversation_id r = conv (su_peer_account_id r) \<and>
      summary_exact (delete_where (\<lambda>m. mr_conversation_id m = c) ms) r"
    using mail_okD(5,6) [OF ok, of r] by (auto simp: summary_exact_def count_where_def)
qed (use mail_okD [OF ok] in \<open>auto intro: distinct_map_delete_where\<close>)

lemma filter_by_key:
  assumes "distinct (map k xs)" "\<And>x. p x \<Longrightarrow> k x = i"
  shows "filter p xs = [] \<or> (\<exists>x \<in> set xs. p x \<and> filter p xs = [x])"
  using assms(1)
proof (induction xs)
  case (Cons x xs)
  have "filter p xs = []" if "p x"
    using Cons.prems assms(2) that by (fastforce simp: filter_empty_conv)
  with Cons show ?case by auto
qed simp

lemma count_where_update:
  assumes "\<And>m. p m \<Longrightarrow> q (f m) = q m"
  shows "count_where q (update_where p f ms) = count_where q ms"
  using assms by (induction ms) (auto simp: count_where_def)

lemma ball_update_where:
  assumes "\<And>m. p m \<Longrightarrow> q (f m) = q m"
  shows "(\<forall>m \<in> set (update_where p f ms). q m) \<longleftrightarrow> (\<forall>m \<in> set ms. q m)"
    "(\<exists>m \<in> set (update_where p f ms). q m) \<longleftrightarrow> (\<exists>m \<in> set ms. q m)"
  using assms by (induction ms) auto

lemma summary_exact_update:
  assumes "\<And>m. p m \<Longrightarrow> unread_row (f m) = unread_row m"
    and "\<And>m. mr_conversation_id (f m) = mr_conversation_id m" "\<And>m. mr_sent_at_ms (f m) = mr_sent_at_ms m"
  shows "summary_exact (update_where p f ms) r \<longleftrightarrow> summary_exact ms r"
proof -
  have "count_where (\<lambda>m. mr_conversation_id m = su_conversation_id r \<and> unread_row m) (update_where p f ms) =
      count_where (\<lambda>m. mr_conversation_id m = su_conversation_id r \<and> unread_row m) ms"
    by (rule count_where_update) (simp add: assms)
  then show ?thesis by (simp add: summary_exact_def assms ball_update_where)
qed

lemma mail_ok_update:
  assumes ok: "mail_ok conv ms ss"
    and f: "\<And>m. mr_id (f m) = mr_id m" "\<And>m. mr_conversation_id (f m) = mr_conversation_id m"
      "\<And>m. mr_peer_account_id (f m) = mr_peer_account_id m" "\<And>m. mr_sent_at_ms (f m) = mr_sent_at_ms m"
      "\<And>m. p m \<Longrightarrow> mr_status m \<in> range status_str \<Longrightarrow> mr_status (f m) \<in> range status_str"
    and ss: "map su_conversation_id ss' = map su_conversation_id ss"
    and exact: "\<And>r. r \<in> set ss' \<Longrightarrow> su_conversation_id r = conv (su_peer_account_id r) \<and>
      summary_exact (update_where p f ms) r"
  shows "mail_ok conv (update_where p f ms) ss'"
proof -
  have "map mr_id (update_where p f ms) = map mr_id ms" by (rule map_update_where_same) (rule f)
  moreover have "su_conversation_id ` set ss' = su_conversation_id ` set ss"
    using ss by (metis list.set_map)
  moreover have "message_ok conv m \<and> mr_conversation_id m \<in> su_conversation_id ` set ss"
    if m: "m \<in> set (update_where p f ms)" for m
  proof -
    obtain q where q: "q \<in> set ms" "m = (if p q then f q else q)"
      using m by (auto simp: in_update_where)
    have "mr_conversation_id m = mr_conversation_id q" using q(2) f(2) by simp
    moreover have "message_ok conv m"
      using mail_okD(3) [OF ok q(1)] q(2) f(2,3,5) by (simp add: message_ok_def)
    ultimately show ?thesis using mail_okD(4) [OF ok q(1)] by simp
  qed
  ultimately show ?thesis
    using mail_okD(1,2) [OF ok] ss exact by (intro mail_okI) (simp_all only:)
qed

lemma mail_ok_reencrypt:
  assumes "mail_ok conv ms ss"
  shows "mail_ok conv (update_where p (\<lambda>m. m\<lparr>mr_encrypted_body := b, mr_encryption_version := v\<rparr>) ms) ss"
  by (rule mail_ok_update [OF assms])
    (use mail_okD(5,6) [OF assms] in \<open>auto simp: summary_exact_update unread_row_def\<close>)

lemma count_where_update_one:
  "filter p ms = [x] \<Longrightarrow> count_where q (update_where p f ms) + (if q x then 1 else 0) =
    count_where q ms + (if q (f x) then 1 else 0)"
proof (induction ms)
  case (Cons y ys)
  show ?case
  proof (cases "p y")
    case True
    with Cons.prems have "y = x" "update_where p f ys = ys"
      by (auto simp: filter_empty_conv intro!: update_where_False)
    with True show ?thesis by (simp add: count_where_def)
  next
    case False
    with Cons show ?thesis by (simp add: count_where_def)
  qed
qed simp

lemma status_case_read: "status_case v < status_case w \<Longrightarrow> v \<noteq> ''read''"
  by (auto simp: status_case_def split: if_splits)

text \<open>The summary of one conversation after one message got a later status.\<close>

lemma summary_exact_status:
  assumes one: "filter p ms = [x]" and old: "mr_status x \<noteq> ''read''" and r: "r \<in> set (summary_read new x ss)"
    and exact: "\<And>q. q \<in> set ss \<Longrightarrow> summary_exact ms q"
  shows "summary_exact (update_where p (\<lambda>m. m\<lparr>mr_status := new\<rparr>) ms) r"
proof -
  define f where "f = (\<lambda>m. m\<lparr>mr_status := new\<rparr> :: message_row)"
  let ?q = "\<lambda>c m. mr_conversation_id m = c \<and> unread_row m"
  obtain q where q: "q \<in> set ss" "su_conversation_id q = su_conversation_id r"
      "su_last_activity_ms q = su_last_activity_ms r"
      "su_unread_count r = (if mr_inbound x \<and> new = ''read'' \<and> su_conversation_id q = mr_conversation_id x
         then max 0 (su_unread_count q - 1) else su_unread_count q)"
  proof (cases "mr_inbound x \<and> new = ''read''")
    case True
    with old have "summary_read new x ss = update_where (\<lambda>r. su_conversation_id r = mr_conversation_id x)
        (\<lambda>r. r\<lparr>su_unread_count := max 0 (su_unread_count r - 1)\<rparr>) ss"
      by (simp add: summary_read_def)
    with r have "r \<in> set (update_where (\<lambda>r. su_conversation_id r = mr_conversation_id x)
        (\<lambda>r. r\<lparr>su_unread_count := max 0 (su_unread_count r - 1)\<rparr>) ss)" by simp
    then obtain q where "q \<in> set ss" "r = (if su_conversation_id q = mr_conversation_id x
        then q\<lparr>su_unread_count := max 0 (su_unread_count q - 1)\<rparr> else q)"
      unfolding in_update_where by blast
    with True show thesis by (intro that [of q]) auto
  next
    case False
    with r show thesis by (intro that [of r]) (auto simp: summary_read_def)
  qed
  have "int (count_where (?q (su_conversation_id r)) (update_where p f ms)) = su_unread_count r"
    using exact [OF q(1)] q(2,4) old count_where_update_one [OF one, of "?q (su_conversation_id r)" f]
    by (auto simp: summary_exact_def unread_row_def f_def split: if_splits)
  moreover have "(\<forall>m \<in> set (update_where p f ms). mr_conversation_id m = su_conversation_id r \<longrightarrow>
        mr_sent_at_ms m \<le> su_last_activity_ms r) \<and>
      (\<exists>m \<in> set (update_where p f ms). mr_conversation_id m = su_conversation_id r \<and>
        mr_sent_at_ms m = su_last_activity_ms r)"
    using exact [OF q(1)] q(2,3)
    by (simp add: ball_update_where f_def summary_exact_def)
  ultimately show ?thesis by (simp add: summary_exact_def f_def)
qed

lemma mail_ok_status:
  assumes ok: "mail_ok conv ms ss" and p: "\<And>r. p r \<Longrightarrow> mr_id r = i \<and> status_case (mr_status r) < status_case new"
    and new: "new \<in> range status_str"
  shows "mail_ok conv (update_where p (\<lambda>r. r\<lparr>mr_status := new\<rparr>) ms) (fold (summary_read new) (filter p ms) ss)"
proof -
  have id: "\<And>r. p r \<Longrightarrow> mr_id r = i" using p by blast
  have "filter p ms = [] \<or> (\<exists>x \<in> set ms. p x \<and> filter p ms = [x])"
    by (rule filter_by_key [OF mail_okD(1) [OF ok]]) (rule id)
  then show ?thesis
  proof (elim disjE bexE conjE)
    assume none: "filter p ms = []"
    then have "update_where p (\<lambda>r. r\<lparr>mr_status := new\<rparr>) ms = ms"
      by (intro update_where_False) (auto simp: filter_empty_conv)
    with none ok show ?thesis by simp
  next
    fix x
    assume x: "x \<in> set ms" "p x" "filter p ms = [x]"
    then have old: "mr_status x \<noteq> ''read''" using p status_case_read by blast
    show ?thesis
    proof (rule mail_ok_update [OF ok])
      show "map su_conversation_id (fold (summary_read new) (filter p ms) ss) = map su_conversation_id ss"
        by (simp add: x(3) summary_read_def map_update_where_same)
      fix r
      assume "r \<in> set (fold (summary_read new) (filter p ms) ss)"
      then have r: "r \<in> set (summary_read new x ss)" by (simp add: x(3))
      moreover from r have "su_conversation_id r = conv (su_peer_account_id r)"
        using mail_okD(5) [OF ok] by (auto simp: summary_read_def in_update_where split: if_splits)
      ultimately show "su_conversation_id r = conv (su_peer_account_id r) \<and>
          summary_exact (update_where p (\<lambda>r. r\<lparr>mr_status := new\<rparr>) ms) r"
        using summary_exact_status [OF x(3) old r mail_okD(6) [OF ok]] by blast
    qed (use new in auto)
  qed
qed

section \<open>All tables\<close>

definition store_ok :: "(string \<Rightarrow> string) \<Rightarrow> local_db \<Rightarrow> bool" where
  "store_ok conv s \<longleftrightarrow> mail_ok conv (lo_messages s) (lo_summaries s) \<and>
     distinct (map cr_account_id (lo_contacts s)) \<and>
     distinct (map (\<lambda>c. to_ascii_lowercase (cr_username c)) (lo_contacts s)) \<and>
     distinct (map ob_id (lo_outbox s)) \<and> distinct (map df_conversation_id (lo_drafts s)) \<and>
     distinct (map nr_id (lo_notifications s)) \<and> distinct (map nr_request_id (lo_notifications s)) \<and>
     distinct (map ts_peer_account_id (lo_tombstones s)) \<and> distinct (map ts_sync_event_id (lo_tombstones s)) \<and>
     distinct (map pr_key (lo_preferences s)) \<and> distinct (map pp_server_event_id (lo_processed s))"

lemma store_ok_empty: "store_ok conv empty_store"
  by (simp add: store_ok_def empty_store_def)

lemma store_ok_mail: "store_ok conv s \<Longrightarrow> mail_ok conv (lo_messages s) (lo_summaries s)"
  by (simp add: store_ok_def)

text \<open>A key column stays unique when the row of another unique key gets a value no other row has.\<close>

lemma distinct_update_where:
  assumes "distinct (map key rs)" "distinct (map k rs)"
    and "\<And>r q. r \<in> set rs \<Longrightarrow> q \<in> set rs \<Longrightarrow> key r = i \<Longrightarrow> key q \<noteq> i \<Longrightarrow> k (f r) \<noteq> k q"
  shows "distinct (map k (update_where (\<lambda>r. key r = i) f rs))"
  using assms
proof (induction rs)
  case (Cons r rs)
  have ih: "distinct (map k (update_where (\<lambda>r. key r = i) f rs))"
    by (rule Cons.IH) (use Cons.prems in auto)
  show ?case
  proof (cases "key r = i")
    case True
    have other: "key q \<noteq> i" if "q \<in> set rs" for q
      using Cons.prems(1) True that by (auto simp: rev_image_eqI)
    then have "update_where (\<lambda>r. key r = i) f rs = rs" by (rule update_where_False)
    moreover have "k (f r) \<notin> k ` set rs" using Cons.prems(3) [of r] True other by force
    ultimately show ?thesis using Cons.prems(2) True by simp
  next
    case False
    have "k r \<notin> k ` set (update_where (\<lambda>r. key r = i) f rs)"
      using Cons.prems(2,3) False by (fastforce simp: in_update_where)
    with ih False show ?thesis by simp
  qed
qed simp

lemma upsert_profile_ok [simp]: "store_ok conv (upsert_profile b now s) \<longleftrightarrow> store_ok conv s"
  by (simp add: store_ok_def upsert_profile_def)

lemma set_envelope_cursor_ok [simp]: "store_ok conv (set_envelope_cursor c s) \<longleftrightarrow> store_ok conv s"
  by (simp add: store_ok_def set_envelope_cursor_def)

lemma set_cursors_ok [simp]: "store_ok conv (set_cursors e c s) \<longleftrightarrow> store_ok conv s"
  by (simp add: store_ok_def set_cursors_def)

lemma put_outbox_ok: "store_ok conv s \<Longrightarrow> store_ok conv (put_outbox i f now s)"
  by (auto simp: store_ok_def put_outbox_def intro: distinct_map_delete_where)

lemma remove_outbox_ok: "store_ok conv s \<Longrightarrow> store_ok conv (remove_outbox i s)"
  by (auto simp: store_ok_def remove_outbox_def intro: distinct_map_delete_where)

lemma insert_message_ok:
  assumes "store_ok conv s" "message_ok conv m"
  shows "\<exists>s'. insert_message m s = ok s' \<and> store_ok conv s'"
proof (cases "\<exists>r \<in> set (lo_messages s). mr_id r = mr_id m")
  case True
  with assms(1) show ?thesis by (simp add: insert_message_def)
next
  case False
  then have "mr_id m \<notin> mr_id ` set (lo_messages s)" by force
  from mail_ok_insert [OF store_ok_mail [OF assms(1)] assms(2) this] False assms(1) show ?thesis
    by (auto simp: insert_message_def store_ok_def)
qed

lemma set_status_ok:
  assumes "store_ok conv s" "\<And>r. p r \<Longrightarrow> mr_id r = i \<and> status_case (mr_status r) < status_case (status_str st)"
  shows "store_ok conv (set_status_where p (status_str st) s)"
  using mail_ok_status [OF store_ok_mail [OF assms(1)] assms(2)] assms(1)
  by (simp add: store_ok_def set_status_where_def)

lemma upsert_notification_ok:
  assumes "store_ok conv s" "upsert_notification keep n s = ok s'"
  shows "store_ok conv s'"
proof -
  let ?f = "\<lambda>r. n\<lparr>nr_created_at_ms := (if keep then nr_created_at_ms r else nr_created_at_ms n)\<rparr>"
  let ?N = "update_where (\<lambda>r. nr_request_id r = nr_request_id n) ?f (lo_notifications s)"
  have d: "distinct (map nr_id (lo_notifications s))" "distinct (map nr_request_id (lo_notifications s))"
    using assms(1) by (simp_all add: store_ok_def)
  have free: "nr_id r \<noteq> nr_id n" if "r \<in> set (lo_notifications s)" "nr_request_id r \<noteq> nr_request_id n" for r
    using assms(2) that by (auto simp: upsert_notification_def split: if_splits)
  show ?thesis
  proof (cases "\<exists>r \<in> set (lo_notifications s). nr_request_id r = nr_request_id n")
    case True
    then have "s' = s\<lparr>lo_notifications := ?N\<rparr>"
      using assms(2) by (auto simp: upsert_notification_def split: if_splits)
    moreover have "distinct (map nr_id ?N)"
      by (rule distinct_update_where [OF d(2,1)]) (use free in force)
    moreover have "distinct (map nr_request_id ?N)"
      by (rule distinct_update_where [OF d(2,2)]) simp
    ultimately show ?thesis using assms(1) by (simp add: store_ok_def)
  next
    case False
    then have "s' = s\<lparr>lo_notifications := lo_notifications s @ [n]\<rparr>"
      using assms(2) by (auto simp: upsert_notification_def split: if_splits)
    moreover have "nr_id n \<notin> nr_id ` set (lo_notifications s)"
        "nr_request_id n \<notin> nr_request_id ` set (lo_notifications s)"
      using False free by (metis (no_types, lifting) imageE)+
    ultimately show ?thesis using d assms(1) by (simp add: store_ok_def)
  qed
qed

lemma notifications_update_ok:
  assumes "store_ok conv s" "\<And>n. nr_id (f n) = nr_id n" "\<And>n. nr_request_id (f n) = nr_request_id n"
  shows "store_ok conv (s\<lparr>lo_notifications := update_where p f (lo_notifications s)\<rparr>)"
  using assms by (simp add: store_ok_def map_update_where_same)

lemma delete_notification_ok: "store_ok conv s \<Longrightarrow> store_ok conv (delete_notification i s)"
  by (auto simp: store_ok_def delete_notification_def intro: distinct_map_delete_where)

lemma save_ui_preference_ok: "store_ok conv s \<Longrightarrow> store_ok conv (save_ui_preference now k v s)"
  by (auto simp: store_ok_def save_ui_preference_def map_update_where_same)

lemma mark_pairing_event_processed_ok:
  "store_ok conv s \<Longrightarrow> store_ok conv (mark_pairing_event_processed now e s)"
  by (auto simp: store_ok_def mark_pairing_event_processed_def)

lemma save_draft_ok: "store_ok conv s \<Longrightarrow> save_draft P now n v c t s = ok s' \<Longrightarrow> store_ok conv s'"
  by (auto simp: save_draft_def attempt_ok_iff store_ok_def map_update_where_same
      intro: distinct_map_delete_where split: if_splits)

lemma put_contact_ok:
  assumes "store_ok conv s" "put_contact c s = ok s'"
  shows "store_ok conv s'"
proof -
  let ?C = "update_where (\<lambda>r. cr_account_id r = cr_account_id c) (\<lambda>_. c) (lo_contacts s)"
  have d: "distinct (map cr_account_id (lo_contacts s))"
      "distinct (map (\<lambda>c. to_ascii_lowercase (cr_username c)) (lo_contacts s))"
    using assms(1) by (simp_all add: store_ok_def)
  have free: "to_ascii_lowercase (cr_username r) \<noteq> to_ascii_lowercase (cr_username c)"
    if "r \<in> set (lo_contacts s)" "cr_account_id r \<noteq> cr_account_id c" for r
    using assms(2) that by (auto simp: put_contact_def nocase_eq_def split: if_splits)
  show ?thesis
  proof (cases "\<exists>r \<in> set (lo_contacts s). cr_account_id r = cr_account_id c")
    case True
    then have "s' = s\<lparr>lo_contacts := ?C\<rparr>"
      using assms(2) by (auto simp: put_contact_def split: if_splits)
    moreover have "distinct (map cr_account_id ?C)"
      by (rule distinct_update_where [OF d(1,1)]) simp
    moreover have "distinct (map (\<lambda>c. to_ascii_lowercase (cr_username c)) ?C)"
      by (rule distinct_update_where [OF d]) (metis free)
    ultimately show ?thesis using assms(1) by (simp add: store_ok_def)
  next
    case False
    then have "s' = s\<lparr>lo_contacts := lo_contacts s @ [c]\<rparr>"
      using assms(2) by (auto simp: put_contact_def split: if_splits)
    moreover have "cr_account_id c \<notin> cr_account_id ` set (lo_contacts s)"
        "to_ascii_lowercase (cr_username c) \<notin> (\<lambda>c. to_ascii_lowercase (cr_username c)) ` set (lo_contacts s)"
      using False free by (metis (no_types, lifting) imageE)+
    ultimately show ?thesis using d assms(1) by (simp add: store_ok_def)
  qed
qed

lemma upsert_contact_ok: "store_ok conv s \<Longrightarrow> upsert_contact P now b s = ok (c, s') \<Longrightarrow> store_ok conv s'"
  by (auto simp: upsert_contact_def attempt_ok_iff Let_def split: option.splits intro: put_contact_ok)

lemma fold_result_ok:
  assumes "fold_result f xs s = ok s'" "Q s" "\<And>x s s'. Q s \<Longrightarrow> f x s = ok s' \<Longrightarrow> Q s'"
  shows "Q s'"
  using assms(1,2) by (induction xs arbitrary: s) (auto simp: attempt_ok_iff dest: assms(3))

lemma import_contacts_ok: "store_ok conv s \<Longrightarrow> import_contacts P now cs s = ok s' \<Longrightarrow> store_ok conv s'"
  unfolding import_contacts_def
  by (erule fold_result_ok [where Q = "store_ok conv"])
    (auto simp: import_contact_def attempt_ok_iff intro: put_contact_ok)

lemma verify_contact_ok: "store_ok conv s \<Longrightarrow> store_ok conv (verify_contact a s)"
  by (auto simp: store_ok_def verify_contact_def map_update_where_same intro: distinct_map_delete_where)

lemma delete_conversation_state_ok:
  "store_ok conv s \<Longrightarrow> store_ok conv (delete_conversation_state peer c s)"
  by (auto simp: store_ok_def delete_conversation_state_def intro: mail_ok_delete distinct_map_delete_where)

lemma mark_conversation_deletion_synced_ok:
  "store_ok conv s \<Longrightarrow> store_ok conv (mark_conversation_deletion_synced e s)"
  by (auto simp: store_ok_def mark_conversation_deletion_synced_def map_update_where_same)

lemma merge_tombstone_peer [simp]: "ts_peer_account_id (merge_tombstone t old) = ts_peer_account_id old"
  by (simp add: merge_tombstone_def)

lemma upsert_tombstone_ok:
  assumes "store_ok conv s" "upsert_tombstone t s = ok s'"
  shows "store_ok conv s'"
proof (cases "find (\<lambda>r. ts_peer_account_id r = ts_peer_account_id t) (lo_tombstones s)")
  case None
  then have "ts_peer_account_id t \<notin> ts_peer_account_id ` set (lo_tombstones s)"
    by (auto simp: find_None_iff)
  moreover have "s' = s\<lparr>lo_tombstones := lo_tombstones s @ [t]\<rparr>"
      "ts_sync_event_id t \<notin> ts_sync_event_id ` set (lo_tombstones s)"
    using assms(2) None by (auto simp: upsert_tombstone_def split: if_splits)
  ultimately show ?thesis using assms(1) by (simp add: store_ok_def)
next
  case (Some old)
  let ?T = "update_where (\<lambda>r. ts_peer_account_id r = ts_peer_account_id t) (merge_tombstone t) (lo_tombstones s)"
  have d: "distinct (map ts_peer_account_id (lo_tombstones s))" "distinct (map ts_sync_event_id (lo_tombstones s))"
    using assms(1) by (simp_all add: store_ok_def)
  have s': "s' = s\<lparr>lo_tombstones := ?T\<rparr>" and free: "\<And>r. r \<in> set (lo_tombstones s) \<Longrightarrow>
      ts_peer_account_id r \<noteq> ts_peer_account_id t \<Longrightarrow>
      ts_sync_event_id r \<noteq> ts_sync_event_id (merge_tombstone t old)"
    using assms(2) Some by (auto simp: upsert_tombstone_def split: if_splits)
  have "r = old" if "r \<in> set (lo_tombstones s)" "ts_peer_account_id r = ts_peer_account_id t" for r
    using find_distinct_key [OF d(1) that(1)] Some that(2) by simp
  then have "distinct (map ts_sync_event_id ?T)"
    by (intro distinct_update_where [OF d]) (use free in force)
  moreover have "distinct (map ts_peer_account_id ?T)"
    using d(1) by (simp add: map_update_where_same)
  ultimately show ?thesis using assms(1) s' by (simp add: store_ok_def)
qed

lemma migrate_rows_ok:
  "store_ok conv s \<Longrightarrow> store_ok conv (snd (migrate_rows P nonces v rs n s))"
proof (induction rs arbitrary: n s)
  case (Cons r rs)
  have "store_ok conv (s\<lparr>lo_messages := update_where (\<lambda>m. mr_id m = mr_id r \<and> mr_encryption_version m = 1)
      (\<lambda>m. m\<lparr>mr_encrypted_body := b, mr_encryption_version := 2\<rparr>) (lo_messages s)\<rparr>)" for b
    using Cons.prems mail_ok_reencrypt [OF store_ok_mail [OF Cons.prems]] by (simp add: store_ok_def)
  with Cons show ?case by (auto split: sum.split)
qed simp

lemma unlock_ok: "store_ok conv s \<Longrightarrow> unlock P now fresh backup p s = ok (v, s') \<Longrightarrow> store_ok conv s'"
  by (auto simp: unlock_def attempt_ok_iff store_ok_def split: option.splits prod.splits)

end
