(* ===== verification/Local_System.thy ===== *)
theory Local_System
  imports Local_Invariants
begin

text \<open>
  The local store as a transition system: any sequence of the operations of \<open>LocalStore\<close> that write, each
  with any arguments, started from an empty database. The migration of old messages, which writes row by
  row, may be interleaved with the others after any row. A message that the client stores carries the
  conversation of its peer; the function \<open>conv\<close> that assigns it is a parameter.
\<close>

inductive local_step :: "('a, 's, 'pa, 'ps) local_packages \<Rightarrow> (string \<Rightarrow> string) \<Rightarrow> local_db \<Rightarrow> local_db \<Rightarrow> bool"
  for P conv where
  unlock: "unlock P now fresh backup p s = ok (v, s') \<Longrightarrow> local_step P conv s s'"
| migrate: "local_step P conv s (snd (migrate_rows P nonces v rs n s))"
| profile: "save_profile P now n v p s = ok s' \<Longrightarrow> local_step P conv s s'"
| preference: "local_step P conv s (save_ui_preference now k x s)"
| outgoing: "cm_conversation_id m = conv (cm_peer_account_id m) \<Longrightarrow>
    commit_outgoing P now ns v p m frame s = ok s' \<Longrightarrow> local_step P conv s s'"
| control_outgoing: "commit_control_outgoing P now n v p i frame s = ok s' \<Longrightarrow> local_step P conv s s'"
| inbound: "cm_conversation_id m = conv (cm_peer_account_id m) \<Longrightarrow>
    commit_inbound P now ns v p m cursor s = ok s' \<Longrightarrow> local_step P conv s s'"
| unverified_inbound: "cm_conversation_id m = conv (cm_peer_account_id m) \<Longrightarrow>
    commit_unverified_inbound P now nns v p m notice cursor s = ok s' \<Longrightarrow> local_step P conv s s'"
| control: "commit_control P now n v p cursor s = ok s' \<Longrightarrow> local_step P conv s s'"
| contact: "upsert_contact P now b s = ok (c, s') \<Longrightarrow> local_step P conv s s'"
| import_contact: "import_contacts P now cs s = ok s' \<Longrightarrow> local_step P conv s s'"
| verify: "local_step P conv s (verify_contact account s)"
| delete_everywhere: "delete_conversation_everywhere peer name c e t s = ok s' \<Longrightarrow> local_step P conv s s'"
| commit_deletion: "commit_conversation_deletion P now n v p t cursor s = ok s' \<Longrightarrow> local_step P conv s s'"
| deletion_synced: "local_step P conv s (mark_conversation_deletion_synced e s)"
| message: "cm_conversation_id m = conv (cm_peer_account_id m) \<Longrightarrow> save_message P n v m s = ok s' \<Longrightarrow>
    local_step P conv s s'"
| import_message: "\<forall>m \<in> set ms. cm_conversation_id m = conv (cm_peer_account_id m) \<Longrightarrow>
    local_step P conv s (snd (import_messages P nonces v ms s))"
| draft: "save_draft P now n v c txt s = ok s' \<Longrightarrow> local_step P conv s s'"
| status: "local_step P conv s (update_status i st s)"
| peer_status: "local_step P conv s (update_outbound_status_for_peer i peer st s)"
| outbox_done: "local_step P conv s (remove_outbox i s)"
| set_cursors: "local_step P conv s (set_cursors e c s)"
| notice: "save_notification P n v notice s = ok s' \<Longrightarrow> local_step P conv s s'"
| notice_state: "local_step P conv s (update_notification_state now i state read s)"
| notice_read: "local_step P conv s (mark_notification_read now i s)"
| notice_gone: "local_step P conv s (delete_notification i s)"
| pairing_event: "local_step P conv s (mark_pairing_event_processed now e s)"

inductive local_reachable :: "('a, 's, 'pa, 'ps) local_packages \<Rightarrow> (string \<Rightarrow> string) \<Rightarrow> local_db \<Rightarrow> bool"
  for P conv where
  start: "local_reachable P conv empty_store"
| step: "local_reachable P conv s \<Longrightarrow> local_step P conv s s' \<Longrightarrow> local_reachable P conv s'"

section \<open>Every step keeps the tables sound\<close>

lemma message_ok_row:
  "cm_conversation_id m = conv (cm_peer_account_id m) \<Longrightarrow> message_ok conv (row_of_message b m)"
  by (simp add: message_ok_def row_of_message_def)

lemma inserted_ok:
  "insert_message (row_of_message b m) s = ok s' \<Longrightarrow> store_ok conv s \<Longrightarrow>
   cm_conversation_id m = conv (cm_peer_account_id m) \<Longrightarrow> store_ok conv s'"
  by (metis insert_message_ok message_ok_row sum.inject(2))

lemma save_message_ok:
  "save_message P n v m s = ok s' \<Longrightarrow> store_ok conv s \<Longrightarrow>
   cm_conversation_id m = conv (cm_peer_account_id m) \<Longrightarrow> store_ok conv s'"
  by (auto simp: save_message_def attempt_ok_iff intro: inserted_ok)

lemma import_messages_ok:
  "\<forall>m \<in> set ms. cm_conversation_id m = conv (cm_peer_account_id m) \<Longrightarrow> store_ok conv s \<Longrightarrow>
   store_ok conv (snd (import_messages P nonces v ms s))"
  by (induction ms arbitrary: s) (auto split: sum.split intro: save_message_ok)

lemma save_profile_ok: "save_profile P now n v p s = ok s' \<Longrightarrow> store_ok conv s \<Longrightarrow> store_ok conv s'"
  by (auto simp: save_profile_def attempt_ok_iff)

lemma commit_control_ok: "commit_control P now n v p c s = ok s' \<Longrightarrow> store_ok conv s \<Longrightarrow> store_ok conv s'"
  by (auto simp: commit_control_def attempt_ok_iff)

lemma commit_control_outgoing_ok:
  "commit_control_outgoing P now n v p i frame s = ok s' \<Longrightarrow> store_ok conv s \<Longrightarrow> store_ok conv s'"
  by (auto simp: commit_control_outgoing_def attempt_ok_iff intro: put_outbox_ok)

lemma commit_outgoing_ok:
  assumes "commit_outgoing P now ns v p m frame s = ok s'" "store_ok conv s"
    and "cm_conversation_id m = conv (cm_peer_account_id m)"
  shows "store_ok conv s'"
proof -
  obtain blob body s1 where "insert_message (row_of_message body m) (upsert_profile blob now s) = ok s1"
      "s' = put_outbox (cm_id m) frame now s1"
    using assms(1) by (auto simp: commit_outgoing_def attempt_ok_iff)
  with assms(2,3) show ?thesis by (metis inserted_ok put_outbox_ok upsert_profile_ok)
qed

lemma commit_inbound_ok:
  assumes "commit_inbound P now ns v p m cursor s = ok s'" "store_ok conv s"
    and "cm_conversation_id m = conv (cm_peer_account_id m)"
  shows "store_ok conv s'"
proof -
  obtain blob body s1 where "insert_message (row_of_message body m) (upsert_profile blob now s) = ok s1"
      "s' = set_envelope_cursor cursor s1"
    using assms(1) by (auto simp: commit_inbound_def attempt_ok_iff)
  with assms(2,3) show ?thesis by (metis inserted_ok set_envelope_cursor_ok upsert_profile_ok)
qed

lemma commit_unverified_inbound_ok:
  assumes "commit_unverified_inbound P now ns v p m notice cursor s = ok s'" "store_ok conv s"
    and "cm_conversation_id m = conv (cm_peer_account_id m)"
  shows "store_ok conv s'"
proof -
  obtain blob body payload s1 s2 where
      "insert_message (row_of_message body m) (upsert_profile blob now s) = ok s1"
      "upsert_notification False (row_of_notification payload notice) s1 = ok s2"
      "s' = set_envelope_cursor cursor s2"
    using assms(1) by (auto simp: commit_unverified_inbound_def attempt_ok_iff)
  with assms(2,3) show ?thesis
    by (metis inserted_ok set_envelope_cursor_ok upsert_notification_ok upsert_profile_ok)
qed

lemma save_notification_ok:
  "save_notification P n v notice s = ok s' \<Longrightarrow> store_ok conv s \<Longrightarrow> store_ok conv s'"
  by (auto simp: save_notification_def attempt_ok_iff intro: upsert_notification_ok)

lemma delete_conversation_everywhere_ok:
  "delete_conversation_everywhere peer name c e t s = ok s' \<Longrightarrow> store_ok conv s \<Longrightarrow> store_ok conv s'"
  unfolding delete_conversation_everywhere_def by (blast intro: upsert_tombstone_ok delete_conversation_state_ok)

lemma commit_conversation_deletion_ok:
  assumes "commit_conversation_deletion P now n v p t cursor s = ok s'" "store_ok conv s"
  shows "store_ok conv s'"
proof -
  obtain blob s1 where "upsert_tombstone (tombstone_row_of t False)
        (delete_conversation_state (cb_peer_account_id t) (cb_conversation_id t) s) = ok s1"
      "s' = set_envelope_cursor cursor (upsert_profile blob now s1)"
    using assms(1) by (auto simp: commit_conversation_deletion_def attempt_ok_iff)
  with assms(2) show ?thesis
    by (metis delete_conversation_state_ok set_envelope_cursor_ok upsert_profile_ok upsert_tombstone_ok)
qed

lemma update_status_ok: "store_ok conv s \<Longrightarrow> store_ok conv (update_status i st s)"
  unfolding update_status_def by (rule set_status_ok) auto

lemma update_outbound_status_ok: "store_ok conv s \<Longrightarrow> store_ok conv (update_outbound_status_for_peer i peer st s)"
  unfolding update_outbound_status_for_peer_def by (rule set_status_ok) auto

lemma update_notification_state_ok:
  "store_ok conv s \<Longrightarrow> store_ok conv (update_notification_state now i st r s)"
  unfolding update_notification_state_def by (rule notifications_update_ok) auto

lemma mark_notification_read_ok: "store_ok conv s \<Longrightarrow> store_ok conv (mark_notification_read now i s)"
  unfolding mark_notification_read_def by (rule notifications_update_ok) auto

lemmas store_ok_intros = remove_outbox_ok delete_notification_ok save_ui_preference_ok
  mark_pairing_event_processed_ok save_draft_ok upsert_contact_ok import_contacts_ok verify_contact_ok
  mark_conversation_deletion_synced_ok unlock_ok save_message_ok import_messages_ok save_profile_ok
  commit_control_ok commit_control_outgoing_ok commit_outgoing_ok commit_inbound_ok
  commit_unverified_inbound_ok save_notification_ok delete_conversation_everywhere_ok
  commit_conversation_deletion_ok update_status_ok update_outbound_status_ok update_notification_state_ok
  mark_notification_read_ok migrate_rows_ok

lemma local_step_ok: "local_step P conv s s' \<Longrightarrow> store_ok conv s \<Longrightarrow> store_ok conv s'"
  by (induction rule: local_step.induct) (simp_all, (blast intro: store_ok_intros)+)

lemma local_reachable_ok: "local_reachable P conv s \<Longrightarrow> store_ok conv s"
  by (induction rule: local_reachable.induct) (auto intro: store_ok_empty local_step_ok)

section \<open>Messages only advance\<close>

definition later :: "message_row \<Rightarrow> message_row \<Rightarrow> bool" where
  "later m m' \<longleftrightarrow> mr_id m' = mr_id m \<and> mr_conversation_id m' = mr_conversation_id m \<and>
     mr_peer_account_id m' = mr_peer_account_id m \<and> mr_sender_account_id m' = mr_sender_account_id m \<and>
     mr_sent_at_ms m' = mr_sent_at_ms m \<and> mr_inbound m' = mr_inbound m \<and>
     status_case (mr_status m) \<le> status_case (mr_status m')"

definition advanced :: "message_row list \<Rightarrow> message_row list \<Rightarrow> bool" where
  "advanced ms ms' \<longleftrightarrow> (\<forall>m \<in> set ms. \<exists>m' \<in> set ms'. later m m')"

lemma advanced_refl [simp]: "advanced ms ms"
  by (auto simp: advanced_def later_def)

lemma advanced_trans: "advanced ms ms' \<Longrightarrow> advanced ms' ms'' \<Longrightarrow> advanced ms ms''"
  unfolding advanced_def later_def by (metis order_trans)

lemma advanced_append [simp]: "advanced ms (ms @ ns)"
  by (auto simp: advanced_def later_def)

lemma advanced_update: "(\<And>m. p m \<Longrightarrow> later m (f m)) \<Longrightarrow> advanced ms (update_where p f ms)"
  by (induction ms) (auto simp: advanced_def later_def)

lemma insert_message_advances: "insert_message m s = ok s' \<Longrightarrow> advanced (lo_messages s) (lo_messages s')"
  by (auto simp: insert_message_def attempt_ok_iff split: if_splits)

lemma save_message_advances: "save_message P n v m s = ok s' \<Longrightarrow> advanced (lo_messages s) (lo_messages s')"
  by (auto simp: save_message_def attempt_ok_iff dest: insert_message_advances)

lemma import_messages_advances: "advanced (lo_messages s) (lo_messages (snd (import_messages P nonces v ms s)))"
  by (induction ms arbitrary: s) (auto split: sum.split dest: save_message_advances intro: advanced_trans)

lemma migrate_rows_advances: "advanced (lo_messages s) (lo_messages (snd (migrate_rows P nonces v rs n s)))"
proof (induction rs arbitrary: n s)
  case (Cons r rs)
  have "advanced (lo_messages s) (update_where (\<lambda>m. mr_id m = mr_id r \<and> mr_encryption_version m = 1)
      (\<lambda>m. m\<lparr>mr_encrypted_body := b, mr_encryption_version := 2\<rparr>) (lo_messages s))" for b
    by (rule advanced_update) (simp add: later_def)
  then show ?case
    by (auto split: sum.split intro: advanced_trans [OF _ Cons.IH])
qed simp

lemma set_status_advances:
  "(\<And>m. p m \<Longrightarrow> status_case (mr_status m) < status_case new) \<Longrightarrow>
   advanced (lo_messages s) (lo_messages (set_status_where p new s))"
  by (auto simp: set_status_where_def later_def intro!: advanced_update less_imp_le)

lemma insert_profile_advances:
  "insert_message m (upsert_profile b now s) = ok s' \<Longrightarrow> advanced (lo_messages s) (lo_messages s')"
  using insert_message_advances by (fastforce simp: upsert_profile_def)

lemma upsert_notification_messages: "upsert_notification k n s = ok s' \<Longrightarrow> lo_messages s' = lo_messages s"
  by (auto simp: upsert_notification_def split: if_splits)

lemma put_contact_messages: "put_contact c s = ok s' \<Longrightarrow> lo_messages s' = lo_messages s"
  by (auto simp: put_contact_def split: if_splits)

lemma import_contacts_messages: "import_contacts P now cs s = ok s' \<Longrightarrow> lo_messages s' = lo_messages s"
  unfolding import_contacts_def
  by (erule fold_result_ok [where Q = "\<lambda>s'. lo_messages s' = lo_messages s"])
    (auto simp: import_contact_def attempt_ok_iff dest: put_contact_messages)

lemma upsert_tombstone_messages: "upsert_tombstone t s = ok s' \<Longrightarrow> lo_messages s' = lo_messages s"
  by (auto simp: upsert_tombstone_def split: if_splits option.splits)

lemma unlock_messages: "unlock P now fresh backup p s = ok (v, s') \<Longrightarrow> lo_messages s' = lo_messages s"
  by (auto simp: unlock_def attempt_ok_iff split: option.splits prod.splits)

lemma upsert_contact_messages: "upsert_contact P now b s = ok (c, s') \<Longrightarrow> lo_messages s' = lo_messages s"
  by (auto simp: upsert_contact_def attempt_ok_iff Let_def split: option.splits dest: put_contact_messages)

text \<open>A step keeps every message, except the two deletions, which drop one conversation.\<close>

definition dropped_conversation :: "message_row list \<Rightarrow> message_row list \<Rightarrow> bool" where
  "dropped_conversation ms ms' \<longleftrightarrow> (\<exists>c. ms' = delete_where (\<lambda>m. mr_conversation_id m = c) ms)"

lemmas commit_defs = save_profile_def commit_outgoing_def commit_control_outgoing_def commit_inbound_def
  commit_unverified_inbound_def commit_control_def save_notification_def

lemmas upsert_defs = upsert_profile_def put_outbox_def set_envelope_cursor_def

lemma local_step_messages:
  "local_step P conv s s' \<Longrightarrow> advanced (lo_messages s) (lo_messages s') \<or>
    dropped_conversation (lo_messages s) (lo_messages s')"
proof (induction rule: local_step.induct)
  case (migrate s nonces v rs n)
  then show ?case by (simp add: migrate_rows_advances)
next
  case (outgoing m now ns v p frame s s')
  then show ?case by (auto simp: commit_outgoing_def attempt_ok_iff put_outbox_def dest: insert_profile_advances)
next
  case (inbound m now ns v p cursor s s')
  then show ?case
    by (auto simp: commit_inbound_def attempt_ok_iff set_envelope_cursor_def dest: insert_profile_advances)
next
  case (unverified_inbound m now nns v p notice cursor s s')
  then show ?case
    by (auto simp: commit_unverified_inbound_def attempt_ok_iff set_envelope_cursor_def
        dest!: insert_profile_advances upsert_notification_messages)
next
  case (delete_everywhere peer name c e t s s')
  then have "lo_messages s' = delete_where (\<lambda>m. mr_conversation_id m = c) (lo_messages s)"
    by (auto simp: delete_conversation_everywhere_def delete_conversation_state_def dest: upsert_tombstone_messages)
  then show ?case by (auto simp: dropped_conversation_def)
next
  case (commit_deletion now n v p t cursor s s')
  then have "lo_messages s' = delete_where (\<lambda>m. mr_conversation_id m = cb_conversation_id t) (lo_messages s)"
    by (auto simp: commit_conversation_deletion_def delete_conversation_state_def attempt_ok_iff
        upsert_defs dest!: upsert_tombstone_messages)
  then show ?case by (auto simp: dropped_conversation_def)
next
  case (status s i st)
  show ?case unfolding update_status_def by (intro disjI1 set_status_advances) auto
next
  case (peer_status s i peer st)
  show ?case unfolding update_outbound_status_for_peer_def by (intro disjI1 set_status_advances) auto
qed (auto simp: save_profile_def commit_control_outgoing_def commit_control_def save_notification_def
    save_draft_def attempt_ok_iff upsert_defs save_ui_preference_def verify_contact_def
    mark_conversation_deletion_synced_def remove_outbox_def set_cursors_def update_notification_state_def
    mark_notification_read_def delete_notification_def mark_pairing_event_processed_def
    import_messages_advances save_message_advances
    dest: unlock_messages upsert_contact_messages import_contacts_messages upsert_notification_messages
    split: if_splits)

end
