(* ===== verification/Local_Properties.thy ===== *)
theory Local_Properties
  imports Local_System
begin

text \<open>
  The properties of the client's local store: what the contact list shows, that messages persist and only
  advance, that a redelivered message changes nothing, what is read back after a restart, the migration of
  old message bodies, and who may become a verified contact.
\<close>

section \<open>A sample store\<close>

text \<open>
  Packages for the witnesses: codecs that know one profile, one notification payload and one user bundle.
\<close>

definition sample_bundle :: UserBundle_msg where
  "sample_bundle = \<lparr>ub_account_id = ''acc-b'', ub_username = ''bob'', ub_account_master_key = [7],
     ub_roster_revision = 1, ub_devices = []\<rparr>"

definition sample_stored :: StoredProfile where
  "sample_stored = \<lparr>sp_username = ''ann'', sp_account_id = ''acc'', sp_server_url = ''ws://localhost'',
     sp_identity = as_bytes ''TCI3'' @ [9], sp_machine = as_bytes ''TCM3'' @ [1], sp_pending = False,
     sp_pairing_secret = None, sp_account_master_public = [1], sp_spki_pin = None,
     sp_server_capabilities = []\<rparr>"

definition sample_profile :: "(nat, nat) RuntimeProfile" where
  "sample_profile = \<lparr>rp_username = ''ann'', rp_account_id = ''acc'', rp_server_url = ''ws://localhost'',
     rp_identity = sample_identity, rp_machine = \<lparr>om_account = 7, om_sessions = Map.empty\<rparr>,
     rp_pending = False, rp_pairing_secret = None, rp_account_master_public = [1], rp_spki_pin = None,
     rp_server_capabilities = []\<rparr>"

definition sample_pickle :: "(nat, nat) MachinePickleV2" where
  "sample_pickle = \<lparr>mp2_account = 7, mp2_sessions = Map.empty\<rparr>"

definition sample_notice :: NotificationData where
  "sample_notice = ChatResponseNotice ''r'' True"

definition sample_packages :: "(nat, nat, nat, nat) local_packages" where
  "sample_packages = \<lparr>lp_crypto = model_crypto, lp_olm = toy_olm,
     profile_postcard = (\<lambda>p. if p = sample_stored then ok [1] else bail ''x''),
     profile_unpostcard = (\<lambda>e. if e = [1] then Inr sample_stored else Inl (OtherPostcard ''x'')),
     profile_v3_unpostcard = (\<lambda>_. Inl (OtherPostcard ''x'')), profile_unjson = (\<lambda>_. bail ''x''),
     identity_postcard = toy_postcard, identity_unpostcard = toy_unpostcard, identity_unjson = (\<lambda>_. bail ''x''),
     machine_json = (\<lambda>p. if p = sample_pickle then ok [1] else bail ''x''),
     machine_unjson = (\<lambda>e. if e = [1] then ok sample_pickle else bail ''x''),
     machine_v1_unjson = (\<lambda>_. bail ''x''), blob_unjson = (\<lambda>_. bail ''x''), wrapped_unjson = (\<lambda>_. bail ''x''),
     bytes_unjson = (\<lambda>_. bail ''x''),
     notice_json = (\<lambda>n. if n = sample_notice then ok [2] else bail ''x''),
     notice_unjson = (\<lambda>e. if e = [2] then ok sample_notice else bail ''x''),
     bundle_encode = (\<lambda>_. [3]), bundle_decode = (\<lambda>_. ok sample_bundle)\<rparr>"

lemma sample_packages_ok: "packages_ok sample_packages"
  by (auto simp: packages_ok_def sample_packages_def toy_olm_def toy_postcard_def toy_unpostcard_def
      split: if_splits)

definition sample_vault :: VaultSession where
  "sample_vault = \<lparr>vs_key = replicate 32 5, vs_legacy_passphrase = None\<rparr>"

definition sample_nonce :: bytes where
  "sample_nonce = replicate 24 6"

definition sample_message :: ChatMessage where
  "sample_message = \<lparr>cm_id = ''m1'', cm_conversation_id = ''acc-b'', cm_peer_account_id = ''acc-b'',
     cm_sender_account_id = ''acc-b'', cm_body = ''hi'', cm_sent_at_ms = 10, cm_status = Delivered,
     cm_inbound = True\<rparr>"

definition sample_body :: bytes where
  "sample_body = blob_to_bytes \<lparr>blob_version = 2, blob_salt = replicate 16 0, blob_nonce = sample_nonce,
     blob_ciphertext = 13 # message_aad ''m1'' @ as_bytes ''hi''\<rparr>"

definition sample_contact :: contact_row where
  "sample_contact = \<lparr>cr_account_id = ''acc-b'', cr_username = ''bob'', cr_bundle = [3], cr_verified = False,
     cr_identity_changed = False, cr_updated_at_ms = 1\<rparr>"

definition sample_store :: local_db where
  "sample_store = empty_store\<lparr>lo_contacts := [sample_contact],
     lo_messages := [row_of_message sample_body sample_message],
     lo_summaries := [\<lparr>su_conversation_id = ''acc-b'', su_peer_account_id = ''acc-b'',
       su_last_activity_ms = 10, su_unread_count = 1\<rparr>]\<rparr>"

lemma sample_encode_message:
  "encode_message sample_packages sample_nonce sample_vault sample_message = ok sample_body"
  by (simp add: encode_message_def session_encrypt_def vault_encrypt_def sample_packages_def sample_vault_def
      model_crypto_def sample_body_def sample_message_def message_aad_def)

lemma sample_upsert:
  "\<exists>c. upsert_contact sample_packages 1 sample_bundle empty_store = ok (c, empty_store\<lparr>lo_contacts := [sample_contact]\<rparr>)"
  by (simp add: upsert_contact_def contact_by_username_def put_contact_def contact_from_row_def
      sample_packages_def sample_bundle_def empty_store_def sample_contact_def nocase_eq_def Let_def)

lemma sample_save:
  "save_message sample_packages sample_nonce sample_vault sample_message (empty_store\<lparr>lo_contacts := [sample_contact]\<rparr>)
     = ok sample_store"
  unfolding save_message_def sample_encode_message attempt_simps
  by (simp add: insert_message_def summary_insert_def sample_store_def empty_store_def row_of_message_def
      sample_message_def unread_row_def)

lemma sample_reachable: "local_reachable sample_packages (\<lambda>p. p) sample_store"
proof -
  obtain c where "upsert_contact sample_packages 1 sample_bundle empty_store =
      ok (c, empty_store\<lparr>lo_contacts := [sample_contact]\<rparr>)" using sample_upsert by blast
  then have "local_reachable sample_packages (\<lambda>p. p) (empty_store\<lparr>lo_contacts := [sample_contact]\<rparr>)"
    by (intro local_reachable.step [OF local_reachable.start] local_step.contact)
  moreover have "local_step sample_packages (\<lambda>p. p) (empty_store\<lparr>lo_contacts := [sample_contact]\<rparr>) sample_store"
    by (rule local_step.message [OF _ sample_save]) (simp add: sample_message_def)
  ultimately show ?thesis by (rule local_reachable.step)
qed

section \<open>What the contact list shows\<close>

lemma summary_of_peer:
  assumes ok: "mail_ok conv (lo_messages s) (lo_summaries s)" and inj: "inj conv"
  shows "(case summary_of a s of
      None \<Rightarrow> \<forall>m \<in> set (lo_messages s). mr_peer_account_id m \<noteq> a
    | Some r \<Rightarrow> r \<in> set (lo_summaries s) \<and> su_conversation_id r = conv a)"
proof (cases "summary_of a s")
  case None
  have "mr_peer_account_id m \<noteq> a" if m: "m \<in> set (lo_messages s)" for m
  proof
    assume a: "mr_peer_account_id m = a"
    obtain r where r: "r \<in> set (lo_summaries s)" "su_conversation_id r = mr_conversation_id m"
      using mail_okD(4) [OF ok m] by force
    then have "conv (su_peer_account_id r) = conv a"
      using mail_okD(5) [OF ok r(1)] mail_okD(3) [OF ok m] a by (simp add: message_ok_def)
    with inj r(1) None show False by (auto simp: summary_of_def find_None_iff dest: injD)
  qed
  with None show ?thesis by simp
next
  case (Some r)
  then have "r \<in> set (lo_summaries s) \<and> su_peer_account_id r = a"
    unfolding summary_of_def by (rule find_SomeD)
  with Some mail_okD(5) [OF ok, of r] show ?thesis by auto
qed

lemma peer_iff_conversation:
  "mail_ok conv ms ss \<Longrightarrow> inj conv \<Longrightarrow> m \<in> set ms \<Longrightarrow> mr_conversation_id m = conv a \<longleftrightarrow> mr_peer_account_id m = a"
  using mail_okD(3) [of conv ms ss m] by (auto simp: message_ok_def dest: injD)

text \<open>
  C34. The contact list is exact, as long as every message is stored under the conversation of its peer. In every
  state that the store's operations reach with such messages (\<open>conv\<close> gives the conversation of a peer; the
  server checks it when it stores an envelope, the client does not), the unread count shown with a contact is
  the number of stored inbound messages from that account that are not read, its last activity is the time of
  the latest message exchanged with it (0 without one), and no other contact has its account or, ignoring case,
  its name: the counters that the triggers maintain never drift, whatever was inserted, marked read,
  migrated, deleted and received again.
\<close>

theorem contact_list_exact:
  assumes "local_reachable P conv s" and "inj conv" and "c \<in> set (lo_contacts s)"
  defines "moments \<equiv> mr_sent_at_ms ` {m \<in> set (lo_messages s). mr_peer_account_id m = cr_account_id c}"
  shows "unread_count s c = int (count_where (\<lambda>m. mr_peer_account_id m = cr_account_id c \<and> mr_inbound m
      \<and> mr_status m \<noteq> ''read'') (lo_messages s)) \<and>
    last_activity s c = (if moments = {} then 0 else Max moments) \<and>
    (\<forall>c' \<in> set (lo_contacts s). cr_account_id c' = cr_account_id c \<or> nocase_eq (cr_username c') (cr_username c) \<longrightarrow> c' = c)"
proof -
  have ok: "store_ok conv s" using assms(1) by (rule local_reachable_ok)
  note mail = store_ok_mail [OF ok]
  have same: "(mr_conversation_id m = conv (cr_account_id c)) = (mr_peer_account_id m = cr_account_id c)"
    if "m \<in> set (lo_messages s)" for m
    using peer_iff_conversation [OF mail assms(2) that] .
  have count: "filter (\<lambda>m. mr_conversation_id m = conv (cr_account_id c) \<and> unread_row m) (lo_messages s) =
      filter (\<lambda>m. mr_peer_account_id m = cr_account_id c \<and> mr_inbound m \<and> mr_status m \<noteq> ''read'') (lo_messages s)"
    by (rule filter_cong) (auto simp: same unread_row_def)
  have "unread_count s c = int (count_where (\<lambda>m. mr_peer_account_id m = cr_account_id c \<and> mr_inbound m
      \<and> mr_status m \<noteq> ''read'') (lo_messages s)) \<and>
    last_activity s c = (if moments = {} then 0 else Max moments)"
  proof (cases "summary_of (cr_account_id c) s")
    case None
    with summary_of_peer [OF mail assms(2), of "cr_account_id c"] show ?thesis
      by (auto simp: unread_count_def last_activity_def moments_def count_where_def filter_empty_conv)
  next
    case (Some r)
    with summary_of_peer [OF mail assms(2), of "cr_account_id c"]
    have r: "r \<in> set (lo_summaries s)" "su_conversation_id r = conv (cr_account_id c)" by simp_all
    note exact = mail_okD(6) [OF mail r(1), unfolded summary_exact_def r(2)]
    have "last_activity s c = su_last_activity_ms r" by (simp add: last_activity_def Some)
    moreover obtain m where m: "m \<in> set (lo_messages s)" "mr_peer_account_id m = cr_account_id c"
        "mr_sent_at_ms m = su_last_activity_ms r"
      using exact same by auto
    then have "su_last_activity_ms r \<in> moments"
      unfolding moments_def by (intro image_eqI [of _ _ m]) simp_all
    moreover have "\<And>t. t \<in> moments \<Longrightarrow> t \<le> su_last_activity_ms r"
      using exact same by (auto simp: moments_def)
    moreover have "finite moments" by (simp add: moments_def)
    ultimately have "last_activity s c = (if moments = {} then 0 else Max moments)"
      by (auto intro: Max_eqI [symmetric])
    with exact show ?thesis by (simp add: unread_count_def Some count_where_def count)
  qed
  moreover have "c' = c" if "c' \<in> set (lo_contacts s)"
      "cr_account_id c' = cr_account_id c \<or> nocase_eq (cr_username c') (cr_username c)" for c'
  proof -
    have "inj_on cr_account_id (set (lo_contacts s))"
        "inj_on (\<lambda>c. to_ascii_lowercase (cr_username c)) (set (lo_contacts s))"
      using ok by (simp_all add: store_ok_def distinct_map)
    with that assms(3) show ?thesis by (metis (mono_tags, lifting) inj_onD nocase_eq_def)
  qed
  ultimately show ?thesis by blast
qed

theorem contact_list_exact_witness:
  "sample_contact \<in> set (lo_contacts sample_store) \<and> unread_count sample_store sample_contact = 1 \<and>
   last_activity sample_store sample_contact = Max (mr_sent_at_ms ` set (lo_messages sample_store)) \<and>
   count_where (\<lambda>m. mr_peer_account_id m = cr_account_id sample_contact \<and> mr_inbound m \<and> mr_status m \<noteq> ''read'')
     (lo_messages sample_store) = 1"
proof -
  have c: "sample_contact \<in> set (lo_contacts sample_store)" by (simp add: sample_store_def)
  have "unread_count sample_store sample_contact = 1"
    by (simp add: unread_count_def summary_of_def sample_store_def sample_contact_def)
  moreover have "{m \<in> set (lo_messages sample_store). mr_peer_account_id m = cr_account_id sample_contact} = set (lo_messages sample_store)"
      "lo_messages sample_store \<noteq> []"
    by (auto simp: sample_store_def sample_contact_def row_of_message_def sample_message_def)
  ultimately show ?thesis using contact_list_exact [OF sample_reachable inj_on_id2 c] c by simp
qed

section \<open>Messages persist\<close>

text \<open>
  C35. Messages persist and only advance. One operation of the store, whichever it is, keeps every stored
  message with its conversation, sender, time and direction, and leaves its status or raises it in the order
  sending, sent, delivered, read; the only exception is the deletion of a conversation, after which the
  store holds none of its messages.
\<close>

theorem messages_only_advance:
  assumes "local_reachable P conv s" and "local_step P conv s s'" and "m \<in> set (lo_messages s)"
  shows "(\<exists>!m'. m' \<in> set (lo_messages s') \<and> later m m') \<or>
    (\<forall>m' \<in> set (lo_messages s'). mr_conversation_id m' \<noteq> mr_conversation_id m)"
proof -
  have "store_ok conv s'"
    using assms(1,2) by (intro local_step_ok [OF assms(2)] local_reachable_ok)
  then have "inj_on mr_id (set (lo_messages s'))"
    using mail_okD(1) [OF store_ok_mail] by (simp add: distinct_map)
  moreover have "(\<exists>m' \<in> set (lo_messages s'). later m m') \<or>
      (\<forall>m' \<in> set (lo_messages s'). mr_conversation_id m' \<noteq> mr_conversation_id m)"
    using local_step_messages [OF assms(2)] assms(3)
    by (auto simp: advanced_def dropped_conversation_def later_def)
  ultimately show ?thesis
    unfolding later_def by (metis (mono_tags, lifting) inj_onD)
qed

theorem messages_only_advance_witness:
  "\<exists>!m'. m' \<in> set (lo_messages (update_status ''m1'' Read sample_store)) \<and>
    later (row_of_message sample_body sample_message) m'"
proof -
  let ?m = "row_of_message sample_body sample_message"
  have "?m \<in> set (lo_messages sample_store)" by (simp add: sample_store_def)
  note messages_only_advance [OF sample_reachable local_step.status this, of "''m1''" Read]
  moreover have "lo_messages (update_status ''m1'' Read sample_store) = [?m\<lparr>mr_status := ''read''\<rparr>]"
    by (simp add: update_status_def set_status_where_def sample_store_def row_of_message_def
        sample_message_def status_case_def)
  ultimately show ?thesis by simp
qed

section \<open>Redelivery\<close>

lemma insert_message_present: "insert_message m s = ok s' \<Longrightarrow> \<exists>r \<in> set (lo_messages s'). mr_id r = mr_id m"
  by (auto simp: insert_message_def attempt_ok_iff split: if_splits)

lemma insert_message_again:
  "\<exists>r \<in> set (lo_messages s). mr_id r = mr_id m \<Longrightarrow> insert_message m s = ok s"
  by (simp add: insert_message_def)

text \<open>
  C36. A delivered message counts once, if it is for the conversation of its peer. In a store that was reached
  with messages of that kind only (\<open>conv\<close> gives the conversation of a peer; the client does not check it for
  the envelopes it receives), once profile and body are encrypted, committing an inbound message that carries
  the conversation of its peer never fails: the message is stored, the cursor is the envelope's and the profile is
  the new one, all in one transaction. When the server delivers the message again, because the
  acknowledgement was lost, committing it again changes the cursor and the profile and nothing else: no
  second copy, no second unread count.
\<close>

theorem inbound_commit_once:
  assumes "local_reachable P conv s" and "cm_conversation_id m = conv (cm_peer_account_id m)"
    and "encode_profile P (fst ns) v p = ok blob" and "encode_message P (snd ns) v m = ok body"
  shows "\<exists>s'. commit_inbound P now ns v p m cursor s = ok s' \<and> (\<exists>r \<in> set (lo_messages s'). mr_id r = cm_id m) \<and>
    fst (cursors s') = cursor \<and> map_option pf_encrypted_blob (lo_profile s') = Some blob \<and>
    (\<forall>ns' v' p' now' cursor' blob' body'. encode_profile P (fst ns') v' p' = ok blob' \<longrightarrow>
      encode_message P (snd ns') v' m = ok body' \<longrightarrow>
      commit_inbound P now' ns' v' p' m cursor' s' = ok (set_envelope_cursor cursor' (upsert_profile blob' now' s')))"
proof -
  have ok: "store_ok conv (upsert_profile blob now s)"
    using local_reachable_ok [OF assms(1)] by simp
  obtain s1 where s1: "insert_message (row_of_message body m) (upsert_profile blob now s) = ok s1"
    using insert_message_ok [OF ok message_ok_row [of m conv body, OF assms(2)]] by blast
  then have "lo_profile s1 = lo_profile (upsert_profile blob now s)"
    by (auto simp: insert_message_def attempt_ok_iff split: if_splits)
  moreover obtain r where "r \<in> set (lo_messages s1)" "mr_id r = cm_id m"
    using insert_message_present [OF s1] by (auto simp: row_of_message_def)
  moreover from this have "insert_message (row_of_message b m) (upsert_profile c t (set_envelope_cursor cursor s1))
      = ok (upsert_profile c t (set_envelope_cursor cursor s1))" for b c t
    by (intro insert_message_again) (auto simp: row_of_message_def upsert_profile_def set_envelope_cursor_def)
  ultimately show ?thesis
    using s1 assms(3,4) by (auto simp: commit_inbound_def cursors_def set_envelope_cursor_def upsert_profile_def)
qed

lemma sample_encode_profile:
  "encode_profile sample_packages sample_nonce sample_vault sample_profile = ok
     (blob_to_bytes \<lparr>blob_version = 2, blob_salt = replicate 16 0, blob_nonce = sample_nonce,
       blob_ciphertext = 10 # as_bytes ''profile/v1'' @ as_bytes ''TCP4'' @ [1]\<rparr>)"
  by (simp add: encode_profile_def identity_to_bytes_def machine_to_bytes_def session_encrypt_def
      vault_encrypt_def sample_packages_def sample_profile_def sample_identity_def toy_postcard_def
      sample_vault_def toy_olm_def sample_pickle_def sample_stored_def model_crypto_def)

theorem inbound_commit_once_witness:
  "\<exists>s'. commit_inbound sample_packages 2 (sample_nonce, sample_nonce) sample_vault sample_profile sample_message 7
     sample_store = ok s' \<and> fst (cursors s') = 7 \<and>
   commit_inbound sample_packages 3 (sample_nonce, sample_nonce) sample_vault sample_profile sample_message 8 s' =
     ok (set_envelope_cursor 8 (upsert_profile (blob_to_bytes \<lparr>blob_version = 2, blob_salt = replicate 16 0,
       blob_nonce = sample_nonce, blob_ciphertext = 10 # as_bytes ''profile/v1'' @ as_bytes ''TCP4'' @ [1]\<rparr>) 3 s'))"
  using inbound_commit_once [OF sample_reachable _ _ _, of sample_message "(sample_nonce, sample_nonce)" sample_vault
      sample_profile _ sample_body 2 7] sample_encode_profile sample_encode_message
  by (fastforce simp: sample_message_def)

section \<open>Restart\<close>

lemma unlock_created_vault:
  assumes "unlock P now (data_key, salt, wrap_nonce, profile_nonce) backup pass s0 = ok (v, s1)"
    and "lo_vault s0 = None" "aead_correct (lp_crypto P)"
    and "length data_key = 32" "length salt = 16" "length wrap_nonce = 24"
    and "lo_vault s = lo_vault s1"
  shows "\<exists>v'. unlock P now' fresh' backup' pass s = ok (v', s) \<and> vs_key v' = vs_key v"
proof -
  obtain key wrapped where c: "vault_create (lp_crypto P) data_key salt wrap_nonce pass = ok (key, wrapped)"
      "lo_vault s1 = Some \<lparr>vr_wrapped_key = wrapped_to_bytes wrapped, vr_created_at_ms = now\<rparr>" "vs_key v = key"
    using assms(1,2) by (auto simp: unlock_def attempt_ok_iff split: option.splits)
  note u = unlock_created [OF assms(3,4) c(1)]
  then have "wrapped_from_bytes (wrapped_unjson P) (wrapped_to_bytes wrapped) = ok wrapped"
    using assms(5,6) by (intro wrapped_from_to_bytes) (simp add: wrapped_wf_def)
  with u c assms(7) show ?thesis by (simp add: unlock_def)
qed

text \<open>
  The profile survives a restart. A profile saved under a vault that was created with a passphrase is
  read back as it was, identity, ratchets and all, by a session that unlocks the vault with that passphrase
  again, whatever the operations in between did to the other tables.
\<close>

theorem profile_survives_restart:
  assumes "packages_ok P"
    and "unlock P now (data_key, salt, wrap_nonce, profile_nonce) backup pass s0 = ok (v, s1)" and "lo_vault s0 = None"
    and "length data_key = 32" and "length salt = 16" and "length wrap_nonce = 24"
    and "save_profile P now2 nonce v p s2 = ok s3" and "length nonce = 24"
    and "lo_vault s4 = lo_vault s1" and "lo_profile s4 = lo_profile s3"
  shows "\<exists>v'. unlock P now' fresh' backup' pass s4 = ok (v', s4) \<and> load_profile P v' s4 = ok (Some p)"
proof -
  have "aead_correct (lp_crypto P)" using assms(1) by (simp add: packages_ok_def)
  then obtain v' where v': "unlock P now' fresh' backup' pass s4 = ok (v', s4)" "vs_key v' = vs_key v"
    using unlock_created_vault [OF assms(2,3) _ assms(4-6,9)] by blast
  obtain e where e: "encode_profile P nonce v p = ok e" "s3 = upsert_profile e now2 s2"
    using assms(7) by (auto simp: save_profile_def attempt_ok_iff)
  have "decode_profile P v' e = ok p"
    by (rule decode_encoded_profile [OF assms(1) e(1) assms(8) v'(2)])
  with v'(1) e(2) assms(10) show ?thesis by (simp add: load_profile_def upsert_profile_def)
qed

theorem profile_survives_restart_witness:
  "\<exists>s1 s3 v'. save_profile sample_packages 2 sample_nonce sample_vault sample_profile s1 = ok s3 \<and>
    unlock sample_packages 3 ([], [], [], []) (ok ()) ''pass'' s3 = ok (v', s3) \<and>
    load_profile sample_packages v' s3 = ok (Some sample_profile)"
proof -
  let ?w = "\<lparr>wvk_version = 2, wvk_salt = replicate 16 3, wvk_nonce = replicate 24 4,
    wvk_ciphertext = 21 # VAULT_KEY_AAD @ replicate 32 5\<rparr>"
  let ?s1 = "empty_store\<lparr>lo_vault := Some \<lparr>vr_wrapped_key = wrapped_to_bytes ?w, vr_created_at_ms = 1\<rparr>\<rparr>"
  have u: "unlock sample_packages 1 (replicate 32 5, replicate 16 3, replicate 24 4, []) (ok ()) ''pass'' empty_store
      = ok (sample_vault, ?s1)"
    by (simp add: unlock_def empty_store_def sample_packages_def vault_create_def derive_key_def model_crypto_def
        VAULT_KEY_AAD_def sample_vault_def legacy_messages_def)
  obtain s3 where s3: "save_profile sample_packages 2 sample_nonce sample_vault sample_profile ?s1 = ok s3"
      "lo_vault s3 = lo_vault ?s1"
    by (auto simp: save_profile_def sample_encode_profile upsert_profile_def)
  have "lo_vault empty_store = None" by (simp add: empty_store_def)
  from profile_survives_restart [OF sample_packages_ok u this _ _ _ s3(1) _ s3(2) refl, of 3 "([], [], [], [])" "ok ()"]
  show ?thesis using s3(1) by (auto simp: sample_nonce_def)
qed

section \<open>Verified contacts\<close>

text \<open>The account master key that a contact row binds its account to.\<close>

definition row_master_key :: "('a, 's, 'pa, 'ps) local_packages \<Rightarrow> contact_row \<Rightarrow> bytes option" where
  "row_master_key P r = (case bundle_decode P (cr_bundle r) of Inl _ \<Rightarrow> None | Inr b \<Rightarrow> Some (ub_account_master_key b))"

definition keeps_master_key :: "('a, 's, 'pa, 'ps) local_packages \<Rightarrow> bool" where
  "keeps_master_key P \<longleftrightarrow> (\<forall>b. \<exists>b'. bundle_decode P (bundle_encode P b) = ok b' \<and>
     ub_account_master_key b' = ub_account_master_key b)"

definition trust_kept :: "('a, 's, 'pa, 'ps) local_packages \<Rightarrow> local_db \<Rightarrow> local_db \<Rightarrow> bool" where
  "trust_kept P s s' \<longleftrightarrow> (\<forall>r \<in> set (lo_contacts s'). cr_verified r \<longrightarrow>
     (\<exists>old \<in> set (lo_contacts s). cr_verified old \<and> row_master_key P old = row_master_key P r))"

lemma trust_kept_subset: "set (lo_contacts s') \<subseteq> set (lo_contacts s) \<Longrightarrow> trust_kept P s s'"
  by (auto simp: trust_kept_def)

lemma trust_kept_same: "lo_contacts s' = lo_contacts s \<Longrightarrow> trust_kept P s s'"
  by (rule trust_kept_subset) simp

lemma put_contact_rows:
  "put_contact c s = ok s' \<Longrightarrow> r \<in> set (lo_contacts s') \<Longrightarrow> r = c \<or> r \<in> set (lo_contacts s)"
  by (auto simp: put_contact_def in_update_where split: if_splits)

lemma upsert_contact_trust:
  assumes "upsert_contact P now b s = ok (c, s')" and coded: "keeps_master_key P"
  shows "trust_kept P s s'"
  unfolding trust_kept_def
proof (intro ballI impI)
  fix r
  assume r: "r \<in> set (lo_contacts s')" "cr_verified r"
  obtain old changed verified where old: "contact_by_username P (ub_username b) s = ok old"
      "changed \<longleftrightarrow> (case old of None \<Rightarrow> False
           | Some c \<Rightarrow> ub_account_master_key (ct_bundle c) \<noteq> ub_account_master_key b)"
      "verified \<longleftrightarrow> (case old of None \<Rightarrow> False | Some c \<Rightarrow> ct_verified c) \<and> \<not> changed"
      "put_contact \<lparr>cr_account_id = ub_account_id b, cr_username = ub_username b,
           cr_bundle = bundle_encode P b, cr_verified = verified,
           cr_identity_changed = changed, cr_updated_at_ms = now\<rparr> s = ok s'"
    using assms(1) by (auto simp: upsert_contact_def attempt_ok_iff Let_def split: option.splits)
  from put_contact_rows [OF old(4) r(1)] show "\<exists>old \<in> set (lo_contacts s). cr_verified old \<and>
      row_master_key P old = row_master_key P r"
  proof
    assume new: "r = \<lparr>cr_account_id = ub_account_id b, cr_username = ub_username b,
           cr_bundle = bundle_encode P b, cr_verified = verified,
           cr_identity_changed = changed, cr_updated_at_ms = now\<rparr>"
    with r(2) old(2,3) obtain c where c: "old = Some c" "ct_verified c"
        "ub_account_master_key (ct_bundle c) = ub_account_master_key b"
      by (auto split: option.splits)
    with old(1) obtain q where q: "find (\<lambda>c. nocase_eq (cr_username c) (ub_username b)) (lo_contacts s) = Some q"
        "contact_from_row P s q = ok c"
      by (auto simp: contact_by_username_def attempt_ok_iff split: option.splits)
    then have "q \<in> set (lo_contacts s)" using find_SomeD [OF q(1)] by simp
    moreover obtain b' where "bundle_decode P (bundle_encode P b) = ok b'"
        "ub_account_master_key b' = ub_account_master_key b"
      using coded by (auto simp: keeps_master_key_def)
    ultimately show ?thesis
      using q(2) c new by (intro bexI [of _ q]) (auto simp: contact_from_row_def attempt_ok_iff row_master_key_def)
  qed (use r(2) in blast)
qed

lemma insert_message_contacts: "insert_message m s = ok s' \<Longrightarrow> lo_contacts s' = lo_contacts s"
  by (auto simp: insert_message_def attempt_ok_iff split: if_splits)

lemma import_messages_contacts: "lo_contacts (snd (import_messages P nonces v ms s)) = lo_contacts s"
  by (induction ms arbitrary: s)
    (auto simp: save_message_def attempt_ok_iff split: sum.split dest: insert_message_contacts)

lemma migrate_rows_contacts: "lo_contacts (snd (migrate_rows P nonces v rs n s)) = lo_contacts s"
  by (induction rs arbitrary: n s) (auto split: sum.split)

lemma upsert_notification_contacts: "upsert_notification k n s = ok s' \<Longrightarrow> lo_contacts s' = lo_contacts s"
  by (auto simp: upsert_notification_def split: if_splits)

lemma upsert_tombstone_contacts: "upsert_tombstone t s = ok s' \<Longrightarrow> lo_contacts s' = lo_contacts s"
  by (auto simp: upsert_tombstone_def split: if_splits option.splits)

lemma unlock_contacts: "unlock P now fresh backup p s = ok (v, s') \<Longrightarrow> lo_contacts s' = lo_contacts s"
  by (auto simp: unlock_def attempt_ok_iff split: option.splits prod.splits)

lemma delete_conversation_contacts:
  "set (lo_contacts (delete_conversation_state peer c s)) \<subseteq> set (lo_contacts s)"
  by (auto simp: delete_conversation_state_def)

text \<open>
  Only the user verifies. Whatever a step of the store does, a contact row that is verified afterwards
  binds its account to a master key that a verified row bound it to before, unless the step was the user's
  own verification of that account or the import of contacts from a paired device. In particular no bundle
  that a server sends, under whatever name or account, becomes a verified contact with another key.
\<close>

theorem only_the_user_verifies:
  assumes "local_step P conv s s'" and "keeps_master_key P"
    and "r \<in> set (lo_contacts s')" and "cr_verified r"
  shows "(\<exists>old \<in> set (lo_contacts s). cr_verified old \<and> row_master_key P old = row_master_key P r) \<or>
    s' = verify_contact (cr_account_id r) s \<or> (\<exists>now cs. import_contacts P now cs s = ok s')"
proof -
  have "trust_kept P s s' \<or> (\<exists>a. s' = verify_contact a s) \<or> (\<exists>now cs. import_contacts P now cs s = ok s')"
    using assms(1)
  proof (cases rule: local_step.cases)
    case (contact now b c)
    with upsert_contact_trust assms(2) show ?thesis by blast
  next
    case (delete_everywhere peer name c e t)
    then have "lo_contacts s' = lo_contacts (delete_conversation_state peer c s)"
      by (auto simp: delete_conversation_everywhere_def dest: upsert_tombstone_contacts)
    then show ?thesis using delete_conversation_contacts trust_kept_subset by metis
  next
    case (commit_deletion now n v p t cursor)
    then have "lo_contacts s' = lo_contacts (delete_conversation_state (cb_peer_account_id t) (cb_conversation_id t) s)"
      by (auto simp: commit_conversation_deletion_def attempt_ok_iff upsert_defs dest!: upsert_tombstone_contacts)
    then show ?thesis using delete_conversation_contacts trust_kept_subset by metis
  qed (auto simp: commit_defs attempt_ok_iff upsert_defs save_draft_def save_message_def
      migrate_legacy_messages_def migrate_rows_contacts import_messages_contacts save_ui_preference_def
      mark_conversation_deletion_synced_def remove_outbox_def set_cursors_def update_notification_state_def
      mark_notification_read_def delete_notification_def mark_pairing_event_processed_def
      update_status_def update_outbound_status_for_peer_def set_status_where_def
      intro!: trust_kept_same split: if_splits
      dest!: insert_message_contacts upsert_notification_contacts unlock_contacts)
  moreover have "(\<exists>old \<in> set (lo_contacts s). cr_verified old \<and> row_master_key P old = row_master_key P r) \<or>
      a = cr_account_id r" if "s' = verify_contact a s" for a
    using that assms(3,4) by (auto simp: verify_contact_def in_update_where split: if_splits)
  ultimately show ?thesis
    using assms(3,4) by (auto simp: trust_kept_def)
qed

definition key_packages :: "(nat, nat, nat, nat) local_packages" where
  "key_packages = sample_packages\<lparr>bundle_encode := ub_account_master_key,
     bundle_decode := (\<lambda>k. ok (sample_bundle\<lparr>ub_account_master_key := k\<rparr>))\<rparr>"

theorem only_the_user_verifies_witness:
  "\<exists>r \<in> set (lo_contacts (verify_contact ''acc-b'' sample_store)). cr_verified r \<and>
    ((\<exists>old \<in> set (lo_contacts sample_store). cr_verified old \<and>
        row_master_key key_packages old = row_master_key key_packages r) \<or>
      verify_contact ''acc-b'' sample_store = verify_contact (cr_account_id r) sample_store \<or>
      (\<exists>now cs. import_contacts key_packages now cs sample_store = ok (verify_contact ''acc-b'' sample_store)))"
proof (rule bexI [of _ "sample_contact\<lparr>cr_verified := True\<rparr>"], rule conjI)
  let ?r = "sample_contact\<lparr>cr_verified := True\<rparr>"
  show r: "?r \<in> set (lo_contacts (verify_contact ''acc-b'' sample_store))" and v: "cr_verified ?r"
    by (simp_all add: verify_contact_def sample_store_def sample_contact_def)
  have "keeps_master_key key_packages" by (simp add: keeps_master_key_def key_packages_def)
  from only_the_user_verifies [OF local_step.verify [of key_packages "\<lambda>p. p" sample_store "''acc-b''"] this r v]
  show "(\<exists>old \<in> set (lo_contacts sample_store). cr_verified old \<and>
        row_master_key key_packages old = row_master_key key_packages ?r) \<or>
      verify_contact ''acc-b'' sample_store = verify_contact (cr_account_id ?r) sample_store \<or>
      (\<exists>now cs. import_contacts key_packages now cs sample_store = ok (verify_contact ''acc-b'' sample_store))" .
qed

end
