(* ===== verification/Local_Deletion.thy ===== *)
theory Local_Deletion
  imports Local_Properties
begin

text \<open>
  Deleting a conversation on one device and on the other devices of the account: what a deletion removes,
  and that devices which receive the same deletion events, in any order and with repetitions, end with
  tombstones of the same time for every peer, and with the same tombstone where no two events have the same time.
\<close>

section \<open>Operations that may arrive in any order\<close>

text \<open>
  A replica whose operations commute when they are compatible, and that a repeated operation does not
  change, depends only on the set of operations it has seen.
\<close>

locale replica =
  fixes apply_op :: "'op \<Rightarrow> 's \<Rightarrow> 's" and compatible :: "'op \<Rightarrow> 'op \<Rightarrow> bool"
  assumes commute: "compatible a b \<Longrightarrow> apply_op a (apply_op b s) = apply_op b (apply_op a s)"
    and again: "apply_op a (apply_op a s) = apply_op a s"
begin

definition all_compatible :: "'op list \<Rightarrow> bool" where
  "all_compatible xs \<longleftrightarrow> (\<forall>a \<in> set xs. \<forall>b \<in> set xs. compatible a b)"

lemma converges:
  assumes "all_compatible xs" and "set xs = set ys"
  shows "fold apply_op xs s = fold apply_op ys s"
proof -
  have "comp_fun_idem_on (set xs) apply_op"
    using assms(1) by unfold_locales (auto simp: all_compatible_def fun_eq_iff commute again)
  then show ?thesis
    using comp_fun_idem_on.fold_set_fold [of "set xs" apply_op xs s]
      comp_fun_idem_on.fold_set_fold [of "set xs" apply_op ys s] assms(2) by simp
qed

end

section \<open>The tombstone of a peer\<close>

definition tombstone_of :: "string \<Rightarrow> local_db \<Rightarrow> tombstone_row option" where
  "tombstone_of peer s = find (\<lambda>r. ts_peer_account_id r = peer) (lo_tombstones s)"

definition merge_option :: "tombstone_row \<Rightarrow> tombstone_row option \<Rightarrow> tombstone_row option" where
  "merge_option t old = Some (case old of None \<Rightarrow> t | Some o' \<Rightarrow> merge_tombstone t o')"

text \<open>
  Two deletion events are compatible when they are the same or have different times and are not both
  deletions made on this device.
\<close>

definition events_compatible :: "tombstone_row \<Rightarrow> tombstone_row \<Rightarrow> bool" where
  "events_compatible a b \<longleftrightarrow> a = b \<or> ts_peer_account_id a = ts_peer_account_id b \<and>
     ts_deleted_at_ms a \<noteq> ts_deleted_at_ms b \<and> \<not> (ts_pending_sync a \<and> ts_pending_sync b)"

lemma merge_tombstone_commute:
  "events_compatible a b \<Longrightarrow> merge_tombstone a (merge_tombstone b old) = merge_tombstone b (merge_tombstone a old)"
  by (auto simp: events_compatible_def merge_tombstone_def max_def)

lemma merge_tombstone_first:
  "events_compatible a b \<Longrightarrow> merge_tombstone a b = merge_tombstone b a"
  by (auto simp: events_compatible_def merge_tombstone_def max_def)

lemma merge_tombstone_again: "merge_tombstone a (merge_tombstone a old) = merge_tombstone a old"
  by (auto simp: merge_tombstone_def max_def)

lemma merge_tombstone_self: "merge_tombstone a a = a"
  by (simp add: merge_tombstone_def)

interpretation tombstones: replica merge_option events_compatible
proof
  fix a b :: tombstone_row and s
  assume "events_compatible a b"
  then show "merge_option a (merge_option b s) = merge_option b (merge_option a s)"
    using merge_tombstone_commute [of a b] merge_tombstone_first [of a b]
    by (cases s) (simp_all add: merge_option_def)
next
  fix a :: tombstone_row and s
  show "merge_option a (merge_option a s) = merge_option a s"
    by (cases s) (simp_all add: merge_option_def merge_tombstone_again merge_tombstone_self)
qed

lemma find_update_other:
  "(\<And>r. p r \<Longrightarrow> \<not> q r) \<Longrightarrow> (\<And>r. p r \<Longrightarrow> \<not> q (f r)) \<Longrightarrow> find q (update_where p f rs) = find q rs"
  by (induction rs) auto

lemma find_update_same: "(\<And>r. p r \<Longrightarrow> p (f r)) \<Longrightarrow> find p (update_where p f rs) = map_option f (find p rs)"
  by (induction rs) auto

lemma upsert_tombstone_of:
  assumes "upsert_tombstone t s = ok s'"
  shows "tombstone_of peer s' =
    (if peer = ts_peer_account_id t then merge_option t (tombstone_of peer s) else tombstone_of peer s)"
proof (cases "tombstone_of (ts_peer_account_id t) s")
  case None
  then have "s' = s\<lparr>lo_tombstones := lo_tombstones s @ [t]\<rparr>"
    using assms by (auto simp: upsert_tombstone_def tombstone_of_def split: if_splits)
  moreover have "find q (rs @ [t]) = find q rs" if "\<not> q t" for q rs
    using that by (induction rs) auto
  ultimately show ?thesis
    using None by (auto simp: tombstone_of_def merge_option_def find_append_None)
next
  case (Some old)
  then have "s' = s\<lparr>lo_tombstones := update_where (\<lambda>r. ts_peer_account_id r = ts_peer_account_id t)
      (merge_tombstone t) (lo_tombstones s)\<rparr>"
    using assms by (auto simp: upsert_tombstone_def tombstone_of_def split: if_splits)
  with Some show ?thesis
    by (auto simp: tombstone_of_def merge_option_def find_update_same find_update_other)
qed

lemma delete_conversation_tombstones [simp]:
  "tombstone_of peer (delete_conversation_state a c s) = tombstone_of peer s"
  by (simp add: tombstone_of_def delete_conversation_state_def)

lemma commit_conversation_deletion_tombstone:
  assumes "commit_conversation_deletion P now n v p t cursor s = ok s'"
  shows "tombstone_of peer s' =
    (if peer = cb_peer_account_id t then merge_option (tombstone_row_of t False) (tombstone_of peer s)
     else tombstone_of peer s)"
proof -
  obtain blob s1 where "upsert_tombstone (tombstone_row_of t False)
        (delete_conversation_state (cb_peer_account_id t) (cb_conversation_id t) s) = ok s1"
      "s' = set_envelope_cursor cursor (upsert_profile blob now s1)"
    using assms by (auto simp: commit_conversation_deletion_def attempt_ok_iff)
  then show ?thesis
    using upsert_tombstone_of [of "tombstone_row_of t False" _ s1 peer]
    by (simp add: tombstone_of_def upsert_profile_def set_envelope_cursor_def tombstone_row_of_def
        delete_conversation_state_def)
qed

text \<open>A device that receives deletion events, each with the cursor of its envelope.\<close>

definition receive_deletions :: "('a, 's, 'pa, 'ps) local_packages \<Rightarrow> i64 \<Rightarrow> bytes \<Rightarrow> VaultSession \<Rightarrow>
    ('a, 's) RuntimeProfile \<Rightarrow> (ConversationTombstone \<times> u64) list \<Rightarrow> store_update" where
  "receive_deletions P now n v p = fold_result (\<lambda>(t, cursor). commit_conversation_deletion P now n v p t cursor)"

lemma receive_deletions_tombstone:
  "receive_deletions P now n v p es s = ok s' \<Longrightarrow> tombstone_of peer s' =
     fold merge_option (map (\<lambda>e. tombstone_row_of (fst e) False)
       (filter (\<lambda>e. cb_peer_account_id (fst e) = peer) es)) (tombstone_of peer s)"
  unfolding receive_deletions_def
proof (induction es arbitrary: s)
  case (Cons e es)
  obtain t cursor where e: "e = (t, cursor)" by (cases e)
  obtain s1 where s1: "commit_conversation_deletion P now n v p t cursor s = ok s1"
      "fold_result (\<lambda>(t, cursor). commit_conversation_deletion P now n v p t cursor) es s1 = ok s'"
    using Cons.prems e by (auto simp: attempt_ok_iff)
  show ?case
    using Cons.IH [OF s1(2)] commit_conversation_deletion_tombstone [OF s1(1), of peer] e by simp
qed simp

text \<open>The time of the tombstone alone: a register that keeps the latest time, whatever the order and also with ties.\<close>

definition latest :: "i64 \<Rightarrow> i64 option \<Rightarrow> i64 option" where
  "latest t old = Some (case old of None \<Rightarrow> t | Some x \<Rightarrow> max t x)"

interpretation deletion_times: replica latest "\<lambda>_ _. True"
  by unfold_locales (auto simp: latest_def split: option.split)

lemma fold_merge_times:
  "map_option ts_deleted_at_ms (fold merge_option rows old) = fold latest (map ts_deleted_at_ms rows) (map_option ts_deleted_at_ms old)"
proof (induction rows arbitrary: old)
  case (Cons r rows)
  have "map_option ts_deleted_at_ms (merge_option r old) = latest (ts_deleted_at_ms r) (map_option ts_deleted_at_ms old)"
    by (cases old) (simp_all add: merge_option_def latest_def merge_tombstone_def)
  with Cons show ?case by simp
qed simp

text \<open>
  C37. Devices agree on deletions. Two devices of an account that start with the same tombstones and receive
  the same deletion events, each in its own order, with repetitions and different cursors, end for every peer
  with a tombstone of the same time, or both without one. If moreover different events for one peer have
  different times, as the merge by time needs, the tombstones are the same in every field; with equal times the
  name and the event of the tombstone are those of the event that came last.
\<close>

theorem deletions_converge:
  assumes "receive_deletions P1 now1 n1 v1 p1 es1 s1 = ok t1" and "receive_deletions P2 now2 n2 v2 p2 es2 s2 = ok t2"
    and "fst ` set es1 = fst ` set es2" and "\<And>peer. tombstone_of peer s1 = tombstone_of peer s2"
  shows "map_option ts_deleted_at_ms (tombstone_of peer t1) = map_option ts_deleted_at_ms (tombstone_of peer t2)
    \<and> ((\<forall>a \<in> fst ` set es1. \<forall>b \<in> fst ` set es1. cb_peer_account_id a = cb_peer_account_id b \<longrightarrow>
          a = b \<or> cb_deleted_at_ms a \<noteq> cb_deleted_at_ms b) \<longrightarrow>
        tombstone_of peer t1 = tombstone_of peer t2)"
proof (intro conjI impI)
  let ?rows = "\<lambda>es. map (\<lambda>e. tombstone_row_of (fst e) False) (filter (\<lambda>e. cb_peer_account_id (fst e) = peer) es)"
  have rows: "set (?rows es) = (\<lambda>t. tombstone_row_of t False) ` {t \<in> fst ` set es. cb_peer_account_id t = peer}"
    for es :: "(ConversationTombstone \<times> u64) list" by auto
  have same: "set (?rows es1) = set (?rows es2)"
    unfolding rows using assms(3) by simp
  show "map_option ts_deleted_at_ms (tombstone_of peer t1) = map_option ts_deleted_at_ms (tombstone_of peer t2)"
    unfolding receive_deletions_tombstone [OF assms(1)] receive_deletions_tombstone [OF assms(2)] fold_merge_times
      assms(4) [of peer]
    by (rule deletion_times.converges) (use same in \<open>simp_all only: deletion_times.all_compatible_def set_map [of ts_deleted_at_ms]\<close>, simp_all)
  assume ties: "\<forall>a \<in> fst ` set es1. \<forall>b \<in> fst ` set es1. cb_peer_account_id a = cb_peer_account_id b \<longrightarrow>
      a = b \<or> cb_deleted_at_ms a \<noteq> cb_deleted_at_ms b"
  have "tombstones.all_compatible (?rows es1)"
    unfolding tombstones.all_compatible_def rows
  proof (intro ballI)
    fix x y
    assume "x \<in> (\<lambda>t. tombstone_row_of t False) ` {t \<in> fst ` set es1. cb_peer_account_id t = peer}"
      "y \<in> (\<lambda>t. tombstone_row_of t False) ` {t \<in> fst ` set es1. cb_peer_account_id t = peer}"
    then obtain a b where ab: "x = tombstone_row_of a False" "y = tombstone_row_of b False"
        "a \<in> fst ` set es1" "b \<in> fst ` set es1" "cb_peer_account_id a = peer" "cb_peer_account_id b = peer"
      by blast
    have "a = b \<or> cb_deleted_at_ms a \<noteq> cb_deleted_at_ms b" using ties ab(3-6) by metis
    with ab(1,2,5,6) show "events_compatible x y"
      by (auto simp: events_compatible_def tombstone_row_of_def)
  qed
  then have "fold merge_option (?rows es1) (tombstone_of peer s1) =
      fold merge_option (?rows es2) (tombstone_of peer s1)"
    using same by (rule tombstones.converges)
  then show "tombstone_of peer t1 = tombstone_of peer t2"
    by (simp only: receive_deletions_tombstone [OF assms(1)] receive_deletions_tombstone [OF assms(2)]
        assms(4) [of peer])
qed

definition sample_deletion :: "string \<Rightarrow> i64 \<Rightarrow> ConversationTombstone" where
  "sample_deletion event time = \<lparr>cb_peer_account_id = ''acc-b'', cb_peer_username = ''bob'',
     cb_conversation_id = ''acc-b'', cb_sync_event_id = event, cb_deleted_at_ms = time\<rparr>"

lemma sample_commit_deletion:
  assumes "\<forall>r \<in> set (lo_tombstones s). ts_peer_account_id r = ''acc-b''"
  shows "\<exists>s'. commit_conversation_deletion sample_packages now sample_nonce sample_vault sample_profile
      (sample_deletion event time) cursor s = ok s' \<and> (\<forall>r \<in> set (lo_tombstones s'). ts_peer_account_id r = ''acc-b'')"
proof (cases "find (\<lambda>r. ts_peer_account_id r = ''acc-b'') (lo_tombstones s)")
  case None
  with assms have "lo_tombstones s = []" by (cases "lo_tombstones s") auto
  then show ?thesis
    by (simp add: commit_conversation_deletion_def sample_encode_profile upsert_tombstone_def sample_deletion_def
        delete_conversation_state_def tombstone_row_of_def upsert_defs)
next
  case (Some old)
  with assms show ?thesis
    by (auto simp: commit_conversation_deletion_def sample_encode_profile upsert_tombstone_def sample_deletion_def
        delete_conversation_state_def tombstone_row_of_def upsert_defs in_update_where)
qed

lemma sample_receive:
  assumes "\<forall>e \<in> set es. \<exists>event time. fst e = sample_deletion event time"
    and "\<forall>r \<in> set (lo_tombstones s). ts_peer_account_id r = ''acc-b''"
  shows "\<exists>s'. receive_deletions sample_packages now sample_nonce sample_vault sample_profile es s = ok s'"
  using assms
proof (induction es arbitrary: s)
  case (Cons e es)
  obtain event time cursor where e: "e = (sample_deletion event time, cursor)"
    using Cons.prems(1) by (cases e) auto
  obtain s1 where "commit_conversation_deletion sample_packages now sample_nonce sample_vault sample_profile
      (sample_deletion event time) cursor s = ok s1" "\<forall>r \<in> set (lo_tombstones s1). ts_peer_account_id r = ''acc-b''"
    using sample_commit_deletion [OF Cons.prems(2)] by blast
  with Cons.IH [of s1] Cons.prems(1) e show ?case by (simp add: receive_deletions_def)
qed (simp add: receive_deletions_def)

theorem deletions_converge_witness:
  "\<exists>t1 t2. receive_deletions sample_packages 1 sample_nonce sample_vault sample_profile
      [(sample_deletion ''e1'' 10, 4), (sample_deletion ''e2'' 20, 5)] sample_store = ok t1 \<and>
    receive_deletions sample_packages 2 sample_nonce sample_vault sample_profile
      [(sample_deletion ''e2'' 20, 7), (sample_deletion ''e1'' 10, 8), (sample_deletion ''e2'' 20, 9)] sample_store = ok t2 \<and>
    tombstone_of ''acc-b'' t1 = tombstone_of ''acc-b'' t2"
proof -
  let ?es1 = "[(sample_deletion ''e1'' 10, 4), (sample_deletion ''e2'' 20, 5)] :: (ConversationTombstone \<times> u64) list"
  let ?es2 = "[(sample_deletion ''e2'' 20, 7), (sample_deletion ''e1'' 10, 8), (sample_deletion ''e2'' 20, 9)]
    :: (ConversationTombstone \<times> u64) list"
  have empty: "\<forall>r \<in> set (lo_tombstones sample_store). ts_peer_account_id r = ''acc-b''"
    by (simp add: sample_store_def empty_store_def)
  obtain t1 where t1: "receive_deletions sample_packages 1 sample_nonce sample_vault sample_profile ?es1 sample_store = ok t1"
    using sample_receive [of ?es1, OF _ empty] by auto
  obtain t2 where t2: "receive_deletions sample_packages 2 sample_nonce sample_vault sample_profile ?es2 sample_store = ok t2"
    using sample_receive [of ?es2, OF _ empty] by auto
  have "tombstone_of ''acc-b'' t1 = tombstone_of ''acc-b'' t2"
    by (rule mp [OF conjunct2 [OF deletions_converge [OF t1 t2]]]) (auto simp: sample_deletion_def)
  with t1 t2 show ?thesis by blast
qed

section \<open>What a deletion removes\<close>

text \<open>Everything the store keeps of a conversation with a peer.\<close>

definition conversation_gone :: "string \<Rightarrow> string \<Rightarrow> local_db \<Rightarrow> bool" where
  "conversation_gone peer conversation s \<longleftrightarrow>
     (\<forall>m \<in> set (lo_messages s). mr_conversation_id m \<noteq> conversation) \<and>
     (\<forall>d \<in> set (lo_drafts s). df_conversation_id d \<noteq> conversation) \<and>
     (\<forall>r \<in> set (lo_summaries s). su_conversation_id r \<noteq> conversation) \<and>
     (\<forall>c \<in> set (lo_contacts s). cr_account_id c \<noteq> peer) \<and>
     (\<forall>n \<in> set (lo_notifications s). nr_actor_account_id n = peer \<longrightarrow> nr_kind n \<notin> {''chat_request'', ''chat_response''})"

lemma upsert_tombstone_frame:
  "upsert_tombstone t s = ok s' \<Longrightarrow> s' = s\<lparr>lo_tombstones := lo_tombstones s'\<rparr>"
  by (auto simp: upsert_tombstone_def split: option.splits if_splits)

lemma tombstoned_iff: "conversation_tombstoned peer s \<longleftrightarrow> tombstone_of peer s \<noteq> None"
  by (auto simp: conversation_tombstoned_def count_where_pos_iff tombstone_of_def find_None_iff)

lemma pending_listed:
  assumes "tombstone_of peer s = Some t" "ts_pending_sync t"
  shows "\<exists>d \<in> set (pending_conversation_deletions s). cb_peer_account_id d = peer \<and> cb_sync_event_id d = ts_sync_event_id t"
proof -
  have "t \<in> set (lo_tombstones s) \<and> ts_peer_account_id t = peer"
    using assms(1) unfolding tombstone_of_def by (rule find_SomeD)
  with assms(2) show ?thesis by (force simp: pending_conversation_deletions_def)
qed

text \<open>
  C38. A deleted conversation leaves nothing behind but its tombstone. Deleting a conversation on this device
  removes its messages, draft, summary, contact and chat notifications, and the unsent frames of its
  messages; the messages of every other conversation stay. The peer has a tombstone and a deletion event to
  synchronise until that is marked as sent; verifying the peer again removes the tombstone and the queued
  frame of its event.
\<close>

theorem conversation_deletion_complete:
  assumes "delete_conversation_everywhere peer name conversation event time s = ok s'"
  shows "conversation_gone peer conversation s' \<and>
    (\<forall>f \<in> set (lo_outbox s'). f \<in> set (lo_outbox s) \<and>
      (\<nexists>m. m \<in> set (lo_messages s) \<and> mr_conversation_id m = conversation \<and> mr_id m = ob_id f)) \<and>
    filter (\<lambda>m. mr_conversation_id m \<noteq> conversation) (lo_messages s) = lo_messages s' \<and>
    conversation_tombstoned peer s' \<and>
    (\<exists>d \<in> set (pending_conversation_deletions s'). cb_peer_account_id d = peer \<and>
      \<not> outbox_contains (cb_sync_event_id d) (verify_contact peer s')) \<and>
    \<not> conversation_tombstoned peer (verify_contact peer s')"
proof -
  let ?t = "\<lparr>ts_peer_account_id = peer, ts_peer_username = name, ts_conversation_id = conversation,
    ts_sync_event_id = event, ts_deleted_at_ms = time, ts_pending_sync = True\<rparr>"
  have up: "upsert_tombstone ?t (delete_conversation_state peer conversation s) = ok s'"
    using assms by (simp add: delete_conversation_everywhere_def)
  have frame: "s' = (delete_conversation_state peer conversation s)\<lparr>lo_tombstones := lo_tombstones s'\<rparr>"
    by (rule upsert_tombstone_frame [OF up])
  have tables: "lo_messages s' = delete_where (\<lambda>m. mr_conversation_id m = conversation) (lo_messages s)"
      "lo_drafts s' = delete_where (\<lambda>d. df_conversation_id d = conversation) (lo_drafts s)"
      "lo_summaries s' = delete_where (\<lambda>r. su_conversation_id r = conversation) (lo_summaries s)"
      "lo_contacts s' = delete_where (\<lambda>c. cr_account_id c = peer) (lo_contacts s)"
      "lo_notifications s' = delete_where (\<lambda>n. nr_actor_account_id n = peer
         \<and> nr_kind n \<in> {''chat_request'', ''chat_response''}) (lo_notifications s)"
      "lo_outbox s' = delete_where (\<lambda>f. \<exists>m \<in> set (lo_messages s).
         mr_conversation_id m = conversation \<and> mr_id m = ob_id f) (lo_outbox s)"
    by (subst frame, simp add: delete_conversation_state_def)+
  obtain t where t: "tombstone_of peer s' = Some t" "ts_pending_sync t"
    using upsert_tombstone_of [OF up, of peer]
    by (auto simp: merge_option_def merge_tombstone_def split: option.splits)
  then obtain d where d: "d \<in> set (pending_conversation_deletions s')" "cb_peer_account_id d = peer"
      "cb_sync_event_id d = ts_sync_event_id t" using pending_listed by blast
  have "t \<in> set (lo_tombstones s') \<and> ts_peer_account_id t = peer"
    using t(1) unfolding tombstone_of_def by (rule find_SomeD)
  then have "\<not> outbox_contains (cb_sync_event_id d) (verify_contact peer s')"
    using d(3) by (auto simp: outbox_contains_def verify_contact_def count_where_pos_iff)
  moreover have "\<not> conversation_tombstoned peer (verify_contact peer s')"
    by (simp add: conversation_tombstoned_def verify_contact_def count_where_pos_iff)
  ultimately show ?thesis
    using d t(1) by (auto simp: conversation_gone_def tables tombstoned_iff delete_where_def)
qed

theorem conversation_deletion_complete_witness:
  "\<exists>s'. delete_conversation_everywhere ''acc-b'' ''bob'' ''acc-b'' ''e'' 20 sample_store = ok s' \<and>
    lo_messages sample_store \<noteq> [] \<and> conversation_gone ''acc-b'' ''acc-b'' s' \<and> conversation_tombstoned ''acc-b'' s'"
proof -
  obtain s' where s': "delete_conversation_everywhere ''acc-b'' ''bob'' ''acc-b'' ''e'' 20 sample_store = ok s'"
    by (simp add: delete_conversation_everywhere_def upsert_tombstone_def delete_conversation_state_def
        sample_store_def empty_store_def)
  from conversation_deletion_complete [OF this] s' show ?thesis by (auto simp: sample_store_def)
qed

end
