(* ===== verification/Local_History.thy ===== *)
theory Local_History
  imports Local_Properties
begin

text \<open>
  Reading a conversation page by page: \<open>messages\<close> gives the newest page and \<open>messages_before\<close> the page
  before a message, as the client asks for them while the user scrolls up.
\<close>

section \<open>Keyset pagination\<close>

text \<open>
  A page is the \<open>n\<close> rows with the greatest keys, in ascending order. Going back page by page from the
  newest one, each time to the rows before the first row shown, visits every row.
\<close>

definition last_n :: "nat \<Rightarrow> 'a list \<Rightarrow> 'a list" where
  "last_n n xs = drop (length xs - n) xs"

locale keyset_pages =
  fixes key :: "'r \<Rightarrow> 'k::linorder" and page :: "'r list \<Rightarrow> 'r list" and n :: nat
  assumes page_size: "0 < n"
    and page_eq: "distinct (map key rows) \<Longrightarrow> page rows = last_n n (sort_key key rows)"
begin

fun go_back :: "nat \<Rightarrow> 'r list \<Rightarrow> 'r list \<Rightarrow> 'r list" where
  "go_back 0 rows shown = shown"
| "go_back (Suc k) rows shown = (case shown of [] \<Rightarrow> []
     | r # _ \<Rightarrow> (case page (filter (\<lambda>q. key q < key r) rows) of [] \<Rightarrow> shown
        | p # ps \<Rightarrow> go_back k rows ((p # ps) @ shown)))"

lemma sorted_before:
  assumes "distinct (map key rows)" and "sort_key key rows = pre @ r # suf"
  shows "sort_key key (filter (\<lambda>q. key q < key r) rows) = pre"
proof -
  have s: "sorted (map key (pre @ r # suf))" and d: "distinct (map key (pre @ r # suf))"
  proof -
    show "sorted (map key (pre @ r # suf))" using assms(2) sorted_sort_key [of key rows] by simp
    have "distinct (map key (sort_key key rows))" using assms(1) by (simp add: distinct_map)
    then show "distinct (map key (pre @ r # suf))" by (simp only: assms(2))
  qed
  have "key q < key r" if q: "q \<in> set pre" for q
  proof -
    have "key q \<le> key r" using s q by (auto simp: sorted_append)
    moreover have "key r \<notin> key ` set pre" using d by auto
    ultimately show ?thesis using q by (metis imageI order.not_eq_order_implies_strict)
  qed
  then have "filter (\<lambda>q. key q < key r) pre = pre" by (simp add: filter_id_conv)
  moreover have "\<not> key q < key r" if "q \<in> set suf" for q
    using s that by (auto simp: sorted_append)
  then have "filter (\<lambda>q. key q < key r) suf = []" by (simp add: filter_empty_conv)
  ultimately have "filter (\<lambda>q. key q < key r) (sort_key key rows) = pre"
    by (simp add: assms(2))
  then show ?thesis by (simp add: filter_sort)
qed

lemma page_before:
  assumes "distinct (map key rows)" and "sort_key key rows = pre @ r # suf"
  shows "page (filter (\<lambda>q. key q < key r) rows) = last_n n pre"
  using page_eq [of "filter (\<lambda>q. key q < key r) rows"] sorted_before [OF assms] assms(1)
  by (simp add: distinct_map_filter)

lemma go_back_complete:
  assumes "distinct (map key rows)"
  shows "sort_key key rows = pre @ shown \<Longrightarrow> shown \<noteq> [] \<or> rows = [] \<Longrightarrow> length pre < k \<Longrightarrow>
    go_back k rows shown = sort_key key rows"
proof (induction k arbitrary: pre shown)
  case (Suc k)
  show ?case
  proof (cases shown)
    case Nil
    with Suc.prems show ?thesis by simp
  next
    case (Cons r suf)
    note page = page_before [OF assms Suc.prems(1) [unfolded Cons]]
    show ?thesis
    proof (cases pre rule: rev_cases)
      case Nil
      with page Suc.prems(1) show ?thesis by (simp add: Cons last_n_def)
    next
      case (snoc pre' q)
      let ?p = "last_n n pre" and ?rest = "take (length pre - n) pre"
      have ne: "?p \<noteq> []" using snoc page_size by (simp add: last_n_def)
      have split: "?rest @ ?p = pre" by (simp add: last_n_def)
      have "go_back k rows (?p @ shown) = sort_key key rows"
        by (rule Suc.IH [where pre = ?rest])
          (use Suc.prems(1,3) split ne page_size snoc in \<open>auto simp flip: append_assoc\<close>)
      with page ne show ?thesis by (cases ?p) (simp_all add: Cons)
    qed
  qed
qed simp

lemma read_all:
  assumes "distinct (map key rows)" and "length rows < k"
  shows "go_back k rows (page rows) = sort_key key rows"
proof (rule go_back_complete [OF assms(1), where pre = "take (length rows - n) (sort_key key rows)"])
  show "sort_key key rows = take (length rows - n) (sort_key key rows) @ page rows"
    using page_eq [OF assms(1)] by (simp add: last_n_def)
  show "page rows \<noteq> [] \<or> rows = []"
  proof (cases rows)
    case (Cons r rs)
    then show ?thesis using page_eq [OF assms(1)] page_size by (simp add: last_n_def)
  qed simp
  show "length (take (length rows - n) (sort_key key rows)) < k"
    using assms(2) by simp
qed

end

lemma distinct_message_key: "distinct (map mr_id rows) \<Longrightarrow> distinct (map message_key rows)"
  by (induction rows) (auto simp: message_key_def)

lemma sort_key_sorted: "sorted (map f xs) \<Longrightarrow> sort_key f xs = xs"
  by (rule sort_key_id_if_sorted) simp

interpretation message_pages: keyset_pages message_key newest_rows MESSAGE_PAGE_SIZE
proof
  show "0 < MESSAGE_PAGE_SIZE" by (simp add: MESSAGE_PAGE_SIZE_def)
next
  fix rows :: "message_row list"
  assume d: "distinct (map message_key rows)"
  let ?s = "sort_key message_key rows" and ?l = "last_n MESSAGE_PAGE_SIZE (sort_key message_key rows)"
  have take: "take MESSAGE_PAGE_SIZE (rev ?s) = rev ?l"
    by (simp add: last_n_def take_rev)
  have "sorted (map message_key ?l)"
    by (simp add: last_n_def drop_map [symmetric] sorted_wrt_drop)
  moreover have dl: "distinct (map message_key ?l)"
    using d by (simp add: distinct_map last_n_def) (metis in_set_dropD inj_on_subset set_sort subsetI)
  moreover have "distinct (map message_key (sort_key message_key (rev ?l)))"
    using dl by (simp add: distinct_map)
  ultimately have "map message_key (sort_key message_key (rev ?l)) = map message_key ?l"
    by (intro sorted_distinct_set_unique) simp_all
  moreover have "inj_on message_key (set (sort_key message_key (rev ?l)) \<union> set ?l)"
    using dl by (simp add: distinct_map)
  ultimately have "sort_key message_key (rev ?l) = ?l" by (rule map_inj_on)
  with take show "newest_rows rows = ?l" by (simp add: newest_rows_def)
qed

section \<open>The whole conversation\<close>

text \<open>
  Reading back as the client does: the newest page, then again and again the page before the first
  message shown, until a page is empty.
\<close>

fun older_pages :: "('a, 's, 'pa, 'ps) local_packages \<Rightarrow> VaultSession \<Rightarrow> string \<Rightarrow> nat \<Rightarrow> local_db \<Rightarrow>
    ChatMessage list \<Rightarrow> ChatMessage list result" where
  "older_pages P v c 0 s shown = ok shown"
| "older_pages P v c (Suc k) s shown = (case shown of [] \<Rightarrow> ok []
     | m # _ \<Rightarrow> attempt (messages_before P v c (cm_sent_at_ms m) (cm_id m) s) (\<lambda>page.
         if page = [] then ok shown else older_pages P v c k s (page @ shown)))"

definition history_rows :: "string \<Rightarrow> local_db \<Rightarrow> message_row list" where
  "history_rows c s = filter (\<lambda>r. mr_conversation_id r = c) (lo_messages s)"

definition reads_as :: "('a, 's, 'pa, 'ps) local_packages \<Rightarrow> VaultSession \<Rightarrow> message_row \<Rightarrow> ChatMessage \<Rightarrow> bool" where
  "reads_as P v r m \<longleftrightarrow> message_from_row P v r = ok m"

lemma reads_as_key: "reads_as P v r m \<Longrightarrow> message_key r = (cm_sent_at_ms m, cm_id m)"
  by (auto simp: reads_as_def message_from_row_def attempt_ok_iff message_key_def)

lemma collect_reads:
  "(\<And>r. r \<in> set rs \<Longrightarrow> reads_as P v r (f r)) \<Longrightarrow> collect_results (map (message_from_row P v) rs) = ok (map f rs)"
  by (induction rs) (simp_all add: reads_as_def)

lemma set_newest_rows: "set (newest_rows rows) \<subseteq> set rows"
  by (auto simp: newest_rows_def dest: in_set_takeD)

lemma messages_before_key:
  assumes "\<And>r. r \<in> set (history_rows c s) \<Longrightarrow> reads_as P v r (f r)" and "r \<in> set (history_rows c s)"
  shows "messages_before P v c (cm_sent_at_ms (f r)) (cm_id (f r)) s =
    ok (map f (newest_rows (filter (\<lambda>q. message_key q < message_key r) (history_rows c s))))"
proof -
  have key: "message_key r = (cm_sent_at_ms (f r), cm_id (f r))"
    using assms(1) [OF assms(2)] by (rule reads_as_key)
  have rows: "filter (\<lambda>q. mr_conversation_id q = c \<and> (mr_sent_at_ms q < cm_sent_at_ms (f r)
        \<or> mr_sent_at_ms q = cm_sent_at_ms (f r) \<and> mr_id q < cm_id (f r))) (lo_messages s) =
      filter (\<lambda>q. message_key q < message_key r) (history_rows c s)"
    using key by (simp add: history_rows_def message_key_def less_prod_def' del: less_prod_simp)
  show ?thesis
    unfolding messages_before_def rows
    by (rule collect_reads) (use assms(1) set_newest_rows in fastforce)
qed

lemma older_pages_go_back:
  assumes "\<And>r. r \<in> set (history_rows c s) \<Longrightarrow> reads_as P v r (f r)"
  shows "set shown \<subseteq> set (history_rows c s) \<Longrightarrow>
    older_pages P v c k s (map f shown) = ok (map f (message_pages.go_back k (history_rows c s) shown))"
proof (induction k arbitrary: shown)
  case (Suc k)
  show ?case
  proof (cases shown)
    case (Cons r rest)
    let ?page = "newest_rows (filter (\<lambda>q. message_key q < message_key r) (history_rows c s))"
    have "messages_before P v c (cm_sent_at_ms (f r)) (cm_id (f r)) s = ok (map f ?page)"
      by (rule messages_before_key [OF assms]) (use Suc.prems Cons in auto)
    moreover have "set (?page @ shown) \<subseteq> set (history_rows c s)"
      using Suc.prems set_newest_rows by fastforce
    ultimately show ?thesis
      using Suc.IH [of "?page @ shown"] by (cases ?page) (simp_all add: Cons)
  qed simp
qed simp

text \<open>
  C39. Scrolling up shows the whole conversation. In a reachable store whose messages of the conversation
  can all be read, the newest page and the pages before it, until one is empty, together show every message
  of the conversation once, in the order of time and identifier. One request per message and one more is
  always enough.
\<close>

theorem history_complete:
  assumes "local_reachable P conv s" and "\<And>r. r \<in> set (history_rows c s) \<Longrightarrow> reads_as P v r (f r)"
    and "length (history_rows c s) < k"
  shows "attempt (messages P v c s) (older_pages P v c k s) =
    ok (map f (sort_key message_key (history_rows c s)))"
proof -
  have "distinct (map mr_id (lo_messages s))"
    using mail_okD(1) [OF store_ok_mail [OF local_reachable_ok [OF assms(1)]]] .
  then have "distinct (map message_key (history_rows c s))"
    by (intro distinct_message_key) (simp add: history_rows_def distinct_map_filter)
  from message_pages.read_all [OF this assms(3)]
  have "message_pages.go_back k (history_rows c s) (newest_rows (history_rows c s)) =
      sort_key message_key (history_rows c s)" .
  moreover have "messages P v c s = ok (map f (newest_rows (history_rows c s)))"
    unfolding messages_def history_rows_def [symmetric]
    by (rule collect_reads) (use assms(2) set_newest_rows in fastforce)
  ultimately show ?thesis
    using older_pages_go_back [OF assms(2) set_newest_rows] by simp
qed

theorem history_complete_witness:
  "attempt (messages sample_packages sample_vault ''acc-b'' sample_store)
     (older_pages sample_packages sample_vault ''acc-b'' 2 sample_store) = ok [sample_message]"
proof -
  have rows: "history_rows ''acc-b'' sample_store = [row_of_message sample_body sample_message]"
    by (simp add: history_rows_def sample_store_def row_of_message_def sample_message_def)
  have "decode_body sample_packages sample_vault (message_aad (cm_id sample_message)) sample_body = ok (cm_body sample_message)"
    by (rule decode_body_encoded [OF sample_encode_message])
      (simp_all add: sample_nonce_def sample_packages_def sample_message_def string_ok_def as_bytes_def
        utf8_tail_def tail_ok_def)
  then have "reads_as sample_packages sample_vault (row_of_message sample_body sample_message) sample_message"
    by (simp add: reads_as_def message_from_row_def row_of_message_def del: status_str.simps)
  then have "attempt (messages sample_packages sample_vault ''acc-b'' sample_store)
      (older_pages sample_packages sample_vault ''acc-b'' 2 sample_store) =
    ok (map (\<lambda>_. sample_message) (sort_key message_key (history_rows ''acc-b'' sample_store)))"
    by (intro history_complete [OF sample_reachable]) (simp_all add: rows)
  then show ?thesis by (simp add: rows)
qed

end
