(* ===== verification/Local_Migration.thy ===== *)
theory Local_Migration
  imports Local_Properties
begin

text \<open>
  The one-way migration of message bodies from blobs under the passphrase to blobs under the vault key,
  \<open>migrate_legacy_messages\<close>: it ends with every row under the vault key, keeps every text, and can be run
  again.
\<close>

section \<open>One row after the other\<close>

definition reencrypted :: "('a, 's, 'pa, 'ps) local_packages \<Rightarrow> VaultSession \<Rightarrow> message_row \<Rightarrow> message_row \<Rightarrow> bool" where
  "reencrypted P v m m' \<longleftrightarrow> (\<exists>nonce b. length nonce = 24 \<and> migrate_row P nonce v m = ok b \<and>
     m' = m\<lparr>mr_encrypted_body := b, mr_encryption_version := 2\<rparr>)"

definition migrated :: "('a, 's, 'pa, 'ps) local_packages \<Rightarrow> VaultSession \<Rightarrow> message_row set \<Rightarrow> message_row \<Rightarrow>
    message_row \<Rightarrow> bool" where
  "migrated P v R m m' \<longleftrightarrow> (if m \<in> R then reencrypted P v m m' else m' = m)"

text \<open>Replacing the row of one identifier, seen on the list of rows.\<close>

lemma list_all2_update:
  assumes "\<And>m. m \<in> set ms \<Longrightarrow> p m \<Longrightarrow> Q m (f m)" and "\<And>m. m \<in> set ms \<Longrightarrow> \<not> p m \<Longrightarrow> Q m m"
  shows "list_all2 Q ms (update_where p f ms)"
  using assms by (induction ms) auto

lemma migrate_rows_effect:
  assumes "distinct (map mr_id (lo_messages s))" and "distinct rs"
    and "\<And>r. r \<in> set rs \<Longrightarrow> r \<in> set (lo_messages s) \<and> mr_encryption_version r = 1"
    and "\<And>r i. r \<in> set rs \<Longrightarrow> \<exists>b. migrate_row P (nonces i) v r = ok b" and "\<And>i. length (nonces i) = 24"
  shows "\<exists>ms. migrate_rows P nonces v rs n s = (ok (n + length rs), s\<lparr>lo_messages := ms\<rparr>) \<and>
    list_all2 (migrated P v (set rs)) (lo_messages s) ms"
  using assms(1-4)
proof (induction rs arbitrary: n s)
  case Nil
  show ?case by (rule exI [of _ "lo_messages s"]) (simp add: migrated_def list_all2_same)
next
  case (Cons r rs)
  obtain b where b: "migrate_row P (nonces n) v r = ok b" using Cons.prems(4) by force
  let ?f = "\<lambda>m. m\<lparr>mr_encrypted_body := b, mr_encryption_version := 2\<rparr>"
  let ?p = "\<lambda>m. mr_id m = mr_id r \<and> mr_encryption_version m = 1"
  let ?ms = "update_where ?p ?f (lo_messages s)" and ?s = "s\<lparr>lo_messages := update_where ?p ?f (lo_messages s)\<rparr>"
  have inj: "inj_on mr_id (set (lo_messages s))" using Cons.prems(1) by (simp add: distinct_map)
  have r: "r \<in> set (lo_messages s)" "mr_encryption_version r = 1" using Cons.prems(3) by simp_all
  have only: "?p m \<longleftrightarrow> m = r" if "m \<in> set (lo_messages s)" for m
    using that r inj by (auto dest: inj_onD)
  have kept: "q \<in> set ?ms" if "q \<in> set rs" for q
    using that Cons.prems(2,3) only [of q] by (auto simp: in_update_where intro!: bexI [of _ q])
  have "\<exists>ms. migrate_rows P nonces v rs (n + 1) ?s = (ok (n + 1 + length rs), ?s\<lparr>lo_messages := ms\<rparr>) \<and>
      list_all2 (migrated P v (set rs)) (lo_messages ?s) ms"
  proof (rule Cons.IH)
    show "distinct (map mr_id (lo_messages ?s))" using Cons.prems(1) by (simp add: map_update_where_same)
    show "q \<in> set (lo_messages ?s) \<and> mr_encryption_version q = 1" if "q \<in> set rs" for q
      using that kept Cons.prems(3) by simp
  qed (use Cons.prems in auto)
  then obtain ms where ms: "migrate_rows P nonces v rs (n + 1) ?s = (ok (n + 1 + length rs), ?s\<lparr>lo_messages := ms\<rparr>)"
      "list_all2 (migrated P v (set rs)) ?ms ms" by auto
  have first: "list_all2 (\<lambda>m m1. if m = r then m1 = ?f r else m1 = m) (lo_messages s) ?ms"
    by (rule list_all2_update) (use only in auto)
  have step: "migrated P v (set (r # rs)) m m2"
    if "if m = r then m1 = ?f r else m1 = m" "migrated P v (set rs) m1 m2" for m m1 m2
  proof (cases "m = r")
    case True
    have "?f r \<notin> set rs" using Cons.prems(3) [of "?f r"] by auto
    with that True b assms(5) show ?thesis by (auto simp: migrated_def reencrypted_def)
  next
    case False
    with that show ?thesis by (simp add: migrated_def)
  qed
  have "list_all2 (migrated P v (set (r # rs))) (lo_messages s) ms"
    by (rule list_all2_trans [OF step first ms(2)])
  with ms(1) b show ?case by (auto intro: exI [of _ ms])
qed

lemma legacy_rows: "r \<in> set (sort_key mr_sent_at_ms (legacy_messages s)) \<longleftrightarrow>
    r \<in> set (lo_messages s) \<and> mr_encryption_version r = 1"
  by (simp add: legacy_messages_def)

text \<open>A re-encrypted row reads as before, now under the vault key alone.\<close>

lemma reencrypted_reads:
  assumes "reencrypted P v m m'" and "aead_correct (lp_crypto P)" and "vs_key v' = vs_key v"
  shows "message_from_row P v' m' = message_from_row P v m"
proof -
  obtain nonce b where n: "length nonce = 24" "migrate_row P nonce v m = ok b"
      "m' = m\<lparr>mr_encrypted_body := b, mr_encryption_version := 2\<rparr>"
    using assms(1) by (auto simp: reencrypted_def)
  obtain blob plain e where old: "decode_encrypted_blob P (mr_encrypted_body m) = ok blob"
      "session_decrypt (lp_crypto P) v (message_aad (mr_id m)) blob = ok plain"
      "session_encrypt (lp_crypto P) v nonce (message_aad (mr_id m)) plain = ok e" "b = blob_to_bytes e"
    using n(2) by (auto simp: migrate_row_def attempt_ok_iff)
  note new = stored_blob_reads_back [OF old(3) n(1) assms(2,3)]
  have "decode_body P v' (message_aad (mr_id m')) (mr_encrypted_body m') = from_utf8 plain"
    using new n(3) old(4) by (auto simp: decode_body_def attempt_ok_iff)
  moreover have "decode_body P v (message_aad (mr_id m)) (mr_encrypted_body m) = from_utf8 plain"
    using old(1,2) by (simp add: decode_body_def)
  ultimately show ?thesis using n(3) by (simp add: message_from_row_def)
qed

text \<open>
  C40. The migration of old messages loses nothing. When every body of version 1 can be decrypted with the
  passphrase and encrypted again, the migration ends with the number of those rows, leaves none of them,
  changes no row of version 2 and no other table, and every message that was read before, with the
  passphrase at hand, is afterwards read as the same text by a session that holds only the vault key.
  Running it again does nothing.
\<close>

theorem migration_keeps_texts:
  assumes "distinct (map mr_id (lo_messages s))" and "aead_correct (lp_crypto P)" and "\<And>i. length (nonces i) = 24"
    and "\<And>r i. r \<in> set (legacy_messages s) \<Longrightarrow> \<exists>b. migrate_row P (nonces i) v r = ok b"
  shows "\<exists>ms. migrate_legacy_messages P nonces v s = (ok (length (legacy_messages s)), s\<lparr>lo_messages := ms\<rparr>) \<and>
    legacy_messages (s\<lparr>lo_messages := ms\<rparr>) = [] \<and>
    list_all2 (\<lambda>m m'. if mr_encryption_version m = 1
      then message_from_row P (v\<lparr>vs_legacy_passphrase := None\<rparr>) m' = message_from_row P v m else m' = m)
      (lo_messages s) ms \<and>
    migrate_legacy_messages P nonces v (s\<lparr>lo_messages := ms\<rparr>) = (ok 0, s\<lparr>lo_messages := ms\<rparr>)"
proof -
  let ?rs = "sort_key mr_sent_at_ms (legacy_messages s)"
  have "distinct (lo_messages s)" using assms(1) by (simp add: distinct_map)
  then have "distinct ?rs" by (simp add: legacy_messages_def)
  have legacy: "r \<in> set ?rs \<Longrightarrow> r \<in> set (lo_messages s) \<and> mr_encryption_version r = 1" for r
    using legacy_rows by blast
  obtain ms where ms: "migrate_rows P nonces v ?rs 0 s = (ok (0 + length ?rs), s\<lparr>lo_messages := ms\<rparr>)"
      "list_all2 (migrated P v (set ?rs)) (lo_messages s) ms"
    using migrate_rows_effect [where nonces = nonces and P = P and v = v and n = 0,
        OF assms(1) \<open>distinct ?rs\<close> legacy _ assms(3)] assms(4) by auto
  have done': "legacy_messages (s\<lparr>lo_messages := ms\<rparr>) = []"
  proof -
    have "mr_encryption_version m' \<noteq> 1" if "m' \<in> set ms" for m'
    proof -
      obtain m where "m \<in> set (lo_messages s)" "migrated P v (set ?rs) m m'"
        using ms(2) \<open>m' \<in> set ms\<close> by (metis in_set_conv_nth list_all2_conv_all_nth)
      then show ?thesis by (auto simp: migrated_def reencrypted_def legacy_messages_def split: if_splits)
    qed
    then show ?thesis by (simp add: legacy_messages_def filter_empty_conv)
  qed
  have "list_all2 (\<lambda>m m'. if mr_encryption_version m = 1
      then message_from_row P (v\<lparr>vs_legacy_passphrase := None\<rparr>) m' = message_from_row P v m else m' = m)
      (lo_messages s) ms"
  proof (rule list.rel_mono_strong [OF ms(2)])
    fix m m'
    assume m: "m \<in> set (lo_messages s)" "migrated P v (set ?rs) m m'"
    then show "if mr_encryption_version m = 1
      then message_from_row P (v\<lparr>vs_legacy_passphrase := None\<rparr>) m' = message_from_row P v m else m' = m"
      using reencrypted_reads [OF _ assms(2), of v m m' "v\<lparr>vs_legacy_passphrase := None\<rparr>"]
      by (auto simp: migrated_def legacy_messages_def split: if_splits)
  qed
  moreover have "migrate_legacy_messages P nonces v (s\<lparr>lo_messages := ms\<rparr>) = (ok 0, s\<lparr>lo_messages := ms\<rparr>)"
    by (simp add: migrate_legacy_messages_def done')
  moreover have "migrate_legacy_messages P nonces v s = (ok (length (legacy_messages s)), s\<lparr>lo_messages := ms\<rparr>)"
    using ms(1) by (simp add: migrate_legacy_messages_def)
  ultimately show ?thesis using done' by (intro exI [of _ ms] conjI)
qed

definition legacy_blob :: EncryptedBlob where
  "legacy_blob = \<lparr>blob_version = 1, blob_salt = replicate 16 1, blob_nonce = replicate 24 2,
     blob_ciphertext = 13 # message_aad ''m1'' @ as_bytes ''hi''\<rparr>"

definition legacy_store :: local_db where
  "legacy_store = empty_store\<lparr>lo_messages :=
     [(row_of_message (blob_to_bytes legacy_blob) sample_message)\<lparr>mr_encryption_version := 1\<rparr>]\<rparr>"

lemma legacy_row_migrates:
  "\<exists>b. migrate_row sample_packages sample_nonce (sample_vault\<lparr>vs_legacy_passphrase := Some ''pass''\<rparr>)
     ((row_of_message (blob_to_bytes legacy_blob) sample_message)\<lparr>mr_encryption_version := 1\<rparr>) = ok b"
proof -
  have "decode_encrypted_blob sample_packages (blob_to_bytes legacy_blob) = ok legacy_blob"
    unfolding decode_encrypted_blob_def by (subst blob_from_to_bytes) (simp_all add: legacy_blob_def blob_wf_def)
  then show ?thesis
    by (simp add: migrate_row_def row_of_message_def sample_message_def session_decrypt_def decrypt_blob_def
        derive_key_def sample_packages_def model_crypto_def legacy_blob_def session_encrypt_def vault_encrypt_def
        sample_vault_def message_aad_def)
qed

theorem migration_keeps_texts_witness:
  "\<exists>ms. migrate_legacy_messages sample_packages (\<lambda>_. sample_nonce)
      (sample_vault\<lparr>vs_legacy_passphrase := Some ''pass''\<rparr>) legacy_store = (ok 1, legacy_store\<lparr>lo_messages := ms\<rparr>) \<and>
    legacy_messages (legacy_store\<lparr>lo_messages := ms\<rparr>) = []"
proof -
  let ?r = "(row_of_message (blob_to_bytes legacy_blob) sample_message)\<lparr>mr_encryption_version := 1\<rparr>"
  have rows: "lo_messages legacy_store = [?r]" "legacy_messages legacy_store = [?r]"
    by (simp_all add: legacy_store_def legacy_messages_def)
  have "aead_correct (lp_crypto sample_packages)"
    using sample_packages_ok by (simp add: packages_ok_def)
  from migration_keeps_texts [OF _ this, of legacy_store "\<lambda>_. sample_nonce"
      "sample_vault\<lparr>vs_legacy_passphrase := Some ''pass''\<rparr>"]
  show ?thesis using rows legacy_row_migrates by (auto simp: sample_nonce_def)
qed

end
