(* ===== verification/Editor.thy ===== *)
theory Editor
  imports Utf8 "HOL-Library.Monad_Syntax"
begin

text \<open>
  The line editor of the client (\<open>crates/client/src/editor.rs\<close>): a UTF-8 text, a byte offset into it
  and the column that vertical motion remembers.

  An operation returns \<open>None\<close> when a slice or an edit of the text in it panics because an offset is
  not on a character boundary. Grapheme clusters and word bounds (crate \<open>unicode-segmentation\<close>) and display widths (crate
  \<open>unicode-width\<close>) are the fields of \<open>unicode\<close>, an argument of the operations.
\<close>

section \<open>Strings and offsets of the standard library\<close>

abbreviation (input) LF :: char where "LF \<equiv> CHR 0x0A"
abbreviation (input) CR :: char where "CR \<equiv> CHR 0x0D"
abbreviation (input) TAB :: char where "TAB \<equiv> CHR 0x09"

definition find_char :: "char \<Rightarrow> string \<Rightarrow> nat option" where
  "find_char c s = (if c \<in> set s then Some (length (takeWhile (\<lambda>x. x \<noteq> c) s)) else None)"

definition rfind_char :: "char \<Rightarrow> string \<Rightarrow> nat option" where
  "rfind_char c s =
     (if c \<in> set s then Some (length s - Suc (length (takeWhile (\<lambda>x. x \<noteq> c) (rev s)))) else None)"

text \<open>\<open>char::is_control\<close>: U+0000 to U+001F and U+007F to U+009F.\<close>

definition char_is_control :: "string \<Rightarrow> bool" where
  "char_is_control ch = (case map of_char ch :: nat list of
       [a] \<Rightarrow> a < 32 \<or> a = 127
     | [a, b] \<Rightarrow> a = 0xC2 \<and> b < 0xA0
     | _ \<Rightarrow> False)"

definition replacement_character :: string where
  "replacement_character = [CHR 0xEF, CHR 0xBF, CHR 0xBD]"

text \<open>\<open>replace("\r\n", "\n")\<close> and \<open>replace('\r', "\n")\<close>.\<close>

fun replace_crlf :: "string \<Rightarrow> string" where
  "replace_crlf (c # d # cs) =
     (if c = CR \<and> d = LF then LF # replace_crlf cs else c # replace_crlf (d # cs))"
| "replace_crlf s = s"

definition replace_cr :: "string \<Rightarrow> string" where
  "replace_cr = map (\<lambda>c. if c = CR then LF else c)"

definition trim_end :: "string \<Rightarrow> string" where
  "trim_end s = concat (rev (dropWhile utf8_whitespace (rev (utf8_chars s))))"

text \<open>The segments of a string with their byte offsets, as the \<open>_indices\<close> iterators give them.\<close>

fun indexed :: "nat \<Rightarrow> string list \<Rightarrow> (nat \<times> string) list" where
  "indexed i [] = []"
| "indexed i (g # gs) = (i, g) # indexed (i + length g) gs"

section \<open>The editor\<close>

record unicode =
  u_graphemes :: "string \<Rightarrow> string list"
  u_words :: "string \<Rightarrow> string list"
  u_width :: "string \<Rightarrow> nat"

record editor_state =
  ed_text :: string
  ed_cursor :: nat
  ed_preferred_column :: "nat option"

definition editor_new :: editor_state where
  "editor_new = \<lparr>ed_text = [], ed_cursor = 0, ed_preferred_column = None\<rparr>"

definition ed_set :: "string \<Rightarrow> editor_state \<Rightarrow> editor_state" where
  "ed_set text e = e\<lparr>ed_text := text, ed_cursor := length text, ed_preferred_column := None\<rparr>"

definition ed_clear :: "editor_state \<Rightarrow> editor_state" where
  "ed_clear e = e\<lparr>ed_text := [], ed_cursor := 0, ed_preferred_column := None\<rparr>"

definition normalize_char :: "string \<Rightarrow> string" where
  "normalize_char ch =
     (if ch = [LF] then [LF]
      else if ch = [TAB] then ''    ''
      else if char_is_control ch then replacement_character
      else ch)"

definition normalize_input :: "string \<Rightarrow> string" where
  "normalize_input v = concat (map normalize_char (utf8_chars (replace_cr (replace_crlf v))))"

definition accepted_end :: "unicode \<Rightarrow> string \<Rightarrow> nat \<Rightarrow> nat" where
  "accepted_end U normalized remaining =
     (let ends = takeWhile (\<lambda>e. e \<le> remaining)
                   (map (\<lambda>(i, g). i + length g) (indexed 0 (u_graphemes U normalized)))
      in if ends = [] then 0 else last ends)"

definition ed_insert :: "unicode \<Rightarrow> string \<Rightarrow> nat \<Rightarrow> editor_state \<Rightarrow> (editor_state \<times> bool) option" where
  "ed_insert U v max_bytes e =
     (if v = [] \<or> max_bytes \<le> length (ed_text e) then Some (e, v = [])
      else let normalized = normalize_input v; remaining = max_bytes - length (ed_text e) in do {
        accepted \<leftarrow> (if length normalized \<le> remaining then Some normalized
                      else slice_to normalized (accepted_end U normalized remaining));
        text \<leftarrow> insert_str (ed_text e) (ed_cursor e) accepted;
        Some (e\<lparr>ed_text := text, ed_cursor := ed_cursor e + length accepted,
                ed_preferred_column := None\<rparr>,
              length accepted = length normalized) })"

definition previous_grapheme :: "unicode \<Rightarrow> string \<Rightarrow> nat \<Rightarrow> nat option" where
  "previous_grapheme U text cursor = do {
     before \<leftarrow> slice_to text cursor;
     let gs = indexed 0 (u_graphemes U before) in
     Some (if gs = [] then cursor else fst (last gs)) }"

definition next_grapheme :: "unicode \<Rightarrow> string \<Rightarrow> nat \<Rightarrow> nat option" where
  "next_grapheme U text cursor = do {
     after \<leftarrow> slice_from text cursor;
     Some (case indexed 0 (u_graphemes U after) of
             [] \<Rightarrow> cursor | (_, g) # _ \<Rightarrow> cursor + length g) }"

definition move_left :: "unicode \<Rightarrow> editor_state \<Rightarrow> editor_state option" where
  "move_left U e = do {
     c \<leftarrow> previous_grapheme U (ed_text e) (ed_cursor e);
     Some (e\<lparr>ed_cursor := c, ed_preferred_column := None\<rparr>) }"

definition move_right :: "unicode \<Rightarrow> editor_state \<Rightarrow> editor_state option" where
  "move_right U e = do {
     c \<leftarrow> next_grapheme U (ed_text e) (ed_cursor e);
     Some (e\<lparr>ed_cursor := c, ed_preferred_column := None\<rparr>) }"

definition move_start :: "editor_state \<Rightarrow> editor_state" where
  "move_start e = e\<lparr>ed_cursor := 0, ed_preferred_column := None\<rparr>"

definition move_end :: "editor_state \<Rightarrow> editor_state" where
  "move_end e = e\<lparr>ed_cursor := length (ed_text e), ed_preferred_column := None\<rparr>"

text \<open>
  The two searches that line motions repeat: \<open>text[..cursor].rfind('\n').map_or(0, |i| i + 1)\<close> and
  \<open>text[cursor..].find('\n').map_or(text.len(), |i| cursor + i)\<close>.
\<close>

definition line_start_of :: "string \<Rightarrow> nat \<Rightarrow> nat option" where
  "line_start_of text cursor = do {
     before \<leftarrow> slice_to text cursor;
     Some (case rfind_char LF before of None \<Rightarrow> 0 | Some i \<Rightarrow> i + 1) }"

definition line_end_of :: "string \<Rightarrow> nat \<Rightarrow> nat option" where
  "line_end_of text cursor = do {
     after \<leftarrow> slice_from text cursor;
     Some (case find_char LF after of None \<Rightarrow> length text | Some i \<Rightarrow> cursor + i) }"

definition move_line_start :: "editor_state \<Rightarrow> editor_state option" where
  "move_line_start e = do {
     c \<leftarrow> line_start_of (ed_text e) (ed_cursor e);
     Some (e\<lparr>ed_cursor := c, ed_preferred_column := None\<rparr>) }"

definition move_line_end :: "editor_state \<Rightarrow> editor_state option" where
  "move_line_end e = do {
     c \<leftarrow> line_end_of (ed_text e) (ed_cursor e);
     Some (e\<lparr>ed_cursor := c, ed_preferred_column := None\<rparr>) }"

fun column_scan :: "unicode \<Rightarrow> nat \<Rightarrow> nat \<Rightarrow> nat \<Rightarrow> nat \<Rightarrow> (nat \<times> string) list \<Rightarrow> nat" where
  "column_scan U start stop column width [] = stop"
| "column_scan U start stop column width ((relative, g) # gs) =
     (let next = width + u_width U g in
      if column < next then start + relative
      else if next = column then start + relative + length g
      else column_scan U start stop column next gs)"

definition byte_at_display_column :: "unicode \<Rightarrow> string \<Rightarrow> nat \<Rightarrow> nat \<Rightarrow> nat \<Rightarrow> nat option" where
  "byte_at_display_column U text start stop column = do {
     line \<leftarrow> slice text start stop;
     Some (column_scan U start stop column 0 (indexed 0 (u_graphemes U line))) }"

definition move_vertical :: "unicode \<Rightarrow> int \<Rightarrow> editor_state \<Rightarrow> editor_state option" where
  "move_vertical U direction e = do {
     current_start \<leftarrow> line_start_of (ed_text e) (ed_cursor e);
     current_end \<leftarrow> line_end_of (ed_text e) (ed_cursor e);
     column \<leftarrow> (case ed_preferred_column e of
                   Some c \<Rightarrow> Some c
                 | None \<Rightarrow> map_option (u_width U) (slice (ed_text e) current_start (ed_cursor e)));
     (if direction < 0 then
        (if current_start = 0 then Some e
         else do {
           start \<leftarrow> line_start_of (ed_text e) (current_start - 1);
           c \<leftarrow> byte_at_display_column U (ed_text e) start (current_start - 1) column;
           Some (e\<lparr>ed_cursor := c, ed_preferred_column := Some column\<rparr>) })
      else
        (if current_end = length (ed_text e) then Some e
         else do {
           stop \<leftarrow> line_end_of (ed_text e) (current_end + 1);
           c \<leftarrow> byte_at_display_column U (ed_text e) (current_end + 1) stop column;
           Some (e\<lparr>ed_cursor := c, ed_preferred_column := Some column\<rparr>) })) }"

definition delete_backward :: "unicode \<Rightarrow> editor_state \<Rightarrow> editor_state option" where
  "delete_backward U e = do {
     p \<leftarrow> previous_grapheme U (ed_text e) (ed_cursor e);
     (if p \<noteq> ed_cursor e then do {
        text \<leftarrow> replace_range (ed_text e) p (ed_cursor e) [];
        Some (e\<lparr>ed_text := text, ed_cursor := p, ed_preferred_column := None\<rparr>) }
      else Some (e\<lparr>ed_preferred_column := None\<rparr>)) }"

definition delete_forward :: "unicode \<Rightarrow> editor_state \<Rightarrow> editor_state option" where
  "delete_forward U e = do {
     n \<leftarrow> next_grapheme U (ed_text e) (ed_cursor e);
     (if n \<noteq> ed_cursor e then do {
        text \<leftarrow> replace_range (ed_text e) (ed_cursor e) n [];
        Some (e\<lparr>ed_text := text, ed_preferred_column := None\<rparr>) }
      else Some (e\<lparr>ed_preferred_column := None\<rparr>)) }"

definition word_start :: "unicode \<Rightarrow> string \<Rightarrow> nat" where
  "word_start U before =
     (let parts = filter (\<lambda>(_, part). \<not> (\<forall>ch \<in> set (utf8_chars part). utf8_whitespace ch))
                    (indexed 0 (u_words U (trim_end before)))
      in if parts = [] then 0 else fst (last parts))"

definition delete_word_backward :: "unicode \<Rightarrow> editor_state \<Rightarrow> editor_state option" where
  "delete_word_backward U e =
     (if ed_cursor e = 0 then Some e
      else do {
        before \<leftarrow> slice_to (ed_text e) (ed_cursor e);
        text \<leftarrow> replace_range (ed_text e) (word_start U before) (ed_cursor e) [];
        Some (e\<lparr>ed_text := text, ed_cursor := word_start U before, ed_preferred_column := None\<rparr>) })"

definition delete_to_line_start :: "editor_state \<Rightarrow> editor_state option" where
  "delete_to_line_start e = do {
     start \<leftarrow> line_start_of (ed_text e) (ed_cursor e);
     text \<leftarrow> replace_range (ed_text e) start (ed_cursor e) [];
     Some (e\<lparr>ed_text := text, ed_cursor := start, ed_preferred_column := None\<rparr>) }"

definition line_count :: "editor_state \<Rightarrow> nat" where
  "line_count e =
     (let parts = split_on LF (ed_text e)
      in max 1 (if last parts = [] then length parts - 1 else length parts))"

text \<open>The loop of \<open>set_cursor_by_visual_position\<close>, with the row and column reached as arguments.\<close>

fun visual_scan :: "unicode \<Rightarrow> nat \<Rightarrow> nat \<Rightarrow> nat \<Rightarrow> nat \<Rightarrow> nat \<Rightarrow> nat \<Rightarrow> nat \<Rightarrow> (nat \<times> string) list \<Rightarrow> nat" where
  "visual_scan U total_len target_row target_column wrap row column last_cursor [] =
     (if row < target_row \<or> column \<le> target_column then total_len else last_cursor)"
| "visual_scan U total_len target_row target_column wrap row column last_cursor ((i, g) # gs) =
     (if g = [LF] then
        (if row = target_row then i
         else visual_scan U total_len target_row target_column wrap (row + 1) 0 (i + length g) gs)
      else
        let w = max 1 (u_width U g);
            wraps = (column = wrap \<or> (0 < column \<and> wrap < column + w));
            row' = (if wraps then row + 1 else row);
            column' = (if wraps then 0 else column)
        in if row' = target_row \<and> target_column < column' + w then i
           else if target_row < row' then i
           else visual_scan U total_len target_row target_column wrap row' (column' + w) (i + length g) gs)"

definition set_cursor_by_visual_position ::
  "unicode \<Rightarrow> nat \<Rightarrow> nat \<Rightarrow> nat \<Rightarrow> editor_state \<Rightarrow> editor_state" where
  "set_cursor_by_visual_position U target_row target_column wrap_width e =
     e\<lparr>ed_cursor := visual_scan U (length (ed_text e)) target_row target_column (max 1 wrap_width)
                      0 0 0 (indexed 0 (u_graphemes U (ed_text e))),
       ed_preferred_column := None\<rparr>"

section \<open>Editing sessions\<close>

datatype edit =
    Set_text string
  | Clear
  | Insert string nat
  | Left | Right | Start | End | Line_start | Line_end
  | Vertical int
  | Backspace | Delete | Delete_word | Delete_line
  | Click nat nat nat

fun edit_step :: "unicode \<Rightarrow> edit \<Rightarrow> editor_state \<Rightarrow> editor_state option" where
  "edit_step U (Set_text t) e = Some (ed_set t e)"
| "edit_step U Clear e = Some (ed_clear e)"
| "edit_step U (Insert v m) e = map_option fst (ed_insert U v m e)"
| "edit_step U Left e = move_left U e"
| "edit_step U Right e = move_right U e"
| "edit_step U Start e = Some (move_start e)"
| "edit_step U End e = Some (move_end e)"
| "edit_step U Line_start e = move_line_start e"
| "edit_step U Line_end e = move_line_end e"
| "edit_step U (Vertical d) e = move_vertical U d e"
| "edit_step U Backspace e = delete_backward U e"
| "edit_step U Delete e = delete_forward U e"
| "edit_step U Delete_word e = delete_word_backward U e"
| "edit_step U Delete_line e = delete_to_line_start e"
| "edit_step U (Click r c w) e = Some (set_cursor_by_visual_position U r c w e)"

text \<open>The texts that callers pass are strings of Rust.\<close>

fun edit_text :: "edit \<Rightarrow> string" where
  "edit_text (Set_text t) = t"
| "edit_text (Insert v _) = v"
| "edit_text _ = []"

fun edit_all :: "unicode \<Rightarrow> edit list \<Rightarrow> editor_state \<Rightarrow> editor_state option" where
  "edit_all U [] e = Some e"
| "edit_all U (c # cs) e = do { e' \<leftarrow> edit_step U c e; edit_all U cs e' }"

end
