(* ===== verification/Editor_Logic.thy ===== *)
theory Editor_Logic
  imports Editor
begin

text \<open>
  The line editor against an abstract editor of two strings, the text before and the text after the
  cursor. The locale \<open>segmentation\<close> says what the editor relies on in graphemes and word bounds; the
  lemmas carry each operation on offsets to the operation on the two strings, and show on the way
  that no offset leaves the character boundaries.
\<close>

section \<open>Segmentations\<close>

text \<open>
  A segmentation splits a text into non-empty strings of Rust. Grapheme clusters and word bounds are
  two (UAX 29); the characters are a third.
\<close>

locale segmentation =
  fixes segs :: "string \<Rightarrow> string list"
  assumes concat_segs: "concat (segs s) = s"
    and segs_nonempty: "[] \<notin> set (segs s)"
    and segs_ok: "string_ok s \<Longrightarrow> g \<in> set (segs s) \<Longrightarrow> string_ok g"
begin

lemma segs_Nil [simp]: "segs [] = []"
  using concat_segs [of "[]"] segs_nonempty [of "[]"] by (cases "segs []") auto

lemma segs_empty_iff [simp]: "segs s = [] \<longleftrightarrow> s = []"
  using concat_segs [of s] by auto

lemma parts_ok:
  assumes "string_ok s" "segs s = xs @ ys"
  shows "s = concat xs @ concat ys" "string_ok (concat xs)" "string_ok (concat ys)"
proof -
  show "s = concat xs @ concat ys" using concat_segs [of s] assms(2) by simp
  show "string_ok (concat xs)" "string_ok (concat ys)"
    using segs_ok [OF assms(1)] assms(2) by (auto intro!: string_ok_concat)
qed

lemma first_rest:
  assumes "string_ok s" "s \<noteq> []"
  obtains g gs where "segs s = g # gs" "s = g @ concat gs" "g \<noteq> []" "string_ok g" "string_ok (concat gs)"
proof -
  obtain g gs where gs: "segs s = g # gs" using assms(2) by (cases "segs s") auto
  then show thesis
    using parts_ok [OF assms(1), of "[g]" gs] segs_nonempty [of s] that [of g gs] by auto
qed

lemma rest_last:
  assumes "string_ok s" "s \<noteq> []"
  obtains g gs where "segs s = gs @ [g]" "s = concat gs @ g" "g \<noteq> []" "string_ok g" "string_ok (concat gs)"
proof -
  obtain g gs where gs: "segs s = gs @ [g]" using assms(2) by (cases "segs s" rule: rev_cases) auto
  then show thesis
    using parts_ok [OF assms(1), of gs "[g]"] segs_nonempty [of s] that [of gs g] by auto
qed

end

interpretation chars: segmentation utf8_chars
  by unfold_locales (simp_all add: utf8_chars_nonempty utf8_chars_ok)

text \<open>What the editor needs of a \<open>unicode\<close>: graphemes and word bounds are segmentations.\<close>

locale editor_unicode =
  graphemes: segmentation "u_graphemes U" + words: segmentation "u_words U"
  for U :: unicode

section \<open>Offsets of segments\<close>

lemma indexed_append: "indexed i (xs @ ys) = indexed i xs @ indexed (i + length (concat xs)) ys"
  by (induction xs arbitrary: i) (simp_all add: add.assoc)

lemma indexed_empty_iff [simp]: "indexed i gs = [] \<longleftrightarrow> gs = []"
  by (cases gs) auto

lemma last_indexed_snoc [simp]: "last (indexed i (gs @ [g])) = (i + length (concat gs), g)"
  by (simp add: indexed_append)

section \<open>Lines\<close>

definition line_before :: "string \<Rightarrow> string" where
  "line_before b = rev (takeWhile (\<lambda>c. c \<noteq> LF) (rev b))"

definition lines_above :: "string \<Rightarrow> string" where
  "lines_above b = rev (dropWhile (\<lambda>c. c \<noteq> LF) (rev b))"

definition line_after :: "string \<Rightarrow> string" where
  "line_after a = takeWhile (\<lambda>c. c \<noteq> LF) a"

definition lines_below :: "string \<Rightarrow> string" where
  "lines_below a = dropWhile (\<lambda>c. c \<noteq> LF) a"

lemma lines_above_before: "lines_above b @ line_before b = b"
  by (simp add: lines_above_def line_before_def flip: rev_append)

lemma line_after_below: "line_after a @ lines_below a = a"
  by (simp add: line_after_def lines_below_def)

lemma LF_line_before [simp]: "LF \<notin> set (line_before b)"
  by (auto simp: line_before_def dest: set_takeWhileD)

lemma LF_line_after [simp]: "LF \<notin> set (line_after a)"
  by (auto simp: line_after_def dest: set_takeWhileD)

lemma lines_above_cases: "lines_above b = [] \<or> (\<exists>x. lines_above b = x @ [LF])"
proof (cases "dropWhile (\<lambda>c. c \<noteq> LF) (rev b)")
  case (Cons c cs)
  then have "c = LF" by (simp add: dropWhile_eq_Cons_conv)
  with Cons show ?thesis by (simp add: lines_above_def)
qed (simp add: lines_above_def)

lemma lines_below_cases: "lines_below a = [] \<or> (\<exists>x. lines_below a = LF # x)"
  by (cases "lines_below a") (auto simp: lines_below_def dropWhile_eq_Cons_conv)

lemma line_start_eq: "(case rfind_char LF b of None \<Rightarrow> 0 | Some i \<Rightarrow> i + 1) = length (lines_above b)"
proof (cases "LF \<in> set b")
  case True
  let ?t = "takeWhile (\<lambda>c. c \<noteq> LF) (rev b)"
  have "length ?t + length (dropWhile (\<lambda>c. c \<noteq> LF) (rev b)) = length b"
    by (metis length_append length_rev takeWhile_dropWhile_id)
  moreover have "dropWhile (\<lambda>c. c \<noteq> LF) (rev b) \<noteq> []" using True by (auto simp: dropWhile_eq_Nil_conv)
  ultimately show ?thesis
    using True by (cases "dropWhile (\<lambda>c. c \<noteq> LF) (rev b)") (auto simp: rfind_char_def lines_above_def)
qed (auto simp: rfind_char_def lines_above_def dropWhile_eq_Nil_conv)

lemma line_end_eq:
  "(case find_char LF a of None \<Rightarrow> length (b @ a) | Some i \<Rightarrow> length b + i) = length b + length (line_after a)"
proof (cases "LF \<in> set a")
  case False
  then have all: "takeWhile (\<lambda>c. c \<noteq> LF) a = a" by (auto simp: takeWhile_eq_all_conv)
  with False show ?thesis unfolding find_char_def line_after_def all by simp
qed (simp add: find_char_def line_after_def)

lemma line_start_of_append:
  "string_ok b \<Longrightarrow> string_ok a \<Longrightarrow> line_start_of (b @ a) (length b) = Some (length (lines_above b))"
  by (simp add: line_start_of_def slice_to_append line_start_eq)

lemma line_end_of_append:
  "string_ok b \<Longrightarrow> string_ok a \<Longrightarrow>
   line_end_of (b @ a) (length b) = Some (length b + length (line_after a))"
  using line_end_eq [of b a] by (simp add: line_end_of_def slice_from_append)


lemma string_ok_LF [simp]: "string_ok (LF # s) = string_ok s"
  by (rule string_ok_ascii) simp

lemma LF_starts [simp]: "\<not> utf8_cont LF"
  by (simp add: utf8_cont_def)

lemma line_before_ok:
  assumes "string_ok b"
  shows "string_ok (lines_above b)" "string_ok (line_before b)"
proof -
  have "string_ok (lines_above b) \<and> string_ok (line_before b)"
    using lines_above_cases [of b]
  proof
    assume "lines_above b = []"
    with lines_above_before [of b] assms show ?thesis by simp
  next
    assume "\<exists>x. lines_above b = x @ [LF]"
    then obtain x where x: "lines_above b = x @ [LF]" ..
    then have "b = x @ LF # line_before b" using lines_above_before [of b] by simp
    with string_ok_split [of x "LF # line_before b"] assms x show ?thesis
      by (simp add: string_ok_append)
  qed
  then show "string_ok (lines_above b)" "string_ok (line_before b)" by blast+
qed

lemma line_after_ok:
  assumes "string_ok a"
  shows "string_ok (line_after a)" "string_ok (lines_below a)"
proof -
  have "starts_char (lines_below a)" using lines_below_cases [of a] by auto
  then show "string_ok (line_after a)" "string_ok (lines_below a)"
    using string_ok_split [of "line_after a" "lines_below a"] assms by (simp_all add: line_after_below)
qed

section \<open>Normalised input\<close>

lemma replace_crlf_Cons [simp]: "c \<noteq> CR \<Longrightarrow> replace_crlf (c # s) = c # replace_crlf s"
  by (cases s) simp_all

lemma replace_crlf_append: "CR \<notin> set xs \<Longrightarrow> replace_crlf (xs @ ys) = xs @ replace_crlf ys"
  by (induction xs) auto

lemma replace_crlf_ok: "string_ok s \<Longrightarrow> string_ok (replace_crlf s)"
proof (induction s rule: string_ok_induct)
  case (ascii c s)
  show ?case
  proof (cases "c = CR")
    case True
    show ?thesis
    proof (cases s)
      case (Cons d cs)
      with True ascii show ?thesis by (cases "d = LF") (simp_all add: string_ok_ascii)
    qed (simp add: True string_ok_ascii)
  qed (use ascii in \<open>simp add: string_ok_ascii\<close>)
next
  case (multi ch s)
  then have "CR \<notin> set ch" by auto
  with multi show ?case by (simp add: replace_crlf_append string_ok_append)
qed simp

lemma replace_cr_ok: "string_ok s \<Longrightarrow> string_ok (replace_cr s)"
proof (induction s rule: string_ok_induct)
  case (multi ch s)
  then have "CR \<notin> set ch" by auto
  then have "map (\<lambda>c. if c = CR then LF else c) ch = ch" by (intro map_idI) auto
  with multi show ?case by (simp add: replace_cr_def string_ok_append)
qed (simp_all add: replace_cr_def string_ok_ascii)

lemma normalize_char_ok: "string_ok ch \<Longrightarrow> string_ok (normalize_char ch)"
  by (simp add: normalize_char_def replacement_character_def string_ok_ascii)
     (simp add: string_ok_def as_bytes_def utf8_tail_def tail_ok_def)

lemma normalize_input_ok: "string_ok v \<Longrightarrow> string_ok (normalize_input v)"
  unfolding normalize_input_def
proof (rule string_ok_concat)
  fix g assume "string_ok v" "g \<in> set (map normalize_char (utf8_chars (replace_cr (replace_crlf v))))"
  then show "string_ok g"
    using utf8_chars_ok [OF replace_cr_ok [OF replace_crlf_ok]] by (auto intro: normalize_char_ok)
qed

section \<open>The abstract editor\<close>

text \<open>
  The text before and the text after the cursor, and the remembered column. The abstract operations
  move whole segments between the two strings and mention no offset.
\<close>

record zipper =
  z_before :: string
  z_after :: string
  z_column :: "nat option"

definition zip_at :: "string \<Rightarrow> string \<Rightarrow> zipper" where
  "zip_at b a = \<lparr>z_before = b, z_after = a, z_column = None\<rparr>"

definition zipper_of :: "editor_state \<Rightarrow> zipper" where
  "zipper_of e = \<lparr>z_before = take (ed_cursor e) (ed_text e), z_after = drop (ed_cursor e) (ed_text e),
     z_column = ed_preferred_column e\<rparr>"

definition editor_ok :: "editor_state \<Rightarrow> bool" where
  "editor_ok e \<longleftrightarrow> string_ok (ed_text e) \<and> is_char_boundary (ed_text e) (ed_cursor e)"

text \<open>A text cut at a display column: the graphemes up to the column, and the others.\<close>

fun split_at_column :: "unicode \<Rightarrow> nat \<Rightarrow> nat \<Rightarrow> string list \<Rightarrow> string \<times> string" where
  "split_at_column U width column [] = ([], [])"
| "split_at_column U width column (g # gs) =
     (let next = width + u_width U g in
      if column < next then ([], concat (g # gs))
      else if next = column then (g, concat gs)
      else let (l, r) = split_at_column U next column gs in (g @ l, r))"

text \<open>The longest prefix of whole graphemes that fits.\<close>

fun fitting :: "nat \<Rightarrow> string list \<Rightarrow> string" where
  "fitting n [] = []"
| "fitting n (g # gs) = (if length g \<le> n then g @ fitting (n - length g) gs else [])"

definition z_insert :: "unicode \<Rightarrow> string \<Rightarrow> nat \<Rightarrow> zipper \<Rightarrow> zipper" where
  "z_insert U v max_bytes z =
     (let used = length (z_before z @ z_after z) in
      if v = [] \<or> max_bytes \<le> used then z
      else let normalized = normalize_input v; room = max_bytes - used in
        zip_at (z_before z @ (if length normalized \<le> room then normalized
                              else fitting room (u_graphemes U normalized)))
               (z_after z))"

definition z_vertical :: "unicode \<Rightarrow> int \<Rightarrow> zipper \<Rightarrow> zipper" where
  "z_vertical U direction z =
     (let b = z_before z; a = z_after z;
          column = (case z_column z of Some c \<Rightarrow> c | None \<Rightarrow> u_width U (line_before b)) in
      if direction < 0 then
        (if lines_above b = [] then z
         else let above = butlast (lines_above b);
                  (l, r) = split_at_column U 0 column (u_graphemes U (line_before above)) in
           \<lparr>z_before = lines_above above @ l, z_after = r @ [LF] @ line_before b @ a,
            z_column = Some column\<rparr>)
      else
        (if lines_below a = [] then z
         else let below = tl (lines_below a);
                  (l, r) = split_at_column U 0 column (u_graphemes U (line_after below)) in
           \<lparr>z_before = b @ line_after a @ [LF] @ l, z_after = r @ lines_below below,
            z_column = Some column\<rparr>))"

definition has_word :: "string \<Rightarrow> bool" where
  "has_word part \<longleftrightarrow> \<not> (\<forall>ch \<in> set (utf8_chars part). utf8_whitespace ch)"

definition z_delete_word :: "unicode \<Rightarrow> zipper \<Rightarrow> zipper" where
  "z_delete_word U z =
     (if z_before z = [] then z
      else zip_at (concat (rev (tl (dropWhile (\<lambda>p. \<not> has_word p)
                     (rev (u_words U (trim_end (z_before z)))))))) (z_after z))"

text \<open>
  The layout of a text on rows of a given width, a cell for every grapheme: the row and the column it
  starts at and its width. A line feed has no width and ends its row.
\<close>

fun layout :: "unicode \<Rightarrow> nat \<Rightarrow> nat \<Rightarrow> nat \<Rightarrow> string list \<Rightarrow> (nat \<times> nat \<times> nat) list" where
  "layout U wrap row column [] = []"
| "layout U wrap row column (g # gs) =
     (if g = [LF] then (row, column, 0) # layout U wrap (row + 1) 0 gs
      else let w = max 1 (u_width U g) in
        if column = wrap \<or> (0 < column \<and> wrap < column + w)
        then (row + 1, 0, w) # layout U wrap (row + 1) w gs
        else (row, column, w) # layout U wrap row (column + w) gs)"

definition at_or_after :: "nat \<Rightarrow> nat \<Rightarrow> nat \<times> nat \<times> nat \<Rightarrow> bool" where
  "at_or_after target_row target_column cell = (case cell of (row, column, width) \<Rightarrow>
     target_row < row \<or> (row = target_row \<and> (width = 0 \<or> target_column < column + width)))"

definition z_click :: "unicode \<Rightarrow> nat \<Rightarrow> nat \<Rightarrow> nat \<Rightarrow> zipper \<Rightarrow> zipper" where
  "z_click U target_row target_column wrap z =
     (let gs = u_graphemes U (z_before z @ z_after z);
          n = length (takeWhile (\<lambda>cell. \<not> at_or_after target_row target_column cell)
                        (layout U (max 1 wrap) 0 0 gs))
      in zip_at (concat (take n gs)) (concat (drop n gs)))"

fun z_step :: "unicode \<Rightarrow> edit \<Rightarrow> zipper \<Rightarrow> zipper" where
  "z_step U (Set_text t) z = zip_at t []"
| "z_step U Clear z = zip_at [] []"
| "z_step U (Insert v m) z = z_insert U v m z"
| "z_step U Left z = (let gs = u_graphemes U (z_before z) in
     if gs = [] then zip_at [] (z_after z) else zip_at (concat (butlast gs)) (last gs @ z_after z))"
| "z_step U Right z = (let gs = u_graphemes U (z_after z) in
     if gs = [] then zip_at (z_before z) [] else zip_at (z_before z @ hd gs) (concat (tl gs)))"
| "z_step U Start z = zip_at [] (z_before z @ z_after z)"
| "z_step U End z = zip_at (z_before z @ z_after z) []"
| "z_step U Line_start z = zip_at (lines_above (z_before z)) (line_before (z_before z) @ z_after z)"
| "z_step U Line_end z = zip_at (z_before z @ line_after (z_after z)) (lines_below (z_after z))"
| "z_step U (Vertical d) z = z_vertical U d z"
| "z_step U Backspace z = zip_at (concat (butlast (u_graphemes U (z_before z)))) (z_after z)"
| "z_step U Delete z = zip_at (z_before z) (concat (tl (u_graphemes U (z_after z))))"
| "z_step U Delete_word z = z_delete_word U z"
| "z_step U Delete_line z = zip_at (lines_above (z_before z)) (z_after z)"
| "z_step U (Click r c w) z = z_click U r c w z"

section \<open>Every operation on offsets is its abstract operation\<close>

text \<open>
  \<open>stands_for r z\<close>: the operation did not panic, and its result is well formed and stands for \<open>z\<close>.
\<close>

definition stands_for :: "editor_state option \<Rightarrow> zipper \<Rightarrow> bool" where
  "stands_for r z \<longleftrightarrow> (\<exists>e. r = Some e \<and> editor_ok e \<and> zipper_of e = z)"

lemma stands_forI:
  assumes "string_ok b" "string_ok a"
  shows "stands_for (Some \<lparr>ed_text = b @ a, ed_cursor = length b, ed_preferred_column = k\<rparr>)
           \<lparr>z_before = b, z_after = a, z_column = k\<rparr>"
  using assms by (simp add: stands_for_def editor_ok_def zipper_of_def string_ok_append boundary_append)

lemma editor_cases:
  assumes "editor_ok e"
  obtains b a k where "e = \<lparr>ed_text = b @ a, ed_cursor = length b, ed_preferred_column = k\<rparr>"
    "string_ok b" "string_ok a"
proof -
  obtain b a where "ed_text e = b @ a" "ed_cursor e = length b" "string_ok b" "string_ok a"
    using assms boundary_cases unfolding editor_ok_def by metis
  then show thesis using that [of b a "ed_preferred_column e"] by (cases e) simp
qed

abbreviation (input) editor_at :: "string \<Rightarrow> string \<Rightarrow> nat option \<Rightarrow> editor_state" where
  "editor_at b a k \<equiv> \<lparr>ed_text = b @ a, ed_cursor = length b, ed_preferred_column = k\<rparr>"

abbreviation (input) zip_col :: "string \<Rightarrow> string \<Rightarrow> nat option \<Rightarrow> zipper" where
  "zip_col b a k \<equiv> \<lparr>z_before = b, z_after = a, z_column = k\<rparr>"

lemma stands_for_at:
  assumes "r = Some (editor_at b a k)" "string_ok b" "string_ok a" "z = zip_col b a k"
  shows "stands_for r z"
  using assms stands_forI by simp

lemma string_ok_parts: "string_ok b \<Longrightarrow> string_ok a \<Longrightarrow> string_ok (b @ a)"
  by (simp add: string_ok_append)

context editor_unicode
begin

lemma previous_grapheme_eq:
  assumes "string_ok b" "string_ok a"
  shows "previous_grapheme U (b @ a) (length b) = Some (length (concat (butlast (u_graphemes U b))))"
proof (cases "b = []")
  case False
  then obtain g gs where "u_graphemes U b = gs @ [g]" using graphemes.rest_last assms(1) by metis
  with False assms show ?thesis by (simp add: previous_grapheme_def)
qed (use assms in \<open>simp add: previous_grapheme_def slice_to_def\<close>)

lemma next_grapheme_eq:
  assumes "string_ok b" "string_ok a"
  shows "next_grapheme U (b @ a) (length b) =
    Some (length b + (case u_graphemes U a of [] \<Rightarrow> 0 | g # _ \<Rightarrow> length g))"
  using assms slice_from_append [OF assms]
  by (cases "u_graphemes U a") (simp_all add: next_grapheme_def del: slice_from_append)

lemma left_stands:
  assumes "string_ok b" "string_ok a"
  shows "stands_for (move_left U (editor_at b a k)) (z_step U Left (zip_col b a k))"
proof (cases "b = []")
  case True
  with assms show ?thesis
    by (intro stands_for_at [of _ "[]" a None])
       (use previous_grapheme_eq [OF assms] in \<open>simp_all add: move_left_def zip_at_def\<close>)
next
  case False
  then obtain g gs where g: "u_graphemes U b = gs @ [g]" "b = concat gs @ g" "string_ok g" "string_ok (concat gs)"
    using graphemes.rest_last assms(1) by metis
  then show ?thesis
    by (intro stands_for_at [of _ "concat gs" "g @ a" None])
       (use previous_grapheme_eq [OF assms] assms(2) in \<open>simp_all add: move_left_def zip_at_def string_ok_append\<close>)
qed

lemma right_stands:
  assumes "string_ok b" "string_ok a"
  shows "stands_for (move_right U (editor_at b a k)) (z_step U Right (zip_col b a k))"
proof (cases "a = []")
  case True
  with assms show ?thesis
    by (intro stands_for_at [of _ b "[]" None])
       (use next_grapheme_eq [OF assms] in \<open>simp_all add: move_right_def zip_at_def\<close>)
next
  case False
  then obtain g gs where g: "u_graphemes U a = g # gs" "a = g @ concat gs" "string_ok g" "string_ok (concat gs)"
    using graphemes.first_rest assms(2) by metis
  then show ?thesis
    by (intro stands_for_at [of _ "b @ g" "concat gs" None])
       (use next_grapheme_eq [OF assms] assms(1) in \<open>simp_all add: move_right_def zip_at_def string_ok_append\<close>)
qed

lemma backspace_stands:
  assumes "string_ok b" "string_ok a"
  shows "stands_for (delete_backward U (editor_at b a k)) (z_step U Backspace (zip_col b a k))"
proof (cases "b = []")
  case True
  with assms show ?thesis
    by (intro stands_for_at [of _ "[]" a None])
       (use previous_grapheme_eq [OF assms] in \<open>simp_all add: delete_backward_def zip_at_def\<close>)
next
  case False
  then obtain g gs where g: "u_graphemes U b = gs @ [g]" "b = concat gs @ g" "g \<noteq> []" "string_ok g"
      "string_ok (concat gs)"
    using graphemes.rest_last assms(1) by metis
  then show ?thesis
    by (intro stands_for_at [of _ "concat gs" a None])
       (use previous_grapheme_eq [OF assms] assms(2) replace_range_append [of "concat gs" g a "[]"]
        in \<open>simp_all add: delete_backward_def zip_at_def\<close>)
qed

lemma delete_stands:
  assumes "string_ok b" "string_ok a"
  shows "stands_for (delete_forward U (editor_at b a k)) (z_step U Delete (zip_col b a k))"
proof (cases "a = []")
  case True
  with assms show ?thesis
    by (intro stands_for_at [of _ b "[]" None])
       (use next_grapheme_eq [OF assms] in \<open>simp_all add: delete_forward_def zip_at_def\<close>)
next
  case False
  then obtain g gs where g: "u_graphemes U a = g # gs" "a = g @ concat gs" "g \<noteq> []" "string_ok g"
      "string_ok (concat gs)"
    using graphemes.first_rest assms(2) by metis
  then show ?thesis
    by (intro stands_for_at [of _ b "concat gs" None])
       (use next_grapheme_eq [OF assms] assms(1) replace_range_append [of b g "concat gs" "[]"]
        in \<open>simp_all add: delete_forward_def zip_at_def\<close>)
qed

lemma line_start_stands:
  assumes "string_ok b" "string_ok a"
  shows "stands_for (move_line_start (editor_at b a k)) (z_step U Line_start (zip_col b a k))"
  using assms line_before_ok [OF assms(1)]
  by (intro stands_for_at [of _ "lines_above b" "line_before b @ a" None])
     (simp_all add: move_line_start_def line_start_of_append zip_at_def string_ok_append lines_above_before
        flip: append_assoc)

lemma line_end_stands:
  assumes "string_ok b" "string_ok a"
  shows "stands_for (move_line_end (editor_at b a k)) (z_step U Line_end (zip_col b a k))"
  using assms line_after_ok [OF assms(2)]
  by (intro stands_for_at [of _ "b @ line_after a" "lines_below a" None])
     (simp_all add: move_line_end_def line_end_of_append zip_at_def string_ok_append line_after_below)

lemma delete_line_stands:
  assumes "string_ok b" "string_ok a"
  shows "stands_for (delete_to_line_start (editor_at b a k)) (z_step U Delete_line (zip_col b a k))"
proof -
  have b: "b = lines_above b @ line_before b" by (simp add: lines_above_before)
  then have len: "length b = length (lines_above b) + length (line_before b)" by (metis length_append)
  have "replace_range (b @ a) (length (lines_above b)) (length b) [] = Some (lines_above b @ a)"
    using replace_range_append [of "lines_above b" "line_before b" a "[]"] assms line_before_ok [OF assms(1)]
    by (simp add: lines_above_before flip: append_assoc len)
  then show ?thesis
    using assms line_before_ok [OF assms(1)]
    by (intro stands_for_at [of _ "lines_above b" a None])
       (simp_all add: delete_to_line_start_def line_start_of_append zip_at_def)
qed

lemma fitting_prefix: "\<exists>xs ys. gs = xs @ ys \<and> fitting n gs = concat xs"
proof (induction n gs rule: fitting.induct)
  case (2 n g gs)
  show ?case
  proof (cases "length g \<le> n")
    case True
    with 2 obtain xs ys where "gs = xs @ ys" "fitting (n - length g) gs = concat xs" by blast
    with True show ?thesis by (intro exI [of _ "g # xs"] exI [of _ ys]) simp
  next
    case False
    then show ?thesis by (intro exI [of _ "[]"] exI [of _ "g # gs"]) simp
  qed
qed simp

lemma accepted_end_scan:
  "i \<le> r \<Longrightarrow> (let ends = takeWhile (\<lambda>e. e \<le> r) (map (\<lambda>(i, g). i + length g) (indexed i gs))
    in if ends = [] then i else last ends) = i + length (fitting (r - i) gs)"
proof (induction gs arbitrary: i)
  case (Cons g gs)
  show ?case
  proof (cases "i + length g \<le> r")
    case True
    moreover have "length g \<le> r - i" using True by arith
    ultimately show ?thesis using Cons.IH [OF True] by (auto simp: Let_def split: if_splits)
  next
    case False
    then have "\<not> length g \<le> r - i" using Cons.prems by arith
    with False show ?thesis by (simp add: Let_def)
  qed
qed simp

lemma accepted_end_eq: "accepted_end U s r = length (fitting r (u_graphemes U s))"
  using accepted_end_scan [of 0 r "u_graphemes U s"] by (simp add: accepted_end_def Let_def)

lemma accepted_ok:
  assumes "string_ok s"
  shows "string_ok (fitting r (u_graphemes U s)) \<and>
    slice_to s (accepted_end U s r) = Some (fitting r (u_graphemes U s))"
proof -
  obtain xs ys where xs: "u_graphemes U s = xs @ ys" "fitting r (u_graphemes U s) = concat xs"
    using fitting_prefix by blast
  note parts = graphemes.parts_ok [OF assms xs(1)]
  have "slice_to s (length (concat xs)) = Some (concat xs)"
    by (subst parts(1)) (rule slice_to_append [OF parts(2,3)])
  with xs(2) parts(2) show ?thesis by (simp add: accepted_end_eq del: length_concat)
qed

lemma insert_stands:
  assumes "string_ok b" "string_ok a" "string_ok v"
  shows "stands_for (map_option fst (ed_insert U v m (editor_at b a k))) (z_step U (Insert v m) (zip_col b a k))"
proof (cases "v = [] \<or> m \<le> length (b @ a)")
  case True
  then show ?thesis
    using assms by (intro stands_for_at [of _ b a k]) (auto simp: ed_insert_def z_insert_def)
next
  case False
  define acc where "acc = (if length (normalize_input v) \<le> m - length (b @ a) then normalize_input v
    else fitting (m - length (b @ a)) (u_graphemes U (normalize_input v)))"
  have acc: "string_ok acc" using normalize_input_ok [OF assms(3)] accepted_ok by (simp add: acc_def)
  have "ed_insert U v m (editor_at b a k) =
      Some (editor_at (b @ acc) a None, length acc = length (normalize_input v))"
    using False assms accepted_ok [OF normalize_input_ok [OF assms(3)]]
    by (auto simp: ed_insert_def acc_def Let_def)
  with False assms acc show ?thesis
    by (intro stands_for_at [of _ "b @ acc" a None])
       (simp_all add: z_insert_def zip_at_def string_ok_append acc_def Let_def)
qed

lemma tl_suffix: "\<exists>x. xs = x @ tl xs"
  by (cases xs) (auto intro: exI [of _ "[_]"])

lemma last_word:
  "(let parts = filter (\<lambda>(_, part). has_word part) (indexed 0 ps)
    in if parts = [] then 0 else fst (last parts)) =
   length (concat (rev (tl (dropWhile (\<lambda>p. \<not> has_word p) (rev ps)))))"
  by (induction ps rule: rev_induct) (auto simp: indexed_append Let_def)

lemma kept_words:
  assumes "string_ok b"
  obtains kept cut where
    "kept = concat (rev (tl (dropWhile (\<lambda>p. \<not> has_word p) (rev (u_words U (trim_end b))))))"
    "b = kept @ cut" "string_ok kept" "string_ok cut" "word_start U b = length kept"
proof -
  let ?ws = "u_words U (trim_end b)"
  define kept where "kept = concat (rev (tl (dropWhile (\<lambda>p. \<not> has_word p) (rev ?ws))))"
  have "\<exists>ys. utf8_chars b = rev (dropWhile utf8_whitespace (rev (utf8_chars b))) @ ys"
    by (metis rev_append rev_rev_ident takeWhile_dropWhile_id)
  then obtain ys where ys: "utf8_chars b = rev (dropWhile utf8_whitespace (rev (utf8_chars b))) @ ys" ..
  note trimmed = chars.parts_ok [OF assms ys, folded trim_end_def]
  have "\<exists>zs. ?ws = rev (tl (dropWhile (\<lambda>p. \<not> has_word p) (rev ?ws))) @ zs"
  proof -
    obtain x where "dropWhile (\<lambda>p. \<not> has_word p) (rev ?ws) = x @ tl (dropWhile (\<lambda>p. \<not> has_word p) (rev ?ws))"
      using tl_suffix by blast
    then have "rev ?ws = (takeWhile (\<lambda>p. \<not> has_word p) (rev ?ws) @ x) @ tl (dropWhile (\<lambda>p. \<not> has_word p) (rev ?ws))"
      by (metis append_assoc takeWhile_dropWhile_id)
    then have "rev (rev ?ws) = rev (tl (dropWhile (\<lambda>p. \<not> has_word p) (rev ?ws))) @
        rev (takeWhile (\<lambda>p. \<not> has_word p) (rev ?ws) @ x)" by (metis rev_append)
    then show ?thesis by (metis rev_rev_ident)
  qed
  then obtain zs where zs: "?ws = rev (tl (dropWhile (\<lambda>p. \<not> has_word p) (rev ?ws))) @ zs" ..
  note parts = words.parts_ok [OF trimmed(2) zs, folded kept_def]
  have start: "word_start U b = length kept"
    using last_word [of ?ws] by (simp add: word_start_def kept_def has_word_def)
  define cut where "cut = concat zs @ concat ys"
  have b: "b = kept @ cut" using trimmed(1) parts(1) by (simp add: cut_def)
  have ok: "string_ok kept" "string_ok cut" using trimmed parts by (simp_all add: cut_def string_ok_append)
  show thesis by (rule that [OF kept_def b ok start])
qed

lemma delete_word_stands:
  assumes "string_ok b" "string_ok a"
  shows "stands_for (delete_word_backward U (editor_at b a k)) (z_step U Delete_word (zip_col b a k))"
proof (cases "b = []")
  case True
  then show ?thesis
    using assms by (intro stands_for_at [of _ "[]" a k]) (auto simp: delete_word_backward_def z_delete_word_def)
next
  case False
  obtain kept cut where kept:
      "kept = concat (rev (tl (dropWhile (\<lambda>p. \<not> has_word p) (rev (u_words U (trim_end b))))))"
      "b = kept @ cut" "string_ok kept" "string_ok cut" "word_start U b = length kept"
    using kept_words [OF assms(1)] by metis
  have "replace_range (b @ a) (length kept) (length b) [] = Some (kept @ a)"
    using replace_range_append [OF kept(3,4) assms(2), of "[]"] kept(2) by simp
  with False assms kept(3,5) show ?thesis
    by (intro stands_for_at [of _ kept a None])
       (simp_all add: delete_word_backward_def z_delete_word_def zip_at_def flip: kept(1))
qed

lemma split_at_column_prefix: "\<exists>xs ys. gs = xs @ ys \<and> split_at_column U w column gs = (concat xs, concat ys)"
proof (induction U w column gs rule: split_at_column.induct)
  case (2 U w column g gs)
  consider "column < w + u_width U g" | "w + u_width U g = column" | "w + u_width U g < column" by arith
  then show ?case
  proof cases
    case 1
    then show ?thesis by (intro exI [of _ "[]"] exI [of _ "g # gs"]) simp
  next
    case 2
    then show ?thesis by (intro exI [of _ "[g]"] exI [of _ gs]) simp
  next
    case 3
    with 2 obtain xs ys where "gs = xs @ ys"
        "split_at_column U (w + u_width U g) column gs = (concat xs, concat ys)" by auto
    with 3 show ?thesis by (intro exI [of _ "g # xs"] exI [of _ ys]) simp
  qed
qed simp

lemma column_scan_eq:
  "stop = start + i + length (concat gs) \<Longrightarrow>
   column_scan U start stop column w (indexed i gs) = start + i + length (fst (split_at_column U w column gs))"
  by (induction U w column gs arbitrary: i rule: split_at_column.induct)
     (auto simp: Let_def split: prod.split)

lemma split_column_line:
  assumes "string_ok x" "string_ok line" "string_ok z"
    and "split_at_column U 0 column (u_graphemes U line) = (l, r)"
  shows "byte_at_display_column U (x @ line @ z) (length x) (length x + length line) column =
      Some (length (x @ l))" "line = l @ r" "string_ok l" "string_ok r"
proof -
  obtain xs ys where xs: "u_graphemes U line = xs @ ys" "l = concat xs" "r = concat ys"
    using split_at_column_prefix [of "u_graphemes U line" 0 column] assms(4) by auto
  show "line = l @ r" "string_ok l" "string_ok r"
    using graphemes.parts_ok [OF assms(2) xs(1)] xs by simp_all
  show "byte_at_display_column U (x @ line @ z) (length x) (length x + length line) column = Some (length (x @ l))"
    using column_scan_eq [of "length x + length line" "length x" 0 "u_graphemes U line" column]
      graphemes.concat_segs [of line] assms
    by (simp add: byte_at_display_column_def slice_append del: length_concat)
qed

lemma slice_line:
  assumes "string_ok b" "string_ok a"
  shows "slice (b @ a) (length (lines_above b)) (length b) = Some (line_before b)"
proof -
  have "slice (lines_above b @ line_before b @ a) (length (lines_above b))
      (length (lines_above b) + length (line_before b)) = Some (line_before b)"
    by (rule slice_append [OF line_before_ok(1) [OF assms(1)] line_before_ok(2) [OF assms(1)] assms(2)])
  moreover have "lines_above b @ line_before b @ a = b @ a"
      "length (lines_above b) + length (line_before b) = length b"
    by (metis append_assoc lines_above_before) (metis length_append lines_above_before)
  ultimately show ?thesis by simp
qed

lemma move_vertical_at:
  assumes "string_ok b" "string_ok a"
    and column: "column = (case k of Some c \<Rightarrow> c | None \<Rightarrow> u_width U (line_before b))"
    and stop: "stop = length b + length (line_after a)"
  shows "move_vertical U d (editor_at b a k) =
    (if d < 0 then
       (if lines_above b = [] then Some (editor_at b a k)
        else do {
          start \<leftarrow> line_start_of (b @ a) (length (lines_above b) - 1);
          c \<leftarrow> byte_at_display_column U (b @ a) start (length (lines_above b) - 1) column;
          Some \<lparr>ed_text = b @ a, ed_cursor = c, ed_preferred_column = Some column\<rparr> })
     else
       (if stop = length (b @ a) then Some (editor_at b a k)
        else do {
          e \<leftarrow> line_end_of (b @ a) (stop + 1);
          c \<leftarrow> byte_at_display_column U (b @ a) (stop + 1) e column;
          Some \<lparr>ed_text = b @ a, ed_cursor = c, ed_preferred_column = Some column\<rparr> }))"
  using assms slice_line [OF assms(1,2)]
  by (cases k) (simp_all add: move_vertical_def line_start_of_append line_end_of_append)

lemma up_stands:
  assumes "string_ok b" "string_ok a" "d < 0"
  shows "stands_for (move_vertical U d (editor_at b a k)) (z_step U (Vertical d) (zip_col b a k))"
proof -
  let ?column = "case k of Some c \<Rightarrow> c | None \<Rightarrow> u_width U (line_before b)"
  note lines = line_before_ok [OF assms(1)]
  consider "lines_above b = []" | x where "lines_above b = x @ [LF]" using lines_above_cases by blast
  then show ?thesis
  proof cases
    case 1
    then show ?thesis
      using assms move_vertical_at [OF assms(1,2) refl refl, of d k]
      by (intro stands_for_at [of _ b a k]) (simp_all add: z_vertical_def Let_def)
  next
    case 2
    have b: "b = x @ LF # line_before b" using lines_above_before [of b] 2 by simp
    with string_ok_split [of x "LF # line_before b"] assms(1) have x: "string_ok x" by simp
    note above = line_before_ok [OF x]
    let ?rest = "LF # line_before b @ a"
    have rest: "string_ok ?rest" using assms(2) lines(2) by (simp add: string_ok_append)
    obtain l r where lr: "split_at_column U 0 ?column (u_graphemes U (line_before x)) = (l, r)" by fastforce
    note cut = split_column_line [OF above rest lr]
    have "lines_above x @ line_before x @ ?rest = b @ a"
      by (metis append_Cons append_assoc b lines_above_before)
    moreover have "length (lines_above x) + length (line_before x) = length x"
      by (metis length_append lines_above_before)
    ultimately have col: "byte_at_display_column U (b @ a) (length (lines_above x)) (length x) ?column =
        Some (length (lines_above x @ l))" using cut(1) by metis
    have start: "line_start_of (b @ a) (length x) = Some (length (lines_above x))"
      using line_start_of_append [OF x rest] b by (metis append_Cons append_assoc)
    have whole: "b @ a = (lines_above x @ l) @ r @ ?rest"
      by (metis append_Cons append_assoc b cut(2) lines_above_before)
    have "move_vertical U d (editor_at b a k) =
        Some \<lparr>ed_text = b @ a, ed_cursor = length (lines_above x @ l), ed_preferred_column = Some ?column\<rparr>"
      using assms(3) 2 move_vertical_at [OF assms(1,2) refl refl, of d k] col start by simp
    then have "move_vertical U d (editor_at b a k) =
        Some (editor_at (lines_above x @ l) (r @ ?rest) (Some ?column))" by (simp only: whole)
    then show ?thesis
      by (rule stands_for_at)
         (use assms(3) 2 lr cut(3,4) above rest in \<open>simp_all add: z_vertical_def string_ok_append\<close>)
  qed
qed

lemma down_stands:
  assumes "string_ok b" "string_ok a" "\<not> d < 0"
  shows "stands_for (move_vertical U d (editor_at b a k)) (z_step U (Vertical d) (zip_col b a k))"
proof -
  let ?column = "case k of Some c \<Rightarrow> c | None \<Rightarrow> u_width U (line_before b)"
  note lines = line_after_ok [OF assms(2)]
  consider "lines_below a = []" | y where "lines_below a = LF # y" using lines_below_cases by blast
  then show ?thesis
  proof cases
    case 1
    then have "length (line_after a) = length a" using line_after_below [of a] by (metis append_Nil2)
    with 1 show ?thesis
      using assms move_vertical_at [OF assms(1,2) refl refl, of d k]
      by (intro stands_for_at [of _ b a k]) (simp_all add: z_vertical_def Let_def)
  next
    case 2
    have a: "a = line_after a @ LF # y" using line_after_below [of a] 2 by simp
    have y: "string_ok y" using lines(2) 2 by simp
    note below = line_after_ok [OF y]
    let ?top = "b @ line_after a @ [LF]"
    have top: "string_ok ?top" using assms(1) lines(1) by (simp add: string_ok_append)
    obtain l r where lr: "split_at_column U 0 ?column (u_graphemes U (line_after y)) = (l, r)" by fastforce
    note cut = split_column_line [OF top below lr]
    have ba: "?top @ line_after y @ lines_below y = b @ a"
      by (metis append_Cons append_Nil append_assoc a line_after_below)
    have len: "length ?top = length b + length (line_after a) + 1" by simp
    have "line_end_of (?top @ y) (length ?top) = Some (length ?top + length (line_after y))"
      by (rule line_end_of_append [OF top y])
    then have stop: "line_end_of (b @ a) (length b + length (line_after a) + 1) =
        Some (length ?top + length (line_after y))"
      using ba line_after_below [of y] len by (metis append_assoc)
    have col: "byte_at_display_column U (b @ a) (length b + length (line_after a) + 1)
        (length ?top + length (line_after y)) ?column = Some (length (?top @ l))"
      using cut(1) ba len by (metis append_assoc)
    have ends: "length b + length (line_after a) \<noteq> length (b @ a)"
      by (subst (2) a) simp
    have whole: "b @ a = (?top @ l) @ r @ lines_below y" using ba cut(2) by simp
    have moved: "move_vertical U d (editor_at b a k) =
        Some \<lparr>ed_text = b @ a, ed_cursor = length (?top @ l), ed_preferred_column = Some ?column\<rparr>"
      using assms(3) move_vertical_at [OF assms(1,2) refl refl, of d k] ends col stop by simp
    then have "move_vertical U d (editor_at b a k) =
        Some (editor_at (?top @ l) (r @ lines_below y) (Some ?column))" by (simp only: whole)
    then show ?thesis
      by (rule stands_for_at)
         (use assms(1,3) lines(1) 2 lr cut(3,4) below in \<open>simp_all add: z_vertical_def string_ok_append\<close>)
  qed
qed

lemma visual_scan_eq:
  "row \<le> t \<Longrightarrow> n = i + length (concat gs) \<Longrightarrow>
   visual_scan U n t c wrap row column i (indexed i gs) =
   i + length (concat (take (length (takeWhile (\<lambda>cell. \<not> at_or_after t c cell)
     (layout U wrap row column gs))) gs))"
proof (induction gs arbitrary: i row column)
  case (Cons g gs)
  show ?case
  proof (cases "g = [LF]")
    case True
    show ?thesis
    proof (cases "row = t")
      case False
      then show ?thesis
        using True Cons.prems Cons.IH [of "row + 1" "i + length g" 0] by (simp add: at_or_after_def)
    qed (use True in \<open>simp add: at_or_after_def\<close>)
  next
    case False
    define w where "w = max 1 (u_width U g)"
    define wraps where "wraps \<longleftrightarrow> column = wrap \<or> (0 < column \<and> wrap < column + w)"
    define row' where "row' = (if wraps then row + 1 else row)"
    define column' where "column' = (if wraps then 0 else column)"
    have cell: "layout U wrap row column (g # gs) = (row', column', w) # layout U wrap row' (column' + w) gs"
      using False by (simp add: Let_def w_def wraps_def row'_def column'_def)
    have scan: "visual_scan U n t c wrap row column i (indexed i (g # gs)) =
        (if row' = t \<and> c < column' + w \<or> t < row' then i
         else visual_scan U n t c wrap row' (column' + w) (i + length g) (indexed (i + length g) gs))"
      using False by (simp add: Let_def w_def wraps_def row'_def column'_def)
    show ?thesis
    proof (cases "at_or_after t c (row', column', w)")
      case True
      then show ?thesis unfolding scan cell by (auto simp: at_or_after_def w_def)
    next
      case False
      then have le: "row' \<le> t" and miss: "\<not> (row' = t \<and> c < column' + w \<or> t < row')"
        by (auto simp: at_or_after_def)
      have "visual_scan U n t c wrap row column i (indexed i (g # gs)) =
          visual_scan U n t c wrap row' (column' + w) (i + length g) (indexed (i + length g) gs)"
        unfolding scan by (rule if_not_P [OF miss])
      also have "\<dots> = i + length g + length (concat (take (length (takeWhile
          (\<lambda>cell. \<not> at_or_after t c cell) (layout U wrap row' (column' + w) gs))) gs))"
        by (rule Cons.IH [OF le]) (use Cons.prems(2) in simp)
      finally show ?thesis unfolding cell using False by simp
    qed
  qed
qed simp

lemma click_stands:
  assumes "string_ok b" "string_ok a"
  shows "stands_for (Some (set_cursor_by_visual_position U r c w (editor_at b a k)))
    (z_step U (Click r c w) (zip_col b a k))"
proof -
  let ?gs = "u_graphemes U (b @ a)"
  let ?n = "length (takeWhile (\<lambda>cell. \<not> at_or_after r c cell) (layout U (max 1 w) 0 0 ?gs))"
  have ok: "string_ok (b @ a)" using assms by (simp add: string_ok_append)
  have gs: "?gs = take ?n ?gs @ drop ?n ?gs" by simp
  note parts = graphemes.parts_ok [OF ok gs]
  have "visual_scan U (length (b @ a)) r c (max 1 w) 0 0 0 (indexed 0 ?gs) = length (concat (take ?n ?gs))"
    using visual_scan_eq [of 0 r "length (b @ a)" 0 ?gs c "max 1 w" 0] graphemes.concat_segs [of "b @ a"]
    by (simp del: length_concat)
  then have "set_cursor_by_visual_position U r c w (editor_at b a k) =
      editor_at (concat (take ?n ?gs)) (concat (drop ?n ?gs)) None"
    using parts(1) by (simp add: set_cursor_by_visual_position_def)
  then have "Some (set_cursor_by_visual_position U r c w (editor_at b a k)) =
      Some (editor_at (concat (take ?n ?gs)) (concat (drop ?n ?gs)) None)" by (simp only:)
  then show ?thesis
    by (rule stands_for_at [OF _ parts(2,3)]) (simp add: z_click_def zip_at_def Let_def)
qed

lemma edit_step_stands:
  assumes "string_ok b" "string_ok a" "string_ok (edit_text c)"
  shows "stands_for (edit_step U c (editor_at b a k)) (z_step U c (zip_col b a k))"
proof (cases c)
  case (Set_text t)
  with assms(3) show ?thesis
    by (intro stands_for_at [of _ t "[]" None]) (simp_all add: ed_set_def zip_at_def)
next
  case Clear
  show ?thesis by (intro stands_for_at [of _ "[]" "[]" None]) (simp_all add: Clear ed_clear_def zip_at_def)
next
  case Start
  show ?thesis using assms
    by (intro stands_for_at [of _ "[]" "b @ a" None]) (simp_all add: Start move_start_def zip_at_def string_ok_append)
next
  case End
  show ?thesis using assms
    by (intro stands_for_at [of _ "b @ a" "[]" None]) (simp_all add: End move_end_def zip_at_def string_ok_append)
next
  case (Vertical d)
  then show ?thesis using assms up_stands down_stands by (cases "d < 0") simp_all
qed (use assms left_stands right_stands backspace_stands delete_stands line_start_stands line_end_stands
  delete_line_stands delete_word_stands insert_stands click_stands in simp_all)

end

end
