(* ===== verification/Editor_Properties.thy ===== *)
theory Editor_Properties
  imports Editor_Logic
begin

text \<open>
  The properties of the line editor: a session never panics and is the session of the abstract editor,
  and no input puts a control character into the text or makes it longer than the limit.
\<close>

section \<open>Sessions\<close>

lemma edit_step_refines:
  assumes "editor_unicode U" "editor_ok e" "string_ok (edit_text c)"
  obtains e' where "edit_step U c e = Some e'" "editor_ok e'" "zipper_of e' = z_step U c (zipper_of e)"
proof -
  obtain b a k where e: "e = editor_at b a k" "string_ok b" "string_ok a"
    using editor_cases [OF assms(2)] by metis
  then have "zipper_of e = zip_col b a k" by (simp add: zipper_of_def)
  with editor_unicode.edit_step_stands [OF assms(1) e(2,3) assms(3), of k] e(1) that
  show thesis unfolding stands_for_def by metis
qed

lemma editor_new_ok [simp]: "editor_ok editor_new"
  and zipper_of_new [simp]: "zipper_of editor_new = zip_at [] []"
  by (simp_all add: editor_ok_def editor_new_def zipper_of_def zip_at_def)

lemma edit_all_refines:
  assumes "editor_unicode U"
  shows "editor_ok e \<Longrightarrow> \<forall>c \<in> set cs. string_ok (edit_text c) \<Longrightarrow>
    \<exists>e'. edit_all U cs e = Some e' \<and> editor_ok e' \<and> zipper_of e' = fold (z_step U) cs (zipper_of e)"
proof (induction cs arbitrary: e)
  case (Cons c cs)
  then obtain e' where "edit_step U c e = Some e'" "editor_ok e'" "zipper_of e' = z_step U c (zipper_of e)"
    using edit_step_refines [OF assms] by (metis list.set_intros(1))
  with Cons.IH [of e'] Cons.prems show ?case by simp
qed simp

text \<open>A \<open>unicode\<close> with every character its own grapheme and word, one column wide.\<close>

definition char_unicode :: unicode where
  "char_unicode = \<lparr>u_graphemes = utf8_chars, u_words = utf8_chars, u_width = (\<lambda>s. length (utf8_chars s))\<rparr>"

interpretation char_unicode: editor_unicode char_unicode
  by unfold_locales (simp_all add: char_unicode_def utf8_chars_nonempty utf8_chars_ok)

text \<open>
  C33. A session of edits on a new editor never panics: every slice and edit of the text is on a character
  boundary, whatever graphemes and words are. The cursor ends on a character boundary of a valid text,
  and the text before and after it is what the abstract editor, which moves whole segments between two
  strings and knows no offsets, gives for the same session: motions by grapheme, line and display
  column, pointer positions, deletions by grapheme, word and line, and bounded insertion.
\<close>

theorem editor_session:
  assumes "editor_unicode U" and "\<forall>c \<in> set cs. string_ok (edit_text c)"
  shows "\<exists>e. edit_all U cs editor_new = Some e
    \<and> string_ok (ed_text e) \<and> is_char_boundary (ed_text e) (ed_cursor e)
    \<and> \<lparr>z_before = take (ed_cursor e) (ed_text e), z_after = drop (ed_cursor e) (ed_text e),
        z_column = ed_preferred_column e\<rparr> = fold (z_step U) cs (zip_at [] [])"
  using edit_all_refines [OF assms(1) editor_new_ok assms(2)]
  unfolding zipper_of_new unfolding editor_ok_def zipper_of_def by blast

lemma editor_session_witness:
  "\<exists>e. edit_all char_unicode [Insert ''ab'' 8, Left, Backspace] editor_new = Some e
    \<and> string_ok (ed_text e) \<and> is_char_boundary (ed_text e) (ed_cursor e)
    \<and> \<lparr>z_before = take (ed_cursor e) (ed_text e), z_after = drop (ed_cursor e) (ed_text e),
        z_column = ed_preferred_column e\<rparr> =
      fold (z_step char_unicode) [Insert ''ab'' 8, Left, Backspace] (zip_at [] [])"
  by (rule editor_session [OF char_unicode.editor_unicode_axioms]) (simp add: string_ok_ascii)

section \<open>What a text can hold\<close>

definition clean_char :: "string \<Rightarrow> bool" where
  "clean_char ch \<longleftrightarrow> ch = [LF] \<or> \<not> char_is_control ch"

definition clean_text :: "string \<Rightarrow> bool" where
  "clean_text s \<longleftrightarrow> (\<forall>ch \<in> set (utf8_chars s). clean_char ch)"

lemma clean_append: "string_ok b \<Longrightarrow> clean_text (a @ b) \<longleftrightarrow> clean_text a \<and> clean_text b"
  by (auto simp: clean_text_def utf8_chars_append string_ok_starts)

lemma clean_concat:
  "(\<And>g. g \<in> set gs \<Longrightarrow> string_ok g) \<Longrightarrow> clean_text (concat gs) \<longleftrightarrow> (\<forall>g \<in> set gs. clean_text g)"
  by (induction gs) (simp_all add: clean_append string_ok_concat, simp add: clean_text_def)

lemma utf8_chars_single: "ch \<in> set (utf8_chars s) \<Longrightarrow> utf8_chars ch = [ch]"
proof (induction s rule: utf8_chars.induct)
  case (2 c cs)
  have "takeWhile utf8_cont (takeWhile utf8_cont cs) = takeWhile utf8_cont cs"
    "dropWhile utf8_cont (takeWhile utf8_cont cs) = []" by (induction cs) auto
  with 2 show ?case by auto
qed simp

lemma clean_normalize_char:
  assumes "utf8_chars ch = [ch]"
  shows "clean_text (normalize_char ch)"
proof -
  have "clean_text [LF]" "clean_text ''    ''" "clean_text replacement_character"
    by (simp_all add: clean_text_def clean_char_def char_is_control_def utf8_cont_def replacement_character_def)
  with assms show ?thesis by (simp add: normalize_char_def clean_text_def clean_char_def)
qed

lemma clean_normalized: "string_ok v \<Longrightarrow> clean_text (normalize_input v)"
proof -
  assume v: "string_ok v"
  let ?chs = "utf8_chars (replace_cr (replace_crlf v))"
  have "string_ok (normalize_char ch)" if "ch \<in> set ?chs" for ch
    using utf8_chars_ok [OF replace_cr_ok [OF replace_crlf_ok [OF v]] that] by (rule normalize_char_ok)
  moreover have "clean_text (normalize_char ch)" if "ch \<in> set ?chs" for ch
    using utf8_chars_single [OF that] by (rule clean_normalize_char)
  ultimately show ?thesis unfolding normalize_input_def by (subst clean_concat) auto
qed

lemma fitting_length: "length (fitting n gs) \<le> n"
  by (induction n gs rule: fitting.induct) auto

text \<open>The edits of a caller that sets clean texts and limits the length to \<open>m\<close>.\<close>

fun edit_within :: "nat \<Rightarrow> edit \<Rightarrow> bool" where
  "edit_within m (Set_text t) = (string_ok t \<and> clean_text t \<and> length t \<le> m)"
| "edit_within m (Insert v n) = (string_ok v \<and> n \<le> m)"
| "edit_within m _ = True"

lemma edit_within_text: "edit_within m c \<Longrightarrow> string_ok (edit_text c)"
  by (cases c) simp_all

definition text_within :: "nat \<Rightarrow> string \<Rightarrow> bool" where
  "text_within m s \<longleftrightarrow> clean_text s \<and> length s \<le> m"

lemma text_within_cut:
  assumes "text_within m (x @ y @ z)" "string_ok y" "string_ok z"
  shows "text_within m (x @ z)"
  using assms by (simp add: text_within_def clean_append string_ok_append)

fun is_motion :: "edit \<Rightarrow> bool" where
  "is_motion c = (c \<in> {Left, Right, Start, End, Line_start, Line_end} \<or> (\<exists>d. c = Vertical d)
    \<or> (\<exists>r k w. c = Click r k w))"

lemma motion_text: "is_motion c \<Longrightarrow> edit_step U c e = Some e' \<Longrightarrow> ed_text e' = ed_text e"
  by (cases c) (auto simp: move_left_def move_right_def move_start_def move_end_def move_line_start_def
    move_line_end_def move_vertical_def set_cursor_by_visual_position_def
    split: bind_splits if_splits)

context editor_unicode
begin

lemma insert_within:
  assumes "text_within m (b @ a)" "string_ok b" "string_ok a" "string_ok v" "n \<le> m"
    and z: "z = z_insert U v n (zip_col b a k)"
  shows "text_within m (z_before z @ z_after z)"
proof (cases "v = [] \<or> n \<le> length (b @ a)")
  case True
  then show ?thesis using assms by (auto simp: z_insert_def)
next
  case False
  let ?n = "normalize_input v" and ?room = "n - length (b @ a)"
  have clean: "clean_text ?n" "string_ok ?n"
    by (rule clean_normalized [OF assms(4)], rule normalize_input_ok [OF assms(4)])
  obtain xs ys where xs: "u_graphemes U ?n = xs @ ys" "fitting ?room (u_graphemes U ?n) = concat xs"
    using fitting_prefix by blast
  have fits: "clean_text (concat xs)" "string_ok (concat xs)" "length (concat xs) \<le> ?room"
    using graphemes.parts_ok [OF clean(2) xs(1)] clean(1) fitting_length [of ?room "u_graphemes U ?n"] xs(2)
    by (metis clean_append) (use graphemes.parts_ok [OF clean(2) xs(1)] in simp, metis fitting_length xs(2))
  define acc where "acc = (if length ?n \<le> ?room then ?n else concat xs)"
  have "clean_text acc" "string_ok acc" "length acc \<le> ?room" using clean fits by (simp_all add: acc_def)
  moreover have "z = zip_at (b @ acc) a" using False xs(2) by (simp add: z z_insert_def acc_def Let_def)
  ultimately show ?thesis
    using False assms(1-5)
    by (auto simp: zip_at_def text_within_def clean_append string_ok_append)
qed

lemma edit_step_within:
  assumes "editor_ok e" "text_within m (ed_text e)" "edit_within m c" "edit_step U c e = Some e'"
  shows "text_within m (ed_text e')"
proof -
  obtain b a k where e: "e = editor_at b a k" "string_ok b" "string_ok a"
    using editor_cases [OF assms(1)] by metis
  have within: "text_within m (b @ a)" using assms(2) e(1) by simp
  let ?z = "z_step U c (zip_col b a k)"
  have "zipper_of e' = ?z"
    using edit_step_stands [OF e(2,3) edit_within_text [OF assms(3)], of k] assms(4) e(1)
    by (simp add: stands_for_def)
  then have whole: "ed_text e' = z_before ?z @ z_after ?z"
    by (metis append_take_drop_id zipper.select_convs(1) zipper.select_convs(2) zipper_of_def)
  show ?thesis
  proof (cases c)
    case (Set_text t)
    with whole assms(3) show ?thesis by (simp add: zip_at_def text_within_def)
  next
    case Clear
    with whole show ?thesis by (simp add: zip_at_def text_within_def clean_text_def)
  next
    case (Insert v n)
    with whole assms(3) insert_within [OF within e(2,3) _ _ refl, of v n k] show ?thesis by simp
  next
    case Backspace
    show ?thesis
    proof (cases "b = []")
      case False
      then obtain g gs where "u_graphemes U b = gs @ [g]" "b = concat gs @ g" "string_ok g"
        using graphemes.rest_last e(2) by metis
      with whole Backspace within e(3) text_within_cut [of m "concat gs" g a] show ?thesis
        by (simp add: zip_at_def)
    qed (use whole Backspace within in \<open>simp add: zip_at_def\<close>)
  next
    case Delete
    show ?thesis
    proof (cases "a = []")
      case False
      then obtain g gs where "u_graphemes U a = g # gs" "a = g @ concat gs" "string_ok g" "string_ok (concat gs)"
        using graphemes.first_rest e(3) by metis
      with whole Delete within text_within_cut [of m b g "concat gs"] show ?thesis
        by (simp add: zip_at_def)
    qed (use whole Delete within in \<open>simp add: zip_at_def\<close>)
  next
    case Delete_word
    obtain kept cut where kept:
        "kept = concat (rev (tl (dropWhile (\<lambda>p. \<not> has_word p) (rev (u_words U (trim_end b))))))"
        "b = kept @ cut" "string_ok cut"
      using kept_words [OF e(2)] by metis
    have "text_within m (kept @ a)"
      using text_within_cut [of m kept cut a] within e(3) kept(2,3) by (metis append_assoc)
    with whole Delete_word within show ?thesis
      by (cases "b = []") (simp_all add: z_delete_word_def zip_at_def flip: kept(1))
  next
    case Delete_line
    have "text_within m (lines_above b @ line_before b @ a)"
      using within by (metis append_assoc lines_above_before)
    then have "text_within m (lines_above b @ a)"
      by (rule text_within_cut [OF _ line_before_ok(2) [OF e(2)] e(3)])
    with whole Delete_line show ?thesis by (simp add: zip_at_def)
  qed (use motion_text [OF _ assms(4)] assms(2) in simp_all)
qed

lemma edit_all_within:
  "editor_ok e \<Longrightarrow> text_within m (ed_text e) \<Longrightarrow> \<forall>c \<in> set cs. edit_within m c \<Longrightarrow>
   edit_all U cs e = Some e' \<Longrightarrow> text_within m (ed_text e')"
proof (induction cs arbitrary: e)
  case (Cons c cs)
  then obtain e1 where e1: "edit_step U c e = Some e1" "editor_ok e1"
    using edit_step_refines [OF editor_unicode_axioms] edit_within_text by (metis list.set_intros(1))
  moreover have "text_within m (ed_text e1)" using edit_step_within [OF _ _ _ e1(1)] Cons.prems by simp
  ultimately show ?case using Cons.IH [of e1] Cons.prems by simp
qed simp

end

text \<open>
  Whatever is typed or pasted, the text stays within the limit and is clean: its only control
  character is the line feed, so no terminal control sequence can enter it. The callers set clean texts
  of at most \<open>m\<close> bytes and pass limits of at most \<open>m\<close>; insertions may be any string.
\<close>

theorem editor_text_safe:
  assumes "editor_unicode U" and "\<forall>c \<in> set cs. edit_within m c"
    and "edit_all U cs editor_new = Some e"
  shows "length (ed_text e) \<le> m
    \<and> (\<forall>ch \<in> set (utf8_chars (ed_text e)). ch = [LF] \<or> \<not> char_is_control ch)"
proof -
  have "text_within m (ed_text editor_new)" by (simp add: text_within_def clean_text_def editor_new_def)
  from editor_unicode.edit_all_within [OF assms(1) editor_new_ok this assms(2,3)]
  show ?thesis by (simp add: text_within_def clean_text_def clean_char_def)
qed

lemma editor_text_safe_witness:
  "length (ed_text \<lparr>ed_text = [CHR 0xEF, CHR 0xBF, CHR 0xBD, CHR ''['', LF], ed_cursor = 5,
      ed_preferred_column = None\<rparr>) \<le> 8
    \<and> filter (\<lambda>ch. ch \<noteq> [LF] \<and> char_is_control ch)
        (utf8_chars (ed_text \<lparr>ed_text = [CHR 0xEF, CHR 0xBF, CHR 0xBD, CHR ''['', LF],
        ed_cursor = 5, ed_preferred_column = None\<rparr>)) = []"
proof -
  let ?e = "\<lparr>ed_text = [CHR 0xEF, CHR 0xBF, CHR 0xBD, CHR ''['', LF], ed_cursor = 5, ed_preferred_column = None\<rparr>"
  have "length (ed_text ?e) \<le> 8 \<and> (\<forall>ch \<in> set (utf8_chars (ed_text ?e)). ch = [LF] \<or> \<not> char_is_control ch)"
    by (rule editor_text_safe [OF char_unicode.editor_unicode_axioms, where cs = "[Insert [CHR 0x1B, CHR ''['', CR] 8]"])
       (simp_all add: string_ok_ascii ed_insert_def normalize_input_def replace_cr_def normalize_char_def
          char_is_control_def utf8_cont_def replacement_character_def insert_str_def editor_new_def)
  then show ?thesis unfolding filter_empty_conv by blast
qed

end
