(* ===== verification/App_Types.thy ===== *)
theory App_Types
  imports Local_Store Editor Pairing
begin

text \<open>
  The types and the pure functions of the client application, \<open>crates/client/src/app.rs\<close>: the payload
  that travels inside an encrypted envelope, the small state types of the interface, and the checks
  that the handlers make on bundles, payloads and notifications.

  A handler fails with \<open>anyhow\<close> errors. Those of the store, the crypto crate and the network are
  \<open>failure\<close>s; each \<open>bail!\<close> or \<open>anyhow!\<close> of \<open>app.rs\<close> itself is a constructor of \<open>app_error\<close>, in place of its
  Chinese text, which only ever reaches the status line.
\<close>

section \<open>Payloads\<close>

record WirePayload =
  wp_version :: u8
  wp_kind :: string
  wp_message_id :: string
  wp_sender_username :: string
  wp_sender_account_id :: string
  wp_peer_account_id :: string
  wp_peer_username :: string
  wp_sent_at_ms :: i64
  wp_text :: string
  wp_related_message_id :: "string option"
  wp_related_message_ids :: "string list"

record BootstrapTransfer =
  bt_master_secret :: bytes
  bt_contacts :: "TransferContact list"

type_synonym HistoryTransfer = "ChatMessage list"

section \<open>Errors\<close>

datatype app_error =
    Inner failure
  | MissingPairingSecret
  | InvalidPairingKey
  | RequestWithoutDevice
  | InvalidNotificationData
  | ChannelNotEstablished
  | RequestAccountMismatch
  | ContactNotListed
  | WrongLookupResponse
  | NoContactSelected
  | RequestNotAccepted
  | TextTooLong
  | ContactNotVerified
  | OwnMasterMismatch
  | NoRecipientDevice
  | WrongPrekeyResponse
  | PrekeyWithoutDevice
  | PrekeysExhausted
  | PrekeyDeviceChanged
  | InvalidDeviceCurveKey
  | InvalidPrekey
  | PendingCannotApprove
  | PairingInProgress
  | NoUniqueRequest
  | NoPairing
  | ConfirmationFailed
  | MigrationBeforeConfirmation
  | MasterMismatch
  | NoMasterSecret
  | NotBothConfirmed
  | NotConnected
  | OwnDevicesMismatch
  | InvalidMasterKeyLength
  | EnvelopeMissing
  | SenderDeviceNotCertified
  | PayloadRejected
  | InvalidDeletionEvent
  | InvalidUnverifiedText
  | ReceiptWithoutId
  | InvalidReceiptBatch
  | InvalidRequestMetadata
  | RequestPeerMismatch
  | ResponseWithoutId
  | InvalidResponseMetadata
  | ResponsePeerMismatch
  | ResponseActorMismatch
  | UnknownDecision
  | UnknownKind
  | InvalidText
  | DeletionRecordMismatch
  | EmptyHistoryPage
  | DevicesUnsupported
  | UnknownTheme
  | UnknownSidebarAction
  | UnknownCommand
  | NothingFound
  | TerminalFailed
  | EditorPanic

section \<open>Small state types\<close>

datatype PairingRole = Approver | Pending

datatype FocusPane = Conversations | Messages | Composer

fun focus_next :: "FocusPane \<Rightarrow> FocusPane" where
  "focus_next Conversations = Messages"
| "focus_next Messages = Composer"
| "focus_next Composer = Conversations"

fun focus_previous :: "FocusPane \<Rightarrow> FocusPane" where
  "focus_previous Conversations = Composer"
| "focus_previous Messages = Conversations"
| "focus_previous Composer = Messages"

datatype SidebarTab = ConversationsTab | NotificationsTab

datatype UiTheme = DefaultTheme | TerminalTheme

fun theme_name :: "UiTheme \<Rightarrow> string" where
  "theme_name DefaultTheme = ''default''"
| "theme_name TerminalTheme = ''terminal''"

text \<open>The Chinese aliases U+9ED8 U+8BA4 and U+7EC8 U+7AEF, as UTF-8 bytes.\<close>

definition theme_parse :: "string \<Rightarrow> UiTheme option" where
  "theme_parse v =
     (let name = to_ascii_lowercase (trim v) in
      if name \<in> {''default'', ''classic'', utf8_text [0xE9, 0xBB, 0x98, 0xE8, 0xAE, 0xA4]} then Some DefaultTheme
      else if name \<in> {''terminal'', ''shell'', utf8_text [0xE7, 0xBB, 0x88, 0xE7, 0xAB, 0xAF]} then Some TerminalTheme
      else None)"

record CompletionState =
  cs_candidates :: "string list"
  cs_selected :: nat

definition completion_default :: CompletionState where
  "completion_default = \<lparr>cs_candidates = [], cs_selected = 0\<rparr>"

definition completion_is_open :: "CompletionState \<Rightarrow> bool" where
  "completion_is_open c \<longleftrightarrow> cs_candidates c \<noteq> []"

definition completion_cycle :: "int \<Rightarrow> CompletionState \<Rightarrow> CompletionState" where
  "completion_cycle direction c =
     (if cs_candidates c = [] then c
      else c\<lparr>cs_selected := nat ((int (cs_selected c) + direction) mod int (length (cs_candidates c)))\<rparr>)"

text \<open>\<open>Vec::get\<close>.\<close>

definition list_get :: "'a list \<Rightarrow> nat \<Rightarrow> 'a option" where
  "list_get xs i = (if i < length xs then Some (xs ! i) else None)"

definition completion_selected :: "CompletionState \<Rightarrow> string option" where
  "completion_selected c = list_get (cs_candidates c) (cs_selected c)"

text \<open>\<open>Iterator::position\<close> and \<open>rposition\<close>.\<close>

fun position :: "('a \<Rightarrow> bool) \<Rightarrow> 'a list \<Rightarrow> nat option" where
  "position p [] = None"
| "position p (x # xs) = (if p x then Some 0 else map_option Suc (position p xs))"

definition rposition :: "('a \<Rightarrow> bool) \<Rightarrow> 'a list \<Rightarrow> nat option" where
  "rposition p xs = map_option (\<lambda>i. length xs - Suc i) (position p (rev xs))"

datatype DeleteTarget =
    DeleteConversation string string string   \<comment> \<open>account id, user name, conversation id\<close>
  | DeleteNotice string string                \<comment> \<open>notification id, request id\<close>
  | DeleteDevice string string                \<comment> \<open>device id, device name\<close>

record EmojiEntry =
  em_glyph :: string
  em_name :: string
  em_keywords :: string

record EmojiPickerState =
  ep_visible :: bool
  ep_query :: string
  ep_selected :: nat
  ep_scroll :: nat
  ep_columns :: nat
  ep_page_size :: nat

datatype DragTarget = DragConversations | DragMessages

record DeleteConfirmation =
  dc_target :: DeleteTarget
  dc_confirm_selected :: bool

record PairingSession =
  pg_pairing_id :: string
  pg_peer_device_id :: string
  pg_pending_device :: DeviceBundle
  pg_channel :: PairingChannel
  pg_role :: PairingRole
  pg_our_confirmed :: bool
  pg_peer_confirmed :: bool

datatype BackgroundRequest =
    BgSync
  | BgDeviceList
  | BgDeviceRevoke string
  | BgReconcilePairing
  | BgOutbox string

definition default_device_bundle :: DeviceBundle where
  "default_device_bundle = \<lparr>db_device_id = [], db_device_name = [], db_auth_signing_key = [],
     db_olm_ed25519_key = [], db_olm_curve25519_key = [], db_certificate_signature = [], db_revoked = False\<rparr>"

section \<open>Checks\<close>

fun first_error :: "('a \<Rightarrow> unit result) \<Rightarrow> 'a list \<Rightarrow> unit result" where
  "first_error f [] = ok ()"
| "first_error f (x # xs) = attempt (f x) (\<lambda>_. first_error f xs)"

definition active_devices :: "UserBundle_msg \<Rightarrow> DeviceBundle list" where
  "active_devices b = filter (\<lambda>d. \<not> db_revoked d) (ub_devices b)"

definition validate_bundle :: "crypto \<Rightarrow> UserBundle_msg \<Rightarrow> app_error + unit" where
  "validate_bundle C bundle =
     (if length (ub_account_master_key bundle) \<noteq> 32 then Inl InvalidMasterKeyLength
      else case first_error (verify_device_bundle C (ub_account_master_key bundle) (ub_account_id bundle))
                 (active_devices bundle) of
          Inl e \<Rightarrow> Inl (Inner e)
        | Inr u \<Rightarrow> Inr u)"

definition notification_requires_action :: "NotificationState \<Rightarrow> bool" where
  "notification_requires_action st \<longleftrightarrow> st \<in> {StatePending, InProgress}"

definition chat_decision_state :: "string \<Rightarrow> app_error + NotificationState" where
  "chat_decision_state decision =
     (if decision = ''accepted'' then Inr Accepted
      else if decision = ''rejected'' then Inr StateRejected
      else Inl UnknownDecision)"

definition chat_response_actor_matches :: "bool \<Rightarrow> string \<Rightarrow> string \<Rightarrow> string \<Rightarrow> bool" where
  "chat_response_actor_matches sender_is_self notification_actor payload_peer sender =
     (if sender_is_self then notification_actor = payload_peer else notification_actor = sender)"

definition should_offer_contact_verification ::
  "NotificationKind \<Rightarrow> NotificationState \<Rightarrow> bool \<Rightarrow> bool \<Rightarrow> bool" where
  "should_offer_contact_verification kind st contact_verified identity_changed \<longleftrightarrow>
     kind = KindChatResponse \<and> st = Accepted \<and> (\<not> contact_verified \<or> identity_changed)"

definition should_send_read_receipt :: "bool \<Rightarrow> bool \<Rightarrow> bool \<Rightarrow> bool" where
  "should_send_read_receipt terminal_focused inbound selected_conversation \<longleftrightarrow>
     terminal_focused \<and> inbound \<and> selected_conversation"

definition wire_metadata_matches :: "WirePayload \<Rightarrow> string \<Rightarrow> string \<Rightarrow> string \<Rightarrow> i64 \<Rightarrow> bool" where
  "wire_metadata_matches p stored_sender_account stored_sender_username envelope_logical_id envelope_sent_at_ms =
     (let timestamp_matches = wp_sent_at_ms p = envelope_sent_at_ms
            \<or> (wp_kind p \<in> {''read'', ''read_batch''} \<and> \<bar>wp_sent_at_ms p - envelope_sent_at_ms\<bar> \<le> 60000)
      in 1 \<le> wp_version p \<and> wp_version p \<le> 3
         \<and> wp_message_id p = envelope_logical_id
         \<and> wp_sender_account_id p = stored_sender_account
         \<and> wp_sender_username p = stored_sender_username
         \<and> timestamp_matches)"

text \<open>\<open>sender_bundle\<close> is the encoded bundle of the peer, \<open>ident\<close> a fresh UUID.\<close>

definition synthetic_chat_request_notification ::
  "string \<Rightarrow> bytes \<Rightarrow> string \<Rightarrow> UserBundle_msg \<Rightarrow> string \<Rightarrow> bool \<Rightarrow> i64 \<Rightarrow> Notification" where
  "synthetic_chat_request_notification ident encoded_peer request_id peer sender_device_id outgoing created_at_ms =
     \<lparr>nt_id = ident, nt_kind = KindChatRequest, nt_request_id = request_id,
      nt_actor_account_id = ub_account_id peer, nt_actor_username = ub_username peer,
      nt_actor_device_id = sender_device_id, nt_state = StatePending, nt_read = False,
      nt_created_at_ms = created_at_ms, nt_updated_at_ms = created_at_ms,
      nt_data = ChatRequestNotice \<lparr>rd_outgoing = outgoing, rd_request_id = request_id,
        rd_sender_account_id = ub_account_id peer, rd_sender_username = ub_username peer,
        rd_sender_device_id = sender_device_id, rd_sender_bundle = encoded_peer\<rparr>\<rparr>"

text \<open>A character that is not a line feed and is a control character becomes U+FFFD.\<close>

definition sanitize_char :: "string \<Rightarrow> string" where
  "sanitize_char ch = (if ch = [LF] \<or> \<not> char_is_control ch then ch else replacement_character)"

definition sanitize_terminal_text :: "string \<Rightarrow> string" where
  "sanitize_terminal_text txt = concat (map sanitize_char (utf8_chars txt))"

text \<open>\<open>message_prompt\<close>; the own name in the default theme is U+6211.\<close>

fun message_prompt :: "UiTheme \<Rightarrow> string \<Rightarrow> string \<Rightarrow> bool \<Rightarrow> string" where
  "message_prompt DefaultTheme username peer_name inbound =
     (if inbound then peer_name else utf8_text [0xE6, 0x88, 0x91]) @ '': ''"
| "message_prompt TerminalTheme username peer_name inbound =
     (if inbound then peer_name else username) @ ''@'' @ (if inbound then ''remote'' else ''local'') @ '':~$ ''"

fun message_status_suffix :: "UiTheme \<Rightarrow> MessageStatus \<Rightarrow> string" where
  "message_status_suffix DefaultTheme status = ''  ['' @ status_label status @ '']''"
| "message_status_suffix TerminalTheme status = ''  # '' @ status_label status"

end
