(* ===== verification/App_View.thy ===== *)
theory App_View
  imports App_Types
begin

text \<open>
  Measuring text: where a cursor is drawn in a text wrapped at a width, how many rows a text takes, and
  how a text is cut or padded to a width (\<open>crates/client/src/app.rs\<close>). A coordinate of the terminal is a
  \<open>u16\<close>; row and column are counted in \<open>usize\<close> and capped.
\<close>

definition u16_saturating_sub :: "u16 \<Rightarrow> u16 \<Rightarrow> u16" where
  "u16_saturating_sub a b = (if b \<le> a then a - b else 0)"

fun cursor_scan :: "unicode \<Rightarrow> nat \<Rightarrow> nat \<Rightarrow> nat \<Rightarrow> string list \<Rightarrow> nat \<times> nat" where
  "cursor_scan U width row column [] = (row, column)"
| "cursor_scan U width row column (g # gs) =
     (if g = [LF] then cursor_scan U width (row + 1) 0 gs
      else let w = max 1 (u_width U g) in
        if column = width \<or> (0 < column \<and> width < column + w)
        then cursor_scan U width (row + 1) w gs
        else cursor_scan U width row (column + w) gs)"

definition cap_u16 :: "nat \<Rightarrow> u16" where
  "cap_u16 n = of_nat (min n 65535)"

text \<open>The position after the graphemes of a text.\<close>

definition end_position :: "unicode \<Rightarrow> string \<Rightarrow> u16 \<Rightarrow> u16 \<times> u16" where
  "end_position U txt width =
     (let w = unat (max 1 width);
          (row, column) = cursor_scan U w 0 0 (u_graphemes U txt);
          (row', column') = (if column = w then (row + 1, 0) else (row, column))
      in (cap_u16 row', cap_u16 column'))"

definition editor_cursor_position :: "unicode \<Rightarrow> string \<Rightarrow> nat \<Rightarrow> u16 \<Rightarrow> (u16 \<times> u16) option" where
  "editor_cursor_position U txt cursor width =
     map_option (\<lambda>before. end_position U before width) (slice_to txt cursor)"

definition editor_visual_line_count :: "unicode \<Rightarrow> string \<Rightarrow> u16 \<Rightarrow> nat" where
  "editor_visual_line_count U txt width = unat (fst (end_position U txt width)) + 1"

lemma editor_visual_line_count_slice:
  "map_option (\<lambda>p. unat (fst p) + 1) (editor_cursor_position U txt (length txt) width) =
   Some (editor_visual_line_count U txt width)"
  by (simp add: editor_cursor_position_def editor_visual_line_count_def slice_to_def)

fun fit_scan :: "unicode \<Rightarrow> nat \<Rightarrow> nat \<Rightarrow> string list \<Rightarrow> string \<times> nat" where
  "fit_scan U width used [] = ([], used)"
| "fit_scan U width used (g # gs) =
     (let w = max 1 (u_width U g) in
      if width < used + w then ([], used)
      else let (out, total) = fit_scan U width (used + w) gs in (g @ out, total))"

definition fit_to_display_width :: "unicode \<Rightarrow> string \<Rightarrow> nat \<Rightarrow> string" where
  "fit_to_display_width U txt width =
     (let (out, used) = fit_scan U width 0 (u_graphemes U txt)
      in out @ replicate (width - used) (CHR '' ''))"

text \<open>The rows of a message as the list shows it; \<open>frame_width\<close> is that of the pane with its border.\<close>

definition message_lines :: "unicode \<Rightarrow> UiTheme \<Rightarrow> u16 \<Rightarrow> string \<Rightarrow> string \<Rightarrow> ChatMessage \<Rightarrow> nat" where
  "message_lines U theme frame_width username peer_name m =
     editor_visual_line_count U
       (message_prompt theme username peer_name (cm_inbound m)
        @ sanitize_terminal_text (cm_body m)
        @ message_status_suffix theme (cm_status m))
       (max 1 (u16_saturating_sub frame_width 2))"

end
