(* ===== verification/App_State.thy ===== *)
theory App_State
  imports App_View "HOL-Library.AList"
begin

text \<open>
  The state of the client application (struct \<open>App\<close> of \<open>crates/client/src/app.rs\<close>) and the actions its
  handlers are made of. A handler is a function from a state to a result and a state: an error keeps
  whatever the handler changed before it, as \<open>?\<close> does in a method on \<open>&mut self\<close>.

  The record leaves out the status line, which nothing reads, the channels, and the areas of the last
  drawing, which are an argument of the mouse handler. It adds two fields: \<open>ap_sent\<close>, the frames handed
  to the writer of the connection, in order, and \<open>ap_clock\<close>, which counts the interactions with the
  outside.

  The outside is an argument: \<open>outside\<close> gives, for each interaction, what the clock, the random
  generator or the server answers. Theorems hold for every \<open>outside\<close>, so for every behaviour of the
  server and of the network.
\<close>

section \<open>Parameters\<close>

record ('a, 's, 'pa, 'ps) env =
  en_packages :: "('a, 's, 'pa, 'ps) local_packages"
  en_unicode :: unicode
  en_olm_keys :: "'a \<Rightarrow> bytes \<times> bytes"
  wire_json :: "WirePayload \<Rightarrow> bytes result"
  wire_unjson :: "bytes \<Rightarrow> WirePayload result"
  bootstrap_json :: "BootstrapTransfer \<Rightarrow> bytes result"
  bootstrap_unjson :: "bytes \<Rightarrow> BootstrapTransfer result"
  history_json :: "HistoryTransfer \<Rightarrow> bytes result"
  history_unjson :: "bytes \<Rightarrow> HistoryTransfer result"
  device_encode :: "DeviceBundle \<Rightarrow> bytes"
  device_decode :: "bytes \<Rightarrow> DeviceBundle result"
  frame_to_vec :: "Frame \<Rightarrow> bytes"
  frame_decode :: "bytes \<Rightarrow> string + Frame"
  str_to_lowercase :: "string \<Rightarrow> string"
  emoji_catalog :: "EmojiEntry list"

abbreviation en_crypto :: "('a, 's, 'pa, 'ps) env \<Rightarrow> crypto" where
  "en_crypto E \<equiv> lp_crypto (en_packages E)"

abbreviation en_olm :: "('a, 's, 'pa, 'ps) env \<Rightarrow> ('a, 's, 'pa, 'ps) olm" where
  "en_olm E \<equiv> lp_olm (en_packages E)"

text \<open>
  \<open>Instant\<close>s are milliseconds. \<open>random_at\<close> gives the nonces of the authenticated encryption, \<open>secret_at\<close>
  the secret of a pairing, \<open>jitter_at\<close> the first byte of a random identifier; \<open>reply_at\<close> is what
  \<open>RpcClient::request\<close> returns.
\<close>

record outside =
  now_ms_at :: "nat \<Rightarrow> i64"
  instant_at :: "nat \<Rightarrow> int"
  uuid_at :: "nat \<Rightarrow> string"
  random_at :: "nat \<Rightarrow> nat \<Rightarrow> bytes"
  secret_at :: "nat \<Rightarrow> bytes"
  jitter_at :: "nat \<Rightarrow> u8"
  reply_at :: "nat \<Rightarrow> Frame \<Rightarrow> Frame result"
  writer_open_at :: "nat \<Rightarrow> bool"

section \<open>State\<close>

record ('a, 's) app =
  ap_store :: local_db
  ap_vault :: VaultSession
  ap_profile :: "('a, 's) RuntimeProfile"
  ap_contacts :: "Contact list"
  ap_selected :: "nat option"
  ap_messages :: "ChatMessage list"
  ap_editor :: editor_state
  ap_focus :: FocusPane
  ap_sidebar_tab :: SidebarTab
  ap_sidebar_collapsed :: bool
  ap_theme :: UiTheme
  ap_completion :: CompletionState
  ap_emoji :: EmojiPickerState
  ap_help_visible :: bool
  ap_redraw_requested :: bool
  ap_contact_scroll :: nat
  ap_notification_scroll :: nat
  ap_notifications :: "Notification list"
  ap_notification_selected :: "nat option"
  ap_message_scroll :: nat
  ap_new_messages_below :: nat
  ap_history_exhausted :: bool
  ap_persisted_draft :: string
  ap_messages_width :: u16
  ap_messages_height :: u16
  ap_layout_narrow :: bool
  ap_delete_confirmation :: "DeleteConfirmation option"
  ap_device_manager_visible :: bool
  ap_own_devices :: "OwnDeviceInfo list"
  ap_own_device_selected :: nat
  ap_dragging :: "DragTarget option"
  ap_mouse_enabled :: bool
  ap_terminal_focused :: bool
  ap_connected :: bool
  ap_quit :: bool
  ap_pairing_requests :: "PairingRequest_msg list"
  ap_pairing :: "PairingSession option"
  ap_bundle_cache :: "(string \<times> UserBundle_msg \<times> int) list"
  ap_reconnect_at :: int
  ap_reconnect_backoff :: u64
  ap_post_activation_sync :: bool
  ap_background_requests :: "(string \<times> BackgroundRequest) list"
  ap_background_deadlines :: "(string \<times> int) list"
  ap_blocked_outbox :: "string list"
  ap_outbox_retry_after :: "(string \<times> int) list"
  ap_sync_in_flight :: bool
  ap_reconnect_in_flight :: bool
  ap_sent :: "Frame list"
  ap_clock :: nat

type_synonym ('a, 's, 'x) act = "('a, 's) app \<Rightarrow> (app_error + 'x) \<times> ('a, 's) app"

section \<open>Actions\<close>

text \<open>\<open>await m f\<close> is \<open>let x = m?; f\<close>.\<close>

definition finish :: "'x \<Rightarrow> ('a, 's, 'x) act" where
  "finish x s = (Inr x, s)"

definition raise :: "app_error \<Rightarrow> ('a, 's, 'x) act" where
  "raise e s = (Inl e, s)"

definition await :: "('a, 's, 'x) act \<Rightarrow> ('x \<Rightarrow> ('a, 's, 'y) act) \<Rightarrow> ('a, 's, 'y) act" where
  "await m f s = (case m s of (Inl e, s') \<Rightarrow> (Inl e, s') | (Inr x, s') \<Rightarrow> f x s')"

text \<open>An action whose error the code inspects or drops.\<close>

definition outcome :: "('a, 's, 'x) act \<Rightarrow> ('a, 's, app_error + 'x) act" where
  "outcome m s = (case m s of (r, s') \<Rightarrow> (Inr r, s'))"

definition ignore :: "('a, 's, 'x) act \<Rightarrow> ('a, 's, unit) act" where
  "ignore m s = (Inr (), snd (m s))"

definition view :: "(('a, 's) app \<Rightarrow> 'x) \<Rightarrow> ('a, 's, 'x) act" where
  "view f s = (Inr (f s), s)"

definition update :: "(('a, 's) app \<Rightarrow> ('a, 's) app) \<Rightarrow> ('a, 's, unit) act" where
  "update f s = (Inr (), f s)"

definition require_that :: "bool \<Rightarrow> app_error \<Rightarrow> ('a, 's, unit) act" where
  "require_that b e = (if b then finish () else raise e)"

definition some_or_raise :: "app_error \<Rightarrow> 'x option \<Rightarrow> ('a, 's, 'x) act" where
  "some_or_raise e x = (case x of None \<Rightarrow> raise e | Some v \<Rightarrow> finish v)"

definition lift :: "'x result \<Rightarrow> ('a, 's, 'x) act" where
  "lift r = (case r of Inl e \<Rightarrow> raise (Inner e) | Inr x \<Rightarrow> finish x)"

definition lift_app :: "app_error + 'x \<Rightarrow> ('a, 's, 'x) act" where
  "lift_app r s = (r, s)"

fun for_each :: "'x list \<Rightarrow> ('x \<Rightarrow> ('a, 's, unit) act) \<Rightarrow> ('a, 's, unit) act" where
  "for_each [] f = finish ()"
| "for_each (x # xs) f = await (f x) (\<lambda>_. for_each xs f)"

text \<open>Reading the store, a statement that cannot fail, and one that may.\<close>

definition store_get :: "(local_db \<Rightarrow> 'x result) \<Rightarrow> ('a, 's, 'x) act" where
  "store_get f s = lift (f (ap_store s)) s"

definition store_run :: "(local_db \<Rightarrow> local_db) \<Rightarrow> ('a, 's, unit) act" where
  "store_run f s = (Inr (), s\<lparr>ap_store := f (ap_store s)\<rparr>)"

definition store_try :: "(local_db \<Rightarrow> local_db result) \<Rightarrow> ('a, 's, unit) act" where
  "store_try f s = (case f (ap_store s) of Inl e \<Rightarrow> (Inl (Inner e), s)
     | Inr d \<Rightarrow> (Inr (), s\<lparr>ap_store := d\<rparr>))"

definition store_query :: "(local_db \<Rightarrow> ('x \<times> local_db) result) \<Rightarrow> ('a, 's, 'x) act" where
  "store_query f s = (case f (ap_store s) of Inl e \<Rightarrow> (Inl (Inner e), s)
     | Inr (x, d) \<Rightarrow> (Inr x, s\<lparr>ap_store := d\<rparr>))"

section \<open>The outside\<close>

definition tick :: "('a, 's) app \<Rightarrow> ('a, 's) app" where
  "tick s = s\<lparr>ap_clock := ap_clock s + 1\<rparr>"

definition now_ms :: "outside \<Rightarrow> ('a, 's, i64) act" where
  "now_ms W s = (Inr (now_ms_at W (ap_clock s)), tick s)"

definition instant_now :: "outside \<Rightarrow> ('a, 's, int) act" where
  "instant_now W s = (Inr (instant_at W (ap_clock s)), tick s)"

definition new_uuid :: "outside \<Rightarrow> ('a, 's, string) act" where
  "new_uuid W s = (Inr (uuid_at W (ap_clock s)), tick s)"

definition random_bytes :: "outside \<Rightarrow> ('a, 's, nat \<Rightarrow> bytes) act" where
  "random_bytes W s = (Inr (random_at W (ap_clock s)), tick s)"

definition random_secret :: "outside \<Rightarrow> ('a, 's, bytes) act" where
  "random_secret W s = (Inr (secret_at W (ap_clock s)), tick s)"

definition jitter_byte :: "outside \<Rightarrow> ('a, 's, u8) act" where
  "jitter_byte W s = (Inr (jitter_at W (ap_clock s)), tick s)"

text \<open>
  \<open>RpcClient::try_send_frame\<close> and \<open>notify\<close>: the frame is handed to the writer unless its channel is
  closed or, for \<open>try_send_frame\<close>, full.
\<close>

definition send_frame :: "outside \<Rightarrow> Frame \<Rightarrow> ('a, 's, unit) act" where
  "send_frame W f s =
     (if writer_open_at W (ap_clock s) then (Inr (), (tick s)\<lparr>ap_sent := ap_sent s @ [f]\<rparr>)
      else (Inl (Inner (Msg ''connection writer stopped'')), tick s))"

definition notify :: "outside \<Rightarrow> Body \<Rightarrow> ('a, 's, unit) act" where
  "notify W b = send_frame W (mk_frame [] b)"

text \<open>
  \<open>RpcClient::request\<close>: a fresh id, the frame, and the answer to it. An answer with an error body is
  the error \<open>code: message\<close>.
\<close>

definition rpc_request :: "outside \<Rightarrow> Body \<Rightarrow> ('a, 's, Frame) act" where
  "rpc_request W b =
     await (new_uuid W) (\<lambda>i.
     await (send_frame W (mk_frame i b)) (\<lambda>_. \<lambda>s.
       (case reply_at W (ap_clock s) (mk_frame i b) of
          Inl e \<Rightarrow> (Inl (Inner e), tick s)
        | Inr response \<Rightarrow> (case frame_body response of
             Some (ErrorFrame e) \<Rightarrow> (Inl (Inner (Msg (err_code e @ '': '' @ err_message e))), tick s)
           | _ \<Rightarrow> (Inr response, tick s)))))"

section \<open>Small operations of the state\<close>

definition selected_contact :: "('a, 's) app \<Rightarrow> Contact option" where
  "selected_contact s = Option.bind (ap_selected s) (list_get (ap_contacts s))"

definition selected_notification :: "('a, 's) app \<Rightarrow> Notification option" where
  "selected_notification s = Option.bind (ap_notification_selected s) (list_get (ap_notifications s))"

definition contact_account :: "Contact \<Rightarrow> string" where
  "contact_account c = ub_account_id (ct_bundle c)"

definition own_account :: "('a, 's) app \<Rightarrow> string" where
  "own_account s = rp_account_id (ap_profile s)"

definition own_device_id :: "('a, 's) app \<Rightarrow> string" where
  "own_device_id s = id_device_id (rp_identity (ap_profile s))"

text \<open>\<open>OlmMachine::from_bytes(&self.profile.machine.to_bytes()?)?\<close>: a copy of the machine.\<close>

definition copy_machine :: "('a, 's, 'pa, 'ps) env \<Rightarrow> ('a, 's) app \<Rightarrow> ('a, 's) OlmMachine result" where
  "copy_machine E s = attempt (machine_to_bytes (en_olm E) (machine_json (en_packages E)) (rp_machine (ap_profile s)))
     (machine_from_bytes (en_olm E) (machine_unjson (en_packages E)) (machine_v1_unjson (en_packages E)))"

definition set_machine :: "('a, 's) OlmMachine \<Rightarrow> ('a, 's) app \<Rightarrow> ('a, 's) app" where
  "set_machine m s = s\<lparr>ap_profile := (ap_profile s)\<lparr>rp_machine := m\<rparr>\<rparr>"

text \<open>
  \<open>mem::replace(&mut self.profile.machine, next_machine)\<close>, a commit of the store, and the previous
  machine back when the commit fails. The commit gets the clock, random bytes and the new profile.
\<close>

definition commit_machine :: "outside \<Rightarrow> ('a, 's) OlmMachine \<Rightarrow>
    (i64 \<Rightarrow> (nat \<Rightarrow> bytes) \<Rightarrow> VaultSession \<Rightarrow> ('a, 's) RuntimeProfile \<Rightarrow> local_db \<Rightarrow> local_db result) \<Rightarrow>
    ('a, 's, unit) act" where
  "commit_machine W next_machine commit =
     await (now_ms W) (\<lambda>now. await (random_bytes W) (\<lambda>nonces. \<lambda>s.
       let s' = set_machine next_machine s in
       (case commit now nonces (ap_vault s') (ap_profile s') (ap_store s') of
          Inl e \<Rightarrow> (Inl (Inner e), s)
        | Inr d \<Rightarrow> (Inr (), s'\<lparr>ap_store := d\<rparr>))))"

section \<open>Visual rows of the message list\<close>

definition peer_name :: "('a, 's) app \<Rightarrow> string" where
  "peer_name s = (case selected_contact s of
       Some c \<Rightarrow> ub_username (ct_bundle c)
     | None \<Rightarrow> utf8_text [0xE5, 0xAF, 0xB9, 0xE6, 0x96, 0xB9])"

definition visual_lines_for_messages :: "unicode \<Rightarrow> ('a, 's) app \<Rightarrow> ChatMessage list \<Rightarrow> nat" where
  "visual_lines_for_messages U s ms = sum_list (map
     (message_lines U (ap_theme s) (ap_messages_width s) (rp_username (ap_profile s)) (peer_name s)) ms)"

definition viewport :: "('a, 's) app \<Rightarrow> nat" where
  "viewport s = unat (max 1 (u16_saturating_sub (ap_messages_height s) 2))"

definition message_scroll_maximum :: "unicode \<Rightarrow> ('a, 's) app \<Rightarrow> nat" where
  "message_scroll_maximum U s = visual_lines_for_messages U s (ap_messages s) - viewport s"

end
