(* ===== verification/App_Notify.thy ===== *)
theory App_Notify
  imports App_State
begin

text \<open>
  Notifications in the application: what is restored from them at start, how the list is refreshed and
  its selection kept, and the five ways a notification is saved (\<open>crates/client/src/app.rs\<close>).
\<close>

section \<open>Restoring the pairing state\<close>

definition resumable_pairing :: "Notification \<Rightarrow> bool" where
  "resumable_pairing n = (case nt_data n of
       PairingNotice p \<Rightarrow> pd_pending_side p \<and> nt_state n = InProgress
     | _ \<Rightarrow> False)"

definition restore_pairing_state_from_notifications ::
  "('a, 's, 'pa, 'ps) env \<Rightarrow> ('a, 's, unit) act" where
  "restore_pairing_state_from_notifications E s =
     (if \<not> rp_pending (ap_profile s) then finish () s
      else case find resumable_pairing (ap_notifications s) of
          None \<Rightarrow> finish () s
        | Some n \<Rightarrow> (case nt_data n of
            PairingNotice p \<Rightarrow>
              await (some_or_raise MissingPairingSecret (rp_pairing_secret (ap_profile s))) (\<lambda>secret.
              await (require_that (length (pd_sas_public_key p) = 32) InvalidPairingKey) (\<lambda>_.
              await (lift (establish (en_crypto E) (pairing_from_secret (en_crypto E) secret)
                       (pd_sas_public_key p) (pd_pairing_id p))) (\<lambda>channel.
              update (\<lambda>s. s\<lparr>ap_pairing := Some \<lparr>pg_pairing_id = pd_pairing_id p,
                pg_peer_device_id = nt_actor_device_id n, pg_pending_device = default_device_bundle,
                pg_channel = channel, pg_role = Pending, pg_our_confirmed = False,
                pg_peer_confirmed = False\<rparr>\<rparr>)))) s
          | _ \<Rightarrow> finish () s))"

definition restored_request :: "('a, 's, 'pa, 'ps) env \<Rightarrow> Notification \<Rightarrow> PairingRequest_msg list \<Rightarrow>
    PairingRequest_msg list" where
  "restored_request E n requests =
     (if \<not> notification_requires_action (nt_state n) then requests
      else case nt_data n of
        PairingNotice p \<Rightarrow>
          (if pd_pending_side p then requests
           else if \<exists>r \<in> set requests. pr_pairing_id r = pd_pairing_id p then requests
           else case device_decode E (pd_pending_device p) of
               Inl _ \<Rightarrow> requests
             | Inr device \<Rightarrow> requests @ [\<lparr>pr_pairing_id = pd_pairing_id p,
                 pr_pending_device_id = pd_pending_device_id p,
                 pr_pending_device_name = pd_pending_device_name p,
                 pr_sas_public_key = pd_sas_public_key p, pr_pending_device = Some device\<rparr>])
      | _ \<Rightarrow> requests)"

definition restore_pairing_requests_from_notifications ::
  "('a, 's, 'pa, 'ps) env \<Rightarrow> ('a, 's) app \<Rightarrow> ('a, 's) app" where
  "restore_pairing_requests_from_notifications E s =
     s\<lparr>ap_pairing_requests := fold (restored_request E) (ap_notifications s) (ap_pairing_requests s)\<rparr>"

section \<open>Reading the list\<close>

definition pending_notification_count :: "('a, 's) app \<Rightarrow> nat" where
  "pending_notification_count s = length (filter (\<lambda>n. notification_requires_action (nt_state n)) (ap_notifications s))"

definition has_pending_chat_request :: "('a, 's) app \<Rightarrow> string \<Rightarrow> bool" where
  "has_pending_chat_request s account_id \<longleftrightarrow> (\<exists>n \<in> set (ap_notifications s).
     nt_kind n = KindChatRequest \<and> nt_actor_account_id n = account_id \<and> nt_state n \<in> {StatePending, InProgress})"

definition refreshed_selection :: "string option \<Rightarrow> Notification list \<Rightarrow> nat option" where
  "refreshed_selection selected_request ns =
     (let kept = Option.bind selected_request (\<lambda>r. position (\<lambda>n. nt_request_id n = r) ns);
          chosen = (case kept of Some i \<Rightarrow> Some i | None \<Rightarrow> if ns \<noteq> [] then Some 0 else None)
      in (case chosen of
            Some i \<Rightarrow> if length ns \<le> i then (if ns = [] then None else Some (length ns - 1)) else Some i
          | None \<Rightarrow> None))"

definition refresh_notifications :: "('a, 's, 'pa, 'ps) env \<Rightarrow> ('a, 's, unit) act" where
  "refresh_notifications E =
     await (view (\<lambda>s. (map_option nt_request_id (selected_notification s), ap_vault s))) (\<lambda>(selected, v).
     await (store_get (notifications (en_packages E) v)) (\<lambda>ns.
     update (\<lambda>s. s\<lparr>ap_notifications := ns, ap_notification_selected := refreshed_selection selected ns\<rparr>)))"

definition find_notification :: "('a, 's, 'pa, 'ps) env \<Rightarrow> string \<Rightarrow> ('a, 's, Notification option) act" where
  "find_notification E request_id =
     await (view ap_vault) (\<lambda>v. store_get (notification_by_request_id (en_packages E) v request_id))"

section \<open>Saving\<close>

definition store_notification :: "outside \<Rightarrow> ('a, 's, 'pa, 'ps) env \<Rightarrow> Notification \<Rightarrow> ('a, 's, unit) act" where
  "store_notification W E n =
     await (view ap_vault) (\<lambda>v. await (random_bytes W) (\<lambda>nonces.
     await (store_try (save_notification (en_packages E) (nonces 0) v n)) (\<lambda>_.
     refresh_notifications E)))"

text \<open>\<open>old.map(|item| item.id).unwrap_or_else(|| Uuid::new_v4())\<close>.\<close>

definition id_of_old :: "outside \<Rightarrow> Notification option \<Rightarrow> ('a, 's, string) act" where
  "id_of_old W old = (case old of Some n \<Rightarrow> finish (nt_id n) | None \<Rightarrow> new_uuid W)"

definition old_or :: "('x \<Rightarrow> 'y) \<Rightarrow> 'y \<Rightarrow> 'x option \<Rightarrow> 'y" where
  "old_or f d old = (case old of Some n \<Rightarrow> f n | None \<Rightarrow> d)"

definition save_pairing_notification :: "outside \<Rightarrow> ('a, 's, 'pa, 'ps) env \<Rightarrow> PairingRequest_msg \<Rightarrow>
    ('a, 's, unit) act" where
  "save_pairing_notification W E request =
     await (some_or_raise RequestWithoutDevice (pr_pending_device request)) (\<lambda>pending_device.
     await (find_notification E (pr_pairing_id request)) (\<lambda>old.
     await (now_ms W) (\<lambda>now.
     await (id_of_old W old) (\<lambda>ident.
     await (view own_account) (\<lambda>account.
     store_notification W E
       \<lparr>nt_id = ident, nt_kind = KindPairing, nt_request_id = pr_pairing_id request,
        nt_actor_account_id = account, nt_actor_username = pr_pending_device_name request,
        nt_actor_device_id = pr_pending_device_id request, nt_state = old_or nt_state StatePending old,
        nt_read = old_or nt_read False old, nt_created_at_ms = old_or nt_created_at_ms now old,
        nt_updated_at_ms = now,
        nt_data = PairingNotice \<lparr>pd_pending_side = False, pd_pairing_id = pr_pairing_id request,
          pd_pending_device_id = pr_pending_device_id request,
          pd_pending_device_name = pr_pending_device_name request,
          pd_sas_public_key = pr_sas_public_key request,
          pd_pending_device = device_encode E pending_device\<rparr>\<rparr>)))))"

definition own_device_bundle :: "('a, 's, 'pa, 'ps) env \<Rightarrow> ('a, 's) app \<Rightarrow> DeviceBundle" where
  "own_device_bundle E s = (let (ed, curve) = en_olm_keys E (om_account (rp_machine (ap_profile s)))
     in bundle_of_public (public_device (en_crypto E) (rp_identity (ap_profile s)) ed curve))"

definition save_pending_pairing_notification :: "outside \<Rightarrow> ('a, 's, 'pa, 'ps) env \<Rightarrow> string \<Rightarrow> string \<Rightarrow>
    string \<Rightarrow> bytes \<Rightarrow> ('a, 's, unit) act" where
  "save_pending_pairing_notification W E pairing_id approver_device_id approver_device_name approver_public_key =
     await (find_notification E pairing_id) (\<lambda>old.
     await (view (own_device_bundle E)) (\<lambda>own_device.
     await (now_ms W) (\<lambda>now.
     await (id_of_old W old) (\<lambda>ident.
     await (view own_account) (\<lambda>account.
     store_notification W E
       \<lparr>nt_id = ident, nt_kind = KindPairing, nt_request_id = pairing_id,
        nt_actor_account_id = account, nt_actor_username = approver_device_name,
        nt_actor_device_id = approver_device_id, nt_state = InProgress,
        nt_read = old_or nt_read False old, nt_created_at_ms = old_or nt_created_at_ms now old,
        nt_updated_at_ms = now,
        nt_data = PairingNotice \<lparr>pd_pending_side = True, pd_pairing_id = pairing_id,
          pd_pending_device_id = db_device_id own_device,
          pd_pending_device_name = db_device_name own_device,
          pd_sas_public_key = approver_public_key,
          pd_pending_device = device_encode E own_device\<rparr>\<rparr>)))))"

definition save_chat_request_notification :: "outside \<Rightarrow> ('a, 's, 'pa, 'ps) env \<Rightarrow> string \<Rightarrow>
    UserBundle_msg \<Rightarrow> string \<Rightarrow> ('a, 's, unit) act" where
  "save_chat_request_notification W E request_id sender sender_device_id =
     await (find_notification E request_id) (\<lambda>old.
     await (now_ms W) (\<lambda>now.
     await (id_of_old W old) (\<lambda>ident.
     store_notification W E
       \<lparr>nt_id = ident, nt_kind = KindChatRequest, nt_request_id = request_id,
        nt_actor_account_id = ub_account_id sender, nt_actor_username = ub_username sender,
        nt_actor_device_id = sender_device_id, nt_state = old_or nt_state StatePending old,
        nt_read = old_or nt_read False old, nt_created_at_ms = old_or nt_created_at_ms now old,
        nt_updated_at_ms = now,
        nt_data = ChatRequestNotice \<lparr>rd_outgoing = False, rd_request_id = request_id,
          rd_sender_account_id = ub_account_id sender, rd_sender_username = ub_username sender,
          rd_sender_device_id = sender_device_id,
          rd_sender_bundle = bundle_encode (en_packages E) sender\<rparr>\<rparr>)))"

definition save_outgoing_chat_request_notification :: "outside \<Rightarrow> ('a, 's, 'pa, 'ps) env \<Rightarrow> string \<Rightarrow>
    UserBundle_msg \<Rightarrow> string \<Rightarrow> bool \<Rightarrow> ('a, 's, unit) act" where
  "save_outgoing_chat_request_notification W E request_id recipient sender_device_id initially_read =
     await (find_notification E request_id) (\<lambda>old.
     await (now_ms W) (\<lambda>now.
     await (id_of_old W old) (\<lambda>ident.
     store_notification W E
       \<lparr>nt_id = ident, nt_kind = KindChatRequest, nt_request_id = request_id,
        nt_actor_account_id = ub_account_id recipient, nt_actor_username = ub_username recipient,
        nt_actor_device_id = sender_device_id, nt_state = old_or nt_state StatePending old,
        nt_read = old_or nt_read initially_read old, nt_created_at_ms = old_or nt_created_at_ms now old,
        nt_updated_at_ms = now,
        nt_data = ChatRequestNotice \<lparr>rd_outgoing = True, rd_request_id = request_id,
          rd_sender_account_id = ub_account_id recipient, rd_sender_username = ub_username recipient,
          rd_sender_device_id = sender_device_id,
          rd_sender_bundle = bundle_encode (en_packages E) recipient\<rparr>\<rparr>)))"

definition save_chat_response_notification :: "outside \<Rightarrow> ('a, 's, 'pa, 'ps) env \<Rightarrow> Notification \<Rightarrow> bool \<Rightarrow>
    bool \<Rightarrow> ('a, 's, unit) act" where
  "save_chat_response_notification W E original accepted is_read =
     await (now_ms W) (\<lambda>now.
     store_notification W E
       \<lparr>nt_id = nt_id original, nt_kind = KindChatResponse, nt_request_id = nt_request_id original,
        nt_actor_account_id = nt_actor_account_id original,
        nt_actor_username = nt_actor_username original,
        nt_actor_device_id = nt_actor_device_id original,
        nt_state = (if accepted then Accepted else StateRejected), nt_read = is_read,
        nt_created_at_ms = nt_created_at_ms original, nt_updated_at_ms = now,
        nt_data = ChatResponseNotice (nt_request_id original) accepted\<rparr>)"

definition mark_notification_state :: "outside \<Rightarrow> ('a, 's, 'pa, 'ps) env \<Rightarrow> string \<Rightarrow> NotificationState \<Rightarrow>
    bool \<Rightarrow> ('a, 's, unit) act" where
  "mark_notification_state W E notification_id st is_read =
     await (now_ms W) (\<lambda>now.
     await (store_run (update_notification_state now notification_id st is_read)) (\<lambda>_.
     refresh_notifications E))"

section \<open>Selecting and dismissing\<close>

definition mark_read :: "outside \<Rightarrow> string \<Rightarrow> ('a, 's, unit) act" where
  "mark_read W notification_id =
     await (now_ms W) (\<lambda>now. store_run (mark_notification_read now notification_id))"

definition clamp_index :: "int \<Rightarrow> nat \<Rightarrow> nat" where
  "clamp_index i n = nat (min (max i 0) (int n - 1))"

definition select_notification_relative :: "outside \<Rightarrow> ('a, 's, 'pa, 'ps) env \<Rightarrow> int \<Rightarrow> ('a, 's, unit) act" where
  "select_notification_relative W E direction s =
     (if ap_notifications s = [] then update (\<lambda>s. s\<lparr>ap_notification_selected := None\<rparr>) s
      else (let i = clamp_index (int (case ap_notification_selected s of None \<Rightarrow> 0 | Some k \<Rightarrow> k) + direction)
                      (length (ap_notifications s)) in
        await (update (\<lambda>s. s\<lparr>ap_notification_selected := Some i\<rparr>)) (\<lambda>_.
        await (view selected_notification) (\<lambda>n.
        await (case n of Some n \<Rightarrow> mark_read W (nt_id n) | None \<Rightarrow> finish ()) (\<lambda>_.
        refresh_notifications E))) s))"

definition dismiss_selected_notification :: "outside \<Rightarrow> ('a, 's, 'pa, 'ps) env \<Rightarrow> ('a, 's, unit) act" where
  "dismiss_selected_notification W E =
     await (view selected_notification) (\<lambda>n. case n of
         None \<Rightarrow> finish ()
       | Some n \<Rightarrow> if notification_requires_action (nt_state n) then finish ()
           else mark_notification_state W E (nt_id n) (nt_state n) True)"

end
