(* ===== verification/App_Background.thy ===== *)
theory App_Background
  imports App_Notify
begin

text \<open>
  Requests whose answers arrive as events: dispatch, expiry, the synchronisation request, the outbox and
  the device list (\<open>crates/client/src/app.rs\<close>). A \<open>HashMap\<close> is an association list with distinct keys.
\<close>

section \<open>Requests in the background\<close>

definition has_request :: "string \<Rightarrow> ('a, 's) app \<Rightarrow> bool" where
  "has_request i s \<longleftrightarrow> map_of (ap_background_requests s) i \<noteq> None"

text \<open>\<open>background_requests.values().any(...)\<close>.\<close>

definition any_request :: "(BackgroundRequest \<Rightarrow> bool) \<Rightarrow> ('a, 's) app \<Rightarrow> bool" where
  "any_request p s \<longleftrightarrow> (\<exists>r \<in> set (ap_background_requests s). p (snd r))"

definition register_request :: "string \<Rightarrow> BackgroundRequest \<Rightarrow> int \<Rightarrow> ('a, 's) app \<Rightarrow> ('a, 's) app" where
  "register_request i operation deadline s = s\<lparr>
     ap_background_requests := AList.update i operation (ap_background_requests s),
     ap_background_deadlines := AList.update i deadline (ap_background_deadlines s)\<rparr>"

definition dispatch_background :: "outside \<Rightarrow> Frame \<Rightarrow> BackgroundRequest \<Rightarrow> ('a, 's, unit) act" where
  "dispatch_background W request operation =
     await (\<lambda>s. if frame_id request = [] \<or> has_request (frame_id request) s
                then await (new_uuid W) (\<lambda>i. finish (request\<lparr>frame_id := i\<rparr>)) s
                else finish request s) (\<lambda>request.
     await (send_frame W request) (\<lambda>_.
     await (instant_now W) (\<lambda>now.
     update (register_request (frame_id request) operation (now + 20000)))))"

fun expire_one :: "int \<Rightarrow> string \<Rightarrow> ('a, 's) app \<Rightarrow> ('a, 's) app" where
  "expire_one now i s =
     (let operation = map_of (ap_background_requests s) i;
          s' = s\<lparr>ap_background_deadlines := AList.delete i (ap_background_deadlines s),
                 ap_background_requests := AList.delete i (ap_background_requests s)\<rparr>
      in (case operation of
            Some BgSync \<Rightarrow> s'\<lparr>ap_sync_in_flight := False\<rparr>
          | Some (BgOutbox logical_id) \<Rightarrow> s'\<lparr>ap_outbox_retry_after :=
              AList.update logical_id (now + 30000) (ap_outbox_retry_after s')\<rparr>
          | _ \<Rightarrow> s'))"

definition expired_requests :: "int \<Rightarrow> ('a, 's) app \<Rightarrow> string list" where
  "expired_requests now s = map fst (filter (\<lambda>(_, deadline). deadline \<le> now) (ap_background_deadlines s))"

definition expire_background_requests :: "outside \<Rightarrow> ('a, 's, unit) act" where
  "expire_background_requests W =
     await (instant_now W) (\<lambda>now. update (\<lambda>s. fold (expire_one now) (expired_requests now s) s))"

section \<open>Synchronisation\<close>

definition sync_now :: "outside \<Rightarrow> ('a, 's, unit) act" where
  "sync_now W s =
     (if \<not> ap_connected s then raise NotConnected s
      else if ap_sync_in_flight s then finish () s
      else
        await (view (\<lambda>s. cursors (ap_store s))) (\<lambda>(cursor, status_cursor).
        await (new_uuid W) (\<lambda>i.
        await (dispatch_background W (mk_frame i (SyncRequest \<lparr>sync_after_cursor = cursor, sync_limit = 100,
                 sync_after_status_cursor = status_cursor\<rparr>)) BgSync) (\<lambda>_.
        update (\<lambda>s. s\<lparr>ap_sync_in_flight := True\<rparr>)))) s)"

section \<open>The outbox\<close>

fun update_first :: "('x \<Rightarrow> bool) \<Rightarrow> ('x \<Rightarrow> 'x) \<Rightarrow> 'x list \<Rightarrow> 'x list" where
  "update_first p f [] = []"
| "update_first p f (x # xs) = (if p x then f x # xs else x # update_first p f xs)"

text \<open>\<open>find(|m| m.id == id)\<close> and a status that is only raised.\<close>

definition raise_status :: "string \<Rightarrow> MessageStatus \<Rightarrow> ('a, 's) app \<Rightarrow> ('a, 's) app" where
  "raise_status ident status s = s\<lparr>ap_messages := update_first (\<lambda>m. cm_id m = ident)
     (\<lambda>m. if status_rank (cm_status m) < status_rank status then m\<lparr>cm_status := status\<rparr> else m)
     (ap_messages s)\<rparr>"

definition complete_outbox :: "string \<Rightarrow> ('a, 's, unit) act" where
  "complete_outbox logical_id =
     await (store_run (remove_outbox logical_id)) (\<lambda>_.
     await (store_run (mark_conversation_deletion_synced logical_id)) (\<lambda>_.
     await (store_run (update_status logical_id Sent)) (\<lambda>_.
     update (raise_status logical_id Sent))))"

definition resend_one :: "outside \<Rightarrow> ('a, 's, 'pa, 'ps) env \<Rightarrow> string \<times> bytes \<Rightarrow> ('a, 's, unit) act" where
  "resend_one W E item s = (case item of (logical_id, encoded) \<Rightarrow>
     if logical_id \<in> set (ap_blocked_outbox s) \<or> map_of (ap_outbox_retry_after s) logical_id \<noteq> None
     then finish () s
     else if any_request (\<lambda>r. r = BgOutbox logical_id) s then finish () s
     else (case decode_frame (frame_decode E) encoded of
         Inl _ \<Rightarrow> finish () s
       | Inr request \<Rightarrow> ignore (dispatch_background W request (BgOutbox logical_id)) s))"

definition resend_outbox :: "outside \<Rightarrow> ('a, 's, 'pa, 'ps) env \<Rightarrow> ('a, 's, unit) act" where
  "resend_outbox W E =
     await (view (\<lambda>s. outbox (ap_store s))) (\<lambda>items.
     await (instant_now W) (\<lambda>now.
     await (update (\<lambda>s. s\<lparr>ap_outbox_retry_after :=
              filter (\<lambda>(_, retry_at). now < retry_at) (ap_outbox_retry_after s)\<rparr>)) (\<lambda>_.
     for_each items (resend_one W E))))"

section \<open>Pairing requests that another device has answered\<close>

definition reconcile_pairing_notifications :: "outside \<Rightarrow> ('a, 's, unit) act" where
  "reconcile_pairing_notifications W s =
     (if rp_pending (ap_profile s)
         \<or> \<not> (\<exists>n \<in> set (ap_notifications s). nt_kind n = KindPairing \<and> notification_requires_action (nt_state n))
      then finish () s
      else if any_request (\<lambda>r. r = BgReconcilePairing) s then finish () s
      else await (new_uuid W) (\<lambda>i.
        dispatch_background W (mk_frame i (LookupUser (rp_username (ap_profile s)))) BgReconcilePairing) s)"

definition completed_pairings :: "UserBundle_msg \<Rightarrow> Notification list \<Rightarrow> (string \<times> string) list" where
  "completed_pairings bundle ns = map (\<lambda>n. (nt_id n, nt_actor_device_id n))
     (filter (\<lambda>n. nt_kind n = KindPairing \<and> notification_requires_action (nt_state n)
        \<and> (\<exists>d \<in> set (ub_devices bundle). \<not> db_revoked d \<and> db_device_id d = nt_actor_device_id n)) ns)"

definition reconcile_pairing_notifications_from_bundle ::
  "outside \<Rightarrow> ('a, 's, 'pa, 'ps) env \<Rightarrow> UserBundle_msg \<Rightarrow> ('a, 's, unit) act" where
  "reconcile_pairing_notifications_from_bundle W E bundle =
     await (lift_app (validate_bundle (en_crypto E) bundle)) (\<lambda>_. \<lambda>s.
       if ub_account_id bundle \<noteq> own_account s
          \<or> ub_account_master_key bundle \<noteq> rp_account_master_public (ap_profile s)
       then raise OwnDevicesMismatch s
       else (let completed = completed_pairings bundle (ap_notifications s) in
         if completed = [] then finish () s
         else await (for_each completed (\<lambda>(notification_id, _). await (now_ms W) (\<lambda>now.
                store_run (update_notification_state now notification_id Completed True)))) (\<lambda>_.
              await (update (\<lambda>s. s\<lparr>ap_pairing_requests :=
                filter (\<lambda>r. \<not> (\<exists>c \<in> set completed. pr_pending_device_id r = snd c)) (ap_pairing_requests s)\<rparr>)) (\<lambda>_.
              refresh_notifications E)) s))"

section \<open>Own devices\<close>

definition refresh_own_devices :: "outside \<Rightarrow> ('a, 's, unit) act" where
  "refresh_own_devices W =
     await (new_uuid W) (\<lambda>i. dispatch_background W (mk_frame i ListOwnDevices) BgDeviceList)"

definition open_device_manager :: "outside \<Rightarrow> ('a, 's, unit) act" where
  "open_device_manager W s =
     (if CAPABILITY_OWN_DEVICES \<notin> set (rp_server_capabilities (ap_profile s)) then raise DevicesUnsupported s
      else await (refresh_own_devices W) (\<lambda>_.
        update (\<lambda>s. s\<lparr>ap_device_manager_visible := True, ap_help_visible := False,
          ap_emoji := (ap_emoji s)\<lparr>ep_visible := False\<rparr>, ap_completion := completion_default\<rparr>)) s)"

definition close_device_manager :: "('a, 's) app \<Rightarrow> ('a, 's) app" where
  "close_device_manager s = s\<lparr>ap_device_manager_visible := False\<rparr>"

definition request_revoke_selected_device :: "('a, 's) app \<Rightarrow> ('a, 's) app" where
  "request_revoke_selected_device s = (case list_get (ap_own_devices s) (ap_own_device_selected s) of
       None \<Rightarrow> s
     | Some d \<Rightarrow> if od_current d \<or> od_revoked d then s
         else s\<lparr>ap_delete_confirmation := Some \<lparr>dc_target = DeleteDevice (od_device_id d) (od_device_name d),
           dc_confirm_selected = False\<rparr>\<rparr>)"

end
