(* ===== verification/App_Send.thy ===== *)
theory App_Send
  imports App_Background
begin

text \<open>
  Everything the application encrypts and sends (\<open>crates/client/src/app.rs\<close>): the directory lookup with
  its cache, the encryption for one device and for a list of devices, text messages, read receipts,
  chat requests and their answers, and the deletion events for the other own devices. Each of them
  commits the new Olm state and the frame in one transaction of the store before the frame is sent.
\<close>

section \<open>Contacts and bundles\<close>

definition refresh_contacts_preserve_selection :: "('a, 's, 'pa, 'ps) env \<Rightarrow> ('a, 's, unit) act" where
  "refresh_contacts_preserve_selection E =
     await (view (\<lambda>s. map_option contact_account (selected_contact s))) (\<lambda>selected_account.
     await (store_get (contacts (en_packages E))) (\<lambda>cs.
     update (\<lambda>s. s\<lparr>ap_contacts := cs,
       ap_selected := Option.bind selected_account (\<lambda>a. position (\<lambda>c. contact_account c = a) cs)\<rparr>)))"

definition reload_contacts :: "('a, 's, 'pa, 'ps) env \<Rightarrow> ('a, 's, unit) act" where
  "reload_contacts E = await (store_get (contacts (en_packages E))) (\<lambda>cs. update (\<lambda>s. s\<lparr>ap_contacts := cs\<rparr>))"

definition cache_bundle :: "outside \<Rightarrow> UserBundle_msg \<Rightarrow> ('a, 's, unit) act" where
  "cache_bundle W bundle = await (instant_now W) (\<lambda>now.
     update (\<lambda>s. s\<lparr>ap_bundle_cache := AList.update (ub_username bundle) (bundle, now) (ap_bundle_cache s)\<rparr>))"

definition lookup_bundle_fresh :: "outside \<Rightarrow> string \<Rightarrow> ('a, 's, UserBundle_msg) act" where
  "lookup_bundle_fresh W username =
     await (rpc_request W (LookupUser username)) (\<lambda>response. case frame_body response of
         Some (UserBundle bundle) \<Rightarrow> await (cache_bundle W bundle) (\<lambda>_. finish bundle)
       | _ \<Rightarrow> raise WrongLookupResponse)"

text \<open>A cached bundle is used for 60 seconds; \<open>elapsed\<close> reads the clock only when there is one.\<close>

definition lookup_bundle :: "outside \<Rightarrow> string \<Rightarrow> ('a, 's, UserBundle_msg) act" where
  "lookup_bundle W username s = (case map_of (ap_bundle_cache s) username of
       None \<Rightarrow> lookup_bundle_fresh W username s
     | Some (bundle, fetched_at) \<Rightarrow> await (instant_now W) (\<lambda>now.
         if now - fetched_at < 60000 then finish bundle else lookup_bundle_fresh W username) s)"

definition conversation_with :: "('a, 's, 'pa, 'ps) env \<Rightarrow> ('a, 's) app \<Rightarrow> string \<Rightarrow> string" where
  "conversation_with E s peer = conversation_id (sha256 (en_crypto E)) (own_account s) peer"

section \<open>Encryption\<close>

definition run_machine :: "(('a, 's) OlmMachine \<Rightarrow> EncryptedOlm result \<times> ('a, 's) OlmMachine) \<Rightarrow>
    ('a, 's) OlmMachine \<Rightarrow> ('a, 's, EncryptedOlm \<times> ('a, 's) OlmMachine) act" where
  "run_machine f m = (case f m of
       (Inl e, _) \<Rightarrow> raise (Inner e)
     | (Inr encrypted, m') \<Rightarrow> finish (encrypted, m'))"

definition encrypt_for :: "outside \<Rightarrow> ('a, 's, 'pa, 'ps) env \<Rightarrow> ('a, 's) OlmMachine \<Rightarrow> DeviceBundle \<Rightarrow>
    string \<Rightarrow> bytes \<Rightarrow> ('a, 's, EncryptedOlm \<times> ('a, 's) OlmMachine) act" where
  "encrypt_for W E machine device account_id payload =
     (if has_session machine (db_device_id device)
      then run_machine (encrypt_existing (en_olm E) (db_device_id device) payload) machine
      else
        await (rpc_request W (ClaimPreKey \<lparr>claim_account_id = account_id,
                 claim_device_id = db_device_id device\<rparr>)) (\<lambda>response.
        case frame_body response of
          Some (PreKeyBundle claimed otk) \<Rightarrow>
            await (some_or_raise PrekeyWithoutDevice claimed) (\<lambda>claimed_device.
            await (some_or_raise PrekeysExhausted otk) (\<lambda>key.
            await (require_that (claimed_device = device) PrekeyDeviceChanged) (\<lambda>_.
            await (lift (identity_verify_prekey (en_crypto E) device key)) (\<lambda>_.
            await (require_that (length (db_olm_curve25519_key device) = 32) InvalidDeviceCurveKey) (\<lambda>_.
            await (require_that (length (otk_curve25519_key key) = 32) InvalidPrekey) (\<lambda>_.
            run_machine (machine_encrypt (en_olm E) \<lparr>pkm_device_id = db_device_id device,
              pkm_identity_key = db_olm_curve25519_key device,
              pkm_one_time_key = otk_curve25519_key key\<rparr> payload) machine))))))
        | _ \<Rightarrow> raise WrongPrekeyResponse))"

text \<open>What is the same for all envelopes of a message.\<close>

record outgoing =
  og_logical_id :: string
  og_conversation_id :: string
  og_sent_at_ms :: i64

text \<open>A device to encrypt for, with its account and the master key that must have certified it.\<close>

record target =
  tg_account_id :: string
  tg_master :: bytes
  tg_device :: DeviceBundle

definition devices_of :: "UserBundle_msg \<Rightarrow> target list" where
  "devices_of b = map (\<lambda>d. \<lparr>tg_account_id = ub_account_id b, tg_master = ub_account_master_key b, tg_device = d\<rparr>)
     (active_devices b)"

definition other_devices :: "string \<Rightarrow> UserBundle_msg \<Rightarrow> target list" where
  "other_devices own b = filter (\<lambda>t. db_device_id (tg_device t) \<noteq> own) (devices_of b)"

text \<open>The loop that verifies, encrypts and pushes an envelope for each device.\<close>

fun seal_for :: "outside \<Rightarrow> ('a, 's, 'pa, 'ps) env \<Rightarrow> outgoing \<Rightarrow> bytes \<Rightarrow> target list \<Rightarrow>
    EncryptedEnvelope list \<times> ('a, 's) OlmMachine \<Rightarrow>
    ('a, 's, EncryptedEnvelope list \<times> ('a, 's) OlmMachine) act" where
  "seal_for W E og payload [] (envelopes, machine) = finish (envelopes, machine)"
| "seal_for W E og payload (t # ts) (envelopes, machine) =
     await (lift (verify_device_bundle (en_crypto E) (tg_master t) (tg_account_id t) (tg_device t))) (\<lambda>_.
     await (encrypt_for W E machine (tg_device t) (tg_account_id t) payload) (\<lambda>(encrypted, machine').
     await (new_uuid W) (\<lambda>envelope_id.
     seal_for W E og payload ts
       (envelopes @ [\<lparr>env_envelope_id = envelope_id, env_logical_message_id = og_logical_id og,
          env_conversation_id = og_conversation_id og, env_recipient_account_id = tg_account_id t,
          env_recipient_device_id = db_device_id (tg_device t), env_ciphertext = eo_ciphertext encrypted,
          env_olm_message_type = eo_message_type encrypted,
          env_client_sent_at_ms = og_sent_at_ms og\<rparr>], machine'))))"

text \<open>The common end: the frame, the transaction with the new machine, the dispatch.\<close>

definition commit_and_dispatch :: "outside \<Rightarrow> ('a, 's, 'pa, 'ps) env \<Rightarrow> string \<Rightarrow>
    EncryptedEnvelope list \<Rightarrow> ('a, 's) OlmMachine \<Rightarrow> ('a, 's, unit) act" where
  "commit_and_dispatch W E logical_id envelopes machine =
     await (new_uuid W) (\<lambda>i.
     await (commit_machine W machine (\<lambda>now nonces v p.
        commit_control_outgoing (en_packages E) now (nonces 0) v p logical_id
          (encode_frame (frame_to_vec E) (mk_frame i (SendEnvelopes envelopes))))) (\<lambda>_.
     dispatch_background W (mk_frame i (SendEnvelopes envelopes)) (BgOutbox logical_id)))"

text \<open>The own directory entry, whose master key must be the one this device holds.\<close>

definition own_master :: "('a, 's, 'pa, 'ps) env \<Rightarrow> ('a, 's) app \<Rightarrow> bytes" where
  "own_master E s = (case master_public_key (en_crypto E) (rp_identity (ap_profile s)) of None \<Rightarrow> [] | Some k \<Rightarrow> k)"

section \<open>Text messages\<close>

definition text_payload :: "('a, 's) app \<Rightarrow> UserBundle_msg \<Rightarrow> string \<Rightarrow> i64 \<Rightarrow> string \<Rightarrow> WirePayload" where
  "text_payload s peer logical_id sent_at txt = \<lparr>wp_version = 2, wp_kind = ''text'',
     wp_message_id = logical_id, wp_sender_username = rp_username (ap_profile s),
     wp_sender_account_id = own_account s, wp_peer_account_id = ub_account_id peer,
     wp_peer_username = ub_username peer, wp_sent_at_ms = sent_at, wp_text = txt,
     wp_related_message_id = None, wp_related_message_ids = []\<rparr>"

definition scroll_messages_to_bottom :: "('a, 's) app \<Rightarrow> ('a, 's) app" where
  "scroll_messages_to_bottom s = s\<lparr>ap_message_scroll := 0, ap_new_messages_below := 0\<rparr>"

definition connection_lost :: "outside \<Rightarrow> ('a, 's, unit) act" where
  "connection_lost W = await (update (\<lambda>s. s\<lparr>ap_connected := False\<rparr>)) (\<lambda>_.
     await (instant_now W) (\<lambda>now. update (\<lambda>s. s\<lparr>ap_reconnect_at := now\<rparr>)))"

definition send_text :: "outside \<Rightarrow> ('a, 's, 'pa, 'ps) env \<Rightarrow> string \<Rightarrow> ('a, 's, unit) act" where
  "send_text W E txt =
     await (require_that (length txt \<le> MAX_TEXT_BYTES) TextTooLong) (\<lambda>_.
     await (view selected_contact) (\<lambda>selected.
     await (some_or_raise NoContactSelected selected) (\<lambda>contact.
     await (require_that (ct_verified contact \<and> \<not> ct_identity_changed contact) ContactNotVerified) (\<lambda>_.
     await (lift_app (validate_bundle (en_crypto E) (ct_bundle contact))) (\<lambda>_.
     await (view (\<lambda>s. rp_username (ap_profile s))) (\<lambda>username.
     await (lookup_bundle W username) (\<lambda>self_bundle.
     await (view (own_master E)) (\<lambda>master.
     await (require_that (ub_account_master_key self_bundle = master) OwnMasterMismatch) (\<lambda>_.
     await (new_uuid W) (\<lambda>logical_id.
     await (now_ms W) (\<lambda>sent_at.
     await (view (\<lambda>s. (own_account s, own_device_id s, conversation_with E s (contact_account contact),
              text_payload s (ct_bundle contact) logical_id sent_at txt))) (\<lambda>(account, device, conversation, payload).
     await (lift (wire_json E payload)) (\<lambda>plaintext.
     await (view (copy_machine E)) (\<lambda>copy.
     await (lift copy) (\<lambda>machine.
     await (seal_for W E \<lparr>og_logical_id = logical_id, og_conversation_id = conversation, og_sent_at_ms = sent_at\<rparr>
              plaintext
              (devices_of (ct_bundle contact)
               @ map (\<lambda>t. t\<lparr>tg_account_id := account\<rparr>) (other_devices device self_bundle))
              ([], machine)) (\<lambda>(envelopes, machine').
     await (require_that (envelopes \<noteq> []) NoRecipientDevice) (\<lambda>_.
     await (new_uuid W) (\<lambda>i.
     let queued_frame = mk_frame i (SendEnvelopes envelopes);
         local_message = \<lparr>cm_id = logical_id, cm_conversation_id = conversation,
           cm_peer_account_id = contact_account contact, cm_sender_account_id = account, cm_body = txt,
           cm_sent_at_ms = sent_at, cm_status = Sending, cm_inbound = False\<rparr>
     in
     await (commit_machine W machine' (\<lambda>now nonces v p.
        commit_outgoing (en_packages E) now (nonces 0, nonces 1) v p local_message
          (encode_frame (frame_to_vec E) queued_frame))) (\<lambda>_.
     await (update (\<lambda>s. scroll_messages_to_bottom (s\<lparr>ap_messages := ap_messages s @ [local_message]\<rparr>))) (\<lambda>_.
     await (outcome (dispatch_background W queued_frame (BgOutbox logical_id))) (\<lambda>sent.
     await (case sent of Inl _ \<Rightarrow> connection_lost W | Inr _ \<Rightarrow> finish ()) (\<lambda>_.
     await (view ap_vault) (\<lambda>v.
     await (now_ms W) (\<lambda>now.
     await (random_bytes W) (\<lambda>nonces.
     await (store_try (save_draft (en_packages E) now (nonces 0) v conversation [])) (\<lambda>_.
     await (update (\<lambda>s. s\<lparr>ap_persisted_draft := []\<rparr>)) (\<lambda>_.
     refresh_contacts_preserve_selection E)))))))))))))))))))))))))))"

section \<open>Read receipts\<close>

definition receipt_payload :: "('a, 's) app \<Rightarrow> UserBundle_msg \<Rightarrow> string \<Rightarrow> i64 \<Rightarrow> string list \<Rightarrow> WirePayload" where
  "receipt_payload s peer logical_id sent_at related = \<lparr>wp_version = 2, wp_kind = ''read_batch'',
     wp_message_id = logical_id, wp_sender_username = rp_username (ap_profile s),
     wp_sender_account_id = own_account s, wp_peer_account_id = ub_account_id peer,
     wp_peer_username = ub_username peer, wp_sent_at_ms = sent_at, wp_text = [],
     wp_related_message_id = None, wp_related_message_ids = related\<rparr>"

definition send_read_receipts :: "outside \<Rightarrow> ('a, 's, 'pa, 'ps) env \<Rightarrow> UserBundle_msg \<Rightarrow> string list \<Rightarrow>
    ('a, 's, unit) act" where
  "send_read_receipts W E recipient related =
     await (require_that (related \<noteq> [] \<and> length related \<le> 100) InvalidReceiptBatch) (\<lambda>_.
     await (new_uuid W) (\<lambda>logical.
     await (now_ms W) (\<lambda>sent_at.
     await (view (\<lambda>s. (conversation_with E s (ub_account_id recipient),
              receipt_payload s recipient logical sent_at related))) (\<lambda>(conversation, payload).
     await (lift (wire_json E payload)) (\<lambda>plaintext.
     await (view (copy_machine E)) (\<lambda>copy.
     await (lift copy) (\<lambda>machine.
     await (seal_for W E \<lparr>og_logical_id = logical, og_conversation_id = conversation, og_sent_at_ms = sent_at\<rparr>
              plaintext (devices_of recipient) ([], machine)) (\<lambda>(envelopes, machine').
     commit_and_dispatch W E logical envelopes machine'))))))))"

section \<open>Chat requests and decisions\<close>

definition chat_payload :: "('a, 's) app \<Rightarrow> UserBundle_msg \<Rightarrow> string \<Rightarrow> string \<Rightarrow> i64 \<Rightarrow> string \<Rightarrow> string option \<Rightarrow>
    WirePayload" where
  "chat_payload s peer kind logical_id sent_at txt related = \<lparr>wp_version = 3, wp_kind = kind,
     wp_message_id = logical_id, wp_sender_username = rp_username (ap_profile s),
     wp_sender_account_id = own_account s, wp_peer_account_id = ub_account_id peer,
     wp_peer_username = ub_username peer, wp_sent_at_ms = sent_at, wp_text = txt,
     wp_related_message_id = related, wp_related_message_ids = []\<rparr>"

text \<open>The directory entry of the own account, fetched and checked.\<close>

definition checked_own_bundle :: "outside \<Rightarrow> ('a, 's, 'pa, 'ps) env \<Rightarrow> ('a, 's, UserBundle_msg) act" where
  "checked_own_bundle W E =
     await (view (\<lambda>s. rp_username (ap_profile s))) (\<lambda>username.
     await (lookup_bundle_fresh W username) (\<lambda>self_bundle.
     await (lift_app (validate_bundle (en_crypto E) self_bundle)) (\<lambda>_.
     await (view (own_master E)) (\<lambda>master.
     await (require_that (ub_account_master_key self_bundle = master) OwnMasterMismatch) (\<lambda>_.
     finish self_bundle)))))"

definition send_chat_request :: "outside \<Rightarrow> ('a, 's, 'pa, 'ps) env \<Rightarrow> UserBundle_msg \<Rightarrow> ('a, 's, unit) act" where
  "send_chat_request W E recipient s =
     (if has_pending_chat_request s (ub_account_id recipient) then finish () s
      else
        await (lift_app (validate_bundle (en_crypto E) recipient)) (\<lambda>_.
        await (checked_own_bundle W E) (\<lambda>self_bundle.
        await (new_uuid W) (\<lambda>request_id.
        await (now_ms W) (\<lambda>sent_at.
        await (view (\<lambda>s. (own_device_id s, conversation_with E s (ub_account_id recipient),
                 chat_payload s recipient ''chat_request'' request_id sent_at [] None,
                 chat_payload s recipient ''chat_request'' request_id sent_at (ub_username recipient) None)))
          (\<lambda>(device, conversation, payload, self_payload).
        await (lift (wire_json E payload)) (\<lambda>plaintext.
        await (view (copy_machine E)) (\<lambda>copy.
        await (lift copy) (\<lambda>machine.
        let og = \<lparr>og_logical_id = request_id, og_conversation_id = conversation, og_sent_at_ms = sent_at\<rparr> in
        await (seal_for W E og plaintext (devices_of recipient) ([], machine)) (\<lambda>(envelopes, machine1).
        await (require_that (envelopes \<noteq> []) NoRecipientDevice) (\<lambda>_.
        await (lift (wire_json E self_payload)) (\<lambda>self_plaintext.
        await (seal_for W E og self_plaintext (other_devices device self_bundle) (envelopes, machine1))
          (\<lambda>(envelopes, machine2).
        await (save_outgoing_chat_request_notification W E request_id recipient device True) (\<lambda>_.
        commit_and_dispatch W E request_id envelopes machine2))))))))))))) s)"

definition send_chat_decision :: "outside \<Rightarrow> ('a, 's, 'pa, 'ps) env \<Rightarrow> UserBundle_msg \<Rightarrow> string \<Rightarrow> bool \<Rightarrow>
    ('a, 's, unit) act" where
  "send_chat_decision W E recipient request_id accepted =
     await (lift_app (validate_bundle (en_crypto E) recipient)) (\<lambda>_.
     await (checked_own_bundle W E) (\<lambda>self_bundle.
     await (new_uuid W) (\<lambda>logical_id.
     await (now_ms W) (\<lambda>sent_at.
     await (view (\<lambda>s. (own_device_id s, conversation_with E s (ub_account_id recipient),
              chat_payload s recipient ''chat_response'' logical_id sent_at
                (if accepted then ''accepted'' else ''rejected'') (Some request_id))))
       (\<lambda>(device, conversation, payload).
     await (lift (wire_json E payload)) (\<lambda>plaintext.
     await (view (copy_machine E)) (\<lambda>copy.
     await (lift copy) (\<lambda>machine.
     let og = \<lparr>og_logical_id = logical_id, og_conversation_id = conversation, og_sent_at_ms = sent_at\<rparr> in
     await (seal_for W E og plaintext (devices_of recipient) ([], machine)) (\<lambda>(envelopes, machine1).
     await (require_that (envelopes \<noteq> []) NoRecipientDevice) (\<lambda>_.
     await (seal_for W E og plaintext (other_devices device self_bundle) (envelopes, machine1))
       (\<lambda>(envelopes, machine2).
     commit_and_dispatch W E logical_id envelopes machine2)))))))))))"

section \<open>Deletion events\<close>

definition deletion_payload :: "('a, 's) app \<Rightarrow> ConversationTombstone \<Rightarrow> WirePayload" where
  "deletion_payload s t = \<lparr>wp_version = 3, wp_kind = ''conversation_deleted'',
     wp_message_id = cb_sync_event_id t, wp_sender_username = rp_username (ap_profile s),
     wp_sender_account_id = own_account s, wp_peer_account_id = cb_peer_account_id t,
     wp_peer_username = cb_peer_username t, wp_sent_at_ms = cb_deleted_at_ms t,
     wp_text = cb_peer_username t, wp_related_message_id = None, wp_related_message_ids = []\<rparr>"

definition sync_deletion :: "outside \<Rightarrow> ('a, 's, 'pa, 'ps) env \<Rightarrow> target list \<Rightarrow> ConversationTombstone \<Rightarrow>
    ('a, 's, unit) act" where
  "sync_deletion W E targets t s =
     (if outbox_contains (cb_sync_event_id t) (ap_store s) then finish () s
      else if targets = [] then store_run (mark_conversation_deletion_synced (cb_sync_event_id t)) s
      else if conversation_with E s (cb_peer_account_id t) \<noteq> cb_conversation_id t
      then raise DeletionRecordMismatch s
      else
        await (lift (wire_json E (deletion_payload s t))) (\<lambda>plaintext.
        await (view (copy_machine E)) (\<lambda>copy.
        await (lift copy) (\<lambda>machine.
        await (seal_for W E \<lparr>og_logical_id = cb_sync_event_id t, og_conversation_id = cb_conversation_id t,
                 og_sent_at_ms = cb_deleted_at_ms t\<rparr> plaintext targets ([], machine)) (\<lambda>(envelopes, machine').
        commit_and_dispatch W E (cb_sync_event_id t) envelopes machine')))) s)"

text \<open>The number that the code returns is not used by any caller and is left out.\<close>

definition sync_pending_conversation_deletions :: "outside \<Rightarrow> ('a, 's, 'pa, 'ps) env \<Rightarrow> ('a, 's, unit) act" where
  "sync_pending_conversation_deletions W E s =
     (if \<not> ap_connected s \<or> rp_pending (ap_profile s) then finish () s
      else (let tombstones = pending_conversation_deletions (ap_store s) in
        if tombstones = [] then finish () s
        else
          await (lookup_bundle_fresh W (rp_username (ap_profile s))) (\<lambda>self_bundle.
          await (lift_app (validate_bundle (en_crypto E) self_bundle)) (\<lambda>_.
          await (view (\<lambda>s. (own_account s, rp_account_master_public (ap_profile s), own_device_id s)))
            (\<lambda>(account, master, device).
          await (require_that (ub_account_id self_bundle = account
                   \<and> ub_account_master_key self_bundle = master) OwnDevicesMismatch) (\<lambda>_.
          for_each tombstones (sync_deletion W E (other_devices device self_bundle)))))) s))"

end
