(* ===== verification/App_Contacts.thy ===== *)
theory App_Contacts
  imports App_Send
begin

text \<open>
  Conversations as the user works with them (\<open>crates/client/src/app.rs\<close>): opening and selecting a contact,
  loading messages and older pages, drafts, read receipts, verification, the answers to chat requests,
  deletion, and the preferences and completions of the command line.
\<close>

section \<open>Drafts\<close>

definition trim_start :: "string \<Rightarrow> string" where
  "trim_start s = concat (dropWhile utf8_whitespace (utf8_chars s))"

definition is_command :: "string \<Rightarrow> bool" where
  "is_command txt \<longleftrightarrow> starts_with (trim_start txt) ''/''"

definition save_current_draft :: "outside \<Rightarrow> ('a, 's, 'pa, 'ps) env \<Rightarrow> ('a, 's, unit) act" where
  "save_current_draft W E s = (case selected_contact s of
       None \<Rightarrow> finish () s
     | Some contact \<Rightarrow>
         if is_command (ed_text (ap_editor s)) then finish () s
         else (let conversation = conversation_with E s (contact_account contact) in
           await (now_ms W) (\<lambda>now. await (random_bytes W) (\<lambda>nonces.
           await (store_try (save_draft (en_packages E) now (nonces 0) (ap_vault s) conversation
                    (ed_text (ap_editor s)))) (\<lambda>_.
           update (\<lambda>s. s\<lparr>ap_persisted_draft := ed_text (ap_editor s)\<rparr>)))) s))"

definition autosave_draft :: "outside \<Rightarrow> ('a, 's, 'pa, 'ps) env \<Rightarrow> ('a, 's, unit) act" where
  "autosave_draft W E s =
     (if ed_text (ap_editor s) = ap_persisted_draft s \<or> is_command (ed_text (ap_editor s)) then finish () s
      else save_current_draft W E s)"

section \<open>Reading messages\<close>

fun chunks :: "nat \<Rightarrow> 'x list \<Rightarrow> 'x list list" where
  "chunks n [] = []"
| "chunks n (x # xs) = (x # take (n - 1) xs) # chunks n (drop (n - 1) xs)"

definition set_message_status :: "string \<Rightarrow> MessageStatus \<Rightarrow> ('a, 's) app \<Rightarrow> ('a, 's) app" where
  "set_message_status ident status s = s\<lparr>ap_messages :=
     update_first (\<lambda>m. cm_id m = ident) (\<lambda>m. m\<lparr>cm_status := status\<rparr>) (ap_messages s)\<rparr>"

definition mark_one_read :: "string \<Rightarrow> ('a, 's, unit) act" where
  "mark_one_read ident = await (store_run (update_status ident Read)) (\<lambda>_. update (set_message_status ident Read))"

definition mark_selected_read :: "outside \<Rightarrow> ('a, 's, 'pa, 'ps) env \<Rightarrow> ('a, 's, unit) act" where
  "mark_selected_read W E s = (case selected_contact s of
       None \<Rightarrow> finish () s
     | Some contact \<Rightarrow>
         if \<not> ap_terminal_focused s \<or> \<not> ct_verified contact \<or> ct_identity_changed contact \<or> \<not> ap_connected s
         then finish () s
         else (let unread = map cm_id (filter (\<lambda>m. cm_inbound m \<and> cm_status m \<noteq> Read) (ap_messages s)) in
           await (for_each (chunks 100 unread) (\<lambda>batch.
             await (send_read_receipts W E (ct_bundle contact) batch) (\<lambda>_. for_each batch mark_one_read))) (\<lambda>_.
           refresh_contacts_preserve_selection E) s))"

definition load_selected_messages :: "outside \<Rightarrow> ('a, 's, 'pa, 'ps) env \<Rightarrow> ('a, 's, unit) act" where
  "load_selected_messages W E s = (case selected_contact s of
       None \<Rightarrow> update (\<lambda>s. s\<lparr>ap_messages := [], ap_editor := ed_clear (ap_editor s),
         ap_persisted_draft := [], ap_history_exhausted := True\<rparr>) s
     | Some contact \<Rightarrow> (let conversation = conversation_with E s (contact_account contact) in
         await (store_get (messages (en_packages E) (ap_vault s) conversation)) (\<lambda>ms.
         await (update (\<lambda>s. s\<lparr>ap_messages := ms, ap_history_exhausted := length ms < MESSAGE_PAGE_SIZE\<rparr>)) (\<lambda>_.
         await (store_get (load_draft (en_packages E) (ap_vault s) conversation)) (\<lambda>draft.
         await (update (\<lambda>s. s\<lparr>ap_persisted_draft := draft, ap_editor := ed_set draft (ap_editor s),
                  ap_message_scroll := 0, ap_new_messages_below := 0\<rparr>)) (\<lambda>_.
         mark_selected_read W E)))) s))"

definition load_older_messages :: "('a, 's, 'pa, 'ps) env \<Rightarrow> ('a, 's, unit) act" where
  "load_older_messages E s =
     (if ap_history_exhausted s \<or> ap_messages s = [] then finish () s
      else if ap_message_scroll s < message_scroll_maximum (en_unicode E) s then finish () s
      else case selected_contact s of
          None \<Rightarrow> finish () s
        | Some contact \<Rightarrow> (let oldest = hd (ap_messages s) in
            await (store_get (messages_before (en_packages E) (ap_vault s)
                     (conversation_with E s (contact_account contact)) (cm_sent_at_ms oldest) (cm_id oldest))) (\<lambda>older.
            await (update (\<lambda>s. s\<lparr>ap_history_exhausted := length older < MESSAGE_PAGE_SIZE\<rparr>)) (\<lambda>_.
            if older = [] then finish ()
            else await (view (\<lambda>s. visual_lines_for_messages (en_unicode E) s older)) (\<lambda>loaded_lines.
              await (update (\<lambda>s. s\<lparr>ap_messages := older @ ap_messages s\<rparr>)) (\<lambda>_.
              update (\<lambda>s. s\<lparr>ap_message_scroll :=
                min (ap_message_scroll s + min loaded_lines (viewport s))
                    (message_scroll_maximum (en_unicode E) s)\<rparr>))))) s))"

definition scroll_messages :: "unicode \<Rightarrow> int \<Rightarrow> ('a, 's) app \<Rightarrow> ('a, 's) app" where
  "scroll_messages U delta s =
     (let scroll = (if 0 \<le> delta then min (ap_message_scroll s + nat delta) (message_scroll_maximum U s)
                    else ap_message_scroll s - nat (- delta))
      in s\<lparr>ap_message_scroll := scroll,
           ap_new_messages_below := (if scroll = 0 then 0 else ap_new_messages_below s)\<rparr>)"

definition scroll_messages_to_top :: "unicode \<Rightarrow> ('a, 's) app \<Rightarrow> ('a, 's) app" where
  "scroll_messages_to_top U s = s\<lparr>ap_message_scroll := message_scroll_maximum U s\<rparr>"

text \<open>The errors are an empty search word and no match.\<close>

definition search_loaded_messages :: "('a, 's, 'pa, 'ps) env \<Rightarrow> string \<Rightarrow> ('a, 's) app \<Rightarrow> ('a, 's) app option" where
  "search_loaded_messages E query s =
     (if query = [] then None
      else case rposition (\<lambda>m. str_contains (str_to_lowercase E (cm_body m)) (str_to_lowercase E query))
                  (ap_messages s) of
          None \<Rightarrow> None
        | Some index \<Rightarrow> Some (s\<lparr>ap_message_scroll :=
            visual_lines_for_messages (en_unicode E) s (drop (index + 1) (ap_messages s)),
            ap_focus := Messages\<rparr>))"

section \<open>Selecting and opening\<close>

definition select_relative :: "outside \<Rightarrow> ('a, 's, 'pa, 'ps) env \<Rightarrow> int \<Rightarrow> ('a, 's, unit) act" where
  "select_relative W E direction s =
     (if ap_contacts s = [] then finish () s
      else await (save_current_draft W E) (\<lambda>_.
        await (update (\<lambda>s. s\<lparr>ap_selected := Some (case ap_selected s of
                 Some current \<Rightarrow> clamp_index (int current + direction) (length (ap_contacts s))
               | None \<Rightarrow> 0)\<rparr>)) (\<lambda>_.
        load_selected_messages W E)) s)"

definition select_account :: "string \<Rightarrow> ('a, 's) app \<Rightarrow> ('a, 's) app" where
  "select_account account s = s\<lparr>ap_selected := position (\<lambda>c. contact_account c = account) (ap_contacts s)\<rparr>"

definition put_bundle :: "outside \<Rightarrow> ('a, 's, 'pa, 'ps) env \<Rightarrow> UserBundle_msg \<Rightarrow> ('a, 's, Contact) act" where
  "put_bundle W E bundle = await (now_ms W) (\<lambda>now. store_query (upsert_contact (en_packages E) now bundle))"

definition open_contact :: "outside \<Rightarrow> ('a, 's, 'pa, 'ps) env \<Rightarrow> string \<Rightarrow> ('a, 's, unit) act" where
  "open_contact W E username =
     await (save_current_draft W E) (\<lambda>_.
     await (rpc_request W (LookupUser username)) (\<lambda>response. case frame_body response of
         Some (UserBundle bundle) \<Rightarrow>
           await (cache_bundle W bundle) (\<lambda>_.
           await (lift_app (validate_bundle (en_crypto E) bundle)) (\<lambda>_.
           await (put_bundle W E bundle) (\<lambda>contact.
           await (if \<not> ct_verified contact \<or> ct_identity_changed contact
                  then send_chat_request W E bundle else finish ()) (\<lambda>_.
           await (reload_contacts E) (\<lambda>_.
           await (update (select_account (contact_account contact))) (\<lambda>_.
           load_selected_messages W E))))))
       | _ \<Rightarrow> raise WrongLookupResponse))"

section \<open>Verification\<close>

definition set_contact_verified :: "string \<Rightarrow> ('a, 's) app \<Rightarrow> ('a, 's) app" where
  "set_contact_verified account s = s\<lparr>ap_contacts := update_first (\<lambda>c. contact_account c = account)
     (\<lambda>c. c\<lparr>ct_verified := True, ct_identity_changed := False\<rparr>) (ap_contacts s)\<rparr>"

definition accepted_response :: "string \<Rightarrow> Notification \<Rightarrow> bool" where
  "accepted_response account n \<longleftrightarrow>
     nt_kind n = KindChatResponse \<and> nt_actor_account_id n = account \<and> nt_state n = Accepted"

definition verify_selected :: "outside \<Rightarrow> ('a, 's, 'pa, 'ps) env \<Rightarrow> ('a, 's, unit) act" where
  "verify_selected W E =
     await (view selected_contact) (\<lambda>selected.
     await (some_or_raise NoContactSelected selected) (\<lambda>contact.
     let account = contact_account contact in
     await (view (\<lambda>s. has_pending_chat_request s account)) (\<lambda>pending.
     await (require_that (\<not> pending) RequestNotAccepted) (\<lambda>_.
     await (store_run (verify_contact account)) (\<lambda>_.
     await (update (set_contact_verified account)) (\<lambda>_.
     await (view (\<lambda>s. find (accepted_response account) (ap_notifications s))) (\<lambda>response.
     await (case response of Some n \<Rightarrow> mark_notification_state W E (nt_id n) Completed True
            | None \<Rightarrow> finish ()) (\<lambda>_.
     sync_now W))))))))"

definition safety_code_for_contact :: "('a, 's, 'pa, 'ps) env \<Rightarrow> ('a, 's) app \<Rightarrow> Contact \<Rightarrow> string option" where
  "safety_code_for_contact E s contact = map_option (\<lambda>our_master.
     safety_code (en_crypto E) (rp_username (ap_profile s)) our_master
       (ub_username (ct_bundle contact)) (ub_account_master_key (ct_bundle contact)))
     (master_public_key (en_crypto E) (rp_identity (ap_profile s)))"

section \<open>Answering chat requests\<close>

definition decoded_sender :: "('a, 's, 'pa, 'ps) env \<Rightarrow> ChatRequestData \<Rightarrow> ('a, 's, UserBundle_msg) act" where
  "decoded_sender E d = lift (bundle_decode (en_packages E) (rd_sender_bundle d))"

definition accept_chat_request :: "outside \<Rightarrow> ('a, 's, 'pa, 'ps) env \<Rightarrow> Notification \<Rightarrow> ('a, 's, unit) act" where
  "accept_chat_request W E n = (case nt_data n of
       ChatRequestNotice d \<Rightarrow>
         if rd_outgoing d then finish ()
         else await (decoded_sender E d) (\<lambda>sender.
           await (require_that (ub_account_id sender = rd_sender_account_id d) RequestAccountMismatch) (\<lambda>_.
           await (lift_app (validate_bundle (en_crypto E) sender)) (\<lambda>_.
           await (put_bundle W E sender) (\<lambda>_.
           await (reload_contacts E) (\<lambda>_.
           await (update (select_account (ub_account_id sender))) (\<lambda>_.
           await (load_selected_messages W E) (\<lambda>_.
           await (send_chat_decision W E sender (rd_request_id d) True) (\<lambda>_.
           await (save_chat_response_notification W E n True True) (\<lambda>_.
           update (\<lambda>s. s\<lparr>ap_sidebar_tab := NotificationsTab, ap_focus := Conversations\<rparr>))))))))))
     | _ \<Rightarrow> raise InvalidNotificationData)"

definition reject_selected_chat_request :: "outside \<Rightarrow> ('a, 's, 'pa, 'ps) env \<Rightarrow> ('a, 's, unit) act" where
  "reject_selected_chat_request W E =
     await (view selected_notification) (\<lambda>selected. case selected of
         None \<Rightarrow> finish ()
       | Some n \<Rightarrow> if nt_kind n \<noteq> KindChatRequest then finish ()
           else (case nt_data n of
             ChatRequestNotice d \<Rightarrow>
               if rd_outgoing d then finish ()
               else await (decoded_sender E d) (\<lambda>sender.
                 await (lift_app (validate_bundle (en_crypto E) sender)) (\<lambda>_.
                 await (send_chat_decision W E sender (rd_request_id d) False) (\<lambda>_.
                 save_chat_response_notification W E n False True)))
           | _ \<Rightarrow> raise InvalidNotificationData))"

definition verify_notification_contact :: "outside \<Rightarrow> ('a, 's, 'pa, 'ps) env \<Rightarrow> Notification \<Rightarrow>
    ('a, 's, unit) act" where
  "verify_notification_contact W E n =
     await (view (\<lambda>s. position (\<lambda>c. contact_account c = nt_actor_account_id n) (ap_contacts s))) (\<lambda>found.
     await (some_or_raise ContactNotListed found) (\<lambda>index.
     await (update (\<lambda>s. s\<lparr>ap_selected := Some index\<rparr>)) (\<lambda>_.
     await (load_selected_messages W E) (\<lambda>_.
     await (verify_selected W E) (\<lambda>_.
     update (\<lambda>s. s\<lparr>ap_sidebar_tab := NotificationsTab, ap_focus := Conversations\<rparr>))))))"

section \<open>Deleting\<close>

definition request_delete_conversation :: "('a, 's, 'pa, 'ps) env \<Rightarrow> nat \<Rightarrow> ('a, 's) app \<Rightarrow> ('a, 's) app" where
  "request_delete_conversation E contact_index s = (case list_get (ap_contacts s) contact_index of
       None \<Rightarrow> s
     | Some c \<Rightarrow> s\<lparr>ap_completion := completion_default, ap_delete_confirmation := Some \<lparr>dc_target =
         DeleteConversation (contact_account c) (ub_username (ct_bundle c))
           (conversation_with E s (contact_account c)), dc_confirm_selected = False\<rparr>\<rparr>)"

definition request_delete_notification :: "nat \<Rightarrow> ('a, 's) app \<Rightarrow> ('a, 's) app" where
  "request_delete_notification index s = (case list_get (ap_notifications s) index of
       None \<Rightarrow> s
     | Some n \<Rightarrow> s\<lparr>ap_completion := completion_default, ap_delete_confirmation := Some
         \<lparr>dc_target = DeleteNotice (nt_id n) (nt_request_id n), dc_confirm_selected = False\<rparr>\<rparr>)"

definition cancel_delete :: "('a, 's) app \<Rightarrow> ('a, 's) app" where
  "cancel_delete s = s\<lparr>ap_delete_confirmation := None\<rparr>"

definition forget_conversation :: "('a, 's) app \<Rightarrow> ('a, 's) app" where
  "forget_conversation s = s\<lparr>ap_messages := [], ap_editor := ed_clear (ap_editor s), ap_persisted_draft := [],
     ap_message_scroll := 0, ap_new_messages_below := 0, ap_history_exhausted := True\<rparr>"

definition confirm_delete :: "outside \<Rightarrow> ('a, 's, 'pa, 'ps) env \<Rightarrow> ('a, 's, unit) act" where
  "confirm_delete W E =
     await (view ap_delete_confirmation) (\<lambda>dialog. case dialog of
         None \<Rightarrow> finish ()
       | Some d \<Rightarrow>
           await (case dc_target d of
               DeleteConversation account username conversation \<Rightarrow>
                 await (new_uuid W) (\<lambda>sync_event_id. await (now_ms W) (\<lambda>deleted_at_ms.
                 await (view (\<lambda>s. map_option contact_account (selected_contact s))) (\<lambda>selected_account.
                 await (store_try (delete_conversation_everywhere account username conversation
                          sync_event_id deleted_at_ms)) (\<lambda>_.
                 await (update (\<lambda>s. s\<lparr>ap_bundle_cache := AList.delete username (ap_bundle_cache s)\<rparr>)) (\<lambda>_.
                 await (reload_contacts E) (\<lambda>_.
                 await (update (\<lambda>s. s\<lparr>ap_selected := (case selected_account of
                      Some a \<Rightarrow> if a \<noteq> account then position (\<lambda>c. contact_account c = a) (ap_contacts s) else None
                    | None \<Rightarrow> None)\<rparr>)) (\<lambda>_.
                 await (update (\<lambda>s. let s' = (if ap_selected s = None then forget_conversation s else s)
                    in s'\<lparr>ap_contact_scroll := min (ap_contact_scroll s') (length (ap_contacts s') - 1)\<rparr>)) (\<lambda>_.
                 await (refresh_notifications E) (\<lambda>_. \<lambda>s.
                 (if ap_connected s then ignore (sync_pending_conversation_deletions W E) s else finish () s))))))))))
             | DeleteNotice notification_id request_id \<Rightarrow>
                 await (store_run (delete_notification notification_id)) (\<lambda>_.
                 await (update (\<lambda>s. if (case ap_pairing s of None \<Rightarrow> True | Some p \<Rightarrow> pg_pairing_id p \<noteq> request_id)
                    then s\<lparr>ap_pairing_requests := filter (\<lambda>r. pr_pairing_id r \<noteq> request_id) (ap_pairing_requests s)\<rparr>
                    else s)) (\<lambda>_.
                 refresh_notifications E))
             | DeleteDevice device_id device_name \<Rightarrow>
                 await (new_uuid W) (\<lambda>i.
                 dispatch_background W (mk_frame i (RevokeOwnDevice device_id)) (BgDeviceRevoke device_name))) (\<lambda>_.
           update (\<lambda>s. s\<lparr>ap_delete_confirmation := None\<rparr>)))"

section \<open>Preferences and completion\<close>

definition save_preference :: "outside \<Rightarrow> string \<Rightarrow> string \<Rightarrow> ('a, 's, unit) act" where
  "save_preference W key v = await (now_ms W) (\<lambda>now. store_run (save_ui_preference now key v))"

definition set_theme :: "outside \<Rightarrow> string \<Rightarrow> ('a, 's, unit) act" where
  "set_theme W name =
     await (some_or_raise UnknownTheme (theme_parse name)) (\<lambda>theme.
     await (save_preference W ''theme'' (theme_name theme)) (\<lambda>_.
     update (\<lambda>s. s\<lparr>ap_theme := theme, ap_redraw_requested := True\<rparr>)))"

definition set_sidebar_collapsed :: "outside \<Rightarrow> bool \<Rightarrow> ('a, 's, unit) act" where
  "set_sidebar_collapsed W collapsed =
     await (save_preference W ''sidebar_collapsed'' (if collapsed then ''true'' else ''false'')) (\<lambda>_.
     update (\<lambda>s. s\<lparr>ap_sidebar_collapsed := collapsed,
       ap_focus := (if collapsed \<and> ap_focus s = Conversations then Messages
                    else if \<not> collapsed \<and> ap_layout_narrow s then Conversations
                    else ap_focus s), ap_redraw_requested := True\<rparr>))"

definition slash_commands :: "string list" where
  "slash_commands = [''/chat '', ''/emoji'', ''/theme '', ''/sidebar '', ''/devices'', ''/search '', ''/verify'',
     ''/pair '', ''/confirm'', ''/sync'', ''/retry'', ''/help'', ''/exit'', ''/quit'']"

definition str_strip_prefix :: "string \<Rightarrow> string \<Rightarrow> string option" where
  "str_strip_prefix p s = (if starts_with s p then Some (drop (length p) s) else None)"

definition completion_candidates :: "('a, 's) app \<Rightarrow> string \<Rightarrow> string list" where
  "completion_candidates s input =
     (case str_strip_prefix ''/chat '' input of
        Some p \<Rightarrow> map (\<lambda>c. ''/chat '' @ ub_username (ct_bundle c))
          (filter (\<lambda>c. starts_with (ub_username (ct_bundle c)) p) (ap_contacts s))
      | None \<Rightarrow> (case str_strip_prefix ''/pair '' input of
        Some p \<Rightarrow> map (\<lambda>r. ''/pair '' @ pr_pending_device_id r)
          (filter (\<lambda>r. starts_with (pr_pending_device_id r) p \<or> starts_with (pr_pending_device_name r) p)
             (ap_pairing_requests s))
      | None \<Rightarrow> (case str_strip_prefix ''/theme '' input of
        Some p \<Rightarrow> map (\<lambda>t. ''/theme '' @ t)
          (filter (\<lambda>t. starts_with t p) (map theme_name [DefaultTheme, TerminalTheme]))
      | None \<Rightarrow> (case str_strip_prefix ''/sidebar '' input of
        Some p \<Rightarrow> map (\<lambda>a. ''/sidebar '' @ a) (filter (\<lambda>a. starts_with a p) [''hide'', ''show'', ''toggle''])
      | None \<Rightarrow> if CHR '' '' \<notin> set input then filter (\<lambda>c. starts_with c input) slash_commands else []))))"

definition refresh_completion :: "('a, 's) app \<Rightarrow> ('a, 's) app" where
  "refresh_completion s =
     (let input = ed_text (ap_editor s) in
      if ed_cursor (ap_editor s) \<noteq> length input \<or> \<not> starts_with input ''/'' \<or> starts_with input ''//''
      then s\<lparr>ap_completion := completion_default\<rparr>
      else (let candidates = completion_candidates s input;
                kept = Option.bind (completion_selected (ap_completion s))
                         (\<lambda>old. position (\<lambda>c. c = old) candidates)
            in s\<lparr>ap_completion := \<lparr>cs_candidates = candidates,
                 cs_selected = (case kept of Some i \<Rightarrow> i | None \<Rightarrow> 0)\<rparr>\<rparr>))"

definition apply_completion :: "('a, 's) app \<Rightarrow> ('a, 's) app" where
  "apply_completion s = (case completion_selected (ap_completion s) of
       Some candidate \<Rightarrow> s\<lparr>ap_editor := ed_set candidate (ap_editor s)\<rparr>
     | None \<Rightarrow> s)"

end
