(* ===== verification/App_Pairing.thy ===== *)
theory App_Pairing
  imports App_Contacts
begin

text \<open>
  Pairing a new device (\<open>crates/client/src/app.rs\<close>). The approving device starts it from a request, both
  users compare a short authentication string and confirm, and the approver then sends the master
  secret, the contacts and the history over the channel and activates the device. The pending device
  answers the events it receives.
\<close>

section \<open>The approving device\<close>

definition pairing_event :: "string \<Rightarrow> string \<Rightarrow> string \<Rightarrow> bytes \<Rightarrow> Body" where
  "pairing_event pairing_id target_device_id event_type payload = PairingEvent
     \<lparr>pe_pairing_id = pairing_id, pe_target_device_id = target_device_id, pe_event_type = event_type,
      pe_payload = payload, pe_sender_device_id = [], pe_server_event_id = 0, pe_sender_device_name = []\<rparr>"

definition requested_index :: "string option \<Rightarrow> PairingRequest_msg list \<Rightarrow> nat option" where
  "requested_index requested requests = (case requested of
       Some device \<Rightarrow> position (\<lambda>r. pr_pending_device_id r = device \<or> pr_pairing_id r = device) requests
     | None \<Rightarrow> if length requests = 1 then Some 0 else None)"

definition remove_at :: "nat \<Rightarrow> 'x list \<Rightarrow> 'x list" where
  "remove_at i xs = take i xs @ drop (Suc i) xs"

definition start_pairing :: "outside \<Rightarrow> ('a, 's, 'pa, 'ps) env \<Rightarrow> string option \<Rightarrow> ('a, 's, unit) act" where
  "start_pairing W E requested =
     await (view (\<lambda>s. (rp_pending (ap_profile s), ap_pairing s \<noteq> None,
              requested_index requested (ap_pairing_requests s)))) (\<lambda>(pending, busy, found).
     await (require_that (\<not> pending) PendingCannotApprove) (\<lambda>_.
     await (require_that (\<not> busy) PairingInProgress) (\<lambda>_.
     await (some_or_raise NoUniqueRequest found) (\<lambda>index.
     await (view (\<lambda>s. ap_pairing_requests s ! index)) (\<lambda>request.
     await (update (\<lambda>s. s\<lparr>ap_pairing_requests := remove_at index (ap_pairing_requests s)\<rparr>)) (\<lambda>_.
     await (some_or_raise RequestWithoutDevice (pr_pending_device request)) (\<lambda>pending_device.
     await (require_that (length (pr_sas_public_key request) = 32) InvalidPairingKey) (\<lambda>_.
     await (random_secret W) (\<lambda>secret.
     let state = pairing_new (en_crypto E) secret in
     await (lift (establish (en_crypto E) state (pr_sas_public_key request) (pr_pairing_id request))) (\<lambda>channel.
     await (notify W (pairing_event (pr_pairing_id request) (pr_pending_device_id request) ''sas_public''
              (ps_public state))) (\<lambda>_.
     await (update (\<lambda>s. s\<lparr>ap_pairing := Some \<lparr>pg_pairing_id = pr_pairing_id request,
        pg_peer_device_id = pr_pending_device_id request, pg_pending_device = pending_device,
        pg_channel = channel, pg_role = Approver, pg_our_confirmed = False, pg_peer_confirmed = False\<rparr>\<rparr>)) (\<lambda>_.
     await (find_notification E (pr_pairing_id request)) (\<lambda>n. case n of
         Some n \<Rightarrow> mark_notification_state W E (nt_id n) InProgress True
       | None \<Rightarrow> finish ())))))))))))))"

definition send_pairing_payload :: "outside \<Rightarrow> ('a, 's, 'pa, 'ps) env \<Rightarrow> PairingSession \<Rightarrow> string \<Rightarrow> bytes \<Rightarrow>
    ('a, 's, unit) act" where
  "send_pairing_payload W E pairing event_type plaintext =
     await (random_bytes W) (\<lambda>nonces.
     await (lift (channel_encrypt (en_crypto E) (pg_channel pairing) (nonces 0) (pg_pairing_id pairing) plaintext)) (\<lambda>payload.
     notify W (pairing_event (pg_pairing_id pairing) (pg_peer_device_id pairing) event_type payload)))"

definition send_history :: "outside \<Rightarrow> ('a, 's, 'pa, 'ps) env \<Rightarrow> PairingSession \<Rightarrow> ChatMessage list \<Rightarrow>
    ('a, 's, unit) act" where
  "send_history W E pairing history = for_each (chunks 4 history) (\<lambda>ms.
     await (lift (history_json E ms)) (\<lambda>encoded. send_pairing_payload W E pairing ''history_chunk'' encoded))"

definition finish_pairing_as_approver :: "outside \<Rightarrow> ('a, 's, 'pa, 'ps) env \<Rightarrow> ('a, 's, unit) act" where
  "finish_pairing_as_approver W E =
     await (view ap_pairing) (\<lambda>taken.
     await (update (\<lambda>s. s\<lparr>ap_pairing := None\<rparr>)) (\<lambda>_.
     await (some_or_raise NoPairing taken) (\<lambda>pairing.
     if \<not> pg_our_confirmed pairing \<or> \<not> pg_peer_confirmed pairing
     then await (update (\<lambda>s. s\<lparr>ap_pairing := Some pairing\<rparr>)) (\<lambda>_. raise NotBothConfirmed)
     else
       await (view (\<lambda>s. rp_identity (ap_profile s))) (\<lambda>identity.
       await (lift (certify_bundle (en_crypto E) identity (pg_pending_device pairing))) (\<lambda>device.
       await (some_or_raise NoMasterSecret (id_master identity)) (\<lambda>master_secret.
       await (view (\<lambda>s. export_contacts (ap_store s))) (\<lambda>exported.
       await (lift (bootstrap_json E \<lparr>bt_master_secret = master_secret, bt_contacts = exported\<rparr>)) (\<lambda>bootstrap.
       await (send_pairing_payload W E pairing ''bootstrap'' bootstrap) (\<lambda>_.
       await (view ap_vault) (\<lambda>v.
       await (store_get (export_messages (en_packages E) v)) (\<lambda>history.
       await (send_history W E pairing history) (\<lambda>_.
       await (send_pairing_payload W E pairing ''history_complete'' (as_bytes ''complete'')) (\<lambda>_.
       await (view (\<lambda>s. rp_username (ap_profile s))) (\<lambda>username.
       await (lookup_bundle_fresh W username) (\<lambda>self_bundle.
       let revision = ub_roster_revision self_bundle + 1 in
       await (lift (sign_roster (en_crypto E) identity revision (db_device_id device))) (\<lambda>roster_signature.
       await (rpc_request W (ActivateDevice \<lparr>act_pairing_id = pg_pairing_id pairing, act_device = Some device,
                act_roster_revision = revision, act_roster_signature = roster_signature\<rparr>)) (\<lambda>_.
       await (find_notification E (pg_pairing_id pairing)) (\<lambda>n. case n of
           Some n \<Rightarrow> mark_notification_state W E (nt_id n) Completed True
         | None \<Rightarrow> finish ()))))))))))))))))))"

section \<open>Confirming\<close>

definition sas_confirmed_text :: bytes where
  "sas_confirmed_text = as_bytes ''sas-confirmed''"

definition confirm_pairing :: "outside \<Rightarrow> ('a, 's, 'pa, 'ps) env \<Rightarrow> ('a, 's, unit) act" where
  "confirm_pairing W E =
     await (view ap_pairing) (\<lambda>found.
     await (some_or_raise NoPairing found) (\<lambda>pairing.
     if pg_our_confirmed pairing then finish ()
     else await (update (\<lambda>s. s\<lparr>ap_pairing := Some (pairing\<lparr>pg_our_confirmed := True\<rparr>)\<rparr>)) (\<lambda>_.
       (case pg_role pairing of
          Pending \<Rightarrow> send_pairing_payload W E pairing ''sas_confirmed'' sas_confirmed_text
        | Approver \<Rightarrow> if pg_peer_confirmed pairing then finish_pairing_as_approver W E else finish ()))))"

section \<open>Reconnecting\<close>

text \<open>
  The connection itself is made by a task of its own; its result comes back as an event
  (\<open>handle_reconnect_result\<close>).
\<close>

definition try_reconnect :: "outside \<Rightarrow> ('a, 's, 'pa, 'ps) env \<Rightarrow> ('a, 's, unit) act" where
  "try_reconnect W E s =
     (if ap_reconnect_in_flight s then finish () s
      else if rp_pending (ap_profile s)
      then await (instant_now W) (\<lambda>now. update (\<lambda>s. s\<lparr>ap_reconnect_at := now + 30000\<rparr>)) s
      else (case identity_to_bytes (identity_postcard (en_packages E)) (rp_identity (ap_profile s)) of
          Inl _ \<Rightarrow> finish () s
        | Inr _ \<Rightarrow> update (\<lambda>s. s\<lparr>ap_reconnect_in_flight := True\<rparr>) s))"

section \<open>Events of a pairing\<close>

text \<open>The name of an approver without one: U+65E7 U+8BBE U+5907, a space, eight characters of its id.\<close>

definition approver_name :: "PairingEvent_msg \<Rightarrow> string" where
  "approver_name event =
     (if trim (pe_sender_device_name event) = []
      then utf8_text [0xE6, 0x97, 0xA7, 0xE8, 0xAE, 0xBE, 0xE5, 0xA4, 0x87, 0x20]
           @ concat (take 8 (utf8_chars (pe_sender_device_id event)))
      else pe_sender_device_name event)"

definition on_sas_public :: "outside \<Rightarrow> ('a, 's, 'pa, 'ps) env \<Rightarrow> PairingEvent_msg \<Rightarrow> ('a, 's, unit) act" where
  "on_sas_public W E event =
     await (view (\<lambda>s. rp_pairing_secret (ap_profile s))) (\<lambda>found.
     await (some_or_raise MissingPairingSecret found) (\<lambda>secret.
     await (require_that (length (pe_payload event) = 32) InvalidPairingKey) (\<lambda>_.
     await (lift (establish (en_crypto E) (pairing_from_secret (en_crypto E) secret) (pe_payload event)
              (pe_pairing_id event))) (\<lambda>channel.
     await (update (\<lambda>s. s\<lparr>ap_pairing := Some \<lparr>pg_pairing_id = pe_pairing_id event,
        pg_peer_device_id = pe_sender_device_id event, pg_pending_device = default_device_bundle,
        pg_channel = channel, pg_role = Pending, pg_our_confirmed = False, pg_peer_confirmed = False\<rparr>\<rparr>)) (\<lambda>_.
     save_pending_pairing_notification W E (pe_pairing_id event) (pe_sender_device_id event)
       (approver_name event) (pe_payload event))))))"

definition on_sas_confirmed :: "outside \<Rightarrow> ('a, 's, 'pa, 'ps) env \<Rightarrow> PairingEvent_msg \<Rightarrow> ('a, 's, unit) act" where
  "on_sas_confirmed W E event =
     await (view ap_pairing) (\<lambda>found. case found of
         None \<Rightarrow> finish ()
       | Some pairing \<Rightarrow>
           await (require_that (pg_pairing_id pairing = pe_pairing_id event) ConfirmationFailed) (\<lambda>_.
           await (lift (channel_decrypt (en_crypto E) (pg_channel pairing) (pg_pairing_id pairing) (pe_payload event))) (\<lambda>plaintext.
           await (require_that (plaintext = sas_confirmed_text) ConfirmationFailed) (\<lambda>_.
           await (update (\<lambda>s. s\<lparr>ap_pairing := Some (pairing\<lparr>pg_peer_confirmed := True\<rparr>)\<rparr>)) (\<lambda>_.
           if pg_our_confirmed pairing \<and> pg_role pairing = Approver
           then finish_pairing_as_approver W E else finish ())))))"

definition on_bootstrap :: "outside \<Rightarrow> ('a, 's, 'pa, 'ps) env \<Rightarrow> PairingEvent_msg \<Rightarrow> ('a, 's, unit) act" where
  "on_bootstrap W E event =
     await (view ap_pairing) (\<lambda>found.
     await (some_or_raise NoPairing found) (\<lambda>pairing.
     await (require_that (pg_our_confirmed pairing) MigrationBeforeConfirmation) (\<lambda>_.
     await (lift (channel_decrypt (en_crypto E) (pg_channel pairing) (pg_pairing_id pairing) (pe_payload event))) (\<lambda>plaintext.
     await (lift (bootstrap_unjson E plaintext)) (\<lambda>transfer.
     await (view (\<lambda>s. rp_account_master_public (ap_profile s))) (\<lambda>expected.
     await (require_that (ed_public (en_crypto E) (bt_master_secret transfer) = expected) MasterMismatch) (\<lambda>_.
     await (update (\<lambda>s. s\<lparr>ap_profile := (ap_profile s)\<lparr>rp_identity :=
        install_master_secret (bt_master_secret transfer) (rp_identity (ap_profile s))\<rparr>\<rparr>)) (\<lambda>_.
     await (now_ms W) (\<lambda>now.
     await (store_try (import_contacts (en_packages E) now (bt_contacts transfer))) (\<lambda>_.
     await (reload_contacts E) (\<lambda>_.
     await (now_ms W) (\<lambda>now.
     await (random_bytes W) (\<lambda>nonces.
     await (view (\<lambda>s. (ap_vault s, ap_profile s))) (\<lambda>(v, p).
     store_try (save_profile (en_packages E) now (nonces 0) v p)))))))))))))))"

definition on_history_chunk :: "outside \<Rightarrow> ('a, 's, 'pa, 'ps) env \<Rightarrow> PairingEvent_msg \<Rightarrow> ('a, 's, unit) act" where
  "on_history_chunk W E event =
     await (view ap_pairing) (\<lambda>found.
     await (some_or_raise NoPairing found) (\<lambda>pairing.
     await (lift (channel_decrypt (en_crypto E) (pg_channel pairing) (pg_pairing_id pairing) (pe_payload event))) (\<lambda>plaintext.
     await (lift (history_unjson E plaintext)) (\<lambda>ms.
     await (random_bytes W) (\<lambda>nonces. \<lambda>s.
       (case import_messages (en_packages E) nonces (ap_vault s) ms (ap_store s) of
          (Inl e, d) \<Rightarrow> (Inl (Inner e), s\<lparr>ap_store := d\<rparr>)
        | (Inr _, d) \<Rightarrow> (Inr (), s\<lparr>ap_store := d\<rparr>)))))))"

definition on_device_activated :: "outside \<Rightarrow> ('a, 's, 'pa, 'ps) env \<Rightarrow> PairingEvent_msg \<Rightarrow> ('a, 's, unit) act" where
  "on_device_activated W E event =
     await (view (\<lambda>s. has_master_secret (rp_identity (ap_profile s)))) (\<lambda>has_master.
     await (require_that has_master NoMasterSecret) (\<lambda>_.
     await (update (\<lambda>s. s\<lparr>ap_profile := (ap_profile s)\<lparr>rp_pending := False, rp_pairing_secret := None\<rparr>\<rparr>)) (\<lambda>_.
     await (now_ms W) (\<lambda>now.
     await (random_bytes W) (\<lambda>nonces.
     await (view (\<lambda>s. (ap_vault s, ap_profile s))) (\<lambda>(v, p).
     await (store_try (save_profile (en_packages E) now (nonces 0) v p)) (\<lambda>_.
     await (find_notification E (pe_pairing_id event)) (\<lambda>n.
     await (case n of Some n \<Rightarrow> mark_notification_state W E (nt_id n) Completed True | None \<Rightarrow> finish ()) (\<lambda>_.
     await (update (\<lambda>s. s\<lparr>ap_pairing := None, ap_connected := False, ap_background_requests := [],
        ap_background_deadlines := [], ap_sync_in_flight := False\<rparr>)) (\<lambda>_.
     await (instant_now W) (\<lambda>now.
     await (update (\<lambda>s. s\<lparr>ap_reconnect_at := now, ap_post_activation_sync := True\<rparr>)) (\<lambda>_.
     try_reconnect W E))))))))))))"

definition handle_pairing_event :: "outside \<Rightarrow> ('a, 's, 'pa, 'ps) env \<Rightarrow> PairingEvent_msg \<Rightarrow> ('a, 's, unit) act" where
  "handle_pairing_event W E event s =
     (let pending = rp_pending (ap_profile s) in
      if pe_event_type event = ''sas_public'' \<and> pending then on_sas_public W E event s
      else if pe_event_type event = ''sas_confirmed'' then on_sas_confirmed W E event s
      else if pe_event_type event = ''bootstrap'' \<and> pending then on_bootstrap W E event s
      else if pe_event_type event = ''history_chunk'' \<and> pending then on_history_chunk W E event s
      else if pe_event_type event = ''device_activated'' \<and> pending then on_device_activated W E event s
      else finish () s)"

section \<open>Notifications of a pairing\<close>

definition activate_selected_notification :: "outside \<Rightarrow> ('a, 's, 'pa, 'ps) env \<Rightarrow> ('a, 's, unit) act" where
  "activate_selected_notification W E =
     await (view selected_notification) (\<lambda>selected. case selected of
         None \<Rightarrow> finish ()
       | Some n \<Rightarrow>
           await (mark_read W (nt_id n)) (\<lambda>_. case nt_kind n of
               KindPairing \<Rightarrow> (case nt_data n of
                   PairingNotice p \<Rightarrow>
                     if pd_pending_side p
                     then await (view (\<lambda>s. case ap_pairing s of None \<Rightarrow> False
                                  | Some g \<Rightarrow> pg_pairing_id g = pd_pairing_id p)) (\<lambda>established.
                       if established then confirm_pairing W E else raise ChannelNotEstablished)
                     else await (lift (device_decode E (pd_pending_device p))) (\<lambda>device.
                       await (update (\<lambda>s.
                         if \<exists>r \<in> set (ap_pairing_requests s). pr_pairing_id r = pd_pairing_id p then s
                         else s\<lparr>ap_pairing_requests := ap_pairing_requests s @ [\<lparr>pr_pairing_id = pd_pairing_id p,
                           pr_pending_device_id = pd_pending_device_id p,
                           pr_pending_device_name = pd_pending_device_name p,
                           pr_sas_public_key = pd_sas_public_key p, pr_pending_device = Some device\<rparr>]\<rparr>)) (\<lambda>_.
                       await (start_pairing W E (Some (pd_pairing_id p))) (\<lambda>_.
                       mark_notification_state W E (nt_id n) InProgress True)))
                 | _ \<Rightarrow> raise InvalidNotificationData)
             | KindChatRequest \<Rightarrow> accept_chat_request W E n
             | KindChatResponse \<Rightarrow> finish ()))"

definition activate_notification_primary :: "outside \<Rightarrow> ('a, 's, 'pa, 'ps) env \<Rightarrow> ('a, 's, unit) act" where
  "activate_notification_primary W E =
     await (view (\<lambda>s. (selected_notification s, ap_pairing s))) (\<lambda>(selected, pairing). case selected of
         None \<Rightarrow> finish ()
       | Some n \<Rightarrow>
           if nt_kind n = KindPairing \<and> nt_state n = InProgress
              \<and> (case pairing of None \<Rightarrow> False | Some g \<Rightarrow> pg_pairing_id g = nt_request_id n)
           then confirm_pairing W E
           else if nt_kind n = KindChatResponse \<and> nt_state n = Accepted
           then verify_notification_contact W E n
           else activate_selected_notification W E)"

definition open_notification_tab :: "outside \<Rightarrow> ('a, 's, 'pa, 'ps) env \<Rightarrow> ('a, 's, unit) act" where
  "open_notification_tab W E =
     await (update (\<lambda>s. s\<lparr>ap_sidebar_tab := NotificationsTab,
        ap_focus := (if ap_sidebar_collapsed s then Messages else Conversations),
        ap_notification_selected := (if ap_notification_selected s = None \<and> ap_notifications s \<noteq> []
          then Some 0 else ap_notification_selected s)\<rparr>)) (\<lambda>_.
     await (view selected_notification) (\<lambda>selected.
     await (case selected of
         Some n \<Rightarrow> if nt_read n then finish ()
           else await (mark_read W (nt_id n)) (\<lambda>_. refresh_notifications E)
       | None \<Rightarrow> finish ()) (\<lambda>_.
     ignore (reconcile_pairing_notifications W))))"

end
