(* ===== verification/App_Receive.thy ===== *)
theory App_Receive
  imports App_Pairing
begin

text \<open>
  Everything the application does with what the server sends (\<open>crates/client/src/app.rs\<close>): a batch of
  envelopes, the other events, the result of a reconnection, and the periodic service step.

  An envelope is opened with a copy of the Olm machine. Each kind of payload has its own branch, and
  each branch ends with one transaction that stores the effect, the new machine and the cursor; only
  then is the envelope acknowledged.
\<close>

section \<open>Opening an envelope\<close>

text \<open>What the branches use: the opened payload and the machine after decryption.\<close>

record ('a, 's) incoming =
  in_stored :: StoredEnvelope
  in_envelope :: EncryptedEnvelope
  in_bundle :: UserBundle_msg
  in_self :: bool
  in_verified :: bool
  in_payload :: WirePayload
  in_machine :: "('a, 's) OlmMachine"

definition decrypt_with :: "('a, 's, 'pa, 'ps) env \<Rightarrow> ('a, 's) OlmMachine \<Rightarrow> StoredEnvelope \<Rightarrow> EncryptedEnvelope \<Rightarrow>
    DeviceBundle \<Rightarrow> ('a, 's, bytes \<times> ('a, 's) OlmMachine) act" where
  "decrypt_with E machine stored envelope sender =
     (case machine_decrypt (en_olm E) (se_sender_device_id stored) (db_olm_curve25519_key sender)
         \<lparr>eo_message_type = env_olm_message_type envelope, eo_ciphertext = env_ciphertext envelope\<rparr> machine of
        (Inl e, _) \<Rightarrow> raise (Inner e)
      | (Inr plaintext, machine') \<Rightarrow> finish (plaintext, machine'))"

definition open_envelope :: "outside \<Rightarrow> ('a, 's, 'pa, 'ps) env \<Rightarrow> StoredEnvelope \<Rightarrow>
    ('a, 's, ('a, 's) incoming) act" where
  "open_envelope W E stored =
     await (some_or_raise EnvelopeMissing (se_envelope stored)) (\<lambda>envelope.
     await (lookup_bundle W (se_sender_username stored)) (\<lambda>bundle.
     await (view (\<lambda>s. se_sender_account_id stored = own_account s)) (\<lambda>sender_is_self.
     await (if sender_is_self then finish True
            else await (put_bundle W E bundle) (\<lambda>c. finish (ct_verified c))) (\<lambda>verified.
     await (lift_app (validate_bundle (en_crypto E) bundle)) (\<lambda>_.
     await (some_or_raise SenderDeviceNotCertified
              (find (\<lambda>d. db_device_id d = se_sender_device_id stored \<and> \<not> db_revoked d) (ub_devices bundle))) (\<lambda>sender.
     await (lift (verify_device_bundle (en_crypto E) (ub_account_master_key bundle) (ub_account_id bundle) sender)) (\<lambda>_.
     await (view (copy_machine E)) (\<lambda>copy.
     await (lift copy) (\<lambda>machine.
     await (require_that (length (db_olm_curve25519_key sender) = 32) InvalidDeviceCurveKey) (\<lambda>_.
     await (decrypt_with E machine stored envelope sender) (\<lambda>(plaintext, next_machine).
     await (lift (wire_unjson E plaintext)) (\<lambda>payload.
     await (require_that (wire_metadata_matches payload (se_sender_account_id stored)
              (se_sender_username stored) (env_logical_message_id envelope)
              (env_client_sent_at_ms envelope)) PayloadRejected) (\<lambda>_.
     finish \<lparr>in_stored = stored, in_envelope = envelope, in_bundle = bundle, in_self = sender_is_self,
       in_verified = verified, in_payload = payload, in_machine = next_machine\<rparr>)))))))))))))"

section \<open>The common end of every branch\<close>

definition ack_envelope :: "outside \<Rightarrow> ('a, 's) incoming \<Rightarrow> ('a, 's, unit) act" where
  "ack_envelope W x = notify W (AckEnvelope \<lparr>ack_envelope_id = env_envelope_id (in_envelope x),
     ack_cursor = se_cursor (in_stored x)\<rparr>)"

definition commit_and_ack :: "outside \<Rightarrow> ('a, 's) incoming \<Rightarrow>
    (i64 \<Rightarrow> (nat \<Rightarrow> bytes) \<Rightarrow> VaultSession \<Rightarrow> ('a, 's) RuntimeProfile \<Rightarrow> local_db \<Rightarrow> local_db result) \<Rightarrow>
    ('a, 's, unit) act" where
  "commit_and_ack W x commit = await (commit_machine W (in_machine x) commit) (\<lambda>_. ack_envelope W x)"

definition commit_control_and_ack :: "outside \<Rightarrow> ('a, 's, 'pa, 'ps) env \<Rightarrow> ('a, 's) incoming \<Rightarrow> ('a, 's, unit) act" where
  "commit_control_and_ack W E x = commit_and_ack W x (\<lambda>now nonces v p.
     commit_control (en_packages E) now (nonces 0) v p (se_cursor (in_stored x)))"

section \<open>Deletion of a conversation by another own device\<close>

definition received_tombstone :: "('a, 's) incoming \<Rightarrow> ConversationTombstone" where
  "received_tombstone x = \<lparr>cb_peer_account_id = wp_peer_account_id (in_payload x),
     cb_peer_username = wp_text (in_payload x), cb_conversation_id = env_conversation_id (in_envelope x),
     cb_sync_event_id = wp_message_id (in_payload x), cb_deleted_at_ms = wp_sent_at_ms (in_payload x)\<rparr>"

definition deletion_event_ok :: "('a, 's, 'pa, 'ps) env \<Rightarrow> ('a, 's) incoming \<Rightarrow> ('a, 's) app \<Rightarrow> bool" where
  "deletion_event_ok E x s \<longleftrightarrow> (let p = in_payload x in
     in_self x \<and> wp_peer_account_id p \<noteq> own_account s \<and> trim (wp_text p) \<noteq> []
     \<and> length (utf8_chars (wp_text p)) \<le> 128
     \<and> env_conversation_id (in_envelope x) = conversation_with E s (wp_peer_account_id p))"

definition receive_deletion :: "outside \<Rightarrow> ('a, 's, 'pa, 'ps) env \<Rightarrow> ('a, 's) incoming \<Rightarrow> ('a, 's, unit) act" where
  "receive_deletion W E x =
     await (view (deletion_event_ok E x)) (\<lambda>valid.
     await (require_that valid InvalidDeletionEvent) (\<lambda>_.
     await (view (\<lambda>s. map_option contact_account (selected_contact s))) (\<lambda>selected_account.
     let tombstone = received_tombstone x; peer = cb_peer_account_id tombstone in
     await (commit_and_ack W x (\<lambda>now nonces v p.
        commit_conversation_deletion (en_packages E) now (nonces 0) v p tombstone (se_cursor (in_stored x)))) (\<lambda>_.
     await (update (\<lambda>s. s\<lparr>ap_bundle_cache := AList.delete (cb_peer_username tombstone) (ap_bundle_cache s)\<rparr>)) (\<lambda>_.
     await (reload_contacts E) (\<lambda>_.
     await (update (\<lambda>s. s\<lparr>ap_selected := (case selected_account of
          Some a \<Rightarrow> if a \<noteq> peer then position (\<lambda>c. contact_account c = a) (ap_contacts s) else None
        | None \<Rightarrow> None)\<rparr>)) (\<lambda>_.
     await (update (\<lambda>s. if selected_account = Some peer then forget_conversation s else s)) (\<lambda>_.
     refresh_notifications E))))))))"

section \<open>Text of a sender that is not verified\<close>

definition reauth_request_id :: "('a, 's) incoming \<Rightarrow> string" where
  "reauth_request_id x = ''reauth-'' @ env_conversation_id (in_envelope x)"

definition quarantined_message :: "('a, 's) incoming \<Rightarrow> ChatMessage" where
  "quarantined_message x = \<lparr>cm_id = wp_message_id (in_payload x),
     cm_conversation_id = env_conversation_id (in_envelope x),
     cm_peer_account_id = se_sender_account_id (in_stored x),
     cm_sender_account_id = se_sender_account_id (in_stored x), cm_body = wp_text (in_payload x),
     cm_sent_at_ms = wp_sent_at_ms (in_payload x), cm_status = Delivered, cm_inbound = True\<rparr>"

definition still_open :: "Notification \<Rightarrow> bool" where
  "still_open n \<longleftrightarrow> nt_state n \<in> {Accepted, InProgress}"

definition reauth_notification :: "outside \<Rightarrow> ('a, 's, 'pa, 'ps) env \<Rightarrow> ('a, 's) incoming \<Rightarrow>
    i64 \<Rightarrow> Notification option \<Rightarrow> ('a, 's, Notification) act" where
  "reauth_notification W E x now previous =
     (if (case previous of Some n \<Rightarrow> still_open n | None \<Rightarrow> False)
      then finish ((the previous)\<lparr>nt_updated_at_ms := now\<rparr>)
      else await (id_of_old W previous) (\<lambda>ident. finish
        \<lparr>nt_id = ident, nt_kind = KindChatRequest, nt_request_id = reauth_request_id x,
         nt_actor_account_id = ub_account_id (in_bundle x), nt_actor_username = ub_username (in_bundle x),
         nt_actor_device_id = se_sender_device_id (in_stored x), nt_state = StatePending, nt_read = False,
         nt_created_at_ms = (case previous of
             Some n \<Rightarrow> if nt_state n = StatePending then nt_created_at_ms n else now | None \<Rightarrow> now),
         nt_updated_at_ms = now,
         nt_data = ChatRequestNotice \<lparr>rd_outgoing = False, rd_request_id = reauth_request_id x,
           rd_sender_account_id = ub_account_id (in_bundle x), rd_sender_username = ub_username (in_bundle x),
           rd_sender_device_id = se_sender_device_id (in_stored x),
           rd_sender_bundle = bundle_encode (en_packages E) (in_bundle x)\<rparr>\<rparr>))"

definition receive_unverified :: "outside \<Rightarrow> ('a, 's, 'pa, 'ps) env \<Rightarrow> ('a, 's) incoming \<Rightarrow> ('a, 's, unit) act" where
  "receive_unverified W E x =
     await (view own_account) (\<lambda>account.
     await (require_that (wp_kind (in_payload x) = ''text'' \<and> length (wp_text (in_payload x)) \<le> MAX_TEXT_BYTES
              \<and> wp_peer_account_id (in_payload x) = account) InvalidUnverifiedText) (\<lambda>_.
     await (now_ms W) (\<lambda>now.
     await (find_notification E (reauth_request_id x)) (\<lambda>previous.
     await (reauth_notification W E x now previous) (\<lambda>notification.
     await (commit_and_ack W x (\<lambda>now nonces v p. commit_unverified_inbound (en_packages E) now
              (nonces 0, nonces 1, nonces 2) v p (quarantined_message x) notification
              (se_cursor (in_stored x)))) (\<lambda>_.
     await (reload_contacts E) (\<lambda>_.
     refresh_notifications E)))))))"

section \<open>Read receipts\<close>

definition receipt_ids :: "WirePayload \<Rightarrow> app_error + string list" where
  "receipt_ids p =
     (if wp_kind p = ''read''
      then (case wp_related_message_id p of None \<Rightarrow> Inl ReceiptWithoutId | Some i \<Rightarrow> Inr [i])
      else Inr (wp_related_message_ids p))"

definition apply_receipt :: "string \<Rightarrow> string \<Rightarrow> ('a, 's, unit) act" where
  "apply_receipt sender related =
     await (store_run (update_outbound_status_for_peer related sender Read)) (\<lambda>_.
     update (\<lambda>s. s\<lparr>ap_messages := update_first
        (\<lambda>m. cm_id m = related \<and> \<not> cm_inbound m \<and> cm_peer_account_id m = sender)
        (\<lambda>m. m\<lparr>cm_status := Read\<rparr>) (ap_messages s)\<rparr>))"

definition receive_receipts :: "outside \<Rightarrow> ('a, 's, 'pa, 'ps) env \<Rightarrow> ('a, 's) incoming \<Rightarrow> ('a, 's, unit) act" where
  "receive_receipts W E x =
     await (lift_app (receipt_ids (in_payload x))) (\<lambda>related_ids.
     await (require_that (related_ids \<noteq> [] \<and> length related_ids \<le> 100) InvalidReceiptBatch) (\<lambda>_.
     await (for_each related_ids (apply_receipt (se_sender_account_id (in_stored x)))) (\<lambda>_.
     commit_control_and_ack W E x)))"

section \<open>Chat requests\<close>

definition receive_own_request :: "outside \<Rightarrow> ('a, 's, 'pa, 'ps) env \<Rightarrow> ('a, 's) incoming \<Rightarrow> ('a, 's, unit) act" where
  "receive_own_request W E x = (let p = in_payload x in
     await (view own_account) (\<lambda>account.
     await (require_that (wp_peer_account_id p \<noteq> account \<and> trim (wp_text p) \<noteq> []) InvalidRequestMetadata) (\<lambda>_.
     await (lookup_bundle W (trim (wp_text p))) (\<lambda>peer.
     await (require_that (ub_account_id peer = wp_peer_account_id p) RequestPeerMismatch) (\<lambda>_.
     await (lift_app (validate_bundle (en_crypto E) peer)) (\<lambda>_.
     await (put_bundle W E peer) (\<lambda>_.
     save_outgoing_chat_request_notification W E (wp_message_id p) peer
       (se_sender_device_id (in_stored x)) False)))))))"

definition receive_peer_request :: "outside \<Rightarrow> ('a, 's, 'pa, 'ps) env \<Rightarrow> ('a, 's) incoming \<Rightarrow> ('a, 's, unit) act" where
  "receive_peer_request W E x = (let p = in_payload x in
     await (view own_account) (\<lambda>account.
     await (require_that (wp_peer_account_id p = account \<and> wp_text p = []) InvalidRequestMetadata) (\<lambda>_.
     save_chat_request_notification W E (wp_message_id p) (in_bundle x) (se_sender_device_id (in_stored x)))))"

definition receive_chat_request :: "outside \<Rightarrow> ('a, 's, 'pa, 'ps) env \<Rightarrow> ('a, 's) incoming \<Rightarrow> ('a, 's, unit) act" where
  "receive_chat_request W E x =
     await (if in_self x then receive_own_request W E x else receive_peer_request W E x) (\<lambda>_.
     await (reload_contacts E) (\<lambda>_.
     commit_control_and_ack W E x))"

section \<open>Answers to chat requests\<close>

text \<open>The contact an answer is about, when no notification of the request is stored.\<close>

definition response_peer :: "outside \<Rightarrow> ('a, 's, 'pa, 'ps) env \<Rightarrow> ('a, 's) incoming \<Rightarrow>
    ('a, 's, UserBundle_msg option) act" where
  "response_peer W E x = (let p = in_payload x in
     if \<not> in_self x then finish (Some (in_bundle x))
     else if trim (wp_peer_username p) = [] then finish None
     else
       await (lookup_bundle W (trim (wp_peer_username p))) (\<lambda>peer.
       await (require_that (ub_account_id peer = wp_peer_account_id p) ResponsePeerMismatch) (\<lambda>_.
       await (lift_app (validate_bundle (en_crypto E) peer)) (\<lambda>_.
       finish (Some peer)))))"

definition response_notification :: "outside \<Rightarrow> ('a, 's, 'pa, 'ps) env \<Rightarrow> ('a, 's) incoming \<Rightarrow> string \<Rightarrow>
    ('a, 's, Notification option) act" where
  "response_notification W E x request_id =
     await (find_notification E request_id) (\<lambda>stored. case stored of
         Some n \<Rightarrow> finish (Some n)
       | None \<Rightarrow>
           await (response_peer W E x) (\<lambda>found. case found of
               None \<Rightarrow> finish None
             | Some peer \<Rightarrow>
                 await (put_bundle W E peer) (\<lambda>_.
                 await (now_ms W) (\<lambda>now.
                 await (new_uuid W) (\<lambda>ident.
                 finish (Some (synthetic_chat_request_notification ident (bundle_encode (en_packages E) peer)
                   request_id peer (se_sender_device_id (in_stored x)) (\<not> in_self x) now)))))))"

definition apply_response :: "outside \<Rightarrow> ('a, 's, 'pa, 'ps) env \<Rightarrow> ('a, 's) incoming \<Rightarrow> Notification \<Rightarrow>
    ('a, 's, unit) act" where
  "apply_response W E x n = (let p = in_payload x in
     await (require_that (chat_response_actor_matches (in_self x) (nt_actor_account_id n)
              (wp_peer_account_id p) (se_sender_account_id (in_stored x))) ResponseActorMismatch) (\<lambda>_.
     await (lift_app (chat_decision_state (wp_text p))) (\<lambda>st.
     await (save_chat_response_notification W E n (st = Accepted) True) (\<lambda>_.
     await (reload_contacts E) (\<lambda>_.
     update (\<lambda>s. if wp_text p = ''accepted''
       then s\<lparr>ap_selected := position (\<lambda>c. contact_account c = nt_actor_account_id n) (ap_contacts s)\<rparr>
       else s))))))"

definition receive_chat_response :: "outside \<Rightarrow> ('a, 's, 'pa, 'ps) env \<Rightarrow> ('a, 's) incoming \<Rightarrow> ('a, 's, unit) act" where
  "receive_chat_response W E x = (let p = in_payload x in
     await (some_or_raise ResponseWithoutId (wp_related_message_id p)) (\<lambda>request_id.
     await (view own_account) (\<lambda>account.
     await (require_that ((in_self x \<longleftrightarrow> wp_peer_account_id p \<noteq> account)
              \<and> wp_text p \<in> {''accepted'', ''rejected''}) InvalidResponseMetadata) (\<lambda>_.
     await (response_notification W E x request_id) (\<lambda>found.
     await (case found of None \<Rightarrow> finish () | Some n \<Rightarrow> apply_response W E x n) (\<lambda>_.
     commit_control_and_ack W E x))))))"

section \<open>Text\<close>

definition received_message :: "('a, 's) incoming \<Rightarrow> ChatMessage" where
  "received_message x = \<lparr>cm_id = wp_message_id (in_payload x),
     cm_conversation_id = env_conversation_id (in_envelope x),
     cm_peer_account_id = (if in_self x then wp_peer_account_id (in_payload x)
                           else se_sender_account_id (in_stored x)),
     cm_sender_account_id = se_sender_account_id (in_stored x), cm_body = wp_text (in_payload x),
     cm_sent_at_ms = wp_sent_at_ms (in_payload x), cm_status = Delivered, cm_inbound = \<not> in_self x\<rparr>"

definition show_message :: "unicode \<Rightarrow> ChatMessage \<Rightarrow> ('a, 's) app \<Rightarrow> ('a, 's) app" where
  "show_message U m s =
     (if \<exists>k \<in> set (ap_messages s). cm_id k = cm_id m then s
      else (let s' = (if 0 < ap_message_scroll s
                 then s\<lparr>ap_message_scroll := ap_message_scroll s + visual_lines_for_messages U s [m],
                        ap_new_messages_below := ap_new_messages_below s + 1\<rparr>
                 else s)
            in s'\<lparr>ap_messages := ap_messages s' @ [m]\<rparr>))"

definition receive_text :: "outside \<Rightarrow> ('a, 's, 'pa, 'ps) env \<Rightarrow> ('a, 's) incoming \<Rightarrow> ('a, 's, unit) act" where
  "receive_text W E x =
     await (require_that (wp_kind (in_payload x) = ''text'') UnknownKind) (\<lambda>_.
     await (view own_account) (\<lambda>account.
     await (require_that (length (wp_text (in_payload x)) \<le> MAX_TEXT_BYTES
              \<and> (in_self x \<or> wp_peer_account_id (in_payload x) = account)) InvalidText) (\<lambda>_.
     let message = received_message x in
     await (commit_and_ack W x (\<lambda>now nonces v p. commit_inbound (en_packages E) now
              (nonces 0, nonces 1) v p message (se_cursor (in_stored x)))) (\<lambda>_.
     await (view (\<lambda>s. case selected_contact s of None \<Rightarrow> False
              | Some c \<Rightarrow> conversation_with E s (contact_account c) = cm_conversation_id message)) (\<lambda>selected_conversation.
     if \<not> selected_conversation then finish ()
     else
       await (update (show_message (en_unicode E) message)) (\<lambda>_.
       await (view (\<lambda>s. should_send_read_receipt (ap_terminal_focused s) (\<not> in_self x) selected_conversation)) (\<lambda>wanted.
       if \<not> wanted then finish ()
       else await (outcome (send_read_receipts W E (in_bundle x) [cm_id message])) (\<lambda>sent. case sent of
           Inl _ \<Rightarrow> finish ()
         | Inr _ \<Rightarrow> mark_one_read (cm_id message)))))))))"

section \<open>A batch\<close>

definition is_control :: "string \<Rightarrow> bool" where
  "is_control kind \<longleftrightarrow> kind \<in> {''read'', ''read_batch'', ''chat_request'', ''chat_response''}"

definition dispatch_payload :: "outside \<Rightarrow> ('a, 's, 'pa, 'ps) env \<Rightarrow> ('a, 's) incoming \<Rightarrow> ('a, 's, unit) act" where
  "dispatch_payload W E x = (let kind = wp_kind (in_payload x) in
     if kind = ''conversation_deleted'' then receive_deletion W E x
     else
       await (view (\<lambda>s. conversation_tombstoned (if in_self x then wp_peer_account_id (in_payload x)
                else se_sender_account_id (in_stored x)) (ap_store s))) (\<lambda>tombstoned.
       if in_self x \<and> tombstoned \<and> kind = ''text'' then commit_control_and_ack W E x
       else if \<not> (in_verified x \<and> \<not> tombstoned) \<and> \<not> is_control kind then receive_unverified W E x
       else if kind = ''read'' \<or> kind = ''read_batch'' then receive_receipts W E x
       else if kind = ''chat_request'' then receive_chat_request W E x
       else if kind = ''chat_response'' then receive_chat_response W E x
       else receive_text W E x))"

definition receive_envelope :: "outside \<Rightarrow> ('a, 's, 'pa, 'ps) env \<Rightarrow> StoredEnvelope \<Rightarrow> ('a, 's, unit) act" where
  "receive_envelope W E stored = await (open_envelope W E stored) (dispatch_payload W E)"

text \<open>The loop, with the cursor after the last envelope.\<close>

fun receive_envelopes :: "outside \<Rightarrow> ('a, 's, 'pa, 'ps) env \<Rightarrow> u64 \<Rightarrow> StoredEnvelope list \<Rightarrow> ('a, 's, u64) act" where
  "receive_envelopes W E cursor [] = finish cursor"
| "receive_envelopes W E cursor (stored # rest) =
     (if se_cursor stored \<le> cursor then receive_envelopes W E cursor rest
      else await (receive_envelope W E stored) (\<lambda>_. receive_envelopes W E (se_cursor stored) rest))"

fun receive_updates :: "u64 \<Rightarrow> StoredDeliveryUpdate list \<Rightarrow> ('a, 's, u64) act" where
  "receive_updates status_cursor [] = finish status_cursor"
| "receive_updates status_cursor (u # us) =
     await (case sdu_update u of
         Some d \<Rightarrow> store_run (update_status (du_logical_message_id d) Delivered)
       | None \<Rightarrow> finish ()) (\<lambda>_. receive_updates (sdu_cursor u) us)"

definition handle_sync_batch :: "outside \<Rightarrow> ('a, 's, 'pa, 'ps) env \<Rightarrow> SyncBatch_msg \<Rightarrow> ('a, 's, unit) act" where
  "handle_sync_batch W E batch =
     await (view (\<lambda>s. cursors (ap_store s))) (\<lambda>(cursor, status_cursor).
     await (receive_updates status_cursor (sb_delivery_updates batch)) (\<lambda>status_cursor.
     await (receive_envelopes W E cursor (sb_envelopes batch)) (\<lambda>cursor.
     await (store_run (set_cursors cursor (max status_cursor (sb_next_status_cursor batch)))) (\<lambda>_.
     refresh_contacts_preserve_selection E))))"

section \<open>Events of the server\<close>

definition take_request :: "string \<Rightarrow> ('a, 's, BackgroundRequest option) act" where
  "take_request i s =
     (if i = [] then finish None s
      else await (view (\<lambda>s. map_of (ap_background_requests s) i)) (\<lambda>pending.
        await (update (\<lambda>s. s\<lparr>ap_background_deadlines := AList.delete i (ap_background_deadlines s),
                 ap_background_requests := AList.delete i (ap_background_requests s)\<rparr>)) (\<lambda>_.
        finish pending)) s)"

definition on_sync_batch :: "outside \<Rightarrow> ('a, 's, 'pa, 'ps) env \<Rightarrow> BackgroundRequest option \<Rightarrow> SyncBatch_msg \<Rightarrow>
    ('a, 's, unit) act" where
  "on_sync_batch W E pending batch =
     await (update (\<lambda>s. if pending = Some BgSync \<or> \<not> any_request (\<lambda>r. r = BgSync) s
        then s\<lparr>ap_sync_in_flight := False\<rparr> else s)) (\<lambda>_.
     handle_sync_batch W E batch)"

definition on_send_accepted :: "SendAccepted_msg \<Rightarrow> ('a, 's, unit) act" where
  "on_send_accepted a = (let i = acc_logical_message_id a in
     await (update (\<lambda>s. s\<lparr>ap_blocked_outbox := removeAll i (ap_blocked_outbox s),
        ap_outbox_retry_after := AList.delete i (ap_outbox_retry_after s)\<rparr>)) (\<lambda>_.
     complete_outbox i))"

definition on_own_devices :: "OwnDeviceInfo list \<Rightarrow> ('a, 's) app \<Rightarrow> ('a, 's) app" where
  "on_own_devices devices s = s\<lparr>ap_own_devices := devices,
     ap_own_device_selected := min (ap_own_device_selected s) (length devices - 1),
     ap_device_manager_visible := True\<rparr>"

definition on_delivery_update :: "DeliveryUpdate \<Rightarrow> ('a, 's, unit) act" where
  "on_delivery_update u =
     await (store_run (update_status (du_logical_message_id u) Delivered)) (\<lambda>_.
     update (raise_status (du_logical_message_id u) Delivered))"

definition on_pairing_request :: "outside \<Rightarrow> ('a, 's, 'pa, 'ps) env \<Rightarrow> PairingRequest_msg \<Rightarrow> ('a, 's, unit) act" where
  "on_pairing_request W E request =
     await (save_pairing_notification W E request) (\<lambda>_.
     update (\<lambda>s. if \<exists>r \<in> set (ap_pairing_requests s). pr_pairing_id r = pr_pairing_id request then s
       else s\<lparr>ap_pairing_requests := ap_pairing_requests s @ [request]\<rparr>))"

definition on_pairing_event :: "outside \<Rightarrow> ('a, 's, 'pa, 'ps) env \<Rightarrow> PairingEvent_msg \<Rightarrow> ('a, 's, unit) act" where
  "on_pairing_event W E event = (let i = pe_server_event_id event in
     await (view (\<lambda>s. i = 0 \<or> \<not> pairing_event_processed i (ap_store s))) (\<lambda>fresh.
     await (if \<not> fresh then finish ()
            else await (handle_pairing_event W E event) (\<lambda>_.
              if i = 0 then finish ()
              else await (now_ms W) (\<lambda>now. store_run (mark_pairing_event_processed now i)))) (\<lambda>_.
     if i = 0 then finish () else notify W (AckPairingEvent i))))"

definition on_outbox_error :: "outside \<Rightarrow> Error_msg \<Rightarrow> string \<Rightarrow> ('a, 's, unit) act" where
  "on_outbox_error W e logical_id =
     (if err_retryable e
      then await (instant_now W) (\<lambda>now. update (\<lambda>s. s\<lparr>ap_outbox_retry_after :=
             AList.update logical_id (now + 30000) (ap_outbox_retry_after s)\<rparr>))
      else update (\<lambda>s. s\<lparr>ap_outbox_retry_after := AList.delete logical_id (ap_outbox_retry_after s),
             ap_blocked_outbox := List.insert logical_id (ap_blocked_outbox s)\<rparr>))"

definition on_error :: "outside \<Rightarrow> BackgroundRequest option \<Rightarrow> Error_msg \<Rightarrow> ('a, 's, unit) act" where
  "on_error W pending e =
     await (update (\<lambda>s. if pending = Some BgSync then s\<lparr>ap_sync_in_flight := False\<rparr> else s)) (\<lambda>_.
     await (case pending of Some (BgOutbox logical_id) \<Rightarrow> on_outbox_error W e logical_id | _ \<Rightarrow> finish ()) (\<lambda>_.
     if err_code e = ''connection_closed''
     then await (update (\<lambda>s. s\<lparr>ap_connected := False, ap_sync_in_flight := False,
            ap_background_requests := [], ap_background_deadlines := []\<rparr>)) (\<lambda>_.
          await (instant_now W) (\<lambda>now.
          update (\<lambda>s. s\<lparr>ap_reconnect_at := now + 1000 * uint (ap_reconnect_backoff s)\<rparr>)))
     else finish ()))"

definition handle_server_event :: "outside \<Rightarrow> ('a, 's, 'pa, 'ps) env \<Rightarrow> Frame \<Rightarrow> ('a, 's, unit) act" where
  "handle_server_event W E frame =
     await (take_request (frame_id frame)) (\<lambda>pending.
     await (view own_device_id) (\<lambda>own_device. case frame_body frame of
         Some (SyncBatch batch) \<Rightarrow> on_sync_batch W E pending batch
       | Some (SendAccepted accepted) \<Rightarrow> on_send_accepted accepted
       | Some (OwnDeviceList devices) \<Rightarrow> update (on_own_devices devices)
       | Some (UserBundle bundle) \<Rightarrow>
           if pending = Some BgReconcilePairing
           then await (cache_bundle W bundle) (\<lambda>_. reconcile_pairing_notifications_from_bundle W E bundle)
           else finish ()
       | Some (DeliveryUpdateFrame u) \<Rightarrow> on_delivery_update u
       | Some (PairingRequest request) \<Rightarrow>
           if pr_pending_device_id request \<noteq> own_device then on_pairing_request W E request else finish ()
       | Some (PairingEvent event) \<Rightarrow> on_pairing_event W E event
       | Some (ErrorFrame e) \<Rightarrow> on_error W pending e
       | _ \<Rightarrow> finish ()))"

section \<open>The result of a reconnection\<close>

text \<open>
  The new connection replaces the old one; of what the handshake returns only the capabilities of the
  server are kept in the state. The jitter is the first byte of a random identifier modulo 3.
\<close>

definition handle_reconnect_result :: "outside \<Rightarrow> ('a, 's, 'pa, 'ps) env \<Rightarrow> string list result \<Rightarrow> ('a, 's, unit) act" where
  "handle_reconnect_result W E result =
     await (update (\<lambda>s. s\<lparr>ap_reconnect_in_flight := False\<rparr>)) (\<lambda>_. case result of
         Inr capabilities \<Rightarrow>
           await (update (\<lambda>s. s\<lparr>ap_profile := (ap_profile s)\<lparr>rp_server_capabilities := capabilities\<rparr>,
              ap_connected := True, ap_reconnect_backoff := 1, ap_post_activation_sync := False\<rparr>)) (\<lambda>_.
           await (now_ms W) (\<lambda>now. await (random_bytes W) (\<lambda>nonces.
           await (view (\<lambda>s. (ap_vault s, ap_profile s))) (\<lambda>(v, p).
           await (ignore (store_try (save_profile (en_packages E) now (nonces 0) v p))) (\<lambda>_.
           await (resend_outbox W E) (\<lambda>_.
           await (ignore (sync_pending_conversation_deletions W E)) (\<lambda>_.
           ignore (sync_now W))))))))
       | Inl _ \<Rightarrow>
           await (update (\<lambda>s. s\<lparr>ap_connected := False,
              ap_reconnect_backoff := min (ap_reconnect_backoff s * 2) 30\<rparr>)) (\<lambda>_.
           await (jitter_byte W) (\<lambda>jitter. await (instant_now W) (\<lambda>now.
           update (\<lambda>s. s\<lparr>ap_reconnect_at := now + 1000 * (uint (ap_reconnect_backoff s) + uint (jitter mod 3))\<rparr>)))))"

section \<open>The service step and the start\<close>

definition every :: "u8 \<Rightarrow> u8 \<Rightarrow> ('a, 's, unit) act \<Rightarrow> ('a, 's, unit) act" where
  "every n counter m = (if counter mod n = 0 then m else finish ())"

definition service_step :: "outside \<Rightarrow> ('a, 's, 'pa, 'ps) env \<Rightarrow> u8 \<Rightarrow> ('a, 's, u8) act" where
  "service_step W E heartbeat =
     await (expire_background_requests W) (\<lambda>_.
     await (ignore (autosave_draft W E)) (\<lambda>_.
     await (view (\<lambda>s. (ap_connected s, ap_post_activation_sync s))) (\<lambda>(connected, activated).
     if connected
     then
       await (if activated
              then await (update (\<lambda>s. s\<lparr>ap_post_activation_sync := False\<rparr>)) (\<lambda>_.
                await (resend_outbox W E) (\<lambda>_.
                await (ignore (sync_pending_conversation_deletions W E)) (\<lambda>_.
                ignore (sync_now W))))
              else finish ()) (\<lambda>_.
       let heartbeat = heartbeat + 1 in
       await (every 5 heartbeat (await (resend_outbox W E) (\<lambda>_.
                ignore (sync_pending_conversation_deletions W E)))) (\<lambda>_.
       await (every 20 heartbeat (await (now_ms W) (\<lambda>now. await (ignore (notify W (Ping now))) (\<lambda>_.
                ignore (reconcile_pairing_notifications W))))) (\<lambda>_.
       finish heartbeat)))
     else
       await (instant_now W) (\<lambda>now. await (view ap_reconnect_at) (\<lambda>at.
       await (if at \<le> now then try_reconnect W E else finish ()) (\<lambda>_. finish heartbeat))))))"

text \<open>The end of \<open>App::new\<close>.\<close>

definition app_start :: "outside \<Rightarrow> ('a, 's, 'pa, 'ps) env \<Rightarrow> ('a, 's, unit) act" where
  "app_start W E =
     await (restore_pairing_state_from_notifications E) (\<lambda>_.
     await (update (restore_pairing_requests_from_notifications E)) (\<lambda>_.
     await (resend_outbox W E) (\<lambda>_.
     await (ignore (sync_pending_conversation_deletions W E)) (\<lambda>_.
     ignore (sync_now W)))))"

end
