(* ===== verification/App_Input.thy ===== *)
theory App_Input
  imports App_Receive
begin

text \<open>
  What the user does (\<open>crates/client/src/app.rs\<close>): the commands of the composer, keys, the mouse, paste
  and focus, and the emoji picker. A key or a click only selects the operation to run; the operations
  are those of the other theories.

  Terminal events and rectangles are types of third-party packages. A key keeps the codes and
  modifiers that the code distinguishes; of a rectangle the model keeps what the code reads of it.
\<close>

section \<open>Events of the terminal\<close>

text \<open>A character key carries its UTF-8 encoding.\<close>

datatype KeyCode =
    KeyChar string
  | KeyF nat
  | KeyEnter | KeyEsc | KeyTab | KeyBackTab | KeyBackspace | KeyDelete
  | KeyLeft | KeyRight | KeyUp | KeyDown | KeyHome | KeyEnd | KeyPageUp | KeyPageDown
  | KeyOther

record KeyEvent =
  ke_code :: KeyCode
  ke_press :: bool
  ke_control :: bool
  ke_alt :: bool
  ke_shift :: bool

datatype MouseKind = LeftDown | LeftDrag | LeftUp | ScrollUp | ScrollDown | OtherMouse

type_synonym point = "u16 \<times> u16"   \<comment> \<open>column, row\<close>

record area =
  ar_contains :: "point \<Rightarrow> bool"
  ar_x :: u16
  ar_y :: u16
  ar_width :: u16
  ar_height :: u16
  ar_right :: u16
  ar_bottom :: u16

text \<open>The areas that the last drawing left in the state.\<close>

record screen =
  sc_conversations :: area
  sc_messages :: area
  sc_composer :: area
  sc_emoji_picker :: area
  sc_emoji_grid :: area
  sc_emoji_button :: area
  sc_conversation_tab :: area
  sc_notification_tab :: area
  sc_sidebar_toggle :: area
  sc_conversation_deletes :: "(nat \<times> area) list"
  sc_notification_deletes :: "(nat \<times> area) list"
  sc_delete_confirm :: area
  sc_delete_cancel :: area
  sc_primary_action :: area
  sc_secondary_action :: area
  sc_device_list :: area
  sc_device_close :: area
  sc_device_refresh :: area
  sc_device_revokes :: "(nat \<times> area) list"

datatype terminal_event =
    FocusGained
  | FocusLost
  | KeyPress KeyEvent
  | Mouse MouseKind point screen
  | Paste string
  | OtherEvent

section \<open>The editor\<close>

text \<open>An operation of the editor that would panic is the error \<open>EditorPanic\<close>.\<close>

definition edit_with :: "(editor_state \<Rightarrow> editor_state option) \<Rightarrow> ('a, 's, unit) act" where
  "edit_with f s = (case f (ap_editor s) of
       None \<Rightarrow> raise EditorPanic s
     | Some e \<Rightarrow> finish () (s\<lparr>ap_editor := e\<rparr>))"

definition insert_text :: "('a, 's, 'pa, 'ps) env \<Rightarrow> string \<Rightarrow> ('a, 's, unit) act" where
  "insert_text E txt = edit_with (\<lambda>e. map_option fst (ed_insert (en_unicode E) txt MAX_TEXT_BYTES e))"

definition set_focus :: "FocusPane \<Rightarrow> ('a, 's, unit) act" where
  "set_focus f = update (\<lambda>s. s\<lparr>ap_focus := f\<rparr>)"

section \<open>The emoji picker\<close>

definition matching_emojis :: "('a, 's, 'pa, 'ps) env \<Rightarrow> string \<Rightarrow> nat list" where
  "matching_emojis E q =
     (let query = str_to_lowercase E (trim q) in
      map fst (filter (\<lambda>(_, e). query = []
          \<or> str_contains (str_to_lowercase E (em_name e)) query
          \<or> str_contains (str_to_lowercase E (em_keywords e)) query
          \<or> str_contains (em_glyph e) query)
        (zip [0..<length (emoji_catalog E)] (emoji_catalog E))))"

definition with_emoji :: "(EmojiPickerState \<Rightarrow> EmojiPickerState) \<Rightarrow> ('a, 's) app \<Rightarrow> ('a, 's) app" where
  "with_emoji f s = s\<lparr>ap_emoji := f (ap_emoji s)\<rparr>"

fun append_graphemes :: "string \<Rightarrow> string list \<Rightarrow> string" where
  "append_graphemes query [] = query"
| "append_graphemes query (g # gs) =
     (if (\<exists>c \<in> set (utf8_chars g). char_is_control c) \<or> 128 < length query + length g
      then append_graphemes query gs
      else append_graphemes (query @ g) gs)"

definition append_emoji_query :: "unicode \<Rightarrow> string \<Rightarrow> EmojiPickerState \<Rightarrow> EmojiPickerState" where
  "append_emoji_query U txt p =
     p\<lparr>ep_query := append_graphemes (ep_query p) (u_graphemes U txt), ep_selected := 0, ep_scroll := 0\<rparr>"

definition open_emoji_picker :: "unicode \<Rightarrow> string \<Rightarrow> ('a, 's) app \<Rightarrow> ('a, 's) app" where
  "open_emoji_picker U query s = (with_emoji (\<lambda>p. (append_emoji_query U query
       (p\<lparr>ep_visible := True, ep_query := []\<rparr>))\<lparr>ep_selected := 0, ep_scroll := 0\<rparr>) s)
     \<lparr>ap_completion := completion_default, ap_focus := Composer\<rparr>"

definition cycle_emoji :: "('a, 's, 'pa, 'ps) env \<Rightarrow> int \<Rightarrow> EmojiPickerState \<Rightarrow> EmojiPickerState" where
  "cycle_emoji E direction p =
     (let count = length (matching_emojis E (ep_query p)) in
      if count = 0 then p\<lparr>ep_selected := 0, ep_scroll := 0\<rparr>
      else p\<lparr>ep_selected := nat ((int (ep_selected p) + direction) mod int count)\<rparr>)"

definition close_emoji_picker :: "('a, 's) app \<Rightarrow> ('a, 's) app" where
  "close_emoji_picker = with_emoji (\<lambda>p. p\<lparr>ep_visible := False\<rparr>)"

definition insert_selected_emoji :: "('a, 's, 'pa, 'ps) env \<Rightarrow> ('a, 's, unit) act" where
  "insert_selected_emoji E s =
     (case list_get (matching_emojis E (ep_query (ap_emoji s))) (ep_selected (ap_emoji s)) of
        None \<Rightarrow> finish () s
      | Some index \<Rightarrow>
          await (insert_text E (em_glyph (emoji_catalog E ! index))) (\<lambda>_.
          await (update (\<lambda>s. (close_emoji_picker s)\<lparr>ap_focus := Composer\<rparr>)) (\<lambda>_.
          update refresh_completion)) s)"

definition reset_emoji_position :: "EmojiPickerState \<Rightarrow> EmojiPickerState" where
  "reset_emoji_position p = p\<lparr>ep_selected := 0, ep_scroll := 0\<rparr>"

text \<open>\<open>next_back\<close> of the graphemes, and \<open>truncate\<close> at its start.\<close>

definition drop_last_grapheme :: "unicode \<Rightarrow> EmojiPickerState \<Rightarrow> EmojiPickerState" where
  "drop_last_grapheme U p = p\<lparr>ep_query := concat (butlast (u_graphemes U (ep_query p)))\<rparr>"

definition handle_emoji_key :: "('a, 's, 'pa, 'ps) env \<Rightarrow> KeyEvent \<Rightarrow> ('a, 's, unit) act" where
  "handle_emoji_key E k =
     (let U = en_unicode E; cycle = (\<lambda>f. update (with_emoji (\<lambda>p. cycle_emoji E (f p) p)));
          columns = (\<lambda>p. int (max 1 (ep_columns p))); page = (\<lambda>p. int (max 1 (ep_page_size p)))
      in case ke_code k of
        KeyEsc \<Rightarrow> update close_emoji_picker
      | KeyEnter \<Rightarrow> insert_selected_emoji E
      | KeyLeft \<Rightarrow> cycle (\<lambda>_. -1)
      | KeyRight \<Rightarrow> cycle (\<lambda>_. 1)
      | KeyUp \<Rightarrow> cycle (\<lambda>p. - columns p)
      | KeyDown \<Rightarrow> cycle columns
      | KeyPageUp \<Rightarrow> cycle (\<lambda>p. - page p)
      | KeyPageDown \<Rightarrow> cycle page
      | KeyTab \<Rightarrow> cycle (\<lambda>_. 1)
      | KeyBackTab \<Rightarrow> cycle (\<lambda>_. -1)
      | KeyBackspace \<Rightarrow> update (with_emoji (\<lambda>p. reset_emoji_position (drop_last_grapheme U p)))
      | KeyChar c \<Rightarrow>
          if c = ''u'' \<and> ke_control k then update (with_emoji (\<lambda>p. reset_emoji_position (p\<lparr>ep_query := []\<rparr>)))
          else if \<not> ke_control k \<and> \<not> ke_alt k then update (with_emoji (append_emoji_query U c))
          else finish ()
      | _ \<Rightarrow> finish ())"

section \<open>Commands\<close>

definition sidebar_action :: "outside \<Rightarrow> string \<Rightarrow> ('a, 's, unit) act" where
  "sidebar_action W action s =
     (let a = to_ascii_lowercase (trim action) in
      if a \<in> {''hide'', ''collapse'', utf8_text [0xE6, 0x94, 0xB6, 0xE8, 0xB5, 0xB7]}
      then set_sidebar_collapsed W True s
      else if a \<in> {''show'', ''expand'', utf8_text [0xE5, 0xB1, 0x95, 0xE5, 0xBC, 0x80]}
      then set_sidebar_collapsed W False s
      else if a \<in> {''toggle'', utf8_text [0xE5, 0x88, 0x87, 0xE6, 0x8D, 0xA2]}
      then set_sidebar_collapsed W (\<not> ap_sidebar_collapsed s) s
      else raise UnknownSidebarAction s)"

definition retry_outbox :: "outside \<Rightarrow> ('a, 's, 'pa, 'ps) env \<Rightarrow> ('a, 's, unit) act" where
  "retry_outbox W E =
     await (update (\<lambda>s. s\<lparr>ap_blocked_outbox := [], ap_outbox_retry_after := []\<rparr>)) (\<lambda>_.
     resend_outbox W E)"

definition search_history :: "('a, 's, 'pa, 'ps) env \<Rightarrow> string \<Rightarrow> ('a, 's, unit) act" where
  "search_history E query s = (case search_loaded_messages E query s of
       None \<Rightarrow> raise NothingFound s
     | Some s' \<Rightarrow> finish () s')"

text \<open>The arms of \<open>execute_input\<close> in their order.\<close>

definition run_command :: "outside \<Rightarrow> ('a, 's, 'pa, 'ps) env \<Rightarrow> string \<Rightarrow> ('a, 's, unit) act" where
  "run_command W E input s =
     (let trimmed = trim input; U = en_unicode E in
      if trimmed = ''/quit'' \<or> trimmed = ''/exit'' then update (\<lambda>s. s\<lparr>ap_quit := True\<rparr>) s
      else if trimmed = ''/help'' then update (\<lambda>s. s\<lparr>ap_help_visible := True\<rparr>) s
      else if trimmed = ''/emoji'' then update (open_emoji_picker U []) s
      else case str_strip_prefix ''/emoji '' trimmed of
        Some query \<Rightarrow> update (open_emoji_picker U (trim query)) s
      | None \<Rightarrow>
      if trimmed = ''/theme'' then finish () s
      else case str_strip_prefix ''/theme '' trimmed of
        Some name \<Rightarrow> set_theme W name s
      | None \<Rightarrow>
      if trimmed = ''/sidebar'' then set_sidebar_collapsed W (\<not> ap_sidebar_collapsed s) s
      else case str_strip_prefix ''/sidebar '' trimmed of
        Some action \<Rightarrow> sidebar_action W action s
      | None \<Rightarrow>
      if trimmed = ''/devices'' then open_device_manager W s
      else if trimmed = ''/verify'' then verify_selected W E s
      else if trimmed = ''/confirm'' then confirm_pairing W E s
      else if trimmed = ''/pair'' then start_pairing W E None s
      else case str_strip_prefix ''/pair '' trimmed of
        Some device \<Rightarrow> start_pairing W E (Some (trim device)) s
      | None \<Rightarrow>
      if trimmed = ''/sync'' then sync_now W s
      else if trimmed = ''/retry'' then retry_outbox W E s
      else case str_strip_prefix ''/search '' trimmed of
        Some query \<Rightarrow> search_history E (trim query) s
      | None \<Rightarrow> (case str_strip_prefix ''/chat '' trimmed of
        Some username \<Rightarrow> open_contact W E (trim username) s
      | None \<Rightarrow> (case str_strip_prefix ''//'' input of
        Some message \<Rightarrow> send_text W E (''/'' @ message) s
      | None \<Rightarrow>
      if starts_with trimmed ''/'' then raise UnknownCommand s
      else send_text W E input s)))"

definition execute_input :: "outside \<Rightarrow> ('a, 's, 'pa, 'ps) env \<Rightarrow> string \<Rightarrow> ('a, 's, bool) act" where
  "execute_input W E input =
     await (outcome (run_command W E input)) (\<lambda>r. finish (case r of Inl _ \<Rightarrow> False | Inr _ \<Rightarrow> True))"

section \<open>Keys\<close>

definition handle_delete_confirmation_key :: "outside \<Rightarrow> ('a, 's, 'pa, 'ps) env \<Rightarrow> KeyEvent \<Rightarrow>
    ('a, 's, unit) act" where
  "handle_delete_confirmation_key W E k s =
     (case ke_code k of
        KeyEnter \<Rightarrow>
          if (case ap_delete_confirmation s of None \<Rightarrow> False | Some d \<Rightarrow> dc_confirm_selected d)
          then ignore (confirm_delete W E) s else update cancel_delete s
      | KeyEsc \<Rightarrow> update cancel_delete s
      | KeyChar c \<Rightarrow>
          if c = ''y'' then ignore (confirm_delete W E) s
          else if c = ''n'' then update cancel_delete s
          else finish () s
      | code \<Rightarrow>
          if code \<in> {KeyLeft, KeyRight, KeyTab, KeyBackTab}
          then update (\<lambda>s. s\<lparr>ap_delete_confirmation := map_option
                 (\<lambda>d. d\<lparr>dc_confirm_selected := \<not> dc_confirm_selected d\<rparr>) (ap_delete_confirmation s)\<rparr>) s
          else finish () s)"

definition device_up :: "('a, 's) app \<Rightarrow> ('a, 's) app" where
  "device_up s = s\<lparr>ap_own_device_selected := ap_own_device_selected s - 1\<rparr>"

definition device_down :: "('a, 's) app \<Rightarrow> ('a, 's) app" where
  "device_down s = s\<lparr>ap_own_device_selected :=
     min (ap_own_device_selected s + 1) (length (ap_own_devices s) - 1)\<rparr>"

definition handle_device_manager_key :: "outside \<Rightarrow> KeyCode \<Rightarrow> ('a, 's, unit) act" where
  "handle_device_manager_key W code =
     (if code \<in> {KeyEsc, KeyChar ''q''} then update close_device_manager
      else if code \<in> {KeyUp, KeyChar ''k''} then update device_up
      else if code \<in> {KeyDown, KeyChar ''j''} then update device_down
      else if code = KeyChar ''r'' then ignore (refresh_own_devices W)
      else if code \<in> {KeyChar ''x'', KeyDelete} then update request_revoke_selected_device
      else finish ())"

definition edit_and_complete :: "(editor_state \<Rightarrow> editor_state option) \<Rightarrow> ('a, 's, unit) act" where
  "edit_and_complete f = await (edit_with f) (\<lambda>_. update refresh_completion)"

text \<open>The keys with \<open>ALT\<close>; the result says whether the key was handled.\<close>

definition handle_alt_key :: "outside \<Rightarrow> ('a, 's, 'pa, 'ps) env \<Rightarrow> KeyCode \<Rightarrow> ('a, 's, bool) act" where
  "handle_alt_key W E code s =
     (let in_notifications = ap_sidebar_tab s = NotificationsTab
            \<and> (ap_focus s = Conversations \<or> ap_sidebar_collapsed s);
          handled = (\<lambda>m. await m (\<lambda>_. finish True));
          step = (\<lambda>d. if in_notifications then select_notification_relative W E d else select_relative W E d)
      in case code of
        KeyUp \<Rightarrow> handled (step (-1)) s
      | KeyDown \<Rightarrow> handled (step 1) s
      | KeyBackspace \<Rightarrow> handled (edit_and_complete (delete_word_backward (en_unicode E))) s
      | KeyEnter \<Rightarrow> handled (await (set_focus Composer) (\<lambda>_. await (insert_text E [LF]) (\<lambda>_.
          update refresh_completion))) s
      | KeyChar c \<Rightarrow>
          if c = ''n'' then handled (open_notification_tab W E) s
          else if c = ''c'' then handled (update (\<lambda>s. s\<lparr>ap_sidebar_tab := ConversationsTab,
            ap_focus := (if ap_sidebar_collapsed s then Messages else Conversations)\<rparr>)) s
          else finish False s
      | _ \<Rightarrow> finish False s)"

definition cycle_completion :: "int \<Rightarrow> ('a, 's) app \<Rightarrow> ('a, 's) app" where
  "cycle_completion direction s = s\<lparr>ap_completion := completion_cycle direction (ap_completion s)\<rparr>"

definition handle_tab :: "bool \<Rightarrow> ('a, 's) app \<Rightarrow> ('a, 's) app" where
  "handle_tab backwards s =
     (if ap_focus s = Composer \<and> completion_is_open (ap_completion s)
      then (let already_applied = completion_selected (ap_completion s) = Some (ed_text (ap_editor s));
                s' = (if already_applied \<or> backwards
                      then cycle_completion (if backwards then -1 else 1) s else s)
            in apply_completion s')
      else s\<lparr>ap_focus :=
        (if ap_sidebar_collapsed s then (if ap_focus s = Messages then Composer else Messages)
         else if backwards then focus_previous (ap_focus s)
         else focus_next (ap_focus s))\<rparr>)"

definition compose :: "string \<Rightarrow> ('a, 's, unit) act" where
  "compose txt = update (\<lambda>s. refresh_completion (s\<lparr>ap_focus := Composer, ap_editor := ed_set txt (ap_editor s)\<rparr>))"

definition reconnect_or_sync :: "outside \<Rightarrow> ('a, 's, 'pa, 'ps) env \<Rightarrow> ('a, 's, unit) act" where
  "reconnect_or_sync W E s =
     (if ap_connected s then sync_now W s
      else await (instant_now W) (\<lambda>now. await (update (\<lambda>s. s\<lparr>ap_reconnect_at := now\<rparr>)) (\<lambda>_.
        try_reconnect W E)) s)"

text \<open>
  The keys with \<open>CONTROL\<close>; the flag says whether the completion is refreshed at the end, which the code
  does after every arm but the last.
\<close>

definition handle_control_key :: "outside \<Rightarrow> ('a, 's, 'pa, 'ps) env \<Rightarrow> KeyCode \<Rightarrow> ('a, 's, bool) act" where
  "handle_control_key W E code s =
     (let U = en_unicode E; open_list = completion_is_open (ap_completion s);
          handled = (\<lambda>m. await m (\<lambda>_. finish True)); edit = (\<lambda>f. handled (edit_with f));
          is = (\<lambda>c. code = KeyChar c)
      in
      if is ''a'' then edit (\<lambda>e. Some (move_start e)) s
      else if is ''e'' then edit (\<lambda>e. Some (move_end e)) s
      else if is ''w'' then edit (delete_word_backward U) s
      else if is ''u'' then edit delete_to_line_start s
      else if is ''d'' then edit (delete_forward U) s
      else if is ''k'' then handled (compose ''/'') s
      else if is ''f'' then handled (compose ''/search '') s
      else if is ''r'' then handled (reconnect_or_sync W E) s
      else if is ''l'' then handled (update (\<lambda>s. s\<lparr>ap_redraw_requested := True\<rparr>)) s
      else if is ''n'' \<and> \<not> open_list then handled (open_notification_tab W E) s
      else if is ''p'' \<and> open_list then handled (update (cycle_completion (-1))) s
      else if is ''n'' \<and> open_list then handled (update (cycle_completion 1)) s
      else if code = KeyHome \<and> ap_focus s = Messages
      then handled (await (update (scroll_messages_to_top U)) (\<lambda>_. load_older_messages E)) s
      else if code = KeyEnd \<and> ap_focus s = Messages then handled (update scroll_messages_to_bottom) s
      else finish False s)"

definition submit_input :: "outside \<Rightarrow> ('a, 's, 'pa, 'ps) env \<Rightarrow> ('a, 's, unit) act" where
  "submit_input W E s =
     (let input = ed_text (ap_editor s) in
      if trim input = [] then finish () s
      else await (execute_input W E input) (\<lambda>accepted.
        if \<not> accepted then finish ()
        else update (\<lambda>s. (if starts_with (trim_start input) ''/chat '' then s
                          else s\<lparr>ap_editor := ed_clear (ap_editor s)\<rparr>)
                         \<lparr>ap_completion := completion_default\<rparr>)) s)"

definition handle_enter :: "outside \<Rightarrow> ('a, 's, 'pa, 'ps) env \<Rightarrow> ('a, 's, unit) act" where
  "handle_enter W E s =
     (if completion_is_open (ap_completion s)
         \<and> (case completion_selected (ap_completion s) of None \<Rightarrow> False
            | Some candidate \<Rightarrow> candidate \<noteq> ed_text (ap_editor s))
      then update apply_completion s
      else submit_input W E s)"

definition delete_selected_row :: "('a, 's, 'pa, 'ps) env \<Rightarrow> ('a, 's) app \<Rightarrow> ('a, 's) app" where
  "delete_selected_row E s = (case ap_sidebar_tab s of
       ConversationsTab \<Rightarrow> (case ap_selected s of None \<Rightarrow> s | Some i \<Rightarrow> request_delete_conversation E i s)
     | NotificationsTab \<Rightarrow>
         (case ap_notification_selected s of None \<Rightarrow> s | Some i \<Rightarrow> request_delete_notification i s))"

definition vertical_key :: "outside \<Rightarrow> ('a, 's, 'pa, 'ps) env \<Rightarrow> int \<Rightarrow> ('a, 's, unit) act" where
  "vertical_key W E direction s = (case ap_focus s of
       Conversations \<Rightarrow>
         if ap_sidebar_tab s = NotificationsTab then select_notification_relative W E direction s
         else select_relative W E direction s
     | Messages \<Rightarrow>
         if direction < 0
         then await (update (scroll_messages (en_unicode E) 3)) (\<lambda>_. load_older_messages E) s
         else update (scroll_messages (en_unicode E) (-3)) s
     | Composer \<Rightarrow> edit_with (move_vertical (en_unicode E) direction) s)"

definition page :: "('a, 's) app \<Rightarrow> int" where
  "page s = uint (u16_saturating_sub (ap_messages_height s) 3)"

text \<open>The keys without \<open>ALT\<close>, \<open>CONTROL\<close> or \<open>TAB\<close>: first the arms without a guard on the panes.\<close>

definition handle_editing_key :: "outside \<Rightarrow> ('a, 's, 'pa, 'ps) env \<Rightarrow> KeyCode \<Rightarrow> ('a, 's, unit) act" where
  "handle_editing_key W E code s =
     (let U = en_unicode E; open_list = completion_is_open (ap_completion s) in
      case code of
        KeyEnter \<Rightarrow> handle_enter W E s
      | KeyBackspace \<Rightarrow> edit_and_complete (delete_backward U) s
      | KeyDelete \<Rightarrow> edit_and_complete (delete_forward U) s
      | KeyLeft \<Rightarrow> edit_with (move_left U) s
      | KeyRight \<Rightarrow> edit_with (move_right U) s
      | KeyHome \<Rightarrow> edit_with move_line_start s
      | KeyEnd \<Rightarrow>
          if ap_focus s = Messages then update scroll_messages_to_bottom s
          else edit_with move_line_end s
      | KeyChar c \<Rightarrow>
          await (set_focus Composer) (\<lambda>_. await (insert_text E c) (\<lambda>_. update refresh_completion)) s
      | KeyUp \<Rightarrow> if open_list then update (cycle_completion (-1)) s else vertical_key W E (-1) s
      | KeyDown \<Rightarrow> if open_list then update (cycle_completion 1) s else vertical_key W E 1 s
      | KeyPageUp \<Rightarrow>
          await (set_focus Messages) (\<lambda>_. await (update (\<lambda>s. scroll_messages U (page s) s)) (\<lambda>_.
          load_older_messages E)) s
      | KeyPageDown \<Rightarrow>
          await (set_focus Messages) (\<lambda>_. update (\<lambda>s. scroll_messages U (- page s) s)) s
      | KeyEsc \<Rightarrow>
          if open_list then update (\<lambda>s. s\<lparr>ap_completion := completion_default\<rparr>) s
          else set_focus Composer s
      | _ \<Rightarrow> finish () s)"

definition handle_plain_key :: "outside \<Rightarrow> ('a, 's, 'pa, 'ps) env \<Rightarrow> KeyEvent \<Rightarrow> ('a, 's, unit) act" where
  "handle_plain_key W E k s =
     (let code = ke_code k; notifications_tab = ap_sidebar_tab s = NotificationsTab;
          on_list = (ap_focus s = Conversations \<or> (ap_sidebar_collapsed s \<and> ap_focus s = Messages))
      in
      if code = KeyChar ''x'' \<and> (ap_focus s = Conversations
           \<or> (ap_sidebar_collapsed s \<and> ap_focus s = Messages \<and> notifications_tab))
      then update (delete_selected_row E) s
      else if code = KeyEnter \<and> on_list \<and> notifications_tab then activate_notification_primary W E s
      else if code = KeyChar ''r'' \<and> on_list \<and> notifications_tab then reject_selected_chat_request W E s
      else if code = KeyChar ''d'' \<and> on_list \<and> notifications_tab then dismiss_selected_notification W E s
      else if code = KeyEnter \<and> ke_shift k
      then await (set_focus Composer) (\<lambda>_. insert_text E [LF]) s
      else handle_editing_key W E code s)"

definition handle_key :: "outside \<Rightarrow> ('a, 's, 'pa, 'ps) env \<Rightarrow> KeyEvent \<Rightarrow> ('a, 's, unit) act" where
  "handle_key W E k s =
     (let code = ke_code k in
      if \<not> ke_press k then finish () s
      else if ke_control k \<and> code \<in> {KeyChar ''c'', KeyChar ''q''} then update (\<lambda>s. s\<lparr>ap_quit := True\<rparr>) s
      else if ap_delete_confirmation s \<noteq> None then handle_delete_confirmation_key W E k s
      else if ap_device_manager_visible s then handle_device_manager_key W code s
      else if ke_alt k \<and> code = KeyChar ''e''
      then update (if ep_visible (ap_emoji s) then close_emoji_picker else open_emoji_picker (en_unicode E) []) s
      else if ep_visible (ap_emoji s) then handle_emoji_key E k s
      else if code = KeyF 1 then update (\<lambda>s. s\<lparr>ap_help_visible := \<not> ap_help_visible s\<rparr>) s
      else if ap_help_visible s
      then (if code = KeyEsc then update (\<lambda>s. s\<lparr>ap_help_visible := False\<rparr>) s else finish () s)
      else await (if ke_alt k then handle_alt_key W E code else finish False) (\<lambda>handled.
        if handled then finish ()
        else if code \<in> {KeyTab, KeyBackTab} then update (handle_tab (code = KeyBackTab \<or> ke_shift k))
        else if ke_control k
        then await (handle_control_key W E code) (\<lambda>refresh.
               if refresh then update refresh_completion else finish ())
        else handle_plain_key W E k) s)"

section \<open>The mouse\<close>

text \<open>The index stored with the first area that contains a point.\<close>

definition area_index :: "point \<Rightarrow> (nat \<times> area) list \<Rightarrow> nat option" where
  "area_index p areas = map_option fst (find (\<lambda>(_, a). ar_contains a p) areas)"

definition handle_device_manager_mouse :: "outside \<Rightarrow> MouseKind \<Rightarrow> point \<Rightarrow> screen \<Rightarrow> ('a, 's, unit) act" where
  "handle_device_manager_mouse W kind p c s =
     (case kind of
        LeftDown \<Rightarrow>
          if ar_contains (sc_device_close c) p then update close_device_manager s
          else if ar_contains (sc_device_refresh c) p then refresh_own_devices W s
          else (case area_index p (sc_device_revokes c) of
              Some index \<Rightarrow> update (\<lambda>s. request_revoke_selected_device (s\<lparr>ap_own_device_selected := index\<rparr>)) s
            | None \<Rightarrow>
                if ar_contains (sc_device_list c) p
                then (let visible = unat (ar_height (sc_device_list c));
                          start = ap_own_device_selected s - (visible - 1);
                          index = start + unat (u16_saturating_sub (snd p) (ar_y (sc_device_list c)))
                      in if index < length (ap_own_devices s)
                         then update (\<lambda>s. s\<lparr>ap_own_device_selected := index\<rparr>) s else finish () s)
                else finish () s)
      | ScrollUp \<Rightarrow> update device_up s
      | ScrollDown \<Rightarrow> update device_down s
      | _ \<Rightarrow> finish () s)"

text \<open>
  The subtractions of the code do not underflow where the grid contains the point; a \<open>u16\<close> of the
  number of columns is taken as the code does.
\<close>

definition grid_cell :: "screen \<Rightarrow> point \<Rightarrow> EmojiPickerState \<Rightarrow> nat" where
  "grid_cell c p e =
     (let grid = sc_emoji_grid c; columns = max 1 (ep_columns e);
          cell_width = ar_width grid div of_nat columns;
          row = unat (snd p) - unat (ar_y grid);
          column = (unat (fst p) - unat (ar_x grid)) div unat (max 1 cell_width)
      in ep_scroll e + row * columns + column)"

definition handle_emoji_mouse :: "('a, 's, 'pa, 'ps) env \<Rightarrow> MouseKind \<Rightarrow> point \<Rightarrow> screen \<Rightarrow> ('a, 's, unit) act" where
  "handle_emoji_mouse E kind p c s =
     (let columns = int (max 1 (ep_columns (ap_emoji s))) in
      if \<not> ar_contains (sc_emoji_picker c) p
      then (if kind = LeftDown then update close_emoji_picker s else finish () s)
      else case kind of
        ScrollUp \<Rightarrow> update (with_emoji (cycle_emoji E (- columns))) s
      | ScrollDown \<Rightarrow> update (with_emoji (cycle_emoji E columns)) s
      | LeftDown \<Rightarrow>
          if ar_contains (sc_emoji_grid c) p
             \<and> grid_cell c p (ap_emoji s) < length (matching_emojis E (ep_query (ap_emoji s)))
          then await (update (with_emoji (\<lambda>e. e\<lparr>ep_selected := grid_cell c p e\<rparr>))) (\<lambda>_.
                 insert_selected_emoji E) s
          else finish () s
      | _ \<Rightarrow> finish () s)"

text \<open>\<open>row.saturating_sub(y.saturating_add(k)).min(inner)\<close>.\<close>

definition bar_offset :: "u16 \<Rightarrow> u16 \<Rightarrow> nat \<Rightarrow> u16 \<Rightarrow> nat" where
  "bar_offset row y k inner = min (unat row - min (unat y + k) 65535) (unat inner)"

definition list_height :: "screen \<Rightarrow> u16" where
  "list_height c = max 1 (u16_saturating_sub (ar_height (sc_conversations c)) 3)"

definition list_length :: "('a, 's) app \<Rightarrow> nat" where
  "list_length s = (if ap_sidebar_tab s = ConversationsTab then length (ap_contacts s) else length (ap_notifications s))"

definition list_scroll :: "('a, 's) app \<Rightarrow> nat" where
  "list_scroll s = (if ap_sidebar_tab s = ConversationsTab then ap_contact_scroll s else ap_notification_scroll s)"

definition set_list_scroll :: "nat \<Rightarrow> ('a, 's) app \<Rightarrow> ('a, 's) app" where
  "set_list_scroll n s = (if ap_sidebar_tab s = ConversationsTab then s\<lparr>ap_contact_scroll := n\<rparr>
     else s\<lparr>ap_notification_scroll := n\<rparr>)"

definition drag_scrollbar :: "unicode \<Rightarrow> screen \<Rightarrow> u16 \<Rightarrow> ('a, 's) app \<Rightarrow> ('a, 's) app" where
  "drag_scrollbar U c row s = (case ap_dragging s of
       Some DragConversations \<Rightarrow>
         (let inner = list_height c;
              relative = bar_offset row (ar_y (sc_conversations c)) 2 inner;
              maximum = list_length s - unat inner
          in set_list_scroll (maximum * relative div unat inner) s)
     | Some DragMessages \<Rightarrow>
         (let inner = max 1 (u16_saturating_sub (ar_height (sc_messages c)) 2);
              relative = bar_offset row (ar_y (sc_messages c)) 1 inner;
              maximum = message_scroll_maximum U s;
              scroll = maximum - maximum * relative div unat inner
          in s\<lparr>ap_message_scroll := scroll,
               ap_new_messages_below := (if scroll = 0 then 0 else ap_new_messages_below s)\<rparr>)
     | None \<Rightarrow> s)"

text \<open>A click on a row of the left list.\<close>

definition click_row :: "outside \<Rightarrow> ('a, 's, 'pa, 'ps) env \<Rightarrow> nat \<Rightarrow> ('a, 's, unit) act" where
  "click_row W E index s =
     (if list_length s \<le> index then finish () s
      else if ap_sidebar_tab s = ConversationsTab
      then await (save_current_draft W E) (\<lambda>_.
           await (update (\<lambda>s. s\<lparr>ap_selected := Some index\<rparr>)) (\<lambda>_.
           load_selected_messages W E)) s
      else await (update (\<lambda>s. s\<lparr>ap_notification_selected := Some index\<rparr>)) (\<lambda>_.
           await (view (\<lambda>s. nt_id (ap_notifications s ! index))) (\<lambda>ident.
           await (mark_read W ident) (\<lambda>_.
           refresh_notifications E))) s)"

definition click_conversations :: "outside \<Rightarrow> ('a, 's, 'pa, 'ps) env \<Rightarrow> point \<Rightarrow> screen \<Rightarrow> ('a, 's, unit) act" where
  "click_conversations W E p c =
     (let a = sc_conversations c; row = unat (snd p) in
      await (set_focus Conversations) (\<lambda>_. \<lambda>s.
        if fst p = u16_saturating_sub (ar_right a) 1
        then update (\<lambda>s. drag_scrollbar (en_unicode E) c (snd p) (s\<lparr>ap_dragging := Some DragConversations\<rparr>)) s
        else if min (unat (ar_y a) + 1) 65535 < row \<and> row < unat (u16_saturating_sub (ar_bottom a) 1)
        then click_row W E (list_scroll s + (row - unat (ar_y a) - 2)) s
        else finish () s))"

definition click_messages :: "unicode \<Rightarrow> point \<Rightarrow> screen \<Rightarrow> ('a, 's, unit) act" where
  "click_messages U p c =
     await (set_focus Messages) (\<lambda>_.
     if fst p = u16_saturating_sub (ar_right (sc_messages c)) 1
     then update (\<lambda>s. drag_scrollbar U c (snd p) (s\<lparr>ap_dragging := Some DragMessages\<rparr>))
     else finish ())"

definition click_composer :: "('a, 's, 'pa, 'ps) env \<Rightarrow> point \<Rightarrow> screen \<Rightarrow> ('a, 's, unit) act" where
  "click_composer E p c =
     (let a = sc_composer c; U = en_unicode E; wrap_width = max 1 (u16_saturating_sub (ar_width a) 2);
          inner_height = max 1 (u16_saturating_sub (ar_height a) 2)
      in await (set_focus Composer) (\<lambda>_. edit_with (\<lambda>e.
        map_option (\<lambda>(cursor_row, _).
          let editor_scroll = u16_saturating_sub cursor_row (u16_saturating_sub inner_height 1);
              line = (unat (snd p) - min (unat (ar_y a) + 1) 65535) + unat editor_scroll;
              column = unat (fst p) - min (unat (ar_x a) + 1) 65535
          in set_cursor_by_visual_position U line column (unat wrap_width) e)
        (editor_cursor_position U (ed_text e) (ed_cursor e) wrap_width))))"

definition left_down :: "outside \<Rightarrow> ('a, 's, 'pa, 'ps) env \<Rightarrow> point \<Rightarrow> screen \<Rightarrow> ('a, 's, unit) act" where
  "left_down W E p c s =
     (let hit = (\<lambda>a. ar_contains a p) in
      if hit (sc_sidebar_toggle c) then set_sidebar_collapsed W (\<not> ap_sidebar_collapsed s) s
      else if hit (sc_emoji_button c) then update (open_emoji_picker (en_unicode E) []) s
      else if hit (sc_conversation_tab c)
      then update (\<lambda>s. s\<lparr>ap_sidebar_tab := ConversationsTab, ap_focus := Conversations\<rparr>) s
      else if hit (sc_notification_tab c) then open_notification_tab W E s
      else if hit (sc_primary_action c) then activate_notification_primary W E s
      else if hit (sc_secondary_action c) then reject_selected_chat_request W E s
      else case area_index p (sc_conversation_deletes c) of
        Some index \<Rightarrow> update (request_delete_conversation E index) s
      | None \<Rightarrow> (case area_index p (sc_notification_deletes c) of
        Some index \<Rightarrow> update (request_delete_notification index) s
      | None \<Rightarrow>
          if hit (sc_conversations c) then click_conversations W E p c s
          else if hit (sc_messages c) then click_messages (en_unicode E) p c s
          else if hit (sc_composer c) then click_composer E p c s
          else finish () s))"

definition left_up :: "('a, 's, 'pa, 'ps) env \<Rightarrow> ('a, 's, unit) act" where
  "left_up E =
     await (view (\<lambda>s. ap_dragging s = Some DragMessages)) (\<lambda>load_older.
     await (update (\<lambda>s. s\<lparr>ap_dragging := None\<rparr>)) (\<lambda>_.
     if load_older then load_older_messages E else finish ()))"

definition wheel_up :: "('a, 's, 'pa, 'ps) env \<Rightarrow> point \<Rightarrow> screen \<Rightarrow> ('a, 's, unit) act" where
  "wheel_up E p c =
     (if ar_contains (sc_conversations c) p then update (\<lambda>s. set_list_scroll (list_scroll s - 3) s)
      else if ar_contains (sc_messages c) p
      then await (update (scroll_messages (en_unicode E) 3)) (\<lambda>_. load_older_messages E)
      else finish ())"

definition wheel_down :: "('a, 's, 'pa, 'ps) env \<Rightarrow> point \<Rightarrow> screen \<Rightarrow> ('a, 's, unit) act" where
  "wheel_down E p c =
     (if ar_contains (sc_conversations c) p
      then update (\<lambda>s. set_list_scroll (min (list_scroll s + 3) (list_length s - unat (list_height c))) s)
      else if ar_contains (sc_messages c) p then update (scroll_messages (en_unicode E) (-3))
      else finish ())"

definition handle_mouse :: "outside \<Rightarrow> ('a, 's, 'pa, 'ps) env \<Rightarrow> MouseKind \<Rightarrow> point \<Rightarrow> screen \<Rightarrow>
    ('a, 's, unit) act" where
  "handle_mouse W E kind p c s =
     (if ap_delete_confirmation s \<noteq> None
      then (if kind \<noteq> LeftDown then finish () s
            else if ar_contains (sc_delete_confirm c) p then ignore (confirm_delete W E) s
            else if ar_contains (sc_delete_cancel c) p then update cancel_delete s
            else finish () s)
      else if ap_device_manager_visible s then handle_device_manager_mouse W kind p c s
      else if ep_visible (ap_emoji s) then handle_emoji_mouse E kind p c s
      else case kind of
        LeftDown \<Rightarrow> left_down W E p c s
      | LeftDrag \<Rightarrow> update (drag_scrollbar (en_unicode E) c (snd p)) s
      | LeftUp \<Rightarrow> left_up E s
      | ScrollUp \<Rightarrow> wheel_up E p c s
      | ScrollDown \<Rightarrow> wheel_down E p c s
      | OtherMouse \<Rightarrow> finish () s)"

section \<open>Terminal events\<close>

definition on_focus_gained :: "outside \<Rightarrow> ('a, 's, 'pa, 'ps) env \<Rightarrow> ('a, 's, unit) act" where
  "on_focus_gained W E =
     await (view ap_terminal_focused) (\<lambda>was_focused.
     await (update (\<lambda>s. s\<lparr>ap_terminal_focused := True\<rparr>)) (\<lambda>_.
     if was_focused then finish () else mark_selected_read W E))"

definition on_paste :: "('a, 's, 'pa, 'ps) env \<Rightarrow> string \<Rightarrow> ('a, 's, unit) act" where
  "on_paste E txt s =
     (if ep_visible (ap_emoji s) then update (with_emoji (append_emoji_query (en_unicode E) txt)) s
      else if ap_device_manager_visible s \<or> ap_help_visible s \<or> ap_delete_confirmation s \<noteq> None then finish () s
      else await (set_focus Composer) (\<lambda>_. await (insert_text E txt) (\<lambda>_. update refresh_completion)) s)"

definition handle_terminal_event :: "outside \<Rightarrow> ('a, 's, 'pa, 'ps) env \<Rightarrow> terminal_event \<Rightarrow> ('a, 's, unit) act" where
  "handle_terminal_event W E event s = (case event of
       FocusGained \<Rightarrow> on_focus_gained W E s
     | FocusLost \<Rightarrow> update (\<lambda>s. s\<lparr>ap_terminal_focused := False\<rparr>) s
     | KeyPress k \<Rightarrow> handle_key W E k s
     | Mouse kind p c \<Rightarrow> if ap_mouse_enabled s then handle_mouse W E kind p c s else finish () s
     | Paste txt \<Rightarrow> on_paste E txt s
     | OtherEvent \<Rightarrow> finish () s)"

end
