(* ===== verification/App_Loop.thy ===== *)
theory App_Loop
  imports App_Input
begin

text \<open>
  The life of the client application (\<open>crates/client/src/app.rs\<close>): how \<open>App::new\<close> makes the state, and
  the event loop, which handles one event after the other until the user quits or a handler of the
  terminal fails. The migration of old messages runs beside the loop, on the same store.
\<close>

section \<open>The new application\<close>

definition first_theme :: "local_db \<Rightarrow> UiTheme" where
  "first_theme d = (case Option.bind (ui_preference ''theme'' d) theme_parse of
       None \<Rightarrow> DefaultTheme | Some t \<Rightarrow> t)"

definition new_app :: "local_db \<Rightarrow> VaultSession \<Rightarrow> ('a, 's) RuntimeProfile \<Rightarrow> bool \<Rightarrow> Contact list \<Rightarrow>
    Notification list \<Rightarrow> int \<Rightarrow> ('a, 's) app" where
  "new_app d v p mouse_enabled cs ns now = \<lparr>ap_store = d, ap_vault = v, ap_profile = p, ap_contacts = cs,
     ap_selected = None, ap_messages = [], ap_editor = editor_new, ap_focus = Composer,
     ap_sidebar_tab = ConversationsTab,
     ap_sidebar_collapsed = (ui_preference ''sidebar_collapsed'' d = Some ''true''),
     ap_theme = first_theme d, ap_completion = completion_default,
     ap_emoji = \<lparr>ep_visible = False, ep_query = [], ep_selected = 0, ep_scroll = 0, ep_columns = 0,
       ep_page_size = 0\<rparr>,
     ap_help_visible = False, ap_redraw_requested = False, ap_contact_scroll = 0,
     ap_notification_scroll = 0, ap_notifications = ns, ap_notification_selected = None,
     ap_message_scroll = 0, ap_new_messages_below = 0, ap_history_exhausted = False,
     ap_persisted_draft = [], ap_messages_width = 0, ap_messages_height = 0, ap_layout_narrow = False,
     ap_delete_confirmation = None, ap_device_manager_visible = False, ap_own_devices = [],
     ap_own_device_selected = 0, ap_dragging = None, ap_mouse_enabled = mouse_enabled,
     ap_terminal_focused = True, ap_connected = True, ap_quit = False, ap_pairing_requests = [],
     ap_pairing = None, ap_bundle_cache = [], ap_reconnect_at = now, ap_reconnect_backoff = 1,
     ap_post_activation_sync = False, ap_background_requests = [], ap_background_deadlines = [],
     ap_blocked_outbox = [], ap_outbox_retry_after = [], ap_sync_in_flight = False,
     ap_reconnect_in_flight = False, ap_sent = [], ap_clock = 0\<rparr>"

text \<open>\<open>App::new\<close> up to the record, and then \<open>app_start\<close>.\<close>

definition app_new :: "outside \<Rightarrow> ('a, 's, 'pa, 'ps) env \<Rightarrow> local_db \<Rightarrow> VaultSession \<Rightarrow>
    ('a, 's) RuntimeProfile \<Rightarrow> bool \<Rightarrow> app_error + ('a, 's) app" where
  "app_new W E d v p mouse_enabled =
     (case (contacts (en_packages E) d, notifications (en_packages E) v d) of
        (Inl e, _) \<Rightarrow> Inl (Inner e)
      | (_, Inl e) \<Rightarrow> Inl (Inner e)
      | (Inr cs, Inr ns) \<Rightarrow>
          (case app_start W E (new_app d v p mouse_enabled cs ns (instant_at W 0)) of
             (Inl e, _) \<Rightarrow> Inl e
           | (Inr _, s) \<Rightarrow> Inr s))"

section \<open>The loop\<close>

text \<open>
  What drawing writes besides the areas: the size of the message pane and whether the layout is narrow,
  scroll offsets that it clamps, and the geometry and clamped selection of the emoji picker. The values
  come from the size of the terminal; here they are arbitrary.
\<close>

record geometry =
  ge_messages_width :: u16
  ge_messages_height :: u16
  ge_narrow :: bool
  ge_contact_scroll :: nat
  ge_notification_scroll :: nat
  ge_message_scroll :: nat
  ge_emoji_selected :: nat
  ge_emoji_scroll :: nat
  ge_emoji_columns :: nat
  ge_emoji_page_size :: nat

definition drawn :: "geometry \<Rightarrow> ('a, 's) app \<Rightarrow> ('a, 's) app" where
  "drawn g s = s\<lparr>ap_messages_width := ge_messages_width g, ap_messages_height := ge_messages_height g,
     ap_layout_narrow := ge_narrow g, ap_contact_scroll := ge_contact_scroll g,
     ap_notification_scroll := ge_notification_scroll g, ap_message_scroll := ge_message_scroll g,
     ap_emoji := (ap_emoji s)\<lparr>ep_selected := ge_emoji_selected g, ep_scroll := ge_emoji_scroll g,
       ep_columns := ge_emoji_columns g, ep_page_size := ge_emoji_page_size g\<rparr>\<rparr>"

text \<open>What \<open>select!\<close> waits for.\<close>

datatype app_event =
    TerminalInput terminal_event
  | TerminalError
  | TerminalClosed
  | ServerEvent Frame
  | ServerClosed
  | ReconnectDone "string list result"
  | ServiceTick
  | Interrupt
  | Draw geometry

definition event_enabled :: "app_event \<Rightarrow> ('a, 's) app \<Rightarrow> bool" where
  "event_enabled event s = (case event of
       ServerEvent _ \<Rightarrow> ap_connected s
     | ServerClosed \<Rightarrow> ap_connected s
     | ReconnectDone _ \<Rightarrow> ap_reconnect_in_flight s
     | _ \<Rightarrow> True)"

text \<open>One round of the loop; the result is the heartbeat counter, or the error that ends the loop.\<close>

definition event_step :: "outside \<Rightarrow> ('a, 's, 'pa, 'ps) env \<Rightarrow> u8 \<Rightarrow> app_event \<Rightarrow> ('a, 's, u8) act" where
  "event_step W E heartbeat event = (case event of
       TerminalInput t \<Rightarrow> await (handle_terminal_event W E t) (\<lambda>_.
         await (update (\<lambda>s. s\<lparr>ap_redraw_requested := False\<rparr>)) (\<lambda>_. finish heartbeat))
     | TerminalError \<Rightarrow> raise TerminalFailed
     | TerminalClosed \<Rightarrow> await (update (\<lambda>s. s\<lparr>ap_quit := True\<rparr>)) (\<lambda>_. finish heartbeat)
     | ServerEvent frame \<Rightarrow> await (ignore (handle_server_event W E frame)) (\<lambda>_. finish heartbeat)
     | ServerClosed \<Rightarrow> await (update (\<lambda>s. s\<lparr>ap_connected := False\<rparr>)) (\<lambda>_. finish heartbeat)
     | ReconnectDone result \<Rightarrow> await (handle_reconnect_result W E result) (\<lambda>_. finish heartbeat)
     | ServiceTick \<Rightarrow> service_step W E heartbeat
     | Interrupt \<Rightarrow> await (update (\<lambda>s. s\<lparr>ap_quit := True\<rparr>)) (\<lambda>_. finish heartbeat)
     | Draw g \<Rightarrow> await (update (drawn g)) (\<lambda>_. finish heartbeat))"

text \<open>
  The runs of a client that is started with a store, a vault session and a profile: the value is the
  heartbeat counter, or \<open>None\<close> after the loop has ended, with the state. \<open>Migrated\<close> is a step of the task
  that rewrites old message bodies; \<open>Closed\<close> is the end of \<open>App::run\<close>, which saves the draft.
\<close>

inductive app_run :: "outside \<Rightarrow> ('a, 's, 'pa, 'ps) env \<Rightarrow> local_db \<Rightarrow> VaultSession \<Rightarrow>
    ('a, 's) RuntimeProfile \<Rightarrow> u8 option \<times> ('a, 's) app \<Rightarrow> bool" for W E d v p where
  Started: "app_new W E d v p mouse = Inr s \<Longrightarrow> app_run W E d v p (Some 0, s)"
| Stepped: "app_run W E d v p (Some h, s) \<Longrightarrow> \<not> ap_quit s \<Longrightarrow> event_enabled event s \<Longrightarrow>
    event_step W E h event s = (Inr h', s') \<Longrightarrow> app_run W E d v p (Some h', s')"
| Failed: "app_run W E d v p (Some h, s) \<Longrightarrow> \<not> ap_quit s \<Longrightarrow> event_enabled event s \<Longrightarrow>
    event_step W E h event s = (Inl e, s') \<Longrightarrow> app_run W E d v p (None, s')"
| Migrated: "app_run W E d v p (h, s) \<Longrightarrow>
    migrate_rows (en_packages E) nonces (ap_vault s) [row] n (ap_store s) = (result, d') \<Longrightarrow>
    app_run W E d v p (h, s\<lparr>ap_store := d'\<rparr>)"
| Closed: "app_run W E d v p (h, s) \<Longrightarrow> ap_quit s \<or> h = None \<Longrightarrow>
    app_run W E d v p (None, snd (save_current_draft W E s))"

end
