(* ===== verification/App_Relation.thy ===== *)
theory App_Relation
  imports App_Loop Local_Properties
begin

text \<open>
  What all handlers of the application have in common. \<open>leads R s (m s)\<close> says that the action \<open>m\<close> leads
  from \<open>s\<close> to an \<open>R\<close>-related state, whatever its result is. A relation that is reflexive and transitive
  and holds for the few ways in which a handler touches the store, the profile, the background requests
  and the connection holds for every handler: the locales below state those ways, once for the
  handlers that server events, reconnection and the service tick run (\<open>server_relation\<close>) and once more
  for those of the user.
\<close>

section \<open>Moves of the store\<close>

text \<open>
  An upper bound of what a handler does to the store: some operation of \<open>local.rs\<close> with some arguments. What
  every such operation keeps, every handler keeps: the vault once it is set, and (in \<open>quiet_move\<close>) the
  profile and the trusted keys. It is no description of the calls of the application.
\<close>

definition store_move :: "('a, 's, 'pa, 'ps) local_packages \<Rightarrow> local_db \<Rightarrow> local_db \<Rightarrow> bool" where
  "store_move P d d' \<longleftrightarrow> (\<exists>conv. local_step P conv d d')"

abbreviation store_moves :: "('a, 's, 'pa, 'ps) local_packages \<Rightarrow> local_db \<Rightarrow> local_db \<Rightarrow> bool" where
  "store_moves P \<equiv> (store_move P)\<^sup>*\<^sup>*"

lemma store_moveI: "local_step P conv d d' \<Longrightarrow> store_moves P d d'"
  by (rule r_into_rtranclp) (auto simp: store_move_def)

text \<open>
  Moves that leave the profile and the envelope cursor alone, add nothing to the outbox and verify no
  new key.
\<close>

definition quiet_move :: "('a, 's, 'pa, 'ps) local_packages \<Rightarrow> local_db \<Rightarrow> local_db \<Rightarrow> bool" where
  "quiet_move P d d' \<longleftrightarrow> store_moves P d d' \<and> lo_profile d' = lo_profile d
     \<and> lo_envelope_cursor d' = lo_envelope_cursor d \<and> set (lo_outbox d') \<subseteq> set (lo_outbox d) \<and> (keeps_master_key P \<longrightarrow> trust_kept P d d')"

lemma trust_kept_trans: "trust_kept P a b \<Longrightarrow> trust_kept P b c \<Longrightarrow> trust_kept P a c"
  unfolding trust_kept_def by metis

lemma quiet_refl: "quiet_move P d d"
  by (simp add: quiet_move_def trust_kept_same)

lemma quiet_trans: "quiet_move P a b \<Longrightarrow> quiet_move P b c \<Longrightarrow> quiet_move P a c"
  unfolding quiet_move_def by (auto intro: trust_kept_trans)

lemma quiet_by_contacts:
  "local_step P conv d d' \<Longrightarrow> lo_profile d' = lo_profile d \<Longrightarrow>
   lo_envelope_cursor d' = lo_envelope_cursor d \<Longrightarrow> set (lo_outbox d') \<subseteq> set (lo_outbox d) \<Longrightarrow>
   set (lo_contacts d') \<subseteq> set (lo_contacts d) \<Longrightarrow> quiet_move P d d'"
  by (simp add: quiet_move_def store_moveI trust_kept_subset)

named_theorems quiet
named_theorems leads

lemma quiet_notice_state [quiet]: "quiet_move P d (update_notification_state now i st r d)"
  by (rule quiet_by_contacts [OF local_step.notice_state]) (auto simp: update_notification_state_def)

lemma quiet_notice_read [quiet]: "quiet_move P d (mark_notification_read now i d)"
  by (rule quiet_by_contacts [OF local_step.notice_read]) (auto simp: mark_notification_read_def)

lemma quiet_notice_gone [quiet]: "quiet_move P d (delete_notification i d)"
  by (rule quiet_by_contacts [OF local_step.notice_gone]) (auto simp: delete_notification_def)

lemma quiet_outbox_done [quiet]: "quiet_move P d (remove_outbox i d)"
  by (rule quiet_by_contacts [OF local_step.outbox_done]) (auto simp: remove_outbox_def)

lemma quiet_deletion_synced [quiet]: "quiet_move P d (mark_conversation_deletion_synced e d)"
  by (rule quiet_by_contacts [OF local_step.deletion_synced]) (auto simp: mark_conversation_deletion_synced_def)

lemma quiet_status [quiet]: "quiet_move P d (update_status i st d)"
  by (rule quiet_by_contacts [OF local_step.status]) (auto simp: update_status_def set_status_where_def)

lemma quiet_peer_status [quiet]: "quiet_move P d (update_outbound_status_for_peer i peer st d)"
  by (rule quiet_by_contacts [OF local_step.peer_status])
    (auto simp: update_outbound_status_for_peer_def set_status_where_def)

lemma quiet_preference [quiet]: "quiet_move P d (save_ui_preference now k v d)"
  by (rule quiet_by_contacts [OF local_step.preference]) (auto simp: save_ui_preference_def)

lemma quiet_pairing_event [quiet]: "quiet_move P d (mark_pairing_event_processed now e d)"
  by (rule quiet_by_contacts [OF local_step.pairing_event]) (auto simp: mark_pairing_event_processed_def)

lemma upsert_notification_frame:
  "upsert_notification k n s = ok s' \<Longrightarrow> lo_profile s' = lo_profile s \<and> lo_outbox s' = lo_outbox s
     \<and> lo_contacts s' = lo_contacts s \<and> lo_envelope_cursor s' = lo_envelope_cursor s"
  by (auto simp: upsert_notification_def split: if_splits)

lemma quiet_notice [quiet]: "save_notification P n v notice d = ok d' \<Longrightarrow> quiet_move P d d'"
  by (rule quiet_by_contacts [OF local_step.notice])
    (auto simp: save_notification_def attempt_ok_iff dest!: upsert_notification_frame)

lemma quiet_draft [quiet]: "save_draft P now n v c txt d = ok d' \<Longrightarrow> quiet_move P d d'"
  by (rule quiet_by_contacts [OF local_step.draft])
    (auto simp: save_draft_def attempt_ok_iff split: if_splits)

lemma put_contact_frame: "put_contact c s = ok s' \<Longrightarrow> lo_profile s' = lo_profile s \<and> lo_outbox s' = lo_outbox s
    \<and> lo_envelope_cursor s' = lo_envelope_cursor s"
  by (auto simp: put_contact_def split: if_splits)

lemma upsert_contact_frame:
  "upsert_contact P now b s = ok (c, s') \<Longrightarrow> lo_profile s' = lo_profile s \<and> lo_outbox s' = lo_outbox s
    \<and> lo_envelope_cursor s' = lo_envelope_cursor s"
  by (auto simp: upsert_contact_def attempt_ok_iff Let_def split: option.splits dest!: put_contact_frame)

lemma quiet_contact [quiet]: "upsert_contact P now b d = ok (c, d') \<Longrightarrow> quiet_move P d d'"
  by (auto simp: quiet_move_def intro: store_moveI local_step.contact upsert_contact_trust
      dest: upsert_contact_frame)

lemma insert_message_frame:
  "insert_message m s = ok s' \<Longrightarrow> lo_profile s' = lo_profile s \<and> lo_outbox s' = lo_outbox s
     \<and> lo_contacts s' = lo_contacts s \<and> lo_envelope_cursor s' = lo_envelope_cursor s"
  by (auto simp: insert_message_def attempt_ok_iff split: if_splits)

lemma quiet_message: "save_message P n v m d = ok d' \<Longrightarrow> quiet_move P d d'"
  by (rule quiet_by_contacts [OF local_step.message [where conv = "\<lambda>_. cm_conversation_id m"]])
    (auto simp: save_message_def attempt_ok_iff dest!: insert_message_frame)

lemma quiet_import_messages [quiet]: "quiet_move P d (snd (import_messages P nonces v ms d))"
  by (induction ms arbitrary: d)
    (auto simp: quiet_refl split: sum.split intro: quiet_trans dest: quiet_message)

lemma quiet_migrate [quiet]: "quiet_move P d (snd (migrate_rows P nonces v rs n d))"
proof (rule quiet_by_contacts [OF local_step.migrate])
  show "set (lo_contacts (snd (migrate_rows P nonces v rs n d))) \<subseteq> set (lo_contacts d)"
    by (simp add: migrate_rows_contacts)
  have "lo_profile (snd (migrate_rows P nonces v rs n d)) = lo_profile d
      \<and> lo_envelope_cursor (snd (migrate_rows P nonces v rs n d)) = lo_envelope_cursor d
      \<and> lo_outbox (snd (migrate_rows P nonces v rs n d)) = lo_outbox d"
    by (induction rs arbitrary: n d) (auto split: sum.split)
  then show "lo_profile (snd (migrate_rows P nonces v rs n d)) = lo_profile d"
      "lo_envelope_cursor (snd (migrate_rows P nonces v rs n d)) = lo_envelope_cursor d"
      "set (lo_outbox (snd (migrate_rows P nonces v rs n d))) \<subseteq> set (lo_outbox d)" by simp_all
qed

lemma delete_state_frame:
  "lo_profile (delete_conversation_state p c s) = lo_profile s"
  "set (lo_outbox (delete_conversation_state p c s)) \<subseteq> set (lo_outbox s)"
  "lo_envelope_cursor (delete_conversation_state p c s) = lo_envelope_cursor s"
  by (auto simp: delete_conversation_state_def)

lemma upsert_tombstone_frame2:
  "upsert_tombstone t s = ok s' \<Longrightarrow> lo_profile s' = lo_profile s \<and> lo_outbox s' = lo_outbox s
    \<and> lo_envelope_cursor s' = lo_envelope_cursor s"
  by (auto simp: upsert_tombstone_def split: if_splits option.splits)

lemma quiet_delete_everywhere [quiet]:
  assumes "delete_conversation_everywhere peer name c e t d = ok d'"
  shows "quiet_move P d d'"
proof (rule quiet_by_contacts [OF local_step.delete_everywhere [OF assms]])
  have "\<exists>t. upsert_tombstone t (delete_conversation_state peer c d) = ok d'"
    using assms by (auto simp: delete_conversation_everywhere_def)
  then show "lo_profile d' = lo_profile d" "lo_envelope_cursor d' = lo_envelope_cursor d" "set (lo_outbox d') \<subseteq> set (lo_outbox d)"
      "set (lo_contacts d') \<subseteq> set (lo_contacts d)"
    using delete_state_frame delete_conversation_contacts upsert_tombstone_contacts
    by (metis upsert_tombstone_frame2)+
qed

text \<open>Moves that also write the profile \<open>p\<close>, and may put envelopes into the outbox.\<close>

text \<open>A nonce: 24 bytes, or what the random generator has drawn.\<close>

definition drawn_nonce :: "outside \<Rightarrow> bytes \<Rightarrow> bool" where
  "drawn_nonce W n \<longleftrightarrow> length n = 24 \<or> (\<exists>k i. n = random_at W k i)"

lemma drawn_nonceI: "drawn_nonce W (random_at W k i)"
  by (auto simp: drawn_nonce_def)

lemma drawn_nonce_fst: "drawn_nonce W (fst (random_at W k i, x))"
  by (simp add: drawn_nonceI)

definition profile_written :: "outside \<Rightarrow> ('a, 's, 'pa, 'ps) env \<Rightarrow> VaultSession \<Rightarrow> ('a, 's) RuntimeProfile \<Rightarrow> local_db \<Rightarrow> bool" where
  "profile_written W E v p d \<longleftrightarrow> (\<exists>n now blob. drawn_nonce W n \<and> encode_profile (en_packages E) n v p = ok blob \<and>
     lo_profile d = Some \<lparr>pf_encrypted_blob = blob, pf_updated_at_ms = now, pf_encryption_version = 2\<rparr>)"

definition envelope_frame :: "('a, 's, 'pa, 'ps) env \<Rightarrow> bytes \<Rightarrow> bool" where
  "envelope_frame E encoded \<longleftrightarrow>
     (\<exists>i es. encoded = encode_frame (frame_to_vec E) (mk_frame i (SendEnvelopes es)))"

definition only_envelopes :: "('a, 's, 'pa, 'ps) env \<Rightarrow> local_db \<Rightarrow> local_db \<Rightarrow> bool" where
  "only_envelopes E d d' \<longleftrightarrow> (\<forall>row \<in> set (lo_outbox d').
     row \<in> set (lo_outbox d) \<or> envelope_frame E (ob_encoded_frame row))"

definition written_move :: "outside \<Rightarrow> ('a, 's, 'pa, 'ps) env \<Rightarrow> VaultSession \<Rightarrow> ('a, 's) RuntimeProfile \<Rightarrow>
    local_db \<Rightarrow> local_db \<Rightarrow> bool" where
  "written_move W E v p d d' \<longleftrightarrow> store_moves (en_packages E) d d' \<and> profile_written W E v p d'
     \<and> only_envelopes E d d' \<and> (keeps_master_key (en_packages E) \<longrightarrow> trust_kept (en_packages E) d d')"

text \<open>A profile that is saved with what is sent leaves the envelope cursor alone.\<close>

definition outgoing_move :: "outside \<Rightarrow> ('a, 's, 'pa, 'ps) env \<Rightarrow> VaultSession \<Rightarrow> ('a, 's) RuntimeProfile \<Rightarrow>
    local_db \<Rightarrow> local_db \<Rightarrow> bool" where
  "outgoing_move W E v p d d' \<longleftrightarrow> written_move W E v p d d' \<and> lo_envelope_cursor d' = lo_envelope_cursor d"

lemma written_by_contacts:
  "local_step (en_packages E) conv d d' \<Longrightarrow> profile_written W E v p d' \<Longrightarrow> only_envelopes E d d' \<Longrightarrow>
   set (lo_contacts d') \<subseteq> set (lo_contacts d) \<Longrightarrow> written_move W E v p d d'"
  by (simp add: written_move_def store_moveI trust_kept_subset)

lemma written_upsert_profile:
  "drawn_nonce W n \<Longrightarrow> encode_profile (en_packages E) n v p = ok blob \<Longrightarrow> lo_profile d = lo_profile (upsert_profile blob now d0) \<Longrightarrow>
   profile_written W E v p d"
  by (auto simp: profile_written_def upsert_profile_def)

lemma envelopes_kept: "set (lo_outbox d') \<subseteq> set (lo_outbox d) \<Longrightarrow> only_envelopes E d d'"
  by (auto simp: only_envelopes_def)

lemma envelopes_put:
  "envelope_frame E frame \<Longrightarrow> lo_outbox d1 = lo_outbox d \<Longrightarrow> only_envelopes E d (put_outbox i frame now d1)"
  by (auto simp: only_envelopes_def put_outbox_def)

named_theorems written

lemma written_save_profile:
  assumes c: "save_profile (en_packages E) now n v p d = ok d'" and n: "drawn_nonce W n"
  shows "written_move W E v p d d'"
  using c n by (intro written_by_contacts [OF local_step.profile [OF c]])
    (auto simp: save_profile_def attempt_ok_iff upsert_profile_def profile_written_def only_envelopes_def)

lemma written_control [written]:
  assumes c: "commit_control (en_packages E) now n v p cursor d = ok d'" and n: "drawn_nonce W n"
  shows "written_move W E v p d d'"
  using c n by (intro written_by_contacts [OF local_step.control [OF c]])
    (auto simp: commit_control_def attempt_ok_iff upsert_defs profile_written_def only_envelopes_def)

lemma written_control_outgoing:
  assumes c: "commit_control_outgoing (en_packages E) now n v p i frame d = ok d'" and e: "envelope_frame E frame"
    and n: "drawn_nonce W n"
  shows "written_move W E v p d d'"
proof (rule written_by_contacts [OF local_step.control_outgoing [OF c]])
  obtain blob where b: "encode_profile (en_packages E) n v p = ok blob"
      "d' = put_outbox i frame now (upsert_profile blob now d)"
    using c by (auto simp: commit_control_outgoing_def attempt_ok_iff)
  show "profile_written W E v p d'"
    by (rule written_upsert_profile [OF n b(1), of _ now d]) (simp add: b(2) put_outbox_def)
  show "only_envelopes E d d'" unfolding b(2) by (rule envelopes_put [OF e]) (simp add: upsert_profile_def)
  show "set (lo_contacts d') \<subseteq> set (lo_contacts d)" by (simp add: b(2) upsert_defs)
qed

lemma written_outgoing:
  assumes c: "commit_outgoing (en_packages E) now ns v p m frame d = ok d'" and e: "envelope_frame E frame"
    and n: "drawn_nonce W (fst ns)"
  shows "written_move W E v p d d'"
proof (rule written_by_contacts [OF local_step.outgoing [OF _ c, of "\<lambda>_. cm_conversation_id m"]])
  obtain blob body d1 where b: "encode_profile (en_packages E) (fst ns) v p = ok blob"
      "insert_message (row_of_message body m) (upsert_profile blob now d) = ok d1"
      "d' = put_outbox (cm_id m) frame now d1"
    using c by (auto simp: commit_outgoing_def attempt_ok_iff)
  note f = insert_message_frame [OF b(2)]
  show "profile_written W E v p d'"
    by (rule written_upsert_profile [OF n b(1), of _ now d]) (simp add: b(3) put_outbox_def f)
  show "only_envelopes E d d'"
    unfolding b(3) by (rule envelopes_put [OF e]) (simp add: f upsert_profile_def)
  show "set (lo_contacts d') \<subseteq> set (lo_contacts d)" by (simp add: b(3) put_outbox_def f upsert_profile_def)
qed simp

lemma written_inbound [written]:
  assumes c: "commit_inbound (en_packages E) now ns v p m cursor d = ok d'"
    and n: "drawn_nonce W (fst ns)"
  shows "written_move W E v p d d'"
proof (rule written_by_contacts [OF local_step.inbound [OF _ c, of "\<lambda>_. cm_conversation_id m"]])
  obtain blob body d1 where b: "encode_profile (en_packages E) (fst ns) v p = ok blob"
      "insert_message (row_of_message body m) (upsert_profile blob now d) = ok d1" "d' = set_envelope_cursor cursor d1"
    using c by (auto simp: commit_inbound_def attempt_ok_iff)
  note f = insert_message_frame [OF b(2)]
  show "profile_written W E v p d'"
    by (rule written_upsert_profile [OF n b(1), of _ now d]) (simp add: b(3) set_envelope_cursor_def f)
qed (use c in \<open>auto simp: commit_inbound_def attempt_ok_iff upsert_defs only_envelopes_def
        dest!: insert_message_frame\<close>)

lemma written_unverified [written]:
  assumes c: "commit_unverified_inbound (en_packages E) now nns v p m notice cursor d = ok d'"
    and n: "drawn_nonce W (fst nns)"
  shows "written_move W E v p d d'"
proof (rule written_by_contacts [OF local_step.unverified_inbound [OF _ c, of "\<lambda>_. cm_conversation_id m"]])
  obtain blob body payload d1 d2 where b: "encode_profile (en_packages E) (fst nns) v p = ok blob"
      "insert_message (row_of_message body m) (upsert_profile blob now d) = ok d1"
      "upsert_notification False (row_of_notification payload notice) d1 = ok d2"
      "d' = set_envelope_cursor cursor d2"
    using c by (auto simp: commit_unverified_inbound_def attempt_ok_iff)
  note f = insert_message_frame [OF b(2)] upsert_notification_frame [OF b(3)]
  show "profile_written W E v p d'"
    by (rule written_upsert_profile [OF n b(1), of _ now d]) (simp add: b(4) set_envelope_cursor_def f)
  show "only_envelopes E d d'" by (rule envelopes_kept) (simp add: b(4) f upsert_defs)
  show "set (lo_contacts d') \<subseteq> set (lo_contacts d)" by (simp add: b(4) f upsert_defs)
qed simp

lemma written_deletion [written]:
  assumes c: "commit_conversation_deletion (en_packages E) now n v p t cursor d = ok d'"
    and n: "drawn_nonce W n"
  shows "written_move W E v p d d'"
proof (rule written_by_contacts [OF local_step.commit_deletion [OF c]])
  let ?d0 = "delete_conversation_state (cb_peer_account_id t) (cb_conversation_id t) d"
  obtain blob d1 where b: "encode_profile (en_packages E) n v p = ok blob"
      "upsert_tombstone (tombstone_row_of t False) ?d0 = ok d1"
      "d' = set_envelope_cursor cursor (upsert_profile blob now d1)"
    using c by (auto simp: commit_conversation_deletion_def attempt_ok_iff)
  show "profile_written W E v p d'"
    by (rule written_upsert_profile [OF n b(1), of _ now d]) (simp add: b(3) upsert_defs)
  show "only_envelopes E d d'"
    using delete_state_frame(2) by (intro envelopes_kept) (simp add: b(3) upsert_defs upsert_tombstone_frame2 [OF b(2)])
  show "set (lo_contacts d') \<subseteq> set (lo_contacts d)"
    using delete_conversation_contacts upsert_tombstone_contacts [OF b(2)] by (simp add: b(3) upsert_defs)
qed

named_theorems outgoing

lemma outgoing_save_profile [outgoing]:
  "save_profile (en_packages E) now n v p d = ok d' \<Longrightarrow> drawn_nonce W n \<Longrightarrow> outgoing_move W E v p d d'"
  by (simp add: outgoing_move_def written_save_profile) (auto simp: save_profile_def attempt_ok_iff upsert_profile_def)

lemma outgoing_control [outgoing]:
  "commit_control_outgoing (en_packages E) now n v p i frame d = ok d' \<Longrightarrow> envelope_frame E frame \<Longrightarrow>
   drawn_nonce W n \<Longrightarrow> outgoing_move W E v p d d'"
  by (simp add: outgoing_move_def written_control_outgoing)
    (auto simp: commit_control_outgoing_def attempt_ok_iff upsert_defs)

lemma outgoing_message [outgoing]:
  "commit_outgoing (en_packages E) now ns v p m frame d = ok d' \<Longrightarrow> envelope_frame E frame \<Longrightarrow>
   drawn_nonce W (fst ns) \<Longrightarrow> outgoing_move W E v p d d'"
  by (simp add: outgoing_move_def written_outgoing)
    (auto simp: commit_outgoing_def attempt_ok_iff upsert_defs dest!: insert_message_frame)

section \<open>The state apart from the store, the machine and the connection\<close>

definition consent :: "('a, 's) app \<Rightarrow> bool" where
  "consent s \<longleftrightarrow> (case ap_pairing s of None \<Rightarrow> False | Some p \<Rightarrow> pg_our_confirmed p)"

text \<open>Every background request has a deadline, and there is no other deadline.\<close>

definition matched :: "(string \<times> BackgroundRequest) list \<Rightarrow> (string \<times> int) list \<Rightarrow> bool" where
  "matched rs ds \<longleftrightarrow> map fst rs = map fst ds \<and> distinct (map fst rs)"

definition tracked :: "('a, 's) app \<Rightarrow> bool" where
  "tracked s \<longleftrightarrow> matched (ap_background_requests s) (ap_background_deadlines s)"

definition same_base :: "('a, 's) app \<Rightarrow> ('a, 's) app \<Rightarrow> bool" where
  "same_base s s' \<longleftrightarrow> ap_store s' = ap_store s \<and> ap_vault s' = ap_vault s \<and> ap_sent s' = ap_sent s
     \<and> rp_machine (ap_profile s') = rp_machine (ap_profile s)
     \<and> own_account s' = own_account s \<and> own_device_id s' = own_device_id s
     \<and> (rp_pending (ap_profile s') \<longrightarrow> rp_pending (ap_profile s)) \<and> (tracked s \<longrightarrow> tracked s')"

definition same_core :: "('a, 's) app \<Rightarrow> ('a, 's) app \<Rightarrow> bool" where
  "same_core s s' \<longleftrightarrow> same_base s s' \<and> (consent s' \<longrightarrow> consent s)"

text \<open>The frames of a pairing that carry the master secret, the history or the activation.\<close>

definition secret :: "Frame \<Rightarrow> bool" where
  "secret f \<longleftrightarrow> (case frame_body f of
       Some (PairingEvent e) \<Rightarrow> pe_event_type e \<notin> {''sas_public'', ''sas_confirmed''}
     | Some (ActivateDevice _) \<Rightarrow> True
     | _ \<Rightarrow> False)"

definition ack_of :: "Frame \<Rightarrow> AckEnvelope_msg option" where
  "ack_of f = (case frame_body f of Some (AckEnvelope a) \<Rightarrow> Some a | _ \<Rightarrow> None)"

definition ordinary :: "Frame \<Rightarrow> bool" where
  "ordinary f \<longleftrightarrow> \<not> secret f \<and> ack_of f = None"

lemmas ordinary_defs = ordinary_def secret_def ack_of_def mk_frame_def

definition leads :: "(('a, 's) app \<Rightarrow> ('a, 's) app \<Rightarrow> bool) \<Rightarrow> ('a, 's) app \<Rightarrow> 'x \<times> ('a, 's) app \<Rightarrow> bool" where
  "leads R s r \<longleftrightarrow> R s (snd r)"

section \<open>Actions\<close>

lemma leads_if: "(b \<Longrightarrow> leads R s (m s)) \<Longrightarrow> (\<not> b \<Longrightarrow> leads R s (n s)) \<Longrightarrow> leads R s ((if b then m else n) s)"
  by simp

lemma leads_if_result: "(b \<Longrightarrow> leads R s r) \<Longrightarrow> (\<not> b \<Longrightarrow> leads R s q) \<Longrightarrow> leads R s (if b then r else q)"
  by simp

lemma leads_option:
  "(x = None \<Longrightarrow> leads R s (m s)) \<Longrightarrow> (\<And>v. x = Some v \<Longrightarrow> leads R s (f v s)) \<Longrightarrow>
   leads R s ((case x of None \<Rightarrow> m | Some v \<Rightarrow> f v) s)"
  by (cases x) simp_all

lemma leads_option_result:
  "(x = None \<Longrightarrow> leads R s r) \<Longrightarrow> (\<And>v. x = Some v \<Longrightarrow> leads R s (f v)) \<Longrightarrow>
   leads R s (case x of None \<Rightarrow> r | Some v \<Rightarrow> f v)"
  by (cases x) simp_all

lemma leads_sum:
  "(\<And>e. x = Inl e \<Longrightarrow> leads R s (g e s)) \<Longrightarrow> (\<And>v. x = Inr v \<Longrightarrow> leads R s (f v s)) \<Longrightarrow>
   leads R s ((case x of Inl e \<Rightarrow> g e | Inr v \<Rightarrow> f v) s)"
  by (cases x) simp_all

lemma leads_sum_result:
  "(\<And>e. x = Inl e \<Longrightarrow> leads R s (g e)) \<Longrightarrow> (\<And>v. x = Inr v \<Longrightarrow> leads R s (f v)) \<Longrightarrow>
   leads R s (case x of Inl e \<Rightarrow> g e | Inr v \<Rightarrow> f v)"
  by (cases x) simp_all

lemma leads_prod: "(\<And>a b. p = (a, b) \<Longrightarrow> leads R s (f a b s)) \<Longrightarrow> leads R s ((case p of (a, b) \<Rightarrow> f a b) s)"
  by (cases p) simp

lemma leads_prod_result: "(\<And>a b. p = (a, b) \<Longrightarrow> leads R s (f a b)) \<Longrightarrow> leads R s (case p of (a, b) \<Rightarrow> f a b)"
  by (cases p) simp

lemma leads_let: "leads R s (f a s) \<Longrightarrow> leads R s ((let x = a in f x) s)"
  by simp

lemma leads_let_result: "leads R s (f a) \<Longrightarrow> leads R s (let x = a in f x)"
  by simp

lemma leads_await_view: "leads R s (f (g s) s) \<Longrightarrow> leads R s (await (view g) f s)"
  by (simp add: await_def view_def)

lemma leads_await_views:
  "leads R s (f (g s) (h s) s) \<Longrightarrow> leads R s (await (view (\<lambda>s. (g s, h s))) (\<lambda>(x, y). f x y) s)"
  by (simp add: await_def view_def)

lemmas leads_cases = leads_await_views leads_if leads_if_result leads_option leads_option_result leads_sum leads_sum_result
  leads_prod leads_prod_result leads_let leads_let_result leads_await_view

text \<open>Every change of the records but those of the fields that \<open>same_base\<close> names.\<close>

lemmas core_defs = same_core_def same_base_def consent_def tracked_def own_account_def own_device_id_def

section \<open>Relations that every handler respects\<close>

text \<open>A reflexive and transitive relation is kept by every combination of actions that keep it.\<close>

locale step_relation =
  fixes R :: "('a, 's) app \<Rightarrow> ('a, 's) app \<Rightarrow> bool"
  assumes step_refl: "R s s" and step_trans: "R s s' \<Longrightarrow> R s' s'' \<Longrightarrow> R s s''"
begin

lemma leads_finish: "leads R s (finish x s)"
  by (simp add: leads_def finish_def step_refl)

lemma leads_raise: "leads R s (raise e s)"
  by (simp add: leads_def raise_def step_refl)

lemma leads_await: "leads R s (m s) \<Longrightarrow> (\<And>x s'. leads R s' (f x s')) \<Longrightarrow> leads R s (await m f s)"
  by (auto simp: leads_def await_def split: prod.splits sum.splits intro: step_trans)

lemma leads_await_result:
  "leads R s (m s) \<Longrightarrow> (\<And>x s'. m s = (Inr x, s') \<Longrightarrow> leads R s' (f x s')) \<Longrightarrow> leads R s (await m f s)"
  by (auto simp: leads_def await_def split: prod.splits sum.splits intro: step_trans)

lemma leads_outcome: "leads R s (m s) \<Longrightarrow> leads R s (outcome m s)"
  by (auto simp: leads_def outcome_def split: prod.splits)

lemma leads_ignore: "leads R s (m s) \<Longrightarrow> leads R s (ignore m s)"
  by (simp add: leads_def ignore_def)

lemma leads_view: "leads R s (view f s)"
  by (simp add: leads_def view_def step_refl)

lemma leads_require: "leads R s (require_that b e s)"
  by (simp add: require_that_def leads_finish leads_raise)

lemma leads_some_or_raise: "leads R s (some_or_raise e x s)"
  by (simp add: some_or_raise_def leads_finish leads_raise split: option.split)

lemma leads_lift: "leads R s (lift r s)"
  by (simp add: lift_def leads_finish leads_raise split: sum.split)

lemma leads_lift_app: "leads R s (lift_app r s)"
  by (simp add: leads_def lift_app_def step_refl)

text \<open>Actions that only check keep the state.\<close>

lemma leads_await_require: "(b \<Longrightarrow> leads R s (f () s)) \<Longrightarrow> leads R s (await (require_that b e) f s)"
  by (simp add: leads_def await_def require_that_def finish_def raise_def step_refl)

lemma leads_await_some: "(\<And>v. x = Some v \<Longrightarrow> leads R s (f v s)) \<Longrightarrow> leads R s (await (some_or_raise e x) f s)"
  by (cases x) (simp_all add: leads_def await_def some_or_raise_def finish_def raise_def step_refl)

lemma leads_await_lift: "(\<And>v. r = Inr v \<Longrightarrow> leads R s (f v s)) \<Longrightarrow> leads R s (await (lift r) f s)"
  by (cases r) (simp_all add: leads_def await_def lift_def finish_def raise_def step_refl)

lemma leads_await_lift_app: "(\<And>v. r = Inr v \<Longrightarrow> leads R s (f v s)) \<Longrightarrow> leads R s (await (lift_app r) f s)"
  by (cases r) (simp_all add: leads_def await_def lift_app_def step_refl)

lemma leads_for_each: "(\<And>x s. x \<in> set xs \<Longrightarrow> leads R s (f x s)) \<Longrightarrow> leads R s (for_each xs f s)"
  by (induction xs arbitrary: s) (simp_all add: leads_finish leads_await)

lemma leads_store_get: "leads R s (store_get f s)"
  by (simp add: store_get_def leads_lift)

end

locale app_relation =
  fixes W :: outside and E :: "('a, 's, 'pa, 'ps) env" and R :: "('a, 's) app \<Rightarrow> ('a, 's) app \<Rightarrow> bool"
  assumes R_trans: "R s s' \<Longrightarrow> R s' s'' \<Longrightarrow> R s s''"
    and R_core: "same_core s s' \<Longrightarrow> R s s'"
    and R_quiet: "quiet_move (en_packages E) (ap_store s) d \<Longrightarrow> R s (s\<lparr>ap_store := d\<rparr>)"
    and R_written: "outgoing_move W E (ap_vault s) (ap_profile s') (ap_store s) d \<Longrightarrow>
      s' = set_machine m s \<Longrightarrow> R s (s'\<lparr>ap_store := d\<rparr>)"
    and R_sent: "ordinary f \<Longrightarrow> R s (s\<lparr>ap_sent := ap_sent s @ [f]\<rparr>)"
begin


lemma R_refl: "R s s"
  by (rule R_core) (simp add: core_defs)

end

sublocale app_relation \<subseteq> step_relation R
  by unfold_locales (blast intro: R_refl R_trans)+

context app_relation
begin

lemma leads_update: "same_core s (f s) \<Longrightarrow> leads R s (update f s)"
  by (simp add: leads_def update_def R_core)

text \<open>An update keeps what the rest of the action knows of the state.\<close>

lemma leads_await_update: "same_core s (f s) \<Longrightarrow> leads R (f s) (g () (f s)) \<Longrightarrow> leads R s (await (update f) g s)"
  by (auto simp: leads_def await_def update_def intro: R_trans R_core)

lemma leads_store_run: "quiet_move (en_packages E) (ap_store s) (f (ap_store s)) \<Longrightarrow> leads R s (store_run f s)"
  by (simp add: leads_def store_run_def R_quiet)

lemma leads_store_try:
  "(\<And>d. f (ap_store s) = ok d \<Longrightarrow> quiet_move (en_packages E) (ap_store s) d) \<Longrightarrow> leads R s (store_try f s)"
  by (auto simp: leads_def store_try_def R_quiet R_refl split: sum.split)

lemma leads_store_query:
  "(\<And>x d. f (ap_store s) = ok (x, d) \<Longrightarrow> quiet_move (en_packages E) (ap_store s) d) \<Longrightarrow> leads R s (store_query f s)"
  by (auto simp: leads_def store_query_def R_quiet R_refl split: sum.split prod.split)

lemma leads_save_profile:
  assumes "drawn_nonce W n"
  shows "leads R s (store_try (save_profile (en_packages E) now n (ap_vault s) (ap_profile s)) s)"
proof (cases "save_profile (en_packages E) now n (ap_vault s) (ap_profile s) (ap_store s)")
  case (Inr d)
  have "R s ((set_machine (rp_machine (ap_profile s)) s)\<lparr>ap_store := d\<rparr>)"
    by (rule R_written [OF _ refl]) (simp add: set_machine_def outgoing_save_profile [OF Inr assms])
  with Inr show ?thesis by (simp add: leads_def store_try_def set_machine_def)
qed (simp add: leads_def store_try_def R_refl)

lemma R_tick: "R s (tick s)"
  by (rule R_core) (simp add: tick_def core_defs)

lemma leads_now_ms: "leads R s (now_ms W s)"
  and leads_instant_now: "leads R s (instant_now W s)"
  and leads_new_uuid: "leads R s (new_uuid W s)"
  and leads_random_bytes: "leads R s (random_bytes W s)"
  and leads_random_secret: "leads R s (random_secret W s)"
  and leads_jitter: "leads R s (jitter_byte W s)"
  by (simp_all add: leads_def random_secret_def jitter_byte_def now_ms_def instant_now_def new_uuid_def random_bytes_def R_tick)

lemma leads_await_random:
  "(\<And>k. leads R (tick s) (f (random_at W k) (tick s))) \<Longrightarrow> leads R s (await (random_bytes W) f s)"
  by (auto simp: leads_def await_def random_bytes_def intro: R_trans [OF R_tick])

text \<open>A commit of the store with the next machine; a failed commit leaves only the clock changed.\<close>

lemma leads_commit_by:
  assumes "\<And>now k t d. ap_store t = ap_store s \<Longrightarrow> ap_vault t = ap_vault s \<Longrightarrow>
    commit now (random_at W k) (ap_vault s) (ap_profile (set_machine m t)) (ap_store s) = ok d \<Longrightarrow>
    R t ((set_machine m t)\<lparr>ap_store := d\<rparr>)"
  shows "leads R s (commit_machine W m commit s)"
proof -
  let ?t = "tick (tick s)"
  have "R s ?t" by (blast intro: R_trans R_tick)
  moreover have "R ?t ((set_machine m ?t)\<lparr>ap_store := d\<rparr>)"
    if "commit now (random_at W k) (ap_vault s) (ap_profile (set_machine m ?t)) (ap_store s) = ok d" for now k d
    by (rule assms [OF _ _ that]) (simp_all add: tick_def)
  ultimately show ?thesis
    by (auto simp: leads_def commit_machine_def await_def now_ms_def random_bytes_def Let_def set_machine_def tick_def
        split: sum.split intro: R_trans)
qed

lemma leads_commit_machine:
  assumes "\<And>now k p d. commit now (random_at W k) (ap_vault s) p (ap_store s) = ok d \<Longrightarrow>
    outgoing_move W E (ap_vault s) p (ap_store s) d"
  shows "leads R s (commit_machine W m commit s)"
  by (rule leads_commit_by, rule R_written [OF _ refl]) (use assms in simp)

lemma leads_send_frame: "ordinary f \<Longrightarrow> leads R s (send_frame W f s)"
  using R_trans [OF R_tick R_sent [of f "tick s"]]
  by (simp add: leads_def send_frame_def R_tick) (simp add: tick_def)

lemma leads_notify: "ordinary (mk_frame [] b) \<Longrightarrow> leads R s (notify W b s)"
  by (simp add: notify_def leads_send_frame)

end

end
