(* ===== verification/App_Respects.thy ===== *)
theory App_Respects
  imports App_Relation
begin

text \<open>
  Every handler of the application respects the relations of \<open>App_Relation\<close>: one lemma per handler,
  in the order of the modules.
\<close>

lemma leads_notice:
  "(\<And>p. x = PairingNotice p \<Longrightarrow> leads R s (f p s)) \<Longrightarrow> (\<And>d. x = ChatRequestNotice d \<Longrightarrow> leads R s (g d s)) \<Longrightarrow>
   (\<And>i a. x = ChatResponseNotice i a \<Longrightarrow> leads R s (h i a s)) \<Longrightarrow>
   leads R s ((case x of PairingNotice p \<Rightarrow> f p | ChatRequestNotice d \<Rightarrow> g d | ChatResponseNotice i a \<Rightarrow> h i a) s)"
  by (cases x) simp_all

lemmas drawn = drawn_nonceI drawn_nonce_fst

context app_relation
begin

lemmas leads_basic = leads_cases leads_notice leads_finish leads_raise leads_await_update leads_await_require
  leads_await_some leads_await_lift leads_await_lift_app leads_view leads_update
  leads_await_random leads_require leads_some_or_raise leads_lift leads_lift_app leads_outcome leads_ignore leads_for_each
  leads_store_get leads_store_run leads_store_try leads_store_query leads_save_profile leads_now_ms
  leads_instant_now leads_new_uuid leads_random_bytes leads_random_secret leads_jitter

section \<open>Notifications\<close>

lemma leads_restore_pairing [leads]:
  "leads R s (restore_pairing_state_from_notifications E s)"
  unfolding restore_pairing_state_from_notifications_def
  by (intro leads_basic leads_await | simp add: core_defs split: NotificationData.split | intro conjI impI allI)+

lemma leads_restore_requests [leads]:
  "leads R s (update (restore_pairing_requests_from_notifications E) s)"
  by (intro leads_basic) (simp add: restore_pairing_requests_from_notifications_def core_defs)

lemma leads_refresh_notifications [leads]: "leads R s (refresh_notifications E s)"
  unfolding refresh_notifications_def by (intro leads_basic leads_await | simp add: core_defs)+

lemma leads_find_notification [leads]: "leads R s (find_notification E i s)"
  unfolding find_notification_def by (intro leads_basic leads_await | simp add: core_defs)+

lemma leads_store_notification [leads]: "leads R s (store_notification W E n s)"
  unfolding store_notification_def by (intro leads_basic leads_await leads quiet | assumption)+

lemma leads_id_of_old [leads]: "leads R s (id_of_old W old s)"
  unfolding id_of_old_def by (intro leads_basic)

lemma leads_save_pairing [leads]: "leads R s (save_pairing_notification W E r s)"
  unfolding save_pairing_notification_def by (intro leads_basic leads leads_await)

lemma leads_save_pending [leads]: "leads R s (save_pending_pairing_notification W E i d n k s)"
  unfolding save_pending_pairing_notification_def by (intro leads_basic leads leads_await)

lemma leads_save_request [leads]: "leads R s (save_chat_request_notification W E i b d s)"
  unfolding save_chat_request_notification_def by (intro leads_basic leads leads_await)

lemma leads_save_outgoing_request [leads]: "leads R s (save_outgoing_chat_request_notification W E i b d r s)"
  unfolding save_outgoing_chat_request_notification_def by (intro leads_basic leads leads_await)

lemma leads_save_response [leads]: "leads R s (save_chat_response_notification W E n a r s)"
  unfolding save_chat_response_notification_def by (intro leads_basic leads leads_await)

lemma leads_mark_state [leads]: "leads R s (mark_notification_state W E i st r s)"
  unfolding mark_notification_state_def by (intro leads_basic leads leads_await quiet)

lemma leads_mark_read [leads]: "leads R s (mark_read W i s)"
  unfolding mark_read_def by (intro leads_basic leads leads_await quiet)

section \<open>Requests in the background\<close>

lemma matched_update: "matched rs ds \<Longrightarrow> matched (AList.update i r rs) (AList.update i t ds)"
proof -
  have "map fst xs = map fst ys \<Longrightarrow> map fst (AList.update i r xs) = map fst (AList.update i t ys)" for xs ys
    by (induction xs ys rule: list_induct2') auto
  then show "matched rs ds \<Longrightarrow> matched (AList.update i r rs) (AList.update i t ds)"
    unfolding matched_def by (metis AList.distinct_update)
qed

lemma keys_delete: "map fst (AList.delete i xs) = filter (\<lambda>k. k \<noteq> i) (map fst xs)"
  by (induction xs) auto

lemma matched_delete: "matched rs ds \<Longrightarrow> matched (AList.delete i rs) (AList.delete i ds)"
  by (simp add: matched_def keys_delete) (metis distinct_filter)

lemma core_register: "same_core s (register_request i r t s)"
  by (simp add: register_request_def core_defs matched_update)

lemma core_expire: "same_core s (fold (expire_one now) is s)"
proof (induction "is" arbitrary: s)
  case (Cons i "is")
  have "same_core s (expire_one now i s)"
    by (auto simp: Let_def core_defs matched_delete split: option.split BackgroundRequest.split)
  with Cons [of "expire_one now i s"] show ?case by (auto simp: same_core_def same_base_def)
qed (simp add: core_defs)

lemma ordinary_id: "ordinary (f\<lparr>frame_id := i\<rparr>) = ordinary f"
  by (simp add: ordinary_def secret_def ack_of_def)

lemma leads_dispatch [leads]: "ordinary f \<Longrightarrow> leads R s (dispatch_background W f op s)"
  unfolding dispatch_background_def
proof (rule leads_await_result)
  let ?m = "\<lambda>s. if frame_id f = [] \<or> has_request (frame_id f) s
      then await (new_uuid W) (\<lambda>i. finish (f\<lparr>frame_id := i\<rparr>)) s else finish f s"
  show "leads R s (?m s)" by (intro leads_await leads_basic)
  fix f' s'
  assume "ordinary f" "?m s = (Inr f', s')"
  then have "ordinary f'" by (auto simp: await_def new_uuid_def finish_def ordinary_id split: if_splits)
  then show "leads R s' (await (send_frame W f') (\<lambda>_. await (instant_now W) (\<lambda>now.
      update (register_request (frame_id f') op (now + 20000)))) s')"
    by (intro leads_await leads_basic leads_send_frame core_register)
qed

lemma leads_expire [leads]: "leads R s (expire_background_requests W s)"
  unfolding expire_background_requests_def by (intro leads_await leads_basic core_expire)

lemma leads_sync_now [leads]: "leads R s (sync_now W s)"
  unfolding sync_now_def
  by (intro leads_basic leads leads_await | simp add: core_defs ordinary_defs)+

lemma leads_complete_outbox [leads]: "leads R s (complete_outbox i s)"
  unfolding complete_outbox_def raise_status_def
  by (intro leads_basic leads leads_await quiet | simp add: core_defs)+

lemma leads_reconcile [leads]: "leads R s (reconcile_pairing_notifications W s)"
  unfolding reconcile_pairing_notifications_def
  by (intro leads_basic leads leads_await | simp add: ordinary_defs)+

lemma leads_reconcile_bundle [leads]: "leads R s (reconcile_pairing_notifications_from_bundle W E b s)"
  unfolding reconcile_pairing_notifications_from_bundle_def
  by (intro leads_basic leads leads_await quiet | simp add: core_defs split: prod.split)+

lemma leads_refresh_devices [leads]: "leads R s (refresh_own_devices W s)"
  unfolding refresh_own_devices_def by (intro leads_basic leads leads_await | simp add: ordinary_defs)+

lemma leads_device_manager [leads]: "leads R s (open_device_manager W s)"
  unfolding open_device_manager_def by (intro leads_basic leads leads_await | simp add: core_defs)+

section \<open>Sending\<close>

lemma leads_refresh_contacts [leads]: "leads R s (refresh_contacts_preserve_selection E s)"
  unfolding refresh_contacts_preserve_selection_def by (intro leads_basic leads leads_await | simp add: core_defs)+

lemma leads_reload_contacts [leads]: "leads R s (reload_contacts E s)"
  unfolding reload_contacts_def by (intro leads_basic leads leads_await | simp add: core_defs)+

lemma leads_cache_bundle [leads]: "leads R s (cache_bundle W b s)"
  unfolding cache_bundle_def by (intro leads_basic leads leads_await | simp add: core_defs)+

lemma leads_rpc [leads]: "ordinary (mk_frame [] b) \<Longrightarrow> leads R s (rpc_request W b s)"
  unfolding rpc_request_def
  by (intro leads_await leads_basic leads_send_frame | simp add: leads_def R_tick ordinary_defs
      split: sum.split option.split Body.split)+

lemma leads_lookup_fresh [leads]: "leads R s (lookup_bundle_fresh W u s)"
  unfolding lookup_bundle_fresh_def
  by (intro leads_await leads_basic leads | simp add: ordinary_defs split: option.split Body.split
      | intro conjI impI allI)+

lemma leads_lookup [leads]: "leads R s (lookup_bundle W u s)"
  unfolding lookup_bundle_def by (intro leads_basic leads leads_await)

lemma leads_run_machine: "leads R s (run_machine f m s)"
  unfolding run_machine_def by (intro leads_basic)

lemma leads_encrypt_for [leads]: "leads R s (encrypt_for W E m d a payload s)"
  unfolding encrypt_for_def
  by (intro leads_await leads_basic leads leads_run_machine
      | simp add: ordinary_defs leads_run_machine split: option.split Body.split
      | intro conjI impI allI)+

lemma leads_seal_for [leads]: "leads R s (seal_for W E og payload ts acc s)"
proof (induction ts arbitrary: acc s)
  case Nil
  then show ?case by (cases acc) (simp add: leads_finish)
next
  case (Cons t ts)
  show ?case by (cases acc) (simp, intro leads_await leads_basic leads Cons)
qed

lemma envelope_frameI: "envelope_frame E (encode_frame (frame_to_vec E) (mk_frame i (SendEnvelopes es)))"
  by (auto simp: envelope_frame_def)

lemma leads_commit_and_dispatch [leads]: "leads R s (commit_and_dispatch W E i es m s)"
  unfolding commit_and_dispatch_def
  by (intro leads_await leads_basic leads leads_commit_machine envelope_frameI drawn | erule outgoing
      | simp add: ordinary_defs)+

lemma leads_connection_lost [leads]: "leads R s (connection_lost W s)"
  unfolding connection_lost_def by (intro leads_basic leads leads_await | simp add: core_defs)+

lemma leads_send_text [leads]: "leads R s (send_text W E txt s)"
  unfolding send_text_def scroll_messages_to_bottom_def
  by (intro leads_await leads_basic leads leads_commit_machine envelope_frameI drawn quiet | erule outgoing
      | assumption
      | simp add: ordinary_defs core_defs)+

lemma leads_send_receipts [leads]: "leads R s (send_read_receipts W E b ids s)"
  unfolding send_read_receipts_def by (intro leads_await leads_basic leads)

lemma leads_own_bundle [leads]: "leads R s (checked_own_bundle W E s)"
  unfolding checked_own_bundle_def by (intro leads_await leads_basic leads)

lemma leads_send_request [leads]: "leads R s (send_chat_request W E b s)"
  unfolding send_chat_request_def by (intro leads_await leads_basic leads)

lemma leads_send_decision [leads]: "leads R s (send_chat_decision W E b i a s)"
  unfolding send_chat_decision_def by (intro leads_await leads_basic leads)

lemma leads_sync_deletion [leads]: "leads R s (sync_deletion W E ts t s)"
  unfolding sync_deletion_def by (intro leads_await leads_basic leads quiet)

lemma leads_sync_deletions [leads]: "leads R s (sync_pending_conversation_deletions W E s)"
  unfolding sync_pending_conversation_deletions_def by (intro leads_await leads_basic leads)

section \<open>Conversations\<close>

lemma leads_save_current_draft [leads]: "leads R s (save_current_draft W E s)"
  unfolding save_current_draft_def by (intro leads_await leads_basic leads quiet | assumption | simp add: core_defs)+

lemma leads_autosave [leads]: "leads R s (autosave_draft W E s)"
  unfolding autosave_draft_def by (intro leads_await leads_basic leads)

lemma leads_mark_one_read [leads]: "leads R s (mark_one_read i s)"
  unfolding mark_one_read_def set_message_status_def
  by (intro leads_await leads_basic leads quiet | simp add: core_defs)+

lemma leads_mark_selected_read [leads]: "leads R s (mark_selected_read W E s)"
  unfolding mark_selected_read_def by (intro leads_await leads_basic leads)

lemma leads_load_selected [leads]: "leads R s (load_selected_messages W E s)"
  unfolding load_selected_messages_def by (intro leads_await leads_basic leads | simp add: core_defs)+

lemma leads_load_older [leads]: "leads R s (load_older_messages E s)"
  unfolding load_older_messages_def by (intro leads_await leads_basic leads | simp add: core_defs)+

lemma leads_put_bundle [leads]: "leads R s (put_bundle W E b s)"
  unfolding put_bundle_def by (intro leads_await leads_basic leads quiet | assumption)+

section \<open>Pairing events\<close>

lemma leads_pairing_payload [leads]:
  "k \<in> {''sas_public'', ''sas_confirmed''} \<Longrightarrow> leads R s (send_pairing_payload W E p k txt s)"
  unfolding send_pairing_payload_def
  by (intro leads_await leads_basic leads_notify | simp add: ordinary_defs pairing_event_def)+

lemma leads_try_reconnect [leads]: "leads R s (try_reconnect W E s)"
  unfolding try_reconnect_def by (intro leads_await leads_basic leads | simp add: core_defs)+

lemma leads_sas_public [leads]: "leads R s (on_sas_public W E e s)"
  unfolding on_sas_public_def by (intro leads_await leads_basic leads | simp add: core_defs)+

lemma leads_import:
  "leads R s (case import_messages (en_packages E) n (ap_vault s) ms (ap_store s) of
      (Inl e, d) \<Rightarrow> (Inl (Inner e), s\<lparr>ap_store := d\<rparr>) | (Inr x, d) \<Rightarrow> (Inr (), s\<lparr>ap_store := d\<rparr>))"
  using R_quiet [OF quiet_import_messages, of s n "ap_vault s" ms]
  by (auto simp: leads_def split: prod.split sum.split)

lemma leads_history_chunk [leads]: "leads R s (on_history_chunk W E e s)"
  unfolding on_history_chunk_def by (rule leads_import | rule leads_basic leads | rule leads_await)+

lemma matched_Nil: "matched [] []"
  by (simp add: matched_def)

lemma leads_device_activated [leads]: "leads R s (on_device_activated W E e s)"
  unfolding on_device_activated_def
  by (rule drawn leads_save_profile leads_basic leads | rule leads_await | simp add: core_defs matched_Nil)+

text \<open>The confirmation of the other side never adds the user's own.\<close>

lemma core_peer_confirmed:
  "ap_pairing s = Some p \<Longrightarrow> same_core s (s\<lparr>ap_pairing := Some (p\<lparr>pg_peer_confirmed := True\<rparr>)\<rparr>)"
  by (simp add: core_defs)

section \<open>Receiving\<close>

lemma leads_open_envelope [leads]: "leads R s (open_envelope W E st s)"
  unfolding open_envelope_def decrypt_with_def by (rule leads_basic leads | rule leads_await)+

lemma leads_response_notification [leads]: "leads R s (response_notification W E x i s)"
  unfolding response_notification_def response_peer_def by (rule leads_basic leads | rule leads_await)+

lemma leads_apply_response [leads]: "leads R s (apply_response W E x n s)"
  unfolding apply_response_def by (rule leads_basic leads | rule leads_await | simp add: core_defs)+

end

text \<open>
  The envelope cursor and the acknowledgements move only where an envelope is received and at the end of a
  batch.
\<close>

locale receive_relation = app_relation +
  assumes R_received: "written_move W E (ap_vault s) (ap_profile s') (ap_store s) d \<Longrightarrow>
      s' = set_machine m s \<Longrightarrow> R s (s'\<lparr>ap_store := d\<rparr>)"
    and R_cursors: "R s (s\<lparr>ap_store := set_cursors e c (ap_store s)\<rparr>)"
    and R_ack: "R s (s\<lparr>ap_sent := ap_sent s @ [mk_frame [] (AckEnvelope a)]\<rparr>)"
begin

lemma leads_commit_received:
  assumes "\<And>now k p d. commit now (random_at W k) (ap_vault s) p (ap_store s) = ok d \<Longrightarrow>
    written_move W E (ap_vault s) p (ap_store s) d"
  shows "leads R s (commit_machine W m commit s)"
  by (rule leads_commit_by, rule R_received [OF _ refl]) (use assms in simp)

lemma leads_ack: "leads R s (ack_envelope W x s)"
  using R_trans [OF R_tick R_ack, of s]
  by (simp add: leads_def ack_envelope_def notify_def send_frame_def R_tick) (simp add: tick_def)

lemma leads_commit_and_ack:
  "(\<And>now k v p d d'. commit now (random_at W k) v p d = ok d' \<Longrightarrow> written_move W E v p d d') \<Longrightarrow> leads R s (commit_and_ack W x commit s)"
  unfolding commit_and_ack_def by (intro leads_await leads_commit_received leads_ack) simp

lemma leads_set_cursors: "leads R s (store_run (set_cursors e c) s)"
  by (simp add: leads_def store_run_def R_cursors)

lemma leads_commit_control [leads]: "leads R s (commit_control_and_ack W E x s)"
  unfolding commit_control_and_ack_def by (rule leads_commit_and_ack drawn | erule written)+

lemma leads_receive_deletion [leads]: "leads R s (receive_deletion W E x s)"
  unfolding receive_deletion_def forget_conversation_def
  by (rule leads_basic leads leads_commit_and_ack drawn | rule leads_await | erule written | simp add: core_defs)+

lemma leads_receive_unverified [leads]: "leads R s (receive_unverified W E x s)"
  unfolding receive_unverified_def reauth_notification_def
  by (rule leads_basic leads leads_commit_and_ack drawn | rule leads_await | erule written)+

lemma leads_receive_receipts [leads]: "leads R s (receive_receipts W E x s)"
  unfolding receive_receipts_def apply_receipt_def
  by (rule leads_basic leads quiet | rule leads_await | simp add: core_defs)+

lemma leads_receive_request [leads]: "leads R s (receive_chat_request W E x s)"
  unfolding receive_chat_request_def receive_own_request_def receive_peer_request_def
  by (rule leads_basic leads | rule leads_await)+

lemma leads_receive_response [leads]: "leads R s (receive_chat_response W E x s)"
  unfolding receive_chat_response_def by (rule leads_basic leads | rule leads_await)+

lemma core_show_message: "same_core s (show_message U m s)"
  by (simp add: show_message_def core_defs Let_def)

lemma leads_receive_text [leads]: "leads R s (receive_text W E x s)"
  unfolding receive_text_def
  by (rule leads_basic leads leads_commit_and_ack drawn core_show_message | rule leads_await | erule written)+

lemma leads_dispatch_payload [leads]: "leads R s (dispatch_payload W E x s)"
  unfolding dispatch_payload_def by (rule leads_basic leads | rule leads_await)+

lemma leads_receive_envelope [leads]: "leads R s (receive_envelope W E st s)"
  unfolding receive_envelope_def by (rule leads_basic leads | rule leads_await)+

lemma leads_receive_envelopes [leads]: "leads R s (receive_envelopes W E c sts s)"
proof (induction sts arbitrary: c s)
  case (Cons st sts)
  show ?case unfolding receive_envelopes.simps by (rule leads_basic leads Cons | rule leads_await)+
qed (simp add: leads_finish)

lemma leads_receive_updates [leads]: "leads R s (receive_updates c us s)"
proof (induction us arbitrary: c s)
  case (Cons u us)
  show ?case unfolding receive_updates.simps by (rule leads_basic leads quiet Cons | rule leads_await)+
qed (simp add: leads_finish)

lemma leads_sync_batch [leads]: "leads R s (handle_sync_batch W E b s)"
  unfolding handle_sync_batch_def by (rule leads_set_cursors leads_basic leads | rule leads_await)+

end

section \<open>Events, reconnection and the service tick\<close>

text \<open>
  What the handlers above leave open: sending the frames of the outbox again, the end of a pairing, and
  the contacts and the master secret that a pairing device receives.
\<close>

locale server_relation = receive_relation +
  assumes resend: "leads R s (resend_outbox W E s)"
    and finish_pairing: "ap_pairing s = Some p \<Longrightarrow> pg_our_confirmed p \<Longrightarrow> leads R s (finish_pairing_as_approver W E s)"
    and bootstrap: "rp_pending (ap_profile s) \<Longrightarrow> leads R s (on_bootstrap W E e s)"
begin

lemma leads_sas_confirmed [leads]: "leads R s (on_sas_confirmed W E e s)"
  unfolding on_sas_confirmed_def
  by (rule leads_basic core_peer_confirmed finish_pairing | rule leads_await | assumption | simp)+

lemma leads_pairing_event [leads]: "leads R s (handle_pairing_event W E e s)"
  unfolding handle_pairing_event_def by (rule leads_basic leads bootstrap | rule leads_await | simp)+

lemma leads_on_pairing_event [leads]: "leads R s (on_pairing_event W E e s)"
  unfolding on_pairing_event_def
  by (rule leads_basic leads leads_notify quiet | rule leads_await | simp add: ordinary_defs)+

lemma leads_take_request [leads]: "leads R s (take_request i s)"
  unfolding take_request_def by (rule leads_basic | rule leads_await | simp add: core_defs matched_delete)+

lemma leads_server_event [leads]: "leads R s (handle_server_event W E f s)"
proof -
  have error: "leads R s (on_error W pending e s)" for pending e s
    unfolding on_error_def on_outbox_error_def
    by (rule leads_basic | rule leads_await | simp add: core_defs matched_Nil split: BackgroundRequest.split
        | intro conjI impI allI)+
  have batch: "leads R s (on_sync_batch W E pending b s)" for pending b s
    unfolding on_sync_batch_def by (rule leads_basic leads | rule leads_await | simp add: core_defs)+
  have accepted: "leads R s (on_send_accepted a s)" for a s
    unfolding on_send_accepted_def by (rule leads_basic leads | rule leads_await | simp add: core_defs)+
  have delivered: "leads R s (on_delivery_update u s)" for u s
    unfolding on_delivery_update_def raise_status_def
    by (rule leads_basic leads quiet | rule leads_await | simp add: core_defs)+
  have request: "leads R s (on_pairing_request W E r s)" for r s
    unfolding on_pairing_request_def by (rule leads_basic leads | rule leads_await | simp add: core_defs)+
  show ?thesis
    unfolding handle_server_event_def on_own_devices_def
    by (rule leads_basic leads error batch accepted delivered request | rule leads_await
        | simp add: core_defs split: option.split Body.split | intro conjI impI allI)+
qed

lemma leads_reconnect [leads]: "leads R s (handle_reconnect_result W E result s)"
  unfolding handle_reconnect_result_def
  by (rule drawn leads_save_profile leads_basic leads resend | rule leads_await | simp add: core_defs)+

lemma leads_service_step [leads]: "leads R s (service_step W E h s)"
  unfolding service_step_def every_def
  by (rule leads_basic leads resend leads_notify | rule leads_await | simp add: core_defs ordinary_defs)+

lemma leads_app_start [leads]: "leads R s (app_start W E s)"
  unfolding app_start_def
  by (rule leads_basic leads resend | rule leads_await
      | simp add: restore_pairing_requests_from_notifications_def core_defs)+

end

section \<open>Everything the user can do\<close>

locale user_relation = server_relation +
  assumes R_verified: "R s (s\<lparr>ap_store := verify_contact account (ap_store s)\<rparr>)"
    and confirming: "leads R s (confirm_pairing W E s)"
begin

lemma leads_verify_contact: "leads R s (store_run (verify_contact account) s)"
  by (simp add: leads_def store_run_def R_verified)

lemma leads_preference [leads]: "leads R s (save_preference W k v s)"
  unfolding save_preference_def by (rule leads_basic leads quiet | rule leads_await)+

lemma leads_theme [leads]: "leads R s (set_theme W n s)"
  unfolding set_theme_def by (rule leads_basic leads | rule leads_await | simp add: core_defs)+

lemma leads_sidebar [leads]: "leads R s (set_sidebar_collapsed W c s)"
  unfolding set_sidebar_collapsed_def by (rule leads_basic leads | rule leads_await | simp add: core_defs)+

lemma leads_select_notification [leads]: "leads R s (select_notification_relative W E d s)"
  unfolding select_notification_relative_def
  by (rule leads_basic leads | rule leads_await | simp add: core_defs)+

lemma leads_dismiss [leads]: "leads R s (dismiss_selected_notification W E s)"
  unfolding dismiss_selected_notification_def by (rule leads_basic leads | rule leads_await)+

lemma leads_select_relative [leads]: "leads R s (select_relative W E d s)"
  unfolding select_relative_def by (rule leads_basic leads | rule leads_await | simp add: core_defs)+

lemma leads_open_contact [leads]: "leads R s (open_contact W E u s)"
  unfolding open_contact_def select_account_def
  by (rule leads_basic leads | rule leads_await
      | simp add: core_defs ordinary_defs split: option.split Body.split | intro conjI impI allI)+

lemma leads_verify_selected [leads]: "leads R s (verify_selected W E s)"
  unfolding verify_selected_def set_contact_verified_def
  by (rule leads_verify_contact leads_basic leads | rule leads_await | simp add: core_defs)+

lemma leads_accept_request [leads]: "leads R s (accept_chat_request W E n s)"
  unfolding accept_chat_request_def decoded_sender_def select_account_def
  by (rule leads_basic leads | rule leads_await | simp add: core_defs)+

lemma leads_reject_request [leads]: "leads R s (reject_selected_chat_request W E s)"
  unfolding reject_selected_chat_request_def decoded_sender_def by (rule leads_basic leads | rule leads_await)+

lemma leads_verify_notification [leads]: "leads R s (verify_notification_contact W E n s)"
  unfolding verify_notification_contact_def by (rule leads_basic leads | rule leads_await | simp add: core_defs)+

lemma leads_confirm_delete [leads]: "leads R s (confirm_delete W E s)"
  unfolding confirm_delete_def forget_conversation_def
  by (rule leads_basic leads quiet | erule quiet | rule leads_await
      | simp add: core_defs ordinary_defs split: DeleteTarget.split | intro conjI impI allI)+

lemma leads_start_pairing [leads]: "leads R s (start_pairing W E d s)"
  unfolding start_pairing_def
  by (rule leads_basic leads leads_notify | rule leads_await
      | simp add: core_defs ordinary_defs pairing_event_def)+

lemma leads_activate [leads]: "leads R s (activate_selected_notification W E s)"
  unfolding activate_selected_notification_def
  by (rule leads_basic leads confirming | rule leads_await | simp add: core_defs split: NotificationKind.split
      | intro conjI impI allI)+

lemma leads_activate_primary [leads]: "leads R s (activate_notification_primary W E s)"
  unfolding activate_notification_primary_def by (rule leads_basic leads confirming | rule leads_await)+

lemma leads_open_notifications [leads]: "leads R s (open_notification_tab W E s)"
  unfolding open_notification_tab_def by (rule leads_basic leads | rule leads_await | simp add: core_defs)+

section \<open>Input\<close>

lemma leads_edit [leads]: "leads R s (edit_with f s)"
  unfolding edit_with_def by (simp add: leads_def raise_def finish_def R_refl R_core core_defs split: option.split)

lemma leads_insert [leads]: "leads R s (insert_text E txt s)"
  unfolding insert_text_def by (rule leads)

lemma leads_focus [leads]: "leads R s (set_focus f s)"
  unfolding set_focus_def by (rule leads_basic) (simp add: core_defs)

text \<open>The updates of the interface.\<close>

lemma core_emoji: "same_core s (with_emoji f s)"
  and core_open_emoji: "same_core s (open_emoji_picker U q s)"
  and core_close_emoji: "same_core s (close_emoji_picker s)"
  and core_completion: "same_core s (refresh_completion s)"
  and core_apply: "same_core s (apply_completion s)"
  and core_cycle: "same_core s (cycle_completion d s)"
  and core_scroll: "same_core s (scroll_messages U delta s)"
  and core_bottom: "same_core s (scroll_messages_to_bottom s)"
  and core_top: "same_core s (scroll_messages_to_top U s)"
  and core_cancel: "same_core s (cancel_delete s)"
  and core_close_devices: "same_core s (close_device_manager s)"
  and core_revoke: "same_core s (request_revoke_selected_device s)"
  and core_up: "same_core s (device_up s)"
  and core_down: "same_core s (device_down s)"
  and core_delete_conversation: "same_core s (request_delete_conversation E i s)"
  and core_delete_notification: "same_core s (request_delete_notification i s)"
  and core_list_scroll: "same_core s (set_list_scroll n s)"
  by (simp_all add: with_emoji_def open_emoji_picker_def close_emoji_picker_def refresh_completion_def
      apply_completion_def cycle_completion_def scroll_messages_def scroll_messages_to_bottom_def
      scroll_messages_to_top_def cancel_delete_def close_device_manager_def
      request_revoke_selected_device_def device_up_def device_down_def request_delete_conversation_def
      request_delete_notification_def set_list_scroll_def core_defs Let_def split: option.split)

lemma core_trans: "same_core s s' \<Longrightarrow> same_core s' s'' \<Longrightarrow> same_core s s''"
  by (auto simp: same_core_def same_base_def)

lemma core_search: "search_loaded_messages E q s = Some s' \<Longrightarrow> same_core s s'"
  by (auto simp: search_loaded_messages_def core_defs split: if_splits option.splits)

lemma core_delete_row: "same_core s (delete_selected_row E s)"
  unfolding delete_selected_row_def
  by (simp add: core_delete_conversation core_delete_notification core_trans split: SidebarTab.split option.split)
    (simp add: core_defs)

lemma core_drag: "same_core s (drag_scrollbar U c r s)"
  by (simp add: drag_scrollbar_def set_list_scroll_def Let_def core_defs split: option.split DragTarget.split)

lemma core_tab: "same_core s (handle_tab b s)"
  by (simp add: handle_tab_def apply_completion_def cycle_completion_def Let_def core_defs split: option.split)

lemmas core_updates = core_emoji core_open_emoji core_close_emoji core_completion core_apply core_cycle
  core_scroll core_bottom core_top core_cancel core_close_devices core_revoke core_up core_down
  core_delete_conversation core_delete_notification core_list_scroll core_delete_row core_drag core_tab

lemma leads_insert_emoji [leads]: "leads R s (insert_selected_emoji E s)"
  unfolding insert_selected_emoji_def close_emoji_picker_def with_emoji_def
  by (rule leads_basic leads core_updates | rule leads_await | simp add: core_defs)+

lemma leads_emoji_key [leads]: "leads R s (handle_emoji_key E k s)"
  unfolding handle_emoji_key_def Let_def
  by (cases "ke_code k") (auto intro!: leads_basic leads core_updates)

lemma leads_command [leads]: "leads R s (run_command W E txt s)"
proof -
  have search: "leads R s (search_history E q s)" for q s
    unfolding search_history_def
    by (auto simp: leads_def raise_def finish_def R_refl intro: R_core core_search split: option.split)
  have retry: "leads R s (retry_outbox W E s)" for s
    unfolding retry_outbox_def by (rule leads_basic leads resend | rule leads_await | simp add: core_defs)+
  have sidebar: "leads R s (sidebar_action W a s)" for a s
    unfolding sidebar_action_def by (rule leads_basic leads)+
  show ?thesis
    unfolding run_command_def
    by (rule leads_basic leads core_updates search retry sidebar confirming | simp add: core_defs)+
qed

lemma leads_execute [leads]: "leads R s (execute_input W E txt s)"
  unfolding execute_input_def by (rule leads_basic leads | rule leads_await)+

lemma leads_confirmation_key [leads]: "leads R s (handle_delete_confirmation_key W E k s)"
  unfolding handle_delete_confirmation_key_def
  by (cases "ke_code k") (auto intro!: leads_basic leads core_updates, auto simp: core_defs)

lemma leads_device_key [leads]: "leads R s (handle_device_manager_key W c s)"
  unfolding handle_device_manager_key_def by (rule leads_basic leads core_updates)+

lemma leads_edit_complete [leads]: "leads R s (edit_and_complete f s)"
  unfolding edit_and_complete_def by (rule leads_basic leads core_updates | rule leads_await)+

lemma leads_handled: "leads R s (m s) \<Longrightarrow> leads R s (await m (\<lambda>_. finish x) s)"
  by (rule leads_await [OF _ leads_finish])

lemma leads_alt_key [leads]: "leads R s (handle_alt_key W E c s)"
proof -
  have switch: "leads R s (update (\<lambda>s. s\<lparr>ap_sidebar_tab := t, ap_focus := f s\<rparr>) s)" for t f s
    by (rule leads_update) (simp add: core_defs)
  show ?thesis
    unfolding handle_alt_key_def Let_def
    by (cases c) (auto intro!: leads_handled leads_basic leads core_updates switch leads_await)
qed

lemma leads_control_key [leads]: "leads R s (handle_control_key W E c s)"
proof -
  have compose: "leads R s (compose t s)" for t s
    unfolding compose_def
    by (rule leads_update) (rule core_trans [OF _ core_completion], simp add: core_defs)
  have reconnect: "leads R s (reconnect_or_sync W E s)" for s
    unfolding reconnect_or_sync_def by (rule leads_basic leads | rule leads_await | simp add: core_defs)+
  have redraw: "leads R s (update (\<lambda>s. s\<lparr>ap_redraw_requested := True\<rparr>) s)" for s
    by (rule leads_update) (simp add: core_defs)
  show ?thesis
    unfolding handle_control_key_def Let_def
    by (rule leads_if_result leads_handled compose reconnect redraw leads_basic leads core_updates | rule leads_await)+
qed

lemma leads_submit [leads]: "leads R s (submit_input W E s)"
  unfolding submit_input_def by (rule leads_basic leads | rule leads_await | simp add: core_defs)+

lemma leads_enter [leads]: "leads R s (handle_enter W E s)"
  unfolding handle_enter_def by (rule leads_basic leads core_updates)+

lemma leads_vertical [leads]: "leads R s (vertical_key W E d s)"
  unfolding vertical_key_def
  by (cases "ap_focus s") (simp_all add: leads leads_basic core_updates leads_await)

lemma leads_editing_key [leads]: "leads R s (handle_editing_key W E c s)"
proof -
  have reset: "leads R s (update (\<lambda>s. s\<lparr>ap_completion := completion_default\<rparr>) s)"
    by (rule leads_update) (simp add: core_defs)
  show ?thesis
    unfolding handle_editing_key_def Let_def
    by (cases c; simp only: KeyCode.case)
      (rule reset leads_basic leads core_updates | rule leads_await)+
qed

lemma leads_plain_key [leads]: "leads R s (handle_plain_key W E k s)"
  unfolding handle_plain_key_def Let_def by (rule leads_basic leads core_updates | rule leads_await)+

lemma leads_key [leads]: "leads R s (handle_key W E k s)"
proof -
  have emoji: "same_core s ((if b then close_emoji_picker else open_emoji_picker U q) s)" for b U q
    by (simp add: core_updates)
  have flags: "same_core s (s\<lparr>ap_quit := x\<rparr>)" "same_core s (s\<lparr>ap_help_visible := x\<rparr>)" for x
    by (simp_all add: core_defs)
  show ?thesis
    unfolding handle_key_def Let_def
    by (rule leads_basic leads core_updates emoji flags | rule leads_await)+
qed

section \<open>The mouse and the loop\<close>

lemma leads_click_row [leads]: "leads R s (click_row W E i s)"
  unfolding click_row_def by (rule leads_basic leads | rule leads_await | simp add: core_defs)+

lemma core_dragging: "same_core s (drag_scrollbar U c r (s\<lparr>ap_dragging := d\<rparr>))"
  by (rule core_trans [OF _ core_drag]) (simp add: core_defs)

lemma leads_left_down [leads]: "leads R s (left_down W E p c s)"
proof -
  have conversations: "leads R s (click_conversations W E p c s)" for s
    unfolding click_conversations_def Let_def
    by (rule leads_basic leads core_dragging | rule leads_await)+
  have messages: "leads R s (click_messages U p c s)" for U s
    unfolding click_messages_def by (rule leads_basic leads core_dragging | rule leads_await)+
  have composer: "leads R s (click_composer E p c s)" for s
    unfolding click_composer_def by (rule leads_basic leads | rule leads_await)+
  show ?thesis
    unfolding left_down_def Let_def
    by (rule leads_basic leads core_updates conversations messages composer | simp add: core_defs)+
qed

lemma leads_device_mouse [leads]: "leads R s (handle_device_manager_mouse W k p c s)"
proof -
  have revoke: "same_core s (request_revoke_selected_device (s\<lparr>ap_own_device_selected := i\<rparr>))" for i
    by (rule core_trans [OF _ core_revoke]) (simp add: core_defs)
  show ?thesis
    unfolding handle_device_manager_mouse_def Let_def
    by (cases k; simp only: MouseKind.case) (rule leads_basic leads core_updates revoke | simp add: core_defs)+
qed

lemma leads_emoji_mouse [leads]: "leads R s (handle_emoji_mouse E k p c s)"
  unfolding handle_emoji_mouse_def Let_def
  by (cases k; simp only: MouseKind.case MouseKind.distinct simp_thms if_True if_False)
    (rule leads_basic leads core_updates | rule leads_await)+

lemma leads_wheel: "leads R s (wheel_up E p c s)" "leads R s (wheel_down E p c s)" "leads R s (left_up E s)"
  unfolding wheel_up_def wheel_down_def left_up_def
  by (rule leads_basic leads core_updates | rule leads_await | simp add: core_defs)+

lemma leads_mouse [leads]: "leads R s (handle_mouse W E k p c s)"
  unfolding handle_mouse_def
  by (cases k; simp only: MouseKind.case) (rule leads_basic leads core_updates leads_wheel)+

lemma leads_terminal [leads]: "leads R s (handle_terminal_event W E t s)"
proof -
  have gained: "leads R s (on_focus_gained W E s)"
    unfolding on_focus_gained_def by (rule leads_basic leads | rule leads_await | simp add: core_defs)+
  have paste: "leads R s (on_paste E v s)" for v
    unfolding on_paste_def by (rule leads_basic leads core_updates | rule leads_await)+
  show ?thesis
    unfolding handle_terminal_event_def
    by (cases t; simp only: terminal_event.case) (rule leads_basic leads gained paste | simp add: core_defs)+
qed

end

context server_relation
begin

text \<open>Every event but those of the terminal.\<close>

lemma leads_event_server:
  assumes "\<And>t. event \<noteq> TerminalInput t"
  shows "leads R s (event_step W E h event s)"
proof (cases event)
  case (TerminalInput t)
  with assms [of t] show ?thesis by simp
qed (unfold event_step_def drawn_def,
    (simp only: app_event.case, (rule leads_basic leads | rule leads_await | simp add: core_defs)+)+)

end

context user_relation
begin

lemma leads_event: "leads R s (event_step W E h event s)"
proof (cases "\<exists>t. event = TerminalInput t")
  case True
  then show ?thesis
    unfolding event_step_def
    by clarsimp (rule leads_basic leads | rule leads_await | simp add: core_defs)+
next
  case False
  then show ?thesis by (intro leads_event_server) blast
qed

end

section \<open>Relations that allow every frame\<close>

text \<open>
  A relation that does not look at the frames that are sent respects the outbox and the end of a pairing
  too.
\<close>

locale open_relation = receive_relation +
  assumes R_any_frame: "R s (s\<lparr>ap_sent := ap_sent s @ [f]\<rparr>)"
    and R_base: "same_base s s' \<Longrightarrow> R s s'"
begin

lemma leads_send_any: "leads R s (send_frame W f s)"
  using R_trans [OF R_tick R_any_frame [of "tick s" f]]
  by (simp add: leads_def send_frame_def R_tick) (simp add: tick_def)

lemma leads_dispatch_any: "leads R s (dispatch_background W f op s)"
  unfolding dispatch_background_def by (intro leads_await leads_basic leads_send_any core_register)

lemma leads_resend_any: "leads R s (resend_outbox W E s)"
proof -
  have one: "leads R s (resend_one W E item s)" for item s
    unfolding resend_one_def by (rule leads_basic leads_dispatch_any)+
  show ?thesis
    unfolding resend_outbox_def by (rule leads_basic one | rule leads_await | simp add: core_defs)+
qed

lemma leads_rpc_any: "leads R s (rpc_request W b s)"
  unfolding rpc_request_def
  by (intro leads_await leads_basic leads_send_any | simp add: leads_def R_tick split: sum.split option.split Body.split)+

lemma leads_update_base: "same_base s (f s) \<Longrightarrow> leads R s (update f s)"
  by (simp add: leads_def update_def R_base)

lemma leads_await_update_base:
  "same_base s (f s) \<Longrightarrow> leads R (f s) (g () (f s)) \<Longrightarrow> leads R s (await (update f) g s)"
  by (auto simp: leads_def await_def update_def intro: R_trans R_base)

lemma leads_payload_any: "leads R s (send_pairing_payload W E p k v s)"
  unfolding send_pairing_payload_def notify_def by (rule leads_basic leads_send_any | rule leads_await)+

lemma leads_finish_any: "leads R s (finish_pairing_as_approver W E s)"
  unfolding finish_pairing_as_approver_def send_history_def
  by (rule leads_await_update_base leads_update_base leads_payload_any leads_rpc_any | rule leads_basic leads | rule leads_await
      | simp add: core_defs)+

lemma leads_confirm_any: "leads R s (confirm_pairing W E s)"
  unfolding confirm_pairing_def
  by (rule leads_await_update_base leads_update_base leads_payload_any leads_finish_any | rule leads_basic leads | rule leads_await
      | simp add: core_defs split: PairingRole.split | intro conjI impI)+

end

text \<open>A relation that allows the contacts of a paired device to be imported.\<close>

locale import_relation = app_relation +
  assumes R_import: "import_contacts (en_packages E) now cs (ap_store s) = ok d \<Longrightarrow> R s (s\<lparr>ap_store := d\<rparr>)"
begin

lemma leads_import_contacts: "leads R s (store_try (import_contacts (en_packages E) now cs) s)"
  by (auto simp: leads_def store_try_def R_import R_refl split: sum.split)

lemma leads_bootstrap: "leads R s (on_bootstrap W E e s)"
  unfolding on_bootstrap_def
  by (rule drawn leads_save_profile leads_import_contacts leads_basic leads | rule leads_await
      | simp add: core_defs install_master_secret_def)+

end

text \<open>A relation that also allows the verification of a contact respects the whole loop.\<close>

locale full_relation = open_relation + import_relation +
  assumes R_verify: "R s (s\<lparr>ap_store := verify_contact account (ap_store s)\<rparr>)"

sublocale full_relation \<subseteq> user_relation
  by unfold_locales (rule leads_resend_any leads_finish_any leads_bootstrap R_verify leads_confirm_any)+

section \<open>Runs\<close>

text \<open>The state of \<open>App::new\<close> before the first request.\<close>

definition initial :: "('a, 's) app \<Rightarrow> local_db \<Rightarrow> VaultSession \<Rightarrow> ('a, 's) RuntimeProfile \<Rightarrow> bool" where
  "initial s d v p \<longleftrightarrow> (\<exists>m cs ns now. s = new_app d v p m cs ns now)"

lemma app_new_start:
  assumes "app_new W E d v p m = Inr s"
  shows "\<exists>s0. initial s0 d v p \<and> app_start W E s0 = (Inr (), s)"
proof -
  obtain cs ns where "app_start W E (new_app d v p m cs ns (instant_at W 0)) = (Inr (), s)"
    using assms by (auto simp: app_new_def split: sum.splits prod.splits)
  then show ?thesis unfolding initial_def by blast
qed

context user_relation
begin

lemma run_related:
  assumes "app_run W E d v p (h, s)"
  shows "\<exists>s0. initial s0 d v p \<and> R s0 s"
  using assms
proof (induction "(h, s)" arbitrary: h s rule: app_run.induct)
  case (Started mouse s)
  then obtain s0 where "initial s0 d v p" "app_start W E s0 = (Inr (), s)"
    using app_new_start by blast
  with leads_app_start [of s0] show ?case by (auto simp: leads_def)
next
  case (Stepped h s event h' s')
  with leads_event [of s h event] show ?case by (auto simp: leads_def intro: R_trans)
next
  case (Failed h s event e s')
  with leads_event [of s h event] show ?case by (auto simp: leads_def intro: R_trans)
next
  case (Migrated h s nonces row n result d')
  then have "quiet_move (en_packages E) (ap_store s) d'" by (metis quiet_migrate snd_conv)
  with Migrated R_quiet show ?case by (blast intro: R_trans)
next
  case (Closed h s)
  with leads_save_current_draft [of s] show ?case by (auto simp: leads_def intro: R_trans)
qed

end

end
