(* ===== verification/App_Safety.thy ===== *)
theory App_Safety
  imports App_Respects
begin

text \<open>
  What holds in every run of the client application. Each property is a relation between two states that
  all handlers respect; the locales of \<open>App_Respects\<close> give it for every event, and induction over the run
  for every reachable state.
\<close>

section \<open>The ratchets in memory are those in the store\<close>

definition durable :: "outside \<Rightarrow> ('a, 's, 'pa, 'ps) env \<Rightarrow> ('a, 's) app \<Rightarrow> bool" where
  "durable W E s \<longleftrightarrow> (\<exists>p. rp_machine p = rp_machine (ap_profile s) \<and>
     profile_written W E (ap_vault s) p (ap_store s))"

definition keeps_durable :: "outside \<Rightarrow> ('a, 's, 'pa, 'ps) env \<Rightarrow> ('a, 's) app \<Rightarrow> ('a, 's) app \<Rightarrow> bool" where
  "keeps_durable W E s s' \<longleftrightarrow> ap_vault s' = ap_vault s \<and> (durable W E s \<longrightarrow> durable W E s')"

lemma import_contacts_frame:
  "import_contacts P now cs s = ok s' \<Longrightarrow> lo_profile s' = lo_profile s \<and> lo_outbox s' = lo_outbox s"
  unfolding import_contacts_def
  by (erule fold_result_ok [where Q = "\<lambda>s'. lo_profile s' = lo_profile s \<and> lo_outbox s' = lo_outbox s"])
    (auto simp: import_contact_def attempt_ok_iff dest: put_contact_frame)

lemma verify_contact_frame:
  "lo_profile (verify_contact a s) = lo_profile s" "set (lo_outbox (verify_contact a s)) \<subseteq> set (lo_outbox s)"
  by (auto simp: verify_contact_def)

lemma durable_same_profile:
  "lo_profile d = lo_profile (ap_store s) \<Longrightarrow> keeps_durable W E s (s\<lparr>ap_store := d\<rparr>)"
  by (simp add: keeps_durable_def durable_def profile_written_def)

interpretation durable: full_relation W E "keeps_durable W E" for W :: outside and E :: "('a, 's, 'pa, 'ps) env"
proof unfold_locales
  fix s s' s'' :: "('a, 's) app"
  show "keeps_durable W E s s' \<Longrightarrow> keeps_durable W E s' s'' \<Longrightarrow> keeps_durable W E s s''"
    by (simp add: keeps_durable_def)
  show base: "same_base s s' \<Longrightarrow> keeps_durable W E s s'"
    by (auto simp: keeps_durable_def durable_def same_base_def)
  then show "same_core s s' \<Longrightarrow> keeps_durable W E s s'"
    by (simp add: same_core_def)
next
  fix s s' :: "('a, 's) app" and d m
  show *: "keeps_durable W E s (s'\<lparr>ap_store := d\<rparr>)"
    if "written_move W E (ap_vault s) (ap_profile s') (ap_store s) d" "s' = set_machine m s"
  proof -
    have "durable W E (s'\<lparr>ap_store := d\<rparr>)"
      unfolding durable_def using that by (intro exI [of _ "ap_profile s'"]) (simp add: written_move_def set_machine_def)
    with that show ?thesis by (simp add: keeps_durable_def set_machine_def)
  qed
  show "outgoing_move W E (ap_vault s) (ap_profile s') (ap_store s) d \<Longrightarrow> s' = set_machine m s \<Longrightarrow>
      keeps_durable W E s (s'\<lparr>ap_store := d\<rparr>)"
    using * by (simp add: outgoing_move_def)
qed (auto simp: quiet_move_def verify_contact_frame set_cursors_def intro!: durable_same_profile dest: import_contacts_frame,
    simp_all add: keeps_durable_def durable_def)

section \<open>Every background request has a deadline\<close>

definition keeps_tracked :: "('a, 's) app \<Rightarrow> ('a, 's) app \<Rightarrow> bool" where
  "keeps_tracked s s' \<longleftrightarrow> (tracked s \<longrightarrow> tracked s')"

interpretation bookkeeping: full_relation W E keeps_tracked for W :: outside and E :: "('a, 's, 'pa, 'ps) env"
  by unfold_locales (auto simp: keeps_tracked_def tracked_def same_core_def same_base_def set_machine_def)

section \<open>The store is used through its operations only\<close>

definition moves_store :: "('a, 's, 'pa, 'ps) env \<Rightarrow> ('a, 's) app \<Rightarrow> ('a, 's) app \<Rightarrow> bool" where
  "moves_store E s s' \<longleftrightarrow> store_moves (en_packages E) (ap_store s) (ap_store s')"

interpretation storage: full_relation W E "moves_store E" for W :: outside and E :: "('a, 's, 'pa, 'ps) env"
  by unfold_locales
    (auto simp: moves_store_def same_core_def same_base_def quiet_move_def outgoing_move_def written_move_def
      set_machine_def intro: store_moveI local_step.verify local_step.import_contact local_step.set_cursors)

section \<open>Nothing but the user verifies a contact\<close>

definition keeps_trust :: "('a, 's, 'pa, 'ps) env \<Rightarrow> ('a, 's) app \<Rightarrow> ('a, 's) app \<Rightarrow> bool" where
  "keeps_trust E s s' \<longleftrightarrow> (rp_pending (ap_profile s') \<longrightarrow> rp_pending (ap_profile s))
     \<and> (\<not> rp_pending (ap_profile s) \<longrightarrow> keeps_master_key (en_packages E) \<longrightarrow>
          trust_kept (en_packages E) (ap_store s) (ap_store s'))"

interpretation trust_frames: open_relation W E "keeps_trust E" for W :: outside and E :: "('a, 's, 'pa, 'ps) env"
proof unfold_locales
  fix s s' s'' :: "('a, 's) app"
  show "keeps_trust E s s' \<Longrightarrow> keeps_trust E s' s'' \<Longrightarrow> keeps_trust E s s''"
    by (auto simp: keeps_trust_def intro: trust_kept_trans)
  show base: "same_base s s' \<Longrightarrow> keeps_trust E s s'"
    by (auto simp: keeps_trust_def same_base_def trust_kept_same)
  then show "same_core s s' \<Longrightarrow> keeps_trust E s s'"
    by (simp add: same_core_def)
qed (auto simp: keeps_trust_def quiet_move_def outgoing_move_def written_move_def set_machine_def
    set_cursors_def trust_kept_same)

text \<open>A device that has been activated never becomes pending again.\<close>

definition stays_active :: "('a, 's) app \<Rightarrow> ('a, 's) app \<Rightarrow> bool" where
  "stays_active s s' \<longleftrightarrow> (rp_pending (ap_profile s') \<longrightarrow> rp_pending (ap_profile s))"

interpretation active: full_relation W E stays_active for W :: outside and E :: "('a, 's, 'pa, 'ps) env"
  by unfold_locales (auto simp: stays_active_def same_core_def same_base_def set_machine_def)

interpretation trust: server_relation W E "keeps_trust E" for W :: outside and E :: "('a, 's, 'pa, 'ps) env"
proof unfold_locales
  fix s :: "('a, 's) app" and e
  assume "rp_pending (ap_profile s)"
  then show "leads (keeps_trust E) s (on_bootstrap W E e s)"
    using active.leads_bootstrap [of s W E e] by (simp add: leads_def keeps_trust_def stays_active_def)
qed (rule trust_frames.leads_resend_any trust_frames.leads_finish_any)+

section \<open>The master secret leaves after the user's confirmation only\<close>

definition faithful_frames :: "('a, 's, 'pa, 'ps) env \<Rightarrow> bool" where
  "faithful_frames E \<longleftrightarrow> (\<forall>f f'. decode_frame (frame_decode E) (encode_frame (frame_to_vec E) f) = Inr f' \<longrightarrow> f' = f)"

definition clean_outbox :: "('a, 's, 'pa, 'ps) env \<Rightarrow> local_db \<Rightarrow> bool" where
  "clean_outbox E d \<longleftrightarrow> (\<forall>row \<in> set (lo_outbox d). \<forall>f.
     decode_frame (frame_decode E) (ob_encoded_frame row) = Inr f \<longrightarrow> ordinary f)"

definition new_frames :: "('a, 's) app \<Rightarrow> ('a, 's) app \<Rightarrow> Frame list" where
  "new_frames s s' = drop (length (ap_sent s)) (ap_sent s')"

definition sends :: "('a, 's) app \<Rightarrow> ('a, 's) app \<Rightarrow> bool" where
  "sends s s' \<longleftrightarrow> (\<exists>fs. ap_sent s' = ap_sent s @ fs)"

text \<open>The outbox stays clean and the log of frames grows.\<close>

definition keeps_clean :: "('a, 's, 'pa, 'ps) env \<Rightarrow> ('a, 's) app \<Rightarrow> ('a, 's) app \<Rightarrow> bool" where
  "keeps_clean E s s' \<longleftrightarrow> sends s s' \<and>
     (faithful_frames E \<longrightarrow> clean_outbox E (ap_store s) \<longrightarrow> clean_outbox E (ap_store s'))"

lemma clean_subset: "set (lo_outbox d') \<subseteq> set (lo_outbox d) \<Longrightarrow> clean_outbox E d \<Longrightarrow> clean_outbox E d'"
  by (auto simp: clean_outbox_def)

lemma envelopes_ordinary: "ordinary (mk_frame i (SendEnvelopes es))"
  by (simp add: ordinary_defs)

lemma clean_same: "lo_outbox d' = lo_outbox d \<Longrightarrow> clean_outbox E d \<Longrightarrow> clean_outbox E d'"
  by (simp add: clean_outbox_def)

lemma clean_envelopes:
  "only_envelopes E d d' \<Longrightarrow> faithful_frames E \<Longrightarrow> clean_outbox E d \<Longrightarrow> clean_outbox E d'"
  unfolding clean_outbox_def only_envelopes_def faithful_frames_def envelope_frame_def
  by (metis envelopes_ordinary)

interpretation log: full_relation W E "keeps_clean E" for W :: outside and E :: "('a, 's, 'pa, 'ps) env"
proof unfold_locales
  fix s s' s'' :: "('a, 's) app"
  show "keeps_clean E s s' \<Longrightarrow> keeps_clean E s' s'' \<Longrightarrow> keeps_clean E s s''"
    by (auto simp: keeps_clean_def sends_def)
  show base: "same_base s s' \<Longrightarrow> keeps_clean E s s'"
    by (auto simp: keeps_clean_def same_base_def sends_def)
  then show "same_core s s' \<Longrightarrow> keeps_clean E s s'"
    by (simp add: same_core_def)
qed (auto simp: keeps_clean_def sends_def quiet_move_def outgoing_move_def written_move_def set_machine_def
    set_cursors_def
    intro: clean_subset [OF verify_contact_frame(2)] clean_subset clean_envelopes
    dest: import_contacts_frame intro: clean_same)

lemma new_frames_trans:
  "sends s s' \<Longrightarrow> sends s' s'' \<Longrightarrow> new_frames s s'' = new_frames s s' @ new_frames s' s''"
  by (auto simp: sends_def new_frames_def)

definition keeps_secret :: "('a, 's, 'pa, 'ps) env \<Rightarrow> ('a, 's) app \<Rightarrow> ('a, 's) app \<Rightarrow> bool" where
  "keeps_secret E s s' \<longleftrightarrow> keeps_clean E s s' \<and> (faithful_frames E \<longrightarrow> clean_outbox E (ap_store s) \<longrightarrow>
     \<not> consent s \<longrightarrow> \<not> consent s' \<and> (\<forall>f \<in> set (new_frames s s'). \<not> secret f))"

lemma keeps_secret_trans: "keeps_secret E s s' \<Longrightarrow> keeps_secret E s' s'' \<Longrightarrow> keeps_secret E s s''"
  unfolding keeps_secret_def
  using log.R_trans [of E s s' s''] new_frames_trans [of s s' s''] by (auto simp: keeps_clean_def)

lemma sends_refl: "sends s s"
  by (simp add: sends_def)

lemma sends_trans: "sends s s' \<Longrightarrow> sends s' s'' \<Longrightarrow> sends s s''"
  by (auto simp: sends_def)

lemma sends_same: "ap_sent s' = ap_sent s \<Longrightarrow> sends s s'"
  by (simp add: sends_def)

lemma new_frames_same: "ap_sent s' = ap_sent s \<Longrightarrow> new_frames s s' = []"
  by (simp add: new_frames_def)

interpretation secrets: receive_relation W E "keeps_secret E" for W :: outside and E :: "('a, 's, 'pa, 'ps) env"
proof unfold_locales
  fix s s' s'' :: "('a, 's) app"
  show "keeps_secret E s s' \<Longrightarrow> keeps_secret E s' s'' \<Longrightarrow> keeps_secret E s s''"
    by (rule keeps_secret_trans)
next
  fix s s' :: "('a, 's) app"
  assume c: "same_core s s'"
  with log.R_core [OF c, of E] show "keeps_secret E s s'"
    by (auto simp: keeps_secret_def same_core_def same_base_def new_frames_same)
next
  fix s :: "('a, 's) app" and d
  assume "quiet_move (en_packages E) (ap_store s) d"
  from log.R_quiet [OF this] show "keeps_secret E s (s\<lparr>ap_store := d\<rparr>)"
    by (simp add: keeps_secret_def new_frames_def consent_def)
next
  fix s s' :: "('a, 's) app" and d m
  assume "outgoing_move W E (ap_vault s) (ap_profile s') (ap_store s) d" and m: "s' = set_machine m s"
  from log.R_written [OF this] show "keeps_secret E s (s'\<lparr>ap_store := d\<rparr>)"
    by (simp add: keeps_secret_def new_frames_def consent_def m set_machine_def)
next
  fix s s' :: "('a, 's) app" and d m
  assume "written_move W E (ap_vault s) (ap_profile s') (ap_store s) d" and m: "s' = set_machine m s"
  from log.R_received [OF this] show "keeps_secret E s (s'\<lparr>ap_store := d\<rparr>)"
    by (simp add: keeps_secret_def new_frames_def consent_def m set_machine_def)
next
  fix s :: "('a, 's) app" and e c
  from log.R_cursors [of E s e c] show "keeps_secret E s (s\<lparr>ap_store := set_cursors e c (ap_store s)\<rparr>)"
    by (simp add: keeps_secret_def new_frames_def consent_def)
next
  fix s :: "('a, 's) app" and f
  have sent: "keeps_secret E s (s\<lparr>ap_sent := ap_sent s @ [f]\<rparr>)" if "\<not> secret f" for f
    using log.R_any_frame [of E s f] that by (simp add: keeps_secret_def new_frames_def consent_def)
  then show "ordinary f \<Longrightarrow> keeps_secret E s (s\<lparr>ap_sent := ap_sent s @ [f]\<rparr>)"
    by (simp add: ordinary_def)
  show "keeps_secret E s (s\<lparr>ap_sent := ap_sent s @ [mk_frame [] (AckEnvelope a)]\<rparr>)" for a
    by (rule sent) (simp add: secret_def mk_frame_def)
qed

interpretation secrets: import_relation W E "keeps_secret E" for W :: outside and E :: "('a, 's, 'pa, 'ps) env"
proof unfold_locales
  fix s :: "('a, 's) app" and now cs d
  assume "import_contacts (en_packages E) now cs (ap_store s) = ok d"
  from log.R_import [OF this] show "keeps_secret E s (s\<lparr>ap_store := d\<rparr>)"
    by (simp add: keeps_secret_def new_frames_def consent_def)
qed

lemma secret_resend: "leads (keeps_secret E) s (resend_outbox W E s)"
proof (cases "faithful_frames E \<and> clean_outbox E (ap_store s)")
  case True
  have "leads (keeps_secret E) t (resend_one W E x t)" if "x \<in> set (outbox (ap_store s))" for x t
  proof -
    have "ordinary f" if "decode_frame (frame_decode E) (snd x) = Inr f" for f
      using True that \<open>x \<in> set (outbox (ap_store s))\<close> by (auto simp: outbox_def clean_outbox_def)
    then show ?thesis
      unfolding resend_one_def by (cases x) (auto intro!: secrets.leads_basic secrets.leads_dispatch)
  qed
  note one = this
  show ?thesis
    unfolding resend_outbox_def
    by (rule one leads_cases secrets.leads_basic secrets.leads_await | simp add: core_defs | assumption)+
next
  case False
  with log.leads_resend_any [of E s W] show ?thesis by (auto simp: leads_def keeps_secret_def)
qed

interpretation secrets: server_relation W E "keeps_secret E" for W :: outside and E :: "('a, 's, 'pa, 'ps) env"
proof unfold_locales
  fix s :: "('a, 's) app" and p
  assume "ap_pairing s = Some p" "pg_our_confirmed p"
  then have "consent s" by (simp add: consent_def)
  then show "leads (keeps_secret E) s (finish_pairing_as_approver W E s)"
    using log.leads_finish_any [of E s W] by (simp add: leads_def keeps_secret_def)
next
  fix s :: "('a, 's) app" and e
  show "leads (keeps_secret E) s (on_bootstrap W E e s)" by (rule secrets.leads_bootstrap)
qed (rule secret_resend)

section \<open>The stored profile\<close>

lemma durable_profile_read:
  assumes run: "app_run W E d v p (h, s)"
    and loaded: "profile_written W E v p0 d" "rp_machine p0 = rp_machine p"
    and codecs: "packages_ok (en_packages E)" and nonces: "\<forall>k i. length (random_at W k i) = 24"
  shows "\<exists>p'. (\<forall>v'. vs_key v' = vs_key v \<longrightarrow> load_profile (en_packages E) v' (ap_store s) = ok (Some p'))
    \<and> rp_machine p' = rp_machine (ap_profile s)"
proof -
  obtain s0 where s0: "initial s0 d v p" "keeps_durable W E s0 s"
    using durable.run_related [OF run] by blast
  then have "durable W E s0" using loaded by (auto simp: initial_def new_app_def durable_def)
  with s0 have "durable W E s" "ap_vault s = v" by (auto simp: keeps_durable_def initial_def new_app_def)
  then obtain p' n now blob where p': "rp_machine p' = rp_machine (ap_profile s)"
      "encode_profile (en_packages E) n v p' = ok blob" "drawn_nonce W n"
      "lo_profile (ap_store s) = Some \<lparr>pf_encrypted_blob = blob, pf_updated_at_ms = now, pf_encryption_version = 2\<rparr>"
    by (auto simp: durable_def profile_written_def)
  have "length n = 24" using p'(3) nonces by (auto simp: drawn_nonce_def)
  from decode_encoded_profile [OF codecs p'(2) this] p'(1,4) show ?thesis
    by (auto simp: load_profile_def)
qed

end
