(* ===== verification/App_Properties.thy ===== *)
theory App_Properties
  imports App_Safety
begin

text \<open>
  The properties of the client application over its runs, each with a witness: a run of a client with a
  sample store, whose server never answers.
\<close>

section \<open>A sample run\<close>

definition sample_frame :: Frame where
  "sample_frame = mk_frame ''f'' (SendEnvelopes [])"

definition sample_env :: "(nat, nat, nat, nat) env" where
  "sample_env = \<lparr>en_packages = sample_packages, en_unicode = \<lparr>u_graphemes = utf8_chars, u_words = utf8_chars, u_width = length\<rparr>,
     en_olm_keys = (\<lambda>_. ([], [])), wire_json = (\<lambda>_. ok []), wire_unjson = (\<lambda>_. bail ''x''),
     bootstrap_json = (\<lambda>_. ok []), bootstrap_unjson = (\<lambda>_. bail ''x''), history_json = (\<lambda>_. ok []),
     history_unjson = (\<lambda>_. ok []), device_encode = (\<lambda>_. []), device_decode = (\<lambda>_. bail ''x''),
     frame_to_vec = (\<lambda>f. if f = sample_frame then [1] else []),
     frame_decode = (\<lambda>e. if e = [1] then Inr sample_frame else Inl ''x''),
     str_to_lowercase = (\<lambda>s. s), emoji_catalog = []\<rparr>"

definition sample_outside :: outside where
  "sample_outside = \<lparr>now_ms_at = int, instant_at = int, uuid_at = (\<lambda>_. ''u''),
     random_at = (\<lambda>_ _. sample_nonce), secret_at = (\<lambda>_. replicate 32 1), jitter_at = (\<lambda>_. 0),
     reply_at = (\<lambda>_ _. bail ''timeout''), writer_open_at = (\<lambda>_. True)\<rparr>"

definition sample_db :: local_db where
  "sample_db = sample_store\<lparr>lo_profile := Some \<lparr>pf_encrypted_blob =
       blob_to_bytes \<lparr>blob_version = 2, blob_salt = replicate 16 0, blob_nonce = sample_nonce,
         blob_ciphertext = 10 # as_bytes ''profile/v1'' @ as_bytes ''TCP4'' @ [1]\<rparr>,
       pf_updated_at_ms = 1, pf_encryption_version = 2\<rparr>\<rparr>"

definition sample_contacts :: "Contact list" where
  "sample_contacts = [\<lparr>ct_bundle = sample_bundle, ct_verified = False, ct_identity_changed = False,
     ct_unread_count = 1, ct_last_activity_ms = 10\<rparr>]"

definition sample_app :: "(nat, nat) app" where
  "sample_app = new_app sample_db sample_vault sample_profile True sample_contacts [] 0"

definition sample_started :: "(nat, nat) app" where
  "sample_started = snd (app_start sample_outside sample_env sample_app)"

lemma sample_new: "app_new sample_outside sample_env sample_db sample_vault sample_profile True = Inr sample_started"
proof -
  have "contacts sample_packages sample_db = ok sample_contacts"
    by (simp add: contacts_def sample_contacts_def sample_db_def sample_store_def sample_contact_def
        contact_from_row_def sample_packages_def summary_of_def unread_count_def last_activity_def)
  moreover have "notifications sample_packages sample_vault sample_db = ok []"
    by (simp add: notifications_def sample_db_def sample_store_def empty_store_def)
  moreover have "fst (app_start sample_outside sample_env sample_app) = Inr ()"
    by (simp add: app_start_def await_def restore_pairing_state_from_notifications_def finish_def update_def
        resend_outbox_def view_def instant_now_def ignore_def sample_app_def new_app_def sample_profile_def
        restore_pairing_requests_from_notifications_def outbox_def sample_db_def sample_store_def
        empty_store_def tick_def)
  ultimately show ?thesis
    by (cases "app_start sample_outside sample_env sample_app")
      (simp add: app_new_def sample_env_def sample_started_def sample_outside_def sample_app_def)
qed

lemma sample_run: "app_run sample_outside sample_env sample_db sample_vault sample_profile (Some 0, sample_started)"
  by (rule app_run.Started [OF sample_new])

section \<open>Recovery after a crash\<close>

text \<open>
  A crash loses no ratchet state. In every state of every run, also between the events of the loop and
  after the loop has failed, the profile that a new session would load from the store has exactly the Olm
  machine that is in memory: no session ever moves on in memory, and no envelope is sent or acknowledged,
  with a ratchet step that the store does not have.
\<close>

theorem ratchets_survive_crash:
  assumes run: "app_run W E d v p (h, s)"
    and loaded: "profile_written W E v p0 d" "rp_machine p0 = rp_machine p"
    and codecs: "packages_ok (en_packages E)" and nonces: "\<forall>k i. length (random_at W k i) = 24"
  shows "\<exists>p'. load_profile (en_packages E) v (ap_store s) = ok (Some p') \<and> rp_machine p' = rp_machine (ap_profile s)"
  using durable_profile_read [OF run loaded codecs nonces] by blast

lemma sample_profile_written: "profile_written sample_outside sample_env sample_vault sample_profile sample_db"
  unfolding profile_written_def drawn_nonce_def
  using sample_encode_profile by (auto simp: sample_outside_def sample_env_def sample_db_def)

theorem ratchets_survive_crash_witness:
  "\<exists>p'. load_profile sample_packages sample_vault (ap_store sample_started) = ok (Some p')
     \<and> rp_machine p' = rp_machine (ap_profile sample_started)"
  using ratchets_survive_crash [OF sample_run sample_profile_written refl] sample_packages_ok
  by (simp add: sample_env_def sample_outside_def sample_nonce_def)

section \<open>Requests in the background\<close>

text \<open>
  Every request that waits for an answer has a deadline. In every state of every run the requests and the
  deadlines have the same identifiers, each once.
\<close>

theorem requests_have_deadlines:
  assumes "app_run W E d v p (h, s)"
  shows "map fst (ap_background_requests s) = map fst (ap_background_deadlines s)
    \<and> distinct (map fst (ap_background_requests s))"
proof -
  obtain s0 where "initial s0 d v p" "keeps_tracked s0 s"
    using bookkeeping.run_related [OF assms] by blast
  then show ?thesis by (auto simp: initial_def new_app_def keeps_tracked_def tracked_def matched_def)
qed

theorem requests_have_deadlines_witness:
  "map fst (ap_background_requests sample_started) = map fst (ap_background_deadlines sample_started)
    \<and> distinct (map fst (ap_background_requests sample_started))"
  by (rule requests_have_deadlines [OF sample_run])

section \<open>Trust\<close>

text \<open>
  C24. Only the user makes a contact trusted. No event but one of the terminal, so no frame that a server sends,
  no reconnection and no service tick, makes a contact verified whose master key no verified contact had
  before. The exception is a device that is still being paired, which imports the contacts of its account.
\<close>

theorem only_user_input_trusts:
  assumes "event_step W E h event s = (r, s')" and "\<forall>t. event \<noteq> TerminalInput t"
    and "\<not> rp_pending (ap_profile s)" and "keeps_master_key (en_packages E)"
    and "c \<in> set (lo_contacts (ap_store s'))" and "cr_verified c"
  shows "\<exists>old \<in> set (lo_contacts (ap_store s)). cr_verified old \<and>
    row_master_key (en_packages E) old = row_master_key (en_packages E) c"
proof -
  have "leads (keeps_trust E) s (event_step W E h event s)"
    by (rule trust.leads_event_server) (use assms(2) in blast)
  with assms(1,3,4) have "trust_kept (en_packages E) (ap_store s) (ap_store s')"
    by (simp add: leads_def keeps_trust_def)
  with assms(5,6) show ?thesis by (auto simp: trust_kept_def)
qed

definition key_env :: "(nat, nat, nat, nat) env" where
  "key_env = sample_env\<lparr>en_packages := key_packages\<rparr>"

definition trusting_app :: "(nat, nat) app" where
  "trusting_app = sample_app\<lparr>ap_store := sample_db\<lparr>lo_contacts := [sample_contact\<lparr>cr_verified := True\<rparr>]\<rparr>\<rparr>"

theorem only_user_input_trusts_witness:
  "\<exists>old \<in> set (lo_contacts (ap_store trusting_app)). cr_verified old \<and>
    row_master_key key_packages old = row_master_key key_packages (sample_contact\<lparr>cr_verified := True\<rparr>)"
proof -
  let ?e = "ServerEvent (mk_frame [] (DeliveryUpdateFrame \<lparr>du_logical_message_id = ''m1'', du_delivered_at_ms = 3\<rparr>))"
  obtain r s' where e: "event_step sample_outside key_env 0 ?e trusting_app = (r, s')" by fastforce
  have "s' = trusting_app\<lparr>ap_store := update_status ''m1'' Delivered (ap_store trusting_app)\<rparr>"
    using e by (simp add: event_step_def await_def ignore_def handle_server_event_def take_request_def mk_frame_def
        finish_def view_def on_delivery_update_def store_run_def update_def raise_status_def trusting_app_def
        sample_app_def new_app_def)
  then have "sample_contact\<lparr>cr_verified := True\<rparr> \<in> set (lo_contacts (ap_store s'))"
    by (simp add: trusting_app_def update_status_def set_status_where_def)
  moreover have "keeps_master_key (en_packages key_env)"
    by (simp add: keeps_master_key_def key_env_def key_packages_def)
  moreover have "\<not> rp_pending (ap_profile trusting_app)"
    by (simp add: trusting_app_def sample_app_def new_app_def sample_profile_def)
  ultimately show ?thesis
    using only_user_input_trusts [OF e, of "sample_contact\<lparr>cr_verified := True\<rparr>"] by (simp add: key_env_def)
qed

section \<open>The master secret\<close>

text \<open>
  C25. The master secret needs the user. A frame that carries the master secret, the history or the activation
  of a new device is handed to the connection by no event but those of the terminal, unless the user has
  confirmed the short authentication string of the pairing in progress; and no such event makes the
  confirmation. This holds in every run, with whatever frames the server sends, and also for what an earlier
  run left in the outbox, as long as that held no such frame.
\<close>

theorem master_secret_needs_user:
  assumes run: "app_run W E d v p (Some h, s)" and step: "event_step W E h event s = (r, s')"
    and server: "\<forall>t. event \<noteq> TerminalInput t"
    and frames: "faithful_frames E" and outbox: "clean_outbox E d"
  shows "consent s \<or> (consent s' = False \<and> filter secret (new_frames s s') = [])"
proof -
  obtain s0 where "initial s0 d v p" "keeps_clean E s0 s" using log.run_related [OF run] by blast
  then have "clean_outbox E (ap_store s)"
    using frames outbox by (auto simp: initial_def new_app_def keeps_clean_def)
  moreover have "leads (keeps_secret E) s (event_step W E h event s)"
    by (rule secrets.leads_event_server) (use server in blast)
  ultimately show ?thesis
    using step frames by (auto simp: leads_def keeps_secret_def filter_empty_conv)
qed

lemma sample_started_unpaired: "ap_pairing sample_started = None"
  by (simp add: sample_started_def app_start_def await_def restore_pairing_state_from_notifications_def
      finish_def raise_def update_def resend_outbox_def view_def instant_now_def ignore_def sample_app_def new_app_def
      sample_profile_def restore_pairing_requests_from_notifications_def outbox_def sample_db_def
      sample_store_def empty_store_def tick_def sync_pending_conversation_deletions_def
      pending_conversation_deletions_def sync_now_def cursors_def new_uuid_def dispatch_background_def
      send_frame_def register_request_def has_request_def mk_frame_def sample_outside_def)

theorem master_secret_needs_user_witness:
  "\<exists>s'. event_step sample_outside sample_env 0 (ServerEvent (mk_frame [] (pairing_event ''p'' ''d'' ''sas_confirmed'' [])))
       sample_started = (Inr 0, s')
     \<and> consent s' = False \<and> filter secret (new_frames sample_started s') = []"
proof -
  let ?e = "ServerEvent (mk_frame [] (pairing_event ''p'' ''d'' ''sas_confirmed'' []))"
  have e: "event_step sample_outside sample_env 0 ?e sample_started = (Inr 0, sample_started)"
    by (simp add: event_step_def await_def ignore_def handle_server_event_def take_request_def mk_frame_def
        finish_def view_def on_pairing_event_def pairing_event_def handle_pairing_event_def on_sas_confirmed_def
        sample_started_unpaired)
  have "faithful_frames sample_env"
    by (auto simp: faithful_frames_def encode_frame_def decode_frame_def sample_env_def split: if_splits)
  moreover have "clean_outbox sample_env sample_db"
    by (simp add: clean_outbox_def sample_db_def sample_store_def empty_store_def)
  ultimately have "consent sample_started \<or>
      (consent sample_started = False \<and> filter secret (new_frames sample_started sample_started) = [])"
    by (intro master_secret_needs_user [OF sample_run e]) simp_all
  with e show ?thesis by (auto simp: consent_def sample_started_unpaired)
qed

end
