(* ===== verification/App_Mail.thy ===== *)
theory App_Mail
  imports App_Safety
begin

text \<open>
  Receiving mail: an envelope is acknowledged only after the transaction that stores its effect and its
  cursor. The relation \<open>no_ack\<close> holds for everything that a branch does before and after that transaction.
\<close>

section \<open>Acknowledgements\<close>

definition envelope_cursor :: "('a, 's) app \<Rightarrow> u64" where
  "envelope_cursor s = fst (cursors (ap_store s))"

definition acks :: "('a, 's) app \<Rightarrow> ('a, 's) app \<Rightarrow> AckEnvelope_msg list" where
  "acks s s' = List.map_filter ack_of (new_frames s s')"

definition no_ack :: "('a, 's) app \<Rightarrow> ('a, 's) app \<Rightarrow> bool" where
  "no_ack s s' \<longleftrightarrow> sends s s' \<and> lo_envelope_cursor (ap_store s') = lo_envelope_cursor (ap_store s) \<and> acks s s' = []"

lemma acks_trans: "sends s s' \<Longrightarrow> sends s' s'' \<Longrightarrow> acks s s'' = acks s s' @ acks s' s''"
  by (simp add: acks_def new_frames_trans map_filter_def)

lemma acks_same: "ap_sent s' = ap_sent s \<Longrightarrow> sends s s' \<and> acks s s' = []"
  by (simp add: acks_def new_frames_def sends_def)

interpretation mail: app_relation W E no_ack for W :: outside and E :: "('a, 's, 'pa, 'ps) env"
proof unfold_locales
  fix s s' s'' :: "('a, 's) app"
  show "no_ack s s' \<Longrightarrow> no_ack s' s'' \<Longrightarrow> no_ack s s''"
    by (auto simp: no_ack_def acks_trans intro: sends_trans)
next
  fix s s' :: "('a, 's) app" and d m
  assume "outgoing_move W E (ap_vault s) (ap_profile s') (ap_store s) d" "s' = set_machine m s"
  then show "no_ack s (s'\<lparr>ap_store := d\<rparr>)"
    by (simp add: no_ack_def acks_same outgoing_move_def set_machine_def)
qed (auto simp: no_ack_def acks_same same_core_def same_base_def quiet_move_def sends_def acks_def new_frames_def
    ordinary_def map_filter_def)

section \<open>One envelope\<close>

definition committed :: "('a, 's) incoming \<Rightarrow> ('a, 's) app \<Rightarrow> ('a, 's) app \<Rightarrow> bool" where
  "committed x s s' \<longleftrightarrow> sends s s' \<and> lo_envelope_cursor (ap_store s') = sint (se_cursor (in_stored x)) \<and>
     set (acks s s') \<subseteq> {\<lparr>ack_envelope_id = env_envelope_id (in_envelope x), ack_cursor = se_cursor (in_stored x)\<rparr>}"

text \<open>Either the envelope fails and nothing of it is stored or acknowledged, or it is committed once.\<close>

definition acks_once :: "('a, 's) incoming \<Rightarrow> ('a, 's, unit) act \<Rightarrow> ('a, 's) app \<Rightarrow> bool" where
  "acks_once x m s \<longleftrightarrow> committed x s (snd (m s)) \<or> (no_ack s (snd (m s)) \<and> (\<exists>e. fst (m s) = Inl e))"

lemma committed_before: "no_ack s s' \<Longrightarrow> committed x s' s'' \<Longrightarrow> committed x s s''"
  by (auto simp: no_ack_def committed_def acks_trans intro: sends_trans)

lemma committed_after: "committed x s s' \<Longrightarrow> no_ack s' s'' \<Longrightarrow> committed x s s''"
  by (auto simp: no_ack_def committed_def acks_trans intro: sends_trans)

lemma acks_before:
  assumes "leads no_ack s (m s)" "\<And>v s'. acks_once x (f v) s'"
  shows "acks_once x (await m f) s"
proof (cases "m s")
  case (Pair r s')
  have n: "no_ack s s'" using assms(1) Pair by (simp add: leads_def)
  show ?thesis
  proof (cases r)
    case (Inr v)
    with Pair assms(2) [of v s'] n show ?thesis
      unfolding acks_once_def await_def by (auto intro: committed_before mail.R_trans)
  qed (use Pair n in \<open>simp add: acks_once_def await_def\<close>)
qed

lemma acks_then:
  assumes "acks_once x m s" "\<And>v s'. leads no_ack s' (f v s')"
  shows "acks_once x (await m f) s"
proof (cases "m s")
  case (Pair r s')
  then show ?thesis
    using assms(1) assms(2) [where s' = s'] by (cases r) (auto simp: acks_once_def await_def leads_def intro: committed_after)
qed

lemma acks_raise: "acks_once x (raise e) s"
  using mail.leads_raise [of s e] by (simp add: acks_once_def leads_def raise_def)

lemma acks_view: "acks_once x (f (g s)) s \<Longrightarrow> acks_once x (await (view g) f) s"
  by (simp add: acks_once_def await_def view_def)

lemma acks_commit:
  assumes "\<And>now n v p d d'. commit now n v p d = ok d' \<Longrightarrow> lo_envelope_cursor d' = sint (se_cursor (in_stored x))"
  shows "acks_once x (commit_and_ack W x commit) s"
proof -
  let ?t = "tick (tick s)"
  obtain r where r: "r = commit (now_ms_at W (ap_clock s)) (random_at W (ap_clock (tick s))) (ap_vault (set_machine (in_machine x) ?t))
      (ap_profile (set_machine (in_machine x) ?t)) (ap_store s)" by blast
  show ?thesis
  proof (cases r)
    case (Inl e)
    then show ?thesis
      using r by (auto simp: acks_once_def commit_and_ack_def commit_machine_def await_def now_ms_def random_bytes_def
          Let_def no_ack_def acks_same tick_def set_machine_def)
  next
    case (Inr d)
    then have "lo_envelope_cursor d = sint (se_cursor (in_stored x))" using r assms by metis
    with Inr r show ?thesis
      by (auto simp: acks_once_def commit_and_ack_def commit_machine_def await_def now_ms_def random_bytes_def
          Let_def committed_def sends_def acks_def new_frames_def tick_def set_machine_def ack_envelope_def notify_def
          send_frame_def mk_frame_def ack_of_def map_filter_def)
  qed
qed

lemmas commit_cursor_defs = commit_control_def commit_inbound_def commit_unverified_inbound_def
  commit_conversation_deletion_def set_envelope_cursor_def

lemma acks_control: "acks_once x (commit_control_and_ack W E x) s"
  unfolding commit_control_and_ack_def
  by (rule acks_commit) (auto simp: commit_cursor_defs attempt_ok_iff)

lemma acks_let: "acks_once x (f a) s \<Longrightarrow> acks_once x (let y = a in f y) s"
  by simp

lemma acks_if: "(b \<Longrightarrow> acks_once x m s) \<Longrightarrow> (\<not> b \<Longrightarrow> acks_once x n s) \<Longrightarrow> acks_once x (if b then m else n) s"
  by simp

text \<open>Each branch: actions that leave the acknowledgements alone, one commit, more such actions.\<close>

lemmas commit_cursor_simps = commit_cursor_defs attempt_ok_iff

lemma acks_deletion: "acks_once x (receive_deletion W E x) s"
  unfolding receive_deletion_def forget_conversation_def Let_def
  by (rule acks_view | rule acks_before, rule mail.leads_require)+
    (rule acks_then, rule acks_commit, force simp: commit_cursor_simps,
      (rule mail.leads_basic leads | rule mail.leads_await | simp add: core_defs)+)

lemma acks_unverified: "acks_once x (receive_unverified W E x) s"
proof -
  have reauth: "leads no_ack s (reauth_notification W E x now previous s)" for now previous s
    unfolding reauth_notification_def by (rule mail.leads_basic leads | rule mail.leads_await)+
  show ?thesis
    unfolding receive_unverified_def
    by (rule acks_view | rule acks_before, rule mail.leads_require mail.leads_now_ms mail.leads_find_notification reauth)+
      (rule acks_then, rule acks_commit, force simp: commit_cursor_simps,
        (rule mail.leads_basic leads | rule mail.leads_await)+)
qed

lemma acks_receipts: "acks_once x (receive_receipts W E x) s"
proof -
  have one: "leads no_ack s (apply_receipt a i s)" for a i s
    unfolding apply_receipt_def by (rule mail.leads_basic quiet | rule mail.leads_await | simp add: core_defs)+
  show ?thesis
    unfolding receive_receipts_def
    by (rule acks_before, (rule mail.leads_basic one)+)+ (rule acks_control)
qed

lemma acks_request: "acks_once x (receive_chat_request W E x) s"
proof -
  have "leads no_ack s ((if in_self x then receive_own_request W E x else receive_peer_request W E x) s)" for s
    unfolding receive_own_request_def receive_peer_request_def
    by (rule mail.leads_basic leads | rule mail.leads_await)+
  then show ?thesis
    unfolding receive_chat_request_def by (intro acks_before mail.leads_reload_contacts acks_control)
qed

lemma acks_response: "acks_once x (receive_chat_response W E x) s"
proof -
  have answer: "leads no_ack s ((case n of None \<Rightarrow> finish () | Some n \<Rightarrow> apply_response W E x n) s)" for n s
    by (rule mail.leads_basic mail.leads_apply_response)+
  show ?thesis
    unfolding receive_chat_response_def Let_def
    by (rule acks_view acks_control | rule acks_before, rule mail.leads_some_or_raise mail.leads_require
        mail.leads_response_notification answer)+
qed

lemma acks_text: "acks_once x (receive_text W E x) s"
  unfolding receive_text_def Let_def
  by (rule acks_view | rule acks_before, rule mail.leads_require)+
    (rule acks_then, rule acks_commit, force simp: commit_cursor_simps,
      (rule mail.leads_basic leads | rule mail.leads_await | simp add: show_message_def Let_def core_defs)+)

lemma acks_dispatch: "acks_once x (dispatch_payload W E x) s"
  unfolding dispatch_payload_def Let_def
  by (intro acks_if acks_view acks_deletion acks_control acks_unverified acks_receipts acks_request
      acks_response acks_text)

section \<open>A batch\<close>

text \<open>What is acknowledged lies after the cursor before and not after the cursor now.\<close>

definition acked_within :: "('a, 's) app \<Rightarrow> ('a, 's) app \<Rightarrow> bool" where
  "acked_within s s' \<longleftrightarrow> sends s s' \<and> envelope_cursor s \<le> envelope_cursor s' \<and>
     (\<forall>a \<in> set (acks s s'). envelope_cursor s < ack_cursor a \<and> ack_cursor a \<le> envelope_cursor s')"

lemma within_no_ack: "no_ack s s' \<Longrightarrow> acked_within s s' \<and> envelope_cursor s' = envelope_cursor s"
  by (simp add: no_ack_def acked_within_def envelope_cursor_def cursors_def)

lemma within_trans: "acked_within s s' \<Longrightarrow> acked_within s' s'' \<Longrightarrow> acked_within s s''"
  by (auto simp: acked_within_def acks_trans intro: sends_trans order.trans order.strict_trans1)

lemma within_committed:
  "committed x s s' \<Longrightarrow> envelope_cursor s < se_cursor (in_stored x) \<Longrightarrow>
   acked_within s s' \<and> envelope_cursor s' = se_cursor (in_stored x)"
  by (auto simp: committed_def acked_within_def envelope_cursor_def cursors_def)

lemma open_envelope_stored: "open_envelope W E st s = (Inr x, s') \<Longrightarrow> in_stored x = st"
  by (auto simp: open_envelope_def await_def finish_def split: sum.splits prod.splits)

lemma receive_envelope_within:
  assumes "envelope_cursor s < se_cursor st"
  shows "acked_within s (snd (receive_envelope W E st s)) \<and>
    (fst (receive_envelope W E st s) = Inr () \<longrightarrow> envelope_cursor (snd (receive_envelope W E st s)) = se_cursor st)"
proof (cases "open_envelope W E st s")
  case (Pair r s1)
  then have n: "no_ack s s1" using mail.leads_open_envelope [of s W E st] by (simp add: leads_def)
  show ?thesis
  proof (cases r)
    case (Inr x)
    with Pair have "in_stored x = st" by (auto dest: open_envelope_stored)
    with within_committed [of x s1 "snd (dispatch_payload W E x s1)"] acks_dispatch [of x W E s1] n assms
    show ?thesis
      unfolding receive_envelope_def await_def acks_once_def Pair Inr
      by (auto dest!: within_no_ack intro: within_trans)
  qed (use n Pair in \<open>auto simp: receive_envelope_def await_def dest: within_no_ack\<close>)
qed

lemma receive_envelopes_within:
  "acked_within s (snd (receive_envelopes W E (envelope_cursor s) sts s)) \<and>
   (\<forall>c. fst (receive_envelopes W E (envelope_cursor s) sts s) = Inr c \<longrightarrow>
      envelope_cursor (snd (receive_envelopes W E (envelope_cursor s) sts s)) = c)"
proof (induction sts arbitrary: s)
  case Nil
  then show ?case by (simp add: finish_def acked_within_def acks_same)
next
  case (Cons st sts)
  show ?case
  proof (cases "se_cursor st \<le> envelope_cursor s")
    case False
    then have r: "acked_within s (snd (receive_envelope W E st s))"
        "fst (receive_envelope W E st s) = Inr () \<Longrightarrow> envelope_cursor (snd (receive_envelope W E st s)) = se_cursor st"
      using receive_envelope_within [of s st W E] by auto
    show ?thesis
    proof (cases "receive_envelope W E st s")
      case (Pair q s1)
      with r Cons [of s1] False show ?thesis
        by (cases q) (auto simp: await_def intro: within_trans)
    qed
  qed (simp add: Cons)
qed

lemma receive_updates_no_ack: "leads no_ack s (receive_updates c us s)"
proof (induction us arbitrary: c s)
  case (Cons u us)
  show ?case unfolding receive_updates.simps by (rule mail.leads_basic quiet Cons | rule mail.leads_await)+
qed (simp add: mail.leads_finish)

lemma within_await:
  assumes "acked_within s (snd (m s))" "\<And>v s'. m s = (Inr v, s') \<Longrightarrow> acked_within s' (snd (f v s'))"
  shows "acked_within s (snd (await m f s))"
proof (cases "m s")
  case (Pair r s')
  with assms show ?thesis by (cases r) (auto simp: await_def intro: within_trans)
qed

lemma within_quiet: "leads no_ack s (m s) \<Longrightarrow> acked_within s (snd (m s))"
  using within_no_ack by (auto simp: leads_def)

lemma within_store_cursors: "envelope_cursor s = c \<Longrightarrow> acked_within s (snd (store_run (set_cursors c n) s))"
  by (simp add: store_run_def acked_within_def acks_same envelope_cursor_def cursors_def set_cursors_def)

lemma within_cursors:
  assumes "envelope_cursor s = c"
  shows "acked_within s (snd (await (store_run (set_cursors c n)) (\<lambda>_. refresh_contacts_preserve_selection E) s))"
  by (rule within_await, rule within_store_cursors [OF assms], rule within_quiet, rule mail.leads_refresh_contacts)

lemma sync_batch_within: "acked_within s (snd (handle_sync_batch W E b s))"
proof -
  have envelopes: "acked_within s1 (snd (await (receive_envelopes W E (envelope_cursor s1) sts) (\<lambda>cursor.
       await (store_run (set_cursors cursor n)) (\<lambda>_. refresh_contacts_preserve_selection E)) s1))" for s1 sts n
    by (rule within_await, simp add: receive_envelopes_within)
      (use receive_envelopes_within [of s1 W E sts] in \<open>auto intro!: within_cursors\<close>)
  have "acked_within s (snd (await (receive_updates status (sb_delivery_updates b)) (\<lambda>status_cursor.
       await (receive_envelopes W E (envelope_cursor s) (sb_envelopes b)) (\<lambda>cursor.
       await (store_run (set_cursors cursor (max status_cursor (sb_next_status_cursor b)))) (\<lambda>_.
       refresh_contacts_preserve_selection E))) s))" for status
  proof (rule within_await)
    show "acked_within s (snd (receive_updates status (sb_delivery_updates b) s))"
      by (rule within_quiet) (rule receive_updates_no_ack)
  next
    fix v s1
    assume "receive_updates status (sb_delivery_updates b) s = (Inr v, s1)"
    then have "no_ack s s1" using receive_updates_no_ack [of s status "sb_delivery_updates b"] by (simp add: leads_def)
    then have "envelope_cursor s1 = envelope_cursor s" by (simp add: no_ack_def envelope_cursor_def cursors_def)
    then show "acked_within s1 (snd (await (receive_envelopes W E (envelope_cursor s) (sb_envelopes b)) (\<lambda>cursor.
       await (store_run (set_cursors cursor (max v (sb_next_status_cursor b)))) (\<lambda>_.
       refresh_contacts_preserve_selection E)) s1))" using envelopes [of s1] by simp
  qed
  from this [of "snd (cursors (ap_store s))"] show ?thesis
    by (cases "cursors (ap_store s)") (simp add: handle_sync_batch_def await_def [of "view _"] view_def envelope_cursor_def)
qed

end
