(* ===== verification/App_Sending.thy ===== *)
theory App_Sending
  imports App_Safety
begin

text \<open>
  Sending a text (\<open>send_text\<close> of \<open>crates/client/src/app.rs\<close>): whom the envelopes are for. Two relations
  between the states before and after an action carry the argument: \<open>asks\<close>, for the part that only reads
  and asks the server, and \<open>mails\<close>, which bounds what is handed to the connection or left in the outbox.
\<close>

section \<open>Asking the server\<close>

definition is_mail :: "Frame \<Rightarrow> bool" where
  "is_mail f \<longleftrightarrow> (\<exists>es. frame_body f = Some (SendEnvelopes es))"

definition asks :: "('a, 's) app \<Rightarrow> ('a, 's) app \<Rightarrow> bool" where
  "asks s s' \<longleftrightarrow> sends s s' \<and> (\<forall>f \<in> set (new_frames s s'). \<not> is_mail f)
     \<and> ap_profile s' = ap_profile s \<and> ap_store s' = ap_store s \<and> ap_vault s' = ap_vault s"

interpretation asking: step_relation asks
proof
  fix s s' s'' :: "('a, 's) app"
  show "asks s s" by (simp add: asks_def sends_refl new_frames_same)
  show "asks s s' \<Longrightarrow> asks s' s'' \<Longrightarrow> asks s s''"
    by (auto simp: asks_def new_frames_trans intro: sends_trans)
qed

lemma asks_tick: "asks s (tick s)"
  by (simp add: asks_def tick_def new_frames_same sends_same)

lemma asks_outside:
  "leads asks s (now_ms W s)" "leads asks s (instant_now W s)" "leads asks s (new_uuid W s)"
  by (simp_all add: leads_def now_ms_def instant_now_def new_uuid_def asks_tick)

lemma asks_send_frame: "\<not> is_mail f \<Longrightarrow> leads asks s (send_frame W f s)"
  by (simp add: leads_def send_frame_def asks_tick) (simp add: asks_def tick_def new_frames_def sends_def)

lemma asks_rpc: "\<not> is_mail (mk_frame [] b) \<Longrightarrow> leads asks s (rpc_request W b s)"
proof -
  assume b: "\<not> is_mail (mk_frame [] b)"
  then have "\<not> is_mail (mk_frame i b)" for i by (simp add: is_mail_def mk_frame_def)
  then show ?thesis
    unfolding rpc_request_def
    by (intro asking.leads_await asks_outside asks_send_frame)
      (auto simp: leads_def asks_tick split: sum.split option.split Body.split)
qed

lemma asks_lookup_fresh: "leads asks s (lookup_bundle_fresh W u s)"
proof -
  have "leads asks s (update (\<lambda>s. s\<lparr>ap_bundle_cache := c s\<rparr>) s)" for s :: "('a, 's) app" and c
    by (simp add: leads_def update_def asks_def new_frames_same sends_same)
  then have "leads asks s (cache_bundle W b s)" for s :: "('a, 's) app" and b
    unfolding cache_bundle_def by (intro asking.leads_await asks_outside)
  then show ?thesis
    unfolding lookup_bundle_fresh_def
    by (intro asking.leads_await asks_rpc)
      (auto simp: is_mail_def mk_frame_def asking.leads_raise intro: asking.leads_await asking.leads_finish
        split: option.split Body.split)
qed

lemma asks_lookup: "leads asks s (lookup_bundle W u s)"
  unfolding lookup_bundle_def
  by (auto intro!: leads_option_result asks_lookup_fresh asking.leads_await asks_outside leads_if asking.leads_finish
      split: prod.split option.split)

lemma asks_encrypt: "leads asks s (encrypt_for W E m d a p s)"
proof -
  have run: "leads asks s (run_machine f m s)" for f m and s :: "('a, 's) app"
    by (cases "f m") (auto simp: run_machine_def asking.leads_raise asking.leads_finish split: sum.split)
  show ?thesis
    unfolding encrypt_for_def
    by (intro leads_if run asking.leads_await asks_rpc)
      (auto simp: is_mail_def mk_frame_def asking.leads_raise intro!: asking.leads_await asking.leads_some_or_raise
        asking.leads_require asking.leads_lift run split: option.split Body.split)
qed

section \<open>Sealing\<close>

definition certified :: "crypto \<Rightarrow> target \<Rightarrow> bool" where
  "certified C t \<longleftrightarrow> verify_device_bundle C (tg_master t) (tg_account_id t) (tg_device t) = ok ()"

definition recipient :: "target \<Rightarrow> string \<times> string" where
  "recipient t = (tg_account_id t, db_device_id (tg_device t))"

definition addressee :: "EncryptedEnvelope \<Rightarrow> string \<times> string" where
  "addressee e = (env_recipient_account_id e, env_recipient_device_id e)"

lemma await_ok: "await m f s = (Inr v, s') \<longleftrightarrow> (\<exists>x s1. m s = (Inr x, s1) \<and> f x s1 = (Inr v, s'))"
  by (auto simp: await_def split: prod.split sum.split)

lemma lift_ok: "lift r s = (Inr v, s') \<longleftrightarrow> r = ok v \<and> s' = s"
  by (auto simp: lift_def raise_def finish_def split: sum.split)

lemma finish_ok: "finish x s = (Inr v, s') \<longleftrightarrow> x = v \<and> s' = s"
  by (auto simp: finish_def)

lemma asks_seal: "leads asks s (seal_for W E og p ts em s)"
proof (induction ts arbitrary: em s)
  case Nil
  show ?case by (cases em) (simp add: asking.leads_finish)
next
  case (Cons t ts)
  show ?case
    by (cases em)
      (auto intro!: asking.leads_await asking.leads_lift asks_encrypt asks_outside Cons split: prod.split)
qed

text \<open>The envelopes are one for each target, in order, and every target is certified.\<close>

lemma seal_for_addresses:
  "seal_for W E og p ts (es, m) s = (Inr (es', m'), s') \<Longrightarrow>
   map addressee es' = map addressee es @ map recipient ts \<and> (\<forall>t \<in> set ts. certified (en_crypto E) t)"
proof (induction ts arbitrary: es m s)
  case (Cons t ts)
  then obtain c :: EncryptedOlm and m1 i s2 where t: "verify_device_bundle (en_crypto E) (tg_master t) (tg_account_id t) (tg_device t) = ok ()"
      and r: "seal_for W E og p ts
        (es @ [\<lparr>env_envelope_id = i, env_logical_message_id = og_logical_id og,
          env_conversation_id = og_conversation_id og, env_recipient_account_id = tg_account_id t,
          env_recipient_device_id = db_device_id (tg_device t), env_ciphertext = eo_ciphertext c,
          env_olm_message_type = eo_message_type c,
          env_client_sent_at_ms = og_sent_at_ms og\<rparr>], m1) s2 = (Inr (es', m'), s')"
    by (auto simp: await_ok lift_ok split: prod.splits)
  from Cons.IH [OF r] t show ?case by (simp add: addressee_def recipient_def certified_def)
qed (auto simp: finish_ok)

section \<open>What is sent and stored\<close>

definition mails :: "('a, 's, 'pa, 'ps) env \<Rightarrow> (EncryptedEnvelope list \<Rightarrow> bool) \<Rightarrow> ('a, 's) app \<Rightarrow> ('a, 's) app \<Rightarrow> bool" where
  "mails E good s s' \<longleftrightarrow> sends s s'
     \<and> (\<forall>f \<in> set (new_frames s s'). \<forall>es. frame_body f = Some (SendEnvelopes es) \<longrightarrow> good es)
     \<and> (\<forall>row \<in> set (lo_outbox (ap_store s')). row \<in> set (lo_outbox (ap_store s)) \<or>
          (\<exists>i es. ob_encoded_frame row = encode_frame (frame_to_vec E) (mk_frame i (SendEnvelopes es)) \<and> good es))"

interpretation mailing: step_relation "mails E good" for E :: "('a, 's, 'pa, 'ps) env" and good
proof
  fix s s' s'' :: "('a, 's) app"
  show "mails E good s s" by (simp add: mails_def sends_refl new_frames_same)
  show "mails E good s s' \<Longrightarrow> mails E good s' s'' \<Longrightarrow> mails E good s s''"
    unfolding mails_def by (auto simp: new_frames_trans intro: sends_trans)
qed

lemma mails_quiet:
  "ap_sent s' = ap_sent s \<Longrightarrow> set (lo_outbox (ap_store s')) \<subseteq> set (lo_outbox (ap_store s)) \<Longrightarrow> mails E good s s'"
  by (auto simp: mails_def sends_same new_frames_same)

lemma mails_asks: "leads asks s r \<Longrightarrow> leads (mails E good) s r"
  by (auto simp: leads_def asks_def mails_def is_mail_def)

lemma mails_update: "ap_sent (f s) = ap_sent s \<Longrightarrow> ap_store (f s) = ap_store s \<Longrightarrow> leads (mails E good) s (update f s)"
  by (simp add: leads_def update_def mails_quiet)

lemma mails_random: "leads (mails E good) s (random_bytes W s)"
  by (simp add: leads_def random_bytes_def tick_def mails_quiet)

lemma mails_dispatch:
  fixes s :: "('a, 's) app" and E :: "('a, 's, 'pa, 'ps) env"
  assumes "good es"
  shows "leads (mails E good) s (dispatch_background W (mk_frame i (SendEnvelopes es)) op s)"
proof -
  have "leads (mails E good) s (send_frame W f s)" if "frame_body f = Some (SendEnvelopes es)" for f and s :: "('a, 's) app"
    using that assms
    by (simp add: leads_def send_frame_def tick_def mails_quiet) (auto simp: mails_def new_frames_def sends_def)
  then have send: "leads (mails E good) s (await (send_frame W f) (\<lambda>_. await (instant_now W) (\<lambda>now.
      update (register_request (frame_id f) op (now + 20000)))) s)"
    if "frame_body f = Some (SendEnvelopes es)" for f and s :: "('a, 's) app"
    using that by (intro mailing.leads_await mails_asks [OF asks_outside(2)] mails_update)
      (simp_all add: register_request_def)
  show ?thesis
    unfolding dispatch_background_def
  proof (rule mailing.leads_await_result)
    let ?m = "\<lambda>s. if frame_id (mk_frame i (SendEnvelopes es)) = [] \<or> has_request (frame_id (mk_frame i (SendEnvelopes es))) s
        then await (new_uuid W) (\<lambda>k. finish ((mk_frame i (SendEnvelopes es))\<lparr>frame_id := k\<rparr>)) s
        else finish (mk_frame i (SendEnvelopes es)) s"
    show "leads (mails E good) s (?m s)"
      by (intro leads_if_result mailing.leads_await mailing.leads_finish mails_asks [OF asks_outside(3)])
    fix f s'
    assume "?m s = (Inr f, s')"
    then have "frame_body f = Some (SendEnvelopes es)"
      by (auto simp: await_ok finish_ok mk_frame_def split: if_splits)
    then show "leads (mails E good) s' (await (send_frame W f) (\<lambda>_. await (instant_now W) (\<lambda>now.
      update (register_request (frame_id f) op (now + 20000)))) s')" by (rule send)
  qed
qed

lemma commit_machine_eq:
  "commit_machine W m commit s = (let t = set_machine m (tick (tick s)) in
     case commit (now_ms_at W (ap_clock s)) (random_at W (Suc (ap_clock s))) (ap_vault s) (ap_profile t) (ap_store s) of
       Inl e \<Rightarrow> (Inl (Inner e), tick (tick s))
     | Inr d \<Rightarrow> (Inr (), t\<lparr>ap_store := d\<rparr>))"
  by (simp add: commit_machine_def await_def now_ms_def random_bytes_def Let_def tick_def set_machine_def
      split: sum.split)

lemma mails_commit:
  assumes "good es"
    and "\<And>now ns v p d d'. commit now ns v p d = ok d' \<Longrightarrow> set (lo_outbox d') \<subseteq> insert
      \<lparr>ob_id = i, ob_encoded_frame = encode_frame (frame_to_vec E) (mk_frame j (SendEnvelopes es)), ob_created_at_ms = now\<rparr>
      (set (lo_outbox d))"
  shows "leads (mails E good) s (commit_machine W m commit s)"
proof (cases "commit (now_ms_at W (ap_clock s)) (random_at W (Suc (ap_clock s))) (ap_vault s)
    (ap_profile (set_machine m (tick (tick s)))) (ap_store s)")
  case (Inr d)
  from assms(2) [OF Inr] have "mails E good s ((set_machine m (tick (tick s)))\<lparr>ap_store := d\<rparr>)"
    using assms(1) by (auto simp: mails_def sends_same new_frames_same tick_def set_machine_def)
  with Inr show ?thesis by (simp add: leads_def commit_machine_eq Let_def)
qed (simp add: leads_def commit_machine_eq Let_def mails_quiet tick_def)

section \<open>Whom a text is for\<close>

definition addressed :: "outside \<Rightarrow> ('a, 's, 'pa, 'ps) env \<Rightarrow> ('a, 's) app \<Rightarrow> EncryptedEnvelope list \<Rightarrow> bool" where
  "addressed W E s es \<longleftrightarrow> (\<exists>c own s1. selected_contact s = Some c \<and> ct_verified c \<and> \<not> ct_identity_changed c
     \<and> lookup_bundle W (rp_username (ap_profile s)) s = (Inr own, s1) \<and> ub_account_master_key own = own_master E s
     \<and> (let peer = ub_account_id (ct_bundle c);
            theirs = filter (\<lambda>d. \<not> db_revoked d) (ub_devices (ct_bundle c));
            ours = filter (\<lambda>d. \<not> db_revoked d \<and> db_device_id d \<noteq> own_device_id s) (ub_devices own)
        in map addressee es = map (\<lambda>d. (peer, db_device_id d)) theirs @ map (\<lambda>d. (own_account s, db_device_id d)) ours
         \<and> (\<forall>d \<in> set theirs. verify_device_bundle (en_crypto E) (ub_account_master_key (ct_bundle c)) peer d = ok ())
         \<and> (\<forall>d \<in> set ours. verify_device_bundle (en_crypto E) (own_master E s) (own_account s) d = ok ())))"

lemma mails_draft: "leads (mails E good) s (store_try (save_draft P now n v c []) s)"
  by (auto simp: leads_def store_try_def mails_quiet save_draft_def attempt_ok_iff split: sum.split if_splits)

lemma mails_refresh: "leads (mails E good) s (refresh_contacts_preserve_selection E s)"
  unfolding refresh_contacts_preserve_selection_def
  by (intro mailing.leads_await mailing.leads_view mailing.leads_store_get mails_update) simp_all

lemma mails_lost: "leads (mails E good) s ((case r of Inl e \<Rightarrow> connection_lost W | Inr v \<Rightarrow> finish ()) s)"
  unfolding connection_lost_def
  by (intro leads_sum mailing.leads_await mails_update mails_asks [OF asks_outside(2)] mailing.leads_finish) simp_all

lemma addressedI:
  assumes "selected_contact s = Some c" "ct_verified c \<and> \<not> ct_identity_changed c"
    and "lookup_bundle W (rp_username (ap_profile s)) s = (Inr own, s1)" "ub_account_master_key own = own_master E s1"
    and "new_uuid W s1 = (Inr i, s2)" "now_ms W s2 = (Inr t, s3)"
    and "(own_account s3, own_device_id s3, x) = (account, y)" "y = (own_device, z)"
    and "seal_for W E og p (devices_of (ct_bundle c) @ map (tg_account_id_update (\<lambda>_. account)) (other_devices own_device own))
      ([], m) s3 = (Inr r, s4)" "r = (es, m')"
  shows "addressed W E s es"
proof -
  have same: "ap_profile s1 = ap_profile s" "ap_profile s2 = ap_profile s1" "ap_profile s3 = ap_profile s2"
    using asks_lookup [of s W "rp_username (ap_profile s)"] asks_outside(3) [of s1 W] asks_outside(1) [of s2 W] assms(3,5,6)
    by (simp_all add: leads_def asks_def)
  have "map addressee es = map recipient (devices_of (ct_bundle c) @ map (tg_account_id_update (\<lambda>_. account)) (other_devices own_device own))"
    "\<forall>t \<in> set (devices_of (ct_bundle c) @ map (tg_account_id_update (\<lambda>_. account)) (other_devices own_device own)). certified (en_crypto E) t"
    using seal_for_addresses assms(9,10) by (metis append_Nil list.simps(8))+
  moreover have "ub_account_master_key own = own_master E s" using assms(4) same by (simp add: own_master_def)
  moreover have "account = own_account s" "own_device = own_device_id s"
    using assms(7,8) same by (simp_all add: own_master_def own_account_def own_device_id_def)
  moreover have "other_devices i b = map (\<lambda>d. \<lparr>tg_account_id = ub_account_id b, tg_master = ub_account_master_key b, tg_device = d\<rparr>)
      (filter (\<lambda>d. \<not> db_revoked d \<and> db_device_id d \<noteq> i) (ub_devices b))" for i b
    by (simp add: other_devices_def devices_of_def active_devices_def filter_map o_def conj_commute)
  ultimately have whom: "map addressee es = map (\<lambda>d. (ub_account_id (ct_bundle c), db_device_id d)) (filter (\<lambda>d. \<not> db_revoked d) (ub_devices (ct_bundle c)))
      @ map (\<lambda>d. (own_account s, db_device_id d)) (filter (\<lambda>d. \<not> db_revoked d \<and> db_device_id d \<noteq> own_device_id s) (ub_devices own))"
    and theirs: "\<forall>d \<in> set (filter (\<lambda>d. \<not> db_revoked d) (ub_devices (ct_bundle c))).
      verify_device_bundle (en_crypto E) (ub_account_master_key (ct_bundle c)) (ub_account_id (ct_bundle c)) d = ok ()"
    and ours: "\<forall>d \<in> set (filter (\<lambda>d. \<not> db_revoked d \<and> db_device_id d \<noteq> own_device_id s) (ub_devices own)).
      verify_device_bundle (en_crypto E) (own_master E s) (own_account s) d = ok ()"
    by (auto simp: devices_of_def active_devices_def recipient_def o_def certified_def ball_Un)
  show ?thesis
    unfolding addressed_def Let_def using assms(1-3) whom theirs ours \<open>ub_account_master_key own = own_master E s\<close>
    by blast
qed

text \<open>What follows the sealing.\<close>

lemma text_queued:
  assumes "good es"
  shows "leads (mails E good) s (
     await (commit_machine W m (\<lambda>now nonces v p. commit_outgoing (en_packages E) now (nonces 0, nonces 1) v p msg
       (encode_frame (frame_to_vec E) (mk_frame i (SendEnvelopes es))))) (\<lambda>_.
     await (update (\<lambda>s. scroll_messages_to_bottom (s\<lparr>ap_messages := ap_messages s @ [msg]\<rparr>))) (\<lambda>_.
     await (outcome (dispatch_background W (mk_frame i (SendEnvelopes es)) op)) (\<lambda>sent.
     await (case sent of Inl _ \<Rightarrow> connection_lost W | Inr _ \<Rightarrow> finish ()) (\<lambda>_.
     await (view ap_vault) (\<lambda>v.
     await (now_ms W) (\<lambda>now.
     await (random_bytes W) (\<lambda>nonces.
     await (store_try (save_draft (en_packages E) now (nonces 0) v conversation [])) (\<lambda>_.
     await (update (\<lambda>s. s\<lparr>ap_persisted_draft := []\<rparr>)) (\<lambda>_.
     refresh_contacts_preserve_selection E))))))))) s)"
proof -
  have commit: "leads (mails E good) s (commit_machine W m (\<lambda>now nonces v p. commit_outgoing (en_packages E) now
      (nonces 0, nonces 1) v p msg (encode_frame (frame_to_vec E) (mk_frame i (SendEnvelopes es)))) s)"
    by (rule mails_commit [where good = good and es = es and i = "cm_id msg" and j = i, OF assms])
      (auto simp: commit_outgoing_def put_outbox_def insert_message_frame upsert_profile_def attempt_ok_iff split: if_splits)
  show ?thesis
    by (intro mailing.leads_await mailing.leads_outcome mailing.leads_view commit mails_dispatch mails_lost mails_draft
        mails_refresh mails_random mails_asks [OF asks_outside(1)] mails_update assms)
      (simp_all add: scroll_messages_to_bottom_def)
qed

lemma text_mails:
  fixes s :: "('a, 's) app" and E :: "('a, 's, 'pa, 'ps) env"
  shows "leads (mails E (addressed W E s)) s (send_text W E txt s)"
  unfolding send_text_def Let_def
  apply (intro mailing.leads_await_require leads_await_view mailing.leads_await_some mailing.leads_await_lift_app,
    rule mailing.leads_await_result, rule mails_asks, rule asks_lookup,
    intro leads_await_view mailing.leads_await_require, rule mailing.leads_await_result, rule mails_asks,
    rule asks_outside, rule mailing.leads_await_result, rule mails_asks, rule asks_outside,
    intro leads_await_view leads_prod mailing.leads_await_lift,
    rule mailing.leads_await_result, rule mails_asks, rule asks_seal)
  apply (intro leads_prod mailing.leads_await_require)
  apply (rule mailing.leads_await [OF mails_asks [OF asks_outside(3)]])
  apply (rule text_queued)
  apply (rule addressedI; assumption)
  done

end
