(* ===== verification/App_Quarantine.thy ===== *)
theory App_Quarantine
  imports App_Sending
begin

text \<open>
  Mail of a sender that the user has not verified (\<open>receive_unverified\<close>, that is the branch for unverified
  senders of \<open>handle_sync_batch\<close> in \<open>crates/client/src/app.rs\<close>). The relation \<open>shelves\<close> bounds what such an
  envelope can do; \<open>noticed\<close> says what the store has when it was accepted.
\<close>

section \<open>What a shelved envelope may do\<close>

definition is_ack :: "Frame \<Rightarrow> bool" where
  "is_ack f \<longleftrightarrow> (\<exists>a. frame_body f = Some (AckEnvelope a))"

definition shelves :: "('a, 's) app \<Rightarrow> ('a, 's) app \<Rightarrow> bool" where
  "shelves s s' \<longleftrightarrow> sends s s' \<and> list_all is_ack (new_frames s s') \<and> ap_messages s' = ap_messages s
     \<and> lo_contacts (ap_store s') = lo_contacts (ap_store s) \<and> lo_outbox (ap_store s') = lo_outbox (ap_store s)"

interpretation shelving: step_relation shelves
proof
  fix s s' s'' :: "('a, 's) app"
  show "shelves s s" by (simp add: shelves_def sends_refl new_frames_same)
  show "shelves s s' \<Longrightarrow> shelves s' s'' \<Longrightarrow> shelves s s''"
    by (auto simp: shelves_def new_frames_trans intro: sends_trans)
qed

lemma shelves_tick: "shelves s (tick s)"
  by (simp add: shelves_def tick_def new_frames_same sends_same)

lemma shelves_update:
  "ap_sent (f s) = ap_sent s \<Longrightarrow> ap_messages (f s) = ap_messages s \<Longrightarrow> ap_store (f s) = ap_store s \<Longrightarrow>
   leads shelves s (update f s)"
  by (simp add: leads_def update_def shelves_def new_frames_same sends_same)

lemma shelves_ack: "leads shelves s (ack_envelope W x s)"
  by (simp add: leads_def ack_envelope_def notify_def send_frame_def shelves_tick)
    (simp add: shelves_def sends_def new_frames_def tick_def is_ack_def mk_frame_def)

lemma shelves_commit:
  assumes "\<And>now ns v p d d'. commit now ns v p d = ok d' \<Longrightarrow> lo_contacts d' = lo_contacts d \<and> lo_outbox d' = lo_outbox d"
  shows "leads shelves s (commit_machine W m commit s)"
proof (cases "commit (now_ms_at W (ap_clock s)) (random_at W (Suc (ap_clock s))) (ap_vault s)
    (ap_profile (set_machine m (tick (tick s)))) (ap_store s)")
  case (Inr d)
  with assms [OF Inr] show ?thesis
    by (simp add: leads_def commit_machine_eq Let_def)
      (simp add: shelves_def tick_def set_machine_def sends_same new_frames_same)
qed (simp add: leads_def commit_machine_eq Let_def, simp add: shelves_def tick_def sends_same new_frames_same)

lemma shelves_views:
  "leads shelves s (reload_contacts E s)" "leads shelves s (refresh_notifications E s)"
  "leads shelves s (find_notification E i s)"
  unfolding reload_contacts_def refresh_notifications_def find_notification_def
  by (intro leads_await_view leads_prod mailing.leads_await shelving.leads_await shelving.leads_store_get shelving.leads_view
      shelves_update; simp)+

lemma unverified_frame:
  "commit_unverified_inbound P now ns v p m n c d = ok d' \<Longrightarrow> lo_contacts d' = lo_contacts d \<and> lo_outbox d' = lo_outbox d"
  by (auto simp: commit_unverified_inbound_def attempt_ok_iff upsert_defs
      dest!: insert_message_frame upsert_notification_frame)

lemma shelves_unverified:
  fixes s :: "('a, 's) app"
  shows "leads shelves s (receive_unverified W E x s)"
proof -
  have outside: "leads shelves s (now_ms W s)" "leads shelves s (new_uuid W s)" for s :: "('a, 's) app"
    by (simp_all add: leads_def now_ms_def new_uuid_def shelves_tick)
  have notif: "leads shelves s (reauth_notification W E x now previous s)" for now previous and s :: "('a, 's) app"
    unfolding reauth_notification_def id_of_old_def
    by (intro leads_if shelving.leads_await leads_option outside shelving.leads_finish)
  show ?thesis
    unfolding receive_unverified_def commit_and_ack_def
    by (intro shelving.leads_await shelving.leads_view shelving.leads_require outside shelves_views notif
        shelves_commit shelves_ack) (rule unverified_frame)
qed

section \<open>Opening the envelope\<close>

text \<open>A look-up of a name asks the server for nothing else and keeps the store.\<close>

definition asks_for :: "string \<Rightarrow> ('a, 's) app \<Rightarrow> ('a, 's) app \<Rightarrow> bool" where
  "asks_for u s s' \<longleftrightarrow> sends s s' \<and> (\<forall>f \<in> set (new_frames s s'). frame_body f = Some (LookupUser u))
     \<and> ap_messages s' = ap_messages s \<and> ap_store s' = ap_store s"

interpretation naming: step_relation "asks_for u" for u
proof
  fix s s' s'' :: "('a, 's) app"
  show "asks_for u s s" by (simp add: asks_for_def sends_refl new_frames_same)
  show "asks_for u s s' \<Longrightarrow> asks_for u s' s'' \<Longrightarrow> asks_for u s s''"
    by (auto simp: asks_for_def new_frames_trans intro: sends_trans)
qed

lemma asks_for_tick: "asks_for u s (tick s)"
  by (simp add: asks_for_def tick_def new_frames_same sends_same)

lemma asks_for_outside: "leads (asks_for u) s (instant_now W s)" "leads (asks_for u) s (new_uuid W s)"
  by (simp_all add: leads_def instant_now_def new_uuid_def asks_for_tick)

lemma asks_for_rpc: "leads (asks_for u) s (rpc_request W (LookupUser u) s)"
proof -
  have "leads (asks_for u) s (send_frame W (mk_frame i (LookupUser u)) s)" for i and s :: "('a, 's) app"
    by (simp add: leads_def send_frame_def asks_for_tick) (simp add: asks_for_def tick_def new_frames_def sends_def mk_frame_def)
  then show ?thesis
    unfolding rpc_request_def
    by (intro naming.leads_await asks_for_outside)
      (auto simp: leads_def asks_for_tick split: sum.split option.split Body.split)
qed

lemma asks_for_lookup: "leads (asks_for u) s (lookup_bundle W u s)"
proof -
  have "leads (asks_for u) s (update (\<lambda>s. s\<lparr>ap_bundle_cache := c s\<rparr>) s)" for s :: "('a, 's) app" and c
    by (simp add: leads_def update_def asks_for_def new_frames_same sends_same)
  then have cache: "leads (asks_for u) s (cache_bundle W b s)" for s :: "('a, 's) app" and b
    unfolding cache_bundle_def by (intro naming.leads_await asks_for_outside)
  have fresh: "leads (asks_for u) s (lookup_bundle_fresh W u s)" for s :: "('a, 's) app"
    unfolding lookup_bundle_fresh_def
    by (intro naming.leads_await asks_for_rpc)
      (auto simp: naming.leads_raise intro: naming.leads_await cache naming.leads_finish split: option.split Body.split)
  show ?thesis
    unfolding lookup_bundle_def
    by (auto intro!: leads_option_result fresh naming.leads_await asks_for_outside leads_if naming.leads_finish
        split: prod.split option.split)
qed

text \<open>An envelope of another account that opens has written the sender's bundle to the contacts, and nothing else.\<close>

lemma finish_steps:
  "some_or_raise e z s = (Inr v, s') \<longleftrightarrow> z = Some v \<and> s' = s"
  "view g s = (Inr v, s') \<longleftrightarrow> v = g s \<and> s' = s"
  "require_that b e s = (Inr u, s') \<longleftrightarrow> b \<and> s' = s"
  "lift_app r s = (Inr w, s') \<longleftrightarrow> r = Inr w \<and> s' = s"
  by (auto simp: some_or_raise_def view_def require_that_def lift_app_def finish_def raise_def split: option.splits)

lemma opened_by_other:
  fixes s s1 :: "('a, 's) app" and E :: "('a, 's, 'pa, 'ps) env"
  assumes "open_envelope W E stored s = (Inr x, s1)" and "\<not> in_self x"
  shows "\<exists>sa now c d. lookup_bundle W (se_sender_username stored) s = (Inr (in_bundle x), sa)
    \<and> upsert_contact (en_packages E) now (in_bundle x) (ap_store sa) = ok (c, d)
    \<and> s1 = (tick sa)\<lparr>ap_store := d\<rparr> \<and> in_verified x = ct_verified c \<and> in_stored x = stored"
proof -
  have dec: "decrypt_with E m st en d t = (Inr v, t') \<Longrightarrow> t' = t" for m st en d and t t' :: "('a, 's) app" and v
    by (auto simp: decrypt_with_def finish_def raise_def split: prod.splits sum.splits)
  have tick: "ap_store (tick t) = ap_store t" for t :: "('a, 's) app" by (simp add: tick_def)
  show ?thesis
    using assms unfolding open_envelope_def
    by (auto simp: await_ok finish_steps lift_ok finish_ok put_bundle_def now_ms_def store_query_def tick
        split: if_splits sum.splits dest!: dec) blast
qed

lemma upsert_contact_rows:
  assumes "upsert_contact P now b s = ok (c, s')"
  shows "delete_where (\<lambda>r. cr_account_id r = ub_account_id b) (lo_contacts s') = delete_where (\<lambda>r. cr_account_id r = ub_account_id b) (lo_contacts s)"
    and "r \<in> set (lo_contacts s') \<Longrightarrow> cr_verified r \<Longrightarrow>
      \<exists>old \<in> set (lo_contacts s). cr_verified old \<and> nocase_eq (cr_username old) (cr_username r)"
    and "lo_notifications s' = lo_notifications s" "lo_outbox s' = lo_outbox s"
proof -
  obtain old where old: "contact_by_username P (ub_username b) s = ok old"
    using assms by (auto simp: upsert_contact_def attempt_ok_iff)
  define verified where "verified = ((case old of None \<Rightarrow> False | Some c \<Rightarrow> ct_verified c)
    \<and> \<not> (case old of None \<Rightarrow> False | Some c \<Rightarrow> ub_account_master_key (ct_bundle c) \<noteq> ub_account_master_key b))"
  obtain changed where put: "put_contact \<lparr>cr_account_id = ub_account_id b, cr_username = ub_username b, cr_bundle = bundle_encode P b,
       cr_verified = verified, cr_identity_changed = changed, cr_updated_at_ms = now\<rparr> s = ok s'" (is "put_contact ?row s = _")
    using assms by (auto simp: upsert_contact_def attempt_ok_iff Let_def old verified_def split: option.splits)
  have verified: "verified \<longrightarrow> (\<exists>c. old = Some c \<and> ct_verified c)"
    by (simp add: verified_def split: option.split)
  have "delete_where p (update_where p (\<lambda>_. x) rs) = delete_where p rs" if "p x" for p and x :: contact_row and rs
    using that by (induction rs) auto
  then show "delete_where (\<lambda>r. cr_account_id r = ub_account_id b) (lo_contacts s') = delete_where (\<lambda>r. cr_account_id r = ub_account_id b) (lo_contacts s)"
    using put by (auto simp: put_contact_def delete_where_def split: if_splits)
  show "lo_notifications s' = lo_notifications s" "lo_outbox s' = lo_outbox s"
    using put by (auto simp: put_contact_def split: if_splits)
  assume r: "r \<in> set (lo_contacts s')" "cr_verified r"
  have "r = ?row \<or> r \<in> set (lo_contacts s)"
    using put r(1) by (auto simp: put_contact_def in_update_where split: if_splits)
  moreover have "\<exists>q \<in> set (lo_contacts s). cr_verified q \<and> nocase_eq (cr_username q) (ub_username b)" if "verified"
  proof -
    from verified that old obtain q c where "find (\<lambda>c. nocase_eq (cr_username c) (ub_username b)) (lo_contacts s) = Some q"
      "contact_from_row P s q = ok c" "ct_verified c"
      by (auto simp: contact_by_username_def attempt_ok_iff split: option.splits)
    then show ?thesis by (auto simp: contact_from_row_def attempt_ok_iff dest!: find_SomeD)
  qed
  moreover have "nocase_eq u u" for u by (simp add: nocase_eq_def)
  ultimately show "\<exists>old \<in> set (lo_contacts s). cr_verified old \<and> nocase_eq (cr_username old) (cr_username r)"
    using r(2) by auto
qed

section \<open>The notice to the user\<close>

text \<open>
  A request to verify the sender is there: a new, unread one, or one for the same conversation that the user had
  already accepted and that is not finished.
\<close>

definition noticed :: "('a, 's) incoming \<Rightarrow> local_db \<Rightarrow> local_db \<Rightarrow> bool" where
  "noticed x d d' \<longleftrightarrow> (\<exists>n \<in> set (lo_notifications d'). nr_request_id n = reauth_request_id x
     \<and> (nr_state n = ''pending'' \<and> \<not> nr_is_read n
       \<or> nr_state n \<in> {''accepted'', ''in_progress''}
         \<and> (\<exists>old \<in> set (lo_notifications d). nr_request_id old = reauth_request_id x \<and> nr_state old = nr_state n)))"

lemma state_str_inverse: "state_try_from v = ok st \<Longrightarrow> state_str st = v"
  by (auto simp: state_try_from_def split: if_splits)

lemma found_notification:
  assumes "find_notification E i s = (Inr (Some n), s')"
  shows "nt_request_id n = i" "\<exists>r \<in> set (lo_notifications (ap_store s)). nr_request_id r = i \<and> nr_state r = state_str (nt_state n)"
proof -
  obtain r where r: "find (\<lambda>n. nr_request_id n = i) (lo_notifications (ap_store s)) = Some r"
    "decode_notification (en_packages E) (ap_vault s) r = ok n"
    using assms by (auto simp: find_notification_def await_def view_def store_get_def lift_def raise_def finish_def
      notification_by_request_id_def attempt_ok_iff split: sum.splits option.splits)
  from r(2) have "nt_request_id n = nr_request_id r" "nr_state r = state_str (nt_state n)"
    by (auto simp: decode_notification_def attempt_ok_iff state_str_inverse)
  with find_SomeD [OF r(1)] show "nt_request_id n = i"
    "\<exists>r \<in> set (lo_notifications (ap_store s)). nr_request_id r = i \<and> nr_state r = state_str (nt_state n)" by auto
qed

lemma find_notification_same: "find_notification E i s = (Inr n, s') \<Longrightarrow> s' = s"
  by (auto simp: find_notification_def await_def view_def store_get_def lift_def raise_def finish_def split: sum.splits)

text \<open>The notification that is saved, from what was found.\<close>

lemma reauth_result:
  assumes "reauth_notification W E x now previous s = (Inr n, s')"
    and "\<And>p. previous = Some p \<Longrightarrow> nt_request_id p = reauth_request_id x"
  shows "nt_request_id n = reauth_request_id x \<and> (nt_state n = StatePending \<and> \<not> nt_read n
      \<or> nt_state n \<in> {Accepted, InProgress} \<and> (\<exists>p. previous = Some p \<and> nt_state p = nt_state n))"
    and "ap_store s' = ap_store s"
  using assms by (auto simp: reauth_notification_def id_of_old_def await_ok finish_def still_open_def new_uuid_def tick_def
      split: if_splits option.splits)

lemma unverified_noticed:
  assumes "commit_unverified_inbound P now ns v p m n c d = ok d'" and "nt_request_id n = reauth_request_id x"
    and "nt_state n = StatePending \<and> \<not> nt_read n \<or> nt_state n \<in> {Accepted, InProgress}
      \<and> (\<exists>old \<in> set (lo_notifications d0). nr_request_id old = reauth_request_id x \<and> nr_state old = state_str (nt_state n))"
  shows "noticed x d0 d'"
proof -
  obtain payload d1 d2 where d: "upsert_notification False (row_of_notification payload n) d1 = ok d2"
      "d' = set_envelope_cursor c d2"
    using assms(1) by (auto simp: commit_unverified_inbound_def attempt_ok_iff)
  have "row_of_notification payload n \<in> set (lo_notifications d2)"
    using d(1) by (force simp: upsert_notification_def in_update_where split: if_splits)
  then show ?thesis unfolding noticed_def
    by (rule_tac bexI) (use d(2) assms(2,3) in \<open>auto simp: set_envelope_cursor_def row_of_notification_def\<close>)
qed

lemma unverified_is_noticed:
  assumes "receive_unverified W E x s = (Inr (), s')"
  shows "noticed x (ap_store s) (ap_store s')"
proof -
  obtain now previous s1 s2 s3 n s4 s5 s6 where steps:
      "find_notification E (reauth_request_id x) s1 = (Inr previous, s2)"
      "reauth_notification W E x now previous s2 = (Inr n, s3)"
      "commit_machine W (in_machine x) (\<lambda>now nonces v p. commit_unverified_inbound (en_packages E) now
         (nonces 0, nonces 1, nonces 2) v p (quarantined_message x) n (se_cursor (in_stored x))) s3 = (Inr (), s4)"
      "ack_envelope W x s4 = (Inr (), s5)" "reload_contacts E s5 = (Inr (), s6)" "refresh_notifications E s6 = (Inr (), s')"
      and s1: "ap_store s1 = ap_store s"
    using assms unfolding receive_unverified_def commit_and_ack_def by (auto simp: await_ok finish_steps now_ms_def tick_def)
  have found: "\<exists>old \<in> set (lo_notifications (ap_store s)). nr_request_id old = reauth_request_id x \<and> nr_state old = state_str (nt_state p)"
    if "previous = Some p" for p
    using found_notification(2) steps(1) that s1 by metis
  have prev: "nt_request_id p = reauth_request_id x" if "previous = Some p" for p
    using found_notification(1) steps(1) that by blast
  note n = reauth_result(1) [OF steps(2) prev]
  have same: "ap_store s3 = ap_store s"
    using reauth_result(2) [OF steps(2) prev] find_notification_same [OF steps(1)] s1 by simp
  have "noticed x (ap_store s) (ap_store s4)"
    using steps(3) n found
    by (auto simp: commit_machine_eq Let_def split: sum.splits intro!: unverified_noticed; metis)
  moreover have "ap_store s' = ap_store s4"
    using steps(4-6) by (auto simp: ack_envelope_def notify_def send_frame_def tick_def reload_contacts_def
        refresh_notifications_def await_def view_def store_get_def lift_def raise_def finish_def update_def
        split: if_splits sum.splits prod.splits)
  ultimately show ?thesis by simp
qed

lemma unverified_dispatch:
  "\<not> in_verified x \<or> conversation_tombstoned (se_sender_account_id (in_stored x)) (ap_store s) \<Longrightarrow> \<not> in_self x \<Longrightarrow>
   wp_kind (in_payload x) = ''text'' \<Longrightarrow> dispatch_payload W E x s = receive_unverified W E x s"
  by (auto simp: dispatch_payload_def await_def view_def is_control_def Let_def)

end
