(* ===== verification/App_Expiry.thy ===== *)
theory App_Expiry
  imports App_Safety
begin

text \<open>
  Requests that are never answered (\<open>expire_background_requests\<close> of \<open>crates/client/src/app.rs\<close>): the loop over
  the expired requests, in terms of the requests there were before it.
\<close>

section \<open>The loop\<close>

lemma delete_filter: "AList.delete i xs = filter (\<lambda>r. i \<noteq> fst r) xs"
  by (induction xs) auto

lemma expire_one_frame:
  "ap_background_requests (expire_one now i s) = filter (\<lambda>r. i \<noteq> fst r) (ap_background_requests s)"
  "ap_background_deadlines (expire_one now i s) = filter (\<lambda>r. i \<noteq> fst r) (ap_background_deadlines s)"
  by (auto simp: Let_def delete_filter split: option.split BackgroundRequest.split)

lemma expired_all:
  "ap_background_requests (fold (expire_one now) is s) = filter (\<lambda>r. fst r \<notin> set is) (ap_background_requests s)"
  "ap_background_deadlines (fold (expire_one now) is s) = filter (\<lambda>r. fst r \<notin> set is) (ap_background_deadlines s)"
  by (induction "is" arbitrary: s) (auto simp: expire_one_frame simp del: expire_one.simps intro!: filter_cong)

lemma map_fst_filter: "map fst (filter (\<lambda>r. fst r \<notin> A) xs) = filter (\<lambda>i. i \<notin> A) (map fst xs)"
  by (simp add: filter_map comp_def)

lemma map_of_filter_key: "k \<noteq> i \<Longrightarrow> map_of (filter (\<lambda>r. i \<noteq> fst r) xs) k = map_of xs k"
  by (induction xs) auto

lemma sync_stays_off: "\<not> ap_sync_in_flight s \<Longrightarrow> \<not> ap_sync_in_flight (fold (expire_one now) is s)"
  by (induction "is" arbitrary: s) (auto simp: Let_def split: option.splits BackgroundRequest.splits)

lemma sync_switched_off:
  "i \<in> set is \<Longrightarrow> map_of (ap_background_requests s) i = Some BgSync \<Longrightarrow>
   \<not> ap_sync_in_flight (fold (expire_one now) is s)"
proof (induction "is" arbitrary: s)
  case (Cons j "is")
  show ?case
  proof (cases "i = j")
    case True
    with Cons.prems have "\<not> ap_sync_in_flight (expire_one now j s)" by (simp add: Let_def)
    then show ?thesis by (simp add: sync_stays_off del: expire_one.simps)
  next
    case False
    with Cons.prems have "map_of (ap_background_requests (expire_one now j s)) i = Some BgSync" "i \<in> set is"
      by (simp_all add: expire_one_frame map_of_filter_key del: expire_one.simps)
    with Cons.IH show ?thesis by (simp del: expire_one.simps)
  qed
qed simp

lemma retry_kept:
  "map_of (ap_outbox_retry_after s) l = Some (now + 30000) \<Longrightarrow>
   map_of (ap_outbox_retry_after (fold (expire_one now) is s)) l = Some (now + 30000)"
  by (induction "is" arbitrary: s)
    (auto simp: Let_def AList.update_conv' split: option.splits BackgroundRequest.splits)

lemma retry_set:
  "i \<in> set is \<Longrightarrow> map_of (ap_background_requests s) i = Some (BgOutbox l) \<Longrightarrow>
   map_of (ap_outbox_retry_after (fold (expire_one now) is s)) l = Some (now + 30000)"
proof (induction "is" arbitrary: s)
  case (Cons j "is")
  show ?case
  proof (cases "i = j")
    case True
    with Cons.prems have "map_of (ap_outbox_retry_after (expire_one now j s)) l = Some (now + 30000)"
      by (simp add: Let_def AList.update_conv')
    then show ?thesis by (simp add: retry_kept del: expire_one.simps)
  next
    case False
    with Cons.prems have "map_of (ap_background_requests (expire_one now j s)) i = Some (BgOutbox l)" "i \<in> set is"
      by (simp_all add: expire_one_frame map_of_filter_key del: expire_one.simps)
    with Cons.IH show ?thesis by (simp del: expire_one.simps)
  qed
qed simp

section \<open>Expiry\<close>

lemma expire_eq:
  "expire_background_requests W s = (Inr (), fold (expire_one (instant_at W (ap_clock s)))
     (expired_requests (instant_at W (ap_clock s)) s) (tick s))"
  by (simp add: expire_background_requests_def await_def instant_now_def update_def expired_requests_def tick_def)

lemma expired_iff:
  "distinct (map fst (ap_background_deadlines s)) \<Longrightarrow> (i, t) \<in> set (ap_background_deadlines s) \<Longrightarrow>
   i \<in> set (expired_requests now s) \<longleftrightarrow> t \<le> now"
  by (auto simp: expired_requests_def image_iff dest: eq_key_imp_eq_value)

end
