(* ===== verification/App_Mail_Properties.thy ===== *)
theory App_Mail_Properties
  imports App_Mail App_Sending App_Quarantine App_Expiry App_Properties
begin

text \<open>
  The properties of the mail of the client: what is acknowledged, whom a text goes to, where the mail of an
  unverified sender ends, and when a request that is not answered is given up. The witnesses run a client
  that has a session with another own device and with a device of a contact.
\<close>

section \<open>A client with sessions\<close>

definition mail_device :: "u8 \<Rightarrow> string \<Rightarrow> string \<Rightarrow> DeviceBundle" where
  "mail_device m account device = \<lparr>db_device_id = device, db_device_name = [], db_auth_signing_key = [1],
     db_olm_ed25519_key = [2], db_olm_curve25519_key = replicate 32 3,
     db_certificate_signature = model_sign (replicate 32 m)
       (device_certificate_payload account device [1] [2] (replicate 32 3)), db_revoked = False\<rparr>"

definition mail_bundle :: "u8 \<Rightarrow> string \<Rightarrow> string \<Rightarrow> string list \<Rightarrow> UserBundle_msg" where
  "mail_bundle m account name devices = \<lparr>ub_account_id = account, ub_username = name,
     ub_account_master_key = replicate 32 m, ub_roster_revision = 1,
     ub_devices = map (mail_device m account) devices\<rparr>"

lemma mail_device_ok [simp]: "verify_device_bundle model_crypto (replicate 32 m) account (mail_device m account device) = ok ()"
  by (simp add: verify_device_bundle_def mail_device_def model_crypto_def model_sign_def)

lemma mail_device_simps [simp]:
  "db_device_id (mail_device m a d) = d" "db_revoked (mail_device m a d) = False"
  "db_olm_curve25519_key (mail_device m a d) = replicate 32 3"
  by (simp_all add: mail_device_def)

definition own_bundle :: "u8 \<Rightarrow> string \<Rightarrow> UserBundle_msg" where
  "own_bundle m account = mail_bundle m account ''ann'' [''dev'', ''dev2'']"

definition bob_bundle :: UserBundle_msg where
  "bob_bundle = mail_bundle 9 ''acc-b'' ''bob'' [''devb'']"

definition mail_machine :: "(nat, nat) OlmMachine" where
  "mail_machine = \<lparr>om_account = 7, om_sessions = [''dev2'' \<mapsto> [5], ''devb'' \<mapsto> [6]]\<rparr>"

definition mail_pickle :: "(nat, nat) MachinePickleV2" where
  "mail_pickle = \<lparr>mp2_account = 7, mp2_sessions = [''dev2'' \<mapsto> [5], ''devb'' \<mapsto> [6]]\<rparr>"

definition mail_payload :: WirePayload where
  "mail_payload = \<lparr>wp_version = 2, wp_kind = ''text'', wp_message_id = ''u'', wp_sender_username = ''ann'',
     wp_sender_account_id = ''acc'', wp_peer_account_id = ''acc-b'', wp_peer_username = ''bob'',
     wp_sent_at_ms = 2, wp_text = ''hi'', wp_related_message_id = None, wp_related_message_ids = []\<rparr>"

definition reauth_notice :: NotificationData where
  "reauth_notice = ChatRequestNotice \<lparr>rd_outgoing = False, rd_request_id = ''reauth-acc-b'',
     rd_sender_account_id = ''acc-b'', rd_sender_username = ''ann'', rd_sender_device_id = ''dev2'',
     rd_sender_bundle = [3]\<rparr>"

definition mail_packages :: "(nat, nat, nat, nat) local_packages" where
  "mail_packages = sample_packages\<lparr>
     machine_json := (\<lambda>p. if p = mail_pickle then ok [1] else bail ''x''),
     machine_unjson := (\<lambda>e. if e = [1] then ok mail_pickle else bail ''x''),
     notice_json := (\<lambda>n. if n = reauth_notice then ok [4] else bail ''x''),
     notice_unjson := (\<lambda>e. if e = [4] then ok reauth_notice else bail ''x'')\<rparr>"


definition mail_env :: "(nat, nat, nat, nat) env" where
  "mail_env = sample_env\<lparr>en_packages := mail_packages,
     wire_json := (\<lambda>p. if p = mail_payload then ok [9] else bail ''x''),
     wire_unjson := (\<lambda>b. if b = [9] then ok mail_payload else bail ''x'')\<rparr>"

text \<open>A client to whom the server has given a bundle with this master key and account for its own user name.\<close>

definition client :: "u8 \<Rightarrow> string \<Rightarrow> (nat, nat) app" where
  "client m account = sample_app\<lparr>ap_profile := sample_profile\<lparr>rp_machine := mail_machine\<rparr>,
     ap_contacts := [\<lparr>ct_bundle = bob_bundle, ct_verified = True, ct_identity_changed = False,
       ct_unread_count = 0, ct_last_activity_ms = 0\<rparr>],
     ap_bundle_cache := [(''ann'', own_bundle m account, 0), (''bob'', bob_bundle, 0)]\<rparr>"

abbreviation mail_app :: "(nat, nat) app" where
  "mail_app \<equiv> client 1 ''acc''"

definition own_envelope :: EncryptedEnvelope where
  "own_envelope = \<lparr>env_envelope_id = ''e'', env_logical_message_id = ''u'', env_conversation_id = ''acc-b'',
     env_recipient_account_id = ''acc'', env_recipient_device_id = ''dev'', env_ciphertext = [5, 9],
     env_olm_message_type = 1, env_client_sent_at_ms = 2\<rparr>"

definition own_mail :: StoredEnvelope where
  "own_mail = \<lparr>se_cursor = 1, se_sender_account_id = ''acc'', se_sender_device_id = ''dev2'',
     se_envelope = Some own_envelope, se_accepted_at_ms = 3, se_sender_username = ''ann''\<rparr>"

lemma mail_packages_simps [simp]:
  "lp_olm mail_packages = toy_olm" "lp_crypto mail_packages = model_crypto"
  "bundle_encode mail_packages b = [3]" "machine_unjson mail_packages e = (if e = [1] then ok mail_pickle else bail ''x'')"
  by (simp_all add: mail_packages_def sample_packages_def)

lemma mail_env_simps [simp]:
  "en_packages mail_env = mail_packages" "wire_json mail_env mail_payload = ok [9]" "wire_unjson mail_env [9] = ok mail_payload"
  by (simp_all add: mail_env_def)

lemma mail_to_bytes [simp]: "machine_to_bytes toy_olm (machine_json mail_packages) mail_machine = ok (as_bytes ''TCM3'' @ [1])"
  by (simp add: machine_to_bytes_def mail_packages_def mail_machine_def mail_pickle_def toy_olm_def fun_eq_iff)

lemma mail_from_bytes [simp]:
  "machine_from_bytes toy_olm (machine_unjson mail_packages) v1 (as_bytes ''TCM3'' @ [1]) = ok mail_machine"
  unfolding machine_from_bytes_def strip_prefix_append
  by (simp add: from_pickle_v2_def mail_machine_def mail_pickle_def toy_olm_def fun_eq_iff)

lemma mail_copy: "rp_machine (ap_profile s) = mail_machine \<Longrightarrow> copy_machine mail_env s = ok mail_machine"
  by (simp add: copy_machine_def)

lemma mail_encode_profile: "\<exists>blob. encode_profile mail_packages sample_nonce sample_vault (ap_profile mail_app) = ok blob"
  by (simp add: encode_profile_def client_def sample_app_def new_app_def sample_profile_def)
    (simp add: identity_to_bytes_def session_encrypt_def
      vault_encrypt_def sample_identity_def toy_postcard_def mail_packages_def sample_packages_def
      sample_vault_def sample_stored_def model_crypto_def)

definition opened_by :: "u8 \<Rightarrow> string \<Rightarrow> (nat, nat) incoming" where
  "opened_by m account = \<lparr>in_stored = own_mail, in_envelope = own_envelope, in_bundle = own_bundle m account,
     in_self = True, in_verified = True, in_payload = mail_payload, in_machine = mail_machine\<rparr>"

abbreviation opened_mail :: "(nat, nat) incoming" where
  "opened_mail \<equiv> opened_by 1 ''acc''"

lemma own_bundle_ok: "validate_bundle model_crypto (own_bundle m a) = Inr ()"
  by (simp add: validate_bundle_def own_bundle_def mail_bundle_def active_devices_def)

lemma tick_simps [simp]:
  "ap_selected (tick s) = ap_selected s" "ap_sent (tick s) = ap_sent s" "ap_store (tick s) = ap_store s"
  "ap_selected (set_machine m s) = ap_selected s" "ap_sent (set_machine m s) = ap_sent s"
  by (simp_all add: tick_def set_machine_def)

lemma sample_outside_simps [simp]:
  "random_at sample_outside k i = sample_nonce" "writer_open_at sample_outside k"
  by (simp_all add: sample_outside_def)

lemma mail_lookup:
  "lookup_bundle sample_outside ''ann'' (client m a) = (Inr (own_bundle m a), tick (client m a))"
  by (simp add: lookup_bundle_def client_def await_def instant_now_def finish_def sample_app_def new_app_def
      sample_outside_def)

lemma mail_decrypt:
  "decrypt_with mail_env mail_machine own_mail own_envelope (mail_device m a ''dev2'') s = (Inr ([9], mail_machine), s)"
  by (simp add: decrypt_with_def machine_decrypt_def own_mail_def own_envelope_def finish_def mail_machine_def toy_olm_def fun_eq_iff)

lemma mail_app_simps [simp]:
  "own_account (tick (client m a)) = ''acc''" "rp_machine (ap_profile (tick (client m a))) = mail_machine"
  by (simp_all add: tick_def own_account_def client_def sample_app_def new_app_def sample_profile_def)

lemma opened: "open_envelope sample_outside mail_env own_mail (client m a) = (Inr (opened_by m a), tick (client m a))"
proof -
  have st: "se_envelope own_mail = Some own_envelope" "se_sender_username own_mail = ''ann''"
    "se_sender_account_id own_mail = ''acc''" "se_sender_device_id own_mail = ''dev2''"
    "env_logical_message_id own_envelope = ''u''" "env_client_sent_at_ms own_envelope = 2"
    by (simp_all add: own_mail_def own_envelope_def)
  have b: "find (\<lambda>d. db_device_id d = ''dev2'' \<and> \<not> db_revoked d) (ub_devices (own_bundle m a)) = Some (mail_device m a ''dev2'')"
    "ub_account_master_key (own_bundle m a) = replicate 32 m" "ub_account_id (own_bundle m a) = a"
    by (simp_all add: own_bundle_def mail_bundle_def)
  have w: "wire_metadata_matches mail_payload ''acc'' ''ann'' ''u'' 2"
    by (simp add: wire_metadata_matches_def mail_payload_def)
  show ?thesis
    unfolding open_envelope_def
    by (simp add: await_def st b w mail_lookup mail_decrypt mail_copy own_bundle_ok some_or_raise_def finish_def
        view_def lift_app_def require_that_def lift_def opened_by_def)
qed

lemma mail_encode_message: "encode_message mail_packages sample_nonce sample_vault m = ok
    (blob_to_bytes \<lparr>blob_version = 2, blob_salt = replicate 16 0, blob_nonce = sample_nonce,
       blob_ciphertext = of_nat (length (message_aad (cm_id m))) # message_aad (cm_id m) @ as_bytes (cm_body m)\<rparr>)"
  by (simp add: encode_message_def session_encrypt_def vault_encrypt_def sample_vault_def model_crypto_def)

lemma mail_committed:
  "\<exists>d. commit_inbound mail_packages now (sample_nonce, sample_nonce) sample_vault (ap_profile mail_app)
     (received_message opened_mail) 1 (ap_store mail_app) = ok d"
proof -
  obtain blob where "encode_profile mail_packages sample_nonce sample_vault (ap_profile mail_app) = ok blob"
    using mail_encode_profile by blast
  then show ?thesis
    by (simp add: commit_inbound_def mail_encode_message insert_message_def summary_insert_def row_of_message_def
        client_def sample_app_def new_app_def sample_db_def sample_store_def empty_store_def upsert_profile_def
        set_envelope_cursor_def received_message_def opened_by_def own_mail_def own_envelope_def mail_payload_def
        sample_message_def)
qed

lemma mail_dispatched:
  "\<exists>s'. dispatch_payload sample_outside mail_env opened_mail (tick mail_app) = (Inr (), s')
     \<and> ap_sent s' = [mk_frame [] (AckEnvelope \<lparr>ack_envelope_id = ''e'', ack_cursor = 1\<rparr>)]"
proof -
  let ?t = "set_machine mail_machine (tick (tick (tick mail_app)))"
  have same: "ap_profile ?t = ap_profile mail_app" "ap_selected mail_app = None" "ap_sent mail_app = []"
    "ap_vault (tick mail_app) = sample_vault" "lo_tombstones (ap_store mail_app) = []"
    by (simp_all add: tick_def set_machine_def client_def sample_app_def new_app_def sample_profile_def sample_db_def
        sample_store_def empty_store_def)
  obtain d where d: "commit_inbound mail_packages 1 (sample_nonce, sample_nonce) sample_vault (ap_profile mail_app)
     (received_message opened_mail) 1 (ap_store mail_app) = ok d"
    using mail_committed by blast
  have x: "in_self opened_mail" "in_verified opened_mail" "wp_kind (in_payload opened_mail) = ''text''"
    "wp_text (in_payload opened_mail) = ''hi''" "in_machine opened_mail = mail_machine"
    "se_cursor (in_stored opened_mail) = 1" "env_envelope_id (in_envelope opened_mail) = ''e''"
    by (simp_all add: opened_by_def mail_payload_def own_mail_def own_envelope_def)
  have clock: "now_ms_at sample_outside (ap_clock (tick mail_app)) = 1"
    by (simp_all add: sample_outside_def tick_def client_def sample_app_def new_app_def)
  show ?thesis
    by (simp add: dispatch_payload_def x same d clock receive_text_def commit_and_ack_def commit_machine_eq await_def
        view_def require_that_def finish_def conversation_tombstoned_def count_where_def Let_def is_control_def
        MAX_TEXT_BYTES_def ack_envelope_def notify_def send_frame_def selected_contact_def)
qed

text \<open>
  C27. Acknowledged mail is stored. What the client acknowledges while it handles a batch lies after the cursor
  of the store before and not after the cursor of the store then, whatever the server sends and wherever the batch
  fails: the server is told to forget only envelopes whose effect is committed.
\<close>

theorem acknowledged_mail_is_stored:
  assumes "handle_sync_batch W E b s = (r, s')" and "a \<in> set (acks s s')"
  shows "envelope_cursor s < ack_cursor a \<and> ack_cursor a \<le> envelope_cursor s'"
  using sync_batch_within [of s W E b] assms by (simp add: acked_within_def)


definition mail_batch :: SyncBatch_msg where
  "mail_batch = \<lparr>sb_envelopes = [own_mail], sb_next_cursor = 1, sb_has_more = False, sb_delivery_updates = [],
     sb_next_status_cursor = 0\<rparr>"

theorem acknowledged_mail_is_stored_witness:
  "\<exists>r s'. handle_sync_batch sample_outside mail_env mail_batch mail_app = (r, s') \<and>
     \<lparr>ack_envelope_id = ''e'', ack_cursor = 1\<rparr> \<in> set (acks mail_app s') \<and>
     envelope_cursor mail_app < 1 \<and> 1 \<le> envelope_cursor s'"
proof -
  obtain s1 where s1: "dispatch_payload sample_outside mail_env opened_mail (tick mail_app) = (Inr (), s1)"
      "ap_sent s1 = [mk_frame [] (AckEnvelope \<lparr>ack_envelope_id = ''e'', ack_cursor = 1\<rparr>)]"
    using mail_dispatched by blast
  have m: "cursors (ap_store mail_app) = (0, 0)" "se_cursor own_mail = 1" "ap_sent mail_app = []"
    by (simp_all add: client_def sample_app_def new_app_def cursors_def sample_db_def sample_store_def
      empty_store_def own_mail_def)
  obtain r s' where s': "handle_sync_batch sample_outside mail_env mail_batch mail_app = (r, s')" by fastforce
  then have "ap_sent s' = ap_sent s1"
    by (auto simp: handle_sync_batch_def mail_batch_def await_def view_def finish_def m receive_envelope_def opened s1
       store_run_def update_def refresh_contacts_preserve_selection_def store_get_def lift_def raise_def split: sum.splits prod.splits)
  then have "\<lparr>ack_envelope_id = ''e'', ack_cursor = 1\<rparr> \<in> set (acks mail_app s')"
    by (simp add: acks_def new_frames_def m s1 mk_frame_def ack_of_def map_filter_def)
  with acknowledged_mail_is_stored [OF s' this] s' show ?thesis by force
qed


section \<open>Whom a text goes to\<close>

text \<open>
  C26. A text reaches exactly the certified devices of a verified contact and of the own account. Every batch of
  envelopes that sending a text hands to the connection, and every batch that it leaves in the outbox, is for
  the selected contact, whom the user has verified and whose master key has not changed: one envelope for each
  device of the contact's bundle that is not revoked, in its order, then one for each device that is not revoked
  and is another one than this device, of the bundle that the look-up of the own name gave, whose master key is
  the own one. Each of these devices has a certificate by the master key of its account. Whatever the
  server answers on the way, no envelope is for anybody else, and none is missing.
\<close>

theorem texts_reach_certified_devices_only:
  assumes "send_text W E txt s = (r, s')"
  shows "(\<forall>f \<in> set (new_frames s s'). \<forall>es. frame_body f = Some (SendEnvelopes es) \<longrightarrow> addressed W E s es)
    \<and> (\<forall>row \<in> set (lo_outbox (ap_store s')). row \<in> set (lo_outbox (ap_store s)) \<or>
        (\<exists>i es. ob_encoded_frame row = encode_frame (frame_to_vec E) (mk_frame i (SendEnvelopes es)) \<and> addressed W E s es))"
  using text_mails [where W = W and E = E and s = s] assms unfolding leads_def mails_def by (metis snd_conv)

definition texting :: "(nat, nat) app" where
  "texting = mail_app\<lparr>ap_selected := Some 0\<rparr>"

lemma texting_simps [simp]:
  "selected_contact texting = Some \<lparr>ct_bundle = bob_bundle, ct_verified = True, ct_identity_changed = False,
     ct_unread_count = 0, ct_last_activity_ms = 0\<rparr>"
  "ap_profile texting = ap_profile mail_app" "ap_store texting = ap_store mail_app" "ap_vault texting = sample_vault"
  "ap_sent texting = []" "ap_background_requests texting = []" "ap_clock texting = 0"
  "own_account texting = ''acc''" "own_device_id texting = ''dev''" "own_master mail_env texting = replicate 32 1"
  by (simp_all add: texting_def selected_contact_def list_get_def client_def sample_app_def new_app_def own_account_def
      own_device_id_def own_master_def sample_profile_def sample_identity_def master_public_key_def model_crypto_def
      pad_to_def)

lemma text_targets: "devices_of bob_bundle @ map (tg_account_id_update (\<lambda>_. ''acc'')) (other_devices ''dev'' (own_bundle 1 ''acc'')) =
   [\<lparr>tg_account_id = ''acc-b'', tg_master = replicate 32 9, tg_device = mail_device 9 ''acc-b'' ''devb''\<rparr>,
    \<lparr>tg_account_id = ''acc'', tg_master = replicate 32 1, tg_device = mail_device 1 ''acc'' ''dev2''\<rparr>]"
  by (simp add: devices_of_def other_devices_def active_devices_def bob_bundle_def own_bundle_def mail_bundle_def)

lemma text_lookup:
  "lookup_bundle sample_outside (rp_username (ap_profile mail_app)) texting = (Inr (own_bundle 1 ''acc''), tick texting)"
  by (simp add: lookup_bundle_def texting_def client_def await_def instant_now_def finish_def sample_app_def new_app_def
      sample_outside_def sample_profile_def)

lemma text_sealed:
  "\<exists>es s'. seal_for sample_outside mail_env og [9] (devices_of bob_bundle @ map (tg_account_id_update (\<lambda>_. ''acc'')) (other_devices ''dev'' (own_bundle 1 ''acc'')))
     ([], mail_machine) s = (Inr (es, mail_machine), s') \<and> es \<noteq> [] \<and> s' = tick (tick s)"
  unfolding text_targets
  by (simp add: await_def lift_def finish_def encrypt_for_def has_session_def mail_machine_def run_machine_def
      encrypt_existing_def encrypt_last_def toy_olm_def new_uuid_def fun_eq_iff)

lemma text_committed:
  "cm_peer_account_id m = ''acc-b'' \<Longrightarrow> cm_id m = ''u'' \<Longrightarrow>
   \<exists>d. commit_outgoing mail_packages now (sample_nonce, sample_nonce) sample_vault (ap_profile mail_app) m frame
     (ap_store mail_app) = ok d"
proof -
  obtain blob where "encode_profile mail_packages sample_nonce sample_vault (ap_profile mail_app) = ok blob"
    using mail_encode_profile by blast
  then show "cm_peer_account_id m = ''acc-b'' \<Longrightarrow> cm_id m = ''u'' \<Longrightarrow> ?thesis"
    by (simp add: commit_outgoing_def mail_encode_message insert_message_def summary_insert_def row_of_message_def
        client_def sample_app_def new_app_def sample_db_def sample_store_def empty_store_def upsert_profile_def
        sample_message_def)
qed

lemma text_sent:
  assumes sent: "send_text sample_outside mail_env ''hi'' texting = (r, s')"
  shows "\<exists>es. mk_frame ''u'' (SendEnvelopes es) \<in> set (ap_sent s')"
proof -
  let ?t = "tick (tick (tick texting))"
  have t: "ap_profile (tick s) = ap_profile s" "own_account (tick s) = own_account s" "own_device_id (tick s) = own_device_id s"
    "own_master E (tick s) = own_master E s" "ap_vault (tick s) = ap_vault s" "ap_clock (tick s) = Suc (ap_clock s)"
    "text_payload (tick s) = text_payload s" "conversation_with E (tick s) = conversation_with E s"
    "rp_username (ap_profile mail_app) = ''ann''" "ap_background_requests (tick s) = ap_background_requests s"
    "ap_background_requests (set_machine m s) = ap_background_requests s"
    "ap_profile (set_machine mail_machine texting) = ap_profile mail_app" "ap_profile (set_machine m (tick s)) = ap_profile (set_machine m s)"
    "ap_vault (set_machine m s) = ap_vault s" "ap_clock (set_machine m s) = ap_clock s" for s :: "(nat, nat) app" and m E
    by (simp_all add: tick_def own_account_def own_device_id_def own_master_def text_payload_def conversation_with_def fun_eq_iff
        set_machine_def client_def sample_app_def new_app_def sample_profile_def texting_def)
  let ?og = "\<lparr>og_logical_id = ''u'', og_conversation_id = conversation_with mail_env texting ''acc-b'', og_sent_at_ms = 2\<rparr>"
  obtain es where es: "seal_for sample_outside mail_env ?og [9] (devices_of bob_bundle @ map (tg_account_id_update (\<lambda>_. ''acc'')) (other_devices ''dev'' (own_bundle 1 ''acc'')))
     ([], mail_machine) ?t = (Inr (es, mail_machine), tick (tick ?t))" "es \<noteq> []"
    using text_sealed by blast
  have w: "lookup_bundle sample_outside ''ann'' texting = (Inr (own_bundle 1 ''acc''), tick texting)"
      "validate_bundle model_crypto bob_bundle = Inr ()" "ub_account_master_key (own_bundle 1 ''acc'') = replicate 32 1"
      "text_payload texting bob_bundle ''u'' 2 ''hi'' = mail_payload" "copy_machine mail_env ?t = ok mail_machine"
      "contact_account \<lparr>ct_bundle = bob_bundle, ct_verified = True, ct_identity_changed = False,
        ct_unread_count = 0, ct_last_activity_ms = 0\<rparr> = ''acc-b''"
      "now_ms_at sample_outside k = int k" "uuid_at sample_outside k = ''u''" for k
    by (simp_all add: lookup_bundle_def texting_def client_def await_def instant_now_def finish_def sample_app_def
        new_app_def sample_outside_def validate_bundle_def bob_bundle_def own_bundle_def mail_bundle_def active_devices_def
        text_payload_def mail_payload_def own_account_def sample_profile_def contact_account_def tick_def mail_copy)
  define msg where "msg = \<lparr>cm_id = ''u'', cm_conversation_id = conversation_with mail_env texting ''acc-b'',
    cm_peer_account_id = ''acc-b'', cm_sender_account_id = ''acc'', cm_body = ''hi'', cm_sent_at_ms = 2, cm_status = Sending,
    cm_inbound = False\<rparr>"
  obtain d where d: "commit_outgoing mail_packages 6 (sample_nonce, sample_nonce) sample_vault (ap_profile mail_app) msg
     (encode_frame (frame_to_vec mail_env) (mk_frame ''u'' (SendEnvelopes es))) (ap_store mail_app) = ok d"
    using text_committed [of msg] by (auto simp: msg_def)
  let ?rest = "\<lambda>sent. await (case sent of Inl _ \<Rightarrow> connection_lost sample_outside | Inr _ \<Rightarrow> finish ()) (\<lambda>_.
     await (view ap_vault) (\<lambda>v. await (now_ms sample_outside) (\<lambda>now. await (random_bytes sample_outside) (\<lambda>nonces.
     await (store_try (save_draft mail_packages now (nonces 0) v (conversation_with mail_env texting ''acc-b'') [])) (\<lambda>_.
     await (update (\<lambda>s. s\<lparr>ap_persisted_draft := []\<rparr>)) (\<lambda>_. refresh_contacts_preserve_selection mail_env))))))"
  obtain s0 :: "(nat, nat) app" where s0: "ap_background_requests s0 = []"
      "await (outcome (dispatch_background sample_outside (mk_frame ''u'' (SendEnvelopes es)) (BgOutbox ''u''))) ?rest s0 = (r, s')"
  proof -
    let ?s0 = "scroll_messages_to_bottom ((set_machine mail_machine (tick (tick (tick (tick (tick (tick (tick (tick texting)))))))))
      \<lparr>ap_store := d, ap_messages := ap_messages texting @ [msg]\<rparr>)"
    have "ap_messages (set_machine m s) = ap_messages s" "ap_messages (tick s) = ap_messages s" for s :: "(nat, nat) app" and m
      by (simp_all add: set_machine_def tick_def)
    then have "await (outcome (dispatch_background sample_outside (mk_frame ''u'' (SendEnvelopes es)) (BgOutbox ''u''))) ?rest ?s0 = (r, s')"
      using sent
      by (simp add: send_text_def await_def [of "require_that _ _"] await_def [of "view _"] await_def [of "some_or_raise _ _"]
          await_def [of "lift_app _"] await_def [of "lift _"] await_def [of "lookup_bundle _ _"] await_def [of "new_uuid _"]
          await_def [of "now_ms _"] await_def [of "seal_for _ _ _ _ _ _"] await_def [of "commit_machine _ _ _"]
          await_def [of "update _"] await_def [of "finish _"] view_def require_that_def finish_def some_or_raise_def
          lift_def lift_app_def t w es MAX_TEXT_BYTES_def new_uuid_def now_ms_def commit_machine_eq Let_def
          msg_def [symmetric] d update_def)
    then show thesis by (rule that [rotated]) (simp add: scroll_messages_to_bottom_def t)
  qed
  obtain s1 where s1: "dispatch_background sample_outside (mk_frame ''u'' (SendEnvelopes es)) (BgOutbox ''u'') s0 = (Inr (), s1)"
      "mk_frame ''u'' (SendEnvelopes es) \<in> set (ap_sent s1)"
    using s0(1) by (simp add: dispatch_background_def await_def has_request_def mk_frame_def finish_def send_frame_def
        instant_now_def update_def register_request_def)
  have "leads (mails mail_env (\<lambda>_. True)) s1 (?rest (Inr ()) s1)"
    by (intro mailing.leads_await mailing.leads_view mails_lost mails_draft mails_refresh mails_random
        mails_asks [OF asks_outside(1)] mails_update) simp_all
  with s0(2) s1 have "sends s1 s'" by (simp add: await_def [of "outcome _"] outcome_def leads_def mails_def)
  with s1(2) show ?thesis by (auto simp: sends_def)
qed

theorem texts_reach_certified_devices_only_witness:
  "\<exists>r s' es. send_text sample_outside mail_env ''hi'' texting = (r, s') \<and>
     mk_frame ''u'' (SendEnvelopes es) \<in> set (new_frames texting s') \<and>
     map addressee es = [(''acc-b'', ''devb''), (''acc'', ''dev2'')]"
proof -
  obtain r s' where e: "send_text sample_outside mail_env ''hi'' texting = (r, s')" by fastforce
  then obtain es where es: "mk_frame ''u'' (SendEnvelopes es) \<in> set (new_frames texting s')"
    using text_sent by (auto simp: new_frames_def)
  then have "addressed sample_outside mail_env texting es"
    using texts_reach_certified_devices_only [OF e] by (force simp: mk_frame_def)
  then have "map addressee es = [(''acc-b'', ''devb''), (''acc'', ''dev2'')]"
    by (simp add: addressed_def Let_def text_lookup) (simp add: bob_bundle_def own_bundle_def mail_bundle_def)
  with e es show ?thesis by (intro exI conjI)
qed

section \<open>Mail of an unverified sender\<close>


definition shelf_payload :: WirePayload where
  "shelf_payload = mail_payload\<lparr>wp_sender_account_id := ''acc-b'', wp_peer_account_id := ''acc''\<rparr>"


definition shelf_env :: "(nat, nat, nat, nat) env" where
  "shelf_env = mail_env\<lparr>wire_unjson := \<lambda>_. ok shelf_payload\<rparr>"


abbreviation shelf_app :: "(nat, nat) app" where
  "shelf_app \<equiv> client 9 ''acc-b''"

definition shelf_contact :: contact_row where
  "shelf_contact = sample_contact\<lparr>cr_username := ''ann''\<rparr>"

definition shelf_open :: "(nat, nat) app" where
  "shelf_open = (tick (tick shelf_app))\<lparr>ap_store := (ap_store shelf_app)\<lparr>lo_contacts := [shelf_contact]\<rparr>\<rparr>"

lemma shelf_env_simps [simp]:
  "en_packages shelf_env = mail_packages" "wire_unjson shelf_env b = ok shelf_payload"
  by (simp_all add: shelf_env_def)







lemma shelf_open_simps [simp]:
  "ap_messages shelf_open = []" "lo_notifications (ap_store shelf_open) = []" "own_account shelf_open = ''acc''"
  "ap_clock shelf_open = 2" "ap_vault shelf_open = sample_vault" "ap_profile shelf_open = ap_profile mail_app"
  by (simp_all add: shelf_open_def client_def sample_app_def new_app_def own_account_def sample_profile_def tick_def
      sample_db_def sample_store_def empty_store_def)



section \<open>Requests that are not answered\<close>

text \<open>
  C29. A request that is not answered does not block the client. Where requests and deadlines match, as they do in
  every reachable state, the periodic check forgets exactly the requests whose deadline has passed; when a
  synchronisation was among them the next one may start, and a message of the outbox is tried again after 30
  seconds.
\<close>

theorem unanswered_requests_end:
  assumes "expire_background_requests W s = (r, s')" and "now = instant_at W (ap_clock s)"
    and "distinct (map fst (ap_background_deadlines s))"
    and "map fst (ap_background_requests s) = map fst (ap_background_deadlines s)"
  shows "r = Inr ()
    \<and> ap_background_deadlines s' = filter (\<lambda>(i, t). now < t) (ap_background_deadlines s)
    \<and> map fst (ap_background_requests s') = map fst (ap_background_deadlines s')
    \<and> (\<forall>i t. (i, t) \<in> set (ap_background_deadlines s) \<and> t \<le> now \<longrightarrow> (case map_of (ap_background_requests s) i of
          Some BgSync \<Rightarrow> \<not> ap_sync_in_flight s'
        | Some (BgOutbox l) \<Rightarrow> map_of (ap_outbox_retry_after s') l = Some (now + 30000)
        | _ \<Rightarrow> True))"
proof (intro conjI)
  let ?is = "expired_requests now s"
  have s': "r = Inr ()" "s' = fold (expire_one now) ?is (tick s)"
    using assms(1,2) by (simp_all add: expire_eq)
  have same: "ap_background_requests (tick s) = ap_background_requests s"
    "ap_background_deadlines (tick s) = ap_background_deadlines s" by (simp_all add: tick_def)
  note key = expired_iff [OF assms(3)]
  show "r = Inr ()" by (rule s'(1))
  show "ap_background_deadlines s' = filter (\<lambda>(i, t). now < t) (ap_background_deadlines s)"
    unfolding s'(2) expired_all same by (rule filter_cong) (auto simp: key)
  show "map fst (ap_background_requests s') = map fst (ap_background_deadlines s')"
    unfolding s'(2) expired_all same map_fst_filter assms(4) by (rule refl)
  show "\<forall>i t. (i, t) \<in> set (ap_background_deadlines s) \<and> t \<le> now \<longrightarrow> (case map_of (ap_background_requests s) i of
      Some BgSync \<Rightarrow> \<not> ap_sync_in_flight s'
    | Some (BgOutbox l) \<Rightarrow> map_of (ap_outbox_retry_after s') l = Some (now + 30000)
    | _ \<Rightarrow> True)"
  proof (intro allI impI)
    fix i t
    assume "(i, t) \<in> set (ap_background_deadlines s) \<and> t \<le> now"
    then have "i \<in> set ?is" using key [of i t] by blast
    then show "case map_of (ap_background_requests s) i of Some BgSync \<Rightarrow> \<not> ap_sync_in_flight s'
        | Some (BgOutbox l) \<Rightarrow> map_of (ap_outbox_retry_after s') l = Some (now + 30000) | _ \<Rightarrow> True"
      using sync_switched_off [of i ?is "tick s" now] retry_set [of i ?is "tick s" _ now]
      unfolding s'(2) same by (simp split: option.split BackgroundRequest.split)
  qed
qed

definition waiting_app :: "(nat, nat) app" where
  "waiting_app = sample_app\<lparr>ap_background_requests := [(''r1'', BgSync), (''r2'', BgOutbox ''m''), (''r3'', BgDeviceList)],
     ap_background_deadlines := [(''r1'', -5), (''r2'', 0), (''r3'', 9)], ap_sync_in_flight := True\<rparr>"

theorem unanswered_requests_end_witness:
  "\<exists>s'. expire_background_requests sample_outside waiting_app = (Inr (), s') \<and>
     ap_background_deadlines s' = [(''r3'', 9)] \<and> map fst (ap_background_requests s') = [''r3''] \<and>
     \<not> ap_sync_in_flight s' \<and> map_of (ap_outbox_retry_after s') ''m'' = Some 30000"
proof -
  obtain r s' where e: "expire_background_requests sample_outside waiting_app = (r, s')" by fastforce
  have clock: "0 = instant_at sample_outside (ap_clock waiting_app)"
    by (simp add: waiting_app_def sample_app_def new_app_def sample_outside_def)
  have d: "distinct (map fst (ap_background_deadlines waiting_app))"
    "map fst (ap_background_requests waiting_app) = map fst (ap_background_deadlines waiting_app)"
    by (simp_all add: waiting_app_def)
  note fin = unanswered_requests_end [OF e clock d]
  then have "r = Inr ()" "ap_background_deadlines s' = [(''r3'', 9)]" "map fst (ap_background_requests s') = [''r3'']"
    by (simp_all add: waiting_app_def)
  moreover have "\<not> ap_sync_in_flight s'"
    using fin [THEN conjunct2, THEN conjunct2, THEN conjunct2, rule_format, of "''r1''" "-5"] by (simp add: waiting_app_def)
  moreover have "map_of (ap_outbox_retry_after s') ''m'' = Some 30000"
    using fin [THEN conjunct2, THEN conjunct2, THEN conjunct2, rule_format, of "''r2''" 0] by (simp add: waiting_app_def)
  ultimately show ?thesis using e by (intro exI [of _ s']) simp
qed

section \<open>Two weaknesses\<close>

text \<open>
  The client does not compare the bundle that the server returns for its own user name with its own account
  and master key: mail signed by a device of another account is taken as mail of an own device.
\<close>

lemma foreign_bundle_accepted:
  "open_envelope sample_outside mail_env own_mail (client 66 ''eve'') = (Inr (opened_by 66 ''eve''), tick (client 66 ''eve''))
   \<and> in_self (opened_by 66 ''eve'') \<and> ub_account_id (in_bundle (opened_by 66 ''eve'')) \<noteq> own_account (client 66 ''eve'')
   \<and> ub_account_master_key (in_bundle (opened_by 66 ''eve'')) \<noteq> own_master mail_env (client 66 ''eve'')"
  using opened [of 66 "''eve''"]
  by (simp add: opened_by_def own_bundle_def mail_bundle_def own_account_def own_master_def client_def sample_app_def
      new_app_def sample_profile_def sample_identity_def master_public_key_def model_crypto_def pad_to_def)

text \<open>
  A frame without a body that carries the identifier of the synchronisation request ends the request but
  not the synchronisation: no later synchronisation is sent while the connection lasts.
\<close>

lemma sync_can_stay_blocked:
  assumes "ap_background_requests s = [(i, BgSync)]" "i \<noteq> []" "ap_sync_in_flight s" "ap_connected s"
    and "frame_id f = i" "frame_body f = None"
  shows "\<exists>s'. handle_server_event W E f s = (Inr (), s') \<and> ap_background_requests s' = [] \<and> sync_now W s' = (Inr (), s')"
  using assms by (simp add: handle_server_event_def take_request_def await_def view_def update_def finish_def sync_now_def)

end
