(* ===== verification/Network.thy ===== *)
theory Network
  imports Config Protocol Local_Tables
begin

text \<open>
  The connection of the client (\<open>crates/client/src/network.rs\<close>): what is accepted as a server address and
  as a pin of the server's key, the verification of a pinned certificate, requests on the raw connection, and
  the RPC client, whose callers, writer task and reader task share the queues and the table of pending
  requests. The packages \<open>url\<close>, \<open>hex\<close>, \<open>rustls\<close>, \<open>x509_parser\<close> and \<open>tokio_tungstenite\<close> are arguments.
\<close>

section \<open>Server addresses\<close>

text \<open>What \<open>url::Url\<close> shows of a parsed address.\<close>

datatype url_host = Domain string | Address IpAddr

record url =
  url_scheme :: string
  url_username :: string
  url_password :: "string option"
  url_fragment :: "string option"
  url_host :: "url_host option"
  url_host_str :: "string option"
  url_path :: string

definition eq_ignore_ascii_case :: "string \<Rightarrow> string \<Rightarrow> bool" where
  "eq_ignore_ascii_case a b \<longleftrightarrow> to_ascii_lowercase a = to_ascii_lowercase b"

definition loopback_host :: "url_host option \<Rightarrow> bool" where
  "loopback_host h = (case h of
       Some (Domain d) \<Rightarrow> eq_ignore_ascii_case d ''localhost''
     | Some (Address ip) \<Rightarrow> is_loopback ip
     | None \<Rightarrow> False)"

definition validate_server_url :: "(string \<Rightarrow> url option) \<Rightarrow> string \<Rightarrow> url result" where
  "validate_server_url parse s =
     (case parse s of
        None \<Rightarrow> bail ''invalid WebSocket URL''
      | Some u \<Rightarrow>
          if url_username u \<noteq> [] \<or> url_password u \<noteq> None \<or> url_fragment u \<noteq> None
          then bail ''WebSocket URL must not contain credentials or a fragment''
          else if url_scheme u = ''wss'' then ok u
          else if url_scheme u = ''ws'' then
            (if loopback_host (url_host u) then ok u
             else bail ''refusing cleartext WebSocket outside an exact loopback host'')
          else bail ''server URL must use wss:// or loopback ws://'')"

section \<open>Pins\<close>

definition parse_pin :: "(string \<Rightarrow> bytes option) \<Rightarrow> string \<Rightarrow> bytes result" where
  "parse_pin hex_decode pin =
     (case hex_decode (trim pin) of
        None \<Rightarrow> bail ''SPKI pin must be hexadecimal''
      | Some b \<Rightarrow> if length b = 32 then ok b
          else bail ''SPKI pin must contain exactly 32 bytes (64 hex characters)'')"

text \<open>
  \<open>SpkiPinVerifier::verify_server_cert\<close>: \<open>inner\<close> is the verifier of \<open>rustls\<close> on the same certificate, \<open>spki\<close>
  the bytes that \<open>x509_parser\<close> finds in it.
\<close>

definition verify_server_cert :: "(bytes \<Rightarrow> bytes) \<Rightarrow> ('c \<Rightarrow> 'v result) \<Rightarrow> ('c \<Rightarrow> bytes option) \<Rightarrow> bytes \<Rightarrow> 'c \<Rightarrow> 'v result" where
  "verify_server_cert sha inner spki expected certificate =
     attempt (inner certificate) (\<lambda>verified.
     (case spki certificate of
        None \<Rightarrow> bail ''failed to parse server certificate for SPKI pinning''
      | Some raw \<Rightarrow> if sha raw \<noteq> expected then bail ''server certificate SPKI pin mismatch'' else ok verified))"

text \<open>
  The verifier of a connection: that of \<open>pinned_connector\<close> when there is a pin, otherwise the one of \<open>rustls\<close>
  that \<open>connect_async\<close> uses, with the same roots.
\<close>

definition pinned_connector :: "(bytes \<Rightarrow> bytes) \<Rightarrow> ('c \<Rightarrow> 'v result) \<Rightarrow> ('c \<Rightarrow> bytes option) \<Rightarrow> bytes option \<Rightarrow> 'c \<Rightarrow> 'v result" where
  "pinned_connector sha inner spki pin = (case pin of None \<Rightarrow> inner | Some expected \<Rightarrow> verify_server_cert sha inner spki expected)"

text \<open>\<open>RawConnection::connect\<close>: \<open>dial\<close> opens the socket, with the verifier of \<open>pinned_connector\<close> for the pin.\<close>

definition connect :: "(string \<Rightarrow> url option) \<Rightarrow> (string \<Rightarrow> bytes option) \<Rightarrow> (string \<Rightarrow> bytes option \<Rightarrow> 'k result) \<Rightarrow>
    string \<Rightarrow> string option \<Rightarrow> 'k result" where
  "connect parse hex_decode dial s spki_pin =
     attempt (validate_server_url parse s) (\<lambda>_.
     attempt (case spki_pin of None \<Rightarrow> ok None | Some pin \<Rightarrow> attempt (parse_pin hex_decode pin) (\<lambda>b. ok (Some b))) (\<lambda>pin.
     dial s pin))"

section \<open>Requests before the client is started\<close>

text \<open>
  What the socket yields, one element for each call of \<open>next\<close>; \<open>Elapsed\<close> stands for the 20 seconds of the
  timeout running out, the end of the list for the end of the stream.
\<close>

datatype arrival = BinaryMessage bytes | OtherMessage | SocketError failure | Elapsed

definition answer_of :: "Frame \<Rightarrow> Frame result" where
  "answer_of response = (case frame_body response of
       Some (ErrorFrame e) \<Rightarrow> bail (err_code e @ '': '' @ err_message e)
     | _ \<Rightarrow> ok response)"

fun await_answer :: "(bytes \<Rightarrow> string + Frame) \<Rightarrow> string \<Rightarrow> arrival list \<Rightarrow> Frame result \<times> arrival list" where
  "await_answer prost i [] = (bail ''server closed the connection'', [])"
| "await_answer prost i (Elapsed # rest) = (bail ''request timed out'', rest)"
| "await_answer prost i (SocketError e # rest) = (Inl e, rest)"
| "await_answer prost i (OtherMessage # rest) = await_answer prost i rest"
| "await_answer prost i (BinaryMessage dat # rest) =
     (case decode_frame prost dat of
        Inl e \<Rightarrow> (bail (codec_error_text e), rest)
      | Inr response \<Rightarrow>
          if frame_protocol_version response \<noteq> PROTOCOL_VERSION then (bail ''server protocol version mismatch'', rest)
          else if frame_id response = i then (answer_of response, rest)
          else await_answer prost i rest)"

section \<open>The RPC client\<close>

text \<open>
  A call of \<open>request_frame\<close> is numbered; its one-shot channel is empty, holds the answer, or has lost its
  sender. The sender of an empty channel lies in the table \<open>pending\<close>. The two queues are bounded.
\<close>

datatype slot = Empty | Full Frame | Gone

datatype progress = Queueing Frame | Awaiting | Returned "Frame result"

record call =
  cl_id :: string
  cl_progress :: progress

datatype reader = Reading | Reporting | Ended

record net =
  nt_calls :: "nat \<Rightarrow> call option"
  nt_slots :: "nat \<Rightarrow> slot"
  nt_pending :: "string \<Rightarrow> nat option"
  nt_out :: "Frame list"
  nt_wire :: "Frame list"
  nt_writer :: bool
  nt_reader :: reader
  nt_events :: "Frame list"
  nt_taken :: "Frame list"
  nt_received :: "(Frame \<times> nat option) list"

definition OUT_CAPACITY :: nat where
  "OUT_CAPACITY = 128"

definition EVENT_CAPACITY :: nat where
  "EVENT_CAPACITY = 256"

definition net_start :: net where
  "net_start = \<lparr>nt_calls = Map.empty, nt_slots = (\<lambda>_. Empty), nt_pending = Map.empty, nt_out = [], nt_wire = [],
     nt_writer = True, nt_reader = Reading, nt_events = [], nt_taken = [], nt_received = []\<rparr>"

definition connection_closed_frame :: Frame where
  "connection_closed_frame = mk_frame [] (ErrorFrame \<lparr>err_code = ''connection_closed'',
     err_message = ''connection closed'', err_retryable = True\<rparr>)"

text \<open>\<open>pending.remove(&id)\<close> of a caller, and what inserting under a used key does: the sender is dropped.\<close>

definition drop_sender :: "string \<Rightarrow> net \<Rightarrow> net" where
  "drop_sender i s = (case nt_pending s i of
       None \<Rightarrow> s
     | Some n \<Rightarrow> s\<lparr>nt_pending := (nt_pending s)(i := None), nt_slots := (nt_slots s)(n := Gone)\<rparr>)"

definition set_progress :: "nat \<Rightarrow> progress \<Rightarrow> net \<Rightarrow> net" where
  "set_progress n p s = s\<lparr>nt_calls := (nt_calls s)(n := map_option (\<lambda>c. c\<lparr>cl_progress := p\<rparr>) (nt_calls s n))\<rparr>"

text \<open>The start of \<open>request_frame\<close>: \<open>k\<close> is a new UUID.\<close>

definition with_id :: "string \<Rightarrow> Frame \<Rightarrow> Frame" where
  "with_id k f = (if frame_id f = [] then f\<lparr>frame_id := k\<rparr> else f)"

definition begin_call :: "nat \<Rightarrow> Frame \<Rightarrow> net \<Rightarrow> net" where
  "begin_call n f s = (let s' = drop_sender (frame_id f) s in
     s'\<lparr>nt_pending := (nt_pending s')(frame_id f \<mapsto> n),
        nt_calls := (nt_calls s')(n \<mapsto> \<lparr>cl_id = frame_id f, cl_progress = Queueing f\<rparr>),
        nt_slots := (nt_slots s')(n := Empty)\<rparr>)"

text \<open>\<open>try_send_frame\<close>.\<close>

definition try_send_frame :: "Frame \<Rightarrow> net \<Rightarrow> unit result \<times> net" where
  "try_send_frame f s =
     (if \<not> nt_writer s then (bail ''connection writer stopped'', s)
      else if OUT_CAPACITY \<le> length (nt_out s) then (bail ''connection send queue is full'', s)
      else (ok (), s\<lparr>nt_out := nt_out s @ [f]\<rparr>))"

text \<open>A frame that the reader task has decoded: \<open>None\<close> while it waits for space in the queue of events.\<close>

definition waiter_of :: "Frame \<Rightarrow> net \<Rightarrow> nat option" where
  "waiter_of f s = (if frame_id f = [] then None else nt_pending s (frame_id f))"

definition reader_frame :: "Frame \<Rightarrow> net \<Rightarrow> net option" where
  "reader_frame f s = (case waiter_of f s of
       Some n \<Rightarrow> Some (s\<lparr>nt_pending := (nt_pending s)(frame_id f := None),
          nt_slots := (nt_slots s)(n := Full f),
          nt_received := nt_received s @ [(f, Some n)]\<rparr>)
     | None \<Rightarrow> if length (nt_events s) < EVENT_CAPACITY
         then Some (s\<lparr>nt_events := nt_events s @ [f], nt_received := nt_received s @ [(f, None)]\<rparr>)
         else None)"

text \<open>The end of the reader task: every pending sender is dropped, then the event is queued.\<close>

definition end_reader :: "net \<Rightarrow> net" where
  "end_reader s = s\<lparr>nt_reader := Reporting, nt_pending := Map.empty,
     nt_slots := (\<lambda>n. if n \<in> ran (nt_pending s) then Gone else nt_slots s n)\<rparr>"

definition fail_writer :: "net \<Rightarrow> net" where
  "fail_writer s = s\<lparr>nt_writer := False, nt_out := [], nt_events := (if length (nt_events s) < EVENT_CAPACITY
     then nt_events s @ [connection_closed_frame] else nt_events s)\<rparr>"

text \<open>The steps of callers, writer and reader, in any order.\<close>

inductive net_step :: "net \<Rightarrow> net \<Rightarrow> bool" where
  Begin: "nt_calls s n = None \<Longrightarrow> k \<noteq> [] \<Longrightarrow> net_step s (begin_call n (with_id k f) s)"
| Enqueue: "nt_calls s n = Some \<lparr>cl_id = i, cl_progress = Queueing f\<rparr> \<Longrightarrow> nt_writer s \<Longrightarrow>
    length (nt_out s) < OUT_CAPACITY \<Longrightarrow> net_step s (set_progress n Awaiting (s\<lparr>nt_out := nt_out s @ [f]\<rparr>))"
| Refused: "nt_calls s n = Some \<lparr>cl_id = i, cl_progress = Queueing f\<rparr> \<Longrightarrow> \<not> nt_writer s \<Longrightarrow>
    net_step s (set_progress n (Returned (bail ''connection writer stopped'')) (drop_sender i s))"
| Answered: "nt_calls s n = Some \<lparr>cl_id = i, cl_progress = Awaiting\<rparr> \<Longrightarrow> nt_slots s n = Full f \<Longrightarrow>
    net_step s (set_progress n (Returned (answer_of f)) s)"
| Closed: "nt_calls s n = Some \<lparr>cl_id = i, cl_progress = Awaiting\<rparr> \<Longrightarrow> nt_slots s n = Gone \<Longrightarrow>
    net_step s (set_progress n (Returned (bail ''connection closed'')) (drop_sender i s))"
| TimedOut: "nt_calls s n = Some \<lparr>cl_id = i, cl_progress = Awaiting\<rparr> \<Longrightarrow> nt_slots s n = Empty \<Longrightarrow>
    net_step s (set_progress n (Returned (bail ''request timed out'')) (drop_sender i s))"
| Sent: "try_send_frame f s = (ok (), s') \<Longrightarrow> net_step s s'"
| Written: "nt_writer s \<Longrightarrow> nt_out s = f # rest \<Longrightarrow> net_step s (s\<lparr>nt_out := rest, nt_wire := nt_wire s @ [f]\<rparr>)"
| WriteFailed: "nt_writer s \<Longrightarrow> nt_out s = f # rest \<Longrightarrow> net_step s (fail_writer s)"
| Read: "nt_reader s = Reading \<Longrightarrow> reader_frame f s = Some s' \<Longrightarrow> net_step s s'"
| ReaderEnd: "nt_reader s = Reading \<Longrightarrow> net_step s (end_reader s)"
| ReaderReport: "nt_reader s = Reporting \<Longrightarrow> length (nt_events s) < EVENT_CAPACITY \<Longrightarrow>
    net_step s (s\<lparr>nt_reader := Ended, nt_events := nt_events s @ [connection_closed_frame]\<rparr>)"
| Take: "nt_events s = f # rest \<Longrightarrow> net_step s (s\<lparr>nt_events := rest, nt_taken := nt_taken s @ [f]\<rparr>)"

inductive net_reachable :: "net \<Rightarrow> bool" where
  start: "net_reachable net_start"
| step: "net_reachable s \<Longrightarrow> net_step s s' \<Longrightarrow> net_reachable s'"

end
