(* ===== verification/Network_Properties.thy ===== *)
theory Network_Properties
  imports Network
begin

text \<open>
  The invariant of the RPC client and the properties of the connection: answers reach the call they are for,
  the table of pending requests holds exactly the calls that still wait, every call can return, and nothing
  is dialled in clear text but a loopback host.
\<close>

section \<open>The table of pending requests\<close>

definition waiting :: "net \<Rightarrow> nat \<Rightarrow> string \<Rightarrow> bool" where
  "waiting s n i \<longleftrightarrow> nt_slots s n = Empty \<and>
     (\<exists>c. nt_calls s n = Some c \<and> cl_id c = i \<and> (\<forall>r. cl_progress c \<noteq> Returned r))"

definition linked :: "net \<Rightarrow> bool" where
  "linked s \<longleftrightarrow> (\<forall>i n. nt_pending s i = Some n \<longleftrightarrow> waiting s n i)"

lemma linkedD: "linked s \<Longrightarrow> nt_pending s i = Some n \<longleftrightarrow> waiting s n i"
  by (simp add: linked_def)

lemma waiting_once: "waiting s n i \<Longrightarrow> waiting s n j \<Longrightarrow> i = j"
  by (auto simp: waiting_def)

lemma drop_simps [simp]:
  "nt_calls (drop_sender i s) = nt_calls s" "nt_received (drop_sender i s) = nt_received s"
  "nt_out (drop_sender i s) = nt_out s" "nt_events (drop_sender i s) = nt_events s" "nt_taken (drop_sender i s) = nt_taken s"
  "nt_pending (drop_sender i s) = (nt_pending s)(i := None)"
  by (auto simp: drop_sender_def split: option.split)

lemma progress_simps [simp]:
  "nt_slots (set_progress n p s) = nt_slots s" "nt_received (set_progress n p s) = nt_received s"
  "nt_out (set_progress n p s) = nt_out s" "nt_events (set_progress n p s) = nt_events s"
  "nt_taken (set_progress n p s) = nt_taken s" "nt_pending (set_progress n p s) = nt_pending s"
  by (simp_all add: set_progress_def)

lemma waiting_unique: "linked s \<Longrightarrow> waiting s m i \<Longrightarrow> waiting s n i \<Longrightarrow> m = n"
  by (metis linkedD option.inject)

lemma waiting_slot: "waiting (s\<lparr>nt_pending := p, nt_slots := (nt_slots s)(m := x), nt_received := r\<rparr>) n j \<longleftrightarrow>
    (if n = m then x = Empty \<and> (\<exists>c. nt_calls s n = Some c \<and> cl_id c = j \<and> (\<forall>r. cl_progress c \<noteq> Returned r)) else waiting s n j)"
  by (simp add: waiting_def)

lemma waiting_drop:
  assumes "linked s"
  shows "waiting (drop_sender i s) n j \<longleftrightarrow> waiting s n j \<and> j \<noteq> i"
proof (cases "nt_pending s i")
  case None
  then have "\<not> waiting s n i" using linkedD [OF assms, of i n] by simp
  with None show ?thesis by (auto simp: drop_sender_def)
next
  case (Some m)
  then have m: "waiting s m i" using linkedD [OF assms, of i m] by simp
  have "waiting (drop_sender i s) n j \<longleftrightarrow> n \<noteq> m \<and> waiting s n j"
    using Some by (simp add: drop_sender_def waiting_def)
  then show ?thesis using m waiting_once waiting_unique [OF assms] by metis
qed

lemma linked_drop: "linked s \<Longrightarrow> linked (drop_sender i s)"
  by (auto simp: linked_def [of "drop_sender i s"] waiting_drop linkedD)

lemma waiting_progress:
  "waiting (set_progress n p s) m j \<longleftrightarrow> waiting s m j \<and> (m = n \<longrightarrow> (\<forall>r. p \<noteq> Returned r)) \<or>
     (m = n \<and> (\<forall>r. p \<noteq> Returned r) \<and> nt_slots s n = Empty \<and> (\<exists>c. nt_calls s n = Some c \<and> cl_id c = j))"
  by (auto simp: waiting_def set_progress_def split: if_splits)

lemma linked_returned:
  assumes "linked s" "\<And>i. \<not> waiting s n i"
  shows "linked (set_progress n (Returned r) s)"
  using assms by (auto simp: linked_def waiting_progress)

lemma linked_queued:
  assumes "linked s" "nt_calls s n = Some c" "\<forall>r. cl_progress c \<noteq> Returned r"
  shows "linked (set_progress n Awaiting (s\<lparr>nt_out := os\<rparr>))"
  using assms by (auto simp: linked_def waiting_def set_progress_def)

lemma linked_frame:
  "linked s \<Longrightarrow> nt_calls s' = nt_calls s \<Longrightarrow> nt_slots s' = nt_slots s \<Longrightarrow> nt_pending s' = nt_pending s \<Longrightarrow> linked s'"
  by (simp add: linked_def waiting_def)

lemma linked_begin: "linked s \<Longrightarrow> nt_calls s n = None \<Longrightarrow> linked (begin_call n f s)"
  using waiting_drop [of s "frame_id f"] linkedD [of s]
  by (auto simp: linked_def waiting_def begin_call_def Let_def)

lemma linked_read:
  assumes l: "linked s" and r: "reader_frame f s = Some s'"
  shows "linked s'"
proof (cases "waiter_of f s")
  case None
  with r l show ?thesis by (auto simp: reader_frame_def elim!: linked_frame split: if_splits)
next
  case (Some m)
  then have m: "waiting s m (frame_id f)" using linkedD [OF l] by (auto simp: waiter_of_def split: if_splits)
  have "nt_pending s' i = Some n \<longleftrightarrow> waiting s' n i" for i n
  proof -
    have "waiting s' n i \<longleftrightarrow> n \<noteq> m \<and> waiting s n i" using r Some by (auto simp: reader_frame_def waiting_slot split: if_splits)
    moreover have "nt_pending s' i = Some n \<longleftrightarrow> i \<noteq> frame_id f \<and> waiting s n i"
      using r Some by (auto simp: reader_frame_def linkedD [OF l] split: if_splits)
    ultimately show ?thesis using m waiting_once waiting_unique [OF l] by metis
  qed
  then show ?thesis by (simp add: linked_def)
qed

lemma linked_end: "linked s \<Longrightarrow> linked (end_reader s)"
  by (auto simp: linked_def waiting_def end_reader_def ran_def)

lemma try_send_ok:
  "try_send_frame f s = (ok (), s') \<longleftrightarrow> nt_writer s \<and> length (nt_out s) < OUT_CAPACITY \<and> s' = s\<lparr>nt_out := nt_out s @ [f]\<rparr>"
  by (auto simp: try_send_frame_def)

lemma not_waiting_after_drop: "linked s \<Longrightarrow> nt_calls s n = Some \<lparr>cl_id = i, cl_progress = p\<rparr> \<Longrightarrow> \<not> waiting (drop_sender i s) n j"
  by (simp add: waiting_drop) (simp add: waiting_def)

lemma linked_step: "net_step s s' \<Longrightarrow> linked s \<Longrightarrow> linked s'"
proof (induction rule: net_step.induct)
  case (Refused s n i f)
  then show ?case by (intro linked_returned linked_drop not_waiting_after_drop)
next
  case (Closed s n i)
  then show ?case by (intro linked_returned linked_drop not_waiting_after_drop)
next
  case (TimedOut s n i)
  then show ?case by (intro linked_returned linked_drop not_waiting_after_drop)
next
  case (Answered s n i f)
  then show ?case by (intro linked_returned) (auto simp: waiting_def)
next
  case (Enqueue s n i f)
  then show ?case by (intro linked_queued) auto
qed (auto simp: linked_begin linked_read linked_end try_send_ok fail_writer_def elim: linked_frame)

lemma linked_reachable: "net_reachable s \<Longrightarrow> linked s"
proof (induction rule: net_reachable.induct)
  case start
  show ?case by (simp add: linked_def waiting_def net_start_def)
qed (rule linked_step)

section \<open>Answers\<close>

text \<open>What the reader gave to each call, and what each call returned.\<close>

definition full_ok :: "net \<Rightarrow> bool" where
  "full_ok s \<longleftrightarrow> (\<forall>n f. nt_slots s n = Full f \<longrightarrow> (\<exists>c. nt_calls s n = Some c \<and> frame_id f = cl_id c))"

definition received_ok :: "net \<Rightarrow> bool" where
  "received_ok s \<longleftrightarrow> (\<forall>n f. (f, Some n) \<in> set (nt_received s) \<longleftrightarrow> nt_slots s n = Full f)
     \<and> distinct (List.map_filter snd (nt_received s))"

definition returned_ok :: "net \<Rightarrow> bool" where
  "returned_ok s \<longleftrightarrow> (\<forall>n c r. nt_calls s n = Some c \<longrightarrow> cl_progress c = Returned (ok r) \<longrightarrow>
     nt_slots s n = Full r \<and> (\<forall>e. frame_body r \<noteq> Some (ErrorFrame e)))"

text \<open>No step but reading an answer touches a full slot.\<close>

definition same_full :: "net \<Rightarrow> net \<Rightarrow> bool" where
  "same_full s s' \<longleftrightarrow> (\<forall>n f. nt_slots s' n = Full f \<longleftrightarrow> nt_slots s n = Full f) \<and> nt_received s' = nt_received s"

lemma same_fullI: "nt_slots s' = nt_slots s \<Longrightarrow> nt_received s' = nt_received s \<Longrightarrow> same_full s s'"
  by (simp add: same_full_def)

lemma full_drop: "linked s \<Longrightarrow> same_full s (drop_sender i s)"
  using linkedD [of s i] by (auto simp: same_full_def drop_sender_def waiting_def split: option.split)

lemma full_progress: "same_full s t \<Longrightarrow> same_full s (set_progress n p t)"
  by (simp add: same_full_def)

lemma full_begin:
  assumes "linked s" "full_ok s" "nt_calls s n = None"
  shows "same_full s (begin_call n f s)"
proof -
  have "nt_slots s n \<noteq> Full g" for g using assms(2,3) by (force simp: full_ok_def)
  with full_drop [OF assms(1), of "frame_id f"] show ?thesis by (simp add: same_full_def begin_call_def Let_def)
qed

lemma full_end:
  assumes "linked s"
  shows "same_full s (end_reader s)"
proof -
  have "nt_slots s n = Empty" if "n \<in> ran (nt_pending s)" for n
    using that linkedD [OF assms] by (auto simp: ran_def waiting_def)
  then show ?thesis by (simp add: same_full_def end_reader_def)
qed

inductive delivers :: "net \<Rightarrow> net \<Rightarrow> bool" where
  same: "same_full s s' \<Longrightarrow> delivers s s'"
| answer: "waiting s n (frame_id f) \<Longrightarrow> nt_slots s' = (nt_slots s)(n := Full f) \<Longrightarrow>
    nt_received s' = nt_received s @ [(f, Some n)] \<Longrightarrow> nt_calls s' = nt_calls s \<Longrightarrow> delivers s s'"
| event: "nt_slots s' = nt_slots s \<Longrightarrow> nt_received s' = nt_received s @ [(f, None)] \<Longrightarrow>
    nt_calls s' = nt_calls s \<Longrightarrow> delivers s s'"

lemma read_delivers:
  assumes "linked s" "reader_frame f s = Some s'"
  shows "delivers s s' \<and> nt_calls s' = nt_calls s"
proof (cases "waiter_of f s")
  case None
  with assms(2) show ?thesis by (auto simp: reader_frame_def intro!: delivers.event split: if_splits)
next
  case (Some m)
  then have "waiting s m (frame_id f)" using linkedD [OF assms(1), of "frame_id f" m] by (auto simp: waiter_of_def split: if_splits)
  with Some assms(2) show ?thesis by (auto simp: reader_frame_def intro!: delivers.answer)
qed

lemma step_delivers: "net_step s s' \<Longrightarrow> linked s \<Longrightarrow> full_ok s \<Longrightarrow> delivers s s'"
proof (induction rule: net_step.induct)
  case (Begin s n k f)
  then show ?case by (intro delivers.same full_begin)
next
  case (Refused s n i f)
  then show ?case by (intro delivers.same full_progress full_drop)
next
  case (Closed s n i)
  then show ?case by (intro delivers.same full_progress full_drop)
next
  case (TimedOut s n i)
  then show ?case by (intro delivers.same full_progress full_drop)
next
  case (Read s f s')
  then show ?case using read_delivers by blast
next
  case (ReaderEnd s)
  then show ?case by (intro delivers.same full_end)
qed (auto simp: try_send_ok fail_writer_def intro!: delivers.same same_fullI)

text \<open>What a step does to the calls: they keep their identifiers, and a result is an answer in the slot.\<close>

definition call_step :: "net \<Rightarrow> nat \<Rightarrow> call \<Rightarrow> bool" where
  "call_step s n c' \<longleftrightarrow> cl_id c' \<noteq> [] \<and> (\<forall>c. nt_calls s n = Some c \<longrightarrow> cl_id c' = cl_id c) \<and>
     (\<forall>r. cl_progress c' = Returned (ok r) \<longrightarrow> nt_calls s n = Some c' \<or>
        (nt_slots s n = Full r \<and> (\<forall>e. frame_body r \<noteq> Some (ErrorFrame e))))"

definition named :: "net \<Rightarrow> bool" where
  "named s \<longleftrightarrow> (\<forall>n c. nt_calls s n = Some c \<longrightarrow> cl_id c \<noteq> [])"

lemma answer_ok: "answer_of f = ok r \<longleftrightarrow> r = f \<and> (\<forall>e. frame_body f \<noteq> Some (ErrorFrame e))"
  by (auto simp: answer_of_def split: option.splits Body.splits)

lemma progress_call:
  assumes "nt_calls (set_progress n p t) m = Some c'" "nt_calls t = nt_calls s" "named s"
    and "\<And>r. p = Returned (ok r) \<Longrightarrow> nt_slots s n = Full r \<and> (\<forall>e. frame_body r \<noteq> Some (ErrorFrame e))"
  shows "call_step s m c'"
  using assms by (auto simp: call_step_def set_progress_def named_def split: if_splits)

lemma step_calls: "net_step s s' \<Longrightarrow> named s \<Longrightarrow> nt_calls s' m = Some c' \<Longrightarrow> linked s \<Longrightarrow> call_step s m c'"
proof (induction rule: net_step.induct)
  case (Begin s n k f)
  then show ?case
    by (auto simp: call_step_def begin_call_def Let_def with_id_def named_def split: if_splits)
next
  case (Enqueue s n i f)
  then show ?case by (elim progress_call) simp_all
next
  case (Refused s n i f)
  then show ?case by (elim progress_call) simp_all
next
  case (Answered s n i f)
  then show ?case by (elim progress_call) (simp_all add: answer_ok)
next
  case (Closed s n i)
  then show ?case by (elim progress_call) simp_all
next
  case (TimedOut s n i)
  then show ?case by (elim progress_call) simp_all
next
  case (Read s f s')
  then show ?case using read_delivers by (force simp: call_step_def named_def)
qed (auto simp: call_step_def named_def try_send_ok fail_writer_def end_reader_def)

lemma calls_stay: "net_step s s' \<Longrightarrow> nt_calls s m \<noteq> None \<Longrightarrow> nt_calls s' m \<noteq> None"
proof (induction rule: net_step.induct)
  case (Read s f s')
  then show ?case by (auto simp: reader_frame_def split: option.splits if_splits)
qed (auto simp: begin_call_def set_progress_def Let_def try_send_ok fail_writer_def end_reader_def)

definition answers_ok :: "net \<Rightarrow> bool" where
  "answers_ok s \<longleftrightarrow> named s \<and> full_ok s \<and> received_ok s \<and> returned_ok s"

lemma received_delivers:
  assumes "delivers s s'" "received_ok s"
  shows "received_ok s'"
  using assms
proof (cases rule: delivers.cases)
  case (answer n f)
  then have "(g, Some n) \<notin> set (nt_received s)" for g using assms(2) by (auto simp: received_ok_def waiting_def)
  with answer assms(2) show ?thesis by (auto simp: received_ok_def map_filter_def)
qed (auto simp: received_ok_def same_full_def map_filter_def)

lemma full_delivers:
  assumes "delivers s s'" "full_ok s" "\<And>n c. nt_calls s n = Some c \<Longrightarrow> \<exists>c'. nt_calls s' n = Some c' \<and> cl_id c' = cl_id c"
  shows "full_ok s'"
  using assms
proof (cases rule: delivers.cases)
  case same
  then show ?thesis using assms(2,3) unfolding full_ok_def same_full_def by metis
next
  case (answer n f)
  then show ?thesis using assms(2) by (auto simp: full_ok_def waiting_def)
qed (auto simp: full_ok_def)

lemma delivers_full: "delivers s s' \<Longrightarrow> nt_slots s n = Full f \<Longrightarrow> nt_slots s' n = Full f"
  by (auto simp: same_full_def waiting_def elim!: delivers.cases)

lemma answers_step:
  assumes st: "net_step s s'" and l: "linked s" and a: "answers_ok s"
  shows "answers_ok s'"
proof -
  have d: "delivers s s'" using step_delivers [OF st l] a by (simp add: answers_ok_def)
  have c: "call_step s n c'" if "nt_calls s' n = Some c'" for n c'
    using step_calls [OF st _ that l] a by (simp add: answers_ok_def)
  have keep: "\<exists>c'. nt_calls s' n = Some c' \<and> cl_id c' = cl_id c" if "nt_calls s n = Some c" for n c
  proof -
    have "nt_calls s' n \<noteq> None" by (rule calls_stay [OF st]) (simp add: that)
    then obtain c' where "nt_calls s' n = Some c'" by blast
    with c that show ?thesis by (auto simp: call_step_def)
  qed
  have "named s'" using c by (auto simp: named_def call_step_def)
  moreover have "returned_ok s'"
    unfolding returned_ok_def
  proof (intro allI impI)
    fix n c' r
    assume c': "nt_calls s' n = Some c'" "cl_progress c' = Returned (ok r)"
    then have "nt_slots s n = Full r \<and> (\<forall>e. frame_body r \<noteq> Some (ErrorFrame e))"
    proof -
      have "nt_calls s n = Some c' \<or> nt_slots s n = Full r \<and> (\<forall>e. frame_body r \<noteq> Some (ErrorFrame e))"
        using c [OF c'(1)] c'(2) unfolding call_step_def by blast
      then show ?thesis using a c'(2) unfolding answers_ok_def returned_ok_def by blast
    qed
    then show "nt_slots s' n = Full r \<and> (\<forall>e. frame_body r \<noteq> Some (ErrorFrame e))"
      using delivers_full [OF d] by blast
  qed
  ultimately show ?thesis
    using received_delivers [OF d] full_delivers [OF d _ keep] a by (simp add: answers_ok_def)
qed

lemma answers_reachable: "net_reachable s \<Longrightarrow> answers_ok s"
proof (induction rule: net_reachable.induct)
  case start
  show ?case by (simp add: answers_ok_def named_def full_ok_def received_ok_def returned_ok_def net_start_def map_filter_def)
qed (use linked_reachable answers_step in blast)

lemma in_map_filter: "n \<in> set (List.map_filter snd xs) \<longleftrightarrow> (\<exists>f. (f, Some n) \<in> set xs)"
  by (induction xs) (auto simp: map_filter_def)

lemma filter_none: "n \<notin> set (List.map_filter snd xs) \<Longrightarrow> filter (\<lambda>x. snd x = Some n) xs = []"
  unfolding in_map_filter filter_empty_conv by (metis prod.collapse)

lemma filter_once:
  "(r, Some n) \<in> set xs \<Longrightarrow> distinct (List.map_filter snd xs) \<Longrightarrow> filter (\<lambda>x. snd x = Some n) xs = [(r, Some n)]"
proof (induction xs)
  case (Cons x xs)
  obtain g w where x: "x = (g, w)" by (cases x)
  show ?case
  proof (cases "w = Some n")
    case True
    with Cons.prems(2) x have none: "n \<notin> set (List.map_filter snd xs)" by (simp add: map_filter_def)
    then have "(r, Some n) \<notin> set xs" unfolding in_map_filter by blast
    with Cons.prems(1) x True filter_none [OF none] show ?thesis by simp
  next
    case False
    with Cons x show ?thesis by (cases w) (auto simp: map_filter_def)
  qed
qed simp

section \<open>The properties of the RPC client\<close>

text \<open>
  C30. An answer belongs to its call. When a call of the RPC client returns a frame, the reader has received this
  frame for this call, it carries the identifier of the call and no error, and no other received frame was
  given to the call. This holds in every interleaving of callers, writer and reader, also when identifiers
  are used twice, when calls time out and when the connection ends in between.
\<close>

theorem rpc_answers_match:
  assumes "net_reachable s" and "nt_calls s n = Some c" and "cl_progress c = Returned (ok r)"
  shows "frame_id r = cl_id c \<and> (\<forall>e. frame_body r \<noteq> Some (ErrorFrame e))
    \<and> filter (\<lambda>x. snd x = Some n) (nt_received s) = [(r, Some n)]"
proof -
  have a: "answers_ok s" by (rule answers_reachable [OF assms(1)])
  then have r: "nt_slots s n = Full r" "\<forall>e. frame_body r \<noteq> Some (ErrorFrame e)"
    using assms(2,3) by (auto simp: answers_ok_def returned_ok_def)
  then have id: "frame_id r = cl_id c" using a assms(2) by (metis answers_ok_def full_ok_def option.inject)
  have mem: "(r, Some n) \<in> set (nt_received s)" "distinct (List.map_filter snd (nt_received s))"
    using a r by (auto simp: answers_ok_def received_ok_def)
  show ?thesis using id r(2) filter_once [OF mem] by simp
qed

definition sample_answer :: Frame where
  "sample_answer = mk_frame ''k'' (Pong 5)"

definition sample_call :: "net \<Rightarrow> net" where
  "sample_call s = set_progress 0 Awaiting (s\<lparr>nt_out := nt_out s @ [mk_frame ''k'' (Ping 4)]\<rparr>)"

definition sample_read :: "net \<Rightarrow> net" where
  "sample_read s = (case reader_frame sample_answer s of None \<Rightarrow> s | Some s' \<Rightarrow> s')"

definition sample_done :: net where
  "sample_done = set_progress 0 (Returned (answer_of sample_answer))
     (sample_read (sample_call (begin_call 0 (mk_frame ''k'' (Ping 4)) net_start)))"

lemmas sample_net_defs = sample_done_def sample_read_def sample_call_def begin_call_def Let_def drop_sender_def net_start_def
  set_progress_def sample_answer_def mk_frame_def reader_frame_def waiter_of_def answer_of_def

lemma sample_done_reachable: "net_reachable sample_done"
proof -
  let ?s1 = "begin_call 0 (mk_frame ''k'' (Ping 4)) net_start"
  have 1: "net_reachable ?s1"
    using net_step.Begin [of net_start 0 "''k''" "mk_frame ''k'' (Ping 4)"]
    by (intro net_reachable.step [OF net_reachable.start]) (simp add: with_id_def mk_frame_def net_start_def)
  have 2: "net_reachable (sample_call ?s1)"
    unfolding sample_call_def
    by (rule net_reachable.step [OF 1], rule net_step.Enqueue)
      (auto simp: begin_call_def Let_def drop_sender_def net_start_def mk_frame_def OUT_CAPACITY_def)
  have 3: "net_reachable (sample_read (sample_call ?s1))"
    by (rule net_reachable.step [OF 2], rule net_step.Read [where f = sample_answer]) (simp_all add: sample_net_defs)
  show ?thesis
    unfolding sample_done_def
    by (rule net_reachable.step [OF 3], rule net_step.Answered) (simp_all add: sample_net_defs)
qed

theorem rpc_answers_match_witness:
  "frame_id sample_answer = ''k'' \<and> filter (\<lambda>x. snd x = Some 0) (nt_received sample_done) = [(sample_answer, Some 0)]"
proof -
  have "nt_calls sample_done 0 = Some \<lparr>cl_id = ''k'', cl_progress = Returned (ok sample_answer)\<rparr>"
    by (simp add: sample_net_defs)
  from rpc_answers_match [OF sample_done_reachable this, of sample_answer] show ?thesis by simp
qed

lemma queues_bounded: "net_reachable s \<Longrightarrow> length (nt_out s) \<le> OUT_CAPACITY \<and> length (nt_events s) \<le> EVENT_CAPACITY"
proof (induction rule: net_reachable.induct)
  case (step s s')
  from step(2,3) show ?case
  proof (induction rule: net_step.induct)
    case (Read s f s')
    then show ?case by (auto simp: reader_frame_def split: option.splits if_splits)
  qed (auto simp: begin_call_def Let_def try_send_ok fail_writer_def end_reader_def)
qed (simp add: net_start_def)

definition can_return :: "nat \<Rightarrow> net \<Rightarrow> bool" where
  "can_return n s \<longleftrightarrow> (\<exists>s' c r. net_step\<^sup>*\<^sup>* s s' \<and> nt_calls s' n = Some c \<and> cl_progress c = Returned r)"

lemma can_return_step: "net_step s s' \<Longrightarrow> can_return n s' \<Longrightarrow> can_return n s"
  unfolding can_return_def by (meson converse_rtranclp_into_rtranclp)

lemma can_return_now: "net_step s (set_progress n (Returned r) t) \<Longrightarrow> nt_calls t n = Some c \<Longrightarrow> can_return n s"
  unfolding can_return_def by (rule exI [of _ "set_progress n (Returned r) t"]) (auto simp: set_progress_def)

lemma awaiting_returns:
  assumes c: "nt_calls s n = Some \<lparr>cl_id = i, cl_progress = Awaiting\<rparr>"
  shows "can_return n s"
proof (cases "nt_slots s n")
  case Empty
  then show ?thesis by (intro can_return_now [OF net_step.TimedOut [OF c]]) (simp_all add: c)
next
  case (Full f)
  then show ?thesis by (intro can_return_now [OF net_step.Answered [OF c]]) (simp_all add: c)
next
  case Gone
  then show ?thesis by (intro can_return_now [OF net_step.Closed [OF c]]) (simp_all add: c)
qed

lemma enqueue_returns:
  assumes c: "nt_calls s n = Some \<lparr>cl_id = i, cl_progress = Queueing f\<rparr>"
    and room: "length (nt_out s) < OUT_CAPACITY"
  shows "can_return n s"
proof (cases "nt_writer s")
  case True
  show ?thesis
    by (rule can_return_step [OF net_step.Enqueue [OF c True room]], rule awaiting_returns)
      (simp add: set_progress_def c)
next
  case False
  show ?thesis by (intro can_return_now [OF net_step.Refused [OF c False]]) (simp_all add: c)
qed

lemma queueing_returns:
  assumes c: "nt_calls s n = Some \<lparr>cl_id = i, cl_progress = Queueing f\<rparr>" and b: "length (nt_out s) \<le> OUT_CAPACITY"
  shows "can_return n s"
proof (cases "nt_writer s \<and> length (nt_out s) = OUT_CAPACITY")
  case True
  then obtain g rest where out: "nt_out s = g # rest" by (cases "nt_out s") (auto simp: OUT_CAPACITY_def)
  then have "net_step s (s\<lparr>nt_out := rest, nt_wire := nt_wire s @ [g]\<rparr>)" using True by (intro net_step.Written) simp_all
  then show ?thesis by (rule can_return_step, intro enqueue_returns) (use c True out in auto)
next
  case False
  show ?thesis
  proof (cases "nt_writer s")
    case True
    with False b show ?thesis by (intro enqueue_returns [OF c]) simp
  next
    case False
    show ?thesis by (intro can_return_now [OF net_step.Refused [OF c False]]) (simp_all add: c)
  qed
qed

lemma call_returns: "nt_calls s n = Some c \<Longrightarrow> length (nt_out s) \<le> OUT_CAPACITY \<Longrightarrow> can_return n s"
proof (cases c)
  case (fields i p)
  assume "nt_calls s n = Some c" "length (nt_out s) \<le> OUT_CAPACITY"
  with fields show ?thesis
  proof (cases p)
    case (Returned r)
    with fields \<open>nt_calls s n = Some c\<close> show ?thesis unfolding can_return_def by (intro exI [of _ s]) auto
  qed (auto intro: queueing_returns awaiting_returns)
qed

text \<open>
  C31. No call is stuck and none leaves anything behind. In every reachable state the table of pending requests
  holds exactly the identifiers of the calls that still wait for an answer, the queues are within their
  capacities, and every call can return without any help of the server: a full queue of the writer can be
  emptied, a closed writer or connection gives an error, and a wait can time out.
\<close>

theorem rpc_calls_return:
  assumes "net_reachable s"
  shows "(\<forall>i n. nt_pending s i = Some n \<longleftrightarrow> waiting s n i)
    \<and> length (nt_out s) \<le> OUT_CAPACITY \<and> length (nt_events s) \<le> EVENT_CAPACITY
    \<and> (nt_calls s n \<noteq> None \<longrightarrow> (\<exists>s' c r. net_step\<^sup>*\<^sup>* s s' \<and> nt_calls s' n = Some c \<and> cl_progress c = Returned r))"
  using linked_reachable [OF assms] queues_bounded [OF assms] call_returns [of s n]
  by (auto simp: linked_def can_return_def)

theorem rpc_calls_return_witness:
  "nt_pending sample_done ''k'' = None \<and> (\<exists>s' c r. net_step\<^sup>*\<^sup>* (begin_call 0 (mk_frame ''k'' (Ping 4)) net_start) s'
     \<and> nt_calls s' 0 = Some c \<and> cl_progress c = Returned r)"
proof -
  let ?s1 = "begin_call 0 (mk_frame ''k'' (Ping 4)) net_start"
  have "net_reachable ?s1"
    using net_step.Begin [of net_start 0 "''k''" "mk_frame ''k'' (Ping 4)"]
    by (intro net_reachable.step [OF net_reachable.start]) (simp add: with_id_def mk_frame_def net_start_def)
  moreover have "nt_calls ?s1 0 \<noteq> None" by (simp add: begin_call_def Let_def)
  ultimately show ?thesis
    using rpc_calls_return [of ?s1 0] by (simp add: sample_net_defs)
qed

section \<open>The server that is dialled\<close>

text \<open>
  What is documented of \<open>tokio_tungstenite\<close> with a \<open>rustls\<close> connector: a connection to a \<open>wss\<close> address opens only if
  the verifier of the connector accepts the certificate that the server shows (\<open>peer_cert\<close>).
\<close>

definition tls_dialler :: "(string \<Rightarrow> url option) \<Rightarrow> (bytes option \<Rightarrow> 'c \<Rightarrow> 'v result) \<Rightarrow> ('k \<Rightarrow> 'c) \<Rightarrow>
    (string \<Rightarrow> bytes option \<Rightarrow> 'k result) \<Rightarrow> bool" where
  "tls_dialler parse verifier peer_cert dial \<longleftrightarrow> (\<forall>addr u pin k. parse addr = Some u \<longrightarrow> url_scheme u = ''wss'' \<longrightarrow>
     dial addr pin = ok k \<longrightarrow> (\<exists>v. verifier pin (peer_cert k) = ok v))"

text \<open>
  C32. Nothing is sent in clear text but to this machine, and a pin is enforced. A connection that opens was
  dialled to an address without credentials or fragment whose scheme is \<open>wss\<close>, or \<open>ws\<close> with a loopback host.
  Over \<open>wss\<close> the certificate of the server was accepted by the verifier of \<open>rustls\<close>, and when a pin is
  configured it is the hexadecimal SHA-256 hash, 32 bytes, of the key in that certificate. (On a loopback \<open>ws\<close>
  connection there is no certificate; a configured pin is parsed there and not used.)
\<close>

theorem connect_is_private:
  assumes "connect parse hex_decode dial addr pin = ok k"
    and "tls_dialler parse (pinned_connector sha inner spki) peer_cert dial"
  shows "\<exists>u. parse addr = Some u \<and> url_username u = [] \<and> url_password u = None \<and> url_fragment u = None
    \<and> (url_scheme u = ''wss'' \<or> url_scheme u = ''ws'' \<and> loopback_host (url_host u))
    \<and> (\<forall>p. pin = Some p \<longrightarrow> (\<exists>b. hex_decode (trim p) = Some b \<and> length b = 32))
    \<and> (url_scheme u = ''wss'' \<longrightarrow> (\<exists>v. inner (peer_cert k) = ok v)
        \<and> (\<forall>p. pin = Some p \<longrightarrow> (\<exists>raw. spki (peer_cert k) = Some raw \<and> hex_decode (trim p) = Some (sha raw))))"
proof -
  obtain u pb where u: "parse addr = Some u" "url_username u = []" "url_password u = None" "url_fragment u = None"
      "url_scheme u = ''wss'' \<or> url_scheme u = ''ws'' \<and> loopback_host (url_host u)"
    and pb: "case pin of None \<Rightarrow> pb = None | Some p \<Rightarrow> (\<exists>b. pb = Some b \<and> hex_decode (trim p) = Some b \<and> length b = 32)"
    and dialled: "dial addr pb = ok k"
    using assms(1) by (auto simp: connect_def validate_server_url_def parse_pin_def attempt_ok_iff split: option.splits if_splits)
  have cert: "\<exists>v. pinned_connector sha inner spki pb (peer_cert k) = ok v" if "url_scheme u = ''wss''"
    using assms(2) u(1) that dialled unfolding tls_dialler_def by blast
  have "(\<exists>v. inner (peer_cert k) = ok v)
      \<and> (\<forall>p. pin = Some p \<longrightarrow> (\<exists>raw. spki (peer_cert k) = Some raw \<and> hex_decode (trim p) = Some (sha raw)))"
    if "url_scheme u = ''wss''"
    using cert [OF that] pb
    by (cases pin) (auto simp: pinned_connector_def verify_server_cert_def attempt_ok_iff split: option.splits if_splits)
  with u pb show ?thesis by (intro exI [of _ u]) (auto split: option.splits)
qed

definition sample_url :: url where
  "sample_url = \<lparr>url_scheme = ''wss'', url_username = [], url_password = None, url_fragment = None,
     url_host = Some (Domain ''chat.example''), url_host_str = Some ''chat.example'', url_path = ''/v2/ws''\<rparr>"

text \<open>A server that shows a certificate with the key of 32 bytes 7, and a dialler that asks the verifier.\<close>

definition sample_verifier :: "bytes option \<Rightarrow> bytes \<Rightarrow> unit result" where
  "sample_verifier = pinned_connector (\<lambda>raw. raw) (\<lambda>_. ok ()) Some"

definition sample_dial :: "string \<Rightarrow> bytes option \<Rightarrow> bytes result" where
  "sample_dial addr pin = attempt (sample_verifier pin (replicate 32 7)) (\<lambda>_. ok (replicate 32 7))"

theorem connect_is_private_witness:
  "connect (\<lambda>_. Some sample_url) (\<lambda>_. Some (replicate 32 7)) sample_dial ''wss://chat.example/v2/ws'' (Some ''07'') = ok (replicate 32 7)
   \<and> (\<exists>e. connect (\<lambda>_. Some sample_url) (\<lambda>_. Some (replicate 32 8)) sample_dial ''wss://chat.example/v2/ws'' (Some ''08'') = Inl e)
   \<and> (\<exists>u. Some sample_url = Some u \<and> url_scheme u = ''wss'' \<and> url_username u = [])"
proof -
  have c: "connect (\<lambda>_. Some sample_url) (\<lambda>_. Some (replicate 32 7)) sample_dial ''wss://chat.example/v2/ws'' (Some ''07'') = ok (replicate 32 7)"
    "\<exists>e. connect (\<lambda>_. Some sample_url) (\<lambda>_. Some (replicate 32 8)) sample_dial ''wss://chat.example/v2/ws'' (Some ''08'') = Inl e"
    by (simp_all add: connect_def validate_server_url_def parse_pin_def sample_url_def sample_dial_def sample_verifier_def
        pinned_connector_def verify_server_cert_def)
  have "tls_dialler (\<lambda>_. Some sample_url) (pinned_connector (\<lambda>raw. raw) (\<lambda>_. ok ()) Some) (\<lambda>k. k) sample_dial"
    by (auto simp: tls_dialler_def sample_dial_def sample_verifier_def attempt_ok_iff)
  from connect_is_private [OF c(1) this]
  have "\<exists>u. Some sample_url = Some u \<and> url_scheme u = ''wss'' \<and> url_username u = []"
    by (simp add: sample_url_def)
  with c show ?thesis by blast
qed

end
