(* ===== verification/Client_Login.thy ===== *)
theory Client_Login
  imports App_State Network
begin

text \<open>
  Logging in (\<open>crates/client/src/main.rs\<close>) and the handshake of a reconnection (\<open>establish_reconnect\<close> in
  \<open>crates/client/src/app.rs\<close>). A step sees the local store, the requests sent so far and a clock that numbers
  the accesses to the outside: what the server answers, what the user types and what is drawn at random come
  from \<open>outside\<close> and \<open>terminal_io\<close>.
\<close>

section \<open>Steps\<close>

record login =
  ln_store :: local_db
  ln_sent :: "Body list"
  ln_clock :: nat

type_synonym 'x task = "login \<Rightarrow> 'x result \<times> login"

definition give :: "'x \<Rightarrow> 'x task" where
  "give x s = (ok x, s)"

definition refuse :: "string \<Rightarrow> 'x task" where
  "refuse m s = (bail m, s)"

definition perform :: "'x task \<Rightarrow> ('x \<Rightarrow> 'y task) \<Rightarrow> 'y task" where
  "perform m f s = (case m s of (Inl e, s') \<Rightarrow> (Inl e, s') | (Inr x, s') \<Rightarrow> f x s')"

definition lifted :: "'x result \<Rightarrow> 'x task" where
  "lifted r s = (r, s)"

definition need :: "bool \<Rightarrow> string \<Rightarrow> unit task" where
  "need b m = (if b then give () else refuse m)"

text \<open>One access to the outside.\<close>

definition outer :: "(nat \<Rightarrow> 'x) \<Rightarrow> 'x task" where
  "outer f s = (ok (f (ln_clock s)), s\<lparr>ln_clock := Suc (ln_clock s)\<rparr>)"

text \<open>
  What the terminal, the system and the packages give. \<open>io_dial\<close> opens the socket, \<open>io_account\<close> is a new Olm
  account, \<open>io_set_path\<close> is \<open>Url::set_path\<close>.
\<close>

record 'a terminal_io =
  io_prompt :: "nat \<Rightarrow> string result"
  io_line :: "nat \<Rightarrow> string result"
  io_hostname :: "string option"
  io_account :: "nat \<Rightarrow> 'a"
  io_url_parse :: "string \<Rightarrow> url result"
  io_url_string :: "url \<Rightarrow> string"
  io_hex :: "string \<Rightarrow> bytes option"
  io_dial :: "string \<Rightarrow> bytes option \<Rightarrow> unit result"

definition url_option :: "'a terminal_io \<Rightarrow> string \<Rightarrow> url option" where
  "url_option T s = (case io_url_parse T s of Inl _ \<Rightarrow> None | Inr u \<Rightarrow> Some u)"

definition dialled :: "'a terminal_io \<Rightarrow> string \<Rightarrow> string option \<Rightarrow> unit task" where
  "dialled T server_url spki_pin = lifted (connect (url_option T) (io_hex T) (io_dial T) server_url spki_pin)"

text \<open>\<open>RawConnection::request\<close>: the request is sent, then the answer or the error comes back.\<close>

definition raw_request :: "outside \<Rightarrow> Body \<Rightarrow> Frame task" where
  "raw_request W b s = (attempt (reply_at W (ln_clock s) (mk_frame (uuid_at W (ln_clock s)) b)) answer_of,
     s\<lparr>ln_sent := ln_sent s @ [b], ln_clock := Suc (ln_clock s)\<rparr>)"

definition prompted :: "'a terminal_io \<Rightarrow> string task" where
  "prompted T = perform (outer (io_prompt T)) lifted"

definition saved :: "outside \<Rightarrow> ('a, 's, 'pa, 'ps) env \<Rightarrow> VaultSession \<Rightarrow> ('a, 's) RuntimeProfile \<Rightarrow> unit task" where
  "saved W E v p s = (case save_profile (en_packages E) (now_ms_at W (ln_clock s)) (random_at W (ln_clock s) 4) v p (ln_store s) of
       Inl e \<Rightarrow> (Inl e, s\<lparr>ln_clock := Suc (ln_clock s)\<rparr>)
     | Inr d \<Rightarrow> (ok (), s\<lparr>ln_store := d, ln_clock := Suc (ln_clock s)\<rparr>))"

section \<open>Passwords and addresses\<close>

definition char_count :: "string \<Rightarrow> nat" where
  "char_count s = length (utf8_chars s)"

definition read_new_password :: "'a terminal_io \<Rightarrow> string task" where
  "read_new_password T =
     perform (prompted T) (\<lambda>first.
     perform (need (12 \<le> char_count first \<and> length first \<le> 1024)
       ''new account password must contain 12-1024 characters'') (\<lambda>_.
     perform (prompted T) (\<lambda>second.
     perform (need (first = second) ''passwords do not match'') (\<lambda>_.
     give first))))"

definition read_local_passphrase :: "'a terminal_io \<Rightarrow> bool \<Rightarrow> string task" where
  "read_local_passphrase T existing =
     perform (prompted T) (\<lambda>first.
     perform (need (char_count first \<le> 1024 \<and> (existing \<longrightarrow> char_count first \<noteq> 0))
       ''local storage passphrase must contain 1-1024 characters'') (\<lambda>_.
     if existing then give first
     else
       perform (need (12 \<le> char_count first) ''local storage passphrase must contain at least 12 characters'') (\<lambda>_.
       perform (prompted T) (\<lambda>second.
       perform (need (first = second) ''local storage passphrases do not match'') (\<lambda>_.
       give first)))))"

definition protocol_v2_url :: "'a terminal_io \<Rightarrow> string \<Rightarrow> string result" where
  "protocol_v2_url T s = attempt (io_url_parse T s) (\<lambda>u.
     ok (io_url_string T (if url_path u = ''/v1/ws'' then u\<lparr>url_path := ''/v2/ws''\<rparr> else u)))"

definition authenticated :: "Frame \<Rightarrow> Authenticated_msg result" where
  "authenticated f = (case frame_body f of
       Some (Authenticated auth) \<Rightarrow> ok auth
     | _ \<Rightarrow> bail ''server returned an invalid authentication response'')"

definition change_password :: "outside \<Rightarrow> 'a terminal_io \<Rightarrow> unit task" where
  "change_password W T =
     perform (prompted T) (\<lambda>current.
     perform (read_new_password T) (\<lambda>new.
     perform (raw_request W (ChangePassword \<lparr>chg_current_password = current, chg_new_password = new\<rparr>)) (\<lambda>_.
     give ())))"

text \<open>The proof that the device has its key: the signature of the challenge, bound to host, user and device.\<close>

definition device_proof :: "crypto \<Rightarrow> DeviceIdentity \<Rightarrow> string \<Rightarrow> string \<Rightarrow> string \<Rightarrow> AuthChallenge_msg \<Rightarrow> DeviceAuth_msg" where
  "device_proof C identity domain username device_id challenge = \<lparr>dauth_username = username,
     dauth_device_id = device_id, dauth_signature = sign_auth_challenge C identity
       (auth_challenge_payload domain username device_id (chal_nonce challenge) (chal_expires_at_ms challenge))\<rparr>"

section \<open>A device that has a profile\<close>

definition login_pending :: "outside \<Rightarrow> 'a terminal_io \<Rightarrow> ('a, 's) RuntimeProfile \<Rightarrow> string \<Rightarrow> string \<Rightarrow>
    (('a, 's) RuntimeProfile \<times> bool) task" where
  "login_pending W T profile username device_id =
     perform (prompted T) (\<lambda>password.
     perform (raw_request W (PasswordAuth \<lparr>pauth_username = username, pauth_password = password,
       pauth_device_id = device_id\<rparr>)) (\<lambda>response.
     perform (lifted (authenticated response)) (\<lambda>auth.
     perform (need (authd_pending_device auth \<and> authd_account_id auth = rp_account_id profile)
       ''pending device state does not match the server'') (\<lambda>_.
     give (profile\<lparr>rp_server_capabilities := authd_capabilities auth\<rparr>, True)))))"

text \<open>The one-time keys are filled up to 50, published, and the machine that has their secrets is saved.\<close>

definition refill_prekeys :: "outside \<Rightarrow> ('a, 's, 'pa, 'ps) env \<Rightarrow> VaultSession \<Rightarrow> ('a, 's) RuntimeProfile \<Rightarrow>
    ('a, 's) RuntimeProfile task" where
  "refill_prekeys W E v profile =
     (let L = en_olm E; missing = 50 - stored_prekey_count L (rp_machine profile) in
      if 0 < missing then
        let machine = generate_prekeys L missing (rp_machine profile);
            keys = map (\<lambda>(i, k). sign_prekey (en_crypto E) (rp_identity profile) i k) (unpublished_prekeys L machine) in
        perform (raw_request W (PublishPreKeys keys)) (\<lambda>_.
        let profile = profile\<lparr>rp_machine := mark_prekeys_published L machine\<rparr> in
        perform (saved W E v profile) (\<lambda>_.
        give profile))
      else give profile)"

definition other_master :: "crypto \<Rightarrow> DeviceIdentity \<Rightarrow> bytes \<Rightarrow> bool" where
  "other_master C identity key \<longleftrightarrow> key \<noteq> [] \<and>
     (case master_public_key C identity of None \<Rightarrow> False | Some k \<Rightarrow> k \<noteq> key)"

definition login_device :: "outside \<Rightarrow> 'a terminal_io \<Rightarrow> ('a, 's, 'pa, 'ps) env \<Rightarrow> VaultSession \<Rightarrow>
    ('a, 's) RuntimeProfile \<Rightarrow> string \<Rightarrow> string \<Rightarrow> string \<Rightarrow> AuthChallenge_msg \<Rightarrow> (('a, 's) RuntimeProfile \<times> bool) task" where
  "login_device W T E v profile domain username device_id challenge =
     perform (raw_request W (DeviceAuth (device_proof (en_crypto E) (rp_identity profile) domain username device_id challenge)))
       (\<lambda>response.
     perform (lifted (authenticated response)) (\<lambda>auth.
     perform (need (authd_account_id auth = rp_account_id profile)
       ''server account identity does not match the local profile'') (\<lambda>_.
     perform (need (authd_account_master_key auth = rp_account_master_public profile)
       ''server account master key does not match the local profile'') (\<lambda>_.
     perform (need (\<not> other_master (en_crypto E) (rp_identity profile) (authd_account_master_key auth))
       ''server presented a different account master key'') (\<lambda>_.
     perform (if authd_password_change_required auth then change_password W T else give ()) (\<lambda>_.
     perform (refill_prekeys W E v (profile\<lparr>rp_server_capabilities := authd_capabilities auth\<rparr>)) (\<lambda>profile.
     give (profile, authd_pending_device auth))))))))"

definition login_existing :: "outside \<Rightarrow> 'a terminal_io \<Rightarrow> ('a, 's, 'pa, 'ps) env \<Rightarrow> VaultSession \<Rightarrow>
    ('a, 's) RuntimeProfile \<Rightarrow> string \<Rightarrow> string \<Rightarrow> string option \<Rightarrow> string \<Rightarrow> string \<Rightarrow> AuthChallenge_msg \<Rightarrow>
    (('a, 's) RuntimeProfile \<times> bool) task" where
  "login_existing W T E v profile server_url username spki_pin domain device_id challenge =
     perform (lifted (protocol_v2_url T (rp_server_url profile))) (\<lambda>stored_server_url.
     perform (need (rp_username profile = username \<and> stored_server_url = server_url)
       ''local encrypted profile belongs to a different username or server'') (\<lambda>_.
     perform (need (\<not> (rp_spki_pin profile \<noteq> None \<and> rp_spki_pin profile \<noteq> spki_pin))
       ''SPKI pin differs from the encrypted local profile'') (\<lambda>_.
     let profile = profile\<lparr>rp_server_url := stored_server_url,
           rp_spki_pin := (if rp_spki_pin profile = None then spki_pin else rp_spki_pin profile)\<rparr> in
     if rp_pending profile then login_pending W T profile username device_id
     else login_device W T E v profile domain username device_id challenge)))"

section \<open>A new device\<close>

definition bootstrap_request :: "('a, 's, 'pa, 'ps) env \<Rightarrow> DeviceIdentity \<Rightarrow> ('a, 's) OlmMachine \<Rightarrow> bytes \<Rightarrow> PairingState \<Rightarrow> Body" where
  "bootstrap_request E identity machine master pairing =
     (let C = en_crypto E; keys = en_olm_keys E (om_account machine);
          public = public_device C identity (fst keys) (snd keys) in
      BootstrapDevice \<lparr>boot_device_id = id_device_id identity, boot_device_name = pd_device_name public,
        boot_account_master_key = master, boot_auth_signing_key = pd_auth_signing_key public,
        boot_olm_ed25519_key = pd_olm_ed25519_key public, boot_olm_curve25519_key = pd_olm_curve25519_key public,
        boot_certificate_signature = pd_certificate_signature public,
        boot_one_time_keys = map (\<lambda>(i, k). sign_prekey C identity i k) (unpublished_prekeys (en_olm E) machine),
        boot_sas_public_key = ps_public pairing\<rparr>)"

definition new_identity :: "outside \<Rightarrow> 'a terminal_io \<Rightarrow> string \<Rightarrow> string \<Rightarrow> bool \<Rightarrow> DeviceIdentity task" where
  "new_identity W T account device_id first_device =
     perform (outer (secret_at W)) (\<lambda>fresh_master.
     perform (outer (secret_at W)) (\<lambda>fresh_auth.
     give (identity_new account device_id (case io_hostname T of Some n \<Rightarrow> n | None \<Rightarrow> ''terminal'') first_device
       fresh_master fresh_auth)))"

definition login_new :: "outside \<Rightarrow> 'a terminal_io \<Rightarrow> ('a, 's, 'pa, 'ps) env \<Rightarrow> VaultSession \<Rightarrow> string \<Rightarrow> string \<Rightarrow>
    string option \<Rightarrow> string \<Rightarrow> (('a, 's) RuntimeProfile \<times> bool) task" where
  "login_new W T E v server_url username spki_pin device_id =
     perform (prompted T) (\<lambda>password.
     perform (raw_request W (PasswordAuth \<lparr>pauth_username = username, pauth_password = password,
       pauth_device_id = device_id\<rparr>)) (\<lambda>response.
     perform (lifted (authenticated response)) (\<lambda>pre_auth.
     let first_device = (authd_account_master_key pre_auth = []) in
     perform (new_identity W T (authd_account_id pre_auth) device_id first_device) (\<lambda>identity.
     perform (outer (io_account T)) (\<lambda>account.
     let machine = generate_prekeys (en_olm E) 50 (machine_new account) in
     perform (if first_device
              then lifted (case master_public_key (en_crypto E) identity of
                     None \<Rightarrow> bail ''first device did not create an account master key'' | Some k \<Rightarrow> ok k)
              else perform (need (length (authd_account_master_key pre_auth) = 32)
                     ''server did not return the existing account master key'') (\<lambda>_.
                     give (authd_account_master_key pre_auth))) (\<lambda>master.
     perform (outer (secret_at W)) (\<lambda>secret.
     let pairing = pairing_new (en_crypto E) secret in
     perform (raw_request W (bootstrap_request E identity machine master pairing)) (\<lambda>response.
     perform (lifted (authenticated response)) (\<lambda>auth.
     let profile = \<lparr>rp_username = username, rp_account_id = authd_account_id auth, rp_server_url = server_url,
       rp_identity = identity, rp_machine = mark_prekeys_published (en_olm E) machine,
       rp_pending = authd_pending_device auth,
       rp_pairing_secret = (if first_device then None else Some (ps_secret pairing)),
       rp_account_master_public = authd_account_master_key auth, rp_spki_pin = spki_pin,
       rp_server_capabilities = authd_capabilities auth\<rparr> in
     perform (saved W E v profile) (\<lambda>_.
     perform (if authd_password_change_required auth
              then perform (read_new_password T) (\<lambda>new.
                   perform (raw_request W (ChangePassword \<lparr>chg_current_password = password, chg_new_password = new\<rparr>)) (\<lambda>_.
                   give ()))
              else give ()) (\<lambda>_.
     give (profile, authd_pending_device auth))))))))))))"

section \<open>Authentication\<close>

definition challenge_of :: "string \<Rightarrow> Frame \<Rightarrow> AuthChallenge_msg result" where
  "challenge_of message f = (case frame_body f of Some (AuthChallenge c) \<Rightarrow> ok c | _ \<Rightarrow> bail message)"

definition host_of :: "'a terminal_io \<Rightarrow> string \<Rightarrow> string \<Rightarrow> string result" where
  "host_of T message server_url = attempt (io_url_parse T server_url) (\<lambda>u.
     (case url_host_str u of None \<Rightarrow> bail message | Some h \<Rightarrow> ok h))"

definition authenticate :: "outside \<Rightarrow> 'a terminal_io \<Rightarrow> ('a, 's, 'pa, 'ps) env \<Rightarrow> VaultSession \<Rightarrow>
    ('a, 's) RuntimeProfile option \<Rightarrow> string \<Rightarrow> string \<Rightarrow> string option \<Rightarrow> (('a, 's) RuntimeProfile \<times> bool) task" where
  "authenticate W T E v existing server_url username spki_pin =
     perform (dialled T server_url spki_pin) (\<lambda>_.
     perform (case existing of Some p \<Rightarrow> give (id_device_id (rp_identity p)) | None \<Rightarrow> outer (uuid_at W)) (\<lambda>device_id.
     perform (raw_request W (ClientHello \<lparr>hello_username = username, hello_device_id = device_id,
       hello_capabilities = client_capabilities\<rparr>)) (\<lambda>response.
     perform (lifted (challenge_of ''server did not send an authentication challenge'' response)) (\<lambda>challenge.
     perform (lifted (host_of T ''server URL has no host'' server_url)) (\<lambda>domain.
     case existing of
       Some profile \<Rightarrow> login_existing W T E v profile server_url username spki_pin domain device_id challenge
     | None \<Rightarrow> login_new W T E v server_url username spki_pin device_id)))))"

text \<open>
  \<open>main\<close> up to \<open>App::new\<close>: \<open>server\<close>, \<open>username\<close> and \<open>spki_pin\<close> are the arguments of the command line. It gives the
  vault session and what \<open>App::new\<close> starts with.
\<close>

definition unlocked :: "outside \<Rightarrow> ('a, 's, 'pa, 'ps) env \<Rightarrow> unit result \<Rightarrow> string \<Rightarrow> VaultSession task" where
  "unlocked W E backup passphrase s = (let k = ln_clock s in
     case unlock (en_packages E) (now_ms_at W k) (random_at W k 0, random_at W k 1, random_at W k 2, random_at W k 3)
         backup passphrase (ln_store s) of
       Inl e \<Rightarrow> (Inl e, s\<lparr>ln_clock := Suc k\<rparr>)
     | Inr (v, d) \<Rightarrow> (ok v, s\<lparr>ln_store := d, ln_clock := Suc k\<rparr>))"

definition first_some :: "'x option \<Rightarrow> 'x option \<Rightarrow> 'x option" where
  "first_some a b = (case a of Some x \<Rightarrow> Some x | None \<Rightarrow> b)"

definition stored_secret :: "local_db \<Rightarrow> bool" where
  "stored_secret d \<longleftrightarrow> has_vault d \<or> has_profile d"

definition loaded :: "('a, 's, 'pa, 'ps) env \<Rightarrow> VaultSession \<Rightarrow> ('a, 's) RuntimeProfile option task" where
  "loaded E v s = (load_profile (en_packages E) v (ln_store s), s)"

definition prompt_line :: "'a terminal_io \<Rightarrow> string task" where
  "prompt_line T = perform (outer (io_line T)) (\<lambda>r. give (case r of Inl _ \<Rightarrow> [] | Inr line \<Rightarrow> trim line))"

definition client_main :: "outside \<Rightarrow> 'a terminal_io \<Rightarrow> ('a, 's, 'pa, 'ps) env \<Rightarrow> unit result \<Rightarrow> string option \<Rightarrow>
    string option \<Rightarrow> string option \<Rightarrow> (VaultSession \<times> ('a, 's) RuntimeProfile \<times> bool) task" where
  "client_main W T E backup server username spki_pin =
     perform (\<lambda>s. read_local_passphrase T (stored_secret (ln_store s)) s) (\<lambda>passphrase.
     perform (unlocked W E backup passphrase) (\<lambda>v.
     perform (loaded E v) (\<lambda>existing.
     perform (lifted (protocol_v2_url T (case first_some server (map_option rp_server_url existing) of
          Some u \<Rightarrow> u | None \<Rightarrow> ''wss://localhost/v2/ws''))) (\<lambda>server_url.
     perform (case first_some username (map_option rp_username existing) of
          Some u \<Rightarrow> give u | None \<Rightarrow> prompt_line T) (\<lambda>username.
     perform (need (username \<noteq> []) ''username is required'') (\<lambda>_.
     perform (authenticate W T E v existing server_url username
        (first_some spki_pin (Option.bind existing rp_spki_pin))) (\<lambda>(profile, pending).
     perform (saved W E v profile) (\<lambda>_.
     give (v, profile, pending)))))))))"

section \<open>Reconnection\<close>

text \<open>The messages of \<open>establish_reconnect\<close> in UTF-8.\<close>

definition zh_no_challenge :: string where
  "zh_no_challenge = utf8_text [0xE9, 0x87, 0x8D, 0xE8, 0xBF, 0x9E, 0xE6, 0x8F, 0xA1, 0xE6, 0x89, 0x8B, 0xE7, 0xBC, 0xBA, 0xE5,
     0xB0, 0x91, 0xE6, 0x8C, 0x91, 0xE6, 0x88, 0x98]"

definition zh_no_host :: string where
  "zh_no_host = utf8_text [0xE6, 0x9C, 0x8D, 0xE5, 0x8A, 0xA1, 0xE5, 0x99, 0xA8, 0x20, 0x55, 0x52, 0x4C, 0x20, 0xE7, 0xBC,
     0xBA, 0xE5, 0xB0, 0x91, 0xE4, 0xB8, 0xBB, 0xE6, 0x9C, 0xBA, 0xE5, 0x90, 0x8D]"

definition zh_not_authenticated :: string where
  "zh_not_authenticated = utf8_text [0xE9, 0x87, 0x8D, 0xE8, 0xBF, 0x9E, 0xE8, 0xAE, 0xA4, 0xE8, 0xAF, 0x81, 0xE5, 0xA4, 0xB1, 0xE8,
     0xB4, 0xA5]"

definition zh_state_changed :: string where
  "zh_state_changed = utf8_text [0xE9, 0x87, 0x8D, 0xE8, 0xBF, 0x9E, 0xE6, 0x97, 0xB6, 0xE8, 0xB4, 0xA6, 0xE5, 0x8F, 0xB7, 0xE6,
     0x88, 0x96, 0xE8, 0xAE, 0xBE, 0xE5, 0xA4, 0x87, 0xE7, 0x8A, 0xB6, 0xE6, 0x80, 0x81, 0xE5, 0x8F,
     0x91, 0xE7, 0x94, 0x9F, 0xE5, 0x8F, 0x98, 0xE5, 0x8C, 0x96]"

record reconnect_input =
  ri_server_url :: string
  ri_spki_pin :: "string option"
  ri_username :: string
  ri_account_id :: string
  ri_account_master_public :: bytes
  ri_device_id :: string
  ri_identity :: bytes

definition reconnect_input_of :: "('a, 's) RuntimeProfile \<Rightarrow> bytes \<Rightarrow> reconnect_input" where
  "reconnect_input_of p identity = \<lparr>ri_server_url = rp_server_url p, ri_spki_pin = rp_spki_pin p,
     ri_username = rp_username p, ri_account_id = rp_account_id p,
     ri_account_master_public = rp_account_master_public p, ri_device_id = id_device_id (rp_identity p),
     ri_identity = identity\<rparr>"

definition establish_reconnect :: "outside \<Rightarrow> 'a terminal_io \<Rightarrow> ('a, 's, 'pa, 'ps) env \<Rightarrow> reconnect_input \<Rightarrow> string list task" where
  "establish_reconnect W T E input =
     perform (lifted (identity_from_bytes (identity_unpostcard (en_packages E)) (identity_unjson (en_packages E))
       (ri_identity input))) (\<lambda>identity.
     perform (dialled T (ri_server_url input) (ri_spki_pin input)) (\<lambda>_.
     perform (raw_request W (ClientHello \<lparr>hello_username = ri_username input, hello_device_id = ri_device_id input,
       hello_capabilities = client_capabilities\<rparr>)) (\<lambda>response.
     perform (lifted (challenge_of zh_no_challenge response)) (\<lambda>challenge.
     perform (lifted (host_of T zh_no_host (ri_server_url input))) (\<lambda>host.
     perform (raw_request W (DeviceAuth (device_proof (en_crypto E) identity host (ri_username input) (ri_device_id input)
       challenge))) (\<lambda>response.
     perform (case frame_body response of
         Some (Authenticated auth) \<Rightarrow> give auth | _ \<Rightarrow> refuse zh_not_authenticated) (\<lambda>auth.
     perform (need (\<not> (authd_pending_device auth \<or> authd_account_id auth \<noteq> ri_account_id input
          \<or> authd_account_master_key auth \<noteq> ri_account_master_public input)) zh_state_changed) (\<lambda>_.
     give (authd_capabilities auth)))))))))"

end
