(* ===== verification/Client_Login_Properties.thy ===== *)
theory Client_Login_Properties
  imports Client_Login App_Properties
begin

text \<open>
  The properties of logging in: a device that has a profile accepts no answer that names another account,
  and what it sends is a proof of its key for the host that was dialled, and a password only when the server
  has asked for its change.
\<close>

section \<open>Results\<close>

lemma perform_ok: "perform m f s = (ok y, s') \<longleftrightarrow> (\<exists>x s1. m s = (ok x, s1) \<and> f x s1 = (ok y, s'))"
  by (auto simp: perform_def split: prod.split sum.split)

lemma task_ok [simp]:
  "give x s = (ok y, s') \<longleftrightarrow> x = y \<and> s' = s" "refuse m s = (ok y, s') \<longleftrightarrow> False"
  "lifted r s = (ok y, s') \<longleftrightarrow> r = ok y \<and> s' = s" "need b m s = (ok u, s') \<longleftrightarrow> b \<and> s' = s"
  by (auto simp: give_def refuse_def lifted_def need_def)

lemma if_ok: "(if b then m else n) s = r \<longleftrightarrow> (if b then m s = r else n s = r)"
  by simp

section \<open>The account of a profile\<close>

text \<open>What may change in a profile when its device logs in.\<close>

definition same_account :: "('a, 's) RuntimeProfile \<Rightarrow> ('a, 's) RuntimeProfile \<Rightarrow> bool" where
  "same_account p p' \<longleftrightarrow> rp_username p' = rp_username p \<and> rp_account_id p' = rp_account_id p
     \<and> rp_identity p' = rp_identity p \<and> rp_pending p' = rp_pending p \<and> rp_pairing_secret p' = rp_pairing_secret p
     \<and> rp_account_master_public p' = rp_account_master_public p
     \<and> om_sessions (rp_machine p') = om_sessions (rp_machine p)"

lemma same_account_trans: "same_account p p' \<Longrightarrow> same_account p' p'' \<Longrightarrow> same_account p p''"
  by (simp add: same_account_def)

lemma refill_keeps:
  "refill_prekeys W E v p s = (ok p', s') \<Longrightarrow>
   same_account p p' \<and> rp_server_url p' = rp_server_url p \<and> rp_spki_pin p' = rp_spki_pin p"
  by (auto simp: refill_prekeys_def Let_def perform_ok same_account_def generate_prekeys_def mark_prekeys_published_def
      if_ok split: if_splits)

text \<open>The server answered the request \<open>b\<close> made at clock \<open>k\<close> with \<open>Authenticated\<close>.\<close>

definition answered :: "outside \<Rightarrow> nat \<Rightarrow> Body \<Rightarrow> Authenticated_msg \<Rightarrow> bool" where
  "answered W k b auth \<longleftrightarrow> attempt (attempt (reply_at W k (mk_frame (uuid_at W k) b)) answer_of) authenticated = ok auth"

lemma attempt_ok: "attempt r f = ok y \<longleftrightarrow> (\<exists>x. r = ok x \<and> f x = ok y)"
  by (cases r) simp_all

lemma raw_request_ok: "raw_request W b s = (ok f, s') \<longleftrightarrow>
   attempt (reply_at W (ln_clock s) (mk_frame (uuid_at W (ln_clock s)) b)) answer_of = ok f
   \<and> s' = s\<lparr>ln_sent := ln_sent s @ [b], ln_clock := Suc (ln_clock s)\<rparr>"
  by (auto simp: raw_request_def)

lemma raw_answered:
  "raw_request W b s = (ok f, s') \<Longrightarrow> authenticated f = ok auth \<Longrightarrow> answered W (ln_clock s) b auth"
  by (simp add: raw_request_ok answered_def)

lemma refill_capabilities: "refill_prekeys W E v p s = (ok p', s') \<Longrightarrow> rp_server_capabilities p' = rp_server_capabilities p"
  by (auto simp: refill_prekeys_def Let_def perform_ok if_ok split: if_splits)

text \<open>What the answer to the proof must say for the log-in of a registered device to go on.\<close>

definition answer_matches :: "crypto \<Rightarrow> ('a, 's) RuntimeProfile \<Rightarrow> Authenticated_msg \<Rightarrow> bool" where
  "answer_matches C p auth \<longleftrightarrow> authd_account_id auth = rp_account_id p
     \<and> authd_account_master_key auth = rp_account_master_public p
     \<and> (rp_account_master_public p \<noteq> [] \<longrightarrow> (\<forall>k. master_public_key C (rp_identity p) = Some k \<longrightarrow> k = rp_account_master_public p))"

lemma login_device_answer:
  assumes "login_device W T E v p domain username device_id challenge s = (ok (p', pending), s')"
  shows "\<exists>auth. answered W (ln_clock s) (DeviceAuth (device_proof (en_crypto E) (rp_identity p) domain username device_id challenge)) auth
    \<and> answer_matches (en_crypto E) p auth \<and> pending = authd_pending_device auth
    \<and> same_account p p' \<and> rp_server_url p' = rp_server_url p \<and> rp_spki_pin p' = rp_spki_pin p
    \<and> rp_server_capabilities p' = authd_capabilities auth"
proof -
  obtain f s1 auth s2 s3 where req: "raw_request W (DeviceAuth (device_proof (en_crypto E) (rp_identity p) domain username
        device_id challenge)) s = (ok f, s1)" "authenticated f = ok auth"
    and need: "authd_account_id auth = rp_account_id p" "authd_account_master_key auth = rp_account_master_public p"
      "\<not> other_master (en_crypto E) (rp_identity p) (authd_account_master_key auth)"
    and refill: "refill_prekeys W E v (p\<lparr>rp_server_capabilities := authd_capabilities auth\<rparr>) s2 = (ok p', s3)"
    and pending: "pending = authd_pending_device auth"
    using assms unfolding login_device_def by (clarsimp simp only: perform_ok task_ok prod.inject) blast
  from refill_keeps [OF refill] refill_capabilities [OF refill]
  have "same_account p p' \<and> rp_server_url p' = rp_server_url p \<and> rp_spki_pin p' = rp_spki_pin p
    \<and> rp_server_capabilities p' = authd_capabilities auth"
    by (simp add: same_account_def)
  moreover from need have "answer_matches (en_crypto E) p auth"
    by (auto simp: answer_matches_def other_master_def split: option.splits)
  ultimately show ?thesis using raw_answered [OF req] pending by blast
qed

lemma login_pending_answer:
  assumes "login_pending W T p username device_id s = (ok (p', pending), s')"
  shows "\<exists>password auth. io_prompt T (ln_clock s) = ok password
    \<and> answered W (Suc (ln_clock s)) (PasswordAuth \<lparr>pauth_username = username, pauth_password = password,
         pauth_device_id = device_id\<rparr>) auth
    \<and> authd_pending_device auth \<and> authd_account_id auth = rp_account_id p \<and> pending
    \<and> p' = p\<lparr>rp_server_capabilities := authd_capabilities auth\<rparr>"
proof -
  obtain password s1 f s2 auth where pw: "prompted T s = (ok password, s1)"
    and req: "raw_request W (PasswordAuth \<lparr>pauth_username = username, pauth_password = password,
       pauth_device_id = device_id\<rparr>) s1 = (ok f, s2)" "authenticated f = ok auth"
    and need: "authd_pending_device auth" "authd_account_id auth = rp_account_id p" "pending"
      "p' = p\<lparr>rp_server_capabilities := authd_capabilities auth\<rparr>"
    using assms unfolding login_pending_def by (simp only: perform_ok task_ok prod.inject) blast
  from pw have "io_prompt T (ln_clock s) = ok password" "ln_clock s1 = Suc (ln_clock s)"
    by (auto simp: prompted_def outer_def perform_ok)
  with raw_answered [OF req] need show ?thesis by auto
qed

lemma authenticate_existing:
  assumes "authenticate W T E v (Some p) server_url username pin s = (ok (p', pending), s')"
  shows "\<exists>domain challenge. host_of T ''server URL has no host'' server_url = ok domain
    \<and> login_existing W T E v p server_url username pin domain (id_device_id (rp_identity p)) challenge
        (s\<lparr>ln_sent := ln_sent s @ [ClientHello \<lparr>hello_username = username, hello_device_id = id_device_id (rp_identity p),
           hello_capabilities = client_capabilities\<rparr>], ln_clock := Suc (ln_clock s)\<rparr>) = (ok (p', pending), s')"
  using assms unfolding authenticate_def option.case dialled_def
  by (simp only: perform_ok task_ok prod.inject raw_request_ok) blast

text \<open>
  C12. A login keeps the account, whatever the server answers. When a device that has a profile logs in, the
  profile that it goes on with has the user, account, identity, master key and sessions that it had; the
  user name and the address asked for are those of the profile (the address in its current form), and a pin
  that the profile had was also asked for and is kept. The log-in of a registered device succeeds only if
  the server answered the proof of the device, made for the host of the address, with the account of the
  profile and its master key, which is the one that the device holds when it holds one; that of a device
  which still waits for its approval only if the server answered the password with the account of the
  profile and said that the device is pending. Any other answer is an error: no server can move a device
  to another account or master key.
\<close>

theorem login_keeps_account:
  assumes "authenticate W T E v (Some p) server_url username pin s = (ok (p', pending), s')"
  defines "i \<equiv> id_device_id (rp_identity p)"
  shows "same_account p p' \<and> username = rp_username p
    \<and> protocol_v2_url T (rp_server_url p) = ok server_url \<and> rp_server_url p' = server_url
    \<and> (rp_spki_pin p \<noteq> None \<longrightarrow> pin = rp_spki_pin p) \<and> rp_spki_pin p' = pin
    \<and> (\<not> rp_pending p \<longrightarrow> (\<exists>host challenge auth. host_of T ''server URL has no host'' server_url = ok host
        \<and> answered W (Suc (ln_clock s)) (DeviceAuth (device_proof (en_crypto E) (rp_identity p) host username i challenge)) auth
        \<and> answer_matches (en_crypto E) p auth
        \<and> pending = authd_pending_device auth \<and> rp_server_capabilities p' = authd_capabilities auth))
    \<and> (rp_pending p \<longrightarrow> (\<exists>password auth. io_prompt T (Suc (ln_clock s)) = ok password
        \<and> answered W (Suc (Suc (ln_clock s))) (PasswordAuth \<lparr>pauth_username = username, pauth_password = password,
             pauth_device_id = i\<rparr>) auth
        \<and> authd_pending_device auth \<and> authd_account_id auth = rp_account_id p
        \<and> pending \<and> rp_server_capabilities p' = authd_capabilities auth))"
proof -
  let ?q = "p\<lparr>rp_server_url := server_url, rp_spki_pin := (if rp_spki_pin p = None then pin else rp_spki_pin p)\<rparr>"
  let ?s = "s\<lparr>ln_sent := ln_sent s @ [ClientHello \<lparr>hello_username = username, hello_device_id = i,
           hello_capabilities = client_capabilities\<rparr>], ln_clock := Suc (ln_clock s)\<rparr>"
  obtain domain challenge where host: "host_of T ''server URL has no host'' server_url = ok domain"
    and e: "login_existing W T E v p server_url username pin domain i challenge ?s = (ok (p', pending), s')"
    using authenticate_existing [OF assms(1)] unfolding i_def by blast
  have q: "protocol_v2_url T (rp_server_url p) = ok server_url" "rp_username p = username"
      "\<not> (rp_spki_pin p \<noteq> None \<and> rp_spki_pin p \<noteq> pin)"
    and r: "(if rp_pending ?q then login_pending W T ?q username i
      else login_device W T E v ?q domain username i challenge) ?s = (ok (p', pending), s')"
    using e unfolding login_existing_def by (auto simp: perform_ok Let_def)
  have same: "same_account p x \<longleftrightarrow> same_account ?q x" "answer_matches C p auth \<longleftrightarrow> answer_matches C ?q auth" for x C auth
    by (simp_all add: same_account_def answer_matches_def)
  show ?thesis
  proof (cases "rp_pending p")
    case True
    with r login_pending_answer [of W T ?q username i ?s p' pending s'] q show ?thesis
      by (auto simp: same_account_def)
  next
    case False
    with r have "login_device W T E v ?q domain username i challenge ?s = (ok (p', pending), s')" by simp
    from login_device_answer [OF this] obtain auth where
      "answered W (Suc (ln_clock s)) (DeviceAuth (device_proof (en_crypto E) (rp_identity p) domain username i challenge)) auth"
      "answer_matches (en_crypto E) p auth" "pending = authd_pending_device auth" "same_account p p'"
      "rp_server_url p' = server_url" "rp_spki_pin p' = (if rp_spki_pin p = None then pin else rp_spki_pin p)"
      "rp_server_capabilities p' = authd_capabilities auth"
      unfolding same by auto
    moreover from this have "\<exists>host challenge auth. host_of T ''server URL has no host'' server_url = ok host
        \<and> answered W (Suc (ln_clock s)) (DeviceAuth (device_proof (en_crypto E) (rp_identity p) host username i challenge)) auth
        \<and> answer_matches (en_crypto E) p auth
        \<and> pending = authd_pending_device auth \<and> rp_server_capabilities p' = authd_capabilities auth"
      using host by blast
    moreover have "(rp_spki_pin p \<noteq> None \<longrightarrow> pin = rp_spki_pin p) \<and> (if rp_spki_pin p = None then pin else rp_spki_pin p) = pin"
      using q(3) by auto
    ultimately show ?thesis using False q(1,2) by simp
  qed
qed

text \<open>A log-in: a server at localhost that knows the account of the sample profile.\<close>

definition run_profile :: "(nat, nat) RuntimeProfile" where
  "run_profile = sample_profile\<lparr>rp_account_master_public := replicate 32 1\<rparr>"

definition run_stored :: StoredProfile where
  "run_stored = sample_stored\<lparr>sp_account_master_public := replicate 32 1\<rparr>"

definition run_env :: "(nat, nat, nat, nat) env" where
  "run_env = sample_env\<lparr>en_packages := sample_packages\<lparr>lp_olm := toy_olm\<lparr>olm_stored_otk_count := \<lambda>_. 50\<rparr>,
     profile_postcard := (\<lambda>p. if p = run_stored then ok [1] else bail ''x''),
     profile_unpostcard := (\<lambda>e. if e = [1] then Inr run_stored else Inl (OtherPostcard ''x''))\<rparr>\<rparr>"

definition run_answer :: "Frame \<Rightarrow> Frame result" where
  "run_answer f = (case frame_body f of
       Some (ClientHello m) \<Rightarrow> ok (mk_frame (frame_id f) (AuthChallenge \<lparr>chal_nonce = [9], chal_expires_at_ms = 100\<rparr>))
     | Some (DeviceAuth m) \<Rightarrow> ok (mk_frame (frame_id f) (Authenticated \<lparr>authd_account_id = ''acc'',
         authd_username = ''ann'', authd_device_id = ''dev'', authd_password_change_required = False,
         authd_pending_device = False, authd_account_master_key = replicate 32 1, authd_roster_revision = 1,
         authd_bootstrap_mode = BootstrapNone, authd_capabilities = []\<rparr>))
     | _ \<Rightarrow> bail ''x'')"

definition run_outside :: outside where
  "run_outside = sample_outside\<lparr>random_at := \<lambda>_ i. if i = 0 then replicate 32 5 else if i = 1 then replicate 16 3
       else sample_nonce, reply_at := \<lambda>_. run_answer\<rparr>"

definition run_url :: url where
  "run_url = \<lparr>url_scheme = ''ws'', url_username = [], url_password = None, url_fragment = None,
     url_host = Some (Domain ''localhost''), url_host_str = Some ''localhost'', url_path = ''/v2/ws''\<rparr>"

definition run_terminal :: "nat terminal_io" where
  "run_terminal = \<lparr>io_prompt = (\<lambda>_. ok ''pass''), io_line = (\<lambda>_. ok []), io_hostname = None, io_account = (\<lambda>_. 7),
     io_url_parse = (\<lambda>_. ok run_url), io_url_string = (\<lambda>_. ''ws://localhost''), io_hex = (\<lambda>_. None),
     io_dial = (\<lambda>_ _. ok ())\<rparr>"

lemma run_login:
  "\<exists>sent. authenticate run_outside run_terminal run_env v (Some run_profile) ''ws://localhost'' ''ann'' None s
     = (ok (run_profile, False), s\<lparr>ln_sent := sent, ln_clock := ln_clock s + 2\<rparr>)"
  by (simp add: authenticate_def login_existing_def login_device_def dialled_def perform_def lifted_def give_def need_def
      raw_request_def refill_prekeys_def Let_def connect_def validate_server_url_def url_option_def run_url_def
      loopback_host_def run_terminal_def run_outside_def run_answer_def answer_of_def mk_frame_def challenge_of_def host_of_def
      authenticated_def protocol_v2_url_def run_profile_def sample_profile_def run_env_def sample_env_def
      sample_packages_def other_master_def master_public_key_def sample_identity_def model_crypto_def pad_to_def
      stored_prekey_count_def toy_olm_def eq_ignore_ascii_case_def to_ascii_lowercase_def ascii_lower_char_def is_ascii_upper_def)
    (rule exI, rule refl)

theorem login_keeps_account_witness:
  "\<exists>p' s'. authenticate run_outside run_terminal run_env sample_vault (Some run_profile) ''ws://localhost'' ''ann'' None
       \<lparr>ln_store = empty_store, ln_sent = [], ln_clock = 0\<rparr> = (ok (p', False), s') \<and> same_account run_profile p'
     \<and> rp_server_url p' = ''ws://localhost''"
  using run_login [of sample_vault "\<lparr>ln_store = empty_store, ln_sent = [], ln_clock = 0\<rparr>"] login_keeps_account by metis

section \<open>What a log-in sends\<close>


lemma sent_basic [simp]:
  "snd (give x s) = s" "snd (refuse m s) = s" "snd (lifted r s) = s" "snd (need b m s) = s" "fst (lifted r s) = r"
  "fst (need b m s) = (if b then ok () else bail m)" "fst (give x s) = ok x" "fst (refuse m s) = bail m"
  by (simp_all add: give_def refuse_def lifted_def need_def)



















end
