(* ===== verification/Client_Run.thy ===== *)
theory Client_Run
  imports Client_Login_Properties App_Safety
begin

text \<open>
  The client from its start to its end: \<open>main\<close> unlocks the store, logs in and saves the profile, then the
  application runs on that store (\<open>crates/client/src/main.rs\<close> and \<open>app.rs\<close> together).
\<close>

section \<open>What a login does to the store\<close>

definition task_moves :: "(local_db \<Rightarrow> local_db \<Rightarrow> bool) \<Rightarrow> 'x task \<Rightarrow> bool" where
  "task_moves R m \<longleftrightarrow> (\<forall>s. R (ln_store s) (ln_store (snd (m s))))"

text \<open>A login writes to the store only by saving a profile.\<close>

locale login_relation =
  fixes P :: "('a, 's, 'pa, 'ps) local_packages" and R :: "local_db \<Rightarrow> local_db \<Rightarrow> bool"
  assumes R_refl: "R d d" and R_trans: "R d d1 \<Longrightarrow> R d1 d2 \<Longrightarrow> R d d2"
    and R_save: "save_profile P now n v p d = ok d' \<Longrightarrow> R d d'"
begin

lemma moves_basic: "task_moves R (give x)" "task_moves R (refuse e)" "task_moves R (lifted r)"
  "task_moves R (need b e)" "task_moves R (outer f)"
  "task_moves R (raw_request W body)" "task_moves R (loaded E v)"
  by (simp_all add: task_moves_def give_def refuse_def lifted_def need_def outer_def raw_request_def loaded_def R_refl)

lemma moves_perform: "task_moves R m \<Longrightarrow> (\<And>x. task_moves R (f x)) \<Longrightarrow> task_moves R (perform m f)"
  unfolding task_moves_def perform_def by (auto split: prod.split sum.split intro: R_trans) (metis R_trans snd_conv)

lemma moves_if: "task_moves R m \<Longrightarrow> task_moves R n \<Longrightarrow> task_moves R (if b then m else n)"
  by simp

lemma moves_saved: "en_packages E = P \<Longrightarrow> task_moves R (saved W E v p)"
  by (auto simp: task_moves_def saved_def R_refl split: sum.split intro: R_save)

lemma moves_option: "task_moves R m \<Longrightarrow> (\<And>x. task_moves R (f x)) \<Longrightarrow> task_moves R (case z of None \<Rightarrow> m | Some x \<Rightarrow> f x)"
  by (cases z) auto

lemmas moves_rules = moves_basic moves_perform moves_if moves_saved moves_option

lemma moves_prompted: "task_moves R (prompted T)"
  unfolding prompted_def by (intro moves_rules)

lemma moves_dialled: "task_moves R (dialled T u pin)"
  unfolding dialled_def by (rule moves_rules)

lemma moves_new_password: "task_moves R (read_new_password T)"
  unfolding read_new_password_def by (intro moves_rules moves_prompted)

lemma moves_passphrase: "task_moves R (read_local_passphrase T b)"
  unfolding read_local_passphrase_def by (intro moves_rules moves_prompted)

lemma moves_change_password: "task_moves R (change_password W T)"
  unfolding change_password_def by (intro moves_rules moves_prompted moves_new_password)

lemma moves_refill: "en_packages E = P \<Longrightarrow> task_moves R (refill_prekeys W E v p)"
  unfolding refill_prekeys_def Let_def by (intro moves_rules)

lemma moves_login_pending: "task_moves R (login_pending W T p u d)"
  unfolding login_pending_def by (intro moves_rules moves_prompted)

lemma moves_login_device: "en_packages E = P \<Longrightarrow> task_moves R (login_device W T E v p host u d c)"
  unfolding login_device_def by (intro moves_rules moves_change_password moves_refill)

lemma moves_login_existing: "en_packages E = P \<Longrightarrow> task_moves R (login_existing W T E v p url u pin host d c)"
  unfolding login_existing_def Let_def by (intro moves_rules moves_login_pending moves_login_device)

lemma moves_new_identity: "task_moves R (new_identity W T a d f)"
  unfolding new_identity_def by (intro moves_rules)

lemma moves_login_new: "en_packages E = P \<Longrightarrow> task_moves R (login_new W T E v url u pin d)"
  unfolding login_new_def Let_def by (intro moves_rules moves_prompted moves_new_identity moves_new_password)

lemma moves_authenticate: "en_packages E = P \<Longrightarrow> task_moves R (authenticate W T E v existing url u pin)"
  unfolding authenticate_def by (intro moves_rules moves_dialled moves_login_existing moves_login_new)

lemma moves_prompt_line: "task_moves R (prompt_line T)"
  unfolding prompt_line_def by (intro moves_rules)

lemma moved: "task_moves R m \<Longrightarrow> m s = (r, s') \<Longrightarrow> R (ln_store s) (ln_store s')"
  unfolding task_moves_def by (metis snd_conv)

end

text \<open>Nothing but the profile.\<close>

definition other_profile :: "local_db \<Rightarrow> local_db \<Rightarrow> bool" where
  "other_profile d d' \<longleftrightarrow> d' = d\<lparr>lo_profile := lo_profile d'\<rparr>"

lemma other_profile_trans: "other_profile d d1 \<Longrightarrow> other_profile d1 d2 \<Longrightarrow> other_profile d d2"
  unfolding other_profile_def by (cases d; cases d1; cases d2) simp

lemma other_profile_vault: "other_profile d d' \<Longrightarrow> lo_vault d' = lo_vault d"
  unfolding other_profile_def by (drule arg_cong [of _ _ lo_vault]) simp

interpretation profile_only: login_relation P other_profile for P
  by unfold_locales (auto simp: save_profile_def attempt_ok_iff upsert_profile_def intro: other_profile_trans,
      simp_all add: other_profile_def)

section \<open>The vault\<close>

lemma vault_kept:
  "upsert_tombstone t s = ok s' \<Longrightarrow> lo_vault s' = lo_vault s"
  "insert_message m s = ok s' \<Longrightarrow> lo_vault s' = lo_vault s"
  "put_contact c s = ok s' \<Longrightarrow> lo_vault s' = lo_vault s"
  "upsert_notification k n s = ok s' \<Longrightarrow> lo_vault s' = lo_vault s"
  by (auto simp: upsert_tombstone_def insert_message_def put_contact_def upsert_notification_def attempt_ok_iff
      split: if_splits option.splits)

lemma vault_same:
  "lo_vault (delete_conversation_state peer conversation s) = lo_vault s"
  "lo_vault (set_status_where q new s) = lo_vault s"
  by (auto simp: delete_conversation_state_def set_status_where_def)

lemma import_contacts_vault: "import_contacts P now cs s = ok s' \<Longrightarrow> lo_vault s' = lo_vault s"
  unfolding import_contacts_def
  by (erule fold_result_ok [where Q = "\<lambda>s'. lo_vault s' = lo_vault s"])
    (auto simp: import_contact_def attempt_ok_iff dest: vault_kept)

lemma upsert_contact_vault: "upsert_contact P now b s = ok (c, s') \<Longrightarrow> lo_vault s' = lo_vault s"
  by (auto simp: upsert_contact_def attempt_ok_iff Let_def split: option.splits dest: vault_kept)

lemma import_messages_vault: "lo_vault (snd (import_messages P nonces v ms s)) = lo_vault s"
  by (induction ms arbitrary: s)
    (auto simp: save_message_def attempt_ok_iff split: sum.split dest: vault_kept)

lemma migrate_rows_vault: "lo_vault (snd (migrate_rows P nonces v rs n s)) = lo_vault s"
  by (induction rs arbitrary: n s) (auto split: sum.split)

lemma unlock_vault: "unlock P now fresh backup pass s = ok (v, s') \<Longrightarrow> lo_vault s \<noteq> None \<Longrightarrow> s' = s"
  by (auto simp: unlock_def attempt_ok_iff)

text \<open>No step changes the vault of a store that has one.\<close>

lemma local_step_vault:
  assumes "local_step P conv s s'" "lo_vault s \<noteq> None"
  shows "lo_vault s' = lo_vault s"
  using assms
proof (cases rule: local_step.cases)
  case (unlock now fresh backup p v)
  then show ?thesis using assms(2) by (auto dest: unlock_vault)
next
  case (delete_everywhere peer name c e t)
  then show ?thesis by (auto simp: delete_conversation_everywhere_def vault_same dest: vault_kept)
next
  case (commit_deletion now n v p t cursor)
  then show ?thesis
    by (auto simp: commit_conversation_deletion_def attempt_ok_iff upsert_defs vault_same dest!: vault_kept)
qed (auto simp: commit_defs attempt_ok_iff upsert_defs save_draft_def save_message_def verify_contact_def
    migrate_rows_vault import_messages_vault save_ui_preference_def
    mark_conversation_deletion_synced_def remove_outbox_def set_cursors_def update_notification_state_def
    mark_notification_read_def delete_notification_def mark_pairing_event_processed_def
    update_status_def update_outbound_status_for_peer_def vault_same split: if_splits
    dest!: vault_kept(2,4) import_contacts_vault upsert_contact_vault)

lemma store_moves_vault: "store_moves P d d' \<Longrightarrow> lo_vault d \<noteq> None \<Longrightarrow> lo_vault d' = lo_vault d"
proof (induction rule: rtranclp_induct)
  case (step d1 d2)
  then obtain conv where "local_step P conv d1 d2" by (auto simp: store_move_def)
  with step local_step_vault [of P conv d1 d2] show ?case by simp
qed simp

section \<open>A start\<close>

lemma outer_ok: "outer f s = (ok x, s') \<longleftrightarrow> x = f (ln_clock s) \<and> s' = s\<lparr>ln_clock := Suc (ln_clock s)\<rparr>"
  by (auto simp: outer_def)

lemma prompted_ok: "prompted T s = (ok x, s') \<longleftrightarrow> io_prompt T (ln_clock s) = ok x \<and> s' = s\<lparr>ln_clock := Suc (ln_clock s)\<rparr>"
  by (auto simp: prompted_def perform_ok outer_ok)

lemma read_local_passphrase_ok:
  "read_local_passphrase T b s = (ok pass, s') \<Longrightarrow> io_prompt T (ln_clock s) = ok pass \<and> ln_store s' = ln_store s"
  by (auto simp: read_local_passphrase_def perform_ok prompted_ok if_ok split: if_splits)

lemma prompt_line_store: "ln_store (snd (prompt_line T s)) = ln_store s"
  by (simp add: prompt_line_def perform_def outer_def give_def)

lemma saved_ok:
  assumes "saved W E v p s = (ok (), s')"
  shows "\<exists>now k. save_profile (en_packages E) now (random_at W k 4) v p (ln_store s) = ok (ln_store s')"
  using assms by (auto simp: saved_def split: sum.splits) blast

lemma client_main_ok:
  assumes "client_main W T E b server name pin s = (ok (v, p, pending), s')"
  obtains pass s1 s2 sa s3 existing url u pin' where "io_prompt T (ln_clock s) = ok pass" "ln_store s1 = ln_store s"
    "unlocked W E b pass s1 = (ok v, s2)" "ln_store sa = ln_store s2"
    "authenticate W T E v existing url u pin' sa = (ok (p, pending), s3)" "saved W E v p s3 = (ok (), s')"
proof -
  obtain pass s1 s2 existing s2' url u sa s3 where m: "read_local_passphrase T (stored_secret (ln_store s)) s = (ok pass, s1)"
      "unlocked W E b pass s1 = (ok v, s2)" "loaded E v s2 = (ok existing, s2')"
      "(case first_some name (map_option rp_username existing) of
          Some u \<Rightarrow> give u | None \<Rightarrow> prompt_line T) s2' = (ok u, sa)"
      "authenticate W T E v existing url u (first_some pin (Option.bind existing rp_spki_pin)) sa = (ok (p, pending), s3)"
      "saved W E v p s3 = (ok (), s')"
    using assms unfolding client_main_def by (clarsimp simp: perform_ok)
  have "ln_store sa = ln_store s2"
    using m(3,4) prompt_line_store [of T s2'] by (auto simp: loaded_def split: option.splits)
  with m read_local_passphrase_ok [OF m(1)] that show ?thesis by metis
qed

lemma unlocked_ok:
  assumes "unlocked W E b pass s = (ok v, s')"
  shows "\<exists>k now. unlock (en_packages E) now (random_at W k 0, random_at W k 1, random_at W k 2, random_at W k 3) b pass
    (ln_store s) = ok (v, ln_store s')"
  using assms by (auto simp: unlocked_def Let_def split: sum.splits) blast

text \<open>The vault that a session has unlocked opens again, for the same key, as long as it stays as it is.\<close>

lemma unlock_again:
  assumes "unlock P now (data_key, salt, wrap_nonce, profile_nonce) b pass s = ok (v, s1)" "aead_correct (lp_crypto P)"
    and "length data_key = 32" "length salt = 16" "length wrap_nonce = 24" "lo_vault s2 = lo_vault s1"
  shows "\<exists>v'. unlock P now' fresh' b' pass s2 = ok (v', s2) \<and> vs_key v' = vs_key v"
proof (cases "lo_vault s")
  case None
  from unlock_created_vault [OF assms(1) None assms(2-6)] show ?thesis .
next
  case (Some row)
  moreover from this have "lo_vault s2 = Some row" using unlock_vault [OF assms(1)] assms(6) by simp
  ultimately show ?thesis using assms(1) by (auto simp: unlock_def attempt_ok_iff)
qed

lemma unlock_has_vault: "unlock P now fresh b pass s = ok (v, s') \<Longrightarrow> lo_vault s' \<noteq> None"
  by (auto simp: unlock_def attempt_ok_iff split: option.splits prod.splits)

section \<open>A sample start\<close>

definition run_db :: local_db where
  "run_db = empty_store\<lparr>lo_profile := Some \<lparr>pf_encrypted_blob =
       blob_to_bytes \<lparr>blob_version = 2, blob_salt = replicate 16 0, blob_nonce = sample_nonce,
         blob_ciphertext = 10 # as_bytes ''profile/v1'' @ as_bytes ''TCP4'' @ [1]\<rparr>,
       pf_updated_at_ms = 1, pf_encryption_version = 2\<rparr>,
     lo_vault := Some \<lparr>vr_wrapped_key = wrapped_to_bytes \<lparr>wvk_version = 2, wvk_salt = replicate 16 3,
         wvk_nonce = replicate 24 4, wvk_ciphertext = 21 # VAULT_KEY_AAD @ replicate 32 5\<rparr>, vr_created_at_ms = 1\<rparr>\<rparr>"

definition run_begin :: login where
  "run_begin = \<lparr>ln_store = run_db, ln_sent = [], ln_clock = 0\<rparr>"

lemma run_packages_ok: "packages_ok (en_packages run_env)"
  by (auto simp: packages_ok_def run_env_def sample_env_def sample_packages_def toy_olm_def toy_postcard_def
      toy_unpostcard_def split: if_splits)

lemma run_encode:
  "encode_profile (en_packages run_env) sample_nonce sample_vault run_profile =
     ok (pf_encrypted_blob (the (lo_profile run_db)))"
  by (simp add: encode_profile_def identity_to_bytes_def machine_to_bytes_def session_encrypt_def vault_encrypt_def
      run_env_def sample_env_def sample_packages_def run_profile_def sample_profile_def sample_identity_def toy_postcard_def
      sample_vault_def toy_olm_def sample_pickle_def run_stored_def sample_stored_def model_crypto_def run_db_def)

lemma run_load: "lo_profile d = lo_profile run_db \<Longrightarrow>
  load_profile (en_packages run_env) sample_vault d = ok (Some run_profile)"
  using decode_encoded_profile [OF run_packages_ok run_encode _ refl]
  by (simp add: load_profile_def sample_nonce_def) (simp add: run_db_def)

lemma run_unlock: "unlock (en_packages run_env) now fresh b ''pass'' run_db = ok (sample_vault, run_db)"
proof -
  have "wrapped_from_bytes (wrapped_unjson (en_packages run_env)) (vr_wrapped_key (the (lo_vault run_db))) =
      ok \<lparr>wvk_version = 2, wvk_salt = replicate 16 3,
         wvk_nonce = replicate 24 4, wvk_ciphertext = 21 # VAULT_KEY_AAD @ replicate 32 5\<rparr>"
    by (simp add: run_db_def wrapped_from_to_bytes wrapped_wf_def)
  moreover have "vault_unlock model_crypto ''pass'' \<lparr>wvk_version = 2, wvk_salt = replicate 16 3,
      wvk_nonce = replicate 24 4, wvk_ciphertext = 21 # VAULT_KEY_AAD @ replicate 32 5\<rparr> = ok (replicate 32 5)"
    by (simp add: vault_unlock_def derive_key_def model_crypto_def VAULT_KEY_AAD_def starts_with_def)
  ultimately show ?thesis
    by (simp add: unlock_def run_db_def run_env_def sample_env_def sample_packages_def sample_vault_def
        empty_store_def legacy_count_def legacy_messages_def)
qed

lemma run_started:
  "\<exists>s' now. client_main run_outside run_terminal run_env (ok ()) None None None run_begin
       = (ok (sample_vault, run_profile, False), s')
     \<and> ln_store s' = run_db\<lparr>lo_profile := Some ((the (lo_profile run_db))\<lparr>pf_updated_at_ms := now\<rparr>)\<rparr>"
proof -
  have pass: "read_local_passphrase run_terminal (stored_secret run_db) run_begin = (ok ''pass'', run_begin\<lparr>ln_clock := Suc 0\<rparr>)"
    by (simp add: read_local_passphrase_def perform_def prompted_def outer_def lifted_def need_def give_def run_terminal_def
        run_begin_def stored_secret_def has_vault_def run_db_def char_count_def)
  have vault: "unlocked run_outside run_env (ok ()) ''pass'' (run_begin\<lparr>ln_clock := Suc 0\<rparr>)
      = (ok sample_vault, run_begin\<lparr>ln_clock := 2\<rparr>)"
    by (simp add: unlocked_def Let_def run_begin_def run_unlock)
  obtain sent where login: "authenticate run_outside run_terminal run_env sample_vault (Some run_profile) ''ws://localhost'' ''ann''
      None (run_begin\<lparr>ln_clock := 2\<rparr>) = (ok (run_profile, False), run_begin\<lparr>ln_sent := sent, ln_clock := 4\<rparr>)"
    using run_login [of sample_vault "run_begin\<lparr>ln_clock := 2\<rparr>"] by (auto simp: run_begin_def)
  have url: "protocol_v2_url run_terminal ''ws://localhost'' = ok ''ws://localhost''"
    by (simp add: protocol_v2_url_def run_terminal_def)
  have fields: "rp_server_url run_profile = ''ws://localhost''" "rp_username run_profile = ''ann''" "rp_spki_pin run_profile = None"
    by (simp_all add: run_profile_def sample_profile_def)
  have nonce: "random_at run_outside 4 4 = sample_nonce" by (simp add: run_outside_def)
  have st: "ln_store run_begin = run_db" by (simp add: run_begin_def)
  show ?thesis
    by (simp add: client_main_def perform_def pass vault loaded_def run_load st fields first_some_def url lifted_def give_def
        need_def login saved_def save_profile_def nonce run_encode upsert_profile_def)
      (simp add: run_db_def, rule exI, rule refl)
qed

lemma run_app: "lo_contacts d = [] \<Longrightarrow> lo_notifications d = [] \<Longrightarrow> lo_outbox d = [] \<Longrightarrow>
  \<exists>a. app_run sample_outside run_env d sample_vault run_profile (Some 0, a)"
proof -
  assume d: "lo_contacts d = []" "lo_notifications d = []" "lo_outbox d = []"
  let ?a = "new_app d sample_vault run_profile True [] [] 0"
  have "fst (app_start sample_outside run_env ?a) = Inr ()"
    by (simp add: app_start_def await_def restore_pairing_state_from_notifications_def finish_def update_def
        resend_outbox_def view_def instant_now_def ignore_def new_app_def run_profile_def sample_profile_def
        restore_pairing_requests_from_notifications_def outbox_def d tick_def)
  then have "app_new sample_outside run_env d sample_vault run_profile True =
      Inr (snd (app_start sample_outside run_env ?a))"
    by (cases "app_start sample_outside run_env ?a")
      (simp add: app_new_def contacts_def notifications_def d sample_outside_def)
  then show ?thesis by (blast intro: app_run.Started)
qed

lemma run_completes:
  "\<exists>s' a. client_main run_outside run_terminal run_env (ok ()) None None None run_begin
       = (ok (sample_vault, run_profile, False), s')
     \<and> app_run sample_outside run_env (ln_store s') sample_vault run_profile (Some 0, a)"
proof -
  obtain s' now where s': "client_main run_outside run_terminal run_env (ok ()) None None None run_begin
       = (ok (sample_vault, run_profile, False), s')"
     "ln_store s' = run_db\<lparr>lo_profile := Some ((the (lo_profile run_db))\<lparr>pf_updated_at_ms := now\<rparr>)\<rparr>"
    using run_started by blast
  then show ?thesis using run_app [of "ln_store s'"] by (auto simp: run_db_def empty_store_def)
qed

section \<open>Restart\<close>

text \<open>The random values of a login have the lengths that the code draws.\<close>

definition drawn_lengths :: "outside \<Rightarrow> bool" where
  "drawn_lengths W \<longleftrightarrow> (\<forall>k. length (random_at W k 0) = 32 \<and> length (random_at W k 1) = 16 \<and> length (random_at W k 2) = 24
     \<and> length (random_at W k 4) = 24)"

text \<open>
  C10. The client resumes where it stopped. When \<open>main\<close> has unlocked the store with the passphrase that the
  user typed (or has created the vault with it), has logged in and the application has run, to whatever
  event, error or crash, then a later start with the same passphrase unlocks the store and finds a
  profile whose Olm machine is exactly the one that the application had in memory.
\<close>

theorem client_resumes:
  assumes main: "client_main W T E b server name pin s = (ok (v, p, pending), s')"
    and run: "app_run W' E (ln_store s') v p (h, a)"
    and codecs: "packages_ok (en_packages E)"
    and random: "drawn_lengths W" "\<forall>k i. length (random_at W' k i) = 24"
  shows "\<exists>pass v' p'. io_prompt T (ln_clock s) = ok pass
    \<and> unlock (en_packages E) now fresh b' pass (ap_store a) = ok (v', ap_store a)
    \<and> load_profile (en_packages E) v' (ap_store a) = ok (Some p') \<and> rp_machine p' = rp_machine (ap_profile a)"
proof -
  obtain pass s1 s2 sa s3 existing url u pin' where m: "io_prompt T (ln_clock s) = ok pass" "ln_store s1 = ln_store s"
    "unlocked W E b pass s1 = (ok v, s2)" "ln_store sa = ln_store s2"
    "authenticate W T E v existing url u pin' sa = (ok (p, pending), s3)" "saved W E v p s3 = (ok (), s')"
    by (rule client_main_ok [OF main])
  obtain k0 now0 where u: "unlock (en_packages E) now0 (random_at W k0 0, random_at W k0 1, random_at W k0 2, random_at W k0 3)
      b pass (ln_store s1) = ok (v, ln_store s2)"
    using unlocked_ok [OF m(3)] by blast
  obtain now1 k1 where sv: "save_profile (en_packages E) now1 (random_at W k1 4) v p (ln_store s3) = ok (ln_store s')"
    using saved_ok [OF m(6)] by blast
  have "profile_written W' E v p (ln_store s')"
    using sv random(1) by (auto simp: save_profile_def attempt_ok_iff drawn_nonce_def drawn_lengths_def
        intro: written_upsert_profile [of W' "random_at W k1 4" _ _ _ _ _ now1 "ln_store s3"])
  then obtain p' where p': "\<And>v'. vs_key v' = vs_key v \<Longrightarrow> load_profile (en_packages E) v' (ap_store a) = ok (Some p')"
      "rp_machine p' = rp_machine (ap_profile a)"
    using durable_profile_read [OF run _ refl codecs random(2)] by blast
  have aead: "aead_correct (en_crypto E)" using codecs by (simp add: packages_ok_def)
  have "store_moves (en_packages E) (ln_store s') (ap_store a)"
    using storage.run_related [OF run] by (auto simp: initial_def new_app_def moves_store_def)
  moreover have "other_profile (ln_store s2) (ln_store s3)"
    using profile_only.moved [OF profile_only.moves_authenticate [OF refl] m(5)] m(4) by simp
  then have "lo_vault (ln_store s3) = lo_vault (ln_store s2)"
    by (rule other_profile_vault)
  then have "lo_vault (ln_store s') = lo_vault (ln_store s2)"
    using other_profile_vault [OF profile_only.R_save [OF sv]] by simp
  ultimately have "lo_vault (ap_store a) = lo_vault (ln_store s2)"
    using store_moves_vault [of "en_packages E" "ln_store s'" "ap_store a"] unlock_has_vault [OF u] by simp
  then obtain v' where v': "unlock (en_packages E) now fresh b' pass (ap_store a) = ok (v', ap_store a)" "vs_key v' = vs_key v"
    using unlock_again [OF u aead, of "ap_store a"] random(1) unfolding drawn_lengths_def by blast
  with m(1) p' show ?thesis by blast
qed

theorem client_resumes_witness:
  "\<exists>s' a v' p'. client_main run_outside run_terminal run_env (ok ()) None None None run_begin
       = (ok (sample_vault, run_profile, False), s')
     \<and> app_run sample_outside run_env (ln_store s') sample_vault run_profile (Some 0, a)
     \<and> unlock (en_packages run_env) 9 ([], [], [], []) (ok ()) ''pass'' (ap_store a) = ok (v', ap_store a)
     \<and> load_profile (en_packages run_env) v' (ap_store a) = ok (Some p') \<and> rp_machine p' = rp_machine (ap_profile a)"
proof -
  obtain s' a where s': "client_main run_outside run_terminal run_env (ok ()) None None None run_begin
       = (ok (sample_vault, run_profile, False), s')"
    and a: "app_run sample_outside run_env (ln_store s') sample_vault run_profile (Some 0, a)"
    using run_completes by blast
  have w: "drawn_lengths run_outside" "\<forall>k i. length (random_at sample_outside k i) = 24"
    by (simp_all add: drawn_lengths_def run_outside_def sample_outside_def sample_nonce_def)
  obtain pass v' p' where "unlock (en_packages run_env) 9 ([], [], [], []) (ok ()) pass (ap_store a) = ok (v', ap_store a)"
      "load_profile (en_packages run_env) v' (ap_store a) = ok (Some p')" "rp_machine p' = rp_machine (ap_profile a)"
      "io_prompt run_terminal (ln_clock run_begin) = ok pass"
    using client_resumes [OF s' a run_packages_ok w, of 9 "([], [], [], [])" "ok ()"] by blast
  moreover from this have "pass = ''pass''" by (simp add: run_terminal_def)
  ultimately show ?thesis using a s' by blast
qed

end
