(* ===== verification/Client_Server.thy ===== *)
theory Client_Server
  imports Client_Login Ws_Auth
begin

text \<open>
  The client and the server together: the handshake of a device that is registered. The challenge that the
  client signs (\<open>login_device\<close> and \<open>establish_reconnect\<close>) is the one that the server has sent, and its proof goes to
  the server that checks it (\<open>handle_client_hello\<close> and \<open>handle_device_auth\<close> in \<open>crates/server/src/ws.rs\<close>).
\<close>

section \<open>The handshake\<close>

text \<open>The answer to the client is the last frame that its connection has been sent.\<close>

definition answered :: "ConnectionContext \<Rightarrow> AppState \<Rightarrow> Frame result" where
  "answered ctx w = (case rev (filter (\<lambda>(t, f). t = ctx_token ctx) (st_sent w)) of
     [] \<Rightarrow> bail ''no answer'' | (t, f) # _ \<Rightarrow> ok f)"

definition greeting :: "string \<Rightarrow> string \<Rightarrow> ClientHello_msg" where
  "greeting username device_id = \<lparr>hello_username = username, hello_device_id = device_id,
     hello_capabilities = client_capabilities\<rparr>"

definition handshake :: "services \<Rightarrow> moment \<Rightarrow> moment \<Rightarrow> ConnectionContext \<Rightarrow> string \<Rightarrow> string \<Rightarrow> DeviceIdentity \<Rightarrow>
    string \<Rightarrow> string \<Rightarrow> unit handler" where
  "handshake S mo mo' ctx i i' identity host username =
     and_then (handle_client_hello S mo ctx i (greeting username (id_device_id identity))) (\<lambda>_.
     and_then (ask (answered ctx)) (\<lambda>answer.
     and_then (lift_result (attempt answer (challenge_of ''no challenge''))) (\<lambda>challenge.
     handle_device_auth S mo' ctx i'
       (device_proof (svc_crypto S) identity host username (id_device_id identity) challenge))))"

lemma register_closed [simp]: "st_closed (register ses t ip now w) = st_closed w"
  by (simp add: register_def Let_def disconnect_send_def split: option.splits)

lemma answered_last: "answered ctx (w\<lparr>st_sent := st_sent w @ [(ctx_token ctx, f)]\<rparr>) = ok f"
  by (simp add: answered_def)

lemma client_capabilities_valid: "(32 < length client_capabilities) = False"
  "(\<exists>c \<in> set client_capabilities. c = [] \<or> 64 < length c) = False"
  "(\<forall>c \<in> set client_capabilities. c \<noteq> [] \<and> \<not> 64 < length c) = True"
  by (simp_all add: client_capabilities_def CAPABILITY_OWN_DEVICES_def CAPABILITY_STABLE_ERRORS_def)

lemma wp_equivI: "wp m (\<lambda>_ s'. A \<and> P s') (\<lambda>_ _. \<not> A) s \<Longrightarrow> (fst (m s) = ok () \<longleftrightarrow> A) \<and> (A \<longrightarrow> P (snd (m s)))"
  for m :: "unit handler"
  by (auto simp: wp_def split: prod.splits sum.splits)

definition session_of :: "Account \<Rightarrow> string \<Rightarrow> hstate \<Rightarrow> bool" where
  "session_of account device_id s \<longleftrightarrow> (\<exists>ses. cn_session (snd s) = Some ses \<and> ses_account ses = account
     \<and> ses_device_id ses = device_id \<and> \<not> ses_pending ses)"

text \<open>What the server has to know of the device.\<close>

definition registered :: "crypto \<Rightarrow> DeviceIdentity \<Rightarrow> Account \<Rightarrow> database \<Rightarrow> bool" where
  "registered C identity account d \<longleftrightarrow> acct_state account = ''active''
     \<and> device (acct_id account) (id_device_id identity) d
         = Some \<lparr>dev_auth_signing_key = ed_public C (id_auth identity), dev_pending = False, dev_revoked = False\<rparr>"

text \<open>
  C11. A registered device logs in exactly when its user name is spelled as the server stores it. A device that
  is registered with the key of its identity, for an active account, says hello with a user name that the
  server maps to this account, signs the challenge it is sent for the host it has dialled, and sends the proof before the
  challenge expires. If the host is the domain of the server and the name is the stored one, the server
  accepts and the connection has a session of this account and device. If the name is another spelling
  (upper case letters are lowered in the hello, but signed as they are by the client), the server refuses
  the proof, provided a signature of the one text is none of the other.
\<close>

theorem registered_device_logs_in:
  assumes "ed25519_correct (svc_crypto S)" "host = st_domain (fst s)" "valid_uuid S (id_device_id identity)"
    and "normalize_username username = ok name" "account_by_username name (st_db (fst s)) = Some account"
    and "registered (svc_crypto S) identity account (st_db (fst s))"
    and "cn_session (snd s) = None" "ctx_token ctx \<notin> set (st_closed (fst s))" "mo_now_ms mo' \<le> mo_now_ms mo + 30000"
    and "username \<noteq> acct_username account \<Longrightarrow>
      \<not> ed_verify_strict (svc_crypto S) (ed_public (svc_crypto S) (id_auth identity))
        (auth_challenge_payload host (acct_username account) (id_device_id identity)
          (take 32 (mo_random mo)) (mo_now_ms mo + 30000))
        (ed_sign (svc_crypto S) (id_auth identity)
          (auth_challenge_payload host username (id_device_id identity)
            (take 32 (mo_random mo)) (mo_now_ms mo + 30000)))"
  shows "(fst (handshake S mo mo' ctx i i' identity host username s) = ok ()
        \<longleftrightarrow> username = acct_username account)
    \<and> (username = acct_username account \<longrightarrow>
        session_of account (id_device_id identity) (snd (handshake S mo mo' ctx i i' identity host username s)))"
proof (rule wp_equivI)
  have c: "length (ed_public (svc_crypto S) k) = 32" "length (ed_sign (svc_crypto S) k m) = 64"
    "ed_verify_strict (svc_crypto S) (ed_public (svc_crypto S) k) m (ed_sign (svc_crypto S) k m)"
    "ed_key_ok (svc_crypto S) (ed_public (svc_crypto S) k)" for k m
    using assms(1) by (auto simp: ed25519_correct_def)
  show "wp (handshake S mo mo' ctx i i' identity host username)
     (\<lambda>_ s'. username = acct_username account \<and> session_of account (id_device_id identity) s')
     (\<lambda>_ _. username \<noteq> acct_username account) s"
    using assms(2-9) assms(10)
    by (simp add: handshake_def handle_client_hello_def handle_device_auth_def wp_rules Let_def greeting_def
        answered_last challenge_of_def device_proof_def sign_auth_challenge_def registered_def session_of_def
        client_capabilities_valid verify_signature_def c mk_frame_def, cases "username = acct_username account",
        simp_all add: c)
qed

text \<open>A server with the account bob and his device, and signatures that sum up what they sign.\<close>

definition summing_crypto :: crypto where
  "summing_crypto = model_crypto\<lparr>ed_sign := \<lambda>k m. pad_to 64 (pad_to 32 k @ [sum_list m]),
     ed_verify_strict := \<lambda>p m s. s = pad_to 64 (p @ [sum_list m])\<rparr>"

definition bob_identity :: DeviceIdentity where
  "bob_identity = \<lparr>id_account_id = ''b'', id_device_id = sample_uuid CHR ''e'', id_device_name = ''phone'',
     id_master = None, id_auth = replicate 32 2\<rparr>"

definition bob_services :: services where
  "bob_services = sample_services\<lparr>svc_crypto := summing_crypto\<rparr>"

definition bob_account :: account_row where
  "bob_account = (sample_account ''b'')\<lparr>ar_username := ''bob''\<rparr>"

definition bob_world :: AppState where
  "bob_world = sample_world\<lparr>st_db := empty_database\<lparr>accounts := [bob_account],
     devices := [(sample_device (sample_uuid CHR ''e'') ''b'')\<lparr>dr_auth_signing_key := replicate 32 2\<rparr>]\<rparr>\<rparr>"

lemma summing_crypto_ok: "ed25519_correct summing_crypto"
  by (simp add: ed25519_correct_def summing_crypto_def model_crypto_def)

lemma pad_sum: "length p = 32 \<Longrightarrow> pad_to 64 (p @ [x]) = pad_to 64 (p @ [y]) \<longleftrightarrow> x = y"
  by (simp add: pad_to_def)

lemma bob_normalized: "normalize_username ''bob'' = ok ''bob''" "normalize_username ''Bob'' = ok ''bob''"
  by (simp_all add: normalize_username_def Let_def to_ascii_lowercase_def ascii_lower_char_def
      is_ascii_upper_def allowed_username_char_def is_ascii_lowercase_def is_ascii_digit_def char_of_def bit_simps)

lemma bob_state: "svc_crypto bob_services = summing_crypto" "st_domain bob_world = ''localhost''"
  "valid_uuid bob_services (id_device_id bob_identity)"
  "account_by_username ''bob'' (st_db bob_world) = Some (account_from_row bob_account)"
  "registered summing_crypto bob_identity (account_from_row bob_account) (st_db bob_world)"
  "cn_session fresh_conn = None" "ctx_token sample_ctx \<notin> set (st_closed bob_world)"
  "acct_username (account_from_row bob_account) = ''bob''"
  by (simp_all add: bob_services_def bob_world_def sample_world_def valid_uuid_def bob_identity_def sample_uuid_def
      sample_services_def account_by_username_def empty_database_def bob_account_def sample_account_def nocase_eq_def
      registered_def account_from_row_def device_def sample_device_def summing_crypto_def model_crypto_def pad_to_def
      fresh_conn_def sample_ctx_def)

lemma bob_spelling: "\<not> ed_verify_strict summing_crypto (ed_public summing_crypto (id_auth bob_identity))
    (auth_challenge_payload ''localhost'' ''bob'' d n t)
    (ed_sign summing_crypto (id_auth bob_identity) (auth_challenge_payload ''localhost'' ''Bob'' d n t))"
  by (simp add: summing_crypto_def model_crypto_def pad_sum auth_challenge_payload_def field_bytes_def as_bytes_def)

theorem registered_device_logs_in_witness:
  "fst (handshake bob_services sample_moment sample_moment sample_ctx ''1'' ''2'' bob_identity ''localhost'' ''bob''
      (bob_world, fresh_conn)) = ok ()
   \<and> fst (handshake bob_services sample_moment sample_moment sample_ctx ''1'' ''2'' bob_identity ''localhost'' ''Bob''
      (bob_world, fresh_conn)) \<noteq> ok ()"
proof -
  note login = registered_device_logs_in [where S = bob_services and s = "(bob_world, fresh_conn)" and host = "''localhost''"
      and mo = sample_moment and mo' = sample_moment and ctx = sample_ctx and identity = bob_identity and name = "''bob''"
      and account = "account_from_row bob_account" and i = "''1''" and i' = "''2''"]
  show ?thesis
    using login [of "''bob''"] login [of "''Bob''"]
    by (simp add: bob_state bob_normalized summing_crypto_ok bob_spelling)
qed

end
