(* ===== verification/Spec2Isabelle.thy ===== *)
theory Spec2Isabelle
  imports Protocol Crypto_Params Identity Pairing Vault Olm_Machine Db_Tables Db_Accounts Db_Mail
    Db_Invariants Db_Mail_Invariants Db_Storage Db_Delivery Db_Devices Config Credentials
    Ws_State Ws_Support Ws_Handlers Ws_Connection Ws_Logic Ws_Invariants Ws_Sample Ws_System Ws_Auth Ws_Limits
    Control Admin Admin_Records Admin_Properties Admin_Ui Server_Main
    Utf8 Local_Tables Local_Codec Local_Store Local_Invariants Local_System Local_Properties
    Local_Deletion Local_History Local_Migration Editor Editor_Logic Editor_Properties
    App_Types App_View App_State App_Notify App_Background App_Send App_Contacts App_Pairing App_Receive
    App_Input App_Loop App_Relation App_Respects App_Safety App_Properties App_Mail App_Sending App_Quarantine App_Expiry
    App_Mail_Properties Network Network_Properties Client_Login Client_Login_Properties Client_Run Client_Server
begin

text \<open>
  A verification library of tui-chat, an end-to-end encrypted chat for terminals: a relay server and a client,
  with two shared crates. The theories are translated from the Rust sources; they are executable definitions and
  theorems about them.

  \<^bold>\<open>The program.\<close> The server (\<open>crates/server\<close>) keeps accounts, devices, one-time keys and encrypted envelopes in
  SQLite (\<open>db.rs\<close>), talks to clients over WebSockets (\<open>ws.rs\<close>) and to its operator over a command line and a local
  socket (\<open>main.rs\<close>, \<open>admin.rs\<close>, \<open>control.rs\<close>, \<open>admin_ui.rs\<close>). The client (\<open>crates/client\<close>) has a local
  store (\<open>local.rs\<close>), a connection with an RPC client (\<open>network.rs\<close>), the log-in (\<open>main.rs\<close>), the application
  (\<open>app.rs\<close>) and a line editor (\<open>editor.rs\<close>). Both speak the protocol of \<open>crates/protocol\<close>; the client encrypts with
  \<open>crates/crypto\<close>. A text goes from the composer through \<open>send_text\<close>, the Olm machine and the outbox to
  \<open>store_envelopes\<close> on the server, and from \<open>sync\<close> there through \<open>handle_sync_batch\<close> into the local store of
  the recipient.

  \<^bold>\<open>Conventions.\<close> A struct is a record with a prefix on its fields, an enum is a datatype, \<open>Result\<close> is \<open>result\<close>
  (\<open>Inl\<close> the error), \<open>Option\<close> is \<open>option\<close>, a panic is \<open>None\<close> where it may happen. Machine integers are words where
  they wrap or saturate; SQLite integers and \<open>i64\<close> times are \<open>int\<close>. Strings are lists of bytes (UTF-8). A SQL
  table is the list of its rows, a statement a function on the record of tables; a transaction that stops
  early gives back the old tables. Third-party code is never given a definition: Ed25519, X25519, HKDF,
  ChaCha20-Poly1305, Argon2id and SHA-256 are the record \<open>crypto\<close>, the Olm ratchet is \<open>olm\<close>, codecs and
  serialisers are fields of \<open>env\<close>, \<open>local_packages\<close> or \<open>services\<close>, clocks and random values are arguments.
  What a theorem needs of them is one of the predicates \<open>ed25519_correct\<close>, \<open>x25519_commutes\<close>,
  \<open>aead_correct\<close>, \<open>packages_ok\<close>; the witnesses instantiate them with the concrete packages \<open>model_crypto\<close>,
  \<open>toy_olm\<close> and \<open>sample_packages\<close>.

  \<^bold>\<open>Shared parts.\<close> \<open>Rust_Prelude\<close>: results, strings, integers, lists of rows. \<open>Utf8\<close>: valid strings and where they may
  be cut. \<open>Crypto_Params\<close>: the cryptographic packages. \<open>Protocol\<close> (\<open>protocol/src/lib.rs\<close>, \<open>chat.proto\<close>): the
  messages, frames, conversation identifier and signed payloads. \<open>Identity\<close>, \<open>Pairing\<close>, \<open>Vault\<close>, \<open>Olm_Machine\<close>
  (\<open>crypto/src\<close>): keys and certificates, the pairing exchange, encryption at rest, sessions. Shown there: equal
  signed bytes mean equal statements of the same kind, what a device signs is accepted, both ends of a
  pairing agree on the authentication string and the channel, files and blobs read back as they were, and no
  device has more than five sessions.

  \<^bold>\<open>Server.\<close> \<open>Db_Tables\<close>, \<open>Db_Accounts\<close>, \<open>Db_Mail\<close> are the tables and every statement of \<open>db.rs\<close>; \<open>Db_Invariants\<close> and
  \<open>Db_Mail_Invariants\<close> keep the invariant \<open>db_ok\<close> (unique keys, increasing cursors, references, a ledger of bytes
  that agrees with the envelopes); \<open>Db_Storage\<close>, \<open>Db_Delivery\<close> and \<open>Db_Devices\<close> show the quotas, delivery to
  every active recipient, that paging through a mailbox is complete, retention, and the life of devices and
  one-time keys. \<open>Config\<close> and \<open>Credentials\<close> are \<open>config.rs\<close> and the password part of \<open>admin.rs\<close>. \<open>Ws_State\<close> holds the
  shared state of \<open>ws.rs\<close> (\<open>AppState\<close>), \<open>Ws_Support\<close> and \<open>Ws_Handlers\<close> the frame handlers, \<open>Ws_Connection\<close> the upgrade
  and the loop of a connection and, as \<open>sys_step\<close>, the interleaving of any number of connections with failing
  upgrades, dying writers, maintenance and kicks. \<open>Ws_Logic\<close> is a weakest-precondition calculus for handlers;
  \<open>Ws_Invariants\<close>, \<open>Ws_System\<close>, \<open>Ws_Auth\<close> and \<open>Ws_Limits\<close> show with it what holds in every reachable state
  (admission counters, \<open>db_ok\<close>), who may do what, and what the token buckets let pass. \<open>Control\<close>, \<open>Admin\<close>,
  \<open>Admin_Records\<close>, \<open>Admin_Ui\<close> and \<open>Server_Main\<close> are the administration: socket, commands, terminal, command line.
  \<open>Admin_Properties\<close> shows that deleting an account never fails on a foreign key and leaves of it only the audit
  log, that the storage clean-up ends and is exact, and that pruning removes exactly what its preview counts.

  \<^bold>\<open>Client.\<close> \<open>Local_Tables\<close>, \<open>Local_Codec\<close>, \<open>Local_Store\<close> are \<open>local.rs\<close>; \<open>Local_System\<close> is the store as a transition
  system whose steps are its operations with any arguments (\<open>local_step\<close>); \<open>Local_Invariants\<close>, \<open>Local_Properties\<close>,
  \<open>Local_Deletion\<close>, \<open>Local_History\<close> and \<open>Local_Migration\<close> show its properties: exact counters, statuses that only
  advance, deletions that converge (in their times always, in every
  field when no two of a conversation have the same time), complete history, a migration that ends. \<open>Editor\<close> is \<open>editor.rs\<close> with slices
  that may panic; \<open>Editor_Logic\<close> and \<open>Editor_Properties\<close> refine it to an editor of two strings. \<open>App_Types\<close> to
  \<open>App_Loop\<close> are \<open>app.rs\<close>: \<open>App_View\<close> measures text, \<open>App_State\<close> is the struct \<open>App\<close> with the actions that
  handlers are made of, and \<open>App_Notify\<close>, \<open>App_Background\<close>, \<open>App_Send\<close>, \<open>App_Contacts\<close>, \<open>App_Pairing\<close>, \<open>App_Receive\<close>,
  \<open>App_Input\<close> have the handlers. A run (\<open>app_run\<close>) is any sequence of terminal events, server events, timer
  ticks and reconnections, with whatever the record \<open>outside\<close> answers. \<open>App_Relation\<close> and \<open>App_Respects\<close> show once,
  in locales, that every handler respects a relation between states if the few steps that change the world
  do; \<open>App_Safety\<close> interprets them for durability, moves of the store, bookkeeping and trust;
  \<open>App_Mail\<close>, \<open>App_Sending\<close>, \<open>App_Quarantine\<close> and \<open>App_Expiry\<close> treat mail; \<open>App_Properties\<close> and
  \<open>App_Mail_Properties\<close> state the results. \<open>Network\<close> is \<open>network.rs\<close>, its RPC client as the step relation \<open>net_step\<close> of
  callers, writer and reader over bounded channels; \<open>Network_Properties\<close> shows that answers reach their call,
  that every call can return, and what a connection is dialled to: the socket and TLS are the argument \<open>dial\<close>, of
  which \<open>tls_dialler\<close> says that over TLS it connects only to a certificate that the verifier of \<open>pinned_connector\<close>
  accepts. \<open>Client_Login\<close> is \<open>main.rs\<close> of the client and the handshake of a reconnection; \<open>Client_Login_Properties\<close>
  shows that a device with a profile accepts only answers for its account and what it sends to whom.

  \<^bold>\<open>Components together.\<close> \<open>Client_Run\<close> runs \<open>main\<close>, the store and the application one after the other:
  after any run a later start finds the ratchets that were in memory.
  \<open>Client_Server\<close> joins the client's proof of a device with the server's handlers. \<open>Server_Main\<close> joins the commands
  with the access check of the connection loop, \<open>Admin_Ui\<close> the terminal with the dispatch of requests.

  \<^bold>\<open>Interfaces.\<close> The locales \<open>app_relation\<close>, \<open>receive_relation\<close>, \<open>server_relation\<close>, \<open>user_relation\<close>, \<open>open_relation\<close>,
  \<open>import_relation\<close>, \<open>full_relation\<close> (what a relation over the application needs to be kept by groups of
  handlers), \<open>step_relation\<close> (the same for the steps of one action, used for what sending and shelving mail may do),
  \<open>login_relation\<close> (the same for log-ins), \<open>replica\<close> (updates that may come in any order), \<open>segmentation\<close> (what the editor needs of graphemes and
  words) and those of the prefix codes, the mail ledger and the paging are each interpreted on the model.

  \<^bold>\<open>Bounds and termination.\<close> No definition has fuel. Loops are structural or have a measure: the clean-up of the storage
  ends because every full batch removes rows, the migration because it is one pass over the list it has read.
  The event loop, the connections and the RPC client are step relations, so that theorems hold for runs of
  any length; that a call returns or a page is complete is stated as reachability.

  \<^bold>\<open>What the proofs showed.\<close> Most of the code does what it means to do. Lemmas that show the opposite are
  \<open>foreign_bundle_accepted\<close> and \<open>sync_can_stay_blocked\<close>: a server may answer the look-up of the own name with
  another account, whose mail then counts as mail of an own device, and an answer of the wrong kind stops
  synchronisation until the next reconnection. \<open>Client_Server\<close> shows that a device whose user typed upper case letters in his
  name cannot log in.

  \<^bold>\<open>Not modelled.\<close> Drawing and layout (the areas that the mouse needs are arguments), the status line of the
  application, the terminal session, the data of the emoji catalogue; opening database files and their permissions; \<open>serve\<close> of
  the server (sockets, routes and tasks around modelled operations), parsing of the command lines, logging;
  TLS and the socket itself. A frame handler of the server and an event of the client are one step each, though at
  an \<open>await\<close> another connection may run: between the statements of one handler the model sees no
  interleaving, only between handlers. What cryptography guarantees against an attacker is not a theorem here.
\<close>

end
